(* ===== verification/Prelude.thy ===== *)
theory Prelude
  imports Main "HOL-Library.AList" "HOL-Library.Char_ord" "HOL-Library.List_Lexorder"
    "HOL-Library.Option_ord" "HOL-Library.Product_Lexorder" "HOL-Library.Multiset"
begin

text \<open>
  Generic material shared by every component of the development:
  \<^item> a state-and-error computation type for the Rust functions that return \<open>Result\<close> and mutate
    their receiver: an early return by \<open>?\<close> keeps the mutations made before it;
  \<^item> preservation rules for such computations, for state predicates (\<open>keeps\<close>) and for
    reflexive and transitive relations between the state before and after (\<open>advances\<close>);
  \<^item> association lists in the role of \<open>HashMap\<close>, stable sorting in the role of \<open>sort_by\<close>, and
    the list idioms \<open>retain\<close>, find-or-push and sorted sets.
\<close>

section \<open>Theorem collections\<close>

named_theorems run_simps \<open>equations that run a computation step by step\<close>
named_theorems keeps_rules \<open>rules that show a computation preserves a state predicate\<close>
named_theorems advances_rules \<open>rules that show a computation only moves along a relation\<close>

section \<open>Computations with state and errors\<close>

type_synonym ('e, 's, 'a) run = "'s \<Rightarrow> ('e + 'a) \<times> 's"

definition ret :: "'a \<Rightarrow> ('e, 's, 'a) run" where
  "ret a s = (Inr a, s)"

definition fail :: "'e \<Rightarrow> ('e, 's, 'a) run" where
  "fail e s = (Inl e, s)"

definition bindR :: "('e, 's, 'a) run \<Rightarrow> ('a \<Rightarrow> ('e, 's, 'b) run) \<Rightarrow> ('e, 's, 'b) run" where
  "bindR m f s = (case m s of (Inl e, s') \<Rightarrow> (Inl e, s') | (Inr a, s') \<Rightarrow> f a s')"

definition asks :: "('s \<Rightarrow> 'a) \<Rightarrow> ('e, 's, 'a) run" where
  "asks f s = (Inr (f s), s)"

definition modify :: "('s \<Rightarrow> 's) \<Rightarrow> ('e, 's, unit) run" where
  "modify f s = (Inr (), f s)"

definition ok_or :: "'e \<Rightarrow> 'a option \<Rightarrow> ('e, 's, 'a) run" where
  "ok_or e x = (case x of None \<Rightarrow> fail e | Some a \<Rightarrow> ret a)"

definition guard :: "'e \<Rightarrow> bool \<Rightarrow> ('e, 's, unit) run" where
  "guard e b = (if b then ret () else fail e)"

definition from_result :: "'e + 'a \<Rightarrow> ('e, 's, 'a) run" where
  "from_result r = (case r of Inl e \<Rightarrow> fail e | Inr a \<Rightarrow> ret a)"

text \<open>\<open>Result::map\<close>.\<close>

fun map_ok :: "('a \<Rightarrow> 'b) \<Rightarrow> 'e + 'a \<Rightarrow> 'e + 'b" where
  "map_ok f (Inl e) = Inl e"
| "map_ok f (Inr a) = Inr (f a)"

text \<open>A \<open>for\<close> loop whose body can return early, collecting one value per element.\<close>

fun collectR :: "('a \<Rightarrow> ('e, 's, 'b) run) \<Rightarrow> 'a list \<Rightarrow> ('e, 's, 'b list) run" where
  "collectR f [] = ret []"
| "collectR f (x # xs) = bindR (f x) (\<lambda>y. bindR (collectR f xs) (\<lambda>ys. ret (y # ys)))"

lemma ret_run [run_simps]: "ret a s = (Inr a, s)"
  by (simp add: ret_def)

lemma fail_run [run_simps]: "fail e s = (Inl e, s)"
  by (simp add: fail_def)

lemma asks_run [run_simps]: "asks f s = (Inr (f s), s)"
  by (simp add: asks_def)

lemma modify_run [run_simps]: "modify f s = (Inr (), f s)"
  by (simp add: modify_def)

lemma ok_or_run [run_simps]:
  "ok_or e None s = (Inl e, s)" "ok_or e (Some a) s = (Inr a, s)"
  by (simp_all add: ok_or_def run_simps)

lemma guard_run [run_simps]:
  "guard e True s = (Inr (), s)" "guard e False s = (Inl e, s)"
  by (simp_all add: guard_def run_simps)

lemma bindR_run [run_simps]:
  "bindR m f s = (case fst (m s) of Inl e \<Rightarrow> (Inl e, snd (m s)) | Inr a \<Rightarrow> f a (snd (m s)))"
  by (simp add: bindR_def split_beta)

lemma bindR_step: "m s = (Inr a, s') \<Longrightarrow> bindR m f s = f a s'"
  by (simp add: bindR_run)

lemma bindR_Inr_iff:
  "bindR m f s = (Inr b, t) \<longleftrightarrow> (\<exists>a s'. m s = (Inr a, s') \<and> f a s' = (Inr b, t))"
  by (auto simp: bindR_def split: prod.splits sum.splits)

lemma bindR_assoc: "bindR (bindR m f) g = bindR m (\<lambda>a. bindR (f a) g)"
  by (rule ext) (simp add: bindR_run split: sum.splits)

lemma bindR_ret_left: "bindR (ret a) f = f a"
  by (rule ext) (simp add: run_simps)

lemma bindR_ret_right: "bindR m ret = m"
  by (rule ext) (auto simp: bindR_def ret_def split: prod.splits sum.splits)

lemma ok_or_Inr_iff: "ok_or e x s = (Inr a, t) \<longleftrightarrow> x = Some a \<and> t = s"
  by (cases x) (auto simp: run_simps)

lemma guard_Inr_iff: "guard e b s = (Inr u, t) \<longleftrightarrow> b \<and> t = s"
  by (cases b) (auto simp: run_simps)

lemma ret_Inr_iff: "ret a s = (Inr b, t) \<longleftrightarrow> b = a \<and> t = s"
  by (auto simp: run_simps)

lemma fail_Inr_iff: "fail e s = (Inr b, t) \<longleftrightarrow> False"
  by (auto simp: run_simps)

lemma asks_Inr_iff: "asks f s = (Inr b, t) \<longleftrightarrow> b = f s \<and> t = s"
  by (auto simp: run_simps)

lemma modify_Inr_iff: "modify f s = (Inr u, t) \<longleftrightarrow> t = f s"
  by (auto simp: run_simps)

lemmas success_iffs = bindR_Inr_iff ok_or_Inr_iff guard_Inr_iff ret_Inr_iff fail_Inr_iff
  asks_Inr_iff modify_Inr_iff

lemma length_collectR: "collectR f xs s = (Inr ys, t) \<Longrightarrow> length ys = length xs"
  by (induction xs arbitrary: s ys t) (auto simp: success_iffs)

section \<open>Preservation\<close>

definition keeps :: "('s \<Rightarrow> bool) \<Rightarrow> ('e, 's, 'a) run \<Rightarrow> bool" where
  "keeps I m \<longleftrightarrow> (\<forall>s. I s \<longrightarrow> I (snd (m s)))"

lemma keepsI: "(\<And>s. I s \<Longrightarrow> I (snd (m s))) \<Longrightarrow> keeps I m"
  by (simp add: keeps_def)

lemma keepsD: "keeps I m \<Longrightarrow> I s \<Longrightarrow> I (snd (m s))"
  by (simp add: keeps_def)

lemma keeps_ret [keeps_rules]: "keeps I (ret a)"
  by (simp add: keeps_def run_simps)

lemma keeps_fail [keeps_rules]: "keeps I (fail e)"
  by (simp add: keeps_def run_simps)

lemma keeps_asks [keeps_rules]: "keeps I (asks f)"
  by (simp add: keeps_def run_simps)

lemma keeps_ok_or [keeps_rules]: "keeps I (ok_or e x)"
  by (cases x) (simp_all add: keeps_def run_simps)

lemma keeps_guard [keeps_rules]: "keeps I (guard e b)"
  by (cases b) (simp_all add: keeps_def run_simps)

lemma keeps_modify: "(\<And>s. I s \<Longrightarrow> I (f s)) \<Longrightarrow> keeps I (modify f)"
  by (simp add: keeps_def run_simps)

lemma keeps_bindR [keeps_rules]:
  assumes "keeps I m" and "\<And>a. keeps I (f a)"
  shows "keeps I (bindR m f)"
  using assms by (auto simp: keeps_def bindR_run split: sum.splits)

lemma keeps_if [keeps_rules]:
  "(b \<Longrightarrow> keeps I m) \<Longrightarrow> (\<not> b \<Longrightarrow> keeps I n) \<Longrightarrow> keeps I (if b then m else n)"
  by simp

lemma keeps_case_option [keeps_rules]:
  "keeps I m \<Longrightarrow> (\<And>a. keeps I (f a)) \<Longrightarrow> keeps I (case x of None \<Rightarrow> m | Some a \<Rightarrow> f a)"
  by (cases x) simp_all

lemma keeps_collectR [keeps_rules]:
  "(\<And>x. keeps I (f x)) \<Longrightarrow> keeps I (collectR f xs)"
  by (induction xs) (auto intro: keeps_rules)

text \<open>
  Relations between the state before and after: any reflexive and transitive relation (a log
  that only grows, a set of files that only gets larger) is carried through sequencing.
\<close>

definition advances :: "('s \<Rightarrow> 's \<Rightarrow> bool) \<Rightarrow> ('e, 's, 'a) run \<Rightarrow> bool" where
  "advances R m \<longleftrightarrow> (\<forall>s. R s (snd (m s)))"

lemma advances_case_prod: "(\<And>a b. advances R (f a b)) \<Longrightarrow> advances R (case p of (a, b) \<Rightarrow> f a b)"
  by (cases p) simp

lemma advances_case_sum:
  "(\<And>e. advances R (f e)) \<Longrightarrow> (\<And>a. advances R (g a)) \<Longrightarrow>
   advances R (case x of Inl e \<Rightarrow> f e | Inr a \<Rightarrow> g a)"
  by (cases x) simp_all

locale progress_order =
  fixes R :: "'s \<Rightarrow> 's \<Rightarrow> bool"
  assumes R_refl: "R s s"
    and R_trans: "R s t \<Longrightarrow> R t u \<Longrightarrow> R s u"
begin

lemma advances_ret: "advances R (ret a)"
  by (simp add: advances_def run_simps R_refl)

lemma advances_fail: "advances R (fail e)"
  by (simp add: advances_def run_simps R_refl)

lemma advances_asks: "advances R (asks f)"
  by (simp add: advances_def run_simps R_refl)

lemma advances_ok_or: "advances R (ok_or e x)"
  by (cases x) (simp_all add: advances_def run_simps R_refl)

lemma advances_guard: "advances R (guard e b)"
  by (cases b) (simp_all add: advances_def run_simps R_refl)

lemma advances_from_result: "advances R (from_result r)"
  by (cases r) (simp_all add: advances_def from_result_def run_simps R_refl)

lemma advances_modify: "(\<And>s. R s (f s)) \<Longrightarrow> advances R (modify f)"
  by (simp add: advances_def run_simps)

lemma advances_bindR:
  assumes "advances R m" and "\<And>a. advances R (f a)"
  shows "advances R (bindR m f)"
  unfolding advances_def
proof
  fix s
  have first: "R s (snd (m s))" using assms(1) by (simp add: advances_def)
  show "R s (snd (bindR m f s))"
  proof (cases "fst (m s)")
    case (Inl e)
    then show ?thesis using first by (simp add: bindR_run)
  next
    case (Inr a)
    have "R (snd (m s)) (snd (f a (snd (m s))))"
      using assms(2) by (simp add: advances_def)
    then show ?thesis using first R_trans Inr by (fastforce simp: bindR_run)
  qed
qed

lemma advances_if:
  "(b \<Longrightarrow> advances R m) \<Longrightarrow> (\<not> b \<Longrightarrow> advances R n) \<Longrightarrow> advances R (if b then m else n)"
  by simp

lemma advances_case_option:
  "advances R m \<Longrightarrow> (\<And>a. advances R (f a)) \<Longrightarrow>
   advances R (case x of None \<Rightarrow> m | Some a \<Rightarrow> f a)"
  by (cases x) simp_all

lemma advances_collectR: "(\<And>x. advances R (f x)) \<Longrightarrow> advances R (collectR f xs)"
  by (induction xs) (auto intro: advances_ret advances_bindR)

lemmas advances_intros = advances_ret advances_fail advances_asks advances_ok_or
  advances_guard advances_from_result advances_bindR advances_if advances_case_option advances_collectR

end

section \<open>Hash maps as association lists\<close>

text \<open>
  A \<open>HashMap\<close> is an association list with distinct keys; its order plays the role of the
  unspecified iteration order, so no theorem about a map may depend on it.
\<close>

type_synonym ('k, 'v) dict = "('k \<times> 'v) list"

definition wf_dict :: "('k, 'v) dict \<Rightarrow> bool" where
  "wf_dict d \<longleftrightarrow> distinct (map fst d)"

definition dict_values :: "('k, 'v) dict \<Rightarrow> 'v list" where
  "dict_values d = map snd d"

lemma wf_dict_Nil [simp]: "wf_dict []"
  by (simp add: wf_dict_def)

lemma wf_dict_update [simp]: "wf_dict d \<Longrightarrow> wf_dict (AList.update k v d)"
  by (simp add: wf_dict_def distinct_update)

lemma wf_dict_delete [simp]: "wf_dict d \<Longrightarrow> wf_dict (AList.delete k d)"
  by (simp add: wf_dict_def distinct_delete)

lemma map_of_update [simp]: "map_of (AList.update k v d) = (map_of d)(k \<mapsto> v)"
  by (rule ext) (simp add: update_conv)

lemma map_of_delete [simp]: "map_of (AList.delete k d) = (map_of d)(k := None)"
  by (rule ext) (simp add: delete_conv)

lemma dict_values_iff: "wf_dict d \<Longrightarrow> v \<in> set (dict_values d) \<longleftrightarrow> (\<exists>k. map_of d k = Some v)"
  by (force simp: wf_dict_def dict_values_def dest: map_of_SomeD)

lemma keys_update: "fst ` set (AList.update k v d) = insert k (fst ` set d)"
  by (simp add: update_keys dom_map_of_conv_image_fst [symmetric] update_conv')

section \<open>Stable sorting by a comparison\<close>

text \<open>\<open>slice::sort_by\<close> is a stable sort: elements that compare equal keep their order.\<close>

fun insert_by :: "('a \<Rightarrow> 'a \<Rightarrow> bool) \<Rightarrow> 'a \<Rightarrow> 'a list \<Rightarrow> 'a list" where
  "insert_by le x [] = [x]"
| "insert_by le x (y # ys) = (if le x y then x # y # ys else y # insert_by le x ys)"

fun sort_by :: "('a \<Rightarrow> 'a \<Rightarrow> bool) \<Rightarrow> 'a list \<Rightarrow> 'a list" where
  "sort_by le [] = []"
| "sort_by le (x # xs) = insert_by le x (sort_by le xs)"

lemma mset_insert_by [simp]: "mset (insert_by le x ys) = add_mset x (mset ys)"
  by (induction ys) auto

lemma mset_sort_by [simp]: "mset (sort_by le xs) = mset xs"
  by (induction xs) auto

lemma set_sort_by [simp]: "set (sort_by le xs) = set xs"
  by (metis mset_sort_by set_mset_mset)

lemma length_sort_by [simp]: "length (sort_by le xs) = length xs"
  by (metis mset_sort_by size_mset)

lemma set_insert_by [simp]: "set (insert_by le x ys) = insert x (set ys)"
  by (induction ys) auto

lemma distinct_map_sort_by [simp]: "distinct (map f (sort_by le xs)) = distinct (map f xs)"
  by (metis mset_map mset_sort_by mset_eq_imp_distinct_iff)

locale total_preorder =
  fixes le :: "'a \<Rightarrow> 'a \<Rightarrow> bool"
  assumes le_total: "le x y \<or> le y x"
    and le_trans: "le x y \<Longrightarrow> le y z \<Longrightarrow> le x z"
begin

lemma sorted_insert_by: "sorted_wrt le ys \<Longrightarrow> sorted_wrt le (insert_by le x ys)"
proof (induction ys)
  case Nil
  then show ?case by simp
next
  case (Cons y ys)
  then show ?case
    using le_total le_trans by (auto split: if_splits)
qed

lemma sorted_sort_by: "sorted_wrt le (sort_by le xs)"
  by (induction xs) (auto intro: sorted_insert_by)

lemma insert_by_sorted: "sorted_wrt le (x # ys) \<Longrightarrow> insert_by le x ys = x # ys"
  by (cases ys) auto

lemma sort_by_sorted: "sorted_wrt le xs \<Longrightarrow> sort_by le xs = xs"
  by (induction xs) (auto simp: insert_by_sorted)

end

definition le_on :: "('a \<Rightarrow> 'b::linorder) \<Rightarrow> 'a \<Rightarrow> 'a \<Rightarrow> bool" where
  "le_on f x y \<longleftrightarrow> f x \<le> f y"

definition ge_on :: "('a \<Rightarrow> 'b::linorder) \<Rightarrow> 'a \<Rightarrow> 'a \<Rightarrow> bool" where
  "ge_on f x y \<longleftrightarrow> f y \<le> f x"

text \<open>\<open>left.cmp(right).then_with(..)\<close>: the second order decides where the first one ties.\<close>

definition then_with :: "('a \<Rightarrow> 'a \<Rightarrow> bool) \<Rightarrow> ('a \<Rightarrow> 'a \<Rightarrow> bool) \<Rightarrow> 'a \<Rightarrow> 'a \<Rightarrow> bool" where
  "then_with le1 le2 x y \<longleftrightarrow> le1 x y \<and> (le1 y x \<longrightarrow> le2 x y)"

interpretation asc: total_preorder "le_on f" for f :: "'a \<Rightarrow> 'b::linorder"
  by unfold_locales (auto simp: le_on_def)

interpretation desc: total_preorder "ge_on f" for f :: "'a \<Rightarrow> 'b::linorder"
  by unfold_locales (auto simp: ge_on_def)

lemma total_preorder_then_with:
  assumes "total_preorder le1" and "total_preorder le2"
  shows "total_preorder (then_with le1 le2)"
proof
  note t1 = total_preorder.le_total [OF assms(1)] and t2 = total_preorder.le_total [OF assms(2)]
  show "then_with le1 le2 x y \<or> then_with le1 le2 y x" for x y
    using t1 [of x y] t2 [of x y] by (auto simp: then_with_def)
  show "then_with le1 le2 x z" if "then_with le1 le2 x y" and "then_with le1 le2 y z" for x y z
    using that total_preorder.le_trans [OF assms(1)] total_preorder.le_trans [OF assms(2)]
    unfolding then_with_def by blast
qed

interpretation desc_then_asc: total_preorder "then_with (ge_on f) (le_on g)"
  for f :: "'a \<Rightarrow> 'b::linorder" and g :: "'a \<Rightarrow> 'c::linorder"
  by (rule total_preorder_then_with) unfold_locales

interpretation asc_then_desc: total_preorder "then_with (le_on f) (ge_on g)"
  for f :: "'a \<Rightarrow> 'b::linorder" and g :: "'a \<Rightarrow> 'c::linorder"
  by (rule total_preorder_then_with) unfold_locales

interpretation desc_then_desc: total_preorder "then_with (ge_on f) (ge_on g)"
  for f :: "'a \<Rightarrow> 'b::linorder" and g :: "'a \<Rightarrow> 'c::linorder"
  by (rule total_preorder_then_with) unfold_locales

section \<open>List idioms of the source\<close>

text \<open>\<open>iter_mut().find(p)\<close> followed by an update of the element found: only the first match.\<close>

fun update_first :: "('a \<Rightarrow> bool) \<Rightarrow> ('a \<Rightarrow> 'a) \<Rightarrow> 'a list \<Rightarrow> 'a list" where
  "update_first p f [] = []"
| "update_first p f (x # xs) = (if p x then f x # xs else x # update_first p f xs)"

lemma length_update_first [simp]: "length (update_first p f xs) = length xs"
  by (induction xs) auto

lemma update_first_id: "\<not> (\<exists>x \<in> set xs. p x) \<Longrightarrow> update_first p f xs = xs"
  by (induction xs) auto

lemma update_first_split:
  "find p xs = Some x \<Longrightarrow>
   \<exists>ys zs. xs = ys @ x # zs \<and> (\<forall>y \<in> set ys. \<not> p y) \<and> p x
     \<and> update_first p f xs = ys @ f x # zs"
proof (induction xs)
  case Nil
  then show ?case by simp
next
  case (Cons a xs)
  show ?case
  proof (cases "p a")
    case True
    with Cons.prems show ?thesis by (auto intro: exI [of _ "[]"])
  next
    case False
    with Cons obtain ys zs where split: "xs = ys @ x # zs" "\<forall>y \<in> set ys. \<not> p y" "p x"
      "update_first p f xs = ys @ f x # zs"
      by auto
    show ?thesis
      by (rule exI [of _ "a # ys"], rule exI [of _ zs]) (use split False in auto)
  qed
qed

lemma map_update_first_same:
  "(\<And>x. x \<in> set xs \<Longrightarrow> p x \<Longrightarrow> g (f x) = g x) \<Longrightarrow> map g (update_first p f xs) = map g xs"
  by (induction xs) auto

lemma find_None_iff_ex: "find p xs = None \<longleftrightarrow> (\<forall>x \<in> set xs. \<not> p x)"
  by (auto simp: find_None_iff)

lemma find_SomeD: "find p xs = Some x \<Longrightarrow> x \<in> set xs \<and> p x"
  by (auto simp: find_Some_iff)

text \<open>
  Find an element with the same key and replace it, or push the new one: the idiom of every
  keyed list the runtime persists.
\<close>

definition upsert_by :: "('a \<Rightarrow> 'k) \<Rightarrow> 'a \<Rightarrow> 'a list \<Rightarrow> 'a list" where
  "upsert_by key x xs =
     (if \<exists>y \<in> set xs. key y = key x then update_first (\<lambda>y. key y = key x) (\<lambda>_. x) xs
      else xs @ [x])"

text \<open>\<open>retain\<close> on a keyed list: drop every element with the key.\<close>

definition remove_by :: "('a \<Rightarrow> 'k) \<Rightarrow> 'k \<Rightarrow> 'a list \<Rightarrow> 'a list" where
  "remove_by key k xs = filter (\<lambda>y. key y \<noteq> k) xs"

lemma map_key_upsert_by:
  "map key (upsert_by key x xs) = (if key x \<in> key ` set xs then map key xs else map key xs @ [key x])"
proof (cases "key x \<in> key ` set xs")
  case True
  then have "\<exists>y \<in> set xs. key y = key x" by force
  moreover have "map key (update_first (\<lambda>y. key y = key x) (\<lambda>_. x) xs) = map key xs"
    by (rule map_update_first_same) simp
  ultimately show ?thesis using True by (simp add: upsert_by_def)
next
  case False
  then have "\<not> (\<exists>y \<in> set xs. key y = key x)" by (metis image_eqI)
  with False show ?thesis by (simp add: upsert_by_def)
qed

lemma distinct_upsert_by:
  "distinct (map key xs) \<Longrightarrow> distinct (map key (upsert_by key x xs))"
  by (auto simp: map_key_upsert_by)

lemma set_update_first_keyed:
  assumes "distinct (map key xs)" and "\<exists>y \<in> set xs. key y = key x"
  shows "set (update_first (\<lambda>y. key y = key x) (\<lambda>_. x) xs) = insert x {y \<in> set xs. key y \<noteq> key x}"
  using assms
proof (induction xs)
  case Nil
  then show ?case by simp
next
  case (Cons a xs)
  show ?case
  proof (cases "key a = key x")
    case True
    with Cons.prems(1) have "\<forall>y \<in> set xs. key y \<noteq> key x" by (metis distinct.simps(2) image_eqI list.set_map list.simps(9))
    with True show ?thesis by auto
  next
    case False
    with Cons show ?thesis by auto
  qed
qed

lemma set_upsert_by:
  assumes "distinct (map key xs)"
  shows "set (upsert_by key x xs) = insert x {y \<in> set xs. key y \<noteq> key x}"
  using set_update_first_keyed [OF assms, of x] by (auto simp: upsert_by_def)

lemma set_remove_by [simp]: "set (remove_by key k xs) = {y \<in> set xs. key y \<noteq> k}"
  by (auto simp: remove_by_def)

lemma distinct_remove_by: "distinct (map key xs) \<Longrightarrow> distinct (map key (remove_by key k xs))"
  by (simp add: remove_by_def distinct_map_filter)

lemma length_remove_by_less:
  "length (remove_by key k xs) = length xs \<longleftrightarrow> k \<notin> key ` set xs"
proof
  assume "length (remove_by key k xs) = length xs"
  then have "filter (\<lambda>y. key y \<noteq> k) xs = xs"
    by (metis remove_by_def length_filter_less less_irrefl filter_True)
  then show "k \<notin> key ` set xs" by (metis (mono_tags, lifting) filter_id_conv image_iff)
next
  assume "k \<notin> key ` set xs"
  then show "length (remove_by key k xs) = length xs"
    by (force simp: remove_by_def intro!: arg_cong [where f = length] filter_True)
qed

text \<open>\<open>BTreeSet\<close> built from a list: the sorted list of its distinct elements.\<close>

definition btree_set :: "'a::linorder list \<Rightarrow> 'a list" where
  "btree_set xs = sort (remdups xs)"

lemma btree_set_props [simp]:
  "set (btree_set xs) = set xs" "distinct (btree_set xs)" "sorted (btree_set xs)"
  by (simp_all add: btree_set_def)

lemma btree_set_id: "sorted xs \<Longrightarrow> distinct xs \<Longrightarrow> btree_set xs = xs"
  by (simp add: btree_set_def distinct_remdups_id sort_key_id_if_sorted)

text \<open>\<open>Option::filter\<close>.\<close>

definition opt_filter :: "('a \<Rightarrow> bool) \<Rightarrow> 'a option \<Rightarrow> 'a option" where
  "opt_filter p x = (case x of None \<Rightarrow> None | Some a \<Rightarrow> if p a then Some a else None)"

definition opt_or :: "'a option \<Rightarrow> 'a option \<Rightarrow> 'a option" where
  "opt_or x y = (case x of None \<Rightarrow> y | Some a \<Rightarrow> Some a)"

definition unwrap_or :: "'a \<Rightarrow> 'a option \<Rightarrow> 'a" where
  "unwrap_or d x = (case x of None \<Rightarrow> d | Some a \<Rightarrow> a)"

definition truncate_opt :: "nat option \<Rightarrow> 'a list \<Rightarrow> 'a list" where
  "truncate_opt n xs = (case n of None \<Rightarrow> xs | Some k \<Rightarrow> take k xs)"

lemma opt_simps [simp]:
  "opt_filter p None = None" "opt_filter p (Some a) = (if p a then Some a else None)"
  "opt_or None y = y" "opt_or (Some a) y = Some a"
  "unwrap_or d None = d" "unwrap_or d (Some a) = a"
  "truncate_opt None xs = xs" "truncate_opt (Some k) xs = take k xs"
  by (simp_all add: opt_filter_def opt_or_def unwrap_or_def truncate_opt_def)

lemma set_truncate_opt: "set (truncate_opt n xs) \<subseteq> set xs"
  by (cases n) (auto dest: in_set_takeD)

lemma sorted_wrt_truncate_opt: "sorted_wrt P xs \<Longrightarrow> sorted_wrt P (truncate_opt n xs)"
  by (cases n) (auto simp: sorted_wrt_take)

lemma length_truncate_opt: "n = Some k \<Longrightarrow> length (truncate_opt n xs) \<le> k"
  by simp

end
