(* ===== verification/Text_Utils.thy ===== *)
theory Text_Utils
  imports Prelude
begin

text \<open>
  The string operations of Rust's standard library that the code uses, over \<open>string\<close> (lists of
  characters in the ASCII range, where \<open>trim\<close>, \<open>is_alphanumeric\<close>, \<open>len\<close> and the ASCII case maps
  are exactly the functions below), and the number formats of identifiers and timestamps.
  The lemmas give substring search its declarative meaning, show what trimming and replacing
  leave, and show that decimal and hexadecimal rendering are injective.
\<close>

section \<open>Character classes\<close>

definition is_ws :: "char \<Rightarrow> bool" where
  "is_ws c \<longleftrightarrow> c = CHR '' '' \<or> (let n = of_char c :: nat in 9 \<le> n \<and> n \<le> 13)"

definition is_upper :: "char \<Rightarrow> bool" where
  "is_upper c \<longleftrightarrow> (let n = of_char c :: nat in 65 \<le> n \<and> n \<le> 90)"

definition is_alnum :: "char \<Rightarrow> bool" where
  "is_alnum c \<longleftrightarrow>
     (let n = of_char c :: nat in 48 \<le> n \<and> n \<le> 57 \<or> 65 \<le> n \<and> n \<le> 90 \<or> 97 \<le> n \<and> n \<le> 122)"

definition to_lower_char :: "char \<Rightarrow> char" where
  "to_lower_char c = (if is_upper c then char_of (of_char c + 32 :: nat) else c)"

definition to_lower :: "string \<Rightarrow> string" where
  "to_lower s = map to_lower_char s"

lemma to_lower_char_not_upper [simp]: "\<not> is_upper (to_lower_char c)"
  by (auto simp: to_lower_char_def is_upper_def Let_def)

lemma to_lower_char_idem [simp]: "to_lower_char (to_lower_char c) = to_lower_char c"
  by (metis to_lower_char_def to_lower_char_not_upper)

lemma to_lower_simps [simp]:
  "to_lower [] = []" "to_lower (c # s) = to_lower_char c # to_lower s"
  "to_lower (s @ t) = to_lower s @ to_lower t" "length (to_lower s) = length s"
  by (simp_all add: to_lower_def)

lemma to_lower_idem [simp]: "to_lower (to_lower s) = to_lower s"
  by (induction s) auto

lemma to_lower_eq_Nil [simp]: "to_lower s = [] \<longleftrightarrow> s = []"
  by (simp add: to_lower_def)

section \<open>Prefixes and substrings\<close>

fun starts_with :: "string \<Rightarrow> string \<Rightarrow> bool" where
  "starts_with s [] = True"
| "starts_with [] (p # ps) = False"
| "starts_with (c # cs) (p # ps) = (c = p \<and> starts_with cs ps)"

lemma starts_with_iff: "starts_with s p \<longleftrightarrow> (\<exists>t. s = p @ t)"
  by (induction s p rule: starts_with.induct) auto

lemma starts_with_append [simp]: "starts_with (p @ t) p"
  by (auto simp: starts_with_iff)

lemma starts_with_drop: "starts_with s p \<Longrightarrow> s = p @ drop (length p) s"
  by (auto simp: starts_with_iff)

fun contains :: "string \<Rightarrow> string \<Rightarrow> bool" where
  "contains [] p = (p = [])"
| "contains (c # cs) p = (starts_with (c # cs) p \<or> contains cs p)"

lemma contains_iff: "contains s p \<longleftrightarrow> (\<exists>a b. s = a @ p @ b)"
proof (induction s)
  case Nil
  then show ?case by auto
next
  case (Cons c s)
  note Cons_IH = Cons.IH
  show ?case
  proof
    assume "contains (c # s) p"
    then consider t where "c # s = p @ t" | a b where "s = a @ p @ b"
      using Cons by (auto simp: starts_with_iff)
    then show "\<exists>a b. c # s = a @ p @ b"
    proof cases
      case 1
      then show ?thesis by (intro exI [of _ "[]"] exI [of _ t]) simp
    next
      case 2
      then show ?thesis by (intro exI [of _ "c # a"] exI [of _ b]) simp
    qed
  next
    assume "\<exists>a b. c # s = a @ p @ b"
    then obtain a b where ab: "c # s = a @ p @ b" by blast
    show "contains (c # s) p"
    proof (cases a)
      case Nil
      with ab have "starts_with (c # s) p" by (auto simp: starts_with_iff)
      then show ?thesis by simp
    next
      case (Cons d a')
      with ab have "s = a' @ p @ b" by simp
      then have "contains s p" using Cons_IH by blast
      then show ?thesis by simp
    qed
  qed
qed

lemma contains_Nil [simp]: "contains s []"
  by (auto simp: contains_iff)

lemma contains_refl [simp]: "contains s s"
  unfolding contains_iff by (intro exI [of _ "[]"]) simp

lemma contains_appendI: "contains s p \<Longrightarrow> contains (u @ s @ v) p"
proof -
  assume "contains s p"
  then obtain a b where "s = a @ p @ b" by (auto simp: contains_iff)
  then have "u @ s @ v = (u @ a) @ p @ (b @ v)" by simp
  then show ?thesis unfolding contains_iff by blast
qed

lemma contains_append_left [intro]: "contains s p \<Longrightarrow> contains (u @ s) p"
  using contains_appendI [of s p u "[]"] by simp

lemma contains_append_right [intro]: "contains s p \<Longrightarrow> contains (s @ v) p"
  using contains_appendI [of s p "[]" v] by simp

lemma contains_length: "contains s p \<Longrightarrow> length p \<le> length s"
  by (auto simp: contains_iff)

section \<open>Trimming\<close>

definition trim :: "string \<Rightarrow> string" where
  "trim s = rev (dropWhile is_ws (rev (dropWhile is_ws s)))"

text \<open>\<open>value.trim().is_empty()\<close>.\<close>

definition blank :: "string \<Rightarrow> bool" where
  "blank s \<longleftrightarrow> trim s = []"

lemma trim_Nil [simp]: "trim [] = []"
  by (simp add: trim_def)

lemma all_dropWhile_iff: "(\<forall>c \<in> set (dropWhile P s). P c) \<longleftrightarrow> (\<forall>c \<in> set s. P c)"
  by (induction s) (auto dest: set_dropWhileD)

lemma blank_iff: "blank s \<longleftrightarrow> (\<forall>c \<in> set s. is_ws c)"
proof -
  have "blank s \<longleftrightarrow> (\<forall>c \<in> set (dropWhile is_ws s). is_ws c)"
    by (simp only: blank_def trim_def rev_is_Nil_conv dropWhile_eq_Nil_conv set_rev)
  then show ?thesis by (simp only: all_dropWhile_iff)
qed

lemma dropWhile_fixed: "s = [] \<or> \<not> P (hd s) \<Longrightarrow> dropWhile P s = s"
  by (cases s) auto

lemma trim_hd_last:
  assumes "trim s \<noteq> []"
  shows "\<not> is_ws (hd (trim s))" and "\<not> is_ws (last (trim s))"
proof -
  let ?d = "dropWhile is_ws s" and ?r = "dropWhile is_ws (rev (dropWhile is_ws s))"
  have r: "?r \<noteq> []" using assms by (simp add: trim_def)
  then show "\<not> is_ws (last (trim s))"
    by (simp add: trim_def last_rev hd_dropWhile)
  have d: "?d \<noteq> []" using r by (metis dropWhile.simps(1) rev.simps(1))
  obtain k where k: "?r = drop k (rev ?d)" by (metis dropWhile_eq_drop)
  have "rev ?r = take (length ?d - k) ?d" using k by (simp add: rev_drop)
  then have "trim s = take (length ?d - k) ?d" by (simp add: trim_def)
  with assms have "hd (trim s) = hd ?d" by (metis hd_take take_eq_Nil gr0I)
  then show "\<not> is_ws (hd (trim s))" using d by (simp add: hd_dropWhile)
qed

lemma trim_idem [simp]: "trim (trim s) = trim s"
proof (cases "trim s = []")
  case True
  then show ?thesis by simp
next
  case False
  note ends = trim_hd_last [OF False]
  have "dropWhile is_ws (trim s) = trim s" using ends(1) by (simp add: dropWhile_fixed)
  moreover have "dropWhile is_ws (rev (trim s)) = rev (trim s)"
    using ends(2) False by (simp add: dropWhile_fixed hd_rev)
  ultimately show ?thesis by (subst trim_def) simp
qed

lemma blank_trim [simp]: "blank (trim s) = blank s"
  by (simp add: blank_def)

lemma blank_Nil [simp]: "blank []"
  by (simp add: blank_def)

section \<open>Splitting and joining\<close>

text \<open>\<open>str::split\<close> on a predicate: one piece more than there are separators.\<close>

fun split_on :: "(char \<Rightarrow> bool) \<Rightarrow> string \<Rightarrow> string list" where
  "split_on p [] = [[]]"
| "split_on p (c # cs) =
     (if p c then [] # split_on p cs
      else (case split_on p cs of [] \<Rightarrow> [[c]] | w # ws \<Rightarrow> (c # w) # ws))"

lemma split_on_not_Nil [simp]: "split_on p s \<noteq> []"
  by (cases s) (auto split: list.splits)

lemma split_on_pieces: "w \<in> set (split_on p s) \<Longrightarrow> c \<in> set w \<Longrightarrow> \<not> p c"
  by (induction s arbitrary: w c) (fastforce split: if_splits list.splits)+

definition split_whitespace :: "string \<Rightarrow> string list" where
  "split_whitespace s = filter (\<lambda>w. w \<noteq> []) (split_on is_ws s)"

fun join :: "string \<Rightarrow> string list \<Rightarrow> string" where
  "join sep [] = []"
| "join sep [x] = x"
| "join sep (x # y # xs) = x @ sep @ join sep (y # xs)"

lemma contains_join: "x \<in> set xs \<Longrightarrow> contains x p \<Longrightarrow> contains (join sep xs) p"
proof (induction sep xs rule: join.induct)
  case (3 sep a b xs)
  show ?case
  proof (cases "contains a p")
    case True
    then show ?thesis by (simp add: contains_append_right del: contains.simps)
  next
    case False
    with "3.prems" have "x \<in> set (b # xs)" by auto
    with 3 have "contains (join sep (b # xs)) p" by blast
    then have "contains ((a @ sep) @ join sep (b # xs)) p" by (rule contains_append_left)
    then show ?thesis by (simp del: contains.simps)
  qed
qed auto

text \<open>\<open>str::lines\<close>: split at newlines, drop a carriage return at a line's end, and no line after a
  final newline.\<close>

definition strip_cr :: "string \<Rightarrow> string" where
  "strip_cr l = (if l \<noteq> [] \<and> last l = CHR 0x0D then butlast l else l)"

fun raw_lines :: "string \<Rightarrow> (string \<times> bool) list" where
  "raw_lines [] = []"
| "raw_lines (c # cs) =
     (if c = CHR 0x0A then ([], True) # raw_lines cs
      else (case raw_lines cs of [] \<Rightarrow> [([c], False)] | (l, b) # ls \<Rightarrow> (c # l, b) # ls))"

definition lines_of :: "string \<Rightarrow> string list" where
  "lines_of s = map (\<lambda>(l, ended). if ended then strip_cr l else l) (raw_lines s)"

section \<open>Replacing\<close>

function replace_from :: "string \<Rightarrow> string \<Rightarrow> string \<Rightarrow> string" where
  "replace_from pat to s =
     (if pat = [] \<or> s = [] then s
      else if starts_with s pat then to @ replace_from pat to (drop (length pat) s)
      else hd s # replace_from pat to (tl s))"
  by pat_completeness auto
termination
  by (relation "measure (\<lambda>(pat, to, s). length s)") (auto simp: length_greater_0_conv)

declare replace_from.simps [simp del]

text \<open>
  \<open>str::replace\<close>: every non-overlapping occurrence from the left; an empty pattern matches before
  every character and at the end.
\<close>

definition replace_all :: "string \<Rightarrow> string \<Rightarrow> string \<Rightarrow> string" where
  "replace_all pat to s =
     (if pat = [] then to @ concat (map (\<lambda>c. c # to) s) else replace_from pat to s)"

fun replace_once :: "string \<Rightarrow> string \<Rightarrow> string \<Rightarrow> string" where
  "replace_once pat to [] = (if pat = [] then to else [])"
| "replace_once pat to (c # cs) =
     (if starts_with (c # cs) pat then to @ drop (length pat) (c # cs)
      else c # replace_once pat to cs)"

text \<open>\<open>str::matches(pat).count()\<close>.\<close>

function count_from :: "string \<Rightarrow> string \<Rightarrow> nat" where
  "count_from pat s =
     (if pat = [] \<or> s = [] then 0
      else if starts_with s pat then Suc (count_from pat (drop (length pat) s))
      else count_from pat (tl s))"
  by pat_completeness auto
termination
  by (relation "measure (\<lambda>(pat, s). length s)") auto

declare count_from.simps [simp del]

definition match_count :: "string \<Rightarrow> string \<Rightarrow> nat" where
  "match_count pat s = (if pat = [] then Suc (length s) else count_from pat s)"

lemma count_from_eqs:
  "count_from pat [] = 0"
  "pat \<noteq> [] \<Longrightarrow> count_from pat (c # cs) =
     (if starts_with (c # cs) pat then Suc (count_from pat (drop (length pat) (c # cs)))
      else count_from pat cs)"
  by (subst count_from.simps, simp)+

lemma replace_from_eqs:
  "replace_from pat to [] = []"
  "pat \<noteq> [] \<Longrightarrow> replace_from pat to (c # cs) =
     (if starts_with (c # cs) pat then to @ replace_from pat to (drop (length pat) (c # cs))
      else c # replace_from pat to cs)"
  by (subst replace_from.simps, simp)+

lemma count_from_0_iff: "pat \<noteq> [] \<Longrightarrow> count_from pat s = 0 \<longleftrightarrow> \<not> contains s pat"
  by (induction s) (auto simp: count_from_eqs)

lemma match_count_0_iff: "match_count pat s = 0 \<longleftrightarrow> \<not> contains s pat"
  by (simp add: match_count_def count_from_0_iff)

lemma replace_from_absent: "pat \<noteq> [] \<Longrightarrow> \<not> contains s pat \<Longrightarrow> replace_from pat to s = s"
  by (induction s) (auto simp: replace_from_eqs)

lemma replace_all_absent: "\<not> contains s pat \<Longrightarrow> replace_all pat to s = s"
  by (auto simp: replace_all_def replace_from_absent)

lemma length_replace_from:
  "pat \<noteq> [] \<Longrightarrow>
   length (replace_from pat to s) + count_from pat s * length pat
     = length s + count_from pat s * length to"
proof (induction "length s" arbitrary: s rule: less_induct)
  case less
  show ?case
  proof (cases s)
    case Nil
    then show ?thesis by (simp add: replace_from_eqs count_from_eqs)
  next
    case (Cons c cs)
    show ?thesis
    proof (cases "starts_with s pat")
      case True
      then have len: "length pat + length (drop (length pat) s) = length s"
        by (metis length_append starts_with_drop)
      with less.prems have "length (drop (length pat) s) < length s" by (cases pat) auto
      from less.hyps [OF this less.prems] True len Cons less.prems show ?thesis
        by (simp add: replace_from_eqs count_from_eqs)
    next
      case False
      from less.hyps [of cs] less.prems False Cons show ?thesis
        by (simp add: replace_from_eqs count_from_eqs)
    qed
  qed
qed

section \<open>Numbers in identifiers and timestamps\<close>

definition digit_char :: "nat \<Rightarrow> char" where
  "digit_char d = char_of (if d < 10 then 48 + d else 87 + d)"

definition digit_value :: "char \<Rightarrow> nat" where
  "digit_value c = (let n = of_char c :: nat in if n < 58 then n - 48 else n - 87)"

text \<open>\<open>{}\<close> and \<open>{:x}\<close> on an unsigned integer, for a base between 2 and 16.\<close>

function show_base :: "nat \<Rightarrow> nat \<Rightarrow> string" where
  "show_base b n =
     (if b < 2 \<or> n < b then [digit_char n]
      else show_base b (n div b) @ [digit_char (n mod b)])"
  by pat_completeness auto
termination
  by (relation "measure (\<lambda>(b, n). n)") auto

declare show_base.simps [simp del]

definition show_dec :: "nat \<Rightarrow> string" where
  "show_dec n = show_base 10 n"

definition show_hex :: "nat \<Rightarrow> string" where
  "show_hex n = show_base 16 n"

text \<open>\<open>{:09}\<close>: padded with zeros on the left to nine characters.\<close>

definition pad_zeros :: "nat \<Rightarrow> string \<Rightarrow> string" where
  "pad_zeros k s = replicate (k - length s) (CHR ''0'') @ s"

fun read_base :: "nat \<Rightarrow> nat \<Rightarrow> string \<Rightarrow> nat" where
  "read_base b acc [] = acc"
| "read_base b acc (c # cs) = read_base b (acc * b + digit_value c) cs"

lemma digit_value_char [simp]: "d < 16 \<Longrightarrow> digit_value (digit_char d) = d"
  by (auto simp: digit_value_def digit_char_def Let_def)

lemma read_base_append: "read_base b acc (s @ t) = read_base b (read_base b acc s) t"
  by (induction s arbitrary: acc) auto

lemma read_show_base: "2 \<le> b \<Longrightarrow> b \<le> 16 \<Longrightarrow> read_base b 0 (show_base b n) = n"
proof (induction b n rule: show_base.induct)
  case (1 b n)
  then show ?case
    by (subst show_base.simps)
      (auto simp: read_base_append digit_value_char [OF order.strict_trans2 [OF mod_less_divisor]])
qed

lemma show_base_digits:
  "2 \<le> b \<Longrightarrow> b \<le> 16 \<Longrightarrow> c \<in> set (show_base b n) \<Longrightarrow> \<exists>d < b. c = digit_char d"
proof (induction b n rule: show_base.induct)
  case (1 b n)
  show ?case
  proof (cases "n < b")
    case True
    with 1 show ?thesis by (auto simp: show_base.simps [of b n])
  next
    case False
    with 1 show ?thesis by (auto simp: show_base.simps [of b n] intro: exI [of _ "n mod b"])
  qed
qed

lemma show_base_not_Nil [simp]: "show_base b n \<noteq> []"
  by (subst show_base.simps) simp

lemma show_dec_inj: "show_dec m = show_dec n \<longleftrightarrow> m = n"
  unfolding show_dec_def by (metis read_show_base [of 10, simplified])

lemma show_hex_inj: "show_hex m = show_hex n \<longleftrightarrow> m = n"
  unfolding show_hex_def by (metis read_show_base [of 16, simplified])

lemma of_char_digit_char: "d < 16 \<Longrightarrow> of_char (digit_char d) = (if d < 10 then 48 + d else 87 + d)"
  by (simp add: digit_char_def)

lemma digit_char_not_underscore: "d < 16 \<Longrightarrow> digit_char d \<noteq> CHR ''_''"
proof
  assume d: "d < 16" and eq: "digit_char d = CHR ''_''"
  then have "(if d < 10 then 48 + d else 87 + d) = (95 :: nat)"
    using of_char_digit_char [OF d] by simp
  with d show False by (simp split: if_splits)
qed

lemma show_dec_no_underscore: "CHR ''_'' \<notin> set (show_dec n)"
proof
  assume "CHR ''_'' \<in> set (show_dec n)"
  then obtain d where "d < 10" "CHR ''_'' = digit_char d"
    using show_base_digits [of 10 "CHR ''_''" n] by (auto simp: show_dec_def)
  then show False using digit_char_not_underscore [of d] by simp
qed

text \<open>The part after the last underscore of a name identifies the number written there.\<close>

lemma append_sep_inj:
  assumes "a @ c # x = b @ c # y" and "c \<notin> set x" and "c \<notin> set y"
  shows "a = b \<and> x = y"
proof -
  have "rev x @ c # rev a = rev y @ c # rev b"
    using arg_cong [OF assms(1), of rev] by simp
  moreover have "takeWhile (\<lambda>z. z \<noteq> c) (rev x @ c # rev a) = rev x"
    using assms(2) by (subst takeWhile_append2) auto
  moreover have "takeWhile (\<lambda>z. z \<noteq> c) (rev y @ c # rev b) = rev y"
    using assms(3) by (subst takeWhile_append2) auto
  ultimately have "rev x = rev y" by metis
  with assms(1) show ?thesis by simp
qed

end
