(* ===== verification/Protocol.thy ===== *)
theory Protocol
  imports Text_Utils
begin

text \<open>
  The data of the protocol crate: identifiers, lifecycle enumerations and the resources the
  runtime stores and exchanges (threads, turns, approvals, checkpoints, artifacts, nodes and
  workspace mounts, interaction contexts, memory resources, owner-facing surfaces, provider
  credentials), one record per struct and one datatype per enum. Identifiers and timestamps are
  transparent string newtypes in the source and strings here, compared as strings.
\<close>

section \<open>Identifiers and primitives\<close>

type_synonym thread_id = string
type_synonym turn_id = string
type_synonym event_id = string
type_synonym approval_id = string
type_synonym checkpoint_id = string
type_synonym artifact_id = string
type_synonym memory_fact_id = string
type_synonym executor_task_id = string
type_synonym node_id = string
type_synonym workspace_mount_id = string
type_synonym timestamp = string

datatype risk_level = Low | Medium | High | Critical

section \<open>Threads and turns\<close>

datatype thread_status =
  Active | WaitingApproval | Interrupted | Completed | Failed | Archived

record thread =
  th_id :: thread_id
  th_title :: string
  th_status :: thread_status
  th_created_at :: timestamp
  th_updated_at :: timestamp
  th_active_goal :: "string option"
  th_active_summary :: "string option"
  th_last_interruption :: "string option"
  th_workspace_ref :: "string option"
  th_workspace_mount_id :: "workspace_mount_id option"
  th_pending_commitments :: "string list"
  th_latest_turn_id :: "turn_id option"
  th_latest_checkpoint_id :: "checkpoint_id option"
  th_parent_thread_id :: "thread_id option"

datatype turn_status = Running | WaitingApproval | Cancelled | Completed | Failed

datatype turn_kind = User | Assistant | Verification | Compilation | Rollback

datatype turn_input_kind = UserMessage | SteeringNote | ResumeCommand

record turn =
  tn_id :: turn_id
  tn_thread_id :: thread_id
  tn_kind :: turn_kind
  tn_status :: turn_status
  tn_started_at :: timestamp
  tn_ended_at :: "timestamp option"
  tn_goal :: "string option"
  tn_summary :: "string option"
  tn_checkpoint_before :: "checkpoint_id option"
  tn_checkpoint_after :: "checkpoint_id option"

section \<open>Sandbox settings\<close>

datatype sandbox_mode = ReadOnly | WorkspaceWrite | DangerFullAccess | ExternalSandbox

fun sandbox_mode_as_str :: "sandbox_mode \<Rightarrow> string" where
  "sandbox_mode_as_str ReadOnly = ''read-only''"
| "sandbox_mode_as_str WorkspaceWrite = ''workspace-write''"
| "sandbox_mode_as_str DangerFullAccess = ''danger-full-access''"
| "sandbox_mode_as_str ExternalSandbox = ''external-sandbox''"

datatype sandbox_network_access = Disabled | Restricted | Enabled

fun network_access_as_str :: "sandbox_network_access \<Rightarrow> string" where
  "network_access_as_str Disabled = ''disabled''"
| "network_access_as_str Restricted = ''restricted''"
| "network_access_as_str Enabled = ''enabled''"

datatype sandbox_backend_kind =
  NoBackend | MacosSeatbelt | LinuxHelper | WindowsRestrictedToken | WindowsSandboxUser

fun backend_kind_as_str :: "sandbox_backend_kind \<Rightarrow> string" where
  "backend_kind_as_str NoBackend = ''none''"
| "backend_kind_as_str MacosSeatbelt = ''macos-seatbelt''"
| "backend_kind_as_str LinuxHelper = ''linux-helper''"
| "backend_kind_as_str WindowsRestrictedToken = ''windows-restricted-token''"
| "backend_kind_as_str WindowsSandboxUser = ''windows-sandbox-user''"

record shell_sandbox_summary =
  sum_mode :: sandbox_mode
  sum_network_access :: sandbox_network_access
  sum_backend :: sandbox_backend_kind

record shell_sandbox_request =
  rq_mode :: sandbox_mode
  rq_network_access :: sandbox_network_access

section \<open>Approvals, checkpoints and artifacts\<close>

datatype approval_decision = ApproveOnce | ApproveAndPersist | Deny

datatype approval_policy = OnRequest | ApprovalDangerFullAccess

datatype approval_status = Pending | Approved | Denied | Expired

record approval_request =
  ap_id :: approval_id
  ap_thread_id :: thread_id
  ap_turn_id :: turn_id
  ap_action_type :: string
  ap_risk_level :: risk_level
  ap_reason :: string
  ap_sandbox_context :: "string option"
  ap_node_id :: "node_id option"
  ap_workspace_mount_id :: "workspace_mount_id option"
  ap_status :: approval_status

datatype checkpoint_scope = ConversationOnly | WorkspaceOnly | ConversationAndWorkspace

record checkpoint =
  cp_id :: checkpoint_id
  cp_thread_id :: thread_id
  cp_turn_id :: turn_id
  cp_scope :: checkpoint_scope
  cp_reason :: string
  cp_created_at :: timestamp

datatype artifact_kind =
  Diff | ToolTrace | Snapshot | CommandOutput | ApprovalRecord | MemoryCitation

record artifact_ref =
  ar_id :: artifact_id
  ar_thread_id :: thread_id
  ar_turn_id :: turn_id
  ar_kind :: artifact_kind
  ar_node_id :: "node_id option"
  ar_workspace_mount_id :: "workspace_mount_id option"
  ar_summary :: string
  ar_locator :: string
  ar_created_at :: timestamp

section \<open>Nodes and workspace mounts\<close>

datatype node_kind = Desktop | Server | Laptop | Phone | Container | BrowserHost

record node_identity =
  ni_node_id :: node_id
  ni_display_name :: string
  ni_kind :: node_kind
  ni_owner_device :: bool

record node_status =
  ns_online :: bool
  ns_last_seen_at :: "timestamp option"
  ns_app_version :: "string option"
  ns_os :: "string option"
  ns_hostname :: "string option"

record node_capabilities =
  nc_workspace_tools :: bool
  nc_shell_tools :: bool
  nc_browser_tools :: bool
  nc_web_ui_host :: bool
  nc_notifications :: bool
  nc_max_concurrent_tasks :: nat
  nc_supported_sandbox_modes :: "sandbox_mode list"

record node_policy =
  np_allowed_roots :: "string list"
  np_protected_paths :: "string list"
  np_default_sandbox :: sandbox_mode
  np_network_policy :: string
  np_approval_policy :: approval_policy

record node_record =
  nr_identity :: node_identity
  nr_status :: node_status
  nr_capabilities :: node_capabilities
  nr_policy :: node_policy

record workspace_mount_permissions =
  pm_read :: bool
  pm_write :: bool
  pm_shell :: bool

record workspace_mount =
  wm_workspace_id :: workspace_mount_id
  wm_node_id :: node_id
  wm_root_path :: string
  wm_label :: string
  wm_permissions :: workspace_mount_permissions

abbreviation node_key :: "node_record \<Rightarrow> node_id" where
  "node_key n \<equiv> ni_node_id (nr_identity n)"

section \<open>Memory resources\<close>

datatype memory_fact_kind =
  Identity | ActiveState | Commitment | Decision | Topic | ProcedureCandidate | Keyword

datatype memory_topic_status = TopicActive | TopicResolved | TopicStale

datatype trust_level = Owner | Trusted | Acquaintance | Stranger

record participant_ref =
  pt_external_participant_id :: string
  pt_display_name :: "string option"

record info_boundary =
  ib_shared_topics :: "string list"
  ib_forbidden_topics :: "string list"
  ib_share_active_state :: bool
  ib_share_commitments :: bool

definition info_boundary_stranger_default :: info_boundary where
  "info_boundary_stranger_default =
     \<lparr>ib_shared_topics = [], ib_forbidden_topics = [],
      ib_share_active_state = False, ib_share_commitments = False\<rparr>"

definition info_boundary_owner_default :: info_boundary where
  "info_boundary_owner_default =
     \<lparr>ib_shared_topics = [], ib_forbidden_topics = [],
      ib_share_active_state = True, ib_share_commitments = True\<rparr>"

record relationship_entry =
  re_person_id :: string
  re_display_name :: string
  re_trust_level :: trust_level
  re_info_boundary :: info_boundary
  re_interaction_stance :: string
  re_notes :: "string option"

text \<open>Citations derive \<open>Ord\<close>: they are compared field by field, in declaration order.\<close>

datatype memory_citation_ref =
  CitationRef (ci_thread_id: thread_id) (ci_turn_id: "turn_id option")
    (ci_artifact_id: "artifact_id option") (ci_note: string)

instantiation memory_citation_ref :: linorder
begin

definition less_eq_memory_citation_ref :: "memory_citation_ref \<Rightarrow> memory_citation_ref \<Rightarrow> bool" where
  "less_eq_memory_citation_ref a b \<longleftrightarrow>
     (ci_thread_id a, ci_turn_id a, ci_artifact_id a, ci_note a)
       \<le> (ci_thread_id b, ci_turn_id b, ci_artifact_id b, ci_note b)"

definition less_memory_citation_ref :: "memory_citation_ref \<Rightarrow> memory_citation_ref \<Rightarrow> bool" where
  "less_memory_citation_ref a b \<longleftrightarrow>
     (ci_thread_id a, ci_turn_id a, ci_artifact_id a, ci_note a)
       < (ci_thread_id b, ci_turn_id b, ci_artifact_id b, ci_note b)"

instance
proof
  fix a b c :: memory_citation_ref
  show "a < b \<longleftrightarrow> a \<le> b \<and> \<not> b \<le> a"
    by (simp only: less_eq_memory_citation_ref_def less_memory_citation_ref_def less_le_not_le)
  show "a \<le> a" by (simp add: less_eq_memory_citation_ref_def)
  show "a \<le> c" if "a \<le> b" and "b \<le> c"
    using that unfolding less_eq_memory_citation_ref_def by (rule order_trans)
  show "a = b" if "a \<le> b" and "b \<le> a"
    using that unfolding less_eq_memory_citation_ref_def
    by (cases a; cases b) (metis Pair_inject antisym memory_citation_ref.sel)
  show "a \<le> b \<or> b \<le> a"
    unfolding less_eq_memory_citation_ref_def by (rule linear)
qed

end

record recent_conversation_wakeup_view =
  rv_recent_summaries :: "string list"
  rv_active_topics :: "string list"
  rv_recent_keywords :: "string list"
  rv_citations :: "memory_citation_ref list"

record memory_wakeup =
  wk_identity_summary :: "string option"
  wk_active_state :: "string option"
  wk_relevant_facts :: "string list"
  wk_open_commitments :: "string list"
  wk_recent_topics :: "string list"
  wk_recent_keywords :: "string list"
  wk_citation_fact_ids :: "memory_fact_id list"
  wk_citations :: "memory_citation_ref list"

record memory_compilation_summary =
  mc_delta_summary :: string
  mc_updated_fact_ids :: "memory_fact_id list"
  mc_invalidated_fact_ids :: "memory_fact_id list"
  mc_recent_topics :: "string list"
  mc_recent_keywords :: "string list"
  mc_candidate_procedures :: "string list"

record memory_topic_summary =
  mt_name :: string
  mt_aliases :: "string list"
  mt_summary :: string
  mt_status :: memory_topic_status
  mt_last_active_at :: "timestamp option"
  mt_related_thread_ids :: "thread_id list"
  mt_related_artifact_ids :: "artifact_id list"
  mt_citation_fact_ids :: "memory_fact_id list"
  mt_recent_keywords :: "string list"

datatype memory_search_mode = KeywordSearch | SemanticSearch

datatype memory_search_hit_kind = TopicHit | SessionHit | FactHit | ArtifactHit

record memory_search_hit =
  mh_kind :: memory_search_hit_kind
  mh_title :: string
  mh_summary :: string
  mh_score :: nat
  mh_thread_id :: "thread_id option"
  mh_turn_id :: "turn_id option"
  mh_artifact_id :: "artifact_id option"
  mh_fact_id :: "memory_fact_id option"

record resume_summary =
  rs_headline :: string
  rs_active_summary :: "string option"
  rs_pending_commitments :: "string list"
  rs_last_interruption :: "string option"

section \<open>Interaction contexts\<close>

datatype actor_kind =
  Owner | HumanContact | Stranger | ExternalAgent | LocalNode | RemoteNode
| SystemService | WebhookSource | Automation

record actor_ref =
  ac_actor_id :: string
  ac_kind :: actor_kind
  ac_display_name :: "string option"
  ac_proof :: "string option"

datatype audience_visibility = Private | Direct | Group | Public | Machine

record audience =
  au_visibility :: audience_visibility
  au_participants :: "string list"

datatype interaction_role =
  PrivateCompanion | TaskExecutor | OwnerDelegate | PublicRepresentative | GroupParticipant
| AgentPeer | AgentCoordinator | NodeController | WebhookObserver | BackgroundAutomation

record authority_scope =
  as_can_speak_for_owner :: bool
  as_can_start_work :: bool
  as_can_call_tools :: bool
  as_can_write_memory :: bool
  as_requires_owner_confirmation :: bool

definition authority_owner_default :: authority_scope where
  "authority_owner_default =
     \<lparr>as_can_speak_for_owner = False, as_can_start_work = True, as_can_call_tools = True,
      as_can_write_memory = True, as_requires_owner_confirmation = False\<rparr>"

definition authority_restricted_default :: authority_scope where
  "authority_restricted_default =
     \<lparr>as_can_speak_for_owner = False, as_can_start_work = False, as_can_call_tools = False,
      as_can_write_memory = False, as_requires_owner_confirmation = True\<rparr>"

datatype evidence_policy = SummaryOnly | Expandable | Hidden

record disclosure_policy =
  dp_allowed_topics :: "string list"
  dp_forbidden_topics :: "string list"
  dp_share_active_state :: bool
  dp_share_commitments :: bool
  dp_share_identity :: bool
  dp_evidence_policy :: evidence_policy

definition disclosure_owner_default :: disclosure_policy where
  "disclosure_owner_default =
     \<lparr>dp_allowed_topics = [], dp_forbidden_topics = [], dp_share_active_state = True,
      dp_share_commitments = True, dp_share_identity = True, dp_evidence_policy = Expandable\<rparr>"

definition disclosure_stranger_default :: disclosure_policy where
  "disclosure_stranger_default =
     \<lparr>dp_allowed_topics = [], dp_forbidden_topics = [], dp_share_active_state = False,
      dp_share_commitments = False, dp_share_identity = False, dp_evidence_policy = Hidden\<rparr>"

record ingress_ref =
  ig_kind :: string
  ig_source_id :: string
  ig_conversation_id :: "string option"

datatype channel_kind = Cli | Web | Telegram | Discord | Email | Unknown

record channel_ref =
  ch_kind :: channel_kind
  ch_external_conversation_id :: string

record provenance =
  pv_channel :: "channel_ref option"
  pv_received_at :: "timestamp option"
  pv_authenticated_by :: "string option"
  pv_raw_event_ref :: "string option"

record interaction_context =
  ic_ingress :: ingress_ref
  ic_actor :: actor_ref
  ic_audience :: audience
  ic_role :: interaction_role
  ic_authority :: authority_scope
  ic_disclosure :: disclosure_policy
  ic_task_mandate :: "string option"
  ic_provenance :: provenance

datatype inbound_event_action = RunTurn | StoreOnly | NotifyOwner | Ignore

section \<open>Provider credentials\<close>

datatype provider_credential =
  ApiKey string
| OAuth string "string option" "nat option" "string option" "string option"
| Token string "nat option" "(string \<times> string) list"

record provider_auth_profile =
  pf_profile_id :: string
  pf_provider_id :: string
  pf_display_name :: "string option"
  pf_credential :: provider_credential

section \<open>Owner-facing surfaces\<close>

record about_you_item =
  ai_key :: string
  ai_label :: string
  ai_value :: string
  ai_confirmed :: bool
  ai_source_fact_id :: "memory_fact_id option"

record about_you_surface =
  ay_identity_summary :: "string option"
  ay_items :: "about_you_item list"

record carrying_item =
  cr_thread_id :: thread_id
  cr_title :: string
  cr_status :: thread_status
  cr_summary :: "string option"
  cr_pending_commitments :: "string list"
  cr_suggested_next_step :: "string option"
  cr_updated_at :: timestamp

record carrying_surface =
  cs_active :: "carrying_item list"
  cs_completed :: "carrying_item list"

record knowledge_item =
  kn_fact_id :: memory_fact_id
  kn_kind :: string
  kn_subject :: string
  kn_summary :: string
  kn_stale :: bool
  kn_updated_at :: timestamp
  kn_citations :: "memory_citation_ref list"

record person_boundary =
  pb_person_id :: string
  pb_display_name :: string
  pb_actor_kind :: string
  pb_trust_level :: trust_level
  pb_shared_topics :: "string list"
  pb_forbidden_topics :: "string list"
  pb_share_active_state :: bool
  pb_share_commitments :: bool
  pb_interaction_stance :: string
  pb_notes :: "string option"
  pb_requires_owner_confirmation :: bool

record people_surface =
  ps_humans :: "person_boundary list"
  ps_external_agents :: "person_boundary list"
  ps_default_stranger_boundary :: info_boundary

section \<open>Requests\<close>

record thread_start_request =
  ts_title :: "string option"
  ts_initial_goal :: "string option"
  ts_workspace_ref :: "string option"
  ts_workspace_mount_id :: "workspace_mount_id option"

record thread_fork_request =
  tf_thread_id :: thread_id
  tf_title :: "string option"
  tf_fork_reason :: "string option"

record thread_list_request =
  tl_status :: "thread_status option"
  tl_limit :: "nat option"

record turn_start_request =
  st_thread_id :: thread_id
  st_input :: string
  st_input_kind :: turn_input_kind
  st_channel :: "channel_ref option"
  st_participant :: "participant_ref option"
  st_interaction_context :: "interaction_context option"

record turn_cancel_request =
  tc_thread_id :: thread_id
  tc_turn_id :: turn_id

record approval_respond_request =
  rr_approval_id :: approval_id
  rr_decision :: approval_decision

record workspace_mount_attach_request =
  wa_node_id :: node_id
  wa_root_path :: string
  wa_label :: "string option"
  wa_permissions :: workspace_mount_permissions

end
