(* ===== verification/Ids.thy ===== *)
theory Ids
  imports Protocol "HOL-Library.Word"
begin

text \<open>
  The runtime's error type (\<open>runtime/error.rs\<close>) and its identifier generator (\<open>runtime/ids.rs\<close>).
  The generator is an atomic 64-bit counter plus the wall clock. The clock belongs to the
  operating system: it is a field \<open>clock\<close> that gives the nanoseconds since the epoch at each
  successive reading, with no assumption that the readings grow. Identifiers are unique because
  of the counter alone.
\<close>

section \<open>Errors\<close>

datatype storage_error = Io | Serde

datatype runtime_error =
  NotFound string string
| InvalidState string string
| Unsupported string string
| Storage storage_error

fun error_code :: "runtime_error \<Rightarrow> string" where
  "error_code (NotFound code message) = code"
| "error_code (InvalidState code message) = code"
| "error_code (Unsupported code message) = code"
| "error_code (Storage e) = ''storage_error''"

fun retryable :: "runtime_error \<Rightarrow> bool" where
  "retryable (Storage e) = True"
| "retryable e = False"

section \<open>The generator\<close>

record id_generator =
  sequence :: "64 word"
  clock :: "nat \<Rightarrow> nat"
  clock_reads :: nat

definition read_clock :: "id_generator \<Rightarrow> nat \<times> id_generator" where
  "read_clock g = (clock g (clock_reads g), g\<lparr>clock_reads := Suc (clock_reads g)\<rparr>)"

text \<open>\<open>format!("{prefix}_{:x}_{sequence}")\<close> after \<open>fetch_add(1) + 1\<close>; the counter wraps.\<close>

definition id_text :: "string \<Rightarrow> nat \<Rightarrow> 64 word \<Rightarrow> string" where
  "id_text prefix nanos s = prefix @ ''_'' @ show_hex nanos @ ''_'' @ show_dec (unat s)"

definition next_value :: "string \<Rightarrow> id_generator \<Rightarrow> string \<times> id_generator" where
  "next_value prefix g =
     (let (now, g') = read_clock g; s = sequence g' + 1
      in (id_text prefix now s, g'\<lparr>sequence := s\<rparr>))"

definition next_thread_id :: "id_generator \<Rightarrow> thread_id \<times> id_generator" where
  "next_thread_id = next_value ''thread''"

definition next_turn_id :: "id_generator \<Rightarrow> turn_id \<times> id_generator" where
  "next_turn_id = next_value ''turn''"

definition next_approval_id :: "id_generator \<Rightarrow> approval_id \<times> id_generator" where
  "next_approval_id = next_value ''approval''"

definition next_checkpoint_id :: "id_generator \<Rightarrow> checkpoint_id \<times> id_generator" where
  "next_checkpoint_id = next_value ''checkpoint''"

definition next_artifact_id :: "id_generator \<Rightarrow> artifact_id \<times> id_generator" where
  "next_artifact_id = next_value ''artifact''"

definition next_memory_fact_id :: "id_generator \<Rightarrow> memory_fact_id \<times> id_generator" where
  "next_memory_fact_id = next_value ''fact''"

definition format_timestamp :: "nat \<Rightarrow> timestamp" where
  "format_timestamp nanos =
     ''unix:'' @ show_dec (nanos div 1000000000) @ ''.''
       @ pad_zeros 9 (show_dec (nanos mod 1000000000))"

definition now_timestamp :: "id_generator \<Rightarrow> timestamp \<times> id_generator" where
  "now_timestamp g = (let (now, g') = read_clock g in (format_timestamp now, g'))"

lemmas id_defs = next_thread_id_def next_turn_id_def next_approval_id_def
  next_checkpoint_id_def next_artifact_id_def next_memory_fact_id_def

section \<open>Uniqueness\<close>

lemma id_text_inj:
  assumes "id_text p m s = id_text q n t"
  shows "s = t"
proof -
  have "(p @ ''_'' @ show_hex m) @ CHR ''_'' # show_dec (unat s)
      = (q @ ''_'' @ show_hex n) @ CHR ''_'' # show_dec (unat t)"
    using assms by (simp add: id_text_def)
  from append_sep_inj [OF this show_dec_no_underscore show_dec_no_underscore]
  have "unat s = unat t" by (simp add: show_dec_inj)
  then show ?thesis by (rule word_unat_eq_iff [THEN iffD2])
qed

text \<open>
  An interface for the callers: a source of names that carries a position, in which every draw
  moves the position forward by one and names drawn at different positions differ.
\<close>

locale name_source =
  fixes draw :: "'k \<Rightarrow> 'g \<Rightarrow> 'n \<times> 'g" and pos :: "'g \<Rightarrow> 64 word"
  assumes draw_pos: "pos (snd (draw k g)) = pos g + 1"
    and draw_inj: "fst (draw k g) = fst (draw l h) \<Longrightarrow> pos g = pos h"
begin

fun draws :: "'k list \<Rightarrow> 'g \<Rightarrow> 'n list" where
  "draws [] g = []"
| "draws (k # ks) g = fst (draw k g) # draws ks (snd (draw k g))"

lemma draws_positions:
  "n \<in> set (draws ks g) \<Longrightarrow>
   \<exists>i k h. i < length ks \<and> n = fst (draw k h) \<and> pos h = pos g + of_nat i"
proof (induction ks arbitrary: g)
  case Nil
  then show ?case by simp
next
  case (Cons k ks)
  show ?case
  proof (cases "n = fst (draw k g)")
    case True
    then show ?thesis by (intro exI [of _ 0] exI [of _ k] exI [of _ g]) simp
  next
    case False
    with Cons.prems have "n \<in> set (draws ks (snd (draw k g)))" by simp
    then obtain i l h where "i < length ks" "n = fst (draw l h)" "pos h = pos g + 1 + of_nat i"
      using Cons.IH draw_pos by metis
    then show ?thesis by (intro exI [of _ "Suc i"] exI [of _ l] exI [of _ h]) simp
  qed
qed

text \<open>All names drawn are distinct as long as the counter has not gone round.\<close>

lemma distinct_draws: "length ks \<le> 2 ^ 64 \<Longrightarrow> distinct (draws ks g)"
proof (induction ks arbitrary: g)
  case Nil
  then show ?case by simp
next
  case (Cons k ks)
  have "fst (draw k g) \<notin> set (draws ks (snd (draw k g)))"
  proof
    assume "fst (draw k g) \<in> set (draws ks (snd (draw k g)))"
    from draws_positions [OF this] obtain i l h where
      i: "i < length ks" and eq: "fst (draw k g) = fst (draw l h)"
      and pos: "pos h = pos g + 1 + of_nat i" by (metis draw_pos)
    from draw_inj [OF eq] pos have "(of_nat (Suc i) :: 64 word) = 0"
      by (metis add.assoc add_cancel_right_right of_nat_Suc)
    then have "(2 :: nat) ^ 64 dvd Suc i"
      by (simp only: word_of_nat_eq_0_iff) simp
    with i Cons.prems show False by (auto dest: dvd_imp_le)
  qed
  with Cons show ?case by simp
qed

end

interpretation ids: name_source next_value sequence
proof
  show "sequence (snd (next_value k g)) = sequence g + 1" for k g
    by (simp add: next_value_def read_clock_def Let_def)
  show "sequence g = sequence h" if "fst (next_value k g) = fst (next_value l h)" for k l g h
    using that id_text_inj by (fastforce simp: next_value_def read_clock_def Let_def)
qed

end
