(* ===== verification/Storage.thy ===== *)
theory Storage
  imports Ids
begin

text \<open>
  The storage layer (\<open>storage/*.rs\<close>) at the level of the \<open>RuntimeStores\<close> interface: one file per
  thread, checkpoint and artifact, one append-only log per thread, and three whole-file snapshots.
  Every operation performs I/O and can fail: the field \<open>io_fault\<close> says, for each I/O operation by
  its number, whether the operating system or the decoder fails it, so that every \<open>?\<close> of the
  runtime is a real branch here. An operation that fails leaves the files as they were.
  The interfaces the runtime relies on (a keyed store, a snapshot, an append-only log) are
  locales, interpreted on the operations of this theory.
\<close>

section \<open>Persisted shapes\<close>

record stored_memory_fact =
  sf_id :: memory_fact_id
  sf_kind :: memory_fact_kind
  sf_subject :: string
  sf_value :: string
  sf_keywords :: "string list"
  sf_related_thread_ids :: "thread_id list"
  sf_citations :: "memory_citation_ref list"
  sf_updated_at :: timestamp
  sf_invalidated_at :: "timestamp option"
  sf_invalidated_by :: "memory_fact_id option"

record stored_topic_record =
  tp_name :: string
  tp_aliases :: "string list"
  tp_summary :: string
  tp_status :: memory_topic_status
  tp_last_active_at :: timestamp
  tp_related_thread_ids :: "thread_id list"
  tp_related_artifact_ids :: "artifact_id list"
  tp_citation_fact_ids :: "memory_fact_id list"
  tp_recent_keywords :: "string list"
  tp_citations :: "memory_citation_ref list"

record global_memory_snapshot =
  gm_identity_summary :: "string option"
  gm_active_state_summary :: "string option"
  gm_active_thread_ids :: "thread_id list"
  gm_recent_topics :: "string list"
  gm_recent_keywords :: "string list"
  gm_facts :: "stored_memory_fact list"
  gm_topic_index :: "stored_topic_record list"
  gm_relationships :: "relationship_entry list"
  gm_default_stranger_boundary :: info_boundary

definition empty_snapshot :: global_memory_snapshot where
  "empty_snapshot =
     \<lparr>gm_identity_summary = None, gm_active_state_summary = None, gm_active_thread_ids = [],
      gm_recent_topics = [], gm_recent_keywords = [], gm_facts = [], gm_topic_index = [],
      gm_relationships = [], gm_default_stranger_boundary = info_boundary_stranger_default\<rparr>"

record turn_log_entry =
  le_thread_id :: thread_id
  le_sequence :: "64 word"
  le_turn_id :: "turn_id option"
  le_recorded_at :: timestamp
  le_event :: string
  le_summary :: string
  le_artifact_ids :: "artifact_id list"

record stored_artifact =
  sa_reference :: artifact_ref
  sa_body :: string

record node_registry_snapshot =
  rg_nodes :: "node_record list"
  rg_workspace_mounts :: "workspace_mount list"

section \<open>The files\<close>

record fs =
  fs_threads :: "(thread_id, thread) dict"
  fs_turn_logs :: "(thread_id, turn_log_entry list) dict"
  fs_checkpoints :: "(checkpoint_id, checkpoint) dict"
  fs_artifacts :: "(artifact_id, stored_artifact) dict"
  fs_global_memory :: "global_memory_snapshot option"
  fs_auth_profiles :: "provider_auth_profile list option"
  fs_node_registry :: "node_registry_snapshot option"
  io_fault :: "nat \<Rightarrow> storage_error option"
  io_count :: nat

definition thread_of :: "fs \<Rightarrow> thread_id \<Rightarrow> thread option" where
  "thread_of f = map_of (fs_threads f)"

definition set_thread :: "thread \<Rightarrow> fs \<Rightarrow> fs" where
  "set_thread t f = f\<lparr>fs_threads := AList.update (th_id t) t (fs_threads f)\<rparr>"

definition log_of :: "fs \<Rightarrow> thread_id \<Rightarrow> turn_log_entry list" where
  "log_of f k = unwrap_or [] (map_of (fs_turn_logs f) k)"

definition add_log_entry :: "turn_log_entry \<Rightarrow> fs \<Rightarrow> fs" where
  "add_log_entry e f =
     f\<lparr>fs_turn_logs := AList.update (le_thread_id e) (log_of f (le_thread_id e) @ [e])
         (fs_turn_logs f)\<rparr>"

definition checkpoint_of :: "fs \<Rightarrow> checkpoint_id \<Rightarrow> checkpoint option" where
  "checkpoint_of f = map_of (fs_checkpoints f)"

definition set_checkpoint :: "checkpoint \<Rightarrow> fs \<Rightarrow> fs" where
  "set_checkpoint c f = f\<lparr>fs_checkpoints := AList.update (cp_id c) c (fs_checkpoints f)\<rparr>"

definition artifact_of :: "fs \<Rightarrow> artifact_id \<Rightarrow> stored_artifact option" where
  "artifact_of f = map_of (fs_artifacts f)"

definition set_artifact :: "stored_artifact \<Rightarrow> fs \<Rightarrow> fs" where
  "set_artifact a f =
     f\<lparr>fs_artifacts := AList.update (ar_id (sa_reference a)) a (fs_artifacts f)\<rparr>"

definition memory_of :: "fs \<Rightarrow> global_memory_snapshot" where
  "memory_of f = unwrap_or empty_snapshot (fs_global_memory f)"

definition set_memory :: "global_memory_snapshot \<Rightarrow> fs \<Rightarrow> fs" where
  "set_memory m f = f\<lparr>fs_global_memory := Some m\<rparr>"

definition profiles_of :: "fs \<Rightarrow> provider_auth_profile list" where
  "profiles_of f = unwrap_or [] (fs_auth_profiles f)"

definition set_profiles :: "provider_auth_profile list \<Rightarrow> fs \<Rightarrow> fs" where
  "set_profiles ps f = f\<lparr>fs_auth_profiles := Some ps\<rparr>"

definition registry_of :: "fs \<Rightarrow> node_registry_snapshot" where
  "registry_of f = unwrap_or \<lparr>rg_nodes = [], rg_workspace_mounts = []\<rparr> (fs_node_registry f)"

definition set_registry :: "node_registry_snapshot \<Rightarrow> fs \<Rightarrow> fs" where
  "set_registry r f = f\<lparr>fs_node_registry := Some r\<rparr>"

text \<open>\<open>list_json_files\<close> sorts the paths, so threads are listed in the order of their file names.\<close>

definition threads_of :: "fs \<Rightarrow> thread list" where
  "threads_of f = map snd (sort_by (le_on (\<lambda>(k, t). k @ ''.json'')) (fs_threads f))"

section \<open>The interfaces\<close>

locale keyed_store =
  fixes key :: "'v \<Rightarrow> 'k" and get :: "'s \<Rightarrow> 'k \<Rightarrow> 'v option" and put :: "'v \<Rightarrow> 's \<Rightarrow> 's"
  assumes get_put: "get (put v s) k = (if k = key v then Some v else get s k)"
begin

lemma get_put_same: "get (put v s) (key v) = Some v"
  by (simp add: get_put)

lemma get_put_other: "k \<noteq> key v \<Longrightarrow> get (put v s) k = get s k"
  by (simp add: get_put)

lemma put_put: "key v = key w \<Longrightarrow> get (put w (put v s)) k = get (put w s) k"
  by (simp add: get_put)

lemma put_mono: "get s k \<noteq> None \<Longrightarrow> get (put v s) k \<noteq> None"
  by (simp add: get_put)

lemma get_fold_put:
  "get (fold put vs s) k =
     (case find (\<lambda>v. key v = k) (rev vs) of None \<Rightarrow> get s k | Some v \<Rightarrow> Some v)"
proof (induction vs rule: rev_induct)
  case Nil
  then show ?case by simp
next
  case (snoc v vs)
  then show ?case by (simp add: get_put)
qed

end

locale append_log =
  fixes owner :: "'e \<Rightarrow> 'k" and entries :: "'s \<Rightarrow> 'k \<Rightarrow> 'e list" and append :: "'e \<Rightarrow> 's \<Rightarrow> 's"
  assumes entries_append:
    "entries (append e s) k = (if k = owner e then entries s k @ [e] else entries s k)"
begin

definition extends :: "'s \<Rightarrow> 's \<Rightarrow> bool" where
  "extends s t \<longleftrightarrow> (\<forall>k. \<exists>new. entries t k = entries s k @ new)"

lemma extends_refl: "extends s s"
  by (simp add: extends_def)

lemma extends_trans: "extends s t \<Longrightarrow> extends t u \<Longrightarrow> extends s u"
  unfolding extends_def by (metis append.assoc)

lemma extends_append: "extends s (append e s)"
  by (simp add: extends_def entries_append)

lemma entries_fold_append:
  "entries (fold append es s) k = entries s k @ filter (\<lambda>e. owner e = k) es"
  by (induction es arbitrary: s) (auto simp: entries_append)

end

locale snapshot_store =
  fixes load :: "'s \<Rightarrow> 'v" and save :: "'v \<Rightarrow> 's \<Rightarrow> 's"
  assumes load_save: "load (save v s) = v"
    and save_save: "save w (save v s) = save w s"
begin

lemma last_save_wins: "vs \<noteq> [] \<Longrightarrow> load (fold save vs s) = last vs"
  by (induction vs arbitrary: s) (auto simp: load_save)

lemma save_idem: "save v (save v s) = save v s"
  by (rule save_save)

end

interpretation thread_store: keyed_store th_id thread_of set_thread
  by unfold_locales (simp add: thread_of_def set_thread_def)

interpretation checkpoint_store: keyed_store cp_id checkpoint_of set_checkpoint
  by unfold_locales (simp add: checkpoint_of_def set_checkpoint_def)

interpretation artifact_store: keyed_store "\<lambda>a. ar_id (sa_reference a)" artifact_of set_artifact
  by unfold_locales (simp add: artifact_of_def set_artifact_def)

interpretation turn_log: append_log le_thread_id log_of add_log_entry
  by unfold_locales (simp add: log_of_def add_log_entry_def)

interpretation memory_store: snapshot_store memory_of set_memory
  by unfold_locales (simp_all add: memory_of_def set_memory_def)

interpretation profile_store: snapshot_store profiles_of set_profiles
  by unfold_locales (simp_all add: profiles_of_def set_profiles_def)

interpretation registry_store: snapshot_store registry_of set_registry
  by unfold_locales (simp_all add: registry_of_def set_registry_def)

text \<open>An operation on one kind of file leaves the other kinds alone.\<close>

lemmas file_defs = thread_of_def set_thread_def log_of_def add_log_entry_def checkpoint_of_def
  set_checkpoint_def artifact_of_def set_artifact_def memory_of_def set_memory_def
  profiles_of_def set_profiles_def registry_of_def set_registry_def

lemma file_frames [simp]:
  "thread_of (add_log_entry e f) = thread_of f" "thread_of (set_checkpoint c f) = thread_of f"
  "thread_of (set_artifact a f) = thread_of f" "thread_of (set_memory m f) = thread_of f"
  "thread_of (set_profiles ps f) = thread_of f" "thread_of (set_registry r f) = thread_of f"
  "log_of (set_thread t f) = log_of f" "log_of (set_checkpoint c f) = log_of f"
  "log_of (set_artifact a f) = log_of f" "log_of (set_memory m f) = log_of f"
  "log_of (set_profiles ps f) = log_of f" "log_of (set_registry r f) = log_of f"
  "memory_of (set_thread t f) = memory_of f" "memory_of (add_log_entry e f) = memory_of f"
  "memory_of (set_checkpoint c f) = memory_of f" "memory_of (set_artifact a f) = memory_of f"
  "memory_of (set_profiles ps f) = memory_of f" "memory_of (set_registry r f) = memory_of f"
  by (auto simp: file_defs fun_eq_iff)

lemma io_fields [simp]:
  "io_fault (set_thread t f) = io_fault f" "io_fault (add_log_entry e f) = io_fault f"
  "io_fault (set_checkpoint c f) = io_fault f" "io_fault (set_artifact a f) = io_fault f"
  "io_fault (set_memory m f) = io_fault f" "io_fault (set_profiles ps f) = io_fault f"
  "io_fault (set_registry r f) = io_fault f"
  by (simp_all add: file_defs)

lemma io_count_views [simp]:
  "thread_of (f\<lparr>io_count := n\<rparr>) = thread_of f" "log_of (f\<lparr>io_count := n\<rparr>) = log_of f"
  "checkpoint_of (f\<lparr>io_count := n\<rparr>) = checkpoint_of f"
  "artifact_of (f\<lparr>io_count := n\<rparr>) = artifact_of f" "memory_of (f\<lparr>io_count := n\<rparr>) = memory_of f"
  "profiles_of (f\<lparr>io_count := n\<rparr>) = profiles_of f" "registry_of (f\<lparr>io_count := n\<rparr>) = registry_of f"
  "threads_of (f\<lparr>io_count := n\<rparr>) = threads_of f"
  by (auto simp: file_defs threads_of_def fun_eq_iff)

lemmas store_simps [simp] =
  thread_store.get_put checkpoint_store.get_put artifact_store.get_put turn_log.entries_append
  memory_store.load_save profile_store.load_save registry_store.load_save

end
