(* ===== verification/Stores.thy ===== *)
theory Stores
  imports Storage
begin

text \<open>
  The runtime's access to storage and identifiers: \<open>RuntimeStores\<close> (\<open>runtime/stores.rs\<close>) and
  \<open>IdGenerator\<close> as fallible, state-changing operations over an extensible record
  \<open>runtime_env\<close>, which the managers and the coordinator extend with their own fields.
  The lemmas run each operation, characterise its successes, and give the preservation rules
  from which every invariant of the later theories is derived.
\<close>

record runtime_env =
  stores :: fs
  id_gen :: id_generator

type_synonym ('z, 'a) rt = "(runtime_error, 'z runtime_env_scheme, 'a) run"

definition not_found :: "string \<Rightarrow> string \<Rightarrow> runtime_error" where
  "not_found code message = NotFound code message"

definition invalid_state :: "string \<Rightarrow> string \<Rightarrow> runtime_error" where
  "invalid_state code message = InvalidState code message"

definition thread_not_found :: runtime_error where
  "thread_not_found = not_found ''thread_not_found'' ''thread does not exist''"

definition turn_not_found :: runtime_error where
  "turn_not_found = not_found ''turn_not_found'' ''turn is not running''"

section \<open>I/O operations\<close>

definition tick :: "'z runtime_env_scheme \<Rightarrow> 'z runtime_env_scheme" where
  "tick s = s\<lparr>stores := (stores s)\<lparr>io_count := Suc (io_count (stores s))\<rparr>\<rparr>"

definition io_result :: "'z runtime_env_scheme \<Rightarrow> storage_error option" where
  "io_result s = io_fault (stores s) (io_count (stores s))"

definition io_read :: "(fs \<Rightarrow> 'a) \<Rightarrow> ('z, 'a) rt" where
  "io_read f s =
     (case io_result s of Some e \<Rightarrow> (Inl (Storage e), tick s)
      | None \<Rightarrow> (Inr (f (stores s)), tick s))"

definition io_write :: "(fs \<Rightarrow> fs) \<Rightarrow> ('z, unit) rt" where
  "io_write f s =
     (case io_result s of Some e \<Rightarrow> (Inl (Storage e), tick s)
      | None \<Rightarrow> (Inr (), tick (s\<lparr>stores := f (stores s)\<rparr>)))"

definition put_thread :: "thread \<Rightarrow> ('z, unit) rt" where
  "put_thread t = io_write (set_thread t)"

definition get_thread :: "thread_id \<Rightarrow> ('z, thread option) rt" where
  "get_thread k = io_read (\<lambda>f. thread_of f k)"

definition list_threads_io :: "('z, thread list) rt" where
  "list_threads_io = io_read threads_of"

definition append_turn_log :: "turn_log_entry \<Rightarrow> ('z, unit) rt" where
  "append_turn_log e = io_write (add_log_entry e)"

definition read_turn_log :: "thread_id \<Rightarrow> ('z, turn_log_entry list) rt" where
  "read_turn_log k = io_read (\<lambda>f. log_of f k)"

definition put_checkpoint :: "checkpoint \<Rightarrow> ('z, unit) rt" where
  "put_checkpoint c = io_write (set_checkpoint c)"

definition get_checkpoint :: "checkpoint_id \<Rightarrow> ('z, checkpoint option) rt" where
  "get_checkpoint k = io_read (\<lambda>f. checkpoint_of f k)"

definition read_global_memory :: "('z, global_memory_snapshot) rt" where
  "read_global_memory = io_read memory_of"

definition write_global_memory :: "global_memory_snapshot \<Rightarrow> ('z, unit) rt" where
  "write_global_memory m = io_write (set_memory m)"

definition put_artifact :: "stored_artifact \<Rightarrow> ('z, unit) rt" where
  "put_artifact a = io_write (set_artifact a)"

definition get_artifact :: "artifact_id \<Rightarrow> ('z, stored_artifact option) rt" where
  "get_artifact k = io_read (\<lambda>f. artifact_of f k)"

definition read_auth_profiles :: "('z, provider_auth_profile list) rt" where
  "read_auth_profiles = io_read profiles_of"

definition write_auth_profiles :: "provider_auth_profile list \<Rightarrow> ('z, unit) rt" where
  "write_auth_profiles ps = io_write (set_profiles ps)"

definition read_node_registry :: "('z, node_registry_snapshot) rt" where
  "read_node_registry = io_read registry_of"

definition write_node_registry :: "node_registry_snapshot \<Rightarrow> ('z, unit) rt" where
  "write_node_registry r = io_write (set_registry r)"

lemmas io_op_defs = put_thread_def get_thread_def list_threads_io_def append_turn_log_def
  read_turn_log_def put_checkpoint_def get_checkpoint_def read_global_memory_def
  write_global_memory_def put_artifact_def get_artifact_def read_auth_profiles_def
  write_auth_profiles_def read_node_registry_def write_node_registry_def

text \<open>The generator's methods, as steps of the runtime.\<close>

definition draw :: "(id_generator \<Rightarrow> 'a \<times> id_generator) \<Rightarrow> ('z, 'a) rt" where
  "draw f s = (let (a, g) = f (id_gen s) in (Inr a, s\<lparr>id_gen := g\<rparr>))"

section \<open>Running the operations\<close>

lemma tick_views [simp]:
  "thread_of (stores (tick s)) = thread_of (stores s)" "log_of (stores (tick s)) = log_of (stores s)"
  "memory_of (stores (tick s)) = memory_of (stores s)"
  "checkpoint_of (stores (tick s)) = checkpoint_of (stores s)"
  "artifact_of (stores (tick s)) = artifact_of (stores s)"
  "profiles_of (stores (tick s)) = profiles_of (stores s)"
  "registry_of (stores (tick s)) = registry_of (stores s)"
  "threads_of (stores (tick s)) = threads_of (stores s)"
  "id_gen (tick s) = id_gen s" "runtime_env.more (tick s) = runtime_env.more s"
  "io_fault (stores (tick s)) = io_fault (stores s)"
  by (simp_all add: tick_def)

lemma io_read_Inr_iff:
  "io_read f s = (Inr a, t) \<longleftrightarrow> io_result s = None \<and> a = f (stores s) \<and> t = tick s"
  by (auto simp: io_read_def split: option.splits)

lemma io_write_Inr_iff:
  "io_write f s = (Inr u, t) \<longleftrightarrow>
     io_result s = None \<and> t = tick (s\<lparr>stores := f (stores s)\<rparr>)"
  by (auto simp: io_write_def split: option.splits)

lemma draw_Inr_iff:
  "draw f s = (Inr a, t) \<longleftrightarrow> a = fst (f (id_gen s)) \<and> t = s\<lparr>id_gen := snd (f (id_gen s))\<rparr>"
  by (auto simp: draw_def Let_def split: prod.splits)

lemmas store_iffs = io_read_Inr_iff io_write_Inr_iff draw_Inr_iff

text \<open>The result of a read depends on the files only, so reads are never the source of an effect.\<close>

lemma io_read_frame: "snd (io_read f s) = tick s"
  by (simp add: io_read_def split: option.splits)

text \<open>Without I/O faults every operation succeeds.\<close>

definition reliable :: "'z runtime_env_scheme \<Rightarrow> bool" where
  "reliable s \<longleftrightarrow> io_fault (stores s) = (\<lambda>_. None)"

lemma reliable_result [simp]: "reliable s \<Longrightarrow> io_result s = None"
  by (simp add: reliable_def io_result_def)

lemma io_read_reliable [run_simps]: "reliable s \<Longrightarrow> io_read f s = (Inr (f (stores s)), tick s)"
  by (simp add: io_read_def)

lemma io_write_reliable [run_simps]:
  "reliable s \<Longrightarrow> io_write f s = (Inr (), tick (s\<lparr>stores := f (stores s)\<rparr>))"
  by (simp add: io_write_def)

lemma draw_run [run_simps]:
  "draw f s = (Inr (fst (f (id_gen s))), s\<lparr>id_gen := snd (f (id_gen s))\<rparr>)"
  by (simp add: draw_def split_beta Let_def)

lemma reliable_tick [simp]: "reliable (tick s) = reliable s"
  by (simp add: reliable_def)

lemma reliable_stores [simp]:
  "io_fault f = io_fault (stores s) \<Longrightarrow> reliable (s\<lparr>stores := f\<rparr>) = reliable s"
  by (simp add: reliable_def)

lemma reliable_id_gen [simp]: "reliable (s\<lparr>id_gen := g\<rparr>) = reliable s"
  by (simp add: reliable_def)

section \<open>Preservation\<close>

lemma keeps_io_read:
  assumes "\<And>s. I s \<Longrightarrow> I (tick s)"
  shows "keeps I (io_read f)"
  using assms by (auto simp: keeps_def io_read_frame)

lemma keeps_io_write:
  assumes "\<And>s. I s \<Longrightarrow> I (tick s)" and "\<And>s. I s \<Longrightarrow> I (tick (s\<lparr>stores := f (stores s)\<rparr>))"
  shows "keeps I (io_write f)"
  using assms by (auto simp: keeps_def io_write_def split: option.splits)

lemma keeps_draw:
  assumes "\<And>s g. I s \<Longrightarrow> I (s\<lparr>id_gen := g\<rparr>)"
  shows "keeps I (draw f)"
  using assms by (auto simp: keeps_def draw_run)

text \<open>A predicate on the state that reads neither files nor the generator survives all of them.\<close>

definition env_free :: "('z runtime_env_scheme \<Rightarrow> bool) \<Rightarrow> bool" where
  "env_free I \<longleftrightarrow> (\<forall>s f g. I (s\<lparr>stores := f, id_gen := g\<rparr>) = I s)"

lemma env_freeD: "env_free I \<Longrightarrow> I (s\<lparr>stores := f\<rparr>) = I s" "env_free I \<Longrightarrow> I (s\<lparr>id_gen := g\<rparr>) = I s"
proof -
  assume "env_free I"
  then have all: "I (r\<lparr>stores := f, id_gen := g\<rparr>) = I r" for r f g by (simp add: env_free_def)
  show "I (s\<lparr>stores := f\<rparr>) = I s" using all [where r = s and f = f and g = "id_gen s"] by simp
  show "I (s\<lparr>id_gen := g\<rparr>) = I s" using all [where r = s and f = "stores s" and g = g] by simp
qed

lemma env_free_tick: "env_free I \<Longrightarrow> I (tick s) = I s"
  by (simp add: tick_def env_freeD)

lemma keeps_env_free:
  assumes "env_free I"
  shows "keeps I (io_read f)" and "keeps I (io_write h)" and "keeps I (draw d)"
  using assms by (auto intro!: keeps_io_read keeps_io_write keeps_draw simp: env_free_tick env_freeD)

text \<open>Logs only grow: every operation of the runtime extends each thread's log.\<close>

definition logs_extend :: "'z runtime_env_scheme \<Rightarrow> 'z runtime_env_scheme \<Rightarrow> bool" where
  "logs_extend s t \<longleftrightarrow> turn_log.extends (stores s) (stores t)"

interpretation log_order: progress_order logs_extend
  by unfold_locales (auto simp: logs_extend_def turn_log.extends_refl intro: turn_log.extends_trans)

lemma logs_extend_frame: "log_of (stores t) = log_of (stores s) \<Longrightarrow> logs_extend s t"
  by (simp add: logs_extend_def turn_log.extends_def)

lemma logs_advance_io:
  "advances logs_extend (io_read f)"
  "(\<And>g. log_of (h g) = log_of g) \<Longrightarrow> advances logs_extend (io_write h)"
  "advances logs_extend (io_write (add_log_entry e))"
  "advances logs_extend (draw d)"
  by (auto simp: advances_def io_read_frame io_write_def draw_run logs_extend_def
      turn_log.extends_def split: option.splits)

lemma logs_advance_ops [advances_rules]:
  "advances logs_extend (put_thread t)" "advances logs_extend (get_thread k)"
  "advances logs_extend list_threads_io" "advances logs_extend (append_turn_log e)"
  "advances logs_extend (read_turn_log k)" "advances logs_extend (put_checkpoint c)"
  "advances logs_extend (get_checkpoint k)" "advances logs_extend read_global_memory"
  "advances logs_extend (write_global_memory m)" "advances logs_extend (put_artifact a)"
  "advances logs_extend (get_artifact k)" "advances logs_extend read_auth_profiles"
  "advances logs_extend (write_auth_profiles ps)" "advances logs_extend read_node_registry"
  "advances logs_extend (write_node_registry r)" "advances logs_extend (draw d)"
  unfolding io_op_defs by (auto intro!: logs_advance_io)

lemmas logs_advance = advances_rules log_order.advances_intros

end
