(* ===== verification/Thread_Manager.thy ===== *)
theory Thread_Manager
  imports Stores
begin

text \<open>
  Thread lifecycle (\<open>runtime/thread_manager.rs\<close>): start, resume and fork a thread, store the
  projection after a turn, and keep the list of active threads of the global memory in step.
  The lemmas give the full effect of each operation on the stored threads and on the list of
  active threads.
\<close>

section \<open>The list of active threads\<close>

definition sync_ids :: "thread_id \<Rightarrow> bool \<Rightarrow> thread_id list \<Rightarrow> thread_id list" where
  "sync_ids k present xs =
     (let kept = filter (\<lambda>x. x \<noteq> k) xs in if present then kept @ [k] else kept)"

definition sync_active_thread_ids :: "thread_id \<Rightarrow> bool \<Rightarrow> ('z, unit) rt" where
  "sync_active_thread_ids k present =
     bindR read_global_memory (\<lambda>m.
     write_global_memory (m\<lparr>gm_active_thread_ids := sync_ids k present (gm_active_thread_ids m)\<rparr>))"

definition update_thread_after_turn :: "thread \<Rightarrow> ('z, unit) rt" where
  "update_thread_after_turn t =
     bindR (put_thread t) (\<lambda>_.
     sync_active_thread_ids (th_id t)
       (th_status t \<noteq> thread_status.Archived \<and> th_status t \<noteq> thread_status.Completed))"

section \<open>Operations\<close>

text \<open>The common end of the three operations that return a thread.\<close>

definition store_and_activate :: "thread \<Rightarrow> ('z, thread) rt" where
  "store_and_activate t =
     bindR (put_thread t) (\<lambda>_.
     bindR (sync_active_thread_ids (th_id t) True) (\<lambda>_. ret t))"

definition thread_title :: "thread_start_request \<Rightarrow> string" where
  "thread_title rq =
     unwrap_or ''Untitled thread''
       (opt_or (opt_filter (\<lambda>v. \<not> blank v) (ts_title rq)) (ts_initial_goal rq))"

definition start_thread :: "thread_start_request \<Rightarrow> ('z, thread) rt" where
  "start_thread rq =
     bindR (draw now_timestamp) (\<lambda>now.
     bindR (draw next_thread_id) (\<lambda>i.
     let t = \<lparr>th_id = i, th_title = thread_title rq, th_status = thread_status.Active,
              th_created_at = now, th_updated_at = now, th_active_goal = ts_initial_goal rq,
              th_active_summary =
                map_option (\<lambda>g. ''New thread initialized for: '' @ g) (ts_initial_goal rq),
              th_last_interruption = None, th_workspace_ref = ts_workspace_ref rq,
              th_workspace_mount_id = ts_workspace_mount_id rq, th_pending_commitments = [],
              th_latest_turn_id = None, th_latest_checkpoint_id = None,
              th_parent_thread_id = None\<rparr>
     in store_and_activate t))"

definition resume_thread :: "thread_id \<Rightarrow> ('z, thread) rt" where
  "resume_thread k =
     bindR (get_thread k) (\<lambda>found.
     bindR (ok_or thread_not_found found) (\<lambda>t0.
     let t = t0\<lparr>th_status := thread_status.Active\<rparr>
     in store_and_activate t))"

definition fork_commitments :: "thread \<Rightarrow> string option \<Rightarrow> string list" where
  "fork_commitments parent reason =
     th_pending_commitments parent
       @ (case reason of None \<Rightarrow> [] | Some r \<Rightarrow> [''Fork created for: '' @ r])"

definition fork_thread :: "thread_fork_request \<Rightarrow> ('z, thread) rt" where
  "fork_thread rq =
     bindR (get_thread (tf_thread_id rq)) (\<lambda>found.
     bindR (ok_or thread_not_found found) (\<lambda>parent.
     bindR (draw now_timestamp) (\<lambda>now.
     bindR (draw next_thread_id) (\<lambda>i.
     let t = \<lparr>th_id = i,
              th_title = unwrap_or (th_title parent @ '' (fork)'')
                (opt_filter (\<lambda>v. \<not> blank v) (tf_title rq)),
              th_status = thread_status.Active, th_created_at = now, th_updated_at = now,
              th_active_goal = th_active_goal parent,
              th_active_summary = Some (case tf_fork_reason rq of
                  Some r \<Rightarrow> ''Forked from '' @ th_title parent @ '' to explore: '' @ r
                | None \<Rightarrow> ''Forked from '' @ th_title parent),
              th_last_interruption = th_last_interruption parent,
              th_workspace_ref = th_workspace_ref parent,
              th_workspace_mount_id = th_workspace_mount_id parent,
              th_pending_commitments = fork_commitments parent (tf_fork_reason rq),
              th_latest_turn_id = None,
              th_latest_checkpoint_id = th_latest_checkpoint_id parent,
              th_parent_thread_id = Some (th_id parent)\<rparr>
     in store_and_activate t))))"

section \<open>What the operations do\<close>

abbreviation active_ids :: "'z runtime_env_scheme \<Rightarrow> thread_id list" where
  "active_ids s \<equiv> gm_active_thread_ids (memory_of (stores s))"

lemma sync_ids_set: "set (sync_ids k p xs) = (if p then insert k (set xs) else set xs - {k})"
  by (auto simp: sync_ids_def Let_def)

lemma sync_ids_distinct: "distinct xs \<Longrightarrow> distinct (sync_ids k p xs)"
  by (auto simp: sync_ids_def Let_def)

lemma sync_ids_idem: "sync_ids k p (sync_ids k p xs) = sync_ids k p xs"
  by (simp add: sync_ids_def Let_def)

lemma sync_active_thread_ids_Inr:
  assumes "sync_active_thread_ids k p s = (Inr u, t)"
  shows "memory_of (stores t) =
      (memory_of (stores s))\<lparr>gm_active_thread_ids := sync_ids k p (active_ids s)\<rparr>
    \<and> thread_of (stores t) = thread_of (stores s)
    \<and> log_of (stores t) = log_of (stores s)
    \<and> runtime_env.more t = runtime_env.more s
    \<and> id_gen t = id_gen s"
  using assms
  by (auto simp: sync_active_thread_ids_def io_op_defs success_iffs store_iffs)

lemma update_thread_after_turn_Inr:
  assumes "update_thread_after_turn x s = (Inr u, t)"
  shows "thread_of (stores t) = (thread_of (stores s))(th_id x \<mapsto> x)
    \<and> log_of (stores t) = log_of (stores s)
    \<and> active_ids t = sync_ids (th_id x)
      (th_status x \<noteq> thread_status.Archived \<and> th_status x \<noteq> thread_status.Completed) (active_ids s)
    \<and> runtime_env.more t = runtime_env.more s
    \<and> id_gen t = id_gen s"
  using assms
  by (auto simp: update_thread_after_turn_def io_op_defs success_iffs store_iffs fun_eq_iff
      dest!: sync_active_thread_ids_Inr)

lemma store_and_activate_Inr:
  assumes "store_and_activate x s = (Inr y, t)"
  shows "y = x \<and> thread_of (stores t) = (thread_of (stores s))(th_id x \<mapsto> x)
    \<and> active_ids t = sync_ids (th_id x) True (active_ids s)
    \<and> log_of (stores t) = log_of (stores s)
    \<and> runtime_env.more t = runtime_env.more s \<and> id_gen t = id_gen s"
  using assms
  by (auto simp: store_and_activate_def io_op_defs success_iffs store_iffs fun_eq_iff
      dest!: sync_active_thread_ids_Inr)

lemma start_thread_Inr:
  assumes "start_thread rq s = (Inr x, t)"
  shows "th_id x = fst (next_thread_id (snd (now_timestamp (id_gen s))))"
    and "th_title x = thread_title rq" and "th_status x = thread_status.Active"
    and "th_active_goal x = ts_initial_goal rq" and "th_pending_commitments x = []"
    and "th_workspace_ref x = ts_workspace_ref rq"
    and "th_workspace_mount_id x = ts_workspace_mount_id rq"
    and "thread_of (stores t) = (thread_of (stores s))(th_id x \<mapsto> x)"
    and "active_ids t = sync_ids (th_id x) True (active_ids s)"
    and "log_of (stores t) = log_of (stores s)"
    and "runtime_env.more t = runtime_env.more s"
  using assms unfolding start_thread_def Let_def bindR_Inr_iff draw_Inr_iff
  by (auto dest!: store_and_activate_Inr)

lemma resume_thread_Inr:
  assumes "resume_thread k s = (Inr x, t)"
  obtains t0 where "thread_of (stores s) k = Some t0" and "x = t0\<lparr>th_status := thread_status.Active\<rparr>"
    and "thread_of (stores t) = (thread_of (stores s))(th_id x \<mapsto> x)"
    and "active_ids t = sync_ids (th_id x) True (active_ids s)"
    and "log_of (stores t) = log_of (stores s)"
    and "runtime_env.more t = runtime_env.more s"
  using assms unfolding resume_thread_def Let_def bindR_Inr_iff ok_or_Inr_iff get_thread_def
    io_read_Inr_iff
  by (auto dest!: store_and_activate_Inr)

lemma fork_thread_Inr:
  assumes "fork_thread rq s = (Inr x, t)"
  obtains parent where "thread_of (stores s) (tf_thread_id rq) = Some parent"
    and "th_id x = fst (next_thread_id (snd (now_timestamp (id_gen s))))"
    and "th_parent_thread_id x = Some (th_id parent)"
    and "th_status x = thread_status.Active"
    and "th_active_goal x = th_active_goal parent"
    and "th_workspace_ref x = th_workspace_ref parent"
    and "th_workspace_mount_id x = th_workspace_mount_id parent"
    and "th_latest_checkpoint_id x = th_latest_checkpoint_id parent"
    and "th_last_interruption x = th_last_interruption parent"
    and "th_latest_turn_id x = None"
    and "th_pending_commitments x = fork_commitments parent (tf_fork_reason rq)"
    and "thread_of (stores t) = (thread_of (stores s))(th_id x \<mapsto> x)"
    and "active_ids t = sync_ids (th_id x) True (active_ids s)"
    and "log_of (stores t) = log_of (stores s)"
    and "runtime_env.more t = runtime_env.more s"
  using assms unfolding fork_thread_def Let_def bindR_Inr_iff ok_or_Inr_iff get_thread_def
    io_read_Inr_iff draw_Inr_iff
  by (auto dest!: store_and_activate_Inr)

lemma logs_advance_thread_manager [advances_rules]:
  "advances logs_extend (sync_active_thread_ids k p)"
  "advances logs_extend (update_thread_after_turn x)"
  "advances logs_extend (store_and_activate x)"
  "advances logs_extend (start_thread rq)" "advances logs_extend (resume_thread k)"
  "advances logs_extend (fork_thread frq)"
  unfolding sync_active_thread_ids_def update_thread_after_turn_def store_and_activate_def
    start_thread_def
    resume_thread_def fork_thread_def Let_def
  by (intro logs_advance)+

end
