(* ===== verification/Turn_Manager.thy ===== *)
theory Turn_Manager
  imports Thread_Manager
begin

text \<open>
  Turn lifecycle (\<open>runtime/turn_manager.rs\<close>): the in-memory table of active turns, the per-thread
  log sequence counters, and the transitions start, cancel, wait for approval, run again,
  complete and fail, each projected onto the stored thread and appended to the thread's log.
  The lemmas give the full effect of each transition and show that each preserves the
  invariant of the table: every turn is stored under its own identifier, is running or waiting,
  and no thread has two.
\<close>

record turn_env = runtime_env +
  active_turns :: "(turn_id, turn) dict"
  next_sequence :: "(thread_id, 64 word) dict"

type_synonym ('z, 'a) trt = "(runtime_error, 'z turn_env_scheme, 'a) run"

section \<open>Operations\<close>

fun map_input_kind :: "turn_input_kind \<Rightarrow> turn_kind" where
  "map_input_kind UserMessage = User"
| "map_input_kind ResumeCommand = User"
| "map_input_kind SteeringNote = Assistant"

definition is_open :: "turn \<Rightarrow> bool" where
  "is_open t \<longleftrightarrow> tn_status t = turn_status.Running \<or> tn_status t = turn_status.WaitingApproval"

definition thread_has_running_turn :: "(turn_id, turn) dict \<Rightarrow> thread_id \<Rightarrow> bool" where
  "thread_has_running_turn turns k \<longleftrightarrow>
     (\<exists>t \<in> set (dict_values turns). tn_thread_id t = k \<and> is_open t)"

definition last_sequence :: "turn_log_entry list \<Rightarrow> 64 word" where
  "last_sequence es = (if es = [] then 0 else le_sequence (last es))"

definition recover_sequence :: "thread_id \<Rightarrow> ('z, 64 word) trt" where
  "recover_sequence k = bindR (read_turn_log k) (\<lambda>es. ret (last_sequence es))"

definition next_sequence_for :: "thread_id \<Rightarrow> ('z, 64 word) trt" where
  "next_sequence_for k =
     bindR (recover_sequence k) (\<lambda>recovered.
     bindR (asks (\<lambda>s. unwrap_or recovered (map_of (next_sequence s) k) + 1)) (\<lambda>n.
     bindR (modify (\<lambda>s. s\<lparr>next_sequence := AList.update k n (next_sequence s)\<rparr>)) (\<lambda>_.
     ret n)))"

text \<open>\<open>stores.append_turn_log(&TurnLogEntry { sequence: self.next_sequence_for(..)?, .. })?\<close>\<close>

definition log_event ::
  "thread_id \<Rightarrow> turn_id \<Rightarrow> timestamp \<Rightarrow> string \<Rightarrow> string \<Rightarrow> ('z, unit) trt" where
  "log_event k i at event summary =
     bindR (next_sequence_for k) (\<lambda>n.
     append_turn_log
       \<lparr>le_thread_id = k, le_sequence = n, le_turn_id = Some i, le_recorded_at = at,
        le_event = event, le_summary = summary, le_artifact_ids = []\<rparr>)"

definition insert_turn :: "turn \<Rightarrow> ('z, unit) trt" where
  "insert_turn t = modify (\<lambda>s. s\<lparr>active_turns := AList.update (tn_id t) t (active_turns s)\<rparr>)"

definition remove_turn :: "turn_id \<Rightarrow> ('z, unit) trt" where
  "remove_turn i = modify (\<lambda>s. s\<lparr>active_turns := AList.delete i (active_turns s)\<rparr>)"

definition find_turn :: "turn_id \<Rightarrow> ('z, turn) trt" where
  "find_turn i =
     bindR (asks (\<lambda>s. map_of (active_turns s) i)) (\<lambda>found. ok_or turn_not_found found)"

text \<open>\<open>get_mut\<close> and an update in place: the entry stays under its key.\<close>

definition set_turn :: "turn_id \<Rightarrow> turn \<Rightarrow> ('z, unit) trt" where
  "set_turn i t = modify (\<lambda>s. s\<lparr>active_turns := AList.update i t (active_turns s)\<rparr>)"

definition require_thread :: "thread_id \<Rightarrow> ('z, thread) rt" where
  "require_thread k =
     bindR (get_thread k) (\<lambda>found. ok_or thread_not_found found)"

definition start_turn :: "thread \<Rightarrow> turn_start_request \<Rightarrow> ('z, turn) trt" where
  "start_turn th rq =
     bindR (asks (\<lambda>s. thread_has_running_turn (active_turns s) (th_id th))) (\<lambda>busy.
     bindR (guard (invalid_state ''turn_already_running'' ''thread already has a running turn'')
       (\<not> busy)) (\<lambda>_.
     bindR (draw now_timestamp) (\<lambda>now.
     let goal = trim (st_input rq) in
     bindR (draw next_turn_id) (\<lambda>i.
     let t = \<lparr>tn_id = i, tn_thread_id = th_id th, tn_kind = map_input_kind (st_input_kind rq),
              tn_status = turn_status.Running, tn_started_at = now, tn_ended_at = None,
              tn_goal = Some goal, tn_summary = Some (''Started turn for: '' @ goal),
              tn_checkpoint_before = th_latest_checkpoint_id th, tn_checkpoint_after = None\<rparr>;
         th' = th\<lparr>th_status := thread_status.Active, th_updated_at := now,
                 th_active_goal := Some goal,
                 th_active_summary := Some (''Currently working on: '' @ goal),
                 th_last_interruption := None, th_latest_turn_id := Some i,
                 th_pending_commitments :=
                   filter (\<lambda>c. \<not> contains c goal) (th_pending_commitments th)\<rparr>
     in bindR (log_event (th_id th) i now ''turn_started'' (''Started turn for: '' @ goal)) (\<lambda>_.
        bindR (update_thread_after_turn th') (\<lambda>_.
        bindR (insert_turn t) (\<lambda>_. ret t)))))))"

definition turn_goal_text :: "turn \<Rightarrow> string" where
  "turn_goal_text t = unwrap_or ''current turn'' (tn_goal t)"

definition push_unless_present :: "string \<Rightarrow> string list \<Rightarrow> string list" where
  "push_unless_present c cs = (if c \<in> set cs then cs else cs @ [c])"

definition cancel_turn :: "turn_cancel_request \<Rightarrow> ('z, turn) trt" where
  "cancel_turn rq =
     bindR (require_thread (tc_thread_id rq)) (\<lambda>th.
     bindR (find_turn (tc_turn_id rq)) (\<lambda>t0.
     bindR (guard (invalid_state ''turn_thread_mismatch''
         ''turn does not belong to the requested thread'')
       (tn_thread_id t0 = tc_thread_id rq)) (\<lambda>_.
     bindR (remove_turn (tc_turn_id rq)) (\<lambda>_.
     bindR (draw now_timestamp) (\<lambda>ended.
     let goal = turn_goal_text t0;
         summary = ''Interrupted before finishing: '' @ goal;
         t = t0\<lparr>tn_status := turn_status.Cancelled, tn_ended_at := Some ended,
               tn_summary := Some summary\<rparr>;
         interruption = ''Interrupted while working on: '' @ goal;
         th' = th\<lparr>th_status := thread_status.Interrupted, th_updated_at := ended,
                 th_active_summary := Some interruption, th_last_interruption := Some interruption,
                 th_pending_commitments :=
                   push_unless_present (''Resume interrupted work: '' @ goal)
                     (th_pending_commitments th),
                 th_latest_turn_id := Some (tn_id t0)\<rparr>
     in bindR (log_event (th_id th) (tn_id t0) ended ''turn_cancelled'' summary) (\<lambda>_.
        bindR (put_thread th') (\<lambda>_. ret t)))))))"

definition read_turn :: "turn_id \<Rightarrow> ('z, turn option) trt" where
  "read_turn i = asks (\<lambda>s. map_of (active_turns s) i)"

definition mark_waiting_approval :: "thread_id \<Rightarrow> turn_id \<Rightarrow> string \<Rightarrow> ('z, turn) trt" where
  "mark_waiting_approval k i reason =
     bindR (require_thread k) (\<lambda>th.
     bindR (draw now_timestamp) (\<lambda>at.
     bindR (find_turn i) (\<lambda>t0.
     let t = t0\<lparr>tn_status := turn_status.WaitingApproval, tn_summary := Some reason\<rparr>;
         th' = th\<lparr>th_status := thread_status.WaitingApproval, th_updated_at := at,
                 th_active_summary := Some (''Waiting approval: '' @ reason),
                 th_latest_turn_id := Some (tn_id t)\<rparr>
     in bindR (set_turn i t) (\<lambda>_.
        bindR (log_event (th_id th) (tn_id t) at ''approval_wait'' reason) (\<lambda>_.
        bindR (put_thread th') (\<lambda>_. ret t))))))"

definition running_summary :: "turn \<Rightarrow> string" where
  "running_summary t = unwrap_or ''Currently working on the requested turn''
     (map_option (\<lambda>g. ''Currently working on: '' @ g) (tn_goal t))"

definition mark_running :: "thread_id \<Rightarrow> turn_id \<Rightarrow> ('z, turn) trt" where
  "mark_running k i =
     bindR (require_thread k) (\<lambda>th.
     bindR (draw now_timestamp) (\<lambda>at.
     bindR (find_turn i) (\<lambda>t0.
     let t = t0\<lparr>tn_status := turn_status.Running\<rparr>;
         th' = th\<lparr>th_status := thread_status.Active, th_updated_at := at,
                 th_active_summary := Some (running_summary t),
                 th_latest_turn_id := Some (tn_id t)\<rparr>
     in bindR (set_turn i t) (\<lambda>_.
        bindR (log_event (th_id th) (tn_id t) at ''approval_resolved''
          ''Approval granted; resuming turn'') (\<lambda>_.
        bindR (put_thread th') (\<lambda>_. ret t))))))"

definition complete_turn :: "thread_id \<Rightarrow> turn_id \<Rightarrow> string \<Rightarrow> ('z, turn) trt" where
  "complete_turn k i final_message =
     bindR (require_thread k) (\<lambda>th.
     bindR (find_turn i) (\<lambda>t0.
     bindR (remove_turn i) (\<lambda>_.
     bindR (draw now_timestamp) (\<lambda>ended.
     let t = t0\<lparr>tn_status := turn_status.Completed, tn_ended_at := Some ended,
               tn_summary := Some final_message\<rparr>;
         th' = th\<lparr>th_status := thread_status.Active, th_updated_at := ended,
                 th_active_summary := Some final_message, th_last_interruption := None,
                 th_latest_turn_id := Some (tn_id t0)\<rparr>
     in bindR (log_event (th_id th) (tn_id t0) ended ''turn_completed'' final_message) (\<lambda>_.
        bindR (put_thread th') (\<lambda>_. ret t))))))"

definition fail_turn :: "thread_id \<Rightarrow> turn_id \<Rightarrow> string \<Rightarrow> ('z, turn) trt" where
  "fail_turn k i message =
     bindR (require_thread k) (\<lambda>th.
     bindR (find_turn i) (\<lambda>t0.
     bindR (remove_turn i) (\<lambda>_.
     bindR (draw now_timestamp) (\<lambda>ended.
     let t = t0\<lparr>tn_status := turn_status.Failed, tn_ended_at := Some ended,
               tn_summary := Some message\<rparr>;
         th' = th\<lparr>th_status := thread_status.Failed, th_updated_at := ended,
                 th_active_summary := Some (''Turn failed: '' @ message),
                 th_latest_turn_id := Some (tn_id t0)\<rparr>
     in bindR (log_event (th_id th) (tn_id t0) ended ''turn_failed'' message) (\<lambda>_.
        bindR (put_thread th') (\<lambda>_. ret t))))))"

lemmas turn_op_defs = start_turn_def cancel_turn_def mark_waiting_approval_def mark_running_def
  complete_turn_def fail_turn_def

section \<open>Logging an event\<close>

definition next_number :: "'z turn_env_scheme \<Rightarrow> thread_id \<Rightarrow> 64 word" where
  "next_number s k =
     unwrap_or (last_sequence (log_of (stores s) k)) (map_of (next_sequence s) k) + 1"

lemma turn_env_views [simp]:
  "active_turns (tick s) = active_turns s" "next_sequence (tick s) = next_sequence s"
  "turn_env.more (tick s) = turn_env.more s"
  "io_result (s\<lparr>active_turns := x\<rparr>) = io_result s"
  "io_result (s\<lparr>next_sequence := y\<rparr>) = io_result s"
  by (simp_all add: tick_def io_result_def)

text \<open>An operation of the layers below leaves the fields of this one alone.\<close>

lemma turn_env_more:
  assumes "runtime_env.more s = runtime_env.more t"
  shows "active_turns s = active_turns t \<and> next_sequence s = next_sequence t
    \<and> turn_env.more s = turn_env.more t"
  using assms by (cases s; cases t; simp)

lemma log_event_Inr:
  assumes "log_event k i at event summary s = (Inr u, t)"
  shows "log_of (stores t) = (log_of (stores s))(k := log_of (stores s) k @
        [\<lparr>le_thread_id = k, le_sequence = next_number s k, le_turn_id = Some i,
          le_recorded_at = at, le_event = event, le_summary = summary, le_artifact_ids = []\<rparr>])
    \<and> next_sequence t = AList.update k (next_number s k) (next_sequence s)
    \<and> thread_of (stores t) = thread_of (stores s) \<and> memory_of (stores t) = memory_of (stores s)
    \<and> active_turns t = active_turns s \<and> id_gen t = id_gen s \<and> turn_env.more t = turn_env.more s"
  using assms
  by (auto simp: log_event_def next_sequence_for_def recover_sequence_def io_op_defs next_number_def
      success_iffs store_iffs fun_eq_iff)

lemma require_thread_Inr:
  "require_thread k s = (Inr th, t) \<longleftrightarrow>
     io_result s = None \<and> thread_of (stores s) k = Some th \<and> t = tick s"
  by (auto simp: require_thread_def get_thread_def success_iffs store_iffs)

lemma find_turn_Inr: "find_turn i s = (Inr x, t) \<longleftrightarrow> map_of (active_turns s) i = Some x \<and> t = s"
  by (auto simp: find_turn_def success_iffs)

lemmas turn_table_defs = insert_turn_def remove_turn_def set_turn_def

section \<open>The effect of each transition\<close>

text \<open>The log entry and the counter of a transition that logs one event and stores the thread.\<close>

definition entry_for ::
  "'z turn_env_scheme \<Rightarrow> thread_id \<Rightarrow> turn_id \<Rightarrow> timestamp \<Rightarrow> string \<Rightarrow> string \<Rightarrow> turn_log_entry" where
  "entry_for s k i at event summary =
     \<lparr>le_thread_id = k, le_sequence = next_number s k, le_turn_id = Some i,
      le_recorded_at = at, le_event = event, le_summary = summary, le_artifact_ids = []\<rparr>"

definition logged ::
  "'z turn_env_scheme \<Rightarrow> 'z turn_env_scheme \<Rightarrow> thread_id \<Rightarrow> turn_log_entry \<Rightarrow> bool" where
  "logged s t k e \<longleftrightarrow>
     log_of (stores t) = (log_of (stores s))(k := log_of (stores s) k @ [e])
     \<and> next_sequence t = AList.update k (next_number s k) (next_sequence s)"

lemma next_number_frame [simp]:
  "next_number (tick s) k = next_number s k"
  "next_number (s\<lparr>active_turns := d\<rparr>) k = next_number s k"
  "next_number (s\<lparr>id_gen := g\<rparr>) k = next_number s k"
  by (simp_all add: next_number_def)

lemma start_turn_Inr:
  assumes "start_turn th rq s = (Inr t, s')"
  shows "\<not> thread_has_running_turn (active_turns s) (th_id th)
    \<and> tn_thread_id t = th_id th \<and> tn_status t = turn_status.Running
    \<and> tn_goal t = Some (trim (st_input rq)) \<and> tn_checkpoint_before t = th_latest_checkpoint_id th
    \<and> tn_id t = fst (next_turn_id (snd (now_timestamp (id_gen s))))
    \<and> active_turns s' = AList.update (tn_id t) t (active_turns s)
    \<and> logged s s' (th_id th) (entry_for s (th_id th) (tn_id t) (tn_started_at t) ''turn_started''
        (''Started turn for: '' @ trim (st_input rq)))
    \<and> thread_of (stores s') = (thread_of (stores s))(th_id th \<mapsto> th\<lparr>
        th_status := thread_status.Active, th_updated_at := tn_started_at t,
        th_active_goal := Some (trim (st_input rq)),
        th_active_summary := Some (''Currently working on: '' @ trim (st_input rq)),
        th_last_interruption := None, th_latest_turn_id := Some (tn_id t),
        th_pending_commitments :=
          filter (\<lambda>c. \<not> contains c (trim (st_input rq))) (th_pending_commitments th)\<rparr>)
    \<and> active_ids s' = sync_ids (th_id th) True (active_ids s)"
  using assms unfolding start_turn_def Let_def success_iffs store_iffs
  by (auto simp: insert_turn_def success_iffs logged_def entry_for_def
      dest!: log_event_Inr update_thread_after_turn_Inr turn_env_more)

text \<open>The three transitions that close a turn, and the two that move it.\<close>

lemma cancel_turn_Inr:
  assumes "cancel_turn rq s = (Inr t, s')"
  shows "\<exists>th t0. thread_of (stores s) (tc_thread_id rq) = Some th
    \<and> map_of (active_turns s) (tc_turn_id rq) = Some t0 \<and> tn_thread_id t0 = tc_thread_id rq
    \<and> (\<exists>ended. t = t0\<lparr>tn_status := turn_status.Cancelled, tn_ended_at := Some ended,
          tn_summary := Some (''Interrupted before finishing: '' @ turn_goal_text t0)\<rparr>
      \<and> active_turns s' = AList.delete (tc_turn_id rq) (active_turns s)
      \<and> logged s s' (th_id th) (entry_for s (th_id th) (tn_id t0) ended ''turn_cancelled''
          (''Interrupted before finishing: '' @ turn_goal_text t0))
      \<and> thread_of (stores s') = (thread_of (stores s))(th_id th \<mapsto> th\<lparr>
          th_status := thread_status.Interrupted, th_updated_at := ended,
          th_active_summary := Some (''Interrupted while working on: '' @ turn_goal_text t0),
          th_last_interruption := Some (''Interrupted while working on: '' @ turn_goal_text t0),
          th_pending_commitments :=
            push_unless_present (''Resume interrupted work: '' @ turn_goal_text t0)
              (th_pending_commitments th),
          th_latest_turn_id := Some (tn_id t0)\<rparr>)
      \<and> memory_of (stores s') = memory_of (stores s))"
  using assms unfolding cancel_turn_def Let_def success_iffs store_iffs require_thread_Inr
    find_turn_Inr
  by (auto simp: remove_turn_def put_thread_def success_iffs store_iffs logged_def entry_for_def
      fun_eq_iff dest!: log_event_Inr)

lemma complete_turn_Inr:
  assumes "complete_turn k i msg s = (Inr t, s')"
  shows "\<exists>th t0 ended. thread_of (stores s) k = Some th \<and> map_of (active_turns s) i = Some t0
    \<and> t = t0\<lparr>tn_status := turn_status.Completed, tn_ended_at := Some ended, tn_summary := Some msg\<rparr>
    \<and> active_turns s' = AList.delete i (active_turns s)
    \<and> logged s s' (th_id th) (entry_for s (th_id th) (tn_id t0) ended ''turn_completed'' msg)
    \<and> thread_of (stores s') = (thread_of (stores s))(th_id th \<mapsto> th\<lparr>
        th_status := thread_status.Active, th_updated_at := ended,
        th_active_summary := Some msg, th_last_interruption := None,
        th_latest_turn_id := Some (tn_id t0)\<rparr>)
    \<and> memory_of (stores s') = memory_of (stores s)"
  using assms unfolding complete_turn_def Let_def success_iffs store_iffs require_thread_Inr
    find_turn_Inr
  by (auto simp: remove_turn_def put_thread_def success_iffs store_iffs logged_def entry_for_def
      fun_eq_iff dest!: log_event_Inr)

lemma fail_turn_Inr:
  assumes "fail_turn k i msg s = (Inr t, s')"
  shows "\<exists>th t0 ended. thread_of (stores s) k = Some th \<and> map_of (active_turns s) i = Some t0
    \<and> t = t0\<lparr>tn_status := turn_status.Failed, tn_ended_at := Some ended, tn_summary := Some msg\<rparr>
    \<and> active_turns s' = AList.delete i (active_turns s)
    \<and> logged s s' (th_id th) (entry_for s (th_id th) (tn_id t0) ended ''turn_failed'' msg)
    \<and> thread_of (stores s') = (thread_of (stores s))(th_id th \<mapsto> th\<lparr>
        th_status := thread_status.Failed, th_updated_at := ended,
        th_active_summary := Some (''Turn failed: '' @ msg),
        th_latest_turn_id := Some (tn_id t0)\<rparr>)
    \<and> memory_of (stores s') = memory_of (stores s)"
  using assms unfolding fail_turn_def Let_def success_iffs store_iffs require_thread_Inr
    find_turn_Inr
  by (auto simp: remove_turn_def put_thread_def success_iffs store_iffs logged_def entry_for_def
      fun_eq_iff dest!: log_event_Inr)

lemma mark_waiting_approval_Inr:
  assumes "mark_waiting_approval k i reason s = (Inr t, s')"
  shows "\<exists>th t0 at. thread_of (stores s) k = Some th \<and> map_of (active_turns s) i = Some t0
    \<and> t = t0\<lparr>tn_status := turn_status.WaitingApproval, tn_summary := Some reason\<rparr>
    \<and> active_turns s' = AList.update i t (active_turns s)
    \<and> logged s s' (th_id th) (entry_for s (th_id th) (tn_id t0) at ''approval_wait'' reason)
    \<and> thread_of (stores s') = (thread_of (stores s))(th_id th \<mapsto> th\<lparr>
        th_status := thread_status.WaitingApproval, th_updated_at := at,
        th_active_summary := Some (''Waiting approval: '' @ reason),
        th_latest_turn_id := Some (tn_id t0)\<rparr>)
    \<and> memory_of (stores s') = memory_of (stores s)"
  using assms unfolding mark_waiting_approval_def Let_def success_iffs store_iffs
    require_thread_Inr find_turn_Inr
  by (auto simp: set_turn_def put_thread_def success_iffs store_iffs logged_def entry_for_def
      fun_eq_iff dest!: log_event_Inr)

lemma mark_running_Inr:
  assumes "mark_running k i s = (Inr t, s')"
  shows "\<exists>th t0 at. thread_of (stores s) k = Some th \<and> map_of (active_turns s) i = Some t0
    \<and> t = t0\<lparr>tn_status := turn_status.Running\<rparr>
    \<and> active_turns s' = AList.update i t (active_turns s)
    \<and> logged s s' (th_id th) (entry_for s (th_id th) (tn_id t0) at ''approval_resolved''
        ''Approval granted; resuming turn'')
    \<and> thread_of (stores s') = (thread_of (stores s))(th_id th \<mapsto> th\<lparr>
        th_status := thread_status.Active, th_updated_at := at,
        th_active_summary := Some (running_summary t),
        th_latest_turn_id := Some (tn_id t0)\<rparr>)
    \<and> memory_of (stores s') = memory_of (stores s)"
  using assms unfolding mark_running_def Let_def success_iffs store_iffs
    require_thread_Inr find_turn_Inr
  by (auto simp: set_turn_def put_thread_def success_iffs store_iffs logged_def entry_for_def
      fun_eq_iff dest!: log_event_Inr)

section \<open>The table of active turns\<close>

text \<open>
  What any operation may do to the table, whatever its outcome: nothing, open a turn on a thread
  that has none, change an open turn in place, or drop one.
\<close>

inductive table_step :: "(turn_id, turn) dict \<Rightarrow> (turn_id, turn) dict \<Rightarrow> bool" where
  opens: "\<not> thread_has_running_turn d (tn_thread_id t) \<Longrightarrow> is_open t \<Longrightarrow>
    table_step d (AList.update (tn_id t) t d)"
| changes: "map_of d i = Some t0 \<Longrightarrow> is_open t \<Longrightarrow> tn_id t = tn_id t0 \<Longrightarrow>
    tn_thread_id t = tn_thread_id t0 \<Longrightarrow> table_step d (AList.update i t d)"
| closes: "table_step d (AList.delete i d)"

inductive_cases table_stepE: "table_step d e"

definition table_ok :: "(turn_id, turn) dict \<Rightarrow> bool" where
  "table_ok d \<longleftrightarrow> wf_dict d
     \<and> (\<forall>i t. map_of d i = Some t \<longrightarrow> tn_id t = i \<and> is_open t)
     \<and> (\<forall>i j t u. map_of d i = Some t \<longrightarrow> map_of d j = Some u \<longrightarrow>
          tn_thread_id t = tn_thread_id u \<longrightarrow> i = j)"

lemma has_running_iff:
  "wf_dict d \<Longrightarrow> thread_has_running_turn d k \<longleftrightarrow>
     (\<exists>i t. map_of d i = Some t \<and> tn_thread_id t = k \<and> is_open t)"
  by (simp add: thread_has_running_turn_def Bex_def dict_values_iff) blast

lemma table_ok_Nil: "table_ok []"
  by (simp add: table_ok_def)

lemma table_step_ok: "table_step d e \<Longrightarrow> table_ok d \<Longrightarrow> table_ok e"
proof (erule table_stepE)
  fix t
  assume ok: "table_ok d" and e: "e = AList.update (tn_id t) t d"
    and idle: "\<not> thread_has_running_turn d (tn_thread_id t)" and "is_open t"
  then show "table_ok e"
    by (auto simp: table_ok_def has_running_iff split: if_splits)
next
  fix i t0 t
  assume "table_ok d" and "e = AList.update i t d" and "map_of d i = Some t0" and "is_open t"
    and "tn_id t = tn_id t0" and "tn_thread_id t = tn_thread_id t0"
  then show "table_ok e"
    unfolding table_ok_def by (auto split: if_splits)
next
  fix i
  assume "table_ok d" and "e = AList.delete i d"
  then show "table_ok e"
    by (auto simp: table_ok_def split: if_splits)
qed

definition table_advances :: "'z turn_env_scheme \<Rightarrow> 'z turn_env_scheme \<Rightarrow> bool" where
  "table_advances s t \<longleftrightarrow> table_step\<^sup>*\<^sup>* (active_turns s) (active_turns t)"

interpretation table_order: progress_order table_advances
  by unfold_locales (auto simp: table_advances_def)

lemma table_advances_ok: "table_advances s t \<Longrightarrow> table_ok (active_turns s) \<Longrightarrow> table_ok (active_turns t)"
  unfolding table_advances_def
  by (induction rule: rtranclp_induct) (auto intro: table_step_ok)

text \<open>Files, identifiers and counters do not touch the table.\<close>

definition same_table :: "'z turn_env_scheme \<Rightarrow> 'z turn_env_scheme \<Rightarrow> bool" where
  "same_table s t \<longleftrightarrow> active_turns t = active_turns s"

interpretation table_frame: progress_order same_table
  by unfold_locales (auto simp: same_table_def)

lemma same_tableD [simp]: "advances same_table m \<Longrightarrow> active_turns (snd (m s)) = active_turns s"
  by (simp add: advances_def same_table_def)

lemma same_table_advances: "advances same_table m \<Longrightarrow> advances table_advances m"
  by (simp add: advances_def same_table_def table_advances_def)

lemma same_table_io:
  "advances same_table (io_read f)" "advances same_table (io_write h)"
  "advances same_table (draw g)"
  "advances same_table (modify (\<lambda>s. s\<lparr>next_sequence := n s\<rparr>))"
  by (auto simp: advances_def same_table_def io_read_def io_write_def run_simps split: option.splits)

lemmas same_table_intros = same_table_io table_frame.advances_intros

lemma same_table_ops [simp]:
  "advances same_table (get_thread k)" "advances same_table (put_thread x)"
  "advances same_table (require_thread k)" "advances same_table (log_event k i at event summary)"
  "advances same_table (update_thread_after_turn x)" "advances same_table (draw g)"
  unfolding io_op_defs require_thread_def log_event_def next_sequence_for_def
    recover_sequence_def update_thread_after_turn_def sync_active_thread_ids_def
  by (intro same_table_intros)+

lemma find_turn_run:
  "find_turn i s = (case map_of (active_turns s) i of None \<Rightarrow> (Inl turn_not_found, s) | Some t \<Rightarrow> (Inr t, s))"
  by (simp add: find_turn_def run_simps split: option.splits)

lemma opens_at:
  "i = tn_id t \<Longrightarrow> \<not> thread_has_running_turn d (tn_thread_id t) \<Longrightarrow> is_open t \<Longrightarrow>
   table_step d (AList.update i t d)"
  by (simp add: opens)

lemma changes_at:
  assumes "map_of d i = Some t0"
  shows "table_step d (AList.update i
      (t0\<lparr>tn_status := turn_status.WaitingApproval, tn_summary := x\<rparr>) d)"
    and "table_step d (AList.update i (t0\<lparr>tn_status := turn_status.Running\<rparr>) d)"
  using assms by (auto intro!: changes simp: is_open_def)

lemma table_advances_turn_manager [advances_rules]:
  "advances table_advances (start_turn th rq)"
  "advances table_advances (cancel_turn crq)"
  "advances table_advances (complete_turn k i msg)"
  "advances table_advances (fail_turn k i msg)"
  "advances table_advances (mark_waiting_approval k i msg)"
  "advances table_advances (mark_running k i)"
  unfolding advances_def table_advances_def turn_op_defs Let_def
  by (auto simp: run_simps guard_def turn_table_defs find_turn_run is_open_def
      split: sum.splits option.splits intro!: r_into_rtranclp opens_at changes_at closes)

lemma logs_advance_log_event:
  "advances logs_extend (log_event k i at event summary)"
  "advances logs_extend (modify (\<lambda>s. s\<lparr>active_turns := f s\<rparr>))"
  "advances logs_extend (find_turn i)" "advances logs_extend (require_thread k)"
proof -
  have "advances logs_extend (modify (\<lambda>s. s\<lparr>next_sequence := f s\<rparr>))" for f
    by (intro log_order.advances_modify logs_extend_frame) simp
  then show "advances logs_extend (log_event k i at event summary)"
    unfolding log_event_def next_sequence_for_def recover_sequence_def by (intro logs_advance)
  show "advances logs_extend (modify (\<lambda>s. s\<lparr>active_turns := f s\<rparr>))"
    by (intro log_order.advances_modify logs_extend_frame) simp
  show "advances logs_extend (find_turn i)" "advances logs_extend (require_thread k)"
    unfolding find_turn_def require_thread_def by (intro logs_advance)+
qed

lemma logs_advance_turn_manager [advances_rules]:
  "advances logs_extend (start_turn th rq)"
  "advances logs_extend (cancel_turn crq)"
  "advances logs_extend (complete_turn k i msg)"
  "advances logs_extend (fail_turn k i msg)"
  "advances logs_extend (mark_waiting_approval k i msg)"
  "advances logs_extend (mark_running k i)"
  unfolding turn_op_defs Let_def turn_table_defs by (intro logs_advance advances_rules logs_advance_log_event)+

end
