(* ===== verification/Node_Registry.thy ===== *)
theory Node_Registry
  imports Stores
begin

text \<open>
  The registry of nodes and workspace mounts (\<open>runtime/node_registry.rs\<close>). The facts the local
  node reads from its build and its host (version, operating system, host name) are the record
  \<open>host_info\<close>, an argument of the definitions that use it. The lemmas show that the local node
  is always registered, that every record is stored under its own identifier, that the search for
  a fresh mount identifier ends with an unused one, and that a snapshot restores the registry.
\<close>

record host_info =
  hi_app_version :: string
  hi_os :: string
  hi_hostname :: "string option"

record node_registry =
  reg_nodes :: "(node_id, node_record) dict"
  reg_mounts :: "(workspace_mount_id, workspace_mount) dict"

section \<open>Operations\<close>

definition local_node_record :: "host_info \<Rightarrow> node_record" where
  "local_node_record h =
     \<lparr>nr_identity = \<lparr>ni_node_id = ''local'', ni_display_name = ''Local device'',
        ni_kind = Desktop, ni_owner_device = True\<rparr>,
      nr_status = \<lparr>ns_online = True, ns_last_seen_at = None,
        ns_app_version = Some (hi_app_version h), ns_os = Some (hi_os h),
        ns_hostname = hi_hostname h\<rparr>,
      nr_capabilities = \<lparr>nc_workspace_tools = True, nc_shell_tools = True,
        nc_browser_tools = False, nc_web_ui_host = True, nc_notifications = False,
        nc_max_concurrent_tasks = 1,
        nc_supported_sandbox_modes = [WorkspaceWrite, DangerFullAccess]\<rparr>,
      nr_policy = \<lparr>np_allowed_roots = [], np_protected_paths = [],
        np_default_sandbox = WorkspaceWrite, np_network_policy = ''inherit-local'',
        np_approval_policy = OnRequest\<rparr>\<rparr>"

definition default_registry :: "host_info \<Rightarrow> node_registry" where
  "default_registry h =
     \<lparr>reg_nodes = [(''local'', local_node_record h)], reg_mounts = []\<rparr>"

text \<open>\<open>into_iter().map(|x| (key, x)).collect::<HashMap<_, _>>()\<close>: the last entry of a key wins.\<close>

definition dict_by :: "('v \<Rightarrow> 'k) \<Rightarrow> 'v list \<Rightarrow> ('k, 'v) dict" where
  "dict_by key xs = fold (\<lambda>x. AList.update (key x) x) xs []"

definition refreshed_local :: "host_info \<Rightarrow> node_record option \<Rightarrow> node_record" where
  "refreshed_local h persisted =
     (case persisted of
        Some p \<Rightarrow> (local_node_record h)\<lparr>nr_status := (nr_status (local_node_record h))
            \<lparr>ns_last_seen_at := ns_last_seen_at (nr_status p)\<rparr>\<rparr>
      | None \<Rightarrow> local_node_record h)"

definition from_snapshot :: "host_info \<Rightarrow> node_registry_snapshot \<Rightarrow> node_registry" where
  "from_snapshot h snap =
     (let nodes = dict_by node_key (rg_nodes snap);
          local = refreshed_local h (map_of nodes (node_key (local_node_record h)))
      in \<lparr>reg_nodes = AList.update (node_key local) local nodes,
          reg_mounts = dict_by wm_workspace_id (rg_workspace_mounts snap)\<rparr>)"

definition list_nodes :: "node_registry \<Rightarrow> node_record list" where
  "list_nodes r = sort_by (le_on node_key) (dict_values (reg_nodes r))"

definition snapshot :: "node_registry \<Rightarrow> node_registry_snapshot" where
  "snapshot r =
     \<lparr>rg_nodes = sort_by (le_on node_key) (dict_values (reg_nodes r)),
      rg_workspace_mounts = sort_by (le_on wm_workspace_id) (dict_values (reg_mounts r))\<rparr>"

definition node_not_found :: runtime_error where
  "node_not_found = not_found ''node_not_found'' ''node does not exist''"

definition mount_not_found :: runtime_error where
  "mount_not_found =
     not_found ''workspace_mount_not_found'' ''workspace mount does not exist''"

type_synonym 'a reg_run = "(runtime_error, node_registry, 'a) run"

definition read_node :: "node_id \<Rightarrow> node_record reg_run" where
  "read_node i =
     bindR (asks (\<lambda>r. map_of (reg_nodes r) i)) (\<lambda>found. ok_or node_not_found found)"

definition read_workspace_mount :: "workspace_mount_id \<Rightarrow> workspace_mount reg_run" where
  "read_workspace_mount i =
     bindR (asks (\<lambda>r. map_of (reg_mounts r) i)) (\<lambda>found. ok_or mount_not_found found)"

definition set_node :: "node_id \<Rightarrow> node_record \<Rightarrow> unit reg_run" where
  "set_node i n = modify (\<lambda>r. r\<lparr>reg_nodes := AList.update i n (reg_nodes r)\<rparr>)"

definition update_node_policy :: "node_id \<Rightarrow> node_policy \<Rightarrow> node_record reg_run" where
  "update_node_policy i p =
     bindR (read_node i) (\<lambda>n0.
     let n = n0\<lparr>nr_policy := p\<rparr> in bindR (set_node i n) (\<lambda>_. ret n))"

definition update_node_status :: "node_id \<Rightarrow> node_status \<Rightarrow> node_record reg_run" where
  "update_node_status i st =
     bindR (read_node i) (\<lambda>n0.
     let n = n0\<lparr>nr_status := st\<rparr> in bindR (set_node i n) (\<lambda>_. ret n))"

definition list_workspace_mounts :: "node_id option \<Rightarrow> node_registry \<Rightarrow> workspace_mount list" where
  "list_workspace_mounts node r =
     filter (\<lambda>m. case node of None \<Rightarrow> True | Some i \<Rightarrow> wm_node_id m = i) (dict_values (reg_mounts r))"

definition mount_name :: "nat \<Rightarrow> workspace_mount_id" where
  "mount_name n = ''workspace_'' @ show_dec n"

text \<open>The loop of \<open>next_workspace_mount_id\<close>, from its current index.\<close>

function free_mount_index :: "workspace_mount_id list \<Rightarrow> nat \<Rightarrow> nat" where
  "free_mount_index used n =
     (if mount_name n \<in> set used then free_mount_index used (Suc n) else n)"
  by pat_completeness auto
termination
proof (relation "measure (\<lambda>(used, n). card {k \<in> set used. \<exists>i \<ge> n. k = mount_name i})")
  fix used :: "workspace_mount_id list" and n
  assume used: "mount_name n \<in> set used"
  let ?from = "\<lambda>n. {k \<in> set used. \<exists>i \<ge> n. k = mount_name i}"
  have "?from (Suc n) \<subseteq> ?from n" by (blast intro: Suc_leD)
  moreover have "mount_name n \<in> ?from n - ?from (Suc n)"
    using used by (auto simp: mount_name_def show_dec_inj)
  ultimately have "?from (Suc n) \<subset> ?from n" by blast
  then have "card (?from (Suc n)) < card (?from n)" by (intro psubset_card_mono) simp_all
  then show "((used, Suc n), used, n) \<in> measure (\<lambda>(used, n). card {k \<in> set used. \<exists>i \<ge> n. k = mount_name i})"
    by (simp only: in_measure prod.case)
qed auto

declare free_mount_index.simps [simp del]

definition next_workspace_mount_id :: "node_registry \<Rightarrow> workspace_mount_id" where
  "next_workspace_mount_id r =
     mount_name (free_mount_index (map fst (reg_mounts r)) (length (reg_mounts r) + 1))"

definition attach_workspace_mount :: "workspace_mount_attach_request \<Rightarrow> workspace_mount reg_run" where
  "attach_workspace_mount rq =
     bindR (asks (\<lambda>r. map_of (reg_nodes r) (wa_node_id rq))) (\<lambda>node.
     bindR (guard node_not_found (node \<noteq> None)) (\<lambda>_.
     bindR (asks next_workspace_mount_id) (\<lambda>i.
     let m = \<lparr>wm_workspace_id = i, wm_node_id = wa_node_id rq, wm_root_path = wa_root_path rq,
              wm_label = unwrap_or (wa_root_path rq) (wa_label rq),
              wm_permissions = wa_permissions rq\<rparr>
     in bindR (modify (\<lambda>r. r\<lparr>reg_mounts := AList.update i m (reg_mounts r)\<rparr>)) (\<lambda>_. ret m))))"

definition local_mount_for :: "node_registry \<Rightarrow> string \<Rightarrow> workspace_mount option" where
  "local_mount_for r root =
     find (\<lambda>m. wm_node_id m = ''local'' \<and> wm_root_path m = root) (dict_values (reg_mounts r))"

definition resolve_or_attach_local_workspace :: "string \<Rightarrow> workspace_mount reg_run" where
  "resolve_or_attach_local_workspace root =
     bindR (asks (\<lambda>r. local_mount_for r root)) (\<lambda>existing.
     case existing of
       Some m \<Rightarrow> ret m
     | None \<Rightarrow> attach_workspace_mount
         \<lparr>wa_node_id = ''local'', wa_root_path = root, wa_label = None,
          wa_permissions = \<lparr>pm_read = True, pm_write = True, pm_shell = True\<rparr>\<rparr>)"

definition detach_workspace_mount :: "workspace_mount_id \<Rightarrow> workspace_mount_id reg_run" where
  "detach_workspace_mount i =
     bindR (asks (\<lambda>r. map_of (reg_mounts r) i)) (\<lambda>found.
     bindR (guard mount_not_found (found \<noteq> None)) (\<lambda>_.
     bindR (modify (\<lambda>r. r\<lparr>reg_mounts := AList.delete i (reg_mounts r)\<rparr>)) (\<lambda>_. ret i)))"

lemmas registry_op_defs = read_node_def read_workspace_mount_def update_node_policy_def
  update_node_status_def attach_workspace_mount_def resolve_or_attach_local_workspace_def
  detach_workspace_mount_def set_node_def

section \<open>The fresh identifier\<close>

lemma free_mount_index_unused: "mount_name (free_mount_index used n) \<notin> set used"
  by (induction used n rule: free_mount_index.induct) (subst free_mount_index.simps, simp)

lemma free_mount_index_least:
  "n \<le> free_mount_index used n \<and> (\<forall>i. n \<le> i \<longrightarrow> i < free_mount_index used n \<longrightarrow> mount_name i \<in> set used)"
proof (induction used n rule: free_mount_index.induct)
  case (1 used n)
  show ?case
  proof (cases "mount_name n \<in> set used")
    case True
    with 1 have "Suc n \<le> free_mount_index used (Suc n)"
      and all: "\<forall>i. Suc n \<le> i \<longrightarrow> i < free_mount_index used (Suc n) \<longrightarrow> mount_name i \<in> set used"
      by auto
    then have "mount_name i \<in> set used" if "n \<le> i" and "i < free_mount_index used (Suc n)" for i
      using that True by (cases "i = n") auto
    with True \<open>Suc n \<le> _\<close> show ?thesis by (simp add: free_mount_index.simps [of used n])
  qed (simp add: free_mount_index.simps [of used n])
qed

lemma next_mount_id_fresh: "map_of (reg_mounts r) (next_workspace_mount_id r) = None"
  using free_mount_index_unused [of "map fst (reg_mounts r)"]
  by (auto simp: next_workspace_mount_id_def map_of_eq_None_iff)

section \<open>The registry invariant\<close>

definition registry_ok :: "node_registry \<Rightarrow> bool" where
  "registry_ok r \<longleftrightarrow>
     wf_dict (reg_nodes r) \<and> wf_dict (reg_mounts r)
     \<and> (\<forall>i n. map_of (reg_nodes r) i = Some n \<longrightarrow> node_key n = i)
     \<and> (\<forall>i m. map_of (reg_mounts r) i = Some m \<longrightarrow> wm_workspace_id m = i)
     \<and> map_of (reg_nodes r) ''local'' \<noteq> None"

lemma wf_dict_by [simp]: "wf_dict (dict_by key xs)"
proof -
  have "wf_dict d \<Longrightarrow> wf_dict (fold (\<lambda>x. AList.update (key x) x) xs d)" for d
    by (induction xs arbitrary: d) auto
  then show ?thesis by (simp add: dict_by_def)
qed

lemma map_of_dict_by:
  "map_of (dict_by key xs) k = find (\<lambda>x. key x = k) (rev xs)"
  by (induction xs rule: rev_induct) (auto simp: dict_by_def)

lemma dict_by_key: "map_of (dict_by key xs) k = Some x \<Longrightarrow> key x = k"
  unfolding map_of_dict_by by (drule find_SomeD) simp

lemma local_node_key [simp]:
  "node_key (local_node_record h) = ''local''" "node_key (refreshed_local h p) = ''local''"
  by (simp_all add: local_node_record_def refreshed_local_def split: option.splits)

lemma registry_ok_default: "registry_ok (default_registry h)"
  using local_node_key(1) [of h] by (simp add: registry_ok_def default_registry_def wf_dict_def)

lemma from_snapshot_fields:
  "reg_nodes (from_snapshot h snap) = AList.update ''local''
     (refreshed_local h (map_of (dict_by node_key (rg_nodes snap)) ''local''))
     (dict_by node_key (rg_nodes snap))"
  "reg_mounts (from_snapshot h snap) = dict_by wm_workspace_id (rg_workspace_mounts snap)"
  by (simp_all only: from_snapshot_def Let_def node_registry.simps local_node_key)

lemma registry_ok_from_snapshot: "registry_ok (from_snapshot h snap)"
  unfolding registry_ok_def from_snapshot_fields
  by (auto dest!: dict_by_key split: if_splits)

lemma keeps_registry_ok [keeps_rules]:
  "keeps registry_ok (attach_workspace_mount rq)"
  "keeps registry_ok (resolve_or_attach_local_workspace root)"
  "keeps registry_ok (detach_workspace_mount i)"
  "keeps registry_ok (update_node_policy j p)"
  "keeps registry_ok (update_node_status j st)"
proof -
  show attach: "keeps registry_ok (attach_workspace_mount rq)" for rq
    unfolding attach_workspace_mount_def Let_def
    by (intro keeps_rules keeps_modify) (auto simp: registry_ok_def)
  show "keeps registry_ok (resolve_or_attach_local_workspace root)"
    unfolding resolve_or_attach_local_workspace_def by (intro keeps_rules attach)
  show "keeps registry_ok (detach_workspace_mount i)"
    unfolding detach_workspace_mount_def
    by (intro keeps_rules keeps_modify) (auto simp: registry_ok_def)
  show "keeps registry_ok (update_node_policy j p)" "keeps registry_ok (update_node_status j st)"
    by (auto simp: keeps_def update_node_policy_def update_node_status_def read_node_def
        set_node_def ok_or_def run_simps Let_def registry_ok_def split: option.splits)
qed

section \<open>What the operations do\<close>

lemma attach_Inr:
  "attach_workspace_mount rq r = (Inr m, r') \<longleftrightarrow>
     map_of (reg_nodes r) (wa_node_id rq) \<noteq> None
     \<and> m = \<lparr>wm_workspace_id = next_workspace_mount_id r, wm_node_id = wa_node_id rq,
            wm_root_path = wa_root_path rq, wm_label = unwrap_or (wa_root_path rq) (wa_label rq),
            wm_permissions = wa_permissions rq\<rparr>
     \<and> r' = r\<lparr>reg_mounts := AList.update (wm_workspace_id m) m (reg_mounts r)\<rparr>"
  by (auto simp: attach_workspace_mount_def Let_def success_iffs)

lemma local_mount_for_Some:
  "wf_dict (reg_mounts r) \<Longrightarrow> local_mount_for r root = Some m \<Longrightarrow>
   (\<exists>i. map_of (reg_mounts r) i = Some m) \<and> wm_node_id m = ''local'' \<and> wm_root_path m = root"
  by (auto simp: local_mount_for_def dest!: find_SomeD simp: dict_values_iff)

lemma local_mount_for_None:
  "wf_dict (reg_mounts r) \<Longrightarrow> local_mount_for r root = None \<longleftrightarrow>
   \<not> (\<exists>i m. map_of (reg_mounts r) i = Some m \<and> wm_node_id m = ''local'' \<and> wm_root_path m = root)"
  by (auto simp: local_mount_for_def find_None_iff dict_values_iff)

text \<open>
  The registry as an interface of its clients: resolving a path always gives a mount of that path
  on the local node, and keeps every mount that was there.
\<close>

locale workspace_provider =
  fixes ok :: "'r \<Rightarrow> bool" and mounts :: "'r \<Rightarrow> workspace_mount_id \<Rightarrow> workspace_mount option"
    and resolve :: "string \<Rightarrow> 'r \<Rightarrow> (runtime_error + workspace_mount) \<times> 'r"
  assumes resolve_ok: "ok r \<Longrightarrow> ok (snd (resolve root r))"
    and resolve_total: "ok r \<Longrightarrow> \<exists>m. fst (resolve root r) = Inr m"
    and resolve_root: "ok r \<Longrightarrow> resolve root r = (Inr m, r') \<Longrightarrow>
      wm_root_path m = root \<and> mounts r' (wm_workspace_id m) = Some m"
    and resolve_keeps: "ok r \<Longrightarrow> mounts r i = Some m \<Longrightarrow> mounts (snd (resolve root r)) i = Some m"
    and resolve_again: "ok r \<Longrightarrow> resolve root r = (Inr m, r') \<Longrightarrow>
      \<exists>m'. resolve root r' = (Inr m', r')"
begin

fun resolve_list :: "string list \<Rightarrow> 'r \<Rightarrow> 'r" where
  "resolve_list [] r = r"
| "resolve_list (p # ps) r = resolve_list ps (snd (resolve p r))"

lemma resolve_list_ok: "ok r \<Longrightarrow> ok (resolve_list ps r)"
  by (induction ps arbitrary: r) (auto simp: resolve_ok)

lemma resolve_list_keeps: "ok r \<Longrightarrow> mounts r i = Some m \<Longrightarrow> mounts (resolve_list ps r) i = Some m"
  by (induction ps arbitrary: r) (auto simp: resolve_ok resolve_keeps)

lemma resolve_list_mounts:
  "ok r \<Longrightarrow> p \<in> set ps \<Longrightarrow> \<exists>i m. mounts (resolve_list ps r) i = Some m \<and> wm_root_path m = p"
proof (induction ps arbitrary: r)
  case Nil
  then show ?case by simp
next
  case (Cons q ps)
  obtain m where m: "fst (resolve q r) = Inr m" using resolve_total [OF Cons.prems(1)] by blast
  have ok: "ok (snd (resolve q r))" using resolve_ok [OF Cons.prems(1)] .
  show ?case
  proof (cases "p = q")
    case True
    have "wm_root_path m = q \<and> mounts (snd (resolve q r)) (wm_workspace_id m) = Some m"
      by (rule resolve_root [OF Cons.prems(1)]) (metis m prod.collapse)
    then have "mounts (resolve_list ps (snd (resolve q r))) (wm_workspace_id m) = Some m"
      by (simp add: resolve_list_keeps [OF ok])
    with True \<open>wm_root_path m = q \<and> _\<close> show ?thesis by auto
  next
    case False
    with Cons ok show ?thesis by auto
  qed
qed

end

lemma attach_cases:
  "attach_workspace_mount rq r =
     (if map_of (reg_nodes r) (wa_node_id rq) = None then (Inl node_not_found, r)
      else let m = \<lparr>wm_workspace_id = next_workspace_mount_id r, wm_node_id = wa_node_id rq,
            wm_root_path = wa_root_path rq, wm_label = unwrap_or (wa_root_path rq) (wa_label rq),
            wm_permissions = wa_permissions rq\<rparr>
        in (Inr m, r\<lparr>reg_mounts := AList.update (wm_workspace_id m) m (reg_mounts r)\<rparr>))"
  by (simp add: attach_workspace_mount_def guard_def run_simps Let_def)

lemma resolve_cases:
  "resolve_or_attach_local_workspace root r =
     (case local_mount_for r root of Some m \<Rightarrow> (Inr m, r)
      | None \<Rightarrow> attach_workspace_mount
         \<lparr>wa_node_id = ''local'', wa_root_path = root, wa_label = None,
          wa_permissions = \<lparr>pm_read = True, pm_write = True, pm_shell = True\<rparr>\<rparr> r)"
  by (simp add: resolve_or_attach_local_workspace_def run_simps split: option.splits)

interpretation mounts: workspace_provider registry_ok "\<lambda>r. map_of (reg_mounts r)"
  resolve_or_attach_local_workspace
proof
  fix r root assume ok: "registry_ok r"
  show "registry_ok (snd (resolve_or_attach_local_workspace root r))"
    by (rule keepsD [OF keeps_registry_ok(2) ok])
  show "\<exists>m. fst (resolve_or_attach_local_workspace root r) = Inr m"
    using ok by (auto simp: resolve_cases attach_cases registry_ok_def Let_def split: option.splits)
  show "map_of (reg_mounts (snd (resolve_or_attach_local_workspace root r))) i = Some m"
    if "map_of (reg_mounts r) i = Some m" for i m
    using that next_mount_id_fresh [of r]
    by (auto simp: resolve_cases attach_cases Let_def split: option.splits)
  fix m r' assume res: "resolve_or_attach_local_workspace root r = (Inr m, r')"
  note found = local_mount_for_Some [of r root m]
  have wf: "wf_dict (reg_mounts r)" using ok by (simp add: registry_ok_def)
  have at: "wm_root_path m = root \<and> wm_node_id m = ''local''
      \<and> map_of (reg_mounts r') (wm_workspace_id m) = Some m"
  proof (cases "local_mount_for r root")
    case None
    then show ?thesis using res by (auto simp: resolve_cases attach_cases Let_def split: if_splits)
  next
    case (Some m0)
    with res have "m0 = m" "r' = r" by (auto simp: resolve_cases)
    with Some found [OF wf] ok show ?thesis unfolding registry_ok_def by blast
  qed
  then show "wm_root_path m = root \<and> map_of (reg_mounts r') (wm_workspace_id m) = Some m" by blast
  have "wf_dict (reg_mounts r')"
    using keepsD [OF keeps_registry_ok(2) ok, of root] res by (simp add: registry_ok_def)
  with at have "local_mount_for r' root \<noteq> None"
    using local_mount_for_None [of r' root] by blast
  then show "\<exists>m'. resolve_or_attach_local_workspace root r' = (Inr m', r')"
    by (auto simp: resolve_cases)
qed

text \<open>A snapshot restores the registry: same mounts, and same nodes except the local one.\<close>

lemma find_key_unique:
  assumes "wf_dict d" and "\<And>i x. map_of d i = Some x \<Longrightarrow> key x = i"
    and "set xs = set (dict_values d)"
  shows "find (\<lambda>x. key x = k) xs = map_of d k"
proof (cases "find (\<lambda>x. key x = k) xs")
  case None
  then have "\<forall>x \<in> set (dict_values d). key x \<noteq> k" using assms(3) by (simp add: find_None_iff)
  then have "map_of d k \<noteq> Some x" for x
    using assms(2) [of k x] dict_values_iff [OF assms(1), of x] by blast
  then show ?thesis using None by (metis not_None_eq)
next
  case (Some x)
  then have x: "x \<in> set (dict_values d)" "key x = k" using find_SomeD assms(3) by fastforce+
  then obtain i where "map_of d i = Some x" using dict_values_iff [OF assms(1)] by blast
  with assms(2) x(2) Some show ?thesis by auto
qed

lemma snapshot_mounts:
  "registry_ok r \<Longrightarrow> map_of (reg_mounts (from_snapshot h (snapshot r))) = map_of (reg_mounts r)"
  unfolding from_snapshot_fields snapshot_def map_of_dict_by registry_ok_def
  by (rule ext, simp, rule find_key_unique) auto

lemma snapshot_nodes:
  "registry_ok r \<Longrightarrow> i \<noteq> ''local'' \<Longrightarrow>
   map_of (reg_nodes (from_snapshot h (snapshot r))) i = map_of (reg_nodes r) i"
  unfolding from_snapshot_fields snapshot_def map_of_update map_of_dict_by registry_ok_def
  by (simp, rule find_key_unique) auto

end
