(* ===== verification/Samples.thy ===== *)
theory Samples
  imports Stores
begin

text \<open>
  Concrete data on which the witnesses of the properties are evaluated: a thread with a pending
  commitment, a memory with facts and a contact, and a runtime environment with no I/O fault and
  a clock that counts.
\<close>

definition demo_thread :: thread where
  "demo_thread =
     \<lparr>th_id = ''t1'', th_title = ''Release'', th_status = thread_status.Active,
      th_created_at = ''0'', th_updated_at = ''0'', th_active_goal = Some ''ship'',
      th_active_summary = Some ''writing notes'', th_last_interruption = None,
      th_workspace_ref = None, th_workspace_mount_id = None,
      th_pending_commitments = [''ship the report''], th_latest_turn_id = None,
      th_latest_checkpoint_id = None, th_parent_thread_id = None\<rparr>"

definition demo_fact :: stored_memory_fact where
  "demo_fact =
     \<lparr>sf_id = ''f1'', sf_kind = Decision, sf_subject = ''pay'', sf_value = ''the salary is set'',
      sf_keywords = [''pay''], sf_related_thread_ids = [''t1''],
      sf_citations = [CitationRef ''t1'' None None ''pay''], sf_updated_at = ''0'',
      sf_invalidated_at = None, sf_invalidated_by = None\<rparr>"

definition demo_friend :: relationship_entry where
  "demo_friend =
     \<lparr>re_person_id = ''ann'', re_display_name = ''Ann'', re_trust_level = Trusted,
      re_info_boundary = \<lparr>ib_shared_topics = [], ib_forbidden_topics = [''salary''],
        ib_share_active_state = True, ib_share_commitments = True\<rparr>,
      re_interaction_stance = '''', re_notes = None\<rparr>"

definition demo_memory :: global_memory_snapshot where
  "demo_memory =
     empty_snapshot\<lparr>gm_identity_summary := Some ''Kay'', gm_facts := [demo_fact],
       gm_relationships := [demo_friend]\<rparr>"

definition demo_participant :: "string \<Rightarrow> participant_ref" where
  "demo_participant i = \<lparr>pt_external_participant_id = i, pt_display_name = None\<rparr>"

definition demo_files :: fs where
  "demo_files =
     \<lparr>fs_threads = [(''t1'', demo_thread)], fs_turn_logs = [], fs_checkpoints = [],
      fs_artifacts = [], fs_global_memory = Some demo_memory, fs_auth_profiles = None,
      fs_node_registry = None, io_fault = (\<lambda>_. None), io_count = 0\<rparr>"

definition demo_ids :: id_generator where
  "demo_ids = \<lparr>sequence = 0, clock = (\<lambda>n. n), clock_reads = 0\<rparr>"

definition demo_env :: runtime_env where
  "demo_env = \<lparr>stores = demo_files, id_gen = demo_ids\<rparr>"

lemmas demo_defs = demo_thread_def demo_fact_def demo_friend_def demo_memory_def
  demo_participant_def demo_files_def demo_ids_def demo_env_def empty_snapshot_def

lemma demo_env_reliable [simp]: "reliable demo_env"
  by (simp add: demo_env_def demo_files_def reliable_def)

end
