(* ===== verification/Lexical.thy ===== *)
theory Lexical
  imports Text_Utils
begin

text \<open>
  The three lexical loops that \<open>runtime/context_assembler.rs\<close> and \<open>runtime/memory.rs\<close> share:
  splitting text into words, collecting the first few new items (with the set of keys already
  seen and the early exit at the limit), and ranking words by how often they occur. The lemmas
  characterise each by what it returns: distinct keys, at most the limit, in order of first
  appearance; respectively every word once, by falling count and then alphabetically.
\<close>

definition is_word_char :: "char \<Rightarrow> bool" where
  "is_word_char c \<longleftrightarrow> is_alnum c \<or> c = CHR ''_''"

definition words :: "string \<Rightarrow> string list" where
  "words s = split_on (\<lambda>c. \<not> is_word_char c) s"

text \<open>
  \<open>seen.insert(key)\<close> is tried only for acceptable items, and the loop stops as soon as the
  result has the length of the limit.
\<close>

fun collect_new ::
  "('a \<Rightarrow> 'k) \<Rightarrow> ('a \<Rightarrow> bool) \<Rightarrow> nat \<Rightarrow> 'k list \<Rightarrow> 'a list \<Rightarrow> 'a list \<Rightarrow> 'a list" where
  "collect_new key acceptable limit seen acc [] = acc"
| "collect_new key acceptable limit seen acc (x # xs) =
     (if \<not> acceptable x \<or> key x \<in> set seen
      then collect_new key acceptable limit seen acc xs
      else let acc' = acc @ [x]
        in if length acc' = limit then acc'
           else collect_new key acceptable limit (key x # seen) acc' xs)"

definition rank_tokens :: "string list \<Rightarrow> string list" where
  "rank_tokens ts =
     map fst (sort_by (then_with (ge_on snd) (le_on fst))
       (map (\<lambda>t. (t, count_list ts t)) (btree_set ts)))"

section \<open>Collecting\<close>

lemma collect_new_acc: "\<exists>new. collect_new key ok n seen acc xs = acc @ new \<and> set new \<subseteq> {x \<in> set xs. ok x}"
proof (induction xs arbitrary: seen acc)
  case Nil
  then show ?case by simp
next
  case (Cons x xs)
  obtain new where 1: "collect_new key ok n seen acc xs = acc @ new" "set new \<subseteq> {x \<in> set xs. ok x}"
    using Cons [of seen acc] by blast
  obtain more where 2: "collect_new key ok n (key x # seen) (acc @ [x]) xs = (acc @ [x]) @ more"
      "set more \<subseteq> {x \<in> set xs. ok x}"
    using Cons [of "key x # seen" "acc @ [x]"] by blast
  show ?case
  proof (cases "\<not> ok x \<or> key x \<in> set seen")
    case True
    with 1 show ?thesis by auto
  next
    case False
    show ?thesis
    proof (cases "length (acc @ [x]) = n")
      case True
      with False show ?thesis by (intro exI [of _ "[x]"]) (auto simp: Let_def)
    next
      case len: False
      from False len 2 show ?thesis by (intro exI [of _ "x # more"]) (auto simp: Let_def)
    qed
  qed
qed

lemma collect_new_acceptable: "x \<in> set (collect_new key ok n [] [] xs) \<Longrightarrow> x \<in> set xs \<and> ok x"
  using collect_new_acc [of key ok n "[]" "[]" xs] by auto

lemma length_collect_new: "length acc < n \<Longrightarrow> length (collect_new key ok n seen acc xs) \<le> n"
  by (induction xs arbitrary: seen acc) (auto simp: Let_def)

lemma distinct_collect_new:
  "distinct (map key acc) \<Longrightarrow> set seen = key ` set acc \<Longrightarrow>
   distinct (map key (collect_new key ok n seen acc xs))"
  by (induction xs arbitrary: seen acc) (auto simp: Let_def)

text \<open>Below the limit, nothing acceptable is missing.\<close>

lemma collect_new_complete:
  "length (collect_new key ok n seen acc xs) < n \<Longrightarrow> set seen = key ` set acc \<Longrightarrow>
   key ` {x \<in> set xs. ok x} \<union> key ` set acc \<subseteq> key ` set (collect_new key ok n seen acc xs)"
proof (induction xs arbitrary: seen acc)
  case Nil
  then show ?case by simp
next
  case (Cons x xs)
  show ?case
  proof (cases "\<not> ok x \<or> key x \<in> set seen")
    case True
    with Cons.prems have sub: "key ` {x \<in> set xs. ok x} \<union> key ` set acc
        \<subseteq> key ` set (collect_new key ok n seen acc xs)"
      by (intro Cons.IH) auto
    with True Cons.prems(2) show ?thesis by auto
  next
    case False
    with Cons.prems(1) have len: "length (acc @ [x]) \<noteq> n" by (auto simp: Let_def)
    with False Cons.prems have "key ` {x \<in> set xs. ok x} \<union> key ` set (acc @ [x])
        \<subseteq> key ` set (collect_new key ok n (key x # seen) (acc @ [x]) xs)"
      by (intro Cons.IH) (auto simp: Let_def)
    with False len show ?thesis by (auto simp: Let_def)
  qed
qed

lemma distinct_collect_new_start: "distinct (map key (collect_new key ok n [] [] xs))"
  by (rule distinct_collect_new) auto

lemma length_collect_new_start: "0 < n \<Longrightarrow> length (collect_new key ok n [] [] xs) \<le> n"
  by (rule length_collect_new) auto

section \<open>Ranking\<close>

lemma rank_tokens_props: "set (rank_tokens ts) = set ts" "distinct (rank_tokens ts)"
proof -
  show "set (rank_tokens ts) = set ts"
    by (simp add: rank_tokens_def image_image)
  have "map fst (map (\<lambda>t. (t, count_list ts t)) (btree_set ts)) = btree_set ts"
    by (simp add: comp_def)
  then show "distinct (rank_tokens ts)"
    unfolding rank_tokens_def distinct_map_sort_by by simp
qed

lemma rank_tokens_sorted:
  "sorted_wrt (\<lambda>a b. count_list ts b < count_list ts a \<or> count_list ts a = count_list ts b \<and> a \<le> b)
     (rank_tokens ts)"
proof -
  let ?ps = "sort_by (then_with (ge_on snd) (le_on fst)) (map (\<lambda>t. (t, count_list ts t)) (btree_set ts))"
  have srt: "sorted_wrt (then_with (ge_on snd) (le_on fst)) ?ps"
    by (rule desc_then_asc.sorted_sort_by)
  have counted: "snd p = count_list ts (fst p)" if "p \<in> set ?ps" for p
    using that by auto
  have "sorted_wrt (\<lambda>p q. count_list ts (fst q) < count_list ts (fst p)
      \<or> count_list ts (fst p) = count_list ts (fst q) \<and> fst p \<le> fst q) ?ps"
  proof (rule sorted_wrt_mono_rel [OF _ srt])
    fix p q
    assume p: "p \<in> set ?ps" and q: "q \<in> set ?ps" and le: "then_with (ge_on snd) (le_on fst) p q"
    from counted [OF p] counted [OF q] le
    show "count_list ts (fst q) < count_list ts (fst p)
        \<or> count_list ts (fst p) = count_list ts (fst q) \<and> fst p \<le> fst q"
      unfolding then_with_def ge_on_def le_on_def by (metis le_neq_implies_less)
  qed
  then show ?thesis by (simp add: rank_tokens_def sorted_wrt_map)
qed

end
