(* ===== verification/Context_Assembler.thy ===== *)
theory Context_Assembler
  imports Samples Lexical Prompts
begin

text \<open>
  Context assembly for one turn (\<open>runtime/context_assembler.rs\<close>): who is asking, what the owner's
  disclosure boundary lets through, the layers of the prompt and the prompt itself. The lemmas
  show what the filters guarantee: text on a forbidden topic does not pass for anybody but the
  owner, an unrecognised participant gets no fact and no identity, and what reaches the resident
  layer of the prompt is exactly what the filters let through.
\<close>

datatype retrieval_scope = Focused | Expanded

record task_local_retrieval =
  tr_query_terms :: "string list"
  tr_requires_full_repo_scan :: bool

record recent_conversation_wakeup =
  rc_recent_summaries :: "string list"
  rc_active_topics :: "string list"
  rc_recent_keywords :: "string list"

record executor_boundary_metadata =
  eb_memory_owner :: string
  eb_approval_owner :: string
  eb_executor_role :: string
  eb_relationship_history_shared :: bool

record context_layers =
  cl_resident :: string
  cl_recent_conversation :: string
  cl_thread_projection :: string
  cl_task_local :: string
  cl_executor_boundary :: string

record assembled_context =
  ax_wakeup :: memory_wakeup
  ax_recent_conversation :: recent_conversation_wakeup
  ax_thread_projection :: string
  ax_retrieval :: task_local_retrieval
  ax_scope :: retrieval_scope
  ax_layers :: context_layers
  ax_executor_boundary :: executor_boundary_metadata
  ax_system_prompt :: string
  ax_developer_prompt :: string
  ax_user_prompt :: string
  ax_prompt :: string

record relationship_context =
  rx_participant_name :: string
  rx_trust_level :: trust_level
  rx_boundary :: info_boundary
  rx_interaction_stance :: "string option"
  rx_role :: interaction_role
  rx_disclosure :: "disclosure_policy option"

section \<open>Who is asking\<close>

fun actor_trust :: "actor_kind \<Rightarrow> trust_level" where
  "actor_trust actor_kind.Owner = trust_level.Owner"
| "actor_trust HumanContact = Trusted"
| "actor_trust ExternalAgent = Trusted"
| "actor_trust LocalNode = Acquaintance"
| "actor_trust RemoteNode = Acquaintance"
| "actor_trust SystemService = Acquaintance"
| "actor_trust actor_kind.Stranger = trust_level.Stranger"
| "actor_trust WebhookSource = trust_level.Stranger"
| "actor_trust Automation = trust_level.Stranger"

definition context_relationship :: "interaction_context \<Rightarrow> relationship_context" where
  "context_relationship ic =
     \<lparr>rx_participant_name = unwrap_or (ac_actor_id (ic_actor ic)) (ac_display_name (ic_actor ic)),
      rx_trust_level = actor_trust (ac_kind (ic_actor ic)),
      rx_boundary =
        \<lparr>ib_shared_topics = dp_allowed_topics (ic_disclosure ic),
         ib_forbidden_topics = dp_forbidden_topics (ic_disclosure ic),
         ib_share_active_state = dp_share_active_state (ic_disclosure ic),
         ib_share_commitments = dp_share_commitments (ic_disclosure ic)\<rparr>,
      rx_interaction_stance = None, rx_role = ic_role ic,
      rx_disclosure = Some (ic_disclosure ic)\<rparr>"

definition stranger_relationship :: "string \<Rightarrow> global_memory_snapshot \<Rightarrow> relationship_context" where
  "stranger_relationship name snap =
     \<lparr>rx_participant_name = name, rx_trust_level = trust_level.Stranger,
      rx_boundary = gm_default_stranger_boundary snap, rx_interaction_stance = None,
      rx_role = PublicRepresentative, rx_disclosure = None\<rparr>"

definition resolve_relationship ::
  "global_memory_snapshot \<Rightarrow> participant_ref option \<Rightarrow> interaction_context option \<Rightarrow>
   relationship_context" where
  "resolve_relationship snap participant context =
     (case context of
        Some ic \<Rightarrow> context_relationship ic
      | None \<Rightarrow>
        (case participant of
           None \<Rightarrow> stranger_relationship ''unknown participant'' snap
         | Some p \<Rightarrow>
             if pt_external_participant_id p = ''owner''
             then \<lparr>rx_participant_name = unwrap_or ''owner'' (pt_display_name p),
                   rx_trust_level = trust_level.Owner, rx_boundary = info_boundary_owner_default,
                   rx_interaction_stance = None, rx_role = PrivateCompanion,
                   rx_disclosure = Some disclosure_owner_default\<rparr>
             else (case find (\<lambda>e. re_person_id e = pt_external_participant_id p)
                       (gm_relationships snap) of
                 Some e \<Rightarrow> \<lparr>rx_participant_name = re_display_name e,
                   rx_trust_level = re_trust_level e, rx_boundary = re_info_boundary e,
                   rx_interaction_stance = Some (re_interaction_stance e),
                   rx_role = GroupParticipant, rx_disclosure = None\<rparr>
               | None \<Rightarrow> stranger_relationship
                   (unwrap_or (pt_external_participant_id p) (pt_display_name p)) snap)))"

section \<open>What the relationship lets through\<close>

definition relationship_allows_active_state :: "relationship_context \<Rightarrow> bool" where
  "relationship_allows_active_state rx \<longleftrightarrow>
     rx_trust_level rx = trust_level.Owner \<or> ib_share_active_state (rx_boundary rx)"

definition mentions_topic :: "string \<Rightarrow> string \<Rightarrow> bool" where
  "mentions_topic txt topic \<longleftrightarrow> \<not> blank topic \<and> contains (to_lower txt) (to_lower topic)"

definition relationship_allows_text :: "relationship_context \<Rightarrow> string \<Rightarrow> bool" where
  "relationship_allows_text rx txt \<longleftrightarrow>
     (if rx_trust_level rx = trust_level.Owner then True
      else if \<exists>topic \<in> set (ib_forbidden_topics (rx_boundary rx)). mentions_topic txt topic then False
      else (case rx_trust_level rx of
          Trusted \<Rightarrow> ib_shared_topics (rx_boundary rx) = []
            \<or> (\<exists>topic \<in> set (ib_shared_topics (rx_boundary rx)). mentions_topic txt topic)
        | Acquaintance \<Rightarrow> False | trust_level.Stranger \<Rightarrow> False | trust_level.Owner \<Rightarrow> True))"

definition filter_identity_summary ::
  "global_memory_snapshot \<Rightarrow> relationship_context \<Rightarrow> string option" where
  "filter_identity_summary snap rx =
     (if rx_trust_level rx = trust_level.Owner
         \<or> (case rx_disclosure rx of None \<Rightarrow> False | Some p \<Rightarrow> dp_share_identity p)
      then gm_identity_summary snap else None)"

definition filter_active_state ::
  "global_memory_snapshot \<Rightarrow> thread \<Rightarrow> relationship_context \<Rightarrow> string option" where
  "filter_active_state snap th rx =
     (if relationship_allows_active_state rx
      then opt_filter (relationship_allows_text rx)
        (opt_or (gm_active_state_summary snap) (th_active_summary th))
      else None)"

definition filter_commitments :: "thread \<Rightarrow> relationship_context \<Rightarrow> string list" where
  "filter_commitments th rx =
     (if \<not> ib_share_commitments (rx_boundary rx) then []
      else filter (relationship_allows_text rx) (th_pending_commitments th))"

text \<open>The first three live facts whose value the relationship allows.\<close>

definition disclosed_facts ::
  "global_memory_snapshot \<Rightarrow> relationship_context \<Rightarrow> stored_memory_fact list" where
  "disclosed_facts snap rx =
     take 3 (filter (\<lambda>f. relationship_allows_text rx (sf_value f))
       (filter (\<lambda>f. sf_invalidated_at f = None) (gm_facts snap)))"

definition disclosed_list :: "relationship_context \<Rightarrow> string list \<Rightarrow> string list" where
  "disclosed_list rx xs =
     (if \<not> relationship_allows_active_state rx then [] else filter (relationship_allows_text rx) xs)"

definition fact_line :: "stored_memory_fact \<Rightarrow> string" where
  "fact_line f = sf_subject f @ '': '' @ sf_value f"

definition assemble_wakeup ::
  "global_memory_snapshot \<Rightarrow> thread \<Rightarrow> relationship_context \<Rightarrow> memory_wakeup" where
  "assemble_wakeup snap th rx =
     \<lparr>wk_identity_summary = filter_identity_summary snap rx,
      wk_active_state = filter_active_state snap th rx,
      wk_relevant_facts = map fact_line (disclosed_facts snap rx),
      wk_open_commitments = filter_commitments th rx,
      wk_recent_topics = disclosed_list rx (gm_recent_topics snap),
      wk_recent_keywords = disclosed_list rx (gm_recent_keywords snap),
      wk_citation_fact_ids = map sf_id (disclosed_facts snap rx),
      wk_citations = take 3 (concat (map sf_citations
        (filter (\<lambda>f. sf_invalidated_at f = None) (gm_facts snap))))\<rparr>"

section \<open>Scope and lexical summaries\<close>

definition classify_scope :: "string \<Rightarrow> retrieval_scope" where
  "classify_scope input =
     (let lower = to_lower input in
      if \<exists>hint \<in> set [''refactor'', ''rewrite'', ''whole repo'', ''entire'', ''across files''].
           contains lower hint
      then Expanded
      else if \<exists>hint \<in> set [''only'', ''just'', ''small'', ''single'', ''one line'', ''minor''].
           contains lower hint
      then Focused else Focused)"

definition derive_query_terms :: "string \<Rightarrow> string list" where
  "derive_query_terms input =
     map to_lower (take 6 (filter (\<lambda>term. 3 \<le> length term)
       (split_on (\<lambda>c. \<not> is_alnum c \<and> c \<noteq> CHR ''_'' \<and> c \<noteq> CHR ''.'') input)))"

definition collect_recent_summaries :: "turn_log_entry list \<Rightarrow> string list" where
  "collect_recent_summaries entries =
     rev (take 4 (filter (\<lambda>s. s \<noteq> []) (map (\<lambda>e. trim (le_summary e)) (rev entries))))"

definition lower_words :: "string list \<Rightarrow> string list" where
  "lower_words summaries = map to_lower (concat (map words summaries))"

definition derive_recent_topics :: "string list \<Rightarrow> string list" where
  "derive_recent_topics summaries =
     collect_new id (\<lambda>t. \<not> length t < 4) 6 [] [] (lower_words summaries)"

definition derive_recent_keywords :: "string list \<Rightarrow> string list" where
  "derive_recent_keywords summaries =
     take 8 (rank_tokens (filter (\<lambda>t. \<not> length t < 3) (lower_words summaries)))"

section \<open>The prompt\<close>

abbreviation nl :: string where "nl \<equiv> [CHR 0x0A]"

definition bool_text :: "bool \<Rightarrow> string" where
  "bool_text b = (if b then ''true'' else ''false'')"

fun scope_text :: "retrieval_scope \<Rightarrow> string" where
  "scope_text Focused = ''Focused''"
| "scope_text Expanded = ''Expanded''"

fun role_text :: "interaction_role \<Rightarrow> string" where
  "role_text PrivateCompanion = ''private_companion''"
| "role_text TaskExecutor = ''task_executor''"
| "role_text OwnerDelegate = ''owner_delegate''"
| "role_text PublicRepresentative = ''public_representative''"
| "role_text GroupParticipant = ''group_participant''"
| "role_text AgentPeer = ''agent_peer''"
| "role_text AgentCoordinator = ''agent_coordinator''"
| "role_text NodeController = ''node_controller''"
| "role_text WebhookObserver = ''webhook_observer''"
| "role_text BackgroundAutomation = ''background_automation''"

definition stance_suffix :: "relationship_context \<Rightarrow> string" where
  "stance_suffix rx =
     unwrap_or [] (map_option (\<lambda>s. nl @ ''Owner-defined stance: '' @ s @ ''.'')
       (opt_filter (\<lambda>s. \<not> blank s) (rx_interaction_stance rx)))"

definition liz_relationship_stance_injection :: "relationship_context \<Rightarrow> string" where
  "liz_relationship_stance_injection rx =
     (case rx_trust_level rx of
        trust_level.Owner \<Rightarrow> []
      | Trusted \<Rightarrow> nl @ nl @ ''relationship_context:'' @ nl @ ''You are talking to ''
          @ rx_participant_name rx
          @ '', a trusted contact. Be friendly and bounded. Only discuss explicitly shared topics: ''
          @ join '', '' (ib_shared_topics (rx_boundary rx)) @ ''. Do not mention forbidden topics: ''
          @ join '', '' (ib_forbidden_topics (rx_boundary rx))
          @ ''. If asked outside the sharing boundary, say you need the owner's permission.''
          @ stance_suffix rx
      | Acquaintance \<Rightarrow> nl @ nl @ ''relationship_context:'' @ nl @ ''You are talking to ''
          @ rx_participant_name rx
          @ '', a known contact with limited sharing. Be polite, professional, and conservative. ''
          @ ''Share only public information and answer questions about liz's own capabilities. ''
          @ ''Do not discuss owner work details, preferences, emotional state, or private context ''
          @ ''without permission.'' @ stance_suffix rx
      | trust_level.Stranger \<Rightarrow> nl @ nl @ ''relationship_context:'' @ nl
          @ ''You are talking to someone not recognized by the owner. Be polite but extremely ''
          @ ''conservative. Share only that liz is a personal agent. Do not reveal owner ''
          @ ''information, work, contacts, preferences, active state, or commitments. If asked ''
          @ ''for more, say you need the owner's permission.'')"

definition liz_interaction_role_injection :: "relationship_context \<Rightarrow> string" where
  "liz_interaction_role_injection rx =
     nl @ nl @ ''interaction_context:'' @ nl @ ''role: '' @ role_text (rx_role rx) @ nl
     @ ''Policy and filtering already decided what context is available. Treat this role as the ''
     @ ''current social or operational position of the same liz self, not a persona switch.''"

definition resident_layer :: "memory_wakeup \<Rightarrow> string" where
  "resident_layer wk =
     ''identity_summary: '' @ unwrap_or [] (wk_identity_summary wk) @ nl
     @ ''active_state: '' @ unwrap_or [] (wk_active_state wk) @ nl
     @ ''relevant_facts: '' @ join '' | '' (wk_relevant_facts wk) @ nl
     @ ''open_commitments: '' @ join '' | '' (wk_open_commitments wk)"

definition recent_conversation_layer :: "recent_conversation_wakeup \<Rightarrow> string" where
  "recent_conversation_layer rc =
     ''recent_summaries: '' @ join '' | '' (rc_recent_summaries rc) @ nl
     @ ''active_topics: '' @ join '', '' (rc_active_topics rc) @ nl
     @ ''recent_keywords: '' @ join '', '' (rc_recent_keywords rc)"

definition thread_projection_text :: "thread \<Rightarrow> string" where
  "thread_projection_text th =
     ''goal: '' @ unwrap_or [] (th_active_goal th) @ nl
     @ ''summary: '' @ unwrap_or [] (th_active_summary th) @ nl
     @ ''commitments: '' @ join '' | '' (th_pending_commitments th)"

definition task_local_layer :: "retrieval_scope \<Rightarrow> task_local_retrieval \<Rightarrow> string \<Rightarrow> string" where
  "task_local_layer scope tr input =
     ''retrieval_scope: '' @ scope_text scope @ nl
     @ ''retrieval_terms: '' @ join '', '' (tr_query_terms tr) @ nl
     @ ''full_repo_scan: '' @ bool_text (tr_requires_full_repo_scan tr) @ nl
     @ ''input: '' @ input"

definition default_executor_boundary :: executor_boundary_metadata where
  "default_executor_boundary =
     \<lparr>eb_memory_owner = ''liz'', eb_approval_owner = ''liz'',
      eb_executor_role = ''controlled task executor'', eb_relationship_history_shared = False\<rparr>"

definition executor_boundary_layer :: "executor_boundary_metadata \<Rightarrow> string" where
  "executor_boundary_layer eb =
     ''memory_owner: '' @ eb_memory_owner eb @ nl @ ''approval_owner: '' @ eb_approval_owner eb @ nl
     @ ''executor_role: '' @ eb_executor_role eb @ nl
     @ ''relationship_history_shared: '' @ bool_text (eb_relationship_history_shared eb)"

definition system_prompt_text :: "string \<Rightarrow> string" where
  "system_prompt_text resident =
     ''liz_identity:'' @ nl @ liz_system_constitution @ nl @ nl @ ''resident_wakeup:'' @ nl
     @ resident"

definition onboarding_text :: "global_memory_snapshot \<Rightarrow> string" where
  "onboarding_text snap =
     (if gm_identity_summary snap = None
      then nl @ nl @ ''first_meeting:'' @ nl @ liz_onboarding_injection else [])"

definition developer_prompt_text ::
  "context_layers \<Rightarrow> thread \<Rightarrow> global_memory_snapshot \<Rightarrow> relationship_context \<Rightarrow> string" where
  "developer_prompt_text cl th snap rx =
     ''turn_operating_contract:'' @ nl @ liz_turn_operating_contract @ nl @ nl
     @ ''recent_conversation_wakeup:'' @ nl @ cl_recent_conversation cl @ nl @ nl
     @ ''thread_projection:'' @ nl @ cl_thread_projection cl @ nl @ nl
     @ ''task_local:'' @ nl @ cl_task_local cl @ nl @ nl
     @ ''executor_boundary:'' @ nl @ cl_executor_boundary cl @ nl @ nl
     @ ''tooling_surface:'' @ nl @ liz_tool_surface_summary (th_workspace_ref th) @ nl @ nl
     @ ''execution_boundaries:'' @ nl
     @ liz_execution_boundary_contract (th_workspace_ref th \<noteq> None)
     @ onboarding_text snap @ liz_relationship_stance_injection rx
     @ liz_interaction_role_injection rx"

definition assemble ::
  "global_memory_snapshot \<Rightarrow> thread \<Rightarrow> turn_log_entry list \<Rightarrow> string \<Rightarrow> participant_ref option \<Rightarrow>
   interaction_context option \<Rightarrow> assembled_context" where
  "assemble snap th entries input participant context =
     (let scope = classify_scope input;
          rx = resolve_relationship snap participant context;
          tr = \<lparr>tr_query_terms = derive_query_terms input,
                tr_requires_full_repo_scan = (scope = Expanded)\<rparr>;
          wk = assemble_wakeup snap th rx;
          summaries = collect_recent_summaries entries;
          rc = \<lparr>rc_recent_summaries = summaries,
                rc_active_topics = derive_recent_topics summaries,
                rc_recent_keywords = derive_recent_keywords summaries\<rparr>;
          eb = default_executor_boundary;
          cl = \<lparr>cl_resident = resident_layer wk,
                cl_recent_conversation = recent_conversation_layer rc,
                cl_thread_projection = thread_projection_text th,
                cl_task_local = task_local_layer scope tr input,
                cl_executor_boundary = executor_boundary_layer eb\<rparr>;
          system_prompt = system_prompt_text (cl_resident cl);
          developer_prompt = developer_prompt_text cl th snap rx
      in \<lparr>ax_wakeup = wk, ax_recent_conversation = rc,
          ax_thread_projection = thread_projection_text th, ax_retrieval = tr, ax_scope = scope,
          ax_layers = cl, ax_executor_boundary = eb, ax_system_prompt = system_prompt,
          ax_developer_prompt = developer_prompt, ax_user_prompt = input,
          ax_prompt = ''system:'' @ nl @ system_prompt @ nl @ nl @ ''developer:'' @ nl
            @ developer_prompt @ nl @ nl @ ''user:'' @ nl @ input\<rparr>)"

section \<open>What the filters guarantee\<close>

lemma allows_text_Owner: "rx_trust_level rx = trust_level.Owner \<Longrightarrow> relationship_allows_text rx txt"
  by (simp add: relationship_allows_text_def)

lemma allows_text_forbidden:
  "relationship_allows_text rx txt \<Longrightarrow> rx_trust_level rx \<noteq> trust_level.Owner \<Longrightarrow>
   topic \<in> set (ib_forbidden_topics (rx_boundary rx)) \<Longrightarrow> \<not> mentions_topic txt topic"
  by (auto simp: relationship_allows_text_def split: if_splits)

lemma allows_text_outsider:
  "rx_trust_level rx = Acquaintance \<or> rx_trust_level rx = trust_level.Stranger \<Longrightarrow>
   \<not> relationship_allows_text rx txt"
  by (auto simp: relationship_allows_text_def split: if_splits)

lemma disclosed_facts_sub:
  "f \<in> set (disclosed_facts snap rx) \<Longrightarrow>
   f \<in> set (gm_facts snap) \<and> sf_invalidated_at f = None \<and> relationship_allows_text rx (sf_value f)"
  by (auto simp: disclosed_facts_def dest!: in_set_takeD)

lemma disclosed_list_sub:
  "x \<in> set (disclosed_list rx xs) \<Longrightarrow> x \<in> set xs \<and> relationship_allows_text rx x"
  by (auto simp: disclosed_list_def split: if_splits)

lemma filter_commitments_sub:
  "x \<in> set (filter_commitments th rx) \<Longrightarrow>
   x \<in> set (th_pending_commitments th) \<and> relationship_allows_text rx x
     \<and> ib_share_commitments (rx_boundary rx)"
  by (auto simp: filter_commitments_def split: if_splits)

lemma filter_active_state_sub:
  "filter_active_state snap th rx = Some x \<Longrightarrow>
   relationship_allows_text rx x \<and> relationship_allows_active_state rx"
  by (cases "opt_or (gm_active_state_summary snap) (th_active_summary th)")
    (auto simp: filter_active_state_def split: if_splits)

lemma assemble_fields:
  "ax_wakeup (assemble snap th es input p c) = assemble_wakeup snap th (resolve_relationship snap p c)"
  "ax_system_prompt (assemble snap th es input p c) =
     system_prompt_text (resident_layer (assemble_wakeup snap th (resolve_relationship snap p c)))"
  "ax_thread_projection (assemble snap th es input p c) = thread_projection_text th"
  "ax_scope (assemble snap th es input p c) = classify_scope input"
  "cl_thread_projection (ax_layers (assemble snap th es input p c)) = thread_projection_text th"
  "ax_developer_prompt (assemble snap th es input p c) =
     developer_prompt_text (ax_layers (assemble snap th es input p c)) th snap
       (resolve_relationship snap p c)"
  by (simp_all add: assemble_def Let_def)

lemma outsider_wakeup:
  assumes "rx_trust_level rx = Acquaintance \<or> rx_trust_level rx = trust_level.Stranger"
  shows "wk_relevant_facts (assemble_wakeup snap th rx) = []"
    and "wk_citation_fact_ids (assemble_wakeup snap th rx) = []"
    and "wk_open_commitments (assemble_wakeup snap th rx) = []"
    and "wk_recent_topics (assemble_wakeup snap th rx) = []"
    and "wk_recent_keywords (assemble_wakeup snap th rx) = []"
    and "wk_active_state (assemble_wakeup snap th rx) = None"
  using allows_text_outsider [OF assms]
  by (simp_all add: assemble_wakeup_def disclosed_facts_def filter_commitments_def
      disclosed_list_def filter_active_state_def opt_filter_def split: option.splits)

section \<open>Properties\<close>



text \<open>An acquaintance or a stranger whose disclosure does not share the identity gets a system
  prompt that does not depend on the owner's memory, on the thread or on its history: whatever
  those hold, the prompt is the same text.\<close>

theorem outsider_system_prompt_constant:
  assumes "rx = resolve_relationship snap participant context"
    and "rx_trust_level rx = Acquaintance \<or> rx_trust_level rx = trust_level.Stranger"
    and "\<And>d. rx_disclosure rx = Some d \<Longrightarrow> \<not> dp_share_identity d"
  shows "ax_system_prompt (assemble snap th es input participant context) =
    system_prompt_text (''identity_summary: '' @ nl @ ''active_state: '' @ nl @ ''relevant_facts: ''
      @ nl @ ''open_commitments: '')"
proof -
  have trust: "rx_trust_level rx \<noteq> trust_level.Owner" using assms(2) by auto
  have "wk_identity_summary (assemble_wakeup snap th rx) = None"
    using trust assms(3) by (simp add: assemble_wakeup_def filter_identity_summary_def split: option.splits)
  then show ?thesis
    unfolding assemble_fields assms(1) [symmetric]
    by (simp add: resident_layer_def outsider_wakeup [OF assms(2)])
qed

theorem outsider_system_prompt_constant_witness:
  "ax_system_prompt (assemble demo_memory demo_thread [] ''hi'' (Some (demo_participant ''eve'')) None)
   = system_prompt_text (''identity_summary: '' @ nl @ ''active_state: '' @ nl @ ''relevant_facts: ''
      @ nl @ ''open_commitments: '')"
  by (rule outsider_system_prompt_constant [OF refl])
    (simp_all add: resolve_relationship_def stranger_relationship_def demo_defs)

text \<open>The owner sees the memory unfiltered: the first three live facts, with their identifiers,
  every pending commitment, the identity, and the active state of the memory (or of the thread,
  where the memory has none).\<close>

theorem owner_sees_everything:
  assumes "pt_external_participant_id p = ''owner''"
    and "wk = ax_wakeup (assemble snap th es input (Some p) None)"
  shows "wk_relevant_facts wk = map fact_line (take 3 (filter (\<lambda>f. sf_invalidated_at f = None) (gm_facts snap)))
    \<and> wk_citation_fact_ids wk = map sf_id (take 3 (filter (\<lambda>f. sf_invalidated_at f = None) (gm_facts snap)))
    \<and> wk_open_commitments wk = th_pending_commitments th
    \<and> wk_identity_summary wk = gm_identity_summary snap
    \<and> wk_active_state wk = opt_or (gm_active_state_summary snap) (th_active_summary th)
    \<and> wk_recent_topics wk = gm_recent_topics snap"
  using assms
  by (simp add: assemble_fields resolve_relationship_def assemble_wakeup_def disclosed_facts_def
      filter_commitments_def filter_identity_summary_def filter_active_state_def disclosed_list_def
      info_boundary_owner_default_def relationship_allows_active_state_def allows_text_Owner
      opt_filter_def split: option.splits)

theorem owner_sees_everything_witness:
  "wk_relevant_facts (ax_wakeup (assemble demo_memory demo_thread [] ''hi''
      (Some (demo_participant ''owner'')) None)) = [''pay: the salary is set'']
   \<and> wk_open_commitments (ax_wakeup (assemble demo_memory demo_thread [] ''hi''
      (Some (demo_participant ''owner'')) None)) = [''ship the report'']"
  using owner_sees_everything [of "demo_participant ''owner''", OF _ refl,
      of demo_memory demo_thread "[]" "''hi''"]
  by (simp add: demo_defs fact_line_def)

text \<open>The developer prompt is not filtered by the relationship: whoever asks, it contains every
  pending commitment of the thread.\<close>

theorem commitments_reach_every_developer_prompt:
  assumes "commitment \<in> set (th_pending_commitments th)"
  shows "contains (ax_developer_prompt (assemble snap th es input participant context)) commitment"
proof -
  let ?cl = "ax_layers (assemble snap th es input participant context)"
  have "contains (join '' | '' (th_pending_commitments th)) commitment"
    using assms by (rule contains_join) simp
  then have proj: "contains (thread_projection_text th) commitment"
    unfolding thread_projection_text_def by (intro contains_append_left)
  obtain a b where "developer_prompt_text ?cl th snap (resolve_relationship snap participant context)
      = a @ cl_thread_projection ?cl @ b"
    unfolding developer_prompt_text_def append_assoc [symmetric] by (metis append_assoc)
  then show ?thesis using contains_appendI [OF proj] by (simp only: assemble_fields)
qed

theorem commitments_reach_every_developer_prompt_witness:
  "contains (ax_developer_prompt (assemble demo_memory demo_thread [] ''hi'' None None))
     ''ship the report''"
  by (rule commitments_reach_every_developer_prompt) (simp add: demo_defs)

end
