(* ===== verification/Policy.thy ===== *)
theory Policy
  imports Context_Assembler
begin

text \<open>
  The gates of a turn: risk classification before it (\<open>runtime/policy_engine.rs\<close>), the
  disclosure check on what it says (\<open>runtime/output_policy.rs\<close>) and the classification of an
  inbound event (\<open>runtime/inbound.rs\<close>). The lemmas characterise each decision by the words of
  the input or the fields of the interaction context that cause it.
\<close>

section \<open>Risk classification\<close>

record sandbox_context_record =
  sx_filesystem_mode :: sandbox_mode
  sx_writable_roots :: "string list"
  sx_network_access :: sandbox_network_access

record policy_decision =
  pd_scope :: retrieval_scope
  pd_risk_level :: risk_level
  pd_protected_targets :: "string list"
  pd_requires_checkpoint :: bool
  pd_requires_approval :: bool
  pd_reason :: string
  pd_sandbox_context :: sandbox_context_record

definition protected_candidates :: "string list" where
  "protected_candidates =
     [''.env'', ''secrets'', ''token'', ''password'', ''.git'', ''cargo.lock'', ''agents.md'', ''plan/'']"

definition destructive_hints :: "string list" where
  "destructive_hints = [''delete'', ''remove'', ''reset'', ''wipe'', ''force push'']"

definition mutating_hints :: "string list" where
  "mutating_hints = [''write'', ''edit'', ''modify'', ''patch'', ''command'', ''run '']"

definition protected_targets :: "string \<Rightarrow> string list" where
  "protected_targets input = filter (contains (to_lower input)) protected_candidates"

definition classify_risk :: "string \<Rightarrow> string list \<Rightarrow> risk_level" where
  "classify_risk input targets =
     (let lower = to_lower input;
          destructive = (\<exists>hint \<in> set destructive_hints. contains lower hint)
      in if targets \<noteq> [] \<and> destructive then Critical
         else if targets \<noteq> [] \<or> destructive then High
         else if \<exists>hint \<in> set mutating_hints. contains lower hint then Medium
         else Low)"

definition risk_reason :: "risk_level \<Rightarrow> string list \<Rightarrow> string" where
  "risk_reason risk targets =
     (case risk of
        Low \<Rightarrow> ''Scoped read-only or low-side-effect turn''
      | Medium \<Rightarrow> ''Turn may write or execute bounded commands''
      | High \<Rightarrow> if targets = [] then ''Turn may cause broad or destructive side effects''
          else ''Turn touches protected targets: '' @ join '', '' targets
      | Critical \<Rightarrow> ''Turn targets sensitive paths or destructive operations: '' @ join '', '' targets)"

definition evaluate :: "string \<Rightarrow> assembled_context \<Rightarrow> policy_decision" where
  "evaluate input context =
     (let targets = protected_targets input;
          risk = classify_risk input targets
      in \<lparr>pd_scope = ax_scope context, pd_risk_level = risk, pd_protected_targets = targets,
          pd_requires_checkpoint = (risk = Medium \<or> risk = High \<or> risk = Critical),
          pd_requires_approval = (risk = High \<or> risk = Critical),
          pd_reason = risk_reason risk targets,
          pd_sandbox_context = \<lparr>sx_filesystem_mode = WorkspaceWrite,
            sx_writable_roots = [''workspace''], sx_network_access = Restricted\<rparr>\<rparr>)"

section \<open>Output policy\<close>

datatype output_policy_decision =
  Allowed | Redacted string | NeedsOwnerConfirmation string | Denied string

definition mentions_private_identity :: "string \<Rightarrow> bool" where
  "mentions_private_identity output \<longleftrightarrow>
     (\<exists>needle \<in> set [''owner prefers'', ''identity summary'', ''about you''].
        contains (to_lower output) needle)"

definition redact_commitment_language :: "string \<Rightarrow> string" where
  "redact_commitment_language output =
     replace_all ''Commitment'' ''Follow-up'' (replace_all ''commitment'' ''follow-up'' output)"

definition check_output :: "interaction_context \<Rightarrow> string \<Rightarrow> output_policy_decision" where
  "check_output ic output =
     (if as_requires_owner_confirmation (ic_authority ic)
      then NeedsOwnerConfirmation ''Owner confirmation is required for this interaction.''
      else if ac_kind (ic_actor ic) \<in> {RemoteNode, LocalNode}
          \<and> \<not> dp_share_identity (ic_disclosure ic) \<and> mentions_private_identity output
      then Denied ''Node interactions cannot receive owner identity memory.''
      else if au_visibility (ic_audience ic) \<in> {Public, Group}
          \<and> \<not> dp_share_commitments (ic_disclosure ic)
          \<and> contains (to_lower output) ''commitment''
      then Redacted (redact_commitment_language output)
      else Allowed)"

section \<open>Inbound events\<close>

record inbound_event =
  ie_interaction_context :: interaction_context
  ie_text :: "string option"
  ie_event_kind :: string

fun classify_role :: "interaction_role \<Rightarrow> bool \<Rightarrow> inbound_event_action" where
  "classify_role PrivateCompanion has_text = (if has_text then RunTurn else StoreOnly)"
| "classify_role TaskExecutor has_text = (if has_text then RunTurn else StoreOnly)"
| "classify_role OwnerDelegate has_text = (if has_text then RunTurn else StoreOnly)"
| "classify_role WebhookObserver has_text = NotifyOwner"
| "classify_role BackgroundAutomation has_text = NotifyOwner"
| "classify_role NodeController has_text = StoreOnly"
| "classify_role AgentPeer has_text = RunTurn"
| "classify_role AgentCoordinator has_text = RunTurn"
| "classify_role PublicRepresentative has_text = RunTurn"
| "classify_role GroupParticipant has_text = RunTurn"

definition classify_event :: "inbound_event \<Rightarrow> inbound_event_action" where
  "classify_event e =
     classify_role (ic_role (ie_interaction_context e))
       (case ie_text e of None \<Rightarrow> False | Some t \<Rightarrow> \<not> blank t)"

section \<open>What decides\<close>

definition is_destructive :: "string \<Rightarrow> bool" where
  "is_destructive input \<longleftrightarrow> (\<exists>hint \<in> set destructive_hints. contains (to_lower input) hint)"

definition is_mutating :: "string \<Rightarrow> bool" where
  "is_mutating input \<longleftrightarrow> (\<exists>hint \<in> set mutating_hints. contains (to_lower input) hint)"

definition names_protected :: "string \<Rightarrow> bool" where
  "names_protected input \<longleftrightarrow> (\<exists>c \<in> set protected_candidates. contains (to_lower input) c)"

lemma protected_targets_Nil: "protected_targets input = [] \<longleftrightarrow> \<not> names_protected input"
  by (auto simp: protected_targets_def names_protected_def filter_empty_conv)

lemma classify_risk_iff:
  "classify_risk input (protected_targets input) =
     (if names_protected input \<and> is_destructive input then Critical
      else if names_protected input \<or> is_destructive input then High
      else if is_mutating input then Medium else Low)"
  by (simp add: classify_risk_def protected_targets_Nil is_destructive_def is_mutating_def Let_def)

fun risk_rank :: "risk_level \<Rightarrow> nat" where
  "risk_rank Low = 0" | "risk_rank Medium = 1" | "risk_rank High = 2" | "risk_rank Critical = 3"

lemma hint_mono:
  "contains (to_lower a) hint \<Longrightarrow> contains (to_lower (u @ a @ v)) hint"
  using contains_appendI [of "to_lower a" hint "to_lower u" "to_lower v"] by simp

section \<open>Replacing a word removes it\<close>

text \<open>
  A replacement text whose first and last characters do not occur in a word can neither complete
  an occurrence of the word nor hide one: occurrences in the result are occurrences in the
  original.
\<close>

lemma starts_with_before: "starts_with (u @ p # r) q \<Longrightarrow> p \<notin> set q \<Longrightarrow> starts_with u q"
  by (induction u q rule: starts_with.induct) auto

lemma contains_around:
  "contains (u @ p # r) q \<Longrightarrow> p \<notin> set q \<Longrightarrow> q \<noteq> [] \<Longrightarrow> contains u q \<or> contains r q"
proof (induction u)
  case Nil
  then show ?case by (cases q) auto
next
  case (Cons c u)
  then show ?case using starts_with_before [of "c # u" p r q] by auto
qed

lemma starts_with_replaced:
  "starts_with (replace_from pat (f # m) s) q \<Longrightarrow> pat \<noteq> [] \<Longrightarrow> f \<notin> set q \<Longrightarrow> starts_with s q"
proof (induction q arbitrary: s)
  case Nil
  then show ?case by simp
next
  case (Cons c q)
  then show ?case
    by (cases s) (auto simp: replace_from_eqs split: if_splits)
qed

lemma contains_drop: "contains (drop n s) q \<Longrightarrow> contains s q"
  using contains_append_left [of "drop n s" q "take n s"] by simp

lemma contains_replaced:
  assumes "contains (replace_from pat (f # m @ [l]) s) q" and "pat \<noteq> []" and "q \<noteq> []"
    and "f \<notin> set q" and "l \<notin> set q" and "\<not> contains (f # m) q"
  shows "contains s q"
  using assms(1)
proof (induction "length s" arbitrary: s rule: less_induct)
  case less
  show ?case
  proof (cases s)
    case Nil
    with less.prems assms(2) show ?thesis by (simp add: replace_from_eqs)
  next
    case (Cons c cs)
    show ?thesis
    proof (cases "starts_with s pat")
      case True
      let ?d = "drop (length pat) s"
      have "contains ((f # m) @ l # replace_from pat (f # m @ [l]) ?d) q"
        using less.prems True Cons assms(2) by (simp add: replace_from_eqs)
      then have "contains (replace_from pat (f # m @ [l]) ?d) q"
        using contains_around assms(3,5,6) by blast
      moreover have "length ?d < length s" using assms(2) Cons by (cases pat) auto
      ultimately show ?thesis using less.hyps contains_drop by blast
    next
      case False
      then have eq: "replace_from pat (f # m @ [l]) s = c # replace_from pat (f # m @ [l]) cs"
        using Cons assms(2) by (simp add: replace_from_eqs)
      have "starts_with (replace_from pat (f # m @ [l]) s) q \<or> contains (replace_from pat (f # m @ [l]) cs) q"
        using less.prems unfolding eq by simp
      then show ?thesis
      proof
        assume "starts_with (replace_from pat (f # m @ [l]) s) q"
        then have "starts_with s q" using starts_with_replaced assms(2,4) by blast
        then show ?thesis using Cons by simp
      next
        assume "contains (replace_from pat (f # m @ [l]) cs) q"
        then show ?thesis using less.hyps [of cs] Cons by simp
      qed
    qed
  qed
qed

lemma replaced_absent:
  assumes "pat \<noteq> []" and "f \<notin> set pat" and "l \<notin> set pat" and "\<not> contains (f # m) pat"
  shows "\<not> contains (replace_from pat (f # m @ [l]) s) pat"
proof (induction "length s" arbitrary: s rule: less_induct)
  case less
  show ?case
  proof (cases s)
    case Nil
    with assms(1) show ?thesis by (simp add: replace_from_eqs)
  next
    case (Cons c cs)
    show ?thesis
    proof (cases "starts_with s pat")
      case True
      let ?d = "drop (length pat) s"
      have "length ?d < length s" using assms(1) Cons by (cases pat) auto
      then have "\<not> contains (replace_from pat (f # m @ [l]) ?d) pat" using less.hyps by blast
      then have "\<not> contains ((f # m) @ l # replace_from pat (f # m @ [l]) ?d) pat"
        using contains_around assms by blast
      then show ?thesis using True Cons assms(1) by (simp add: replace_from_eqs)
    next
      case False
      then have "\<not> starts_with (replace_from pat (f # m @ [l]) s) pat"
        using starts_with_replaced [OF _ assms(1,2)] by blast
      then show ?thesis using False Cons less.hyps [of cs] assms(1)
        by (simp add: replace_from_eqs)
    qed
  qed
qed

lemma redaction_removes:
  "\<not> contains (redact_commitment_language output) ''commitment''"
  "\<not> contains (redact_commitment_language output) ''Commitment''"
proof -
  let ?first = "replace_from ''commitment'' (CHR ''f'' # ''ollow-u'' @ [CHR ''p'']) output"
  have eq: "redact_commitment_language output =
      replace_from ''Commitment'' (CHR ''F'' # ''ollow-u'' @ [CHR ''p'']) ?first"
    by (simp add: redact_commitment_language_def replace_all_def)
  have "\<not> contains ?first ''commitment''"
    by (rule replaced_absent) simp_all
  then show "\<not> contains (redact_commitment_language output) ''commitment''"
    unfolding eq by (rule contrapos_nn, elim contains_replaced) simp_all
  show "\<not> contains (redact_commitment_language output) ''Commitment''"
    unfolding eq by (rule replaced_absent) simp_all
qed

section \<open>Properties\<close>


text \<open>Wrapping a request in more text never lowers its risk: what needed a checkpoint or an
  approval alone still needs it inside a longer message.\<close>

theorem risk_monotone:
  "risk_rank (pd_risk_level (evaluate input context))
     \<le> risk_rank (pd_risk_level (evaluate (before @ input @ after) context))"
proof -
  note mono = hint_mono [of input _ before after]
  have "names_protected input \<Longrightarrow> names_protected (before @ input @ after)"
    and "is_destructive input \<Longrightarrow> is_destructive (before @ input @ after)"
    and "is_mutating input \<Longrightarrow> is_mutating (before @ input @ after)"
    using mono unfolding names_protected_def is_destructive_def is_mutating_def by blast+
  then show ?thesis by (auto simp: evaluate_def Let_def classify_risk_iff)
qed

text \<open>The output gate never lets a commitment through in its two usual spellings: when the
  audience is public or a group and commitments are not shared, a message delivered as it is does
  not mention one in any case, and a redacted message contains neither spelling.\<close>

theorem output_gate_hides_commitments:
  assumes "au_visibility (ic_audience ic) = Public \<or> au_visibility (ic_audience ic) = Group"
    and "\<not> dp_share_commitments (ic_disclosure ic)"
  shows "case check_output ic output of
      Allowed \<Rightarrow> \<not> contains (to_lower output) ''commitment''
    | Redacted txt \<Rightarrow> \<not> contains txt ''commitment'' \<and> \<not> contains txt ''Commitment''
    | NeedsOwnerConfirmation reason \<Rightarrow> as_requires_owner_confirmation (ic_authority ic)
    | Denied reason \<Rightarrow> ac_kind (ic_actor ic) \<in> {RemoteNode, LocalNode}
        \<and> mentions_private_identity output"
  using assms redaction_removes by (auto simp: check_output_def)

definition demo_public :: interaction_context where
  "demo_public =
     \<lparr>ic_ingress = \<lparr>ig_kind = ''test'', ig_source_id = ''test-source'', ig_conversation_id = None\<rparr>,
      ic_actor = \<lparr>ac_actor_id = ''actor'', ac_kind = HumanContact, ac_display_name = None,
        ac_proof = None\<rparr>,
      ic_audience = \<lparr>au_visibility = Public, au_participants = []\<rparr>, ic_role = PublicRepresentative,
      ic_authority = authority_restricted_default\<lparr>as_requires_owner_confirmation := False\<rparr>,
      ic_disclosure = disclosure_stranger_default, ic_task_mandate = None,
      ic_provenance = \<lparr>pv_channel = None, pv_received_at = None, pv_authenticated_by = None,
        pv_raw_event_ref = None\<rparr>\<rparr>"

lemma demo_public_check:
  "check_output demo_public ''Current commitment: finish the private project review.''
     = Redacted ''Current follow-up: finish the private project review.''"
  by code_simp

theorem output_gate_hides_commitments_witness:
  "\<not> contains ''Current follow-up: finish the private project review.'' ''commitment''"
  using output_gate_hides_commitments
    [of demo_public "''Current commitment: finish the private project review.''"]
  unfolding demo_public_check by (simp add: demo_public_def disclosure_stranger_default_def)

text \<open>The redaction knows two spellings only, while the check ignores case: a message that is
  found to mention a commitment in capitals is delivered with the word in it.\<close>

theorem redaction_keeps_other_spellings:
  "check_output demo_public ''COMMITMENT: review'' = Redacted ''COMMITMENT: review''"
  by code_simp

text \<open>An inbound event runs a model turn exactly when it comes from an agent, the public or a
  group, or from one of the owner's own roles with text that is not blank; observers and
  automations only notify the owner.\<close>

theorem inbound_runs_turn_iff:
  "(classify_event e = RunTurn \<longleftrightarrow>
      ic_role (ie_interaction_context e)
        \<in> {AgentPeer, AgentCoordinator, PublicRepresentative, GroupParticipant}
      \<or> ic_role (ie_interaction_context e) \<in> {PrivateCompanion, TaskExecutor, OwnerDelegate}
        \<and> (\<exists>t. ie_text e = Some t \<and> (\<exists>c \<in> set t. \<not> is_ws c)))
   \<and> (classify_event e = NotifyOwner \<longleftrightarrow>
      ic_role (ie_interaction_context e) \<in> {WebhookObserver, BackgroundAutomation})"
  by (cases "ic_role (ie_interaction_context e)")
    (auto simp: classify_event_def blank_iff split: option.splits)

end
