(* ===== verification/Memory_Text.thy ===== *)
theory Memory_Text
  imports Storage Lexical
begin

text \<open>
  The lexical half of the memory engine (\<open>runtime/memory.rs\<close>): token normalisation with its stop
  words, topics, keywords and slugs, the sanitising of lists that come from a model, and the
  scores of keyword and semantic search. The semantic score ends in single-precision floating
  point: embeddings, dot product and norms are the natural numbers below (exact in that
  format), and the last step, the cosine in rounded percent, is the argument \<open>cosine_percent\<close>.
\<close>

section \<open>Tokens\<close>

definition stop_words :: "string list" where
  "stop_words =
     [''the'', ''and'', ''that'', ''with'', ''from'', ''this'', ''have'', ''into'', ''your'', ''were'',
      ''while'', ''after'', ''before'', ''only'', ''just'', ''there'', ''their'', ''about'', ''would'',
      ''could'', ''should'', ''thread'', ''turn'', ''work'', ''task'', ''then'', ''when'', ''what'']"

definition normalize_tokens :: "string \<Rightarrow> string list" where
  "normalize_tokens txt =
     filter (\<lambda>t. t \<noteq> [] \<and> 3 \<le> length t \<and> t \<notin> set stop_words) (map to_lower (words txt))"

definition derive_topics_from_text :: "string list \<Rightarrow> nat \<Rightarrow> string list" where
  "derive_topics_from_text texts limit =
     collect_new id (\<lambda>t. \<not> length t < 4) limit [] [] (concat (map normalize_tokens texts))"

definition derive_keywords_from_text :: "string list \<Rightarrow> nat \<Rightarrow> string list" where
  "derive_keywords_from_text texts limit =
     take limit (rank_tokens (concat (map normalize_tokens texts)))"

definition slugify :: "string \<Rightarrow> string" where
  "slugify txt =
     (let tokens = normalize_tokens txt
      in if tokens = [] then ''item'' else join ''_'' (take 6 tokens))"

section \<open>Sanitising\<close>

definition sanitize_optional_string :: "string option \<Rightarrow> string option" where
  "sanitize_optional_string v =
     (case v of None \<Rightarrow> None | Some s \<Rightarrow> if trim s = [] then None else Some (trim s))"

definition sanitize_string_list :: "string list \<Rightarrow> nat \<Rightarrow> string list" where
  "sanitize_string_list values limit =
     collect_new to_lower (\<lambda>t. t \<noteq> []) limit [] [] (map trim values)"

definition prefer_sanitized_list :: "string list \<Rightarrow> string list \<Rightarrow> nat \<Rightarrow> string list" where
  "prefer_sanitized_list values fallback limit =
     (let sanitized = sanitize_string_list values limit
      in if sanitized = [] then fallback else sanitized)"

section \<open>Search scores\<close>

definition semantic_token_aliases :: "string \<Rightarrow> string list" where
  "semantic_token_aliases t =
     (if t \<in> {''edit'', ''edits'', ''change'', ''changes'', ''modify'', ''modified'', ''patch'', ''patched''}
      then [t, ''change'']
      else if t \<in> {''repo'', ''repository'', ''project'', ''workspace'', ''codebase''}
      then [t, ''workspace'']
      else if t \<in> {''remember'', ''recall'', ''memory'', ''memorize'', ''memories''}
      then [t, ''memory'']
      else if t \<in> {''conversation'', ''chat'', ''thread'', ''session''}
      then [t, ''conversation'']
      else if t \<in> {''run'', ''exec'', ''execute'', ''command'', ''shell''}
      then [t, ''command'']
      else [t])"

text \<open>FNV-1a over the bytes, in wrapping 64-bit arithmetic.\<close>

definition stable_hash :: "string \<Rightarrow> 64 word" where
  "stable_hash txt =
     fold (\<lambda>c h. (xor h (of_nat (of_char c))) * 1099511628211) txt 14695981039346656037"

definition embedding_dim :: nat where
  "embedding_dim = 64"

text \<open>The 64 counters, one per bucket of the hash.\<close>

definition deterministic_embedding :: "string \<Rightarrow> nat list" where
  "deterministic_embedding txt =
     fold (\<lambda>t v. let i = unat (stable_hash t) mod embedding_dim in v[i := v ! i + 1])
       (concat (map semantic_token_aliases (normalize_tokens txt))) (replicate embedding_dim 0)"

definition dot_product :: "nat list \<Rightarrow> nat list \<Rightarrow> nat" where
  "dot_product xs ys = sum_list (map (\<lambda>(x, y). x * y) (zip xs ys))"

definition semantic_embedding_score ::
  "(nat \<Rightarrow> nat \<Rightarrow> nat \<Rightarrow> nat) \<Rightarrow> string \<Rightarrow> string \<Rightarrow> nat \<Rightarrow> nat" where
  "semantic_embedding_score cosine_percent query haystack shared =
     (let q = deterministic_embedding query; h = deterministic_embedding haystack;
          qn = dot_product q q; hn = dot_product h h
      in if qn = 0 \<or> hn = 0 then 0
         else let score = cosine_percent (dot_product q h) qn hn + shared * 25
           in if 18 \<le> score then score else 0)"

definition score_match ::
  "(nat \<Rightarrow> nat \<Rightarrow> nat \<Rightarrow> nat) \<Rightarrow> string \<Rightarrow> string list \<Rightarrow> string \<Rightarrow> memory_search_mode \<Rightarrow> nat" where
  "score_match cosine_percent query query_tokens haystack mode =
     (let haystack_tokens = normalize_tokens haystack
      in if haystack_tokens = [] then 0
         else let shared = length (filter (\<lambda>t. t \<in> set haystack_tokens) query_tokens)
           in case mode of
                KeywordSearch \<Rightarrow> shared * 100
              | SemanticSearch \<Rightarrow> semantic_embedding_score cosine_percent query haystack shared)"

section \<open>What they return\<close>

lemma normalize_tokens_props:
  "t \<in> set (normalize_tokens txt) \<Longrightarrow> 3 \<le> length t \<and> to_lower t = t \<and> t \<notin> set stop_words"
  by (auto simp: normalize_tokens_def)

lemma derive_topics_props:
  "distinct (derive_topics_from_text texts n)"
  "0 < n \<Longrightarrow> length (derive_topics_from_text texts n) \<le> n"
  "t \<in> set (derive_topics_from_text texts n) \<Longrightarrow>
     4 \<le> length t \<and> (\<exists>txt \<in> set texts. t \<in> set (normalize_tokens txt))"
proof -
  show "distinct (derive_topics_from_text texts n)"
    using distinct_collect_new_start [of id "\<lambda>t. \<not> length t < 4" n] by (simp add: derive_topics_from_text_def)
  show "0 < n \<Longrightarrow> length (derive_topics_from_text texts n) \<le> n"
    by (simp add: derive_topics_from_text_def length_collect_new_start)
  show "t \<in> set (derive_topics_from_text texts n) \<Longrightarrow>
     4 \<le> length t \<and> (\<exists>txt \<in> set texts. t \<in> set (normalize_tokens txt))"
    by (auto simp: derive_topics_from_text_def dest!: collect_new_acceptable)
qed

lemma sanitize_props:
  "distinct (map to_lower (sanitize_string_list values n))"
  "0 < n \<Longrightarrow> length (sanitize_string_list values n) \<le> n"
  "t \<in> set (sanitize_string_list values n) \<Longrightarrow> t \<noteq> [] \<and> trim t = t \<and> (\<exists>v \<in> set values. t = trim v)"
proof -
  show "distinct (map to_lower (sanitize_string_list values n))"
    by (simp add: sanitize_string_list_def distinct_collect_new_start)
  show "0 < n \<Longrightarrow> length (sanitize_string_list values n) \<le> n"
    by (simp add: sanitize_string_list_def length_collect_new_start)
  show "t \<in> set (sanitize_string_list values n) \<Longrightarrow> t \<noteq> [] \<and> trim t = t \<and> (\<exists>v \<in> set values. t = trim v)"
    by (auto simp: sanitize_string_list_def dest!: collect_new_acceptable)
qed

lemma embedding_length [simp]: "length (deterministic_embedding txt) = embedding_dim"
proof -
  have "length (fold (\<lambda>t v. let i = unat (stable_hash t) mod embedding_dim in v[i := v ! i + 1]) ts v) = length v"
    for ts :: "string list" and v :: "nat list"
    by (induction ts arbitrary: v) (auto simp: Let_def)
  then show ?thesis by (simp add: deterministic_embedding_def)
qed

lemma score_match_keyword_pos:
  "0 < score_match cp query (normalize_tokens query) haystack KeywordSearch \<longleftrightarrow>
   (\<exists>t. t \<in> set (normalize_tokens query) \<and> t \<in> set (normalize_tokens haystack))"
  by (auto simp: score_match_def Let_def filter_empty_conv)

text \<open>What a model returns for a list is sanitised before it is stored: the entries are trimmed
  and not empty, no two agree up to case, there are at most as many as the limit, and while the
  limit is not reached every non-blank entry is there up to case.\<close>

theorem sanitized_list_characterised:
  assumes "0 < limit"
  shows "distinct (map to_lower (sanitize_string_list vs limit))
    \<and> length (sanitize_string_list vs limit) \<le> limit
    \<and> (\<forall>t \<in> set (sanitize_string_list vs limit). \<not> blank t \<and> trim t = t \<and> (\<exists>v \<in> set vs. t = trim v))
    \<and> (length (sanitize_string_list vs limit) < limit \<longrightarrow>
        (\<forall>v \<in> set vs. \<not> blank v \<longrightarrow>
          to_lower (trim v) \<in> to_lower ` set (sanitize_string_list vs limit)))"
proof (intro conjI impI)
  show "\<forall>t \<in> set (sanitize_string_list vs limit). \<not> blank t \<and> trim t = t \<and> (\<exists>v \<in> set vs. t = trim v)"
    using sanitize_props(3) by (fastforce simp: blank_def)
  assume "length (sanitize_string_list vs limit) < limit"
  then have "to_lower ` {x \<in> set (map trim vs). x \<noteq> []} \<subseteq> to_lower ` set (sanitize_string_list vs limit)"
    unfolding sanitize_string_list_def
    using collect_new_complete [of to_lower "\<lambda>t. t \<noteq> []" limit "[]" "[]" "map trim vs"] by simp
  then show "\<forall>v \<in> set vs. \<not> blank v \<longrightarrow>
      to_lower (trim v) \<in> to_lower ` set (sanitize_string_list vs limit)"
    by (auto simp: blank_def)
qed (use assms sanitize_props in auto)

theorem sanitized_list_characterised_witness:
  "sanitize_string_list ['' a '', ''A'', '''', ''b'', ''c''] 2 = [''a'', ''b'']
   \<and> length (sanitize_string_list ['' a '', ''A'', '''', ''b'', ''c''] 2) \<le> 2"
  using sanitized_list_characterised [of 2 "['' a '', ''A'', '''', ''b'', ''c'']"]
  by (simp, code_simp)

end
