(* ===== verification/Memory_Facts.thy ===== *)
theory Memory_Facts
  imports Samples Memory_Text
begin

text \<open>
  The fact ledger of the memory engine (\<open>runtime/memory.rs\<close>): facts are never deleted; a fact
  that is superseded or whose subject is withdrawn gets an invalidation stamp. The functions that
  mutate the snapshot and push to the two result lists (\<open>upsert_fact\<close>, \<open>sync_commitment_facts\<close>,
  \<open>invalidate_candidate_subjects\<close>, \<open>sync_topic_index\<close>) act on a draft that holds all of them.
  The lemmas show that each keeps at most one live fact per subject and only extends the ledger,
  and what each makes live.
\<close>

record fact_spec =
  fc_kind :: memory_fact_kind
  fc_subject :: string
  fc_value :: string
  fc_keywords :: "string list"
  fc_related_thread_ids :: "thread_id list"
  fc_citations :: "memory_citation_ref list"
  fc_updated_at :: timestamp

record memory_draft =
  md_snapshot :: global_memory_snapshot
  md_ids :: id_generator
  md_updated :: "memory_fact_id list"
  md_invalidated :: "memory_fact_id list"

abbreviation live :: "stored_memory_fact \<Rightarrow> bool" where
  "live f \<equiv> sf_invalidated_at f = None"

abbreviation md_facts :: "memory_draft \<Rightarrow> stored_memory_fact list" where
  "md_facts d \<equiv> gm_facts (md_snapshot d)"

section \<open>Operations\<close>

definition fact_of_spec :: "memory_fact_id \<Rightarrow> fact_spec \<Rightarrow> stored_memory_fact" where
  "fact_of_spec i sp =
     \<lparr>sf_id = i, sf_kind = fc_kind sp, sf_subject = fc_subject sp, sf_value = fc_value sp,
      sf_keywords = fc_keywords sp, sf_related_thread_ids = fc_related_thread_ids sp,
      sf_citations = fc_citations sp, sf_updated_at = fc_updated_at sp,
      sf_invalidated_at = None, sf_invalidated_by = None\<rparr>"

definition live_match :: "string \<Rightarrow> stored_memory_fact \<Rightarrow> bool" where
  "live_match subject f \<longleftrightarrow> sf_subject f = subject \<and> live f"

lemma live_match_abs: "live_match subject = (\<lambda>f. sf_subject f = subject \<and> live f)"
  by (rule ext) (simp add: live_match_def)

definition refresh_fact :: "fact_spec \<Rightarrow> stored_memory_fact \<Rightarrow> stored_memory_fact" where
  "refresh_fact sp f =
     f\<lparr>sf_keywords := fc_keywords sp, sf_related_thread_ids := fc_related_thread_ids sp,
       sf_citations := fc_citations sp, sf_updated_at := fc_updated_at sp\<rparr>"

definition invalidate_fact ::
  "timestamp \<Rightarrow> memory_fact_id \<Rightarrow> stored_memory_fact \<Rightarrow> stored_memory_fact" where
  "invalidate_fact now by_id f = f\<lparr>sf_invalidated_at := Some now, sf_invalidated_by := Some by_id\<rparr>"

definition set_facts :: "stored_memory_fact list \<Rightarrow> memory_draft \<Rightarrow> memory_draft" where
  "set_facts fs d = d\<lparr>md_snapshot := (md_snapshot d)\<lparr>gm_facts := fs\<rparr>\<rparr>"

definition upsert_fact :: "fact_spec \<Rightarrow> memory_draft \<Rightarrow> memory_draft" where
  "upsert_fact sp d =
     (case find (live_match (fc_subject sp)) (md_facts d) of
        Some existing \<Rightarrow>
          if sf_value existing = fc_value sp \<and> sf_kind existing = fc_kind sp
          then (set_facts (update_first (live_match (fc_subject sp)) (refresh_fact sp) (md_facts d)) d)
            \<lparr>md_updated := md_updated d @ [sf_id existing]\<rparr>
          else let (i, g) = next_memory_fact_id (md_ids d) in
            (set_facts (update_first (live_match (fc_subject sp))
                (invalidate_fact (fc_updated_at sp) i) (md_facts d) @ [fact_of_spec i sp]) d)
            \<lparr>md_ids := g, md_updated := md_updated d @ [i],
             md_invalidated := md_invalidated d @ [sf_id existing]\<rparr>
      | None \<Rightarrow> let (i, g) = next_memory_fact_id (md_ids d) in
          (set_facts (md_facts d @ [fact_of_spec i sp]) d)
          \<lparr>md_ids := g, md_updated := md_updated d @ [i]\<rparr>)"

text \<open>The loop \<open>for fact in snapshot.facts.iter_mut()\<close> that stamps every fact with a property.\<close>

fun invalidate_where ::
  "(stored_memory_fact \<Rightarrow> bool) \<Rightarrow> timestamp \<Rightarrow> stored_memory_fact list \<Rightarrow> id_generator \<Rightarrow>
   stored_memory_fact list \<times> id_generator \<times> memory_fact_id list" where
  "invalidate_where p now [] g = ([], g, [])"
| "invalidate_where p now (f # fs) g =
     (if p f
      then let (i, g') = next_memory_fact_id g;
               (fs', g'', ids) = invalidate_where p now fs g'
           in (invalidate_fact now i f # fs', g'', sf_id f # ids)
      else let (fs', g'', ids) = invalidate_where p now fs g in (f # fs', g'', ids))"

definition invalidate_all ::
  "(stored_memory_fact \<Rightarrow> bool) \<Rightarrow> timestamp \<Rightarrow> memory_draft \<Rightarrow> memory_draft" where
  "invalidate_all p now d =
     (let (fs, g, ids) = invalidate_where p now (md_facts d) (md_ids d)
      in (set_facts fs d)\<lparr>md_ids := g, md_invalidated := md_invalidated d @ ids\<rparr>)"

definition commitment_subject :: "thread_id \<Rightarrow> string \<Rightarrow> string" where
  "commitment_subject k c = ''thread:'' @ k @ '':commitment:'' @ slugify c"

definition thread_spec ::
  "memory_fact_kind \<Rightarrow> string \<Rightarrow> string \<Rightarrow> string list \<Rightarrow> thread_id \<Rightarrow> memory_citation_ref list \<Rightarrow>
   timestamp \<Rightarrow> fact_spec" where
  "thread_spec kind subject v keywords k citations now =
     \<lparr>fc_kind = kind, fc_subject = subject, fc_value = v, fc_keywords = keywords,
      fc_related_thread_ids = [k], fc_citations = citations, fc_updated_at = now\<rparr>"

definition stale_commitment ::
  "thread_id \<Rightarrow> string list \<Rightarrow> stored_memory_fact \<Rightarrow> bool" where
  "stale_commitment k commitments f \<longleftrightarrow>
     sf_kind f = Commitment \<and> k \<in> set (sf_related_thread_ids f)
     \<and> \<not> (sf_subject f \<in> commitment_subject k ` set commitments \<or> \<not> live f)"

definition sync_commitment_facts ::
  "thread_id \<Rightarrow> string list \<Rightarrow> string list \<Rightarrow> memory_citation_ref list \<Rightarrow> timestamp \<Rightarrow>
   memory_draft \<Rightarrow> memory_draft" where
  "sync_commitment_facts k commitments keywords citations now d =
     fold (\<lambda>c. upsert_fact (thread_spec Commitment (commitment_subject k c) c keywords k citations now))
       commitments (invalidate_all (stale_commitment k commitments) now d)"

definition invalidate_candidate_subjects ::
  "string list \<Rightarrow> timestamp \<Rightarrow> memory_draft \<Rightarrow> memory_draft" where
  "invalidate_candidate_subjects subjects now d =
     (if subjects = [] then d
      else let subject_set = set (filter (\<lambda>s. s \<noteq> []) (map trim subjects))
        in if subject_set = {} then d
           else invalidate_all (\<lambda>f. \<not> (\<not> live f \<or> sf_subject f \<notin> subject_set)) now d)"

definition merge_into_vec :: "'a::linorder list \<Rightarrow> 'a list \<Rightarrow> 'a list" where
  "merge_into_vec target values = btree_set (target @ values)"

definition topic_matches :: "string \<Rightarrow> stored_topic_record \<Rightarrow> bool" where
  "topic_matches name t \<longleftrightarrow> tp_name t = name \<or> name \<in> set (tp_aliases t)"

fun topic_status_of :: "thread_status \<Rightarrow> memory_topic_status" where
  "topic_status_of thread_status.Completed = TopicResolved"
| "topic_status_of thread_status.Failed = TopicStale"
| "topic_status_of thread_status.Archived = TopicStale"
| "topic_status_of thread_status.Active = TopicActive"
| "topic_status_of thread_status.WaitingApproval = TopicActive"
| "topic_status_of thread_status.Interrupted = TopicActive"

record topic_update =
  tu_thread :: thread
  tu_artifact_ids :: "artifact_id list"
  tu_keywords :: "string list"
  tu_fact_ids :: "memory_fact_id list"
  tu_citations :: "memory_citation_ref list"
  tu_now :: timestamp

definition topic_summary_text :: "topic_update \<Rightarrow> string \<Rightarrow> string" where
  "topic_summary_text u name =
     unwrap_or (''Recent topic around '' @ name) (th_active_summary (tu_thread u))"

definition refresh_topic :: "topic_update \<Rightarrow> string \<Rightarrow> stored_topic_record \<Rightarrow> stored_topic_record" where
  "refresh_topic u name t =
     t\<lparr>tp_summary := topic_summary_text u name,
       tp_status := topic_status_of (th_status (tu_thread u)), tp_last_active_at := tu_now u,
       tp_related_thread_ids := merge_into_vec (tp_related_thread_ids t) [th_id (tu_thread u)],
       tp_related_artifact_ids := merge_into_vec (tp_related_artifact_ids t) (tu_artifact_ids u),
       tp_citation_fact_ids := merge_into_vec (tp_citation_fact_ids t) (tu_fact_ids u),
       tp_recent_keywords := tu_keywords u,
       tp_citations := merge_into_vec (tp_citations t) (tu_citations u)\<rparr>"

definition new_topic :: "topic_update \<Rightarrow> string \<Rightarrow> stored_topic_record" where
  "new_topic u name =
     \<lparr>tp_name = name, tp_aliases = [], tp_summary = topic_summary_text u name,
      tp_status = topic_status_of (th_status (tu_thread u)), tp_last_active_at = tu_now u,
      tp_related_thread_ids = [th_id (tu_thread u)], tp_related_artifact_ids = tu_artifact_ids u,
      tp_citation_fact_ids = tu_fact_ids u, tp_recent_keywords = tu_keywords u,
      tp_citations = tu_citations u\<rparr>"

definition sync_topic :: "topic_update \<Rightarrow> string \<Rightarrow> stored_topic_record list \<Rightarrow> stored_topic_record list" where
  "sync_topic u name ts =
     (if \<exists>t \<in> set ts. topic_matches name t
      then update_first (topic_matches name) (refresh_topic u name) ts
      else ts @ [new_topic u name])"

definition sync_topic_index ::
  "thread \<Rightarrow> turn_log_entry list \<Rightarrow> string list \<Rightarrow> string list \<Rightarrow> memory_citation_ref list \<Rightarrow>
   timestamp \<Rightarrow> memory_draft \<Rightarrow> memory_draft" where
  "sync_topic_index th recent_entries topics keywords citations now d =
     (let u = \<lparr>tu_thread = th,
               tu_artifact_ids = btree_set (concat (map le_artifact_ids recent_entries)),
               tu_keywords = keywords, tu_fact_ids = md_updated d, tu_citations = citations,
               tu_now = now\<rparr>
      in d\<lparr>md_snapshot := (md_snapshot d)
            \<lparr>gm_topic_index := fold (sync_topic u) topics (gm_topic_index (md_snapshot d))\<rparr>\<rparr>)"

section \<open>The ledger invariant\<close>

text \<open>At most one live fact per subject.\<close>

definition live_unique :: "stored_memory_fact list \<Rightarrow> bool" where
  "live_unique fs \<longleftrightarrow> distinct (map sf_subject (filter live fs))"

text \<open>
  How a ledger may develop: the old facts stay, in their places, with their identifier, kind,
  subject and value; one that was invalidated stays exactly as it was; new facts come after.
\<close>

definition fact_evolves :: "stored_memory_fact \<Rightarrow> stored_memory_fact \<Rightarrow> bool" where
  "fact_evolves f g \<longleftrightarrow> sf_id g = sf_id f \<and> sf_kind g = sf_kind f \<and> sf_subject g = sf_subject f
     \<and> sf_value g = sf_value f \<and> (sf_invalidated_at f = None \<or> g = f)"

definition ledger_extends :: "stored_memory_fact list \<Rightarrow> stored_memory_fact list \<Rightarrow> bool" where
  "ledger_extends fs gs \<longleftrightarrow> (\<exists>kept new. gs = kept @ new \<and> list_all2 fact_evolves fs kept)"

lemma fact_evolves_refl [simp]: "fact_evolves f f"
  by (simp add: fact_evolves_def)

lemma fact_evolves_trans: "fact_evolves f g \<Longrightarrow> fact_evolves g h \<Longrightarrow> fact_evolves f h"
  by (auto simp: fact_evolves_def)

lemma all2_evolves_refl [simp]: "list_all2 fact_evolves fs fs"
  by (simp add: list_all2_refl)

lemma ledger_extends_refl [simp]: "ledger_extends fs fs"
  unfolding ledger_extends_def by (intro exI [of _ fs] exI [of _ "[]"]) simp

lemma ledger_extends_trans:
  assumes "ledger_extends fs gs" and "ledger_extends gs hs"
  shows "ledger_extends fs hs"
proof -
  obtain k1 n1 where 1: "gs = k1 @ n1" "list_all2 fact_evolves fs k1"
    using assms(1) by (auto simp: ledger_extends_def)
  obtain k2 n2 where 2: "hs = k2 @ n2" "list_all2 fact_evolves gs k2"
    using assms(2) by (auto simp: ledger_extends_def)
  obtain a b where ab: "k2 = a @ b" "list_all2 fact_evolves k1 a"
    using 1(1) 2(2) by (auto simp: list_all2_append1)
  have "list_all2 fact_evolves fs a"
    by (rule list_all2_trans [OF _ 1(2) ab(2)]) (rule fact_evolves_trans)
  then show ?thesis using 2(1) ab(1) by (auto simp: ledger_extends_def)
qed

lemma ledger_extends_append: "list_all2 fact_evolves fs gs \<Longrightarrow> ledger_extends fs (gs @ new)"
  by (auto simp: ledger_extends_def)

lemma evolves_refresh: "live f \<Longrightarrow> fact_evolves f (refresh_fact sp f)"
  by (simp add: fact_evolves_def refresh_fact_def)

lemma evolves_invalidate: "live f \<Longrightarrow> fact_evolves f (invalidate_fact now i f)"
  by (simp add: fact_evolves_def invalidate_fact_def)

lemma all2_update_first:
  "(\<And>f. f \<in> set fs \<Longrightarrow> p f \<Longrightarrow> R f (h f)) \<Longrightarrow> (\<And>f. R f f) \<Longrightarrow> list_all2 R fs (update_first p h fs)"
  by (induction fs) (auto simp: list_all2_refl)

section \<open>What each operation does to the ledger\<close>

lemma md_simps [simp]:
  "md_facts (set_facts fs d) = fs" "md_ids (set_facts fs d) = md_ids d"
  "md_updated (set_facts fs d) = md_updated d" "md_invalidated (set_facts fs d) = md_invalidated d"
  "gm_topic_index (md_snapshot (set_facts fs d)) = gm_topic_index (md_snapshot d)"
  "gm_recent_topics (md_snapshot (set_facts fs d)) = gm_recent_topics (md_snapshot d)"
  "gm_active_thread_ids (md_snapshot (set_facts fs d)) = gm_active_thread_ids (md_snapshot d)"
  by (simp_all add: set_facts_def)

lemma fact_of_spec_simps [simp]:
  "sf_subject (fact_of_spec i sp) = fc_subject sp" "live (fact_of_spec i sp)"
  "sf_value (fact_of_spec i sp) = fc_value sp" "sf_kind (fact_of_spec i sp) = fc_kind sp"
  "sf_id (fact_of_spec i sp) = i"
  by (simp_all add: fact_of_spec_def)

lemma refresh_simps [simp]:
  "sf_subject (refresh_fact sp f) = sf_subject f" "sf_value (refresh_fact sp f) = sf_value f"
  "sf_kind (refresh_fact sp f) = sf_kind f" "sf_id (refresh_fact sp f) = sf_id f"
  "sf_invalidated_at (refresh_fact sp f) = sf_invalidated_at f"
  by (simp_all add: refresh_fact_def)

lemma invalidate_simps [simp]:
  "sf_subject (invalidate_fact now i f) = sf_subject f" "sf_id (invalidate_fact now i f) = sf_id f"
  "sf_invalidated_at (invalidate_fact now i f) = Some now"
  by (simp_all add: invalidate_fact_def)

lemma upsert_fact_facts:
  "find (live_match (fc_subject sp)) (md_facts d) = None \<Longrightarrow>
   md_facts (upsert_fact sp d) = md_facts d @ [fact_of_spec (fst (next_memory_fact_id (md_ids d))) sp]"
  "find (live_match (fc_subject sp)) (md_facts d) = Some x \<Longrightarrow>
   sf_value x = fc_value sp \<and> sf_kind x = fc_kind sp \<Longrightarrow>
   md_facts (upsert_fact sp d) =
     update_first (live_match (fc_subject sp)) (refresh_fact sp) (md_facts d)"
  "find (live_match (fc_subject sp)) (md_facts d) = Some x \<Longrightarrow>
   \<not> (sf_value x = fc_value sp \<and> sf_kind x = fc_kind sp) \<Longrightarrow>
   md_facts (upsert_fact sp d) =
     update_first (live_match (fc_subject sp))
       (invalidate_fact (fc_updated_at sp) (fst (next_memory_fact_id (md_ids d)))) (md_facts d)
     @ [fact_of_spec (fst (next_memory_fact_id (md_ids d))) sp]"
  by (auto simp: upsert_fact_def Let_def split_beta)

lemma upsert_extends: "ledger_extends (md_facts d) (md_facts (upsert_fact sp d))"
proof -
  let ?upd = "\<lambda>h. update_first (live_match (fc_subject sp)) h (md_facts d)"
  have upd: "list_all2 fact_evolves (md_facts d) (?upd h)"
    if "\<And>f. live f \<Longrightarrow> fact_evolves f (h f)" for h
    by (rule all2_update_first) (auto simp: live_match_def that)
  have "list_all2 fact_evolves (md_facts d) (?upd (refresh_fact sp))"
    by (rule upd [OF evolves_refresh])
  then have refreshed: "ledger_extends (md_facts d) (?upd (refresh_fact sp))"
    using ledger_extends_append [where new = "[]"] by force
  have replaced: "ledger_extends (md_facts d) (?upd (invalidate_fact now i) @ new)" for now i new
    by (rule ledger_extends_append [OF upd [OF evolves_invalidate]])
  show ?thesis
  proof (cases "find (live_match (fc_subject sp)) (md_facts d)")
    case None
    then show ?thesis by (simp add: upsert_fact_facts ledger_extends_append)
  next
    case (Some x)
    then show ?thesis
      using refreshed replaced
      by (cases "sf_value x = fc_value sp \<and> sf_kind x = fc_kind sp")
        (simp_all only: upsert_fact_facts simp_thms)
  qed
qed

lemma find_append_iff:
  "find p (xs @ ys) = (case find p xs of None \<Rightarrow> find p ys | Some x \<Rightarrow> Some x)"
  by (induction xs) auto

lemma find_update_first_other:
  "(\<And>f. p f \<Longrightarrow> \<not> q f \<and> \<not> q (h f)) \<Longrightarrow> find q (update_first p h fs) = find q fs"
  by (induction fs) auto

lemma live_unique_split:
  assumes "live_unique fs" and "find (live_match s) fs = Some x"
  shows "\<exists>ys zs. fs = ys @ x # zs \<and> live_match s x
    \<and> (\<forall>f \<in> set (ys @ zs). \<not> live_match s f)
    \<and> (\<forall>h. update_first (live_match s) h fs = ys @ h x # zs)"
proof -
  obtain ys zs where split: "fs = ys @ x # zs" "\<forall>y \<in> set ys. \<not> live_match s y" "live_match s x"
    using update_first_split [OF assms(2)] by blast
  have "update_first (live_match s) h fs = ys @ h x # zs" for h
    unfolding split(1) using split(2,3) by (induction ys) auto
  moreover have "\<forall>f \<in> set zs. \<not> live_match s f"
    using assms(1) split(1,3) by (auto simp: live_unique_def live_match_def image_iff)
  ultimately show ?thesis
    using split by (intro exI [of _ ys] exI [of _ zs]) auto
qed

text \<open>The ledger as a map: what is live under a subject.\<close>

definition live_value :: "stored_memory_fact list \<Rightarrow> string \<rightharpoonup> memory_fact_kind \<times> string" where
  "live_value fs s = map_option (\<lambda>f. (sf_kind f, sf_value f)) (find (live_match s) fs)"

lemma upsert_live_value:
  assumes "live_unique (md_facts d)"
  shows "live_value (md_facts (upsert_fact sp d)) =
    (live_value (md_facts d))(fc_subject sp \<mapsto> (fc_kind sp, fc_value sp))"
proof (rule ext)
  fix s
  let ?m = "live_match (fc_subject sp)"
  have other: "find (live_match s) (update_first ?m h (md_facts d)) = find (live_match s) (md_facts d)"
    if "s \<noteq> fc_subject sp" and "\<And>f. sf_subject (h f) = sf_subject f" for h
    by (rule find_update_first_other) (use that in \<open>auto simp: live_match_def\<close>)
  show "live_value (md_facts (upsert_fact sp d)) s =
    ((live_value (md_facts d))(fc_subject sp \<mapsto> (fc_kind sp, fc_value sp))) s"
  proof (cases "find ?m (md_facts d)")
    case None
    then show ?thesis
      unfolding live_value_def upsert_fact_facts(1) [OF None] find_append_iff
      by (cases "s = fc_subject sp") (auto simp: live_match_def split: option.splits)
  next
    case (Some x)
    obtain ys zs where split: "md_facts d = ys @ x # zs" "?m x" "\<forall>f \<in> set (ys @ zs). \<not> ?m f"
      and upd: "\<And>h. update_first ?m h (md_facts d) = ys @ h x # zs"
      using live_unique_split [OF assms Some] by blast
    have none: "find ?m ys = None" "find ?m zs = None" using split(3) by (auto simp: find_None_iff)
    show ?thesis
    proof (cases "sf_value x = fc_value sp \<and> sf_kind x = fc_kind sp")
      case True
      then have "md_facts (upsert_fact sp d) = update_first ?m (refresh_fact sp) (md_facts d)"
        using upsert_fact_facts(2) [OF Some] by simp
      then show ?thesis using True other [of "refresh_fact sp"] none split(2) upd [of "refresh_fact sp"]
        by (auto simp: live_value_def find_append_iff live_match_def)
    next
      case False
      obtain i where new: "md_facts (upsert_fact sp d) =
          update_first ?m (invalidate_fact (fc_updated_at sp) i) (md_facts d) @ [fact_of_spec i sp]"
        using upsert_fact_facts(3) [OF Some False] by simp
      have "find ?m (md_facts (upsert_fact sp d)) = Some (fact_of_spec i sp)"
        unfolding new upd using none by (auto simp: find_append_iff live_match_def)
      moreover have "find (live_match s) (md_facts (upsert_fact sp d)) = find (live_match s) (md_facts d)"
        if "s \<noteq> fc_subject sp"
        unfolding new find_append_iff other [OF that invalidate_simps(1)]
        using that by (auto simp: live_match_def split: option.splits)
      ultimately show ?thesis by (auto simp: live_value_def)
    qed
  qed
qed

lemma live_subjects_update:
  "(\<And>f. sf_subject (h f) = sf_subject f \<and> sf_invalidated_at (h f) = sf_invalidated_at f) \<Longrightarrow>
   map sf_subject (filter live (update_first p h fs)) = map sf_subject (filter live fs)"
  by (induction fs) auto

lemma upsert_live_unique:
  assumes "live_unique (md_facts d)"
  shows "live_unique (md_facts (upsert_fact sp d))"
proof (cases "find (live_match (fc_subject sp)) (md_facts d)")
  case None
  then have "fc_subject sp \<notin> sf_subject ` set (filter live (md_facts d))"
    by (auto simp: find_None_iff live_match_def)
  with assms show ?thesis
    by (simp add: upsert_fact_facts(1) [OF None] live_unique_def)
next
  case (Some x)
  obtain ys zs where split: "md_facts d = ys @ x # zs" "live_match (fc_subject sp) x"
    and upd: "\<And>h. update_first (live_match (fc_subject sp)) h (md_facts d) = ys @ h x # zs"
    using live_unique_split [OF assms Some] by blast
  show ?thesis
  proof (cases "sf_value x = fc_value sp \<and> sf_kind x = fc_kind sp")
    case True
    then show ?thesis
      using assms by (simp add: upsert_fact_facts(2) [OF Some] live_unique_def live_subjects_update)
  next
    case False
    then obtain i where new: "md_facts (upsert_fact sp d) =
        ys @ invalidate_fact (fc_updated_at sp) i x # zs @ [fact_of_spec i sp]"
      using upsert_fact_facts(3) [OF Some False] upd by simp
    have "distinct (map sf_subject (filter live (ys @ x # zs)))"
      using assms split(1) by (simp add: live_unique_def)
    then show ?thesis
      using split(2) unfolding live_unique_def new by (auto simp: live_match_def)
  qed
qed

definition stamped ::
  "(stored_memory_fact \<Rightarrow> bool) \<Rightarrow> timestamp \<Rightarrow> stored_memory_fact \<Rightarrow> stored_memory_fact \<Rightarrow> bool" where
  "stamped p now f f' \<longleftrightarrow> (if p f then \<exists>i. f' = invalidate_fact now i f else f' = f)"

lemma invalidate_where_props:
  "list_all2 (stamped p now) fs (fst (invalidate_where p now fs g))
   \<and> snd (snd (invalidate_where p now fs g)) = map sf_id (filter p fs)"
  by (induction fs arbitrary: g) (auto simp: Let_def split_beta stamped_def)

lemma invalidate_all_facts:
  "list_all2 (stamped p now) (md_facts d) (md_facts (invalidate_all p now d))"
  "md_invalidated (invalidate_all p now d) = md_invalidated d @ map sf_id (filter p (md_facts d))"
  "md_updated (invalidate_all p now d) = md_updated d"
  "gm_topic_index (md_snapshot (invalidate_all p now d)) = gm_topic_index (md_snapshot d)"
  using invalidate_where_props [of p now "md_facts d" "md_ids d"]
  by (auto simp: invalidate_all_def split_beta Let_def)

lemma invalidate_all_extends:
  assumes "\<And>f. p f \<Longrightarrow> live f"
  shows "ledger_extends (md_facts d) (md_facts (invalidate_all p now d))"
proof -
  have "list_all2 fact_evolves (md_facts d) (md_facts (invalidate_all p now d))"
    by (rule list_all2_mono [OF invalidate_all_facts(1) [of p now d]])
      (auto simp: stamped_def intro: evolves_invalidate assms split: if_splits)
  from ledger_extends_append [OF this, of "[]"] show ?thesis by simp
qed

lemma stamped_live: "list_all2 (stamped p now) fs fs' \<Longrightarrow> filter live fs' = filter (\<lambda>f. live f \<and> \<not> p f) fs"
  by (induction rule: list_all2_induct) (auto simp: stamped_def split: if_splits)

lemma invalidate_all_live:
  "filter live (md_facts (invalidate_all p now d)) = filter (\<lambda>f. live f \<and> \<not> p f) (md_facts d)"
  by (rule stamped_live [OF invalidate_all_facts(1)])

lemma invalidate_all_live_unique:
  assumes "live_unique (md_facts d)"
  shows "live_unique (md_facts (invalidate_all p now d))"
proof -
  have eq: "filter (\<lambda>f. live f \<and> \<not> p f) (md_facts d) = filter (\<lambda>f. \<not> p f) (filter live (md_facts d))"
    by (simp add: conj_commute)
  show ?thesis
    using assms unfolding live_unique_def invalidate_all_live eq by (rule distinct_map_filter)
qed

lemma live_value_live: "live_value fs s = live_value (filter live fs) s"
proof -
  have "find (live_match s) (filter live fs) = find (live_match s) fs"
    by (induction fs) (auto simp: live_match_def)
  then show ?thesis by (simp add: live_value_def)
qed

text \<open>The live facts as a set: what a subject maps to.\<close>

lemma live_value_iff:
  assumes "live_unique fs"
  shows "live_value fs s = Some (k, v) \<longleftrightarrow>
    (\<exists>f \<in> set fs. live f \<and> sf_subject f = s \<and> sf_kind f = k \<and> sf_value f = v)"
proof
  assume "live_value fs s = Some (k, v)"
  then show "\<exists>f \<in> set fs. live f \<and> sf_subject f = s \<and> sf_kind f = k \<and> sf_value f = v"
    by (auto simp: live_value_def live_match_def dest!: find_SomeD)
next
  assume "\<exists>f \<in> set fs. live f \<and> sf_subject f = s \<and> sf_kind f = k \<and> sf_value f = v"
  then obtain f where f: "f \<in> set fs" "live_match s f" "sf_kind f = k" "sf_value f = v"
    by (auto simp: live_match_def)
  then obtain x where x: "find (live_match s) fs = Some x" by (metis find_None_iff not_None_eq)
  from live_unique_split [OF assms x] f(1,2) have "f = x" by auto
  with x f show "live_value fs s = Some (k, v)" by (simp add: live_value_def)
qed

lemma invalidate_all_live_value:
  assumes "live_unique (md_facts d)" and "\<And>f. p f \<Longrightarrow> sf_subject f \<in> S \<and> live f"
    and "\<And>f. live f \<Longrightarrow> sf_subject f \<in> S \<Longrightarrow> p f"
  shows "live_value (md_facts (invalidate_all p now d)) = live_value (md_facts d) |` (- S)"
proof (rule ext)
  fix s
  have "filter live (md_facts (invalidate_all p now d)) = filter (\<lambda>f. live f \<and> sf_subject f \<notin> S) (md_facts d)"
    unfolding invalidate_all_live using assms(2,3) by (intro filter_cong) auto
  moreover have "find (live_match s) (filter (\<lambda>f. live f \<and> sf_subject f \<notin> S) fs)
      = (if s \<in> S then None else find (live_match s) fs)" for fs
    unfolding live_match_abs by (induction fs) auto
  ultimately show "live_value (md_facts (invalidate_all p now d)) s = (live_value (md_facts d) |` (- S)) s"
    by (subst live_value_live) (simp add: live_value_def restrict_map_def)
qed

section \<open>Folds of operations\<close>

text \<open>A ledger operation: it keeps the invariant and only extends the ledger.\<close>

locale ledger_operation =
  fixes step :: "'a \<Rightarrow> memory_draft \<Rightarrow> memory_draft"
  assumes step_live_unique: "live_unique (md_facts d) \<Longrightarrow> live_unique (md_facts (step x d))"
    and step_extends: "ledger_extends (md_facts d) (md_facts (step x d))"
begin

lemma fold_live_unique: "live_unique (md_facts d) \<Longrightarrow> live_unique (md_facts (fold step xs d))"
  by (induction xs arbitrary: d) (auto intro: step_live_unique)

lemma fold_extends: "ledger_extends (md_facts d) (md_facts (fold step xs d))"
  by (induction xs arbitrary: d) (auto intro: ledger_extends_trans step_extends)

end

interpretation upserts: ledger_operation "\<lambda>x. upsert_fact (spec_of x)" for spec_of :: "'a \<Rightarrow> fact_spec"
  by unfold_locales (rule upsert_live_unique, assumption, rule upsert_extends)

lemma fold_upsert_live_value:
  "live_unique (md_facts d) \<Longrightarrow>
   live_value (md_facts (fold (\<lambda>x. upsert_fact (spec_of x)) xs d)) =
     fold (\<lambda>x m. m(fc_subject (spec_of x) \<mapsto> (fc_kind (spec_of x), fc_value (spec_of x)))) xs
       (live_value (md_facts d))"
  by (induction xs arbitrary: d) (auto simp: upsert_live_value upsert_live_unique)

section \<open>Commitments and withdrawn subjects\<close>

lemma fold_map_update:
  "fold (\<lambda>x m. m(g x \<mapsto> h x)) xs m = m ++ map_of (rev (map (\<lambda>x. (g x, h x)) xs))"
  by (induction xs arbitrary: m) (auto simp: map_add_def fun_eq_iff split: option.splits)

lemma stale_commitment_live: "stale_commitment k cs f \<Longrightarrow> live f"
  by (auto simp: stale_commitment_def)

lemma sync_commitments_ok:
  assumes "live_unique (md_facts d)"
  shows "live_unique (md_facts (sync_commitment_facts k cs ws cts now d))"
    and "ledger_extends (md_facts d) (md_facts (sync_commitment_facts k cs ws cts now d))"
proof -
  show "live_unique (md_facts (sync_commitment_facts k cs ws cts now d))"
    unfolding sync_commitment_facts_def
    by (intro upserts.fold_live_unique invalidate_all_live_unique assms)
  show "ledger_extends (md_facts d) (md_facts (sync_commitment_facts k cs ws cts now d))"
    unfolding sync_commitment_facts_def
    by (rule ledger_extends_trans [OF invalidate_all_extends upserts.fold_extends])
      (rule stale_commitment_live)
qed

lemma sync_commitments_live_value:
  assumes "live_unique (md_facts d)"
  shows "live_value (md_facts (sync_commitment_facts k cs ws cts now d)) =
    live_value (md_facts (invalidate_all (stale_commitment k cs) now d))
      ++ map_of (rev (map (\<lambda>c. (commitment_subject k c, Commitment, c)) cs))"
  unfolding sync_commitment_facts_def
    fold_upsert_live_value [OF invalidate_all_live_unique [OF assms]] fold_map_update
  by (simp add: thread_spec_def)

lemma map_of_rev_keyed:
  assumes "c \<in> set cs"
  shows "\<exists>c' \<in> set cs. g c' = g c \<and> map_of (rev (map (\<lambda>c. (g c, h c)) cs)) (g c) = Some (h c')"
proof -
  have "g c \<in> fst ` set (rev (map (\<lambda>c. (g c, h c)) cs))" using assms by force
  then obtain v where v: "map_of (rev (map (\<lambda>c. (g c, h c)) cs)) (g c) = Some v"
    by (metis map_of_eq_None_iff not_None_eq)
  then have "(g c, v) \<in> set (map (\<lambda>c. (g c, h c)) cs)" by (auto dest: map_of_SomeD)
  with v show ?thesis by auto
qed

text \<open>C16: Compiling a thread's commitments makes the ledger say what the thread says: for every
  commitment a live commitment fact exists under its subject, holding a commitment of the list
  with that subject, and no other live commitment fact of the thread remains under a subject
  outside the list. The ledger keeps at most one live fact per subject and is only extended.\<close>

theorem commitments_synchronised:
  assumes "live_unique (md_facts d)"
  shows "live_unique (md_facts (sync_commitment_facts k cs ws cts now d))
    \<and> ledger_extends (md_facts d) (md_facts (sync_commitment_facts k cs ws cts now d))
    \<and> (\<forall>c \<in> set cs. \<exists>c' \<in> set cs. commitment_subject k c' = commitment_subject k c
        \<and> live_value (md_facts (sync_commitment_facts k cs ws cts now d)) (commitment_subject k c)
            = Some (Commitment, c'))
    \<and> (\<forall>f \<in> set (md_facts d). live f \<and> sf_kind f = Commitment \<and> k \<in> set (sf_related_thread_ids f)
        \<and> sf_subject f \<notin> commitment_subject k ` set cs \<longrightarrow>
          live_value (md_facts (sync_commitment_facts k cs ws cts now d)) (sf_subject f) = None)"
proof (intro conjI ballI impI)
  let ?d' = "sync_commitment_facts k cs ws cts now d"
  note lv = sync_commitments_live_value [OF assms, of k cs ws cts now]
  show "live_unique (md_facts ?d')" and "ledger_extends (md_facts d) (md_facts ?d')"
    using sync_commitments_ok [OF assms] by blast+
  show "\<exists>c' \<in> set cs. commitment_subject k c' = commitment_subject k c
      \<and> live_value (md_facts ?d') (commitment_subject k c) = Some (Commitment, c')"
    if "c \<in> set cs" for c
    using map_of_rev_keyed [OF that, of "commitment_subject k" "\<lambda>c. (Commitment, c)"]
    unfolding lv map_add_def by auto
  fix f
  assume f: "f \<in> set (md_facts d)" and stale: "live f \<and> sf_kind f = Commitment
    \<and> k \<in> set (sf_related_thread_ids f) \<and> sf_subject f \<notin> commitment_subject k ` set cs"
  have "\<not> (\<exists>g \<in> set (filter (\<lambda>g. live g \<and> \<not> stale_commitment k cs g) (md_facts d)). sf_subject g = sf_subject f)"
  proof
    assume "\<exists>g \<in> set (filter (\<lambda>g. live g \<and> \<not> stale_commitment k cs g) (md_facts d)). sf_subject g = sf_subject f"
    then obtain g where g: "g \<in> set (md_facts d)" "live g" "\<not> stale_commitment k cs g"
      "sf_subject g = sf_subject f" by auto
    have "g = f"
      using assms f stale g(1,2,4) unfolding live_unique_def distinct_map inj_on_def by auto
    with g(3) stale show False by (simp add: stale_commitment_def)
  qed
  then have "live_value (md_facts (invalidate_all (stale_commitment k cs) now d)) (sf_subject f) = None"
    by (subst live_value_live, unfold invalidate_all_live)
      (auto simp: live_value_def find_None_iff live_match_def)
  moreover have "map_of (rev (map (\<lambda>c. (commitment_subject k c, Commitment, c)) cs)) (sf_subject f) = None"
    using stale by (auto simp: map_of_eq_None_iff)
  ultimately show "live_value (md_facts ?d') (sf_subject f) = None"
    unfolding lv by (simp add: map_add_def)
qed

lemma invalidate_candidates_ok:
  assumes "live_unique (md_facts d)"
  shows "live_unique (md_facts (invalidate_candidate_subjects ss now d))
    \<and> ledger_extends (md_facts d) (md_facts (invalidate_candidate_subjects ss now d))
    \<and> live_value (md_facts (invalidate_candidate_subjects ss now d)) =
        live_value (md_facts d) |` (- {trim s | s. s \<in> set ss \<and> \<not> blank s})"
proof -
  let ?S = "set (filter (\<lambda>s. s \<noteq> []) (map trim ss))"
  have S: "?S = {trim s | s. s \<in> set ss \<and> \<not> blank s}" by (auto simp: blank_def)
  show ?thesis
  proof (cases "?S = {}")
    case True
    then have "invalidate_candidate_subjects ss now d = d"
      by (simp add: invalidate_candidate_subjects_def Let_def)
    with True S assms show ?thesis by (simp add: restrict_map_def)
  next
    case False
    then have "ss \<noteq> []" by auto
    with False have eq: "invalidate_candidate_subjects ss now d =
        invalidate_all (\<lambda>f. \<not> (\<not> live f \<or> sf_subject f \<notin> ?S)) now d"
      by (simp only: invalidate_candidate_subjects_def Let_def if_False)
    show ?thesis
      unfolding eq S [symmetric]
      by (intro conjI invalidate_all_live_unique assms invalidate_all_extends
          invalidate_all_live_value) auto
  qed
qed

section \<open>The topic index\<close>

lemma merge_into_vec_props:
  "set (merge_into_vec xs ys) = set xs \<union> set ys" "sorted (merge_into_vec xs ys)"
  "distinct (merge_into_vec xs ys)"
  by (simp_all add: merge_into_vec_def)

lemma refresh_topic_simps [simp]:
  "tp_name (refresh_topic u n t) = tp_name t" "tp_aliases (refresh_topic u n t) = tp_aliases t"
  "tp_status (refresh_topic u n t) = topic_status_of (th_status (tu_thread u))"
  "tp_last_active_at (refresh_topic u n t) = tu_now u"
  "set (tp_related_thread_ids (refresh_topic u n t)) = insert (th_id (tu_thread u)) (set (tp_related_thread_ids t))"
  "set (tp_citation_fact_ids (refresh_topic u n t)) = set (tp_citation_fact_ids t) \<union> set (tu_fact_ids u)"
  by (simp_all add: refresh_topic_def merge_into_vec_props)

lemma new_topic_simps [simp]:
  "tp_name (new_topic u n) = n" "tp_aliases (new_topic u n) = []"
  "tp_status (new_topic u n) = topic_status_of (th_status (tu_thread u))"
  "tp_last_active_at (new_topic u n) = tu_now u"
  "tp_related_thread_ids (new_topic u n) = [th_id (tu_thread u)]"
  by (simp_all add: new_topic_def)

lemma sync_topic_names:
  "map tp_name (sync_topic u n ts) =
     (if \<exists>t \<in> set ts. topic_matches n t then map tp_name ts else map tp_name ts @ [n])"
  by (simp add: sync_topic_def map_update_first_same)

lemma sync_topic_distinct: "distinct (map tp_name ts) \<Longrightarrow> distinct (map tp_name (sync_topic u n ts))"
  unfolding sync_topic_names by (auto simp: topic_matches_def)

definition topic_current :: "topic_update \<Rightarrow> stored_topic_record \<Rightarrow> bool" where
  "topic_current u t \<longleftrightarrow> th_id (tu_thread u) \<in> set (tp_related_thread_ids t)
     \<and> tp_status t = topic_status_of (th_status (tu_thread u)) \<and> tp_last_active_at t = tu_now u"

definition topic_up_to_date :: "topic_update \<Rightarrow> stored_topic_record list \<Rightarrow> string \<Rightarrow> bool" where
  "topic_up_to_date u ts n \<longleftrightarrow> (\<exists>t \<in> set ts. topic_matches n t \<and> topic_current u t)"

lemma sync_topic_makes: "topic_up_to_date u (sync_topic u n ts) n"
proof (cases "\<exists>t \<in> set ts. topic_matches n t")
  case True
  then obtain t where "find (topic_matches n) ts = Some t" by (metis find_None_iff not_None_eq)
  from update_first_split [OF this] obtain ys zs where
    "update_first (topic_matches n) (refresh_topic u n) ts = ys @ refresh_topic u n t # zs"
    and "topic_matches n t" by blast
  with True show ?thesis
    by (auto simp: topic_up_to_date_def sync_topic_def topic_matches_def topic_current_def)
next
  case False
  then show ?thesis
    by (auto simp: topic_up_to_date_def sync_topic_def topic_matches_def topic_current_def)
qed

lemma update_first_image:
  "x \<in> set xs \<Longrightarrow> x \<in> set (update_first p h xs) \<or> h x \<in> set (update_first p h xs)"
  by (induction xs) auto

lemma sync_topic_keeps: "topic_up_to_date u ts m \<Longrightarrow> topic_up_to_date u (sync_topic u n ts) m"
proof -
  assume "topic_up_to_date u ts m"
  then obtain t where t: "t \<in> set ts" "topic_matches m t" "topic_current u t"
    by (auto simp: topic_up_to_date_def)
  have "topic_matches m (refresh_topic u n t)" "topic_current u (refresh_topic u n t)"
    using t(2) by (auto simp: topic_matches_def topic_current_def)
  with t update_first_image [OF t(1), of "topic_matches n" "refresh_topic u n"] show ?thesis
    by (auto simp: topic_up_to_date_def sync_topic_def)
qed

text \<open>After a compilation every recent topic is in the index, by name or alias, as a topic that
  lists the thread, carries its status and was last active now; the index never gets two topics
  of one name, and no topic is dropped.\<close>

theorem topics_synchronised:
  assumes "distinct (map tp_name ts)"
  shows "distinct (map tp_name (fold (sync_topic u) ns ts))
    \<and> (\<forall>n \<in> set ns. topic_up_to_date u (fold (sync_topic u) ns ts) n)
    \<and> set (map tp_name ts) \<subseteq> set (map tp_name (fold (sync_topic u) ns ts))"
  using assms
proof (induction ns arbitrary: ts)
  case Nil
  then show ?case by simp
next
  case (Cons n ns)
  have keeps: "topic_up_to_date u (fold (sync_topic u) ms xs) n" if "topic_up_to_date u xs n" for ms xs
    using that by (induction ms arbitrary: xs) (auto intro: sync_topic_keeps)
  have "topic_up_to_date u (fold (sync_topic u) (n # ns) ts) n"
    using keeps [OF sync_topic_makes] by simp
  moreover have "set (map tp_name ts) \<subseteq> set (map tp_name (sync_topic u n ts))"
    unfolding sync_topic_names by auto
  ultimately show ?case
    using Cons.IH [OF sync_topic_distinct [OF Cons.prems, of u n]]
    by (simp del: set_map) (blast dest: subset_trans)
qed

definition demo_draft :: memory_draft where
  "demo_draft = \<lparr>md_snapshot = demo_memory, md_ids = demo_ids, md_updated = [], md_invalidated = []\<rparr>"

definition demo_update :: topic_update where
  "demo_update = \<lparr>tu_thread = demo_thread, tu_artifact_ids = [], tu_keywords = [], tu_fact_ids = [],
     tu_citations = [], tu_now = ''1''\<rparr>"

lemma demo_draft_unique: "live_unique (md_facts demo_draft)"
  by (simp add: live_unique_def demo_draft_def demo_defs)

theorem commitments_synchronised_witness:
  "live_value (md_facts (sync_commitment_facts ''t1'' [''ship the report''] [] [] ''1'' demo_draft))
     (commitment_subject ''t1'' ''ship the report'') = Some (Commitment, ''ship the report'')"
  using commitments_synchronised [OF demo_draft_unique, of "''t1''" "[''ship the report'']" "[]" "[]" "''1''"]
  by simp

text \<open>The subject of a commitment keeps six significant words only: of two commitments that agree
  in them, the later one supersedes the earlier, so one of them has no live fact.\<close>

theorem agreeing_commitments_supersede:
  assumes "live_unique (md_facts d)" and "slugify c1 = slugify c2" and "c1 \<noteq> c2"
  shows "\<not> (\<exists>f \<in> set (md_facts (sync_commitment_facts k [c1, c2] ws cts now d)).
      live f \<and> sf_subject f = commitment_subject k c1 \<and> sf_value f = c1)"
proof -
  let ?fs = "md_facts (sync_commitment_facts k [c1, c2] ws cts now d)"
  have "live_value ?fs (commitment_subject k c1) = Some (Commitment, c2)"
    using assms(2) unfolding sync_commitments_live_value [OF assms(1)]
    by (simp add: commitment_subject_def)
  then show ?thesis
    using live_value_iff [OF sync_commitments_ok(1) [OF assms(1)], of k "[c1, c2]" ws cts now] assms(3)
    by (metis option.inject prod.inject)
qed

theorem agreeing_commitments_supersede_witness:
  "\<not> (\<exists>f \<in> set (md_facts (sync_commitment_facts ''t1''
        [''review quarterly budget report draft appendix alpha'',
         ''review quarterly budget report draft appendix beta''] [] [] ''1'' demo_draft)).
      live f \<and> sf_subject f = commitment_subject ''t1'' ''review quarterly budget report draft appendix alpha''
      \<and> sf_value f = ''review quarterly budget report draft appendix alpha'')"
proof (rule agreeing_commitments_supersede [OF demo_draft_unique])
  show "slugify ''review quarterly budget report draft appendix alpha''
      = slugify ''review quarterly budget report draft appendix beta''"
    by code_simp
qed simp

theorem topics_synchronised_witness:
  "topic_up_to_date demo_update (fold (sync_topic demo_update) [''release'', ''notes''] []) ''release''"
  using topics_synchronised [of "[]" demo_update "[''release'', ''notes'']"] by simp

end
