(* ===== verification/Memory.thy ===== *)
theory Memory
  imports Memory_Facts
begin

text \<open>
  The foreground memory engine (\<open>runtime/memory.rs\<close>): the wake-up slice, compilation of a thread
  into facts and topics (from the heuristic compiler or from a model's answer), and recall by
  listing, searching and opening. The JSON parser that reads a model's answer belongs to
  \<open>serde_json\<close> and is the argument \<open>parse\<close> of the definitions that use it.
\<close>

section \<open>Data\<close>

record memory_compilation_input =
  mi_thread :: thread
  mi_recent_entries :: "turn_log_entry list"
  mi_citations :: "memory_citation_ref list"
  mi_existing_facts :: "stored_memory_fact list"

record memory_delta_fact =
  df_kind :: "memory_fact_kind option"
  df_subject :: string
  df_value :: string
  df_keywords :: "string list"

record memory_compilation_delta =
  dl_identity_summary_update :: "string option"
  dl_active_state_summary :: "string option"
  dl_recent_topics :: "string list"
  dl_recent_keywords :: "string list"
  dl_commitments :: "string list"
  dl_candidate_procedures :: "string list"
  dl_durable_facts :: "memory_delta_fact list"
  dl_invalidation_candidates :: "string list"

record memory_session_entry =
  se_recorded_at :: timestamp
  se_event :: string
  se_summary :: string
  se_turn_id :: "turn_id option"
  se_artifact_ids :: "artifact_id list"

record memory_session_view =
  sv_thread_id :: thread_id
  sv_title :: string
  sv_status :: thread_status
  sv_active_summary :: "string option"
  sv_pending_commitments :: "string list"
  sv_recent_entries :: "memory_session_entry list"
  sv_artifacts :: "artifact_ref list"

record memory_evidence_view =
  ev_citation :: memory_citation_ref
  ev_thread_title :: "string option"
  ev_turn_summary :: "string option"
  ev_fact_id :: "memory_fact_id option"
  ev_fact_kind :: "memory_fact_kind option"
  ev_fact_value :: "string option"
  ev_artifact :: "artifact_ref option"
  ev_artifact_body :: "string option"

abbreviation hd_opt :: "'a list \<Rightarrow> 'a option" where
  "hd_opt xs \<equiv> (case xs of [] \<Rightarrow> None | x # _ \<Rightarrow> Some x)"

abbreviation last_opt :: "'a list \<Rightarrow> 'a option" where
  "last_opt xs \<equiv> hd_opt (rev xs)"

section \<open>Recent entries and citations\<close>

definition recent_entries :: "turn_log_entry list \<Rightarrow> turn_log_entry list" where
  "recent_entries entries = rev (take 8 (filter (\<lambda>e. \<not> blank (le_summary e)) (rev entries)))"

definition citations_from_entries :: "thread_id \<Rightarrow> turn_log_entry list \<Rightarrow> memory_citation_ref list" where
  "citations_from_entries k entries =
     map (\<lambda>e. CitationRef k (le_turn_id e) (hd_opt (le_artifact_ids e)) (le_summary e)) (take 4 entries)"

definition build_recent_conversation ::
  "thread_id \<Rightarrow> turn_log_entry list \<Rightarrow> recent_conversation_wakeup_view" where
  "build_recent_conversation k entries =
     (let recent = recent_entries entries;
          summaries = filter (\<lambda>s. \<not> blank s) (map le_summary recent)
      in \<lparr>rv_recent_summaries = summaries,
          rv_active_topics = derive_topics_from_text summaries 6,
          rv_recent_keywords = derive_keywords_from_text summaries 8,
          rv_citations = citations_from_entries k recent\<rparr>)"

section \<open>Wake-up\<close>

fun kind_score :: "memory_fact_kind \<Rightarrow> nat" where
  "kind_score Identity = 40"
| "kind_score Commitment = 35"
| "kind_score ActiveState = 30"
| "kind_score Decision = 25"
| "kind_score ProcedureCandidate = 15"
| "kind_score Topic = 10"
| "kind_score Keyword = 10"

definition wakeup_fact_score :: "thread \<Rightarrow> stored_memory_fact \<Rightarrow> nat" where
  "wakeup_fact_score th f =
     (if th_id th \<in> set (sf_related_thread_ids f) then 50 else 0) + kind_score (sf_kind f)
     + (if \<exists>w \<in> set (sf_keywords f). contains (to_lower (th_title th)) (to_lower w) then 10 else 0)"

definition ranked_wakeup_facts ::
  "global_memory_snapshot \<Rightarrow> thread \<Rightarrow> stored_memory_fact list" where
  "ranked_wakeup_facts snap th =
     sort_by (then_with (ge_on (wakeup_fact_score th)) (ge_on sf_updated_at))
       (filter (\<lambda>f. sf_related_thread_ids f = [] \<or> th_id th \<in> set (sf_related_thread_ids f))
         (filter (\<lambda>f. sf_invalidated_at f = None \<and> sf_invalidated_by f = None) (gm_facts snap)))"

definition build_memory_wakeup ::
  "global_memory_snapshot \<Rightarrow> thread \<Rightarrow> recent_conversation_wakeup_view \<Rightarrow> memory_wakeup" where
  "build_memory_wakeup snap th rv =
     (let ranked = ranked_wakeup_facts snap th
      in \<lparr>wk_identity_summary = gm_identity_summary snap,
          wk_active_state = opt_or (gm_active_state_summary snap) (th_active_summary th),
          wk_relevant_facts = map (\<lambda>f. sf_subject f @ '': '' @ sf_value f) (take 6 ranked),
          wk_open_commitments = th_pending_commitments th,
          wk_recent_topics =
            (if gm_recent_topics snap = [] then rv_active_topics rv else gm_recent_topics snap),
          wk_recent_keywords =
            (if gm_recent_keywords snap = [] then rv_recent_keywords rv else gm_recent_keywords snap),
          wk_citation_fact_ids = map sf_id (take 6 ranked),
          wk_citations = rv_citations rv\<rparr>)"

definition read_wakeup ::
  "thread_id \<Rightarrow> ('z, memory_wakeup \<times> recent_conversation_wakeup_view) rt" where
  "read_wakeup k =
     bindR (get_thread k) (\<lambda>found.
     bindR (ok_or thread_not_found found) (\<lambda>th.
     bindR read_global_memory (\<lambda>snap.
     bindR (read_turn_log k) (\<lambda>entries.
     let rv = build_recent_conversation k entries
     in ret (build_memory_wakeup snap th rv, rv)))))"

section \<open>The heuristic compiler\<close>

definition derive_candidate_procedures :: "turn_log_entry list \<Rightarrow> string list \<Rightarrow> string list" where
  "derive_candidate_procedures entries topics =
     (let tool_steps = map le_summary (filter (\<lambda>e. le_event e = ''tool_completed'') entries)
      in if length tool_steps < 2 then []
         else let topic_prefix = unwrap_or [] (map_option (\<lambda>t. ''For '' @ t @ '', '') (hd_opt topics))
           in [topic_prefix @ ''repeat the proven flow: '' @ join '' -> '' tool_steps])"

definition identity_signals :: "string list" where
  "identity_signals =
     [''my name is'', ''call me'', ''i am '', ''i'm '', ''i work on'', ''i prefer'', ''prefers'',
      ''likes'', ''wants to be called'']"

text \<open>The loop that collects up to three summaries with an identity signal.\<close>

fun identity_lines :: "string list \<Rightarrow> string list \<Rightarrow> string list" where
  "identity_lines acc [] = acc"
| "identity_lines acc (s # ss) =
     (let acc' = (if \<exists>n \<in> set identity_signals. contains (to_lower s) n then acc @ [s] else acc)
      in if length acc' = 3 then acc' else identity_lines acc' ss)"

definition derive_identity_summary_update :: "memory_compilation_input \<Rightarrow> string option" where
  "derive_identity_summary_update input =
     (if mi_citations input = [] then None
      else let lines = identity_lines [] (map (\<lambda>e. trim (le_summary e)) (mi_recent_entries input))
        in if lines = [] then None
           else let previous = map_option sf_value
                  (find (\<lambda>f. sf_kind f = Identity \<and> sf_invalidated_at f = None) (mi_existing_facts input));
                    update = join '' '' lines
             in if previous = Some update then None else Some update)"

definition heuristic_compile :: "memory_compilation_input \<Rightarrow> memory_compilation_delta" where
  "heuristic_compile input =
     (let th = mi_thread input;
          summaries = filter (\<lambda>s. \<not> blank s) (map le_summary (mi_recent_entries input));
          texts = [th_title th] @ (case th_active_goal th of None \<Rightarrow> [] | Some g \<Rightarrow> [g])
            @ (case th_active_summary th of None \<Rightarrow> [] | Some a \<Rightarrow> [a]) @ summaries;
          topics = derive_topics_from_text texts 6
      in \<lparr>dl_identity_summary_update = derive_identity_summary_update input,
          dl_active_state_summary = th_active_summary th, dl_recent_topics = topics,
          dl_recent_keywords = derive_keywords_from_text texts 8,
          dl_commitments = th_pending_commitments th,
          dl_candidate_procedures = derive_candidate_procedures (mi_recent_entries input) topics,
          dl_durable_facts = [], dl_invalidation_candidates = []\<rparr>)"

section \<open>A model's answer\<close>

definition sanitize_delta_fact :: "memory_delta_fact \<Rightarrow> memory_delta_fact option" where
  "sanitize_delta_fact f =
     (let subject = trim (df_subject f); v = trim (df_value f)
      in if subject \<noteq> [] \<and> v \<noteq> []
         then Some \<lparr>df_kind = df_kind f, df_subject = subject, df_value = v,
                    df_keywords = sanitize_string_list (df_keywords f) 12\<rparr>
         else None)"

definition json_invalid :: "string \<Rightarrow> runtime_error" where
  "json_invalid error =
     invalid_state ''memory_compilation_json_invalid''
       (''memory compiler returned invalid JSON: '' @ error)"

definition parse_llm_memory_delta ::
  "(string \<Rightarrow> string + memory_compilation_delta) \<Rightarrow> string \<Rightarrow> memory_compilation_input \<Rightarrow>
   runtime_error + memory_compilation_delta" where
  "parse_llm_memory_delta parse raw input =
     (case parse raw of
        Inl error \<Rightarrow> Inl (json_invalid error)
      | Inr p \<Rightarrow>
          let summaries = map le_summary (mi_recent_entries input);
              fallback_topics = derive_topics_from_text summaries 6;
              fallback_keywords = derive_keywords_from_text summaries 8
          in Inr \<lparr>dl_identity_summary_update =
                opt_filter (\<lambda>_. mi_citations input \<noteq> [])
                  (sanitize_optional_string (dl_identity_summary_update p)),
              dl_active_state_summary =
                opt_or (sanitize_optional_string (dl_active_state_summary p))
                  (th_active_summary (mi_thread input)),
              dl_recent_topics = prefer_sanitized_list (dl_recent_topics p) fallback_topics 8,
              dl_recent_keywords = prefer_sanitized_list (dl_recent_keywords p) fallback_keywords 12,
              dl_commitments = prefer_sanitized_list (dl_commitments p)
                (th_pending_commitments (mi_thread input)) 12,
              dl_candidate_procedures = sanitize_string_list (dl_candidate_procedures p) 8,
              dl_durable_facts = List.map_filter sanitize_delta_fact (dl_durable_facts p),
              dl_invalidation_candidates =
                sanitize_string_list (dl_invalidation_candidates p) 16\<rparr>)"

section \<open>Applying a delta\<close>

definition memory_compilation_user_summary :: "memory_compilation_delta \<Rightarrow> string" where
  "memory_compilation_user_summary dl =
     (let parts =
        (if dl_commitments dl \<noteq> [] then [show_dec (length (dl_commitments dl)) @ '' commitment(s)''] else [])
        @ (if dl_durable_facts dl \<noteq> [] then [show_dec (length (dl_durable_facts dl)) @ '' durable note(s)''] else [])
        @ (if dl_recent_topics dl \<noteq> [] then [show_dec (length (dl_recent_topics dl)) @ '' topic(s)''] else [])
      in if parts = [] then ''No durable memory changes were needed.''
         else ''Updated memory with '' @ join '', '' parts @ ''.'')"

definition upsert_opt :: "fact_spec option \<Rightarrow> memory_draft \<Rightarrow> memory_draft" where
  "upsert_opt sp d = (case sp of None \<Rightarrow> d | Some x \<Rightarrow> upsert_fact x d)"

definition delta_fact_spec ::
  "memory_compilation_delta \<Rightarrow> thread_id \<Rightarrow> memory_citation_ref list \<Rightarrow> timestamp \<Rightarrow>
   memory_delta_fact \<Rightarrow> fact_spec" where
  "delta_fact_spec dl k citations now f =
     thread_spec (unwrap_or Identity (df_kind f)) (df_subject f) (df_value f)
       (if df_keywords f = [] then dl_recent_keywords dl else df_keywords f) k citations now"

definition procedure_subject :: "thread_id \<Rightarrow> string \<Rightarrow> string" where
  "procedure_subject k p = ''thread:'' @ k @ '':procedure:'' @ slugify p"

text \<open>The snapshot fields the delta sets, before the facts.\<close>

definition delta_snapshot ::
  "memory_compilation_delta \<Rightarrow> global_memory_snapshot \<Rightarrow> global_memory_snapshot" where
  "delta_snapshot dl snap =
     (case dl_identity_summary_update dl of
        None \<Rightarrow> snap | Some i \<Rightarrow> snap\<lparr>gm_identity_summary := Some i\<rparr>)
     \<lparr>gm_active_state_summary := dl_active_state_summary dl,
      gm_recent_topics := dl_recent_topics dl, gm_recent_keywords := dl_recent_keywords dl\<rparr>"

text \<open>The body of \<open>apply_compilation_delta\<close> between reading and writing the snapshot.\<close>

definition compile_draft ::
  "memory_compilation_input \<Rightarrow> memory_compilation_delta \<Rightarrow> timestamp \<Rightarrow> memory_draft \<Rightarrow> memory_draft" where
  "compile_draft input dl now d0 =
     (let th = mi_thread input; k = th_id th; cts = mi_citations input; ws = dl_recent_keywords dl;
          d1 = d0\<lparr>md_snapshot := delta_snapshot dl (md_snapshot d0)\<rparr>;
          d2 = upsert_opt (map_option (\<lambda>a. thread_spec ActiveState
                 (''thread:'' @ k @ '':active_state'') a ws k cts now) (th_active_summary th)) d1;
          d3 = upsert_opt (map_option (\<lambda>g. thread_spec Decision
                 (''thread:'' @ k @ '':current_goal'') g ws k cts now) (th_active_goal th)) d2;
          d4 = sync_commitment_facts k (dl_commitments dl) ws cts now d3;
          d5 = upsert_opt (map_option (\<lambda>i. thread_spec Identity
                 ''owner:identity_summary'' i ws k cts now) (dl_identity_summary_update dl)) d4;
          d6 = fold (\<lambda>f. upsert_fact (delta_fact_spec dl k cts now f))
                 (filter (\<lambda>f. unwrap_or Identity (df_kind f) \<noteq> ProcedureCandidate)
                   (dl_durable_facts dl)) d5;
          d7 = invalidate_candidate_subjects (dl_invalidation_candidates dl) now d6;
          d8 = fold (\<lambda>p. upsert_fact (thread_spec ProcedureCandidate
                 (procedure_subject k p) p ws k cts now)) (dl_candidate_procedures dl) d7
      in sync_topic_index th (mi_recent_entries input) (dl_recent_topics dl) ws cts now d8)"

definition apply_compilation_delta ::
  "memory_compilation_input \<Rightarrow> memory_compilation_delta \<Rightarrow> ('z, memory_compilation_summary) rt" where
  "apply_compilation_delta input dl =
     bindR read_global_memory (\<lambda>snap.
     bindR (draw now_timestamp) (\<lambda>now.
     bindR (draw (\<lambda>g. let d = compile_draft input dl now
               \<lparr>md_snapshot = snap, md_ids = g, md_updated = [], md_invalidated = []\<rparr>
             in (d, md_ids d))) (\<lambda>d.
     bindR (write_global_memory (md_snapshot d)) (\<lambda>_.
     ret \<lparr>mc_delta_summary = memory_compilation_user_summary dl,
          mc_updated_fact_ids = md_updated d, mc_invalidated_fact_ids = md_invalidated d,
          mc_recent_topics = dl_recent_topics dl, mc_recent_keywords = dl_recent_keywords dl,
          mc_candidate_procedures = dl_candidate_procedures dl\<rparr>))))"

definition build_compilation_input :: "thread_id \<Rightarrow> ('z, memory_compilation_input) rt" where
  "build_compilation_input k =
     bindR (get_thread k) (\<lambda>found.
     bindR (ok_or thread_not_found found) (\<lambda>th.
     bindR (read_turn_log k) (\<lambda>entries.
     let recent = recent_entries entries; cts = citations_from_entries k recent
     in bindR read_global_memory (\<lambda>snap.
        ret \<lparr>mi_thread = th, mi_recent_entries = recent, mi_citations = cts,
             mi_existing_facts = gm_facts snap\<rparr>))))"

definition compile_thread :: "thread_id \<Rightarrow> ('z, memory_compilation_summary) rt" where
  "compile_thread k =
     bindR (build_compilation_input k) (\<lambda>input.
     apply_compilation_delta input (heuristic_compile input))"

definition of_result :: "'e + 'a \<Rightarrow> ('e, 's, 'a) run" where
  "of_result r = (case r of Inl e \<Rightarrow> fail e | Inr a \<Rightarrow> ret a)"

definition compile_thread_from_llm_output ::
  "(string \<Rightarrow> string + memory_compilation_delta) \<Rightarrow> thread_id \<Rightarrow> string \<Rightarrow>
   ('z, memory_compilation_summary) rt" where
  "compile_thread_from_llm_output parse k raw =
     bindR (build_compilation_input k) (\<lambda>input.
     bindR (of_result (parse_llm_memory_delta parse raw input)) (\<lambda>dl.
     apply_compilation_delta input dl))"

section \<open>Reflection and recall\<close>

definition dreaming_text :: "thread \<Rightarrow> global_memory_snapshot \<Rightarrow> string option" where
  "dreaming_text th snap =
     (let topics = map tp_name (take 3 (filter (\<lambda>t. th_id th \<in> set (tp_related_thread_ids t))
            (gm_topic_index snap)));
          procedures = map sf_value (take 2 (filter (\<lambda>f. sf_kind f = ProcedureCandidate
            \<and> sf_invalidated_at f = None \<and> th_id th \<in> set (sf_related_thread_ids f)) (gm_facts snap)));
          open_commitments = take 2 (th_pending_commitments th)
      in if topics = [] \<and> procedures = [] \<and> open_commitments = [] then None
         else Some (''Reflection for '' @ th_title th @ '': ''
           @ (if topics = [] then ''no dominant topic cluster''
              else ''active topics: '' @ join '', '' topics) @ ''; ''
           @ (if procedures = [] then ''no reusable procedure surfaced yet''
              else ''procedure candidate: '' @ join '' | '' procedures) @ ''; ''
           @ (if open_commitments = [] then ''no open commitments remain''
              else ''carry forward: '' @ join '' | '' open_commitments)))"

definition summarize_dreaming :: "thread_id \<Rightarrow> ('z, string option) rt" where
  "summarize_dreaming k =
     bindR (get_thread k) (\<lambda>found.
     bindR (ok_or thread_not_found found) (\<lambda>th.
     bindR read_global_memory (\<lambda>snap. ret (dreaming_text th snap))))"

definition topic_summary_from_record :: "stored_topic_record \<Rightarrow> memory_topic_summary" where
  "topic_summary_from_record t =
     \<lparr>mt_name = tp_name t, mt_aliases = tp_aliases t, mt_summary = tp_summary t,
      mt_status = tp_status t, mt_last_active_at = Some (tp_last_active_at t),
      mt_related_thread_ids = tp_related_thread_ids t,
      mt_related_artifact_ids = tp_related_artifact_ids t,
      mt_citation_fact_ids = tp_citation_fact_ids t, mt_recent_keywords = tp_recent_keywords t\<rparr>"

definition topics_for ::
  "memory_topic_status option \<Rightarrow> nat option \<Rightarrow> global_memory_snapshot \<Rightarrow> memory_topic_summary list" where
  "topics_for status limit snap =
     take (unwrap_or 12 limit) (sort_by (ge_on mt_last_active_at)
       (map topic_summary_from_record
         (filter (\<lambda>t. case status of None \<Rightarrow> True | Some v \<Rightarrow> tp_status t = v) (gm_topic_index snap))))"

definition list_topics ::
  "memory_topic_status option \<Rightarrow> nat option \<Rightarrow> ('z, memory_topic_summary list) rt" where
  "list_topics status limit =
     bindR read_global_memory (\<lambda>snap. ret (topics_for status limit snap))"

definition citation_turn :: "memory_citation_ref list \<Rightarrow> turn_id option" where
  "citation_turn cts = (case cts of [] \<Rightarrow> None | c # _ \<Rightarrow> ci_turn_id c)"

definition citation_artifact :: "memory_citation_ref list \<Rightarrow> artifact_id option" where
  "citation_artifact cts = (case cts of [] \<Rightarrow> None | c # _ \<Rightarrow> ci_artifact_id c)"

definition topic_haystack :: "stored_topic_record \<Rightarrow> string" where
  "topic_haystack t =
     tp_name t @ '' '' @ join '' '' (tp_aliases t) @ '' '' @ tp_summary t @ '' ''
       @ join '' '' (tp_recent_keywords t)"

definition topic_hit :: "nat \<Rightarrow> stored_topic_record \<Rightarrow> memory_search_hit" where
  "topic_hit score t =
     \<lparr>mh_kind = TopicHit, mh_title = tp_name t, mh_summary = tp_summary t, mh_score = score,
      mh_thread_id = hd_opt (tp_related_thread_ids t), mh_turn_id = citation_turn (tp_citations t),
      mh_artifact_id = hd_opt (tp_related_artifact_ids t),
      mh_fact_id = hd_opt (tp_citation_fact_ids t)\<rparr>"

definition fact_haystack :: "stored_memory_fact \<Rightarrow> string" where
  "fact_haystack f = sf_subject f @ '' '' @ sf_value f @ '' '' @ join '' '' (sf_keywords f)"

definition fact_hit :: "nat \<Rightarrow> stored_memory_fact \<Rightarrow> memory_search_hit" where
  "fact_hit score f =
     \<lparr>mh_kind = FactHit, mh_title = sf_subject f, mh_summary = sf_value f, mh_score = score,
      mh_thread_id = hd_opt (sf_related_thread_ids f), mh_turn_id = citation_turn (sf_citations f),
      mh_artifact_id = citation_artifact (sf_citations f), mh_fact_id = Some (sf_id f)\<rparr>"

definition session_haystack :: "thread \<Rightarrow> turn_log_entry list \<Rightarrow> string" where
  "session_haystack th recent =
     th_title th @ '' '' @ unwrap_or [] (th_active_goal th) @ '' ''
       @ unwrap_or [] (th_active_summary th) @ '' '' @ join '' '' (map le_summary recent)"

definition session_hit :: "nat \<Rightarrow> thread \<Rightarrow> turn_log_entry list \<Rightarrow> memory_search_hit" where
  "session_hit score th recent =
     \<lparr>mh_kind = SessionHit, mh_title = th_title th,
      mh_summary = unwrap_or (unwrap_or ''No session summary available''
        (map_option le_summary (last_opt recent))) (th_active_summary th),
      mh_score = score, mh_thread_id = Some (th_id th),
      mh_turn_id = (case last_opt recent of None \<Rightarrow> None | Some e \<Rightarrow> le_turn_id e),
      mh_artifact_id = (case last_opt recent of None \<Rightarrow> None | Some e \<Rightarrow> hd_opt (le_artifact_ids e)),
      mh_fact_id = None\<rparr>"

definition scored :: "('a \<Rightarrow> nat) \<Rightarrow> (nat \<Rightarrow> 'a \<Rightarrow> 'b) \<Rightarrow> 'a list \<Rightarrow> 'b list" where
  "scored score mk xs = map (\<lambda>x. mk (score x) x) (filter (\<lambda>x. score x \<noteq> 0) xs)"

definition rank_hits :: "nat option \<Rightarrow> memory_search_hit list \<Rightarrow> memory_search_hit list" where
  "rank_hits limit hits =
     take (unwrap_or 8 limit) (sort_by (then_with (ge_on mh_score) (le_on mh_title)) hits)"

definition search_memory ::
  "(nat \<Rightarrow> nat \<Rightarrow> nat \<Rightarrow> nat) \<Rightarrow> string \<Rightarrow> memory_search_mode \<Rightarrow> nat option \<Rightarrow>
   ('z, memory_search_hit list) rt" where
  "search_memory cosine_percent query mode limit =
     bindR read_global_memory (\<lambda>snap.
     let query_tokens = normalize_tokens query;
         score = (\<lambda>haystack. score_match cosine_percent query query_tokens haystack mode)
     in if query_tokens = [] then ret []
        else
          let topic_hits = scored (\<lambda>t. score (topic_haystack t)) topic_hit (gm_topic_index snap);
              fact_hits = scored (\<lambda>f. score (fact_haystack f)) fact_hit
                (filter (\<lambda>f. sf_invalidated_at f = None \<and> sf_invalidated_by f = None) (gm_facts snap))
          in bindR list_threads_io (\<lambda>threads.
             bindR (collectR (\<lambda>th. bindR (read_turn_log (th_id th))
                 (\<lambda>entries. ret (th, recent_entries entries))) threads) (\<lambda>sessions.
             ret (rank_hits limit (topic_hits @ fact_hits
               @ scored (\<lambda>(th, recent). score (session_haystack th recent))
                   (\<lambda>n (th, recent). session_hit n th recent) sessions)))))"

definition artifacts_for_entries :: "turn_log_entry list \<Rightarrow> ('z, artifact_ref list) rt" where
  "artifacts_for_entries entries =
     bindR (collectR get_artifact (concat (map le_artifact_ids entries))) (\<lambda>found.
     ret (map sa_reference (List.map_filter id found)))"

definition open_session :: "thread_id \<Rightarrow> ('z, memory_session_view) rt" where
  "open_session k =
     bindR (get_thread k) (\<lambda>found.
     bindR (ok_or thread_not_found found) (\<lambda>th.
     bindR (read_turn_log k) (\<lambda>all.
     let entries = recent_entries all
     in bindR (artifacts_for_entries entries) (\<lambda>artifacts.
        ret \<lparr>sv_thread_id = th_id th, sv_title = th_title th, sv_status = th_status th,
             sv_active_summary = th_active_summary th,
             sv_pending_commitments = th_pending_commitments th,
             sv_recent_entries = map (\<lambda>e. \<lparr>se_recorded_at = le_recorded_at e,
               se_event = le_event e, se_summary = le_summary e, se_turn_id = le_turn_id e,
               se_artifact_ids = le_artifact_ids e\<rparr>) entries,
             sv_artifacts = artifacts\<rparr>))))"

definition evidence_target_required :: runtime_error where
  "evidence_target_required =
     invalid_state ''memory_evidence_target_required''
       ''memory/open_evidence requires a turn, artifact, or fact target''"

definition evidence_citation ::
  "thread_id \<Rightarrow> turn_id option \<Rightarrow> artifact_id option \<Rightarrow> stored_artifact option \<Rightarrow>
   stored_memory_fact option \<Rightarrow> string option \<Rightarrow> memory_citation_ref" where
  "evidence_citation k turn art artifact cited turn_summary =
     (case artifact of
        Some a \<Rightarrow> CitationRef k (Some (ar_turn_id (sa_reference a))) (Some (ar_id (sa_reference a)))
          (ar_summary (sa_reference a))
      | None \<Rightarrow>
        (case cited of
           Some f \<Rightarrow> unwrap_or (CitationRef k turn None (sf_subject f)) (hd_opt (sf_citations f))
         | None \<Rightarrow> CitationRef k turn art (unwrap_or ''Session evidence'' turn_summary)))"

definition open_evidence ::
  "thread_id \<Rightarrow> turn_id option \<Rightarrow> artifact_id option \<Rightarrow> memory_fact_id option \<Rightarrow>
   ('z, memory_evidence_view) rt" where
  "open_evidence k turn art fact_id =
     bindR (guard evidence_target_required (\<not> (turn = None \<and> art = None \<and> fact_id = None))) (\<lambda>_.
     bindR (get_thread k) (\<lambda>found.
     bindR (ok_or thread_not_found found) (\<lambda>th.
     bindR read_global_memory (\<lambda>snap.
     bindR (read_turn_log k) (\<lambda>entries.
     let turn_summary = (case turn of None \<Rightarrow> None
           | Some i \<Rightarrow> map_option le_summary (find (\<lambda>e. le_turn_id e = Some i) entries));
         cited = (case fact_id of None \<Rightarrow> None | Some i \<Rightarrow> find (\<lambda>f. sf_id f = i) (gm_facts snap))
     in bindR (case art of Some i \<Rightarrow> get_artifact i | None \<Rightarrow> ret None) (\<lambda>artifact.
        ret \<lparr>ev_citation = evidence_citation (th_id th) turn art artifact cited turn_summary,
             ev_thread_title = Some (th_title th), ev_turn_summary = turn_summary,
             ev_fact_id = map_option sf_id cited, ev_fact_kind = map_option sf_kind cited,
             ev_fact_value = map_option sf_value cited,
             ev_artifact = map_option sa_reference artifact,
             ev_artifact_body = map_option sa_body artifact\<rparr>))))))"

section \<open>Compilation and the ledger\<close>

lemma upsert_opt_ok:
  "live_unique (md_facts d) \<Longrightarrow> live_unique (md_facts (upsert_opt sp d))"
  "ledger_extends (md_facts d) (md_facts (upsert_opt sp d))"
  by (cases sp; simp add: upsert_opt_def upsert_live_unique upsert_extends)+

lemma delta_snapshot_simps [simp]:
  "gm_facts (delta_snapshot dl snap) = gm_facts snap"
  "gm_topic_index (delta_snapshot dl snap) = gm_topic_index snap"
  by (simp_all add: delta_snapshot_def split: option.splits)

lemma sync_topic_index_facts [simp]:
  "md_facts (sync_topic_index th es ts ws cts now d) = md_facts d"
  by (simp add: sync_topic_index_def Let_def)

text \<open>The drafts of \<open>compile_draft\<close>, one name per statement of the source.\<close>

definition draft_core ::
  "memory_compilation_input \<Rightarrow> memory_compilation_delta \<Rightarrow> timestamp \<Rightarrow> memory_draft \<Rightarrow> memory_draft" where
  "draft_core input dl now d =
     (let th = mi_thread input; k = th_id th; cts = mi_citations input; ws = dl_recent_keywords dl in
      sync_commitment_facts k (dl_commitments dl) ws cts now
        (upsert_opt (map_option (\<lambda>g. thread_spec Decision (''thread:'' @ k @ '':current_goal'') g ws k cts now)
            (th_active_goal th))
          (upsert_opt (map_option (\<lambda>a. thread_spec ActiveState (''thread:'' @ k @ '':active_state'') a ws k cts now)
              (th_active_summary th))
            (d\<lparr>md_snapshot := delta_snapshot dl (md_snapshot d)\<rparr>))))"

definition draft_notes ::
  "memory_compilation_input \<Rightarrow> memory_compilation_delta \<Rightarrow> timestamp \<Rightarrow> memory_draft \<Rightarrow> memory_draft" where
  "draft_notes input dl now d =
     (let k = th_id (mi_thread input); cts = mi_citations input; ws = dl_recent_keywords dl in
      fold (\<lambda>p. upsert_fact (thread_spec ProcedureCandidate (procedure_subject k p) p ws k cts now))
        (dl_candidate_procedures dl)
        (invalidate_candidate_subjects (dl_invalidation_candidates dl) now
          (fold (\<lambda>f. upsert_fact (delta_fact_spec dl k cts now f))
            (filter (\<lambda>f. unwrap_or Identity (df_kind f) \<noteq> ProcedureCandidate) (dl_durable_facts dl))
            (upsert_opt (map_option (\<lambda>i. thread_spec Identity ''owner:identity_summary'' i ws k cts now)
                (dl_identity_summary_update dl)) d))))"

lemma compile_draft_stages:
  "compile_draft input dl now d =
     sync_topic_index (mi_thread input) (mi_recent_entries input) (dl_recent_topics dl)
       (dl_recent_keywords dl) (mi_citations input) now (draft_notes input dl now (draft_core input dl now d))"
  by (simp add: compile_draft_def draft_core_def draft_notes_def Let_def)

lemma draft_core_ok:
  assumes "live_unique (md_facts d)"
  shows "live_unique (md_facts (draft_core input dl now d))
    \<and> ledger_extends (md_facts d) (md_facts (draft_core input dl now d))"
proof -
  let ?d1 = "d\<lparr>md_snapshot := delta_snapshot dl (md_snapshot d)\<rparr>"
  have facts: "md_facts ?d1 = md_facts d" by simp
  have u: "live_unique (md_facts (upsert_opt y (upsert_opt x ?d1)))" for x y
    by (intro upsert_opt_ok(1)) (simp add: assms)
  have e: "ledger_extends (md_facts d) (md_facts (upsert_opt y (upsert_opt x ?d1)))" for x y
    by (rule ledger_extends_trans [OF _ upsert_opt_ok(2)])
      (use upsert_opt_ok(2) [of ?d1 x] in \<open>simp add: facts\<close>)
  show ?thesis
    unfolding draft_core_def Let_def
    by (intro conjI sync_commitments_ok(1) u ledger_extends_trans [OF e sync_commitments_ok(2) [OF u]])
qed

lemma draft_notes_ok:
  assumes "live_unique (md_facts d)"
  shows "live_unique (md_facts (draft_notes input dl now d))
    \<and> ledger_extends (md_facts d) (md_facts (draft_notes input dl now d))"
proof -
  have u1: "live_unique (md_facts (upsert_opt x d))" for x by (intro upsert_opt_ok(1) assms)
  have u2: "live_unique (md_facts (fold (\<lambda>f. upsert_fact (g f)) fs (upsert_opt x d)))" for g x and fs :: "'x list"
    by (intro upserts.fold_live_unique u1)
  have e2: "ledger_extends (md_facts d) (md_facts (fold (\<lambda>f. upsert_fact (g f)) fs (upsert_opt x d)))" for g x
    and fs :: "'x list"
    by (rule ledger_extends_trans [OF upsert_opt_ok(2) upserts.fold_extends])
  note inv = invalidate_candidates_ok [OF u2]
  show ?thesis
    unfolding draft_notes_def Let_def
    by (intro conjI upserts.fold_live_unique ledger_extends_trans [OF _ upserts.fold_extends])
      (use inv e2 ledger_extends_trans in blast)+
qed

lemma compile_draft_ok:
  "live_unique (md_facts d) \<Longrightarrow> live_unique (md_facts (compile_draft input dl now d))
     \<and> ledger_extends (md_facts d) (md_facts (compile_draft input dl now d))"
  using draft_core_ok draft_notes_ok ledger_extends_trans
  by (simp add: compile_draft_stages) blast

text \<open>The stored ledger, as a predicate and a relation on the runtime's state.\<close>

definition ledger_ok :: "'z runtime_env_scheme \<Rightarrow> bool" where
  "ledger_ok s \<longleftrightarrow> live_unique (gm_facts (memory_of (stores s)))"

definition ledger_grows :: "'z runtime_env_scheme \<Rightarrow> 'z runtime_env_scheme \<Rightarrow> bool" where
  "ledger_grows s t \<longleftrightarrow>
     (ledger_ok s \<longrightarrow> ledger_ok t
       \<and> ledger_extends (gm_facts (memory_of (stores s))) (gm_facts (memory_of (stores t))))"

interpretation ledger_order: progress_order ledger_grows
  by unfold_locales (auto simp: ledger_grows_def intro: ledger_extends_trans)

lemma ledger_frame: "gm_facts (memory_of (stores t)) = gm_facts (memory_of (stores s)) \<Longrightarrow> ledger_grows s t"
  by (simp add: ledger_grows_def ledger_ok_def)

lemma ledger_io:
  "advances ledger_grows (io_read f)" "advances ledger_grows (draw d)"
  "(\<And>g. memory_of (h g) = memory_of g) \<Longrightarrow> advances ledger_grows (io_write h)"
  by (auto simp: advances_def io_read_frame io_write_def draw_run ledger_frame split: option.splits)

lemma ledger_apply: "advances ledger_grows (apply_compilation_delta input dl)"
  unfolding advances_def
proof
  fix s
  show "ledger_grows s (snd (apply_compilation_delta input dl s))"
    using compile_draft_ok [where d = "\<lparr>md_snapshot = memory_of (stores s), md_ids = _,
        md_updated = [], md_invalidated = []\<rparr>" and input = input and dl = dl]
    by (auto simp: apply_compilation_delta_def io_op_defs io_read_def io_write_def run_simps Let_def
        ledger_grows_def ledger_ok_def split: option.splits sum.splits)
qed

lemma ledger_of_result: "advances ledger_grows (of_result r)"
  by (cases r) (auto simp: of_result_def intro: ledger_order.advances_intros)


section \<open>What a compilation makes live\<close>

lemma subjects_apart:
  "''thread:'' @ k @ '':active_state'' \<noteq> ''thread:'' @ k @ '':current_goal''"
  "''thread:'' @ k @ '':active_state'' \<noteq> commitment_subject k c"
  "''thread:'' @ k @ '':current_goal'' \<noteq> commitment_subject k c"
  "''thread:'' @ k @ '':active_state'' \<noteq> procedure_subject k p"
  "''thread:'' @ k @ '':current_goal'' \<noteq> procedure_subject k p"
  "commitment_subject k c \<noteq> procedure_subject k p"
  "''owner:identity_summary'' \<noteq> ''thread:'' @ k @ x"
  by (simp_all add: commitment_subject_def procedure_subject_def)

lemma live_value_invalidate_other:
  assumes "live_unique (md_facts d)" and "live_value (md_facts d) s = Some (kd, v)"
    and "\<And>f. p f \<Longrightarrow> sf_kind f \<noteq> kd"
  shows "live_value (md_facts (invalidate_all p now d)) s = Some (kd, v)"
proof -
  obtain f where f: "f \<in> set (md_facts d)" "live f" "sf_subject f = s" "sf_kind f = kd" "sf_value f = v"
    using assms(1,2) by (auto simp: live_value_iff)
  with assms(3) have "f \<in> set (filter live (md_facts (invalidate_all p now d)))"
    unfolding invalidate_all_live by auto
  with f show ?thesis
    by (auto simp: live_value_iff [OF invalidate_all_live_unique [OF assms(1)]])
qed

lemma upsert_opt_live_value:
  "live_unique (md_facts d) \<Longrightarrow> live_value (md_facts (upsert_opt sp d)) =
     (case sp of None \<Rightarrow> live_value (md_facts d)
      | Some x \<Rightarrow> (live_value (md_facts d))(fc_subject x \<mapsto> (fc_kind x, fc_value x)))"
  by (cases sp) (simp_all add: upsert_opt_def upsert_live_value)

lemma thread_spec_simps [simp]:
  "fc_subject (thread_spec kd sb v ws k cts now) = sb" "fc_kind (thread_spec kd sb v ws k cts now) = kd"
  "fc_value (thread_spec kd sb v ws k cts now) = v"
  by (simp_all add: thread_spec_def)

lemma map_of_commitments_other:
  "(\<And>c. s \<noteq> commitment_subject k c) \<Longrightarrow>
   map_of (rev (map (\<lambda>c. (commitment_subject k c, Commitment, c)) cs)) s = None"
  unfolding map_of_eq_None_iff by force

lemma draft_core_live_value:
  assumes "live_unique (md_facts d)" and "th = mi_thread input"
  shows "th_active_summary th = Some a \<Longrightarrow>
      live_value (md_facts (draft_core input dl now d)) (''thread:'' @ th_id th @ '':active_state'')
        = Some (ActiveState, a)"
    and "th_active_goal th = Some g \<Longrightarrow>
      live_value (md_facts (draft_core input dl now d)) (''thread:'' @ th_id th @ '':current_goal'')
        = Some (Decision, g)"
    and "c \<in> set (dl_commitments dl) \<Longrightarrow> \<exists>c' \<in> set (dl_commitments dl).
      commitment_subject (th_id th) c' = commitment_subject (th_id th) c
      \<and> live_value (md_facts (draft_core input dl now d)) (commitment_subject (th_id th) c)
        = Some (Commitment, c')"
proof -
  let ?k = "th_id th" let ?cts = "mi_citations input" let ?ws = "dl_recent_keywords dl"
  let ?d1 = "d\<lparr>md_snapshot := delta_snapshot dl (md_snapshot d)\<rparr>"
  let ?d2 = "upsert_opt (map_option (\<lambda>a. thread_spec ActiveState (''thread:'' @ ?k @ '':active_state'') a ?ws ?k ?cts now)
      (th_active_summary th)) ?d1"
  let ?d3 = "upsert_opt (map_option (\<lambda>g. thread_spec Decision (''thread:'' @ ?k @ '':current_goal'') g ?ws ?k ?cts now)
      (th_active_goal th)) ?d2"
  have core: "draft_core input dl now d = sync_commitment_facts ?k (dl_commitments dl) ?ws ?cts now ?d3"
    by (simp add: draft_core_def Let_def assms(2))
  have u1: "live_unique (md_facts ?d1)" using assms(1) by simp
  have u2: "live_unique (md_facts ?d2)" by (rule upsert_opt_ok(1) [OF u1])
  have u3: "live_unique (md_facts ?d3)" by (rule upsert_opt_ok(1) [OF u2])
  note lv = upsert_opt_live_value [OF u2] upsert_opt_live_value [OF u1]
  note keep = live_value_invalidate_other [OF u3, where p = "stale_commitment ?k (dl_commitments dl)"]
  have other: "map_of (rev (map (\<lambda>c. (commitment_subject ?k c, Commitment, c)) (dl_commitments dl))) s = None"
    if "\<And>c. s \<noteq> commitment_subject ?k c" for s using that by (rule map_of_commitments_other)
  show "live_value (md_facts (draft_core input dl now d)) (''thread:'' @ ?k @ '':active_state'') = Some (ActiveState, a)"
    if "th_active_summary th = Some a"
  proof -
    have "live_value (md_facts ?d3) (''thread:'' @ ?k @ '':active_state'') = Some (ActiveState, a)"
      unfolding lv using that subjects_apart(1) by (simp split: option.splits)
    from keep [OF this] other [OF subjects_apart(2)] show ?thesis
      unfolding core sync_commitments_live_value [OF u3]
      by (simp add: map_add_def stale_commitment_def del: append.simps)
  qed
  show "live_value (md_facts (draft_core input dl now d)) (''thread:'' @ ?k @ '':current_goal'') = Some (Decision, g)"
    if "th_active_goal th = Some g"
  proof -
    have "live_value (md_facts ?d3) (''thread:'' @ ?k @ '':current_goal'') = Some (Decision, g)"
      unfolding lv using that by simp
    from keep [OF this] other [OF subjects_apart(3)] show ?thesis
      unfolding core sync_commitments_live_value [OF u3]
      by (simp add: map_add_def stale_commitment_def del: append.simps)
  qed
  show "\<exists>c' \<in> set (dl_commitments dl). commitment_subject ?k c' = commitment_subject ?k c
      \<and> live_value (md_facts (draft_core input dl now d)) (commitment_subject ?k c) = Some (Commitment, c')"
    if "c \<in> set (dl_commitments dl)"
    using map_of_rev_keyed [OF that, of "commitment_subject ?k" "\<lambda>c. (Commitment, c)"]
    unfolding core sync_commitments_live_value [OF u3] map_add_def by auto
qed

text \<open>The rest of a heuristic compilation leaves those subjects alone.\<close>

lemma draft_notes_live_value:
  assumes "live_unique (md_facts d)" and "dl_durable_facts dl = []" and "dl_invalidation_candidates dl = []"
    and "s \<noteq> ''owner:identity_summary''" and "\<And>p. s \<noteq> procedure_subject (th_id (mi_thread input)) p"
  shows "live_value (md_facts (draft_notes input dl now d)) s = live_value (md_facts d) s"
proof -
  have none: "map_of (rev (map (\<lambda>p. (procedure_subject (th_id (mi_thread input)) p, ProcedureCandidate, p)) ps)) s = None"
    for ps unfolding map_of_eq_None_iff using assms(5) by force
  show ?thesis
    unfolding draft_notes_def Let_def assms(2,3)
    using assms(4) upsert_opt_live_value [OF assms(1)]
    by (simp add: invalidate_candidate_subjects_def fold_upsert_live_value upsert_opt_ok(1) assms(1)
        fold_map_update map_add_def none split: option.splits)
qed

lemma apply_Inr:
  assumes "apply_compilation_delta input dl s = (Inr sm, t)"
  shows "\<exists>g now. memory_of (stores t) = md_snapshot (compile_draft input dl now
      \<lparr>md_snapshot = memory_of (stores s), md_ids = g, md_updated = [], md_invalidated = []\<rparr>)
    \<and> mc_recent_topics sm = dl_recent_topics dl \<and> thread_of (stores t) = thread_of (stores s)
    \<and> log_of (stores t) = log_of (stores s)"
  using assms
  by (auto simp: apply_compilation_delta_def io_op_defs success_iffs store_iffs Let_def)

lemma build_compilation_input_Inr:
  "build_compilation_input k s = (Inr input, t) \<Longrightarrow>
   thread_of (stores s) k = Some (mi_thread input) \<and> memory_of (stores t) = memory_of (stores s)
   \<and> mi_recent_entries input = recent_entries (log_of (stores s) k)
   \<and> mi_existing_facts input = gm_facts (memory_of (stores s))
   \<and> thread_of (stores t) = thread_of (stores s) \<and> log_of (stores t) = log_of (stores s)"
  by (auto simp: build_compilation_input_def io_op_defs success_iffs store_iffs Let_def)

text \<open>A successful compilation makes the ledger agree with the thread: the live fact under the
  thread's active-state subject is its summary, the one under its goal subject its goal, and
  every pending commitment has a live commitment fact under its subject.\<close>

theorem compilation_reflects_thread:
  assumes "compile_thread k s = (Inr sm, t)" and "ledger_ok s"
    and "fs = gm_facts (memory_of (stores t))"
  shows "\<exists>th. thread_of (stores s) k = Some th
    \<and> (\<forall>a. th_active_summary th = Some a \<longrightarrow>
        live_value fs (''thread:'' @ th_id th @ '':active_state'') = Some (ActiveState, a))
    \<and> (\<forall>g. th_active_goal th = Some g \<longrightarrow>
        live_value fs (''thread:'' @ th_id th @ '':current_goal'') = Some (Decision, g))
    \<and> (\<forall>c \<in> set (th_pending_commitments th). \<exists>c' \<in> set (th_pending_commitments th).
        commitment_subject (th_id th) c' = commitment_subject (th_id th) c
        \<and> live_value fs (commitment_subject (th_id th) c) = Some (Commitment, c'))"
proof -
  obtain input s1 where input: "build_compilation_input k s = (Inr input, s1)"
    and run: "apply_compilation_delta input (heuristic_compile input) s1 = (Inr sm, t)"
    using assms(1) by (auto simp: compile_thread_def bindR_Inr_iff)
  note at = build_compilation_input_Inr [OF input]
  let ?dl = "heuristic_compile input" let ?th = "mi_thread input"
  obtain g now where mem: "memory_of (stores t) = md_snapshot (compile_draft input ?dl now
      \<lparr>md_snapshot = memory_of (stores s1), md_ids = g, md_updated = [], md_invalidated = []\<rparr>)"
    using apply_Inr [OF run] by blast
  define d where "d = \<lparr>md_snapshot = memory_of (stores s1), md_ids = g, md_updated = [], md_invalidated = []\<rparr>"
  have u: "live_unique (md_facts d)" using assms(2) at by (simp add: d_def ledger_ok_def)
  have heur: "dl_durable_facts ?dl = []" "dl_invalidation_candidates ?dl = []"
    "dl_commitments ?dl = th_pending_commitments ?th" by (simp_all add: heuristic_compile_def Let_def)
  have fs: "fs = md_facts (draft_notes input ?dl now (draft_core input ?dl now d))"
    using assms(3) mem by (simp add: compile_draft_stages d_def)
  note core = draft_core_live_value [OF u refl, where input = input and dl = ?dl and now = now]
  have rest: "live_value fs x = live_value (md_facts (draft_core input ?dl now d)) x"
    if "x \<noteq> ''owner:identity_summary''" and "\<And>p. x \<noteq> procedure_subject (th_id ?th) p" for x
    unfolding fs by (rule draft_notes_live_value [OF conjunct1 [OF draft_core_ok [OF u]] heur(1,2) that])
  have n1: "live_value fs (''thread:'' @ th_id ?th @ y) = live_value (md_facts (draft_core input ?dl now d)) (''thread:'' @ th_id ?th @ y)"
    if "\<And>p. y \<noteq> '':procedure:'' @ p" for y
    using that subjects_apart(7) by (intro rest) (auto simp: procedure_subject_def)
  have n2: "live_value fs (commitment_subject (th_id ?th) c) = live_value (md_facts (draft_core input ?dl now d)) (commitment_subject (th_id ?th) c)" for c
    using subjects_apart(6,7) by (intro rest) (simp_all add: commitment_subject_def)
  show ?thesis
    using at core n1 n2 unfolding heur(3) by (intro exI [of _ ?th]) simp
qed

lemma demo_compiles: "\<exists>sm t. compile_thread ''t1'' demo_env = (Inr sm, t)"
proof -
  have "thread_of (stores demo_env) ''t1'' = Some demo_thread"
    by (simp add: thread_of_def demo_env_def demo_files_def)
  then show ?thesis
    by (simp add: compile_thread_def build_compilation_input_def apply_compilation_delta_def
        io_op_defs run_simps Let_def)
qed

theorem compilation_reflects_thread_witness:
  "\<exists>sm t. compile_thread ''t1'' demo_env = (Inr sm, t)
    \<and> live_value (gm_facts (memory_of (stores t))) ''thread:t1:current_goal'' = Some (Decision, ''ship'')"
proof -
  obtain sm t where run: "compile_thread ''t1'' demo_env = (Inr sm, t)" using demo_compiles by blast
  have "ledger_ok demo_env"
    by (simp add: ledger_ok_def live_unique_def memory_of_def demo_defs)
  from compilation_reflects_thread [OF run this refl]
  have "live_value (gm_facts (memory_of (stores t))) ''thread:t1:current_goal'' = Some (Decision, ''ship'')"
    by (simp add: thread_of_def demo_env_def demo_files_def demo_thread_def)
  with run show ?thesis by blast
qed

section \<open>Wake-up and recall\<close>

lemma rev_take_rev: "rev (take n (rev xs)) = drop (length xs - n) xs"
  by (simp add: rev_take)

text \<open>The recent entries of a log, which every wake-up, session view and compilation start from,
  are the last eight entries with a summary that is not blank, in log order.\<close>

theorem recent_entries_are_last:
  "recent_entries es =
     (let spoken = filter (\<lambda>e. \<exists>c \<in> set (le_summary e). \<not> is_ws c) es
      in drop (length spoken - 8) spoken)"
proof -
  have eq: "(\<lambda>e. \<not> blank (le_summary e)) = (\<lambda>e. \<exists>c \<in> set (le_summary e). \<not> is_ws c)"
    by (rule ext) (simp add: blank_iff)
  have "recent_entries es = rev (take 8 (rev (filter (\<lambda>e. \<not> blank (le_summary e)) es)))"
    by (simp add: recent_entries_def rev_filter)
  then show ?thesis unfolding eq Let_def rev_take_rev .
qed

definition wakeup_eligible :: "global_memory_snapshot \<Rightarrow> thread \<Rightarrow> stored_memory_fact \<Rightarrow> bool" where
  "wakeup_eligible snap th f \<longleftrightarrow> f \<in> set (gm_facts snap)
     \<and> sf_invalidated_at f = None \<and> sf_invalidated_by f = None
     \<and> (sf_related_thread_ids f = [] \<or> th_id th \<in> set (sf_related_thread_ids f))"

lemma ranked_wakeup_facts_set: "set (ranked_wakeup_facts snap th) = {f. wakeup_eligible snap th f}"
  by (auto simp: ranked_wakeup_facts_def wakeup_eligible_def)

lemma ranked_wakeup_facts_sorted:
  "sorted_wrt (\<lambda>f g. wakeup_fact_score th g \<le> wakeup_fact_score th f) (ranked_wakeup_facts snap th)"
  unfolding ranked_wakeup_facts_def
  by (rule sorted_wrt_mono_rel [OF _ desc_then_desc.sorted_sort_by])
    (auto simp: then_with_def ge_on_def)

lemma sorted_wrt_take_drop:
  "sorted_wrt P xs \<Longrightarrow> x \<in> set (take n xs) \<Longrightarrow> y \<in> set (drop n xs) \<Longrightarrow> P x y"
  by (metis append_take_drop_id sorted_wrt_append)

text \<open>The wake-up slice shows the best six facts: live ones that belong to the thread or to no
  thread, best score first, each with its identifier, and no fact left out scores higher than
  one that is shown.\<close>

theorem wakeup_shows_best_facts:
  assumes "wk = build_memory_wakeup snap th rv"
  shows "\<exists>shown. wk_relevant_facts wk = map (\<lambda>f. sf_subject f @ '': '' @ sf_value f) shown
    \<and> wk_citation_fact_ids wk = map sf_id shown \<and> length shown \<le> 6
    \<and> sorted_wrt (\<lambda>f g. wakeup_fact_score th g \<le> wakeup_fact_score th f) shown
    \<and> (\<forall>f \<in> set shown. wakeup_eligible snap th f)
    \<and> (\<forall>f. wakeup_eligible snap th f \<longrightarrow> f \<notin> set shown \<longrightarrow>
        length shown = 6 \<and> (\<forall>g \<in> set shown. wakeup_fact_score th f \<le> wakeup_fact_score th g))"
proof (intro exI [of _ "take 6 (ranked_wakeup_facts snap th)"] conjI allI impI ballI)
  let ?r = "ranked_wakeup_facts snap th"
  show "sorted_wrt (\<lambda>f g. wakeup_fact_score th g \<le> wakeup_fact_score th f) (take 6 ?r)"
    by (intro sorted_wrt_take ranked_wakeup_facts_sorted)
  show "wakeup_eligible snap th f" if "f \<in> set (take 6 ?r)" for f
    using in_set_takeD [OF that] by (simp add: ranked_wakeup_facts_set)
  fix f
  assume "wakeup_eligible snap th f" and out: "f \<notin> set (take 6 ?r)"
  then have "f \<in> set ?r" by (simp add: ranked_wakeup_facts_set)
  with out have rest: "f \<in> set (drop 6 ?r)" by (metis UnE append_take_drop_id set_append)
  then have "6 < length ?r" by (metis drop_all empty_iff list.set(1) not_less)
  then show "length (take 6 ?r) = 6" by simp
  show "wakeup_fact_score th f \<le> wakeup_fact_score th g" if "g \<in> set (take 6 ?r)" for g
    by (rule sorted_wrt_take_drop [OF ranked_wakeup_facts_sorted that rest])
qed (simp_all add: assms build_memory_wakeup_def Let_def)

theorem wakeup_shows_best_facts_witness:
  "\<exists>shown. wk_citation_fact_ids (build_memory_wakeup demo_memory demo_thread
      (build_recent_conversation ''t1'' [])) = map sf_id shown
    \<and> length shown \<le> 6 \<and> (\<forall>f \<in> set shown. wakeup_eligible demo_memory demo_thread f)"
  using wakeup_shows_best_facts [OF refl, of demo_memory demo_thread "build_recent_conversation ''t1'' []"]
  by blast

text \<open>Operations that only read leave every file as it was.\<close>

definition same_files :: "'z runtime_env_scheme \<Rightarrow> 'z runtime_env_scheme \<Rightarrow> bool" where
  "same_files s t \<longleftrightarrow> (\<exists>n. t = s\<lparr>stores := (stores s)\<lparr>io_count := n\<rparr>\<rparr>)"

lemma same_files_tick: "same_files s (tick s)"
  by (auto simp: same_files_def tick_def)

interpretation reads_only: progress_order same_files
proof
  show "same_files s s" for s :: "'z runtime_env_scheme"
    unfolding same_files_def by (intro exI [of _ "io_count (stores s)"]) simp
  show "same_files s u" if "same_files s t" and "same_files t u" for s t u :: "'z runtime_env_scheme"
    using that by (auto simp: same_files_def)
qed

lemma reads_io: "advances same_files (io_read f)"
  by (simp add: advances_def io_read_frame same_files_tick)

lemmas reads_intros = reads_io reads_only.advances_intros

lemma recall_reads:
  "advances same_files (read_wakeup k)" "advances same_files (list_topics status limit)"
  "advances same_files (search_memory cosine_percent query mode limit)"
  "advances same_files (open_session k)" "advances same_files (open_evidence k turn art fact_id)"
  "advances same_files (summarize_dreaming k)"
  unfolding read_wakeup_def list_topics_def search_memory_def open_session_def open_evidence_def
    summarize_dreaming_def artifacts_for_entries_def io_op_defs Let_def
  by (intro reads_intros)+

text \<open>Recall never writes: reading the wake-up slice, listing topics, searching, opening a
  session or a piece of evidence and summarising leave every stored file and every field of the
  runtime as it was, whatever their outcome.\<close>

theorem recall_never_writes:
  "advances same_files (read_wakeup k) \<and> advances same_files (list_topics status limit)
   \<and> advances same_files (search_memory cosine_percent query mode limit)
   \<and> advances same_files (open_session k) \<and> advances same_files (open_evidence k turn art fact_id)
   \<and> advances same_files (summarize_dreaming k)"
  by (intro conjI recall_reads)

section \<open>Search\<close>

lemma scored_props:
  "h \<in> set (scored score mk xs) \<longleftrightarrow> (\<exists>x \<in> set xs. score x \<noteq> 0 \<and> h = mk (score x) x)"
  by (auto simp: scored_def)

lemma rank_hits_props:
  "sorted_wrt (\<lambda>a b. mh_score b \<le> mh_score a) (rank_hits limit hits)"
  "set (rank_hits limit hits) \<subseteq> set hits"
  "length (rank_hits limit hits) \<le> unwrap_or 8 limit"
  "length (rank_hits limit hits) < unwrap_or 8 limit \<Longrightarrow> set (rank_hits limit hits) = set hits"
proof -
  have "sorted_wrt (\<lambda>a b. mh_score b \<le> mh_score a) (sort_by (then_with (ge_on mh_score) (le_on mh_title)) hits)"
    by (rule sorted_wrt_mono_rel [OF _ desc_then_asc.sorted_sort_by])
      (auto simp: then_with_def ge_on_def)
  then show "sorted_wrt (\<lambda>a b. mh_score b \<le> mh_score a) (rank_hits limit hits)"
    by (simp add: rank_hits_def sorted_wrt_take)
  show "set (rank_hits limit hits) \<subseteq> set hits" "length (rank_hits limit hits) \<le> unwrap_or 8 limit"
    by (auto simp: rank_hits_def dest: in_set_takeD)
  show "set (rank_hits limit hits) = set hits" if "length (rank_hits limit hits) < unwrap_or 8 limit"
    using that by (auto simp: rank_hits_def)
qed

text \<open>A search returns at most its limit of hits, best first, each with a positive score; and
  while the limit is not reached a keyword search misses nothing: every live fact and every topic
  that shares a significant word with the query is among the hits.\<close>

theorem search_complete:
  assumes "search_memory cosine_percent query KeywordSearch limit s = (Inr hits, t)"
    and "snap = memory_of (stores s)"
  shows "length hits \<le> unwrap_or 8 limit
    \<and> sorted_wrt (\<lambda>a b. mh_score b \<le> mh_score a) hits \<and> (\<forall>h \<in> set hits. 0 < mh_score h)
    \<and> (length hits < unwrap_or 8 limit \<longrightarrow>
        (\<forall>f \<in> set (gm_facts snap). sf_invalidated_at f = None \<and> sf_invalidated_by f = None
            \<and> set (normalize_tokens query) \<inter> set (normalize_tokens (fact_haystack f)) \<noteq> {} \<longrightarrow>
          (\<exists>h \<in> set hits. mh_kind h = FactHit \<and> mh_fact_id h = Some (sf_id f)))
      \<and> (\<forall>r \<in> set (gm_topic_index snap).
            set (normalize_tokens query) \<inter> set (normalize_tokens (topic_haystack r)) \<noteq> {} \<longrightarrow>
          (\<exists>h \<in> set hits. mh_kind h = TopicHit \<and> mh_title h = tp_name r)))"
proof (cases "normalize_tokens query = []")
  case True
  then have "hits = []"
    using assms(1) by (auto simp: search_memory_def Let_def success_iffs)
  with True show ?thesis by simp
next
  case False
  define score where "score = (\<lambda>haystack. score_match cosine_percent query (normalize_tokens query) haystack KeywordSearch)"
  define facts where "facts = filter (\<lambda>f. sf_invalidated_at f = None \<and> sf_invalidated_by f = None) (gm_facts snap)"
  have pos: "score h \<noteq> 0 \<longleftrightarrow> set (normalize_tokens query) \<inter> set (normalize_tokens h) \<noteq> {}" for h
    using score_match_keyword_pos [of cosine_percent query h] unfolding score_def by auto
  obtain sessions where hits: "hits = rank_hits limit
      (scored (\<lambda>t. score (topic_haystack t)) topic_hit (gm_topic_index snap)
       @ scored (\<lambda>f. score (fact_haystack f)) fact_hit facts
       @ scored (\<lambda>(th, recent). score (session_haystack th recent))
           (\<lambda>n (th, recent). session_hit n th recent) sessions)"
    using assms False unfolding search_memory_def Let_def score_def facts_def
    by (auto simp: success_iffs read_global_memory_def io_read_Inr_iff)
  let ?all = "scored (\<lambda>t. score (topic_haystack t)) topic_hit (gm_topic_index snap)
       @ scored (\<lambda>f. score (fact_haystack f)) fact_hit facts
       @ scored (\<lambda>(th, recent). score (session_haystack th recent))
           (\<lambda>n (th, recent). session_hit n th recent) sessions"
  have positive: "0 < mh_score h" if "h \<in> set ?all" for h
    using that by (auto simp: scored_props topic_hit_def fact_hit_def session_hit_def)
  have facts_in: "\<exists>h \<in> set ?all. mh_kind h = FactHit \<and> mh_fact_id h = Some (sf_id f)"
    if "f \<in> set facts" and "score (fact_haystack f) \<noteq> 0" for f
  proof (rule bexI [of _ "fact_hit (score (fact_haystack f)) f"])
    show "fact_hit (score (fact_haystack f)) f \<in> set ?all"
      using that by (auto simp: scored_props)
  qed (simp add: fact_hit_def)
  have topics_in: "\<exists>h \<in> set ?all. mh_kind h = TopicHit \<and> mh_title h = tp_name r"
    if "r \<in> set (gm_topic_index snap)" and "score (topic_haystack r) \<noteq> 0" for r
  proof (rule bexI [of _ "topic_hit (score (topic_haystack r)) r"])
    show "topic_hit (score (topic_haystack r)) r \<in> set ?all"
      using that by (auto simp: scored_props)
  qed (simp add: topic_hit_def)
  note ranked = rank_hits_props [of limit ?all, folded hits]
  have complete: "(\<forall>f \<in> set (gm_facts snap). sf_invalidated_at f = None \<and> sf_invalidated_by f = None
            \<and> set (normalize_tokens query) \<inter> set (normalize_tokens (fact_haystack f)) \<noteq> {} \<longrightarrow>
          (\<exists>h \<in> set hits. mh_kind h = FactHit \<and> mh_fact_id h = Some (sf_id f)))
      \<and> (\<forall>r \<in> set (gm_topic_index snap).
            set (normalize_tokens query) \<inter> set (normalize_tokens (topic_haystack r)) \<noteq> {} \<longrightarrow>
          (\<exists>h \<in> set hits. mh_kind h = TopicHit \<and> mh_title h = tp_name r))"
    if "length hits < unwrap_or 8 limit"
    unfolding ranked(4) [OF that] using facts_in topics_in pos by (simp add: facts_def)
  show ?thesis using ranked(1-3) positive complete by (intro conjI) blast+
qed

theorem search_complete_witness:
  "\<exists>hits t. search_memory (\<lambda>_ _ _. 0) ''salary'' KeywordSearch None demo_env = (Inr hits, t)
     \<and> length hits \<le> 8 \<and> sorted_wrt (\<lambda>a b. mh_score b \<le> mh_score a) hits"
proof -
  have "threads_of (stores demo_env) = [demo_thread]"
    by (simp add: threads_of_def demo_env_def demo_files_def)
  then have "\<exists>hits t. search_memory (\<lambda>_ _ _. 0) ''salary'' KeywordSearch None demo_env = (Inr hits, t)"
    by (cases "normalize_tokens ''salary'' = []")
      (simp_all add: search_memory_def Let_def io_op_defs run_simps)
  then obtain hits t where run: "search_memory (\<lambda>_ _ _. 0) ''salary'' KeywordSearch None demo_env = (Inr hits, t)"
    by blast
  from search_complete [OF this refl] run show ?thesis by auto
qed

end
