(* ===== verification/Surfaces.thy ===== *)
theory Surfaces
  imports Memory
begin

text \<open>
  The owner-facing surfaces of the coordinator (\<open>runtime/coordinator.rs\<close>): stored provider
  credentials, the thread picker, About You, the work liz carries, knowledge, and people with
  their disclosure boundaries. Each reads one stored snapshot, edits it, sorts it and writes it
  back. The lemmas give each edit its meaning on the keyed list it maintains, and what a read
  after it returns.
\<close>

section \<open>Provider credentials\<close>

definition list_provider_auth_profiles :: "string option \<Rightarrow> ('z, provider_auth_profile list) rt" where
  "list_provider_auth_profiles provider =
     bindR read_auth_profiles (\<lambda>ps.
     ret (case provider of None \<Rightarrow> ps | Some p \<Rightarrow> filter (\<lambda>x. pf_provider_id x = p) ps))"

definition validate_provider_auth_profile :: "provider_auth_profile \<Rightarrow> (runtime_error, 's, unit) run" where
  "validate_provider_auth_profile p =
     bindR (guard (invalid_state ''provider_auth_profile_id_required''
         ''provider auth profile id must not be empty'') (\<not> blank (pf_profile_id p))) (\<lambda>_.
     guard (invalid_state ''provider_auth_provider_id_required''
         ''provider auth provider id must not be empty'') (\<not> blank (pf_provider_id p)))"

definition put_profile ::
  "provider_auth_profile \<Rightarrow> provider_auth_profile list \<Rightarrow> provider_auth_profile list" where
  "put_profile p ps = sort_by (le_on pf_profile_id) (upsert_by pf_profile_id p ps)"

definition upsert_provider_auth_profile :: "provider_auth_profile \<Rightarrow> ('z, provider_auth_profile) rt" where
  "upsert_provider_auth_profile p =
     bindR (validate_provider_auth_profile p) (\<lambda>_.
     bindR read_auth_profiles (\<lambda>ps.
     bindR (write_auth_profiles (put_profile p ps)) (\<lambda>_. ret p)))"

definition profile_not_found :: "string \<Rightarrow> runtime_error" where
  "profile_not_found i = not_found ''provider_auth_profile_not_found''
     (''provider auth profile '' @ i @ '' does not exist'')"

definition delete_provider_auth_profile :: "string \<Rightarrow> ('z, string) rt" where
  "delete_provider_auth_profile i =
     bindR read_auth_profiles (\<lambda>ps.
     let kept = remove_by pf_profile_id i ps
     in bindR (guard (profile_not_found i) (length kept \<noteq> length ps)) (\<lambda>_.
        bindR (write_auth_profiles kept) (\<lambda>_. ret i)))"

section \<open>Threads\<close>

definition threads_for :: "thread_list_request \<Rightarrow> thread list \<Rightarrow> thread list" where
  "threads_for rq ts =
     truncate_opt (tl_limit rq) (sort_by (ge_on th_updated_at)
       (case tl_status rq of None \<Rightarrow> ts | Some v \<Rightarrow> filter (\<lambda>t. th_status t = v) ts))"

definition list_threads :: "thread_list_request \<Rightarrow> ('z, thread list) rt" where
  "list_threads rq = bindR list_threads_io (\<lambda>ts. ret (threads_for rq ts))"

definition build_resume_summary :: "thread \<Rightarrow> resume_summary" where
  "build_resume_summary th =
     \<lparr>rs_headline = (case th_latest_turn_id th of
          Some i \<Rightarrow> ''Resume thread '' @ th_title th @ '' from '' @ i
        | None \<Rightarrow> ''Resume thread '' @ th_title th),
      rs_active_summary = th_active_summary th,
      rs_pending_commitments = th_pending_commitments th,
      rs_last_interruption = th_last_interruption th\<rparr>"

definition carrying_item_of :: "thread \<Rightarrow> carrying_item" where
  "carrying_item_of th =
     \<lparr>cr_thread_id = th_id th, cr_title = th_title th, cr_status = th_status th,
      cr_summary = th_active_summary th, cr_pending_commitments = th_pending_commitments th,
      cr_suggested_next_step =
        opt_or (case th_pending_commitments th of [] \<Rightarrow> None | c # _ \<Rightarrow> Some c) (th_active_goal th),
      cr_updated_at = th_updated_at th\<rparr>"

definition is_finished :: "thread \<Rightarrow> bool" where
  "is_finished th \<longleftrightarrow>
     th_status th = thread_status.Completed \<or> th_status th = thread_status.Archived"

definition carrying_of :: "nat option \<Rightarrow> thread list \<Rightarrow> carrying_surface" where
  "carrying_of limit ts =
     (let recent = truncate_opt limit (sort_by (ge_on th_updated_at) ts)
      in \<lparr>cs_active = map carrying_item_of (filter (\<lambda>t. \<not> is_finished t) recent),
          cs_completed = map carrying_item_of (filter is_finished recent)\<rparr>)"

definition read_carrying_surface :: "nat option \<Rightarrow> ('z, carrying_surface) rt" where
  "read_carrying_surface limit = bindR list_threads_io (\<lambda>ts. ret (carrying_of limit ts))"

section \<open>About You\<close>

definition key_separator :: "char \<Rightarrow> bool" where
  "key_separator c \<longleftrightarrow> c = CHR '':'' \<or> c = CHR ''_'' \<or> c = CHR ''-''"

definition humanize_key :: "string \<Rightarrow> string" where
  "humanize_key key = join '' '' (filter (\<lambda>part. part \<noteq> []) (split_on key_separator key))"

definition trim_matches :: "(char \<Rightarrow> bool) \<Rightarrow> string \<Rightarrow> string" where
  "trim_matches p s = rev (dropWhile p (rev (dropWhile p s)))"

definition about_you_keywords :: "string \<Rightarrow> string \<Rightarrow> string list" where
  "about_you_keywords subject v =
     btree_set (map to_lower (filter (\<lambda>t. 3 \<le> length t)
       (map (trim_matches (\<lambda>c. \<not> is_alnum c)) (split_on key_separator subject @ split_whitespace v))))"

definition about_you_of :: "global_memory_snapshot \<Rightarrow> about_you_surface" where
  "about_you_of snap =
     \<lparr>ay_identity_summary = gm_identity_summary snap,
      ay_items =
        (case gm_identity_summary snap of None \<Rightarrow> []
         | Some s \<Rightarrow> [\<lparr>ai_key = ''identity_summary'', ai_label = ''How liz understands you'',
             ai_value = s, ai_confirmed = True, ai_source_fact_id = None\<rparr>])
        @ map (\<lambda>f. \<lparr>ai_key = sf_subject f, ai_label = humanize_key (sf_subject f),
              ai_value = sf_value f, ai_confirmed = True, ai_source_fact_id = Some (sf_id f)\<rparr>)
            (filter (\<lambda>f. sf_kind f = Identity \<and> sf_invalidated_at f = None \<and> sf_invalidated_by f = None)
              (gm_facts snap))\<rparr>"

definition build_about_you_surface :: "('z, about_you_surface) rt" where
  "build_about_you_surface = bindR read_global_memory (\<lambda>snap. ret (about_you_of snap))"

definition identity_match :: "string \<Rightarrow> stored_memory_fact \<Rightarrow> bool" where
  "identity_match subject f \<longleftrightarrow>
     sf_kind f = Identity \<and> sf_subject f = subject \<and> sf_invalidated_at f = None"

definition new_identity_fact ::
  "memory_fact_id \<Rightarrow> string \<Rightarrow> string \<Rightarrow> timestamp \<Rightarrow> stored_memory_fact" where
  "new_identity_fact i subject v now =
     \<lparr>sf_id = i, sf_kind = Identity, sf_subject = subject, sf_value = v,
      sf_keywords = about_you_keywords subject v, sf_related_thread_ids = [], sf_citations = [],
      sf_updated_at = now, sf_invalidated_at = None, sf_invalidated_by = None\<rparr>"

text \<open>One round of the loop of \<open>update_about_you_surface\<close>, on the facts and the generator.\<close>

definition apply_about_you_item ::
  "timestamp \<Rightarrow> about_you_item \<Rightarrow> stored_memory_fact list \<times> id_generator \<Rightarrow>
   stored_memory_fact list \<times> id_generator" where
  "apply_about_you_item now item st =
     (let (fs, g) = st; subject = trim (ai_key item); v = trim (ai_value item) in
      if subject = [] then (fs, g)
      else if v = [] then
        (map (\<lambda>f. if identity_match subject f then f\<lparr>sf_invalidated_at := Some now\<rparr> else f) fs, g)
      else if \<exists>f \<in> set fs. identity_match subject f then
        (update_first (identity_match subject)
          (\<lambda>f. f\<lparr>sf_value := v, sf_keywords := about_you_keywords subject v, sf_updated_at := now,
                sf_invalidated_by := None\<rparr>) fs, g)
      else let (i, g') = next_memory_fact_id g in (fs @ [new_identity_fact i subject v now], g'))"

definition apply_about_you ::
  "timestamp \<Rightarrow> about_you_surface \<Rightarrow> global_memory_snapshot \<Rightarrow> id_generator \<Rightarrow>
   global_memory_snapshot \<times> id_generator" where
  "apply_about_you now update snap g =
     (let (fs, g') = fold (apply_about_you_item now)
            (filter (\<lambda>item. ai_key item \<noteq> ''identity_summary'') (ay_items update)) (gm_facts snap, g)
      in (snap\<lparr>gm_identity_summary := ay_identity_summary update, gm_facts := fs\<rparr>, g'))"

definition update_about_you_surface :: "about_you_surface \<Rightarrow> ('z, about_you_surface) rt" where
  "update_about_you_surface update =
     bindR read_global_memory (\<lambda>snap.
     bindR (draw now_timestamp) (\<lambda>now.
     bindR (draw (apply_about_you now update snap)) (\<lambda>snap'.
     bindR (write_global_memory snap') (\<lambda>_. build_about_you_surface))))"

section \<open>Knowledge\<close>

fun memory_fact_kind_label :: "memory_fact_kind \<Rightarrow> string" where
  "memory_fact_kind_label Identity = ''identity''"
| "memory_fact_kind_label ActiveState = ''active_state''"
| "memory_fact_kind_label Commitment = ''commitment''"
| "memory_fact_kind_label Decision = ''decision''"
| "memory_fact_kind_label Topic = ''topic''"
| "memory_fact_kind_label ProcedureCandidate = ''procedure''"
| "memory_fact_kind_label Keyword = ''keyword''"

definition knowledge_item_of :: "stored_memory_fact \<Rightarrow> knowledge_item" where
  "knowledge_item_of f =
     \<lparr>kn_fact_id = sf_id f, kn_kind = memory_fact_kind_label (sf_kind f), kn_subject = sf_subject f,
      kn_summary = sf_value f,
      kn_stale = (sf_invalidated_at f \<noteq> None \<or> sf_invalidated_by f \<noteq> None),
      kn_updated_at = sf_updated_at f, kn_citations = sf_citations f\<rparr>"

definition knowledge_of :: "nat option \<Rightarrow> global_memory_snapshot \<Rightarrow> knowledge_item list" where
  "knowledge_of limit snap =
     truncate_opt limit (sort_by (then_with (le_on kn_stale) (ge_on kn_updated_at))
       (map knowledge_item_of (gm_facts snap)))"

definition list_knowledge_surface :: "nat option \<Rightarrow> ('z, knowledge_item list) rt" where
  "list_knowledge_surface limit =
     bindR read_global_memory (\<lambda>snap. ret (knowledge_of limit snap))"

definition knowledge_not_found :: runtime_error where
  "knowledge_not_found = not_found ''knowledge_fact_not_found'' ''knowledge fact does not exist''"

definition correct_fact :: "string \<Rightarrow> timestamp \<Rightarrow> stored_memory_fact \<Rightarrow> stored_memory_fact" where
  "correct_fact v now f = f\<lparr>sf_value := v, sf_updated_at := now\<rparr>"

definition correct_knowledge_surface ::
  "memory_fact_id \<Rightarrow> string \<Rightarrow> ('z, knowledge_item) rt" where
  "correct_knowledge_surface i v =
     bindR read_global_memory (\<lambda>snap.
     bindR (draw now_timestamp) (\<lambda>now.
     bindR (ok_or knowledge_not_found (find (\<lambda>f. sf_id f = i) (gm_facts snap))) (\<lambda>f.
     bindR (write_global_memory (snap\<lparr>gm_facts :=
         update_first (\<lambda>f. sf_id f = i) (correct_fact v now) (gm_facts snap)\<rparr>)) (\<lambda>_.
     ret (knowledge_item_of (correct_fact v now f))))))"

section \<open>People\<close>

definition person_boundary_from_relationship :: "relationship_entry \<Rightarrow> person_boundary" where
  "person_boundary_from_relationship e =
     \<lparr>pb_person_id = re_person_id e, pb_display_name = re_display_name e,
      pb_actor_kind =
        (if contains (re_interaction_stance e) ''agent'' \<or> starts_with (re_person_id e) ''agent:''
         then ''external_agent'' else ''human''),
      pb_trust_level = re_trust_level e,
      pb_shared_topics = ib_shared_topics (re_info_boundary e),
      pb_forbidden_topics = ib_forbidden_topics (re_info_boundary e),
      pb_share_active_state = ib_share_active_state (re_info_boundary e),
      pb_share_commitments = ib_share_commitments (re_info_boundary e),
      pb_interaction_stance = re_interaction_stance e, pb_notes = re_notes e,
      pb_requires_owner_confirmation = (re_trust_level e \<noteq> trust_level.Owner)\<rparr>"

definition relationship_entry_from_boundary :: "person_boundary \<Rightarrow> relationship_entry" where
  "relationship_entry_from_boundary p =
     \<lparr>re_person_id = pb_person_id p, re_display_name = pb_display_name p,
      re_trust_level = pb_trust_level p,
      re_info_boundary = \<lparr>ib_shared_topics = pb_shared_topics p,
        ib_forbidden_topics = pb_forbidden_topics p,
        ib_share_active_state = pb_share_active_state p,
        ib_share_commitments = pb_share_commitments p\<rparr>,
      re_interaction_stance =
        (if blank (pb_interaction_stance p)
         then if pb_actor_kind p = ''external_agent'' then ''agent_task_scoped'' else ''bounded_contact''
         else pb_interaction_stance p),
      re_notes = opt_filter (\<lambda>n. \<not> blank n) (pb_notes p)\<rparr>"

definition validate_person_boundary :: "person_boundary \<Rightarrow> (runtime_error, 's, unit) run" where
  "validate_person_boundary p =
     bindR (guard (invalid_state ''people_boundary_id_required''
         ''people boundary id must not be empty'') (\<not> blank (pb_person_id p))) (\<lambda>_.
     bindR (guard (invalid_state ''people_boundary_display_name_required''
         ''people boundary display name must not be empty'') (\<not> blank (pb_display_name p))) (\<lambda>_.
     guard (invalid_state ''people_boundary_actor_kind_invalid''
         ''people boundary actor kind must be human or external_agent'')
       (\<not> (pb_actor_kind p \<noteq> ''human'' \<and> pb_actor_kind p \<noteq> ''external_agent''))))"

definition build_people_surface :: "global_memory_snapshot \<Rightarrow> people_surface" where
  "build_people_surface snap =
     (let boundaries = map person_boundary_from_relationship (gm_relationships snap)
      in \<lparr>ps_humans = sort_by (le_on pb_display_name)
            (filter (\<lambda>b. pb_actor_kind b \<noteq> ''external_agent'') boundaries),
          ps_external_agents = sort_by (le_on pb_display_name)
            (filter (\<lambda>b. pb_actor_kind b = ''external_agent'') boundaries),
          ps_default_stranger_boundary = gm_default_stranger_boundary snap\<rparr>)"

definition read_people_surface :: "('z, people_surface) rt" where
  "read_people_surface = bindR read_global_memory (\<lambda>snap. ret (build_people_surface snap))"

definition put_relationship ::
  "relationship_entry \<Rightarrow> relationship_entry list \<Rightarrow> relationship_entry list" where
  "put_relationship e es = sort_by (le_on re_display_name) (upsert_by re_person_id e es)"

definition upsert_people_surface :: "person_boundary \<Rightarrow> ('z, people_surface) rt" where
  "upsert_people_surface p =
     bindR read_global_memory (\<lambda>snap.
     bindR (validate_person_boundary p) (\<lambda>_.
     let snap' = snap\<lparr>gm_relationships :=
           put_relationship (relationship_entry_from_boundary p) (gm_relationships snap)\<rparr>
     in bindR (write_global_memory snap') (\<lambda>_. ret (build_people_surface snap'))))"

definition people_not_found :: runtime_error where
  "people_not_found = not_found ''people_boundary_not_found'' ''people boundary does not exist''"

definition delete_people_surface :: "string \<Rightarrow> ('z, people_surface) rt" where
  "delete_people_surface i =
     bindR read_global_memory (\<lambda>snap.
     let kept = remove_by re_person_id i (gm_relationships snap)
     in bindR (guard people_not_found (length kept \<noteq> length (gm_relationships snap))) (\<lambda>_.
        let snap' = snap\<lparr>gm_relationships := kept\<rparr>
        in bindR (write_global_memory snap') (\<lambda>_. ret (build_people_surface snap'))))"

section \<open>Keyed lists\<close>

text \<open>
  The interface of the lists the surfaces maintain: one element per key, replaced or added by
  \<open>put\<close>, dropped by \<open>remove\<close>.
\<close>

locale keyed_list =
  fixes key :: "'a \<Rightarrow> 'k" and put :: "'a \<Rightarrow> 'a list \<Rightarrow> 'a list" and remove :: "'k \<Rightarrow> 'a list \<Rightarrow> 'a list"
  assumes distinct_put: "distinct (map key xs) \<Longrightarrow> distinct (map key (put x xs))"
    and set_put: "distinct (map key xs) \<Longrightarrow> set (put x xs) = insert x {y \<in> set xs. key y \<noteq> key x}"
    and distinct_remove: "distinct (map key xs) \<Longrightarrow> distinct (map key (remove k xs))"
    and set_remove: "set (remove k xs) = {y \<in> set xs. key y \<noteq> k}"
begin

definition lookup :: "'a list \<Rightarrow> 'k \<Rightarrow> 'a option" where
  "lookup xs k = find (\<lambda>y. key y = k) xs"

lemma lookup_iff: "distinct (map key xs) \<Longrightarrow> lookup xs k = Some y \<longleftrightarrow> y \<in> set xs \<and> key y = k"
proof
  assume d: "distinct (map key xs)" and y: "y \<in> set xs \<and> key y = k"
  then have "lookup xs k \<noteq> None" unfolding lookup_def find_None_iff by blast
  then obtain z where z: "lookup xs k = Some z" by blast
  then have "z \<in> set xs \<and> key z = k" unfolding lookup_def by (rule find_SomeD)
  with d y have "z = y" by (metis distinct_map inj_onD)
  with z show "lookup xs k = Some y" by simp
next
  assume "lookup xs k = Some y"
  then show "y \<in> set xs \<and> key y = k" unfolding lookup_def by (rule find_SomeD)
qed

lemma lookup_None_iff: "lookup xs k = None \<longleftrightarrow> k \<notin> key ` set xs"
  by (auto simp: lookup_def find_None_iff)

lemma lookup_put:
  assumes "distinct (map key xs)"
  shows "lookup (put x xs) = (lookup xs)(key x \<mapsto> x)"
proof (rule ext)
  fix k
  note in_put = lookup_iff [OF distinct_put [OF assms], of x]
  show "lookup (put x xs) k = ((lookup xs)(key x \<mapsto> x)) k"
  proof (cases "k = key x")
    case True
    then show ?thesis using in_put set_put [OF assms] by simp
  next
    case False
    then have "lookup (put x xs) k = Some y \<longleftrightarrow> lookup xs k = Some y" for y
      unfolding in_put lookup_iff [OF assms] set_put [OF assms] by auto
    then show ?thesis using False by (metis fun_upd_other not_None_eq)
  qed
qed

lemma lookup_remove:
  assumes "distinct (map key xs)"
  shows "lookup (remove k xs) = (lookup xs)(k := None)"
proof (rule ext)
  fix j
  show "lookup (remove k xs) j = ((lookup xs)(k := None)) j"
  proof (cases "j = k")
    case True
    then show ?thesis by (auto simp: lookup_None_iff set_remove)
  next
    case False
    then have "lookup (remove k xs) j = Some y \<longleftrightarrow> lookup xs j = Some y" for y
      unfolding lookup_iff [OF distinct_remove [OF assms]] lookup_iff [OF assms] set_remove by auto
    then show ?thesis using False by (metis fun_upd_other not_None_eq)
  qed
qed

lemma fold_put_distinct: "distinct (map key xs) \<Longrightarrow> distinct (map key (fold put ys xs))"
  by (induction ys arbitrary: xs) (auto intro: distinct_put)

end

interpretation profiles: keyed_list pf_profile_id put_profile "remove_by pf_profile_id"
  by unfold_locales
    (simp_all add: put_profile_def distinct_upsert_by set_upsert_by distinct_remove_by)

interpretation people: keyed_list re_person_id put_relationship "remove_by re_person_id"
  by unfold_locales
    (simp_all add: put_relationship_def distinct_upsert_by set_upsert_by distinct_remove_by)

lemma put_profile_sorted: "sorted_wrt (le_on pf_profile_id) (put_profile p ps)"
  unfolding put_profile_def by (rule asc.sorted_sort_by)

section \<open>Properties\<close>

definition profiles_at :: "'z runtime_env_scheme \<Rightarrow> string \<rightharpoonup> provider_auth_profile" where
  "profiles_at s = profiles.lookup (profiles_of (stores s))"

definition profiles_ok :: "'z runtime_env_scheme \<Rightarrow> bool" where
  "profiles_ok s \<longleftrightarrow> distinct (map pf_profile_id (profiles_of (stores s)))"

lemma set_profiles_view: "profiles_of (stores (s\<lparr>stores := set_profiles ps f\<rparr>)) = ps"
  by simp


definition demo_profile :: provider_auth_profile where
  "demo_profile = \<lparr>pf_profile_id = ''p1'', pf_provider_id = ''openai'', pf_display_name = None,
     pf_credential = ApiKey ''k''\<rparr>"


text \<open>The thread picker returns threads of the requested status only, most recently updated
  first, at most the limit, and no thread it leaves out was updated after one it returns; without
  a limit it returns all of them.\<close>

theorem thread_list_sorted_and_complete:
  assumes "list_threads rq s = (Inr ts, t)"
    and "wanted = {x \<in> set (threads_of (stores s)). tl_status rq = None \<or> tl_status rq = Some (th_status x)}"
  shows "set ts \<subseteq> wanted \<and> sorted_wrt (\<lambda>x y. th_updated_at y \<le> th_updated_at x) ts
    \<and> (case tl_limit rq of None \<Rightarrow> set ts = wanted | Some n \<Rightarrow> length ts \<le> n)
    \<and> (\<forall>x \<in> wanted - set ts. \<forall>y \<in> set ts. th_updated_at x \<le> th_updated_at y)"
proof -
  let ?xs = "case tl_status rq of None \<Rightarrow> threads_of (stores s)
    | Some v \<Rightarrow> filter (\<lambda>t. th_status t = v) (threads_of (stores s))"
  let ?sorted = "sort_by (ge_on th_updated_at) ?xs"
  have ts: "ts = truncate_opt (tl_limit rq) ?sorted"
    using assms(1) by (auto simp: list_threads_def list_threads_io_def success_iffs store_iffs threads_for_def)
  have wanted: "set ?sorted = wanted" using assms(2) by (auto split: option.splits)
  have srt: "sorted_wrt (\<lambda>x y. th_updated_at y \<le> th_updated_at x) ?sorted"
    by (rule sorted_wrt_mono_rel [OF _ desc.sorted_sort_by]) (simp add: ge_on_def)
  have rest: "th_updated_at x \<le> th_updated_at y" if "x \<in> wanted - set ts" and "y \<in> set ts" for x y
  proof (cases "tl_limit rq")
    case None
    with that wanted ts show ?thesis by simp
  next
    case (Some n)
    with that wanted ts have "y \<in> set (take n ?sorted)" "x \<in> set ?sorted" "x \<notin> set (take n ?sorted)"
      by auto
    moreover have "x \<in> set (drop n ?sorted)"
      using calculation by (metis UnE append_take_drop_id set_append)
    ultimately show ?thesis using sorted_wrt_take_drop [OF srt] by blast
  qed
  have all: "case tl_limit rq of None \<Rightarrow> set ts = wanted | Some n \<Rightarrow> length ts \<le> n"
    unfolding ts using wanted by (cases "tl_limit rq") simp_all
  have sub: "set ts \<subseteq> wanted" using set_truncate_opt wanted unfolding ts by metis
  have "sorted_wrt (\<lambda>x y. th_updated_at y \<le> th_updated_at x) ts"
    unfolding ts by (rule sorted_wrt_truncate_opt [OF srt])
  with sub all rest show ?thesis by blast
qed

theorem thread_list_sorted_and_complete_witness:
  "\<exists>ts t. list_threads \<lparr>tl_status = Some thread_status.Active, tl_limit = None\<rparr> demo_env = (Inr ts, t)
     \<and> set ts = {demo_thread}"
proof -
  have "threads_of (stores demo_env) = [demo_thread]"
    by (simp add: threads_of_def demo_env_def demo_files_def)
  moreover obtain ts t where
    run: "list_threads \<lparr>tl_status = Some thread_status.Active, tl_limit = None\<rparr> demo_env = (Inr ts, t)"
    by (simp add: list_threads_def io_op_defs run_simps)
  moreover have "set ts = {x \<in> set (threads_of (stores demo_env)). th_status x = thread_status.Active}"
    using thread_list_sorted_and_complete [OF run refl] by (simp add: eq_commute)
  moreover have "th_status demo_thread = thread_status.Active" by (simp add: demo_thread_def)
  ultimately have "set ts = {demo_thread}" by force
  with run show ?thesis by blast
qed

text \<open>A person's boundary survives being stored exactly when it is in the form the store keeps:
  with a stance, without blank notes, asking for confirmation unless it is the owner, and with
  the actor kind its stance and identifier spell out; nothing else of it is lost.\<close>

theorem person_boundary_roundtrip:
  assumes "pb_actor_kind p = ''human'' \<or> pb_actor_kind p = ''external_agent''"
  shows "person_boundary_from_relationship (relationship_entry_from_boundary p) = p \<longleftrightarrow>
    \<not> blank (pb_interaction_stance p) \<and> opt_filter (\<lambda>n. \<not> blank n) (pb_notes p) = pb_notes p
    \<and> (pb_requires_owner_confirmation p \<longleftrightarrow> pb_trust_level p \<noteq> trust_level.Owner)
    \<and> (pb_actor_kind p = ''external_agent'' \<longleftrightarrow>
        contains (pb_interaction_stance p) ''agent'' \<or> starts_with (pb_person_id p) ''agent:'')"
proof -
  have stance: "pb_interaction_stance p \<noteq> ''agent_task_scoped'' \<and> pb_interaction_stance p \<noteq> ''bounded_contact''"
    if "blank (pb_interaction_stance p)"
  proof -
    have "\<not> blank ''agent_task_scoped''" "\<not> blank ''bounded_contact''" by code_simp+
    with that show ?thesis by metis
  qed
  show ?thesis
    using assms stance
    by (cases p)
      (auto simp: person_boundary_from_relationship_def relationship_entry_from_boundary_def
        simp del: contains.simps starts_with.simps)
qed

definition demo_person :: person_boundary where
  "demo_person = \<lparr>pb_person_id = ''bob'', pb_display_name = ''Bob'', pb_actor_kind = ''external_agent'',
     pb_trust_level = Trusted, pb_shared_topics = [], pb_forbidden_topics = [],
     pb_share_active_state = False, pb_share_commitments = False,
     pb_interaction_stance = ''peer'', pb_notes = None, pb_requires_owner_confirmation = True\<rparr>"

theorem person_boundary_roundtrip_witness:
  "person_boundary_from_relationship (relationship_entry_from_boundary demo_person) \<noteq> demo_person"
  using person_boundary_roundtrip [of demo_person]
  by (simp add: demo_person_def)

text \<open>An external agent that the owner enters with a stance of its own is accepted and read back
  as a human, among the humans.\<close>

theorem external_agent_read_back_as_human:
  "fst (validate_person_boundary demo_person s) = Inr ()
   \<and> pb_actor_kind demo_person = ''external_agent''
   \<and> pb_actor_kind (person_boundary_from_relationship (relationship_entry_from_boundary demo_person)) = ''human''"
proof (intro conjI)
  have "\<not> blank ''bob''" "\<not> blank ''Bob''" by code_simp+
  then show "fst (validate_person_boundary demo_person s) = Inr ()"
    by (simp add: validate_person_boundary_def guard_def run_simps demo_person_def)
  show "pb_actor_kind demo_person = ''external_agent''" by (simp add: demo_person_def)
  show "pb_actor_kind (person_boundary_from_relationship (relationship_entry_from_boundary demo_person)) = ''human''"
    by code_simp
qed

text \<open>A correction changes the value of exactly the fact with the given identifier and nothing
  else of the memory; with an unknown identifier it fails and changes no file.\<close>

theorem correction_changes_one_fact:
  assumes "distinct (map sf_id (gm_facts (memory_of (stores s))))"
  shows "case correct_knowledge_surface i v s of
      (Inr item, t) \<Rightarrow> kn_fact_id item = i \<and> kn_summary item = v
        \<and> map sf_id (gm_facts (memory_of (stores t))) = map sf_id (gm_facts (memory_of (stores s)))
        \<and> (\<exists>f \<in> set (gm_facts (memory_of (stores s))). sf_id f = i
          \<and> (\<exists>now. set (gm_facts (memory_of (stores t))) = insert (correct_fact v now f)
              {g \<in> set (gm_facts (memory_of (stores s))). sf_id g \<noteq> i}))
    | (Inl e, t) \<Rightarrow> memory_of (stores t) = memory_of (stores s)"
proof -
  let ?fs = "gm_facts (memory_of (stores s))"
  have upd: "set (update_first (\<lambda>f. sf_id f = i) (correct_fact v now) ?fs) =
      insert (correct_fact v now f) {g \<in> set ?fs. sf_id g \<noteq> i}
    \<and> map sf_id (update_first (\<lambda>f. sf_id f = i) (correct_fact v now) ?fs) = map sf_id ?fs"
    if found: "find (\<lambda>f. sf_id f = i) ?fs = Some f" for f now
  proof -
    obtain ys zs where split: "?fs = ys @ f # zs" "sf_id f = i"
      "update_first (\<lambda>f. sf_id f = i) (correct_fact v now) ?fs = ys @ correct_fact v now f # zs"
      using update_first_split [OF found] by blast
    with assms have "i \<notin> sf_id ` set ys" "i \<notin> sf_id ` set zs" by auto
    with split show ?thesis by (auto simp: correct_fact_def image_iff)
  qed
  show ?thesis
  proof (cases "find (\<lambda>f. sf_id f = i) ?fs")
    case None
    then show ?thesis
      by (auto simp: correct_knowledge_surface_def io_op_defs io_read_def run_simps split: option.splits)
  next
    case (Some f)
    then show ?thesis
      using upd [OF Some] find_SomeD [OF Some]
      by (auto simp: correct_knowledge_surface_def io_op_defs io_read_def io_write_def run_simps
          knowledge_item_of_def correct_fact_def split: option.splits)
  qed
qed

theorem correction_changes_one_fact_witness:
  "\<exists>item t. correct_knowledge_surface ''f1'' ''new'' demo_env = (Inr item, t) \<and> kn_summary item = ''new''"
proof -
  have "memory_of (stores demo_env) = demo_memory"
    by (simp add: memory_of_def demo_env_def demo_files_def)
  then obtain item t where run: "correct_knowledge_surface ''f1'' ''new'' demo_env = (Inr item, t)"
    by (simp add: correct_knowledge_surface_def io_op_defs run_simps demo_memory_def demo_fact_def)
  then show ?thesis
    using correction_changes_one_fact [of demo_env "''f1''" "''new''"]
    by (auto simp: memory_of_def demo_env_def demo_files_def demo_memory_def)
qed

end
