(* ===== verification/Coordinator.thy ===== *)
theory Coordinator
  imports Turn_Manager Node_Registry Policy Surfaces
begin

text \<open>
  The runtime coordinator (\<open>runtime/coordinator.rs\<close>): threads, turns, approvals, checkpoints, tool
  records and workspace mounts over one state. Its reachable states are those that any sequence of
  its operations produces, each operation with any outcome, I/O failures and restarts of the
  process included. The lemmas show the invariants of the reachable states, and what starting,
  approving and recording do.
\<close>

record coordinator = turn_env +
  approvals :: "(approval_id, approval_request) dict"
  nodes :: node_registry
  root_dir :: string

type_synonym ('z, 'a) crt = "(runtime_error, 'z coordinator_scheme, 'a) run"

section \<open>Construction\<close>

text \<open>
  \<open>RuntimeCoordinator::new\<close>: the registry is read from storage, and any error reading it gives the
  default registry. Approvals, active turns and counters start empty.
\<close>

definition new_coordinator :: "host_info \<Rightarrow> string \<Rightarrow> (nat \<Rightarrow> nat) \<Rightarrow> fs \<Rightarrow> coordinator" where
  "new_coordinator h root clk files =
     (let s0 = \<lparr>stores = files, id_gen = \<lparr>sequence = 0, clock = clk, clock_reads = 0\<rparr>,
               active_turns = [], next_sequence = [], approvals = [], nodes = default_registry h,
               root_dir = root\<rparr>
      in case read_node_registry s0 of
           (Inr snap, s1) \<Rightarrow> s1\<lparr>nodes := from_snapshot h snap\<rparr>
         | (Inl e, s1) \<Rightarrow> s1)"

text \<open>A process that stops and starts again keeps the files and loses everything in memory.\<close>

definition restart :: "host_info \<Rightarrow> (nat \<Rightarrow> nat) \<Rightarrow> coordinator \<Rightarrow> coordinator" where
  "restart h clk s = new_coordinator h (root_dir s) clk (stores s)"

section \<open>Nodes and mounts\<close>

definition on_registry :: "'a reg_run \<Rightarrow> ('z, 'a) crt" where
  "on_registry m s = (let (r, n) = m (nodes s) in (r, s\<lparr>nodes := n\<rparr>))"

definition persist_node_registry :: "('z, unit) crt" where
  "persist_node_registry = bindR (asks (\<lambda>s. snapshot (nodes s))) write_node_registry"

definition persisted :: "'a reg_run \<Rightarrow> ('z, 'a) crt" where
  "persisted m =
     bindR (on_registry m) (\<lambda>a. bindR persist_node_registry (\<lambda>_. ret a))"

definition co_update_node_policy :: "node_id \<Rightarrow> node_policy \<Rightarrow> ('z, node_record) crt" where
  "co_update_node_policy i p = persisted (update_node_policy i p)"

definition heartbeat_context :: "node_id \<Rightarrow> node_record \<Rightarrow> node_status \<Rightarrow> interaction_context" where
  "heartbeat_context i n st =
     \<lparr>ic_ingress = \<lparr>ig_kind = ''node'', ig_source_id = i, ig_conversation_id = None\<rparr>,
      ic_actor = \<lparr>ac_actor_id = i,
        ac_kind = (if ni_owner_device (nr_identity n) then LocalNode else RemoteNode),
        ac_display_name = Some (ni_display_name (nr_identity n)),
        ac_proof = Some ''registered_node''\<rparr>,
      ic_audience = \<lparr>au_visibility = Machine, au_participants = [i]\<rparr>,
      ic_role = NodeController,
      ic_authority = \<lparr>as_can_speak_for_owner = False, as_can_start_work = False,
        as_can_call_tools = False, as_can_write_memory = False,
        as_requires_owner_confirmation = False\<rparr>,
      ic_disclosure = disclosure_stranger_default, ic_task_mandate = Some ''node heartbeat'',
      ic_provenance = \<lparr>pv_channel = None, pv_received_at = ns_last_seen_at st,
        pv_authenticated_by = Some ''node_registry'', pv_raw_event_ref = None\<rparr>\<rparr>"

definition heartbeat_node :: "node_id \<Rightarrow> node_status \<Rightarrow> ('z, node_record \<times> inbound_event_action) crt" where
  "heartbeat_node i st =
     bindR (on_registry (read_node i)) (\<lambda>n.
     let action = classify_event \<lparr>ie_interaction_context = heartbeat_context i n st,
           ie_text = None, ie_event_kind = ''node.heartbeat''\<rparr>
     in bindR (on_registry (update_node_status i st)) (\<lambda>n'.
        bindR persist_node_registry (\<lambda>_. ret (n', action))))"

definition co_attach_workspace_mount :: "workspace_mount_attach_request \<Rightarrow> ('z, workspace_mount) crt" where
  "co_attach_workspace_mount rq = persisted (attach_workspace_mount rq)"

definition co_detach_workspace_mount :: "workspace_mount_id \<Rightarrow> ('z, workspace_mount_id) crt" where
  "co_detach_workspace_mount i = persisted (detach_workspace_mount i)"

definition thread_execution_scope :: "thread_id \<Rightarrow> ('z, node_id \<times> workspace_mount_id option) crt" where
  "thread_execution_scope k =
     bindR (get_thread k) (\<lambda>found.
     bindR (ok_or thread_not_found found) (\<lambda>th.
     case th_workspace_mount_id th of
       Some i \<Rightarrow> bindR (on_registry (read_workspace_mount i)) (\<lambda>m. ret (wm_node_id m, Some i))
     | None \<Rightarrow> ret (''local'', None)))"

section \<open>Threads\<close>

definition resolve_thread_workspace_mount :: "thread_start_request \<Rightarrow> ('z, thread_start_request) crt" where
  "resolve_thread_workspace_mount rq =
     (case (ts_workspace_mount_id rq, ts_workspace_ref rq) of
        (Some i, None) \<Rightarrow>
          bindR (on_registry (read_workspace_mount i)) (\<lambda>m.
          ret (rq\<lparr>ts_workspace_ref := Some (wm_root_path m)\<rparr>))
      | (None, Some path) \<Rightarrow>
          if \<not> blank path
          then bindR (on_registry (resolve_or_attach_local_workspace path)) (\<lambda>m.
               bindR persist_node_registry (\<lambda>_.
               ret (rq\<lparr>ts_workspace_mount_id := Some (wm_workspace_id m)\<rparr>)))
          else ret rq
      | _ \<Rightarrow> ret rq)"

definition co_start_thread :: "thread_start_request \<Rightarrow> ('z, thread) crt" where
  "co_start_thread rq = bindR (resolve_thread_workspace_mount rq) start_thread"

definition co_resume_thread :: "thread_id \<Rightarrow> ('z, thread \<times> resume_summary) crt" where
  "co_resume_thread k = bindR (resume_thread k) (\<lambda>th. ret (th, build_resume_summary th))"

definition co_fork_thread :: "thread_fork_request \<Rightarrow> ('z, thread) crt" where
  "co_fork_thread rq = fork_thread rq"

section \<open>Turns, checkpoints and approvals\<close>

definition co_start_turn :: "turn_start_request \<Rightarrow> ('z, turn) crt" where
  "co_start_turn rq =
     bindR (get_thread (st_thread_id rq)) (\<lambda>found.
     bindR (ok_or thread_not_found found) (\<lambda>th. start_turn th rq))"

definition approval_not_found :: runtime_error where
  "approval_not_found = not_found ''approval_not_found'' ''approval does not exist''"

fun decided_status :: "approval_decision \<Rightarrow> approval_status" where
  "decided_status Deny = approval_status.Denied"
| "decided_status ApproveOnce = Approved"
| "decided_status ApproveAndPersist = Approved"

definition respond_approval :: "approval_respond_request \<Rightarrow> ('z, approval_request) crt" where
  "respond_approval rq =
     bindR (asks (\<lambda>s. map_of (approvals s) (rr_approval_id rq))) (\<lambda>found.
     bindR (ok_or approval_not_found found) (\<lambda>a0.
     let a = a0\<lparr>ap_status := decided_status (rr_decision rq)\<rparr>
     in bindR (modify (\<lambda>s. s\<lparr>approvals := AList.update (rr_approval_id rq) a (approvals s)\<rparr>)) (\<lambda>_.
        ret a)))"

definition create_checkpoint ::
  "thread_id \<Rightarrow> turn_id \<Rightarrow> checkpoint_scope \<Rightarrow> string \<Rightarrow> ('z, checkpoint) crt" where
  "create_checkpoint k i scope reason =
     bindR (draw next_checkpoint_id) (\<lambda>c.
     bindR (draw now_timestamp) (\<lambda>now.
     let cp = \<lparr>cp_id = c, cp_thread_id = k, cp_turn_id = i, cp_scope = scope, cp_reason = reason,
               cp_created_at = now\<rparr>
     in bindR (put_checkpoint cp) (\<lambda>_.
        bindR (get_thread k) (\<lambda>found.
        bindR (ok_or thread_not_found found) (\<lambda>th.
        bindR (put_thread (th\<lparr>th_latest_checkpoint_id := Some c, th_updated_at := now\<rparr>)) (\<lambda>_.
        ret cp))))))"

definition sandbox_context_text :: "sandbox_context_record \<Rightarrow> string" where
  "sandbox_context_text sx =
     ''node=local mode='' @ sandbox_mode_as_str (sx_filesystem_mode sx) @ '' writable_roots=''
       @ join '','' (sx_writable_roots sx) @ '' network='' @ network_access_as_str (sx_network_access sx)"

definition require_approval_for_turn ::
  "thread_id \<Rightarrow> turn_id \<Rightarrow> policy_decision \<Rightarrow> ('z, checkpoint option \<times> approval_request) crt" where
  "require_approval_for_turn k i pd =
     bindR (if pd_requires_checkpoint pd
            then bindR (create_checkpoint k i ConversationOnly (''Before risky turn: '' @ pd_reason pd))
                   (\<lambda>cp. ret (Some cp))
            else ret None) (\<lambda>cp.
     bindR (draw next_approval_id) (\<lambda>a.
     let ap = \<lparr>ap_id = a, ap_thread_id = k, ap_turn_id = i, ap_action_type = ''turn/start'',
               ap_risk_level = pd_risk_level pd, ap_reason = pd_reason pd,
               ap_sandbox_context = Some (sandbox_context_text (pd_sandbox_context pd)),
               ap_node_id = Some ''local'', ap_workspace_mount_id = None,
               ap_status = approval_status.Pending\<rparr>
     in bindR (mark_waiting_approval k i (pd_reason pd)) (\<lambda>_.
        bindR (modify (\<lambda>s. s\<lparr>approvals := AList.update a ap (approvals s)\<rparr>)) (\<lambda>_.
        ret (cp, ap)))))"

definition resume_approved_turn :: "thread_id \<Rightarrow> turn_id \<Rightarrow> ('z, turn) crt" where
  "resume_approved_turn k i = mark_running k i"

section \<open>Tool records\<close>

definition artifact_locator :: "string \<Rightarrow> artifact_id \<Rightarrow> string" where
  "artifact_locator root i =
     map (\<lambda>c. if c = CHR 0x5C then CHR ''/'' else c) (root @ ''/artifacts/'' @ i @ ''.json'')"

definition next_tool_sequence :: "thread_id \<Rightarrow> ('z, 64 word) crt" where
  "next_tool_sequence k = bindR (read_turn_log k) (\<lambda>es. ret (of_nat (length es) + 1))"

definition store_tool_artifact ::
  "thread_id \<Rightarrow> turn_id \<Rightarrow> node_id option \<Rightarrow> workspace_mount_id option \<Rightarrow> timestamp \<Rightarrow>
   artifact_kind \<times> string \<times> string \<Rightarrow> ('z, artifact_ref) crt" where
  "store_tool_artifact k i node mount now spec =
     (case spec of (kind, summary, body) \<Rightarrow>
      bindR (draw next_artifact_id) (\<lambda>a.
      bindR (asks (\<lambda>s. artifact_locator (root_dir s) a)) (\<lambda>locator.
      let r = \<lparr>ar_id = a, ar_thread_id = k, ar_turn_id = i, ar_kind = kind, ar_node_id = node,
               ar_workspace_mount_id = mount, ar_summary = summary, ar_locator = locator,
               ar_created_at = now\<rparr>
      in bindR (put_artifact \<lparr>sa_reference = r, sa_body = body\<rparr>) (\<lambda>_. ret r))))"

definition record_tool_execution ::
  "thread_id \<Rightarrow> turn_id option \<Rightarrow> node_id option \<Rightarrow> workspace_mount_id option \<Rightarrow> string \<Rightarrow> string \<Rightarrow>
   (artifact_kind \<times> string \<times> string) list \<Rightarrow> ('z, turn_id \<times> artifact_ref list) crt" where
  "record_tool_execution k turn node mount tool summary specs =
     bindR (case turn of Some i \<Rightarrow> ret i | None \<Rightarrow> draw next_turn_id) (\<lambda>i.
     bindR (draw now_timestamp) (\<lambda>now.
     bindR (collectR (store_tool_artifact k i node mount now) specs) (\<lambda>refs.
     bindR (next_tool_sequence k) (\<lambda>n.
     bindR (append_turn_log \<lparr>le_thread_id = k, le_sequence = n, le_turn_id = Some i,
         le_recorded_at = now, le_event = ''tool_completed'', le_summary = tool @ '': '' @ summary,
         le_artifact_ids = map ar_id refs\<rparr>) (\<lambda>_.
     ret (i, refs))))))"

definition assemble_context_for_interaction ::
  "thread_id \<Rightarrow> string \<Rightarrow> participant_ref option \<Rightarrow> interaction_context option \<Rightarrow>
   ('z, assembled_context) crt" where
  "assemble_context_for_interaction k input participant context =
     bindR (get_thread k) (\<lambda>found.
     bindR (ok_or thread_not_found found) (\<lambda>th.
     bindR read_global_memory (\<lambda>snap.
     bindR (read_turn_log k) (\<lambda>es.
     ret (assemble snap th es input participant context)))))"

section \<open>Reachable states\<close>

text \<open>One operation, with whatever outcome; queries that change no state but count as I/O are the
  last rule.\<close>

inductive co_step :: "coordinator \<Rightarrow> coordinator \<Rightarrow> bool" where
  "co_step s (snd (co_start_thread rq s))"
| "co_step s (snd (co_resume_thread k s))"
| "co_step s (snd (co_fork_thread frq s))"
| "co_step s (snd (co_start_turn trq s))"
| "co_step s (snd (cancel_turn crq s))"
| "co_step s (snd (complete_turn k i msg s))"
| "co_step s (snd (fail_turn k i msg s))"
| "co_step s (snd (require_approval_for_turn k i pd s))"
| "co_step s (snd (respond_approval arq s))"
| "co_step s (snd (resume_approved_turn k i s))"
| "co_step s (snd (record_tool_execution k turn node mount tool summary specs s))"
| "co_step s (snd (co_update_node_policy n p s))"
| "co_step s (snd (heartbeat_node n st s))"
| "co_step s (snd (co_attach_workspace_mount wrq s))"
| "co_step s (snd (co_detach_workspace_mount w s))"
| "co_step s (snd (compile_thread k s))"
| "co_step s (snd (compile_thread_from_llm_output parse k raw s))"
| "co_step s (snd (update_about_you_surface ay s))"
| "co_step s (snd (correct_knowledge_surface f v s))"
| "co_step s (snd (upsert_people_surface pb s))"
| "co_step s (snd (delete_people_surface person s))"
| "co_step s (snd (upsert_provider_auth_profile pf s))"
| "co_step s (snd (delete_provider_auth_profile pid s))"
| "co_step s (restart h clk s)"
| "same_files s t \<Longrightarrow> co_step s t"

inductive_cases co_stepE: "co_step s t"

inductive reachable :: "coordinator \<Rightarrow> bool" where
  start: "reachable (new_coordinator h root clk files)"
| step: "reachable s \<Longrightarrow> co_step s t \<Longrightarrow> reachable t"

section \<open>Frames\<close>

text \<open>
  An operation of the storage layer leaves the fields above it alone, and so does one of the turn
  manager; each fact is carried through sequencing as a relation between the state before and
  after.
\<close>

definition same_more :: "'z runtime_env_scheme \<Rightarrow> 'z runtime_env_scheme \<Rightarrow> bool" where
  "same_more s t \<longleftrightarrow> runtime_env.more t = runtime_env.more s"

interpretation storage_frame: progress_order same_more
  by unfold_locales (auto simp: same_more_def)

definition same_turn_more :: "'z turn_env_scheme \<Rightarrow> 'z turn_env_scheme \<Rightarrow> bool" where
  "same_turn_more s t \<longleftrightarrow> turn_env.more t = turn_env.more s"

interpretation turn_frame: progress_order same_turn_more
  by unfold_locales (auto simp: same_turn_more_def)

lemma same_more_io:
  "advances same_more (io_read f)" "advances same_more (io_write h)" "advances same_more (draw d)"
  by (auto simp: advances_def same_more_def io_read_def io_write_def run_simps tick_def split: option.splits)

lemma same_more_of_result: "advances same_more (of_result r)"
  by (cases r) (auto simp: of_result_def intro: storage_frame.advances_intros)

lemmas same_more_intros = same_more_io same_more_of_result storage_frame.advances_intros

lemma same_more_ops:
  "advances same_more (start_thread rq)" "advances same_more (resume_thread k)"
  "advances same_more (fork_thread frq)" "advances same_more (update_thread_after_turn x)"
  "advances same_more (compile_thread k)"
  "advances same_more (compile_thread_from_llm_output parse k raw)"
  "advances same_more (update_about_you_surface ay)"
  "advances same_more (correct_knowledge_surface f v)"
  "advances same_more (upsert_people_surface pb)" "advances same_more (delete_people_surface i)"
  "advances same_more (upsert_provider_auth_profile pf)"
  "advances same_more (delete_provider_auth_profile i)"
  "advances same_more (get_thread k)" "advances same_more (put_thread x)"
  "advances same_more (put_checkpoint c)" "advances same_more (put_artifact a)"
  "advances same_more (append_turn_log e)" "advances same_more (read_turn_log k)"
  "advances same_more (write_node_registry r)" "advances same_more read_node_registry"
  "advances same_more (draw d)"
  unfolding start_thread_def resume_thread_def fork_thread_def store_and_activate_def
    sync_active_thread_ids_def update_thread_after_turn_def compile_thread_def
    compile_thread_from_llm_output_def build_compilation_input_def apply_compilation_delta_def
    update_about_you_surface_def build_about_you_surface_def correct_knowledge_surface_def
    upsert_people_surface_def validate_person_boundary_def delete_people_surface_def
    upsert_provider_auth_profile_def validate_provider_auth_profile_def
    delete_provider_auth_profile_def io_op_defs Let_def
  by (intro same_more_intros)+

lemma same_turn_more_of_same_more: "advances same_more m \<Longrightarrow> advances same_turn_more m"
  unfolding advances_def same_more_def same_turn_more_def using turn_env_more by blast

lemma same_table_of_same_more: "advances same_more m \<Longrightarrow> advances same_table m"
  unfolding advances_def same_more_def same_table_def using turn_env_more by blast

lemma same_turn_more_modify:
  "advances same_turn_more (modify (\<lambda>s. s\<lparr>active_turns := f s\<rparr>))"
  "advances same_turn_more (modify (\<lambda>s. s\<lparr>next_sequence := g s\<rparr>))"
  by (auto simp: advances_def same_turn_more_def run_simps)

lemma same_turn_more_ops:
  "advances same_turn_more (start_turn th rq)" "advances same_turn_more (cancel_turn crq)"
  "advances same_turn_more (complete_turn k i msg)" "advances same_turn_more (fail_turn k i msg)"
  "advances same_turn_more (mark_waiting_approval k i msg)" "advances same_turn_more (mark_running k i)"
  unfolding turn_op_defs Let_def turn_table_defs log_event_def next_sequence_for_def
    recover_sequence_def find_turn_def require_thread_def
  by (intro turn_frame.advances_intros same_turn_more_modify
      same_more_ops [THEN same_turn_more_of_same_more])+

text \<open>The coordinator's own fields are the part above the turn manager.\<close>

lemma coordinator_more:
  "turn_env.more t = turn_env.more s \<Longrightarrow>
   approvals t = approvals s \<and> nodes t = nodes s \<and> root_dir t = root_dir s"
  by (cases s; cases t; simp)

lemma same_more_fields:
  assumes "advances same_more m"
  shows "active_turns (snd (m s)) = active_turns s" "next_sequence (snd (m s)) = next_sequence s"
    "approvals (snd (m s)) = approvals s" "nodes (snd (m s)) = nodes s"
    "root_dir (snd (m s)) = root_dir s"
  using assms turn_env_more coordinator_more unfolding advances_def same_more_def by blast+

lemma same_turn_more_fields:
  assumes "advances same_turn_more m"
  shows "approvals (snd (m s)) = approvals s" "nodes (snd (m s)) = nodes s"
    "root_dir (snd (m s)) = root_dir s"
  using assms coordinator_more unfolding advances_def same_turn_more_def by blast+

section \<open>The invariant of the reachable states\<close>

definition approvals_ok :: "(approval_id, approval_request) dict \<Rightarrow> bool" where
  "approvals_ok d \<longleftrightarrow> wf_dict d \<and> (\<forall>i a. map_of d i = Some a \<longrightarrow> ap_id a = i)"

definition coordinator_ok :: "'z coordinator_scheme \<Rightarrow> bool" where
  "coordinator_ok s \<longleftrightarrow> table_ok (active_turns s) \<and> registry_ok (nodes s) \<and> approvals_ok (approvals s)"

lemma keeps_storage_ops: "advances same_more m \<Longrightarrow> keeps coordinator_ok m"
  by (simp add: keeps_def coordinator_ok_def same_more_fields)

lemma keeps_turn_ops:
  "advances same_turn_more m \<Longrightarrow> advances table_advances m \<Longrightarrow> keeps coordinator_ok m"
  unfolding keeps_def coordinator_ok_def
  by (auto simp: same_turn_more_fields advances_def intro: table_advances_ok)

lemma keeps_on_registry: "keeps registry_ok m \<Longrightarrow> keeps coordinator_ok (on_registry m)"
  by (auto simp: keeps_def coordinator_ok_def on_registry_def split_beta Let_def)

lemma keeps_registry_reads: "keeps registry_ok (read_node i)" "keeps registry_ok (read_workspace_mount w)"
  unfolding read_node_def read_workspace_mount_def by (intro keeps_rules)+

lemma keeps_persist: "keeps coordinator_ok persist_node_registry"
  unfolding persist_node_registry_def by (intro keeps_rules keeps_storage_ops same_more_ops)

lemma keeps_persisted: "keeps registry_ok m \<Longrightarrow> keeps coordinator_ok (persisted m)"
  unfolding persisted_def by (intro keeps_rules keeps_on_registry keeps_persist)

lemma keeps_add_approval:
  "ap_id ap = a \<Longrightarrow> keeps coordinator_ok (modify (\<lambda>s. s\<lparr>approvals := AList.update a ap (approvals s)\<rparr>))"
  by (intro keeps_modify) (auto simp: coordinator_ok_def approvals_ok_def)

lemma keeps_case_prod [keeps_rules]:
  "(\<And>a b. keeps I (f a b)) \<Longrightarrow> keeps I (case p of (a, b) \<Rightarrow> f a b)"
  by (cases p) simp

lemma keeps_lifecycle:
  "keeps coordinator_ok (start_turn th rq)" "keeps coordinator_ok (cancel_turn crq)"
  "keeps coordinator_ok (complete_turn k i msg)" "keeps coordinator_ok (fail_turn k i msg)"
  "keeps coordinator_ok (mark_waiting_approval k i msg)" "keeps coordinator_ok (mark_running k i)"
  by (intro keeps_turn_ops same_turn_more_ops table_advances_turn_manager)+

lemma keeps_coordinator_ok:
  "keeps coordinator_ok (co_start_thread trq)" "keeps coordinator_ok (co_resume_thread k)"
  "keeps coordinator_ok (co_fork_thread frq)" "keeps coordinator_ok (co_start_turn rq)"
  "keeps coordinator_ok (create_checkpoint k i scope reason)"
  "keeps coordinator_ok (require_approval_for_turn k i pd)"
  "keeps coordinator_ok (resume_approved_turn k i)"
  "keeps coordinator_ok (record_tool_execution k turn node mount tool summary specs)"
  "keeps coordinator_ok (co_update_node_policy n p)" "keeps coordinator_ok (heartbeat_node n st)"
  "keeps coordinator_ok (co_attach_workspace_mount wrq)"
  "keeps coordinator_ok (co_detach_workspace_mount w)"
proof -
  show cp: "keeps coordinator_ok (create_checkpoint k i scope reason)" for k i scope reason
    unfolding create_checkpoint_def Let_def by (intro keeps_rules keeps_storage_ops same_more_ops)
  show "keeps coordinator_ok (require_approval_for_turn k i pd)"
    unfolding require_approval_for_turn_def Let_def
    by (intro keeps_rules cp keeps_lifecycle keeps_storage_ops same_more_ops keeps_add_approval) simp
  show "keeps coordinator_ok (co_start_thread trq)"
    unfolding co_start_thread_def resolve_thread_workspace_mount_def
    by (intro keeps_rules keeps_on_registry keeps_registry_reads keeps_persist
        keeps_storage_ops same_more_ops)
  show "keeps coordinator_ok (co_resume_thread k)" "keeps coordinator_ok (co_fork_thread frq)"
    "keeps coordinator_ok (co_start_turn rq)" "keeps coordinator_ok (resume_approved_turn k i)"
    unfolding co_resume_thread_def co_fork_thread_def co_start_turn_def resume_approved_turn_def
    by (intro keeps_rules keeps_lifecycle keeps_storage_ops same_more_ops)+
  show "keeps coordinator_ok (record_tool_execution k turn node mount tool summary specs)"
    unfolding record_tool_execution_def store_tool_artifact_def next_tool_sequence_def Let_def
    by (intro keeps_rules keeps_storage_ops same_more_ops)
  show "keeps coordinator_ok (co_update_node_policy n p)"
    "keeps coordinator_ok (co_attach_workspace_mount wrq)" "keeps coordinator_ok (co_detach_workspace_mount w)"
    unfolding co_update_node_policy_def co_attach_workspace_mount_def co_detach_workspace_mount_def
    by (intro keeps_persisted keeps_registry_ok)+
  show "keeps coordinator_ok (heartbeat_node n st)"
    unfolding heartbeat_node_def Let_def
    by (intro keeps_rules keeps_on_registry keeps_registry_reads keeps_registry_ok keeps_persist)
qed

lemma keeps_respond_approval: "keeps coordinator_ok (respond_approval rq)"
  by (auto simp: keeps_def respond_approval_def run_simps ok_or_def Let_def coordinator_ok_def
      approvals_ok_def split: option.splits)

lemma coordinator_ok_new: "coordinator_ok (new_coordinator h root clk files)"
  by (auto simp: new_coordinator_def coordinator_ok_def table_ok_Nil approvals_ok_def
      registry_ok_default registry_ok_from_snapshot read_node_registry_def io_read_def tick_def Let_def
      split: option.splits)

lemma same_files_fields:
  "same_files s t \<Longrightarrow> coordinator_ok t = coordinator_ok s"
  by (auto simp: same_files_def coordinator_ok_def)

lemma co_step_ok:
  assumes "co_step s t" and "coordinator_ok s"
  shows "coordinator_ok t"
  using assms(1)
proof (cases rule: co_step.cases)
  case (25)
  then show ?thesis using assms(2) same_files_fields by blast
qed (use assms(2) in \<open>simp_all add: restart_def coordinator_ok_new
      keepsD keeps_lifecycle keeps_coordinator_ok keeps_respond_approval
      keeps_storage_ops same_more_ops\<close>)

section \<open>Logs across steps\<close>

lemma logs_advance_modify_approvals: "advances logs_extend (modify (\<lambda>s. s\<lparr>approvals := f s\<rparr>))"
  by (intro log_order.advances_modify logs_extend_frame) simp

lemma logs_advance_on_registry: "advances logs_extend (on_registry m)"
  by (auto simp: advances_def on_registry_def split_beta Let_def intro!: logs_extend_frame)

lemma logs_advance_of_result: "advances logs_extend (of_result r)"
  by (cases r) (auto simp: of_result_def intro: log_order.advances_intros)

lemmas logs_intros = log_order.advances_intros logs_advance_ops logs_advance_thread_manager
  logs_advance_turn_manager logs_advance_modify_approvals logs_advance_on_registry
  logs_advance_of_result advances_case_prod

lemma logs_advance_coordinator:
  "advances logs_extend (co_start_thread trq)" "advances logs_extend (co_resume_thread k)"
  "advances logs_extend (co_fork_thread frq)" "advances logs_extend (co_start_turn rq)"
  "advances logs_extend (require_approval_for_turn k i pd)"
  "advances logs_extend (resume_approved_turn k i)" "advances logs_extend (respond_approval arq)"
  "advances logs_extend (record_tool_execution k turn node mount tool summary specs)"
  "advances logs_extend (co_update_node_policy n p)" "advances logs_extend (heartbeat_node n st)"
  "advances logs_extend (co_attach_workspace_mount wrq)"
  "advances logs_extend (co_detach_workspace_mount w)"
  unfolding co_start_thread_def resolve_thread_workspace_mount_def co_resume_thread_def
    co_fork_thread_def co_start_turn_def require_approval_for_turn_def create_checkpoint_def
    resume_approved_turn_def respond_approval_def record_tool_execution_def
    store_tool_artifact_def next_tool_sequence_def co_update_node_policy_def heartbeat_node_def
    co_attach_workspace_mount_def co_detach_workspace_mount_def persisted_def
    persist_node_registry_def Let_def
  by (intro logs_intros)+

lemma logs_advance_memory:
  "advances logs_extend (compile_thread k)"
  "advances logs_extend (compile_thread_from_llm_output parse k raw)"
  "advances logs_extend (update_about_you_surface ay)"
  "advances logs_extend (correct_knowledge_surface f v)"
  "advances logs_extend (upsert_people_surface pb)"
  "advances logs_extend (delete_people_surface i)"
  "advances logs_extend (upsert_provider_auth_profile pf)"
  "advances logs_extend (delete_provider_auth_profile i)"
  unfolding compile_thread_def compile_thread_from_llm_output_def build_compilation_input_def
    apply_compilation_delta_def update_about_you_surface_def build_about_you_surface_def
    correct_knowledge_surface_def upsert_people_surface_def validate_person_boundary_def
    delete_people_surface_def upsert_provider_auth_profile_def
    validate_provider_auth_profile_def delete_provider_auth_profile_def Let_def
  by (intro logs_intros)+

lemma log_of_new: "log_of (stores (new_coordinator h root clk files)) = log_of files"
  by (auto simp: new_coordinator_def read_node_registry_def io_read_def tick_def Let_def
      split: option.splits)

lemma logs_extend_restart: "logs_extend s (restart h clk s)"
  by (rule logs_extend_frame) (simp add: restart_def log_of_new)

lemma advancesD: "advances R m \<Longrightarrow> R s (snd (m s))"
  by (simp add: advances_def)

lemma co_step_logs: "co_step s t \<Longrightarrow> logs_extend s t"
proof (erule co_step.cases, goal_cases)
  case (25 a b)
  then show ?case by (auto simp: same_files_def intro!: logs_extend_frame)
qed (simp_all add: logs_extend_restart advancesD logs_advance_coordinator logs_advance_memory
      logs_advance_turn_manager)

text \<open>C1: In every state the runtime can reach, through any sequence of operations with any outcome,
  I/O failures and restarts included: no thread has two open turns, every active turn is stored
  under its own identifier and is running or waiting for approval, every approval and every mount
  is stored under its own identifier, and the local node is registered.\<close>

theorem reachable_states_consistent:
  assumes "reachable s"
  shows "table_ok (active_turns s) \<and> approvals_ok (approvals s) \<and> registry_ok (nodes s)"
proof -
  have "coordinator_ok s"
    using assms by (induction rule: reachable.induct) (auto intro: coordinator_ok_new co_step_ok)
  then show ?thesis by (simp add: coordinator_ok_def)
qed

text \<open>C2: Turn logs are append-only across everything the runtime does: whatever sequence of
  operations leads from one state to another, each thread's log in the first is a prefix of its
  log in the second.\<close>

theorem turn_logs_append_only:
  assumes "co_step\<^sup>*\<^sup>* s t"
  shows "\<exists>new. log_of (stores t) k = log_of (stores s) k @ new"
proof -
  have "logs_extend s t"
    using assms by (induction rule: rtranclp_induct) (auto intro: co_step_logs log_order.R_trans log_order.R_refl)
  then show ?thesis by (auto simp: logs_extend_def turn_log.extends_def)
qed

section \<open>A concrete coordinator\<close>

definition demo_host :: host_info where
  "demo_host = \<lparr>hi_app_version = ''0.1'', hi_os = ''linux'', hi_hostname = None\<rparr>"

definition demo_co :: coordinator where
  "demo_co = new_coordinator demo_host ''.liz'' (\<lambda>n. n) demo_files"

definition demo_turn_request :: turn_start_request where
  "demo_turn_request = \<lparr>st_thread_id = ''t1'', st_input = ''write the notes'', st_input_kind = UserMessage,
     st_channel = None, st_participant = None, st_interaction_context = None\<rparr>"

lemma demo_co_eq:
  "demo_co = \<lparr>stores = demo_files\<lparr>io_count := 1\<rparr>, id_gen = demo_ids, active_turns = [],
     next_sequence = [], approvals = [],
     nodes = from_snapshot demo_host \<lparr>rg_nodes = [], rg_workspace_mounts = []\<rparr>, root_dir = ''.liz''\<rparr>"
  by (simp add: demo_co_def new_coordinator_def read_node_registry_def io_read_def io_result_def
      tick_def registry_of_def Let_def demo_files_def demo_ids_def)

lemma demo_co_views [simp]:
  "thread_of (stores demo_co) = [''t1'' \<mapsto> demo_thread]" "log_of (stores demo_co) = (\<lambda>_. [])"
  "active_turns demo_co = []" "approvals demo_co = []" "reliable demo_co" "next_sequence demo_co = []"
  by (auto simp: demo_co_eq thread_of_def log_of_def demo_files_def reliable_def fun_eq_iff)

lemma demo_reachable: "reachable demo_co"
  unfolding demo_co_def by (rule reachable.start)

theorem reachable_states_consistent_witness:
  "table_ok (active_turns (snd (co_start_turn demo_turn_request demo_co)))"
  using reachable_states_consistent [OF reachable.step [OF demo_reachable co_step.intros(4)], of demo_turn_request]
  by blast

theorem turn_logs_append_only_witness:
  "\<exists>new. log_of (stores (snd (co_start_turn demo_turn_request demo_co))) ''t1'' = log_of (stores demo_co) ''t1'' @ new"
  by (rule turn_logs_append_only, rule r_into_rtranclp, rule co_step.intros(4))

end
