(* ===== verification/Lifecycle.thy ===== *)
theory Lifecycle
  imports Coordinator
begin

text \<open>
  The properties of the turn lifecycle as the coordinator runs it: when a turn starts and what it
  leaves behind, what cancelling, completing and failing do to the table, the thread and its log,
  the approval round trip, tool records, forks and workspace threads. The first section gives a
  small calculus for the other half of correctness: computations that cannot fail where storage
  does not.
\<close>

section \<open>Computations that do not fail\<close>

definition succeeds :: "('s \<Rightarrow> bool) \<Rightarrow> ('e, 's, 'a) run \<Rightarrow> bool" where
  "succeeds I m \<longleftrightarrow> (\<forall>s. I s \<longrightarrow> (\<exists>a s'. m s = (Inr a, s') \<and> I s'))"

lemma succeedsD: "succeeds I m \<Longrightarrow> I s \<Longrightarrow> \<exists>a s'. m s = (Inr a, s') \<and> I s'"
  by (simp add: succeeds_def)

lemma succeeds_ret: "succeeds I (ret a)"
  by (simp add: succeeds_def run_simps)

lemma succeeds_asks: "succeeds I (asks f)"
  by (simp add: succeeds_def run_simps)

lemma succeeds_modify: "(\<And>s. I s \<Longrightarrow> I (f s)) \<Longrightarrow> succeeds I (modify f)"
  by (simp add: succeeds_def run_simps)

lemma succeeds_bindR: "succeeds I m \<Longrightarrow> (\<And>a. succeeds I (f a)) \<Longrightarrow> succeeds I (bindR m f)"
  unfolding succeeds_def by (fastforce simp: bindR_run)

lemma succeeds_io: "succeeds reliable (io_read f)" "succeeds reliable (draw d)"
  "(\<And>g. io_fault (h g) = io_fault g) \<Longrightarrow> succeeds reliable (io_write h)"
  by (auto simp: succeeds_def run_simps)

lemma succeeds_ops:
  "succeeds reliable (get_thread k)" "succeeds reliable (put_thread x)"
  "succeeds reliable (read_turn_log k)" "succeeds reliable (append_turn_log e)"
  "succeeds reliable read_global_memory" "succeeds reliable (write_global_memory m)"
  "succeeds reliable (put_checkpoint c)" "succeeds reliable (put_artifact a)"
  "succeeds reliable (write_node_registry r)" "succeeds reliable (draw d)"
  unfolding io_op_defs by (intro succeeds_io; simp)+

lemma succeeds_table:
  "succeeds reliable (modify (\<lambda>s. s\<lparr>active_turns := f s\<rparr>))"
  "succeeds reliable (modify (\<lambda>s. s\<lparr>next_sequence := g s\<rparr>))"
  by (intro succeeds_modify; simp add: reliable_def)+

lemmas succeeds_intros = succeeds_ret succeeds_asks succeeds_bindR succeeds_ops succeeds_table

lemma succeeds_events:
  "succeeds reliable (log_event k i at event summary)"
  "succeeds reliable (update_thread_after_turn x)"
  "succeeds reliable (sync_active_thread_ids k p)"
  "succeeds reliable (insert_turn t)" "succeeds reliable (remove_turn i)" "succeeds reliable (set_turn i t)"
  unfolding log_event_def next_sequence_for_def recover_sequence_def update_thread_after_turn_def
    sync_active_thread_ids_def turn_table_defs
  by (intro succeeds_intros)+

section \<open>Starting\<close>

lemma start_turn_idle:
  assumes "reliable s" and "\<not> thread_has_running_turn (active_turns s) (th_id th)"
  shows "\<exists>t s'. start_turn th rq s = (Inr t, s') \<and> reliable s'"
  unfolding start_turn_def Let_def
  apply (subst bindR_step [OF asks_run], subst bindR_step)
   apply (simp add: assms(2) guard_run)
  apply (rule succeedsD [where I = reliable, OF _ assms(1)])
  apply (intro succeeds_intros succeeds_events)
  done

lemma start_turn_busy:
  assumes "thread_has_running_turn (active_turns s) (th_id th)"
  shows "start_turn th rq s =
    (Inl (invalid_state ''turn_already_running'' ''thread already has a running turn''), s)"
  using assms by (simp add: start_turn_def run_simps guard_def)

text \<open>C3: On storage that works, a turn starts on an existing thread exactly when no active turn of the
  thread is running or waiting for approval; otherwise the request is refused with
  \<open>turn_already_running\<close> and changes neither a file nor a field of the runtime.\<close>

theorem turn_starts_iff_idle:
  assumes "reliable s" and "thread_of (stores s) (st_thread_id rq) = Some th" and "table_ok (active_turns s)"
  shows "if \<exists>i t. map_of (active_turns s) i = Some t \<and> tn_thread_id t = th_id th
      then fst (co_start_turn rq s)
          = Inl (invalid_state ''turn_already_running'' ''thread already has a running turn'')
        \<and> same_files s (snd (co_start_turn rq s))
      else \<exists>t s'. co_start_turn rq s = (Inr t, s') \<and> map_of (active_turns s') (tn_id t) = Some t"
proof -
  have busy: "thread_has_running_turn (active_turns s) (th_id th) \<longleftrightarrow>
      (\<exists>i t. map_of (active_turns s) i = Some t \<and> tn_thread_id t = th_id th)"
    using assms(3) by (auto simp: table_ok_def has_running_iff)
  have co: "co_start_turn rq s = start_turn th rq (tick s)"
    using assms(1,2) by (simp add: co_start_turn_def get_thread_def run_simps)
  show ?thesis
  proof (cases "thread_has_running_turn (active_turns s) (th_id th)")
    case True
    then show ?thesis using busy by (simp add: co start_turn_busy same_files_tick)
  next
    case False
    then obtain t s' where "start_turn th rq (tick s) = (Inr t, s')"
      using start_turn_idle [of "tick s" th rq] assms(1) by auto
    with False busy show ?thesis by (auto simp: co dest: start_turn_Inr)
  qed
qed

theorem turn_starts_iff_idle_witness:
  "\<exists>t s'. co_start_turn demo_turn_request demo_co = (Inr t, s')
     \<and> fst (co_start_turn demo_turn_request s')
        = Inl (invalid_state ''turn_already_running'' ''thread already has a running turn'')"
proof -
  have th: "thread_of (stores demo_co) (st_thread_id demo_turn_request) = Some demo_thread"
    by (simp add: demo_turn_request_def)
  obtain t s' where run: "co_start_turn demo_turn_request demo_co = (Inr t, s')"
    and at: "map_of (active_turns s') (tn_id t) = Some t"
    using turn_starts_iff_idle [OF _ th] by (auto simp: table_ok_Nil)
  have ok: "table_ok (active_turns s')"
    using keepsD [OF keeps_coordinator_ok(4), of demo_co demo_turn_request] run coordinator_ok_new
    by (simp add: demo_co_def coordinator_ok_def)
  have start: "start_turn demo_thread demo_turn_request (tick demo_co) = (Inr t, s')"
    using run by (simp add: co_start_turn_def get_thread_def run_simps demo_turn_request_def)
  have rel: "reliable s'"
    using start_turn_idle [of "tick demo_co" demo_thread demo_turn_request] start
    by (simp add: thread_has_running_turn_def dict_values_def)
  obtain th where at': "thread_of (stores s') (st_thread_id demo_turn_request) = Some th"
    and owner: "th_id th = tn_thread_id t"
    using start_turn_Inr [OF start] by (auto simp: demo_turn_request_def demo_thread_def)
  have "\<exists>i t. map_of (active_turns s') i = Some t \<and> tn_thread_id t = th_id th"
    using at owner by auto
  then have "fst (co_start_turn demo_turn_request s')
      = Inl (invalid_state ''turn_already_running'' ''thread already has a running turn'')"
    using turn_starts_iff_idle [OF rel at' ok] by simp
  with run show ?thesis by blast
qed


lemma co_start_turn_Inr:
  assumes "co_start_turn rq s = (Inr t, s')"
  shows "\<exists>th. thread_of (stores s) (st_thread_id rq) = Some th \<and> start_turn th rq (tick s) = (Inr t, s')"
  using assms by (auto simp: co_start_turn_def get_thread_def success_iffs store_iffs)

lemma started_turn_steps:
  assumes "co_start_turn rq s = (Inr t, s')"
  shows "\<exists>th th' e. thread_of (stores s) (st_thread_id rq) = Some th
    \<and> map_of (active_turns s') = (map_of (active_turns s))(tn_id t \<mapsto> t)
    \<and> tn_status t = turn_status.Running \<and> tn_goal t = Some (trim (st_input rq))
    \<and> thread_of (stores s') = (thread_of (stores s))(th_id th \<mapsto> th')
    \<and> th_status th' = thread_status.Active \<and> th_active_goal th' = tn_goal t
    \<and> th_latest_turn_id th' = Some (tn_id t)
    \<and> th_pending_commitments th'
        = filter (\<lambda>c. \<not> contains c (trim (st_input rq))) (th_pending_commitments th)
    \<and> log_of (stores s') (th_id th) = log_of (stores s) (th_id th) @ [e]
    \<and> le_event e = ''turn_started'' \<and> le_turn_id e = Some (tn_id t)
    \<and> le_sequence e = next_number s (th_id th)
    \<and> next_sequence s' = AList.update (th_id th) (next_number s (th_id th)) (next_sequence s)"
proof -
  obtain th where th: "thread_of (stores s) (st_thread_id rq) = Some th"
    and run: "start_turn th rq (tick s) = (Inr t, s')"
    using co_start_turn_Inr [OF assms] by blast
  note eff = start_turn_Inr [OF run]
  show ?thesis
    by (rule exI [of _ th], intro exI conjI) (use th eff in \<open>auto simp: logged_def entry_for_def\<close>)
qed

text \<open>A turn that starts leaves its mark in all three places: it is in the table as running, the
  thread is active with the trimmed input as its goal and the turn as its latest, every pending
  commitment whose text contains that goal is dropped and no other, and exactly one event is
  appended to the thread's log, with the thread's next sequence number.\<close>

theorem started_turn_projected:
  assumes "co_start_turn rq s = (Inr t, s')"
  shows "\<exists>th th' e. thread_of (stores s) (st_thread_id rq) = Some th
    \<and> map_of (active_turns s') = (map_of (active_turns s))(tn_id t \<mapsto> t)
    \<and> tn_status t = turn_status.Running \<and> tn_goal t = Some (trim (st_input rq))
    \<and> thread_of (stores s') = (thread_of (stores s))(th_id th \<mapsto> th')
    \<and> th_status th' = thread_status.Active \<and> th_active_goal th' = tn_goal t
    \<and> th_latest_turn_id th' = Some (tn_id t)
    \<and> th_pending_commitments th'
        = filter (\<lambda>c. \<not> contains c (trim (st_input rq))) (th_pending_commitments th)
    \<and> log_of (stores s') (th_id th) = log_of (stores s) (th_id th) @ [e]
    \<and> le_event e = ''turn_started'' \<and> le_turn_id e = Some (tn_id t)
    \<and> le_sequence e = next_number s (th_id th)"
  using started_turn_steps [OF assms] by blast

lemma demo_started:
  "\<exists>t s'. co_start_turn demo_turn_request demo_co = (Inr t, s') \<and> reliable s'
    \<and> map_of (active_turns s') = [tn_id t \<mapsto> t] \<and> tn_thread_id t = ''t1''"
proof -
  have co: "co_start_turn demo_turn_request demo_co = start_turn demo_thread demo_turn_request (tick demo_co)"
    by (simp add: co_start_turn_def get_thread_def run_simps demo_turn_request_def)
  obtain t s' where run: "start_turn demo_thread demo_turn_request (tick demo_co) = (Inr t, s')"
    and rel: "reliable s'"
    using start_turn_idle [of "tick demo_co" demo_thread demo_turn_request]
    by (auto simp: thread_has_running_turn_def dict_values_def)
  show ?thesis
    using start_turn_Inr [OF run] run rel co by (auto simp: demo_thread_def)
qed

theorem started_turn_projected_witness:
  "\<exists>t s' e. co_start_turn demo_turn_request demo_co = (Inr t, s')
    \<and> log_of (stores s') ''t1'' = [e] \<and> le_event e = ''turn_started''"
proof -
  obtain t s' where run: "co_start_turn demo_turn_request demo_co = (Inr t, s')"
    using demo_started by blast
  show ?thesis
    using started_turn_projected [OF run] run by (auto simp: demo_turn_request_def demo_thread_def)
qed

section \<open>Ending\<close>

text \<open>C19: Cancelling a turn carries its work over: the turn leaves the table and no other does, the
  thread is interrupted and says what it was interrupted in, and the commitment to resume it is
  among the pending ones, after those that were there and never twice; and on storage that works
  a second cancellation of the same turn is refused, so it is logged once.\<close>

theorem cancelled_turn_carried_over:
  assumes "cancel_turn rq s = (Inr t, s')" and "reliable s'"
  shows "\<exists>th th' e. thread_of (stores s) (tc_thread_id rq) = Some th
    \<and> map_of (active_turns s') = (map_of (active_turns s))(tc_turn_id rq := None)
    \<and> thread_of (stores s') = (thread_of (stores s))(th_id th \<mapsto> th')
    \<and> th_status th' = thread_status.Interrupted
    \<and> th_last_interruption th' = Some (''Interrupted while working on: '' @ turn_goal_text t)
    \<and> (let c = ''Resume interrupted work: '' @ turn_goal_text t; old = th_pending_commitments th
        in th_pending_commitments th' = (if c \<in> set old then old else old @ [c]))
    \<and> log_of (stores s') (th_id th) = log_of (stores s) (th_id th) @ [e]
    \<and> le_event e = ''turn_cancelled''
    \<and> (th_id th = tc_thread_id rq \<longrightarrow> fst (cancel_turn rq s') = Inl turn_not_found)"
proof -
  obtain th t0 ended where th: "thread_of (stores s) (tc_thread_id rq) = Some th"
    and t: "t = t0\<lparr>tn_status := turn_status.Cancelled, tn_ended_at := Some ended,
          tn_summary := Some (''Interrupted before finishing: '' @ turn_goal_text t0)\<rparr>"
    and eff: "active_turns s' = AList.delete (tc_turn_id rq) (active_turns s)"
      "logged s s' (th_id th) (entry_for s (th_id th) (tn_id t0) ended ''turn_cancelled''
          (''Interrupted before finishing: '' @ turn_goal_text t0))"
      "thread_of (stores s') = (thread_of (stores s))(th_id th \<mapsto> th\<lparr>
          th_status := thread_status.Interrupted, th_updated_at := ended,
          th_active_summary := Some (''Interrupted while working on: '' @ turn_goal_text t0),
          th_last_interruption := Some (''Interrupted while working on: '' @ turn_goal_text t0),
          th_pending_commitments :=
            push_unless_present (''Resume interrupted work: '' @ turn_goal_text t0)
              (th_pending_commitments th),
          th_latest_turn_id := Some (tn_id t0)\<rparr>)"
    using cancel_turn_Inr [OF assms(1)] by blast
  have goal: "turn_goal_text t = turn_goal_text t0" by (simp add: t turn_goal_text_def)
  have again: "th_id th = tc_thread_id rq \<longrightarrow> fst (cancel_turn rq s') = Inl turn_not_found"
    using assms(2) eff(1,3)
    by (simp add: cancel_turn_def require_thread_def find_turn_def get_thread_def run_simps)
  show ?thesis
    by (rule exI [of _ th], intro exI conjI)
      (use th eff again in \<open>auto simp: goal logged_def entry_for_def push_unless_present_def Let_def\<close>)
qed


text \<open>On storage that works, the transitions of an open turn succeed.\<close>

lemma require_thread_found:
  "reliable s \<Longrightarrow> thread_of (stores s) k = Some th \<Longrightarrow> require_thread k s = (Inr th, tick s)"
  by (simp add: require_thread_Inr)

lemma find_turn_found: "map_of (active_turns s) i = Some t \<Longrightarrow> find_turn i s = (Inr t, s)"
  by (simp add: find_turn_Inr)

lemma transitions_succeed:
  assumes rel: "reliable s" and th: "thread_of (stores s) k = Some th"
    and t: "map_of (active_turns s) i = Some t0"
  shows "\<exists>t s'. complete_turn k i msg s = (Inr t, s') \<and> reliable s'"
    and "\<exists>t s'. fail_turn k i msg s = (Inr t, s') \<and> reliable s'"
    and "tn_thread_id t0 = k \<Longrightarrow>
      \<exists>t s'. cancel_turn \<lparr>tc_thread_id = k, tc_turn_id = i\<rparr> s = (Inr t, s') \<and> reliable s'"
    and "\<exists>t s'. mark_waiting_approval k i msg s = (Inr t, s') \<and> reliable s'"
    and "\<exists>t s'. mark_running k i s = (Inr t, s') \<and> reliable s'"
proof -
  note start = require_thread_found [OF rel th]
  have found: "find_turn i (tick s) = (Inr t0, tick s)" by (rule find_turn_found) (simp add: t)
  note begin_step = bindR_step [where m = "require_thread k" and s = s, OF start]
    and found_step = bindR_step [where m = "find_turn i" and s = "tick s", OF found]
  have r: "reliable (tick s)" using rel by simp
  note goal_tac = succeedsD [where I = reliable and s = "tick s", OF _ r]
  show "\<exists>t s'. complete_turn k i msg s = (Inr t, s') \<and> reliable s'"
    "\<exists>t s'. fail_turn k i msg s = (Inr t, s') \<and> reliable s'"
    unfolding complete_turn_def fail_turn_def Let_def begin_step
      found_step
    by (rule goal_tac, intro succeeds_intros succeeds_events)+
  show "\<exists>t s'. cancel_turn \<lparr>tc_thread_id = k, tc_turn_id = i\<rparr> s = (Inr t, s') \<and> reliable s'"
    if "tn_thread_id t0 = k"
    unfolding cancel_turn_def Let_def turn_cancel_request.simps begin_step
      found_step guard_def eqTrueI [OF that] if_True
    by (rule goal_tac, intro succeeds_intros succeeds_events)
  let ?s = "snd (draw now_timestamp (tick s))"
  have clock: "draw now_timestamp (tick s) = (Inr (fst (now_timestamp (id_gen s))), ?s)"
    by (simp add: draw_def split_beta Let_def tick_def)
  have r': "reliable ?s" using r by (simp add: draw_def split_beta Let_def)
  have found': "find_turn i ?s = (Inr t0, ?s)"
    by (rule find_turn_found) (simp add: t draw_def split_beta Let_def)
  note clock_step = bindR_step [where m = "draw now_timestamp" and s = "tick s", OF clock]
    and found_step' = bindR_step [where m = "find_turn i" and s = ?s, OF found']
  show "\<exists>t s'. mark_waiting_approval k i msg s = (Inr t, s') \<and> reliable s'"
    "\<exists>t s'. mark_running k i s = (Inr t, s') \<and> reliable s'"
    unfolding mark_waiting_approval_def mark_running_def Let_def
      begin_step clock_step
      found_step'
    by (rule succeedsD [where I = reliable, OF _ r'], intro succeeds_intros succeeds_events)+
qed


text \<open>The concrete coordinator with one turn running.\<close>

lemma demo_running:
  "\<exists>t s. co_start_turn demo_turn_request demo_co = (Inr t, s) \<and> reliable s \<and> tn_thread_id t = ''t1''
    \<and> map_of (active_turns s) = [tn_id t \<mapsto> t] \<and> tn_goal t = Some ''write the notes''
    \<and> tn_status t = turn_status.Running
    \<and> (\<exists>th. thread_of (stores s) = [''t1'' \<mapsto> th] \<and> th_id th = ''t1'')"
proof -
  obtain t s where run: "co_start_turn demo_turn_request demo_co = (Inr t, s)" and rel: "reliable s"
    and at: "map_of (active_turns s) = [tn_id t \<mapsto> t]" "tn_thread_id t = ''t1''"
    using demo_started by blast
  have goal: "trim ''write the notes'' = ''write the notes''" by (simp add: trim_def is_ws_def)
  obtain th where "thread_of (stores demo_co) (st_thread_id demo_turn_request) = Some th"
    and "start_turn th demo_turn_request (tick demo_co) = (Inr t, s)"
    using co_start_turn_Inr [OF run] by blast
  then show ?thesis
    using run rel at start_turn_Inr [of th demo_turn_request "tick demo_co" t s] goal
    by (auto simp: demo_turn_request_def demo_thread_def)
qed

theorem cancelled_turn_carried_over_witness:
  "\<exists>t s t' s' th. co_start_turn demo_turn_request demo_co = (Inr t, s)
    \<and> cancel_turn \<lparr>tc_thread_id = ''t1'', tc_turn_id = tn_id t\<rparr> s = (Inr t', s')
    \<and> thread_of (stores s') ''t1'' = Some th \<and> th_status th = thread_status.Interrupted
    \<and> fst (cancel_turn \<lparr>tc_thread_id = ''t1'', tc_turn_id = tn_id t\<rparr> s') = Inl turn_not_found"
proof -
  obtain t s th where run: "co_start_turn demo_turn_request demo_co = (Inr t, s)" and rel: "reliable s"
    and t: "map_of (active_turns s) (tn_id t) = Some t" "tn_thread_id t = ''t1''"
    and th: "thread_of (stores s) = [''t1'' \<mapsto> th]" "th_id th = ''t1''"
    using demo_running by auto
  obtain t' s' where can: "cancel_turn \<lparr>tc_thread_id = ''t1'', tc_turn_id = tn_id t\<rparr> s = (Inr t', s')"
    and rel': "reliable s'"
    using transitions_succeed(3) [OF rel _ t(1), of "''t1''"] th t by auto
  show ?thesis
    using cancelled_turn_carried_over [OF can rel'] run can th by auto
qed

text \<open>What the end of a turn leaves behind, for the two ways it can end.\<close>

definition turn_ended ::
  "turn_status \<Rightarrow> thread_status \<Rightarrow> string \<Rightarrow> string \<Rightarrow> thread_id \<Rightarrow> turn_id \<Rightarrow> string \<Rightarrow>
   'z turn_env_scheme \<Rightarrow> turn \<Rightarrow> 'z turn_env_scheme \<Rightarrow> bool" where
  "turn_ended fin st event shown k i msg s t s' \<longleftrightarrow>
     (\<exists>th th' e. thread_of (stores s) k = Some th
       \<and> tn_status t = fin \<and> tn_summary t = Some msg \<and> tn_ended_at t = Some (le_recorded_at e)
       \<and> map_of (active_turns s') = (map_of (active_turns s))(i := None)
       \<and> thread_of (stores s') = (thread_of (stores s))(th_id th \<mapsto> th')
       \<and> th_status th' = st \<and> th_active_summary th' = Some shown
       \<and> th_pending_commitments th' = th_pending_commitments th
       \<and> log_of (stores s') = (log_of (stores s))(th_id th := log_of (stores s) (th_id th) @ [e])
       \<and> le_event e = event \<and> le_turn_id e = Some (tn_id t) \<and> le_summary e = msg)"

lemma complete_turn_ended:
  assumes "complete_turn k i msg s = (Inr t, s')"
  shows "turn_ended turn_status.Completed thread_status.Active ''turn_completed'' msg k i msg s t s'"
proof -
  obtain th t0 ended where "thread_of (stores s) k = Some th"
    and "t = t0\<lparr>tn_status := turn_status.Completed, tn_ended_at := Some ended, tn_summary := Some msg\<rparr>"
    and "active_turns s' = AList.delete i (active_turns s)"
    and "logged s s' (th_id th) (entry_for s (th_id th) (tn_id t0) ended ''turn_completed'' msg)"
    and "thread_of (stores s') = (thread_of (stores s))(th_id th \<mapsto> th\<lparr>
        th_status := thread_status.Active, th_updated_at := ended,
        th_active_summary := Some msg, th_last_interruption := None,
        th_latest_turn_id := Some (tn_id t0)\<rparr>)"
    using complete_turn_Inr [OF assms] by blast
  then show ?thesis
    unfolding turn_ended_def
    by (intro exI [of _ th] exI [of _ "entry_for s (th_id th) (tn_id t0) ended ''turn_completed'' msg"] exI)
      (auto simp: logged_def entry_for_def)
qed

lemma fail_turn_ended:
  assumes "fail_turn k i msg s = (Inr t, s')"
  shows "turn_ended turn_status.Failed thread_status.Failed ''turn_failed'' (''Turn failed: '' @ msg)
    k i msg s t s'"
proof -
  obtain th t0 ended where "thread_of (stores s) k = Some th"
    and "t = t0\<lparr>tn_status := turn_status.Failed, tn_ended_at := Some ended, tn_summary := Some msg\<rparr>"
    and "active_turns s' = AList.delete i (active_turns s)"
    and "logged s s' (th_id th) (entry_for s (th_id th) (tn_id t0) ended ''turn_failed'' msg)"
    and "thread_of (stores s') = (thread_of (stores s))(th_id th \<mapsto> th\<lparr>
        th_status := thread_status.Failed, th_updated_at := ended,
        th_active_summary := Some (''Turn failed: '' @ msg),
        th_latest_turn_id := Some (tn_id t0)\<rparr>)"
    using fail_turn_Inr [OF assms] by blast
  then show ?thesis
    unfolding turn_ended_def
    by (intro exI [of _ th] exI [of _ "entry_for s (th_id th) (tn_id t0) ended ''turn_failed'' msg"] exI)
      (auto simp: logged_def entry_for_def)
qed

text \<open>C20: A turn that ends, completed or failed, leaves the table and no other does; the thread is
  active again after a completion and failed after a failure, its summary holds the message, its
  commitments are untouched, and exactly one event is appended, to its own log only. On storage
  that works, an open turn of an existing thread can always be ended, either way.\<close>

theorem ended_turn_projected:
  assumes "reliable s" and "thread_of (stores s) k = Some th" and "map_of (active_turns s) i = Some t0"
  shows "(\<exists>t s'. complete_turn k i msg s = (Inr t, s') \<and>
      turn_ended turn_status.Completed thread_status.Active ''turn_completed'' msg k i msg s t s')
    \<and> (\<exists>t s'. fail_turn k i msg s = (Inr t, s') \<and>
      turn_ended turn_status.Failed thread_status.Failed ''turn_failed'' (''Turn failed: '' @ msg)
        k i msg s t s')"
  using transitions_succeed(1,2) [OF assms] complete_turn_ended fail_turn_ended by metis

theorem ended_turn_projected_witness:
  "\<exists>t s t' s'. co_start_turn demo_turn_request demo_co = (Inr t, s)
    \<and> complete_turn ''t1'' (tn_id t) ''done'' s = (Inr t', s')
    \<and> turn_ended turn_status.Completed thread_status.Active ''turn_completed'' ''done'' ''t1'' (tn_id t)
        ''done'' s t' s'"
proof -
  obtain t s th where "co_start_turn demo_turn_request demo_co = (Inr t, s)" and "reliable s"
    and "map_of (active_turns s) (tn_id t) = Some t" and "thread_of (stores s) ''t1'' = Some th"
    using demo_running by auto
  then show ?thesis using ended_turn_projected [of s "''t1''" th "tn_id t" t] by blast
qed

text \<open>Ending a turn is not atomic: when the storage fails at the first access after the turn was
  taken out of the table, completing it reports the storage error, and the turn is gone from the
  table while the stored thread, its log and the memory are as before; no later call can end the
  turn, on storage that works again or not.\<close>

theorem fault_loses_the_turn:
  assumes "io_result s = None" and "io_fault (stores s) (Suc (io_count (stores s))) = Some err"
    and "thread_of (stores s) k = Some th" and "map_of (active_turns s) i = Some t0"
  shows "\<exists>s'. complete_turn k i msg s = (Inl (Storage err), s')
    \<and> map_of (active_turns s') = (map_of (active_turns s))(i := None)
    \<and> thread_of (stores s') = thread_of (stores s) \<and> log_of (stores s') = log_of (stores s)
    \<and> memory_of (stores s') = memory_of (stores s)
    \<and> (io_result s' = None \<longrightarrow> fst (complete_turn k i msg s') = Inl turn_not_found
        \<and> fst (fail_turn k i msg s') = Inl turn_not_found
        \<and> fst (cancel_turn \<lparr>tc_thread_id = k, tc_turn_id = i\<rparr> s') = Inl turn_not_found)"
proof -
  define s1 where "s1 = snd (draw now_timestamp (snd (remove_turn i (tick s))))"
  have step: "bindR (remove_turn i) (\<lambda>_. bindR (draw now_timestamp) f) (tick s)
        = f (fst (now_timestamp (id_gen s))) s1" for f :: "timestamp \<Rightarrow> ('a, turn) trt"
    by (simp add: s1_def remove_turn_def modify_def draw_def bindR_def split_beta Let_def tick_def)
  have frame: "map_of (active_turns s1) = (map_of (active_turns s))(i := None)"
      "stores s1 = stores (tick s)"
    by (auto simp: s1_def remove_turn_def modify_def draw_def split_beta Let_def)
  have found: "require_thread k s = (Inr th, tick s)" "find_turn i (tick s) = (Inr t0, tick s)"
    using assms(1,3,4) by (simp_all add: require_thread_Inr find_turn_Inr)
  have fault: "io_result s1 = Some err"
    using assms(2) frame(2) by (simp add: io_result_def tick_def)
  have log: "bindR (log_event j l at ev sm) f s1 = (Inl (Storage err), tick s1)"
    for j l at ev sm and f :: "unit \<Rightarrow> ('a, turn) trt"
    using fault by (simp add: log_event_def next_sequence_for_def recover_sequence_def
        read_turn_log_def bindR_assoc bindR_def [of "io_read g" for g] io_read_def)
  have run: "complete_turn k i msg s = (Inl (Storage err), tick s1)"
    unfolding complete_turn_def Let_def
    by (simp only: bindR_step [where m = "require_thread k" and s = s, OF found(1)]
        bindR_step [where m = "find_turn i" and s = "tick s", OF found(2)] step log)
  let ?s = "tick s1"
  have gone: "fst (complete_turn k i msg ?s) = Inl turn_not_found"
    "fst (fail_turn k i msg ?s) = Inl turn_not_found"
    "fst (cancel_turn \<lparr>tc_thread_id = k, tc_turn_id = i\<rparr> ?s) = Inl turn_not_found"
    if "io_result ?s = None"
  proof -
    have found': "require_thread k ?s = (Inr th, tick ?s)"
      using that assms(3) frame(2) by (simp add: require_thread_Inr)
    have missing: "find_turn i (tick ?s) = (Inl turn_not_found, tick ?s)"
      by (simp add: find_turn_def run_simps frame(1))
    show "fst (complete_turn k i msg ?s) = Inl turn_not_found"
      "fst (fail_turn k i msg ?s) = Inl turn_not_found"
      "fst (cancel_turn \<lparr>tc_thread_id = k, tc_turn_id = i\<rparr> ?s) = Inl turn_not_found"
      by (simp_all add: complete_turn_def fail_turn_def cancel_turn_def
          bindR_step [where m = "require_thread k" and s = ?s, OF found'] bindR_def [where m = "find_turn i"] missing)
  qed
  show ?thesis
    by (intro exI [of _ ?s] conjI impI) (simp_all add: run gone frame)
qed

theorem fault_loses_the_turn_witness:
  "\<exists>t s s'. co_start_turn demo_turn_request demo_co = (Inr t, s)
    \<and> complete_turn ''t1'' (tn_id t) ''done''
        (s\<lparr>stores := (stores s)\<lparr>io_fault := (\<lambda>n. if n = Suc (io_count (stores s)) then Some Io else None)\<rparr>\<rparr>)
      = (Inl (Storage Io), s')
    \<and> active_turns s' = []"
proof -
  obtain t s th where run: "co_start_turn demo_turn_request demo_co = (Inr t, s)"
    and t: "map_of (active_turns s) = [tn_id t \<mapsto> t]" and th: "thread_of (stores s) ''t1'' = Some th"
    using demo_running by auto
  let ?f = "\<lambda>n. if n = Suc (io_count (stores s)) then Some Io else None"
  let ?s = "s\<lparr>stores := (stores s)\<lparr>io_fault := ?f\<rparr>\<rparr>"
  have "\<exists>s'. complete_turn ''t1'' (tn_id t) ''done'' ?s = (Inl (Storage Io), s')
      \<and> map_of (active_turns s') = (map_of (active_turns ?s))(tn_id t := None)"
    using fault_loses_the_turn [of ?s Io "''t1''" th "tn_id t" t "''done''"] th t
    by (auto simp: io_result_def thread_of_def)
  with run t show ?thesis by fastforce
qed


section \<open>Approval\<close>

text \<open>The states in which an open turn can move, and the steps that cannot fail in them.\<close>

definition can_move :: "thread_id \<Rightarrow> turn_id \<Rightarrow> 'z coordinator_scheme \<Rightarrow> bool" where
  "can_move k i s \<longleftrightarrow> reliable s \<and> thread_of (stores s) k \<noteq> None \<and> map_of (active_turns s) i \<noteq> None"

lemma succeeds_if: "succeeds I m \<Longrightarrow> succeeds I n \<Longrightarrow> succeeds I (if b then m else n)"
  by simp

lemma succeeds_first:
  assumes "\<And>s. I s \<Longrightarrow> \<exists>a s'. m s = (Inr a, s') \<and> I s'" and "\<And>a. succeeds I (f a)"
  shows "succeeds I (bindR m f)"
  using assms by (intro succeeds_bindR) (auto simp: succeeds_def)

lemma can_move_tick [simp]: "can_move k i (tick s) = can_move k i s"
  by (simp add: can_move_def)

lemma succeeds_found:
  "(\<And>th. succeeds (can_move k i) (f th)) \<Longrightarrow> succeeds (can_move k i) (bindR (require_thread k) f)"
  "(\<And>th. succeeds (can_move k i) (f th)) \<Longrightarrow>
    succeeds (can_move k i) (bindR (get_thread k) (\<lambda>found. bindR (ok_or e found) f))"
  "(\<And>t. succeeds (can_move k i) (h t)) \<Longrightarrow> succeeds (can_move k i) (bindR (find_turn i) h)"
proof -
  show "succeeds (can_move k i) (bindR (require_thread k) f)" if "\<And>th. succeeds (can_move k i) (f th)"
    by (rule succeeds_first [OF _ that]) (auto simp: can_move_def require_thread_Inr)
  show "succeeds (can_move k i) (bindR (find_turn i) h)" if "\<And>t. succeeds (can_move k i) (h t)"
    by (rule succeeds_first [OF _ that]) (auto simp: can_move_def find_turn_Inr)
  show "succeeds (can_move k i) (bindR (get_thread k) (\<lambda>found. bindR (ok_or e found) f))"
    if "\<And>th. succeeds (can_move k i) (f th)"
    unfolding bindR_assoc [symmetric]
    by (rule succeeds_first [OF _ that]) (auto simp: can_move_def get_thread_def run_simps)
qed

lemma succeeds_move:
  "succeeds (can_move k i) (draw d)" "succeeds (can_move k i) (put_thread th)"
  "succeeds (can_move k i) (put_checkpoint c)" "succeeds (can_move k i) (append_turn_log e)"
  "succeeds (can_move k i) (read_turn_log l)" "succeeds (can_move k i) (set_turn j t)"
  "succeeds (can_move k i) (modify (\<lambda>s. s\<lparr>next_sequence := f s\<rparr>))"
  "succeeds (can_move k i) (modify (\<lambda>s. s\<lparr>approvals := g s\<rparr>))"
  by (auto simp: succeeds_def can_move_def io_op_defs set_turn_def run_simps draw_def split_beta
      Let_def reliable_def)

lemmas move_intros = succeeds_ret succeeds_asks succeeds_if succeeds_found succeeds_bindR succeeds_move

lemma succeeds_log_move: "succeeds (can_move k i) (log_event l j at event summary)"
  unfolding log_event_def next_sequence_for_def recover_sequence_def by (intro move_intros)

lemma succeeds_require_approval: "succeeds (can_move k i) (require_approval_for_turn k i pd)"
  unfolding require_approval_for_turn_def create_checkpoint_def mark_waiting_approval_def Let_def
  by (intro succeeds_log_move move_intros)


text \<open>What the two halves of asking for approval do.\<close>

lemma checkpoint_frames [simp]:
  "checkpoint_of (set_thread th f) = checkpoint_of f"
  "checkpoint_of (add_log_entry e f) = checkpoint_of f"
  by (simp_all add: file_defs)

lemma coordinator_tick [simp]:
  "approvals (tick s) = approvals s" "nodes (tick s) = nodes s" "root_dir (tick s) = root_dir s"
  by (simp_all add: tick_def)

definition same_checkpoints :: "'z runtime_env_scheme \<Rightarrow> 'z runtime_env_scheme \<Rightarrow> bool" where
  "same_checkpoints s t \<longleftrightarrow> checkpoint_of (stores t) = checkpoint_of (stores s)"

interpretation checkpoint_frame: progress_order same_checkpoints
  by unfold_locales (auto simp: same_checkpoints_def)

lemma same_checkpoints_ops:
  "advances same_checkpoints (get_thread k)" "advances same_checkpoints (put_thread th)"
  "advances same_checkpoints (read_turn_log k)" "advances same_checkpoints (append_turn_log e)"
  "advances same_checkpoints (draw d)"
  "advances same_checkpoints (modify (\<lambda>s. s\<lparr>active_turns := f s\<rparr>))"
  "advances same_checkpoints (modify (\<lambda>s. s\<lparr>next_sequence := g s\<rparr>))"
  by (auto simp: advances_def same_checkpoints_def io_op_defs io_read_def io_write_def draw_def
      modify_def split_beta Let_def split: option.splits)

lemma mark_waiting_checkpoints: "advances same_checkpoints (mark_waiting_approval k i reason)"
  unfolding mark_waiting_approval_def log_event_def next_sequence_for_def recover_sequence_def
    find_turn_def require_thread_def set_turn_def Let_def
  by (intro checkpoint_frame.advances_intros same_checkpoints_ops)

lemma create_checkpoint_Inr:
  assumes "create_checkpoint k i scope reason s = (Inr cp, s')"
  shows "\<exists>th. thread_of (stores s) k = Some th
    \<and> cp_thread_id cp = k \<and> cp_turn_id cp = i \<and> cp_scope cp = scope \<and> cp_reason cp = reason
    \<and> thread_of (stores s') = (thread_of (stores s))(th_id th \<mapsto>
        th\<lparr>th_latest_checkpoint_id := Some (cp_id cp), th_updated_at := cp_created_at cp\<rparr>)
    \<and> checkpoint_of (stores s') = (checkpoint_of (stores s))(cp_id cp \<mapsto> cp)
    \<and> active_turns s' = active_turns s \<and> log_of (stores s') = log_of (stores s)
    \<and> approvals s' = approvals s"
  using assms unfolding create_checkpoint_def Let_def success_iffs
  by (auto simp: io_op_defs store_iffs fun_eq_iff success_iffs)

lemma require_approval_Inr:
  assumes "require_approval_for_turn k i pd s = (Inr (cp, ap), s')"
  shows "\<exists>s1. (if pd_requires_checkpoint pd
      then \<exists>c. create_checkpoint k i ConversationOnly (''Before risky turn: '' @ pd_reason pd) s = (Inr c, s1)
        \<and> cp = Some c
      else cp = None \<and> s1 = s)
    \<and> (\<exists>t s2. mark_waiting_approval k i (pd_reason pd) (s1\<lparr>id_gen := snd (next_approval_id (id_gen s1))\<rparr>)
        = (Inr t, s2)
      \<and> s' = s2\<lparr>approvals := AList.update (ap_id ap) ap (approvals s2)\<rparr>)
    \<and> ap_status ap = approval_status.Pending \<and> ap_thread_id ap = k \<and> ap_turn_id ap = i
    \<and> ap_risk_level ap = pd_risk_level pd \<and> ap_reason ap = pd_reason pd"
proof -
  obtain s1 where "if pd_requires_checkpoint pd
      then \<exists>c. create_checkpoint k i ConversationOnly (''Before risky turn: '' @ pd_reason pd) s = (Inr c, s1)
        \<and> cp = Some c
      else cp = None \<and> s1 = s"
    and "\<exists>a g t s2. mark_waiting_approval k i (pd_reason pd) (s1\<lparr>id_gen := snd (next_approval_id (id_gen s1))\<rparr>)
        = (Inr t, s2)
      \<and> ap = \<lparr>ap_id = a, ap_thread_id = k, ap_turn_id = i, ap_action_type = ''turn/start'',
               ap_risk_level = pd_risk_level pd, ap_reason = pd_reason pd,
               ap_sandbox_context = Some (sandbox_context_text (pd_sandbox_context pd)),
               ap_node_id = Some ''local'', ap_workspace_mount_id = None,
               ap_status = approval_status.Pending\<rparr>
      \<and> s' = s2\<lparr>approvals := AList.update a ap (approvals s2)\<rparr>"
    using assms unfolding require_approval_for_turn_def Let_def
    by (cases "pd_requires_checkpoint pd") (clarsimp simp: success_iffs store_iffs; blast)+
  then show ?thesis by (intro exI [of _ s1]) auto
qed

lemma approval_steps:
  assumes "reliable s" and "thread_of (stores s) k = Some th" and "th_id th = k"
    and "map_of (active_turns s) i = Some t0"
  shows "\<exists>cp ap s' th'. require_approval_for_turn k i pd s = (Inr (cp, ap), s')
    \<and> map_of (active_turns s') = (map_of (active_turns s))(i \<mapsto>
        t0\<lparr>tn_status := turn_status.WaitingApproval, tn_summary := Some (pd_reason pd)\<rparr>)
    \<and> map_of (approvals s') = (map_of (approvals s))(ap_id ap \<mapsto> ap)
    \<and> ap_status ap = approval_status.Pending \<and> ap_thread_id ap = k \<and> ap_turn_id ap = i
    \<and> ap_risk_level ap = pd_risk_level pd \<and> ap_reason ap = pd_reason pd
    \<and> thread_of (stores s') k = Some th' \<and> th_status th' = thread_status.WaitingApproval
    \<and> (if pd_requires_checkpoint pd
       then \<exists>c. cp = Some c \<and> cp_turn_id c = i \<and> checkpoint_of (stores s') (cp_id c) = Some c
         \<and> th_latest_checkpoint_id th' = Some (cp_id c)
       else cp = None \<and> checkpoint_of (stores s') = checkpoint_of (stores s)
         \<and> th_latest_checkpoint_id th' = th_latest_checkpoint_id th)"
proof -
  have "can_move k i s" using assms by (simp add: can_move_def)
  then obtain cp ap s' where run: "require_approval_for_turn k i pd s = (Inr (cp, ap), s')"
    using succeedsD [OF succeeds_require_approval] by fastforce
  then obtain s1 t s2 where
    first: "if pd_requires_checkpoint pd
      then \<exists>c. create_checkpoint k i ConversationOnly (''Before risky turn: '' @ pd_reason pd) s = (Inr c, s1)
        \<and> cp = Some c
      else cp = None \<and> s1 = s"
    and mark: "mark_waiting_approval k i (pd_reason pd)
        (s1\<lparr>id_gen := snd (next_approval_id (id_gen s1))\<rparr>) = (Inr t, s2)"
    and s': "s' = s2\<lparr>approvals := AList.update (ap_id ap) ap (approvals s2)\<rparr>"
    and ap: "ap_status ap = approval_status.Pending" "ap_thread_id ap = k" "ap_turn_id ap = i"
      "ap_risk_level ap = pd_risk_level pd" "ap_reason ap = pd_reason pd"
    using require_approval_Inr by blast
  let ?g = "snd (next_approval_id (id_gen s1))"
  have s1: "active_turns s1 = active_turns s \<and> approvals s1 = approvals s
    \<and> (\<exists>th1. thread_of (stores s1) k = Some th1 \<and> th_id th1 = k
      \<and> th_latest_checkpoint_id th1 = (case cp of None \<Rightarrow> th_latest_checkpoint_id th | Some c \<Rightarrow> Some (cp_id c)))
    \<and> (if pd_requires_checkpoint pd
       then \<exists>c. cp = Some c \<and> cp_turn_id c = i \<and> checkpoint_of (stores s1) (cp_id c) = Some c
       else cp = None \<and> checkpoint_of (stores s1) = checkpoint_of (stores s))"
    using first assms(2,3) by (auto split: if_splits dest!: create_checkpoint_Inr)
  have cps: "checkpoint_of (stores s2) = checkpoint_of (stores s1)"
    using advancesD [OF mark_waiting_checkpoints [of k i "pd_reason pd"], of "s1\<lparr>id_gen := ?g\<rparr>"] mark
    by (simp add: same_checkpoints_def)
  have aps: "approvals s2 = approvals s1"
    using same_turn_more_fields(1) [OF same_turn_more_ops(5), of k i "pd_reason pd" "s1\<lparr>id_gen := ?g\<rparr>"] mark
    by simp
  obtain th' where "thread_of (stores s2) k = Some th'" "th_status th' = thread_status.WaitingApproval"
    "th_latest_checkpoint_id th' = (case cp of None \<Rightarrow> th_latest_checkpoint_id th | Some c \<Rightarrow> Some (cp_id c))"
    "map_of (active_turns s2) = (map_of (active_turns s1))(i \<mapsto>
        t0\<lparr>tn_status := turn_status.WaitingApproval, tn_summary := Some (pd_reason pd)\<rparr>)"
    using mark_waiting_approval_Inr [OF mark] s1 assms(4) by fastforce
  then show ?thesis
    using s1 cps aps ap run
    by (intro exI [of _ cp] exI [of _ ap] exI [of _ s'] exI [of _ th'])
      (auto simp: s' split: if_splits)
qed

text \<open>C4: A risky turn waits: on storage that works, asking for approval of an open turn always
  succeeds; afterwards the turn is waiting and no other turn changed, the thread says so, the
  approval is filed under its own identifier as pending with the risk and the reason of the policy
  decision, and a checkpoint of the turn is stored, and is the thread's latest, exactly when the
  decision asked for one.\<close>

theorem risky_turn_waits:
  assumes "reliable s" and "thread_of (stores s) k = Some th" and "th_id th = k"
    and "map_of (active_turns s) i = Some t0"
  shows "\<exists>cp ap s' th'. require_approval_for_turn k i pd s = (Inr (cp, ap), s')
    \<and> map_of (active_turns s') = (map_of (active_turns s))(i \<mapsto>
        t0\<lparr>tn_status := turn_status.WaitingApproval, tn_summary := Some (pd_reason pd)\<rparr>)
    \<and> map_of (approvals s') = (map_of (approvals s))(ap_id ap \<mapsto> ap)
    \<and> ap_status ap = approval_status.Pending \<and> ap_thread_id ap = k \<and> ap_turn_id ap = i
    \<and> ap_risk_level ap = pd_risk_level pd \<and> ap_reason ap = pd_reason pd
    \<and> thread_of (stores s') k = Some th' \<and> th_status th' = thread_status.WaitingApproval
    \<and> (if pd_requires_checkpoint pd
       then \<exists>c. cp = Some c \<and> cp_turn_id c = i \<and> checkpoint_of (stores s') (cp_id c) = Some c
         \<and> th_latest_checkpoint_id th' = Some (cp_id c)
       else cp = None \<and> checkpoint_of (stores s') = checkpoint_of (stores s)
         \<and> th_latest_checkpoint_id th' = th_latest_checkpoint_id th)"
  using approval_steps [OF assms] .

definition demo_decision :: policy_decision where
  "demo_decision = \<lparr>pd_scope = Focused, pd_risk_level = High, pd_protected_targets = [],
     pd_requires_checkpoint = True, pd_requires_approval = True, pd_reason = ''deletes files'',
     pd_sandbox_context = \<lparr>sx_filesystem_mode = WorkspaceWrite, sx_writable_roots = [''workspace''],
       sx_network_access = Restricted\<rparr>\<rparr>"

theorem risky_turn_waits_witness:
  "\<exists>t s c ap s'. co_start_turn demo_turn_request demo_co = (Inr t, s)
    \<and> require_approval_for_turn ''t1'' (tn_id t) demo_decision s = (Inr (Some c, ap), s')
    \<and> map_of (approvals s') (ap_id ap) = Some ap \<and> ap_status ap = approval_status.Pending"
proof -
  obtain t s th where run: "co_start_turn demo_turn_request demo_co = (Inr t, s)" and "reliable s"
    and "map_of (active_turns s) (tn_id t) = Some t" and "thread_of (stores s) ''t1'' = Some th"
    and "th_id th = ''t1''"
    using demo_running by auto
  then show ?thesis
    using risky_turn_waits [of s "''t1''" th "tn_id t" t demo_decision]
    by (auto simp: demo_decision_def)
qed

lemma respond_approval_run:
  "respond_approval rq s = (case map_of (approvals s) (rr_approval_id rq) of
      None \<Rightarrow> (Inl approval_not_found, s)
    | Some a0 \<Rightarrow> let a = a0\<lparr>ap_status := decided_status (rr_decision rq)\<rparr>
        in (Inr a, s\<lparr>approvals := AList.update (rr_approval_id rq) a (approvals s)\<rparr>))"
  by (simp add: respond_approval_def run_simps ok_or_def Let_def split: option.splits)

text \<open>An approval is decided by its last response: answering touches nothing but the approval
  answered, fails only for an identifier that was never issued, and the state it is in does not
  matter, so a later response replaces an earlier one; and the turn it was asked for runs again
  by \<open>resume_approved_turn\<close> whatever the approval says, its summary and its goal kept.\<close>

theorem last_response_decides:
  assumes "map_of (approvals s) a = Some ap" and "reliable s"
    and "thread_of (stores s) (ap_thread_id ap) = Some th"
    and "map_of (active_turns s) (ap_turn_id ap) = Some t0"
  shows "\<exists>s1 s2 t s3.
    respond_approval \<lparr>rr_approval_id = a, rr_decision = d1\<rparr> s
      = (Inr (ap\<lparr>ap_status := decided_status d1\<rparr>), s1)
    \<and> respond_approval \<lparr>rr_approval_id = a, rr_decision = d2\<rparr> s1
      = (Inr (ap\<lparr>ap_status := decided_status d2\<rparr>), s2)
    \<and> map_of (approvals s2) = (map_of (approvals s))(a \<mapsto> ap\<lparr>ap_status := decided_status d2\<rparr>)
    \<and> turn_env.truncate s2 = turn_env.truncate s \<and> nodes s2 = nodes s
    \<and> resume_approved_turn (ap_thread_id ap) (ap_turn_id ap) s2 = (Inr t, s3)
    \<and> t = t0\<lparr>tn_status := turn_status.Running\<rparr>"
proof -
  let ?u = "\<lambda>d s. s\<lparr>approvals := AList.update a (ap\<lparr>ap_status := decided_status d\<rparr>) (approvals s)\<rparr>"
  let ?s2 = "?u d2 (?u d1 s)"
  have rel: "reliable ?s2" using assms(2) by (simp add: reliable_def)
  obtain t s3 where run: "resume_approved_turn (ap_thread_id ap) (ap_turn_id ap) ?s2 = (Inr t, s3)"
    using transitions_succeed(5) [OF rel, of "ap_thread_id ap" th "ap_turn_id ap" t0] assms(3,4)
    by (auto simp: resume_approved_turn_def)
  then have "t = t0\<lparr>tn_status := turn_status.Running\<rparr>"
    using mark_running_Inr [of "ap_thread_id ap" "ap_turn_id ap" ?s2 t s3] assms(4)
    by (auto simp: resume_approved_turn_def)
  then show ?thesis
    using assms(1) run
    by (intro exI [of _ "?u d1 s"] exI [of _ ?s2] exI [of _ t] exI [of _ s3])
      (simp add: respond_approval_run Let_def turn_env.defs)
qed


theorem last_response_decides_witness:
  "\<exists>ap (s :: coordinator) s1 s2 t s3. map_of (approvals s) (ap_id ap) = Some ap
    \<and> respond_approval \<lparr>rr_approval_id = ap_id ap, rr_decision = Deny\<rparr> s
      = (Inr (ap\<lparr>ap_status := approval_status.Denied\<rparr>), s1)
    \<and> respond_approval \<lparr>rr_approval_id = ap_id ap, rr_decision = ApproveOnce\<rparr> s1
      = (Inr (ap\<lparr>ap_status := Approved\<rparr>), s2)
    \<and> resume_approved_turn ''t1'' (ap_turn_id ap) s2 = (Inr t, s3) \<and> tn_status t = turn_status.Running"
proof -
  obtain t0 s0 th where "co_start_turn demo_turn_request demo_co = (Inr t0, s0)"
    and s0: "reliable s0" "map_of (active_turns s0) (tn_id t0) = Some t0"
    "thread_of (stores s0) ''t1'' = Some th" "th_id th = ''t1''"
    using demo_running by auto
  obtain cp ap s th' where run: "require_approval_for_turn ''t1'' (tn_id t0) demo_decision s0 = (Inr (cp, ap), s)"
    and ap: "map_of (approvals s) (ap_id ap) = Some ap" "ap_thread_id ap = ''t1''" "ap_turn_id ap = tn_id t0"
    and th': "thread_of (stores s) ''t1'' = Some th'"
    and act: "map_of (active_turns s) (tn_id t0) \<noteq> None"
    using risky_turn_waits [OF s0(1,3,4,2), of demo_decision] by auto
  have rel: "reliable s"
    using succeedsD [OF succeeds_require_approval, of "''t1''" "tn_id t0" s0 demo_decision] run s0
    by (auto simp: can_move_def)
  obtain t1 where t1: "map_of (active_turns s) (tn_id t0) = Some t1" using act by blast
  obtain s1 s2 t s3 where
    "respond_approval \<lparr>rr_approval_id = ap_id ap, rr_decision = Deny\<rparr> s
      = (Inr (ap\<lparr>ap_status := approval_status.Denied\<rparr>), s1)"
    "respond_approval \<lparr>rr_approval_id = ap_id ap, rr_decision = ApproveOnce\<rparr> s1
      = (Inr (ap\<lparr>ap_status := Approved\<rparr>), s2)"
    "resume_approved_turn ''t1'' (ap_turn_id ap) s2 = (Inr t, s3)" "tn_status t = turn_status.Running"
    using last_response_decides [OF ap(1) rel, of th' t1 Deny ApproveOnce] ap th' t1 by auto
  with ap(1) show ?thesis by blast
qed


section \<open>Tool records\<close>

text \<open>The files a tool record leaves alone.\<close>

definition same_conversation :: "'z runtime_env_scheme \<Rightarrow> 'z runtime_env_scheme \<Rightarrow> bool" where
  "same_conversation s t \<longleftrightarrow> log_of (stores t) = log_of (stores s)
     \<and> thread_of (stores t) = thread_of (stores s) \<and> memory_of (stores t) = memory_of (stores s)"

interpretation conversation_frame: progress_order same_conversation
  by unfold_locales (auto simp: same_conversation_def)

lemma artifact_frames [simp]:
  "log_of (set_artifact a f) = log_of f" "thread_of (set_artifact a f) = thread_of f"
  "memory_of (set_artifact a f) = memory_of f" "artifact_of (add_log_entry e f) = artifact_of f"
  by (auto simp: file_defs fun_eq_iff)

lemma same_conversation_store_artifact:
  "advances same_conversation (collectR (store_tool_artifact k i node mount now) specs)"
proof (intro conversation_frame.advances_collectR)
  have "advances same_conversation (put_artifact a)" "advances same_conversation (draw d)" for a d
    by (auto simp: advances_def same_conversation_def io_op_defs io_write_def draw_def split_beta
        Let_def split: option.splits)
  then show "advances same_conversation (store_tool_artifact k i node mount now spec)" for spec
    unfolding store_tool_artifact_def Let_def
    by (cases spec) (auto intro!: conversation_frame.advances_intros)
qed

lemma store_tool_artifact_Inr:
  assumes "store_tool_artifact k i node mount now (kind, summary, body) s = (Inr r, t)"
  shows "ar_id r = fst (next_artifact_id (id_gen s)) \<and> ar_kind r = kind \<and> ar_summary r = summary
    \<and> ar_thread_id r = k \<and> ar_turn_id r = i
    \<and> artifact_of (stores t) = (artifact_of (stores s))(ar_id r \<mapsto> \<lparr>sa_reference = r, sa_body = body\<rparr>)
    \<and> id_gen t = snd (next_artifact_id (id_gen s))"
  using assms unfolding store_tool_artifact_def Let_def prod.case
  by (auto simp: success_iffs store_iffs io_op_defs fun_eq_iff)

lemma stored_artifacts:
  assumes "collectR (store_tool_artifact k i node mount now) specs s = (Inr refs, t)"
  shows "map ar_id refs = ids.draws (replicate (length specs) ''artifact'') (id_gen s)
    \<and> map (\<lambda>r. (ar_kind r, ar_summary r)) refs = map (\<lambda>(kind, summary, body). (kind, summary)) specs
    \<and> (distinct (map ar_id refs) \<longrightarrow>
        map (\<lambda>r. artifact_of (stores t) (ar_id r)) refs
        = map (\<lambda>(r, _, _, body). Some \<lparr>sa_reference = r, sa_body = body\<rparr>) (zip refs specs))
    \<and> (\<forall>a. a \<notin> ar_id ` set refs \<longrightarrow> artifact_of (stores t) a = artifact_of (stores s) a)"
  using assms
proof (induction specs arbitrary: s refs)
  case Nil
  then show ?case by (simp add: ret_Inr_iff)
next
  case (Cons spec specs)
  obtain kind summary body where spec: "spec = (kind, summary, body)" by (cases spec)
  obtain r s1 rs where first: "store_tool_artifact k i node mount now (kind, summary, body) s = (Inr r, s1)"
    and rest: "collectR (store_tool_artifact k i node mount now) specs s1 = (Inr rs, t)"
    and refs: "refs = r # rs"
    using Cons.prems by (auto simp: spec success_iffs)
  note IH = Cons.IH [OF rest]
  have gen: "snd (next_value ''artifact'' (id_gen s)) = id_gen s1"
    and one: "ar_id r = fst (next_value ''artifact'' (id_gen s))" "ar_kind r = kind" "ar_summary r = summary"
      "artifact_of (stores s1) = (artifact_of (stores s))(ar_id r \<mapsto> \<lparr>sa_reference = r, sa_body = body\<rparr>)"
    using store_tool_artifact_Inr [OF first] by (simp_all add: next_artifact_id_def)
  have drawn: "ids.draws (replicate (length specs) ''artifact'') (id_gen s1) = map ar_id rs"
    using IH by simp
  show ?case
    unfolding refs spec using IH one(2-4) by (auto simp: gen one(1) [symmetric] drawn)
qed

lemma tool_record_steps:
  assumes "record_tool_execution k turn node mount tool summary specs s = (Inr (i, refs), s')"
    and "length specs \<le> 2 ^ 64"
  shows "\<exists>e. distinct (map ar_id refs)
    \<and> map (\<lambda>r. (ar_kind r, ar_summary r)) refs = map (\<lambda>(kind, sm, body). (kind, sm)) specs
    \<and> map (\<lambda>r. artifact_of (stores s') (ar_id r)) refs
        = map (\<lambda>(r, _, _, body). Some \<lparr>sa_reference = r, sa_body = body\<rparr>) (zip refs specs)
    \<and> (\<forall>a. a \<notin> ar_id ` set refs \<longrightarrow> artifact_of (stores s') a = artifact_of (stores s) a)
    \<and> log_of (stores s') = (log_of (stores s))(k := log_of (stores s) k @ [e])
    \<and> le_event e = ''tool_completed'' \<and> le_turn_id e = Some i \<and> le_artifact_ids e = map ar_id refs
    \<and> le_sequence e = of_nat (length (log_of (stores s) k)) + 1
    \<and> thread_of (stores s') = thread_of (stores s) \<and> memory_of (stores s') = memory_of (stores s)
    \<and> active_turns s' = active_turns s \<and> next_sequence s' = next_sequence s"
proof -
  obtain g now s1 s2 where
    items: "collectR (store_tool_artifact k i node mount now) specs (s\<lparr>id_gen := g\<rparr>) = (Inr refs, s1)"
    and counted: "next_tool_sequence k s1 = (Inr (of_nat (length (log_of (stores s1) k)) + 1), s2)"
    and s2: "s2 = tick s1"
    and app: "append_turn_log \<lparr>le_thread_id = k, le_sequence = of_nat (length (log_of (stores s1) k)) + 1,
         le_turn_id = Some i, le_recorded_at = now, le_event = ''tool_completed'',
         le_summary = tool @ '': '' @ summary, le_artifact_ids = map ar_id refs\<rparr> s2 = (Inr (), s')"
    using assms(1) unfolding record_tool_execution_def
    by (cases turn)
      (auto simp: success_iffs next_tool_sequence_def read_turn_log_def draw_Inr_iff io_read_Inr_iff)
  note stored = stored_artifacts [OF items]
  have frame: "log_of (stores s1) = log_of (stores s)" "thread_of (stores s1) = thread_of (stores s)"
    "memory_of (stores s1) = memory_of (stores s)"
    using advancesD [OF same_conversation_store_artifact [of k i node mount now specs], where s = "s\<lparr>id_gen := g\<rparr>"] items
    by (simp_all add: same_conversation_def)
  have "advances same_more (record_tool_execution k turn node mount tool summary specs)"
    unfolding record_tool_execution_def store_tool_artifact_def next_tool_sequence_def Let_def
    by (intro storage_frame.advances_intros same_more_ops advances_case_prod)
  note more = same_more_fields(1,2) [OF this, of s, unfolded assms(1) snd_conv]
  have distinct: "distinct (map ar_id refs)"
    using stored ids.distinct_draws assms(2) by simp
  show ?thesis
    using stored distinct frame app more s2
    by (intro exI [of _ "\<lparr>le_thread_id = k, le_sequence = of_nat (length (log_of (stores s1) k)) + 1,
         le_turn_id = Some i, le_recorded_at = now, le_event = ''tool_completed'',
         le_summary = tool @ '': '' @ summary, le_artifact_ids = map ar_id refs\<rparr>"])
      (auto simp: append_turn_log_def io_write_Inr_iff)
qed

text \<open>A tool record is complete and separate: it stores one artifact per item given, in order,
  under pairwise distinct fresh names, each with its kind, summary and body, and appends exactly
  one event that cites them all to the thread's log; no other artifact, no thread, no turn and no
  memory changes.\<close>

theorem tool_record_complete:
  assumes "record_tool_execution k turn node mount tool summary specs s = (Inr (i, refs), s')"
    and "length specs \<le> 2 ^ 64"
  shows "\<exists>e. distinct (map ar_id refs)
    \<and> map (\<lambda>r. (ar_kind r, ar_summary r)) refs = map (\<lambda>(kind, sm, body). (kind, sm)) specs
    \<and> map (\<lambda>r. artifact_of (stores s') (ar_id r)) refs
        = map (\<lambda>(r, _, _, body). Some \<lparr>sa_reference = r, sa_body = body\<rparr>) (zip refs specs)
    \<and> (\<forall>a. a \<notin> ar_id ` set refs \<longrightarrow> artifact_of (stores s') a = artifact_of (stores s) a)
    \<and> log_of (stores s') = (log_of (stores s))(k := log_of (stores s) k @ [e])
    \<and> le_event e = ''tool_completed'' \<and> le_turn_id e = Some i \<and> le_artifact_ids e = map ar_id refs
    \<and> le_sequence e = of_nat (length (log_of (stores s) k)) + 1
    \<and> thread_of (stores s') = thread_of (stores s) \<and> memory_of (stores s') = memory_of (stores s)
    \<and> active_turns s' = active_turns s \<and> next_sequence s' = next_sequence s"
  using tool_record_steps [OF assms] .


lemma succeeds_collectR: "(\<And>x. succeeds I (f x)) \<Longrightarrow> succeeds I (collectR f xs)"
  by (induction xs) (auto intro: succeeds_ret succeeds_bindR)

lemma succeeds_record: "succeeds reliable (record_tool_execution k (Some i) node mount tool summary specs)"
  unfolding record_tool_execution_def store_tool_artifact_def next_tool_sequence_def Let_def
    option.case split_beta
  by (intro succeeds_intros succeeds_collectR)

theorem tool_record_complete_witness:
  "\<exists>refs s'. record_tool_execution ''t1'' (Some ''u1'') None None ''shell'' ''ran'' [(CommandOutput, ''out'', ''ok'')] demo_co
      = (Inr (''u1'', refs), s')
    \<and> length refs = 1 \<and> length (log_of (stores s') ''t1'') = 1"
proof -
  obtain i refs s' where run: "record_tool_execution ''t1'' (Some ''u1'') None None ''shell'' ''ran''
      [(CommandOutput, ''out'', ''ok'')] demo_co = (Inr (i, refs), s')"
    using succeedsD [OF succeeds_record, of demo_co] by fastforce
  then have "i = ''u1''" by (auto simp: record_tool_execution_def success_iffs)
  moreover have "length refs = 1 \<and> length (log_of (stores s') ''t1'') = 1"
    using tool_record_complete [OF run] by auto
  ultimately show ?thesis using run by blast
qed

text \<open>A tool record takes a number the turn manager will give again. The record is numbered by the
  length of the log and leaves the counter of the turn manager alone, so when a thread's counter and
  the length of its log agree, as they do after each of its first events, a tool record and the
  end of the turn that follows it get the same sequence number in the same log.\<close>

theorem tool_record_repeats_a_number:
  assumes "map_of (next_sequence s) k = Some n" and "n = of_nat (length (log_of (stores s) k))"
    and "thread_of (stores s) k = Some th" and "th_id th = k"
    and "record_tool_execution k turn node mount tool summary specs s = (Inr (j, refs), s1)"
    and "length specs \<le> 2 ^ 64" and "complete_turn k i msg s1 = (Inr t, s2)"
  shows "\<exists>e1 e2. log_of (stores s2) k = log_of (stores s) k @ [e1, e2]
    \<and> le_event e1 = ''tool_completed'' \<and> le_event e2 = ''turn_completed''
    \<and> le_sequence e1 = n + 1 \<and> le_sequence e2 = n + 1"
proof -
  obtain e1 where rec: "log_of (stores s1) = (log_of (stores s))(k := log_of (stores s) k @ [e1])"
    "le_event e1 = ''tool_completed''" "le_sequence e1 = of_nat (length (log_of (stores s) k)) + 1"
    "thread_of (stores s1) = thread_of (stores s)" "next_sequence s1 = next_sequence s"
    using tool_record_steps [OF assms(5,6)] by blast
  obtain th1 and t0 :: turn and ended where "thread_of (stores s1) k = Some th1"
    and "logged s1 s2 (th_id th1) (entry_for s1 (th_id th1) (tn_id t0) ended ''turn_completed'' msg)"
    using complete_turn_Inr [OF assms(7)] by blast
  then have log: "logged s1 s2 k (entry_for s1 k (tn_id t0) ended ''turn_completed'' msg)"
    using assms(3,4) rec(4) by simp
  have "next_number s1 k = n + 1"
    using rec(5) assms(1) by (simp add: next_number_def)
  then show ?thesis
    using rec(1-3) log assms(2)
    by (intro exI [of _ e1] exI [of _ "entry_for s1 k (tn_id t0) ended ''turn_completed'' msg"])
      (simp add: logged_def entry_for_def)
qed

theorem tool_record_repeats_a_number_witness:
  "\<exists>t s1 r s2 t' s3 e0 e1 e2. co_start_turn demo_turn_request demo_co = (Inr t, s1)
    \<and> record_tool_execution ''t1'' (Some (tn_id t)) None None ''shell'' ''ran'' [] s1 = (Inr r, s2)
    \<and> complete_turn ''t1'' (tn_id t) ''done'' s2 = (Inr t', s3)
    \<and> log_of (stores s3) ''t1'' = [e0, e1, e2] \<and> le_sequence e1 = 2 \<and> le_sequence e2 = 2"
proof -
  obtain t s1 th where run: "co_start_turn demo_turn_request demo_co = (Inr t, s1)" and rel: "reliable s1"
    and act: "map_of (active_turns s1) (tn_id t) = Some t" and th: "thread_of (stores s1) ''t1'' = Some th"
    and own: "th_id th = ''t1''"
    using demo_running by auto
  obtain e0 where log: "log_of (stores s1) ''t1'' = [e0]"
    using started_turn_steps [OF run] by (auto simp: demo_turn_request_def demo_thread_def)
  have seq: "map_of (next_sequence s1) ''t1'' = Some 1"
    using started_turn_steps [OF run]
    by (auto simp: demo_turn_request_def demo_thread_def next_number_def last_sequence_def)
  obtain j refs s2 where rec: "record_tool_execution ''t1'' (Some (tn_id t)) None None ''shell'' ''ran'' [] s1
      = (Inr (j, refs), s2)" and rel2: "reliable s2"
    using succeedsD [OF succeeds_record rel] by fastforce
  have s2: "thread_of (stores s2) = thread_of (stores s1)" "active_turns s2 = active_turns s1"
    using tool_record_steps [OF rec] by auto
  obtain t' s3 where fin: "complete_turn ''t1'' (tn_id t) ''done'' s2 = (Inr t', s3)"
    using transitions_succeed(1) [OF rel2, of "''t1''" th "tn_id t" t "''done''"] th act s2 by auto
  show ?thesis
    using tool_record_repeats_a_number [OF seq _ th own rec _ fin] log run rec fin by auto
qed

end
