(* ===== verification/Workspaces.thy ===== *)
theory Workspaces
  imports Lifecycle
begin

text \<open>
  The properties of threads and workspaces as the coordinator combines them: fresh mount names, a
  thread started on a path, forks, and what of the node registry survives a restart of the
  process.
\<close>

section \<open>Mount names\<close>

text \<open>The name a new mount gets is never in use: it is \<open>workspace_<n>\<close> for the least number
  \<open>n\<close> above the number of mounts whose name is free, however the earlier mounts were attached
  and detached.\<close>

theorem new_mount_name_least_free:
  "\<exists>n. next_workspace_mount_id r = mount_name n \<and> length (reg_mounts r) < n
    \<and> map_of (reg_mounts r) (mount_name n) = None
    \<and> {mount_name i | i. length (reg_mounts r) < i \<and> i < n} \<subseteq> dom (map_of (reg_mounts r))"
proof -
  let ?used = "map fst (reg_mounts r)" and ?start = "Suc (length (reg_mounts r))"
  show ?thesis
    using free_mount_index_least [of ?start ?used] next_mount_id_fresh [of r]
    by (intro exI [of _ "free_mount_index ?used ?start"])
      (auto simp: next_workspace_mount_id_def dom_map_of_conv_image_fst)
qed

section \<open>Persisting the registry\<close>

lemma registry_frames [simp]:
  "registry_of (set_registry r f) = r" "registry_of (stores (tick s)) = registry_of (stores s)"
  by (simp_all add: file_defs tick_def)

lemma thread_of_set_registry [simp]: "thread_of (set_registry r f) = thread_of f"
  by (simp add: file_defs)

lemma on_registry_Inr:
  "on_registry m s = (Inr a, t) \<longleftrightarrow> (\<exists>n. m (nodes s) = (Inr a, n) \<and> t = s\<lparr>nodes := n\<rparr>)"
  by (cases "m (nodes s)") (auto simp: on_registry_def)

lemma persisted_Inr:
  assumes "persisted m s = (Inr a, s')"
  shows "m (nodes s) = (Inr a, nodes s') \<and> registry_of (stores s') = snapshot (nodes s')
    \<and> io_fault (stores s') = io_fault (stores s)"
  using assms
  by (auto simp: persisted_def persist_node_registry_def on_registry_Inr write_node_registry_def
      success_iffs store_iffs)

lemma restart_nodes:
  assumes "reliable s"
  shows "nodes (restart h clk s) = from_snapshot h (registry_of (stores s))"
  using assms
  by (simp add: restart_def new_coordinator_def Let_def read_node_registry_def io_read_def
      io_result_def reliable_def)


text \<open>A policy set on another node survives a restart; one set on the local node does not: the files
  hold it, but the process that reads them back gives the local node the built-in policy
  again.\<close>

theorem local_policy_reset_by_restart:
  assumes "co_update_node_policy i p s = (Inr n, s')" and "registry_ok (nodes s)" and "reliable s"
  shows "nr_policy n = p \<and> map_of (reg_nodes (nodes s')) i = Some n
    \<and> (if i = ''local''
       then \<exists>n'. map_of (reg_nodes (nodes (restart h clk s'))) i = Some n'
         \<and> nr_policy n' = nr_policy (local_node_record h)
       else map_of (reg_nodes (nodes (restart h clk s'))) i = Some n)"
proof -
  have run: "update_node_policy i p (nodes s) = (Inr n, nodes s')"
    and stored: "registry_of (stores s') = snapshot (nodes s')" and "reliable s'"
    using persisted_Inr [OF assms(1) [unfolded co_update_node_policy_def]] assms(3)
    by (auto simp: reliable_def)
  have set: "nr_policy n = p \<and> map_of (reg_nodes (nodes s')) i = Some n"
    using run by (auto simp: update_node_policy_def read_node_def set_node_def success_iffs Let_def)
  have ok: "registry_ok (nodes s')"
    using keepsD [OF keeps_registry_ok(4) assms(2), of i p] run by simp
  have after: "nodes (restart h clk s') = from_snapshot h (snapshot (nodes s'))"
    by (simp add: restart_nodes [OF \<open>reliable s'\<close>] stored)
  have "nr_policy (refreshed_local h x) = nr_policy (local_node_record h)" for x
    by (simp add: refreshed_local_def split: option.splits)
  then show ?thesis
    using set snapshot_nodes [OF ok, of i h] by (simp add: after from_snapshot_fields(1))
qed


section \<open>Threads on a workspace\<close>

lemma resolve_Inr:
  assumes "resolve_or_attach_local_workspace root r = (Inr m, r')" and "registry_ok r"
  shows "wm_node_id m = ''local'' \<and> wm_root_path m = root
    \<and> map_of (reg_mounts r') (wm_workspace_id m) = Some m
    \<and> resolve_or_attach_local_workspace root r' = (Inr m, r')"
proof (cases "local_mount_for r root")
  case (Some m0)
  with assms have "m0 = m" "r' = r" by (auto simp: resolve_cases)
  with Some assms show ?thesis
    using local_mount_for_Some [of r root m] mounts.resolve_root [OF assms(2,1)]
    by (auto simp: registry_ok_def)
next
  case None
  then have m: "wm_node_id m = ''local''" "wm_root_path m = root"
    and r': "map_of (reg_mounts r') = (map_of (reg_mounts r))(wm_workspace_id m \<mapsto> m)"
    using assms(1) by (auto simp: resolve_cases attach_Inr)
  have ok': "registry_ok r'" using keepsD [OF keeps_registry_ok(2) assms(2), of root] assms(1) by simp
  moreover have "map_of (reg_mounts r') (wm_workspace_id m) = Some m" by (simp add: r')
  ultimately have "local_mount_for r' root \<noteq> None"
    using local_mount_for_None [of r' root] m unfolding registry_ok_def by blast
  then obtain m' where again: "local_mount_for r' root = Some m'" by blast
  then obtain i where "map_of (reg_mounts r') i = Some m'" "wm_node_id m' = ''local''" "wm_root_path m' = root"
    using local_mount_for_Some [of r' root m'] ok' by (auto simp: registry_ok_def)
  moreover have "\<not> (map_of (reg_mounts r) i = Some m')" if "wm_node_id m' = ''local''" "wm_root_path m' = root"
    using None local_mount_for_None [of r root] assms(2) that unfolding registry_ok_def by blast
  ultimately have "m' = m" by (auto simp: r' split: if_splits)
  with again m r' show ?thesis by (simp add: resolve_cases)
qed

lemma thread_at_path_Inr:
  assumes "co_start_thread rq s = (Inr th, s')"
    and "ts_workspace_mount_id rq = None" and "ts_workspace_ref rq = Some path" and "\<not> blank path"
  shows "\<exists>m s1. resolve_or_attach_local_workspace path (nodes s) = (Inr m, nodes s1)
    \<and> io_fault (stores s1) = io_fault (stores s)
    \<and> start_thread (rq\<lparr>ts_workspace_mount_id := Some (wm_workspace_id m)\<rparr>) s1 = (Inr th, s')"
proof -
  obtain m n where res: "resolve_or_attach_local_workspace path (nodes s) = (Inr m, n)"
    and run: "start_thread (rq\<lparr>ts_workspace_mount_id := Some (wm_workspace_id m)\<rparr>)
      (tick (s\<lparr>nodes := n, stores := set_registry (snapshot n) (stores s)\<rparr>)) = (Inr th, s')"
    using assms
    by (auto simp: co_start_thread_def resolve_thread_workspace_mount_def success_iffs on_registry_Inr
        persist_node_registry_def write_node_registry_def store_iffs)
  then show ?thesis
    by (intro exI [of _ m] exI conjI, rule_tac [3] run) simp_all
qed


lemma succeeds_threads:
  "succeeds reliable (start_thread rq)" "succeeds reliable (store_and_activate th)"
  unfolding start_thread_def store_and_activate_def Let_def
  by (intro succeeds_intros succeeds_events)+

lemma start_at_path:
  assumes "reliable s" and "registry_ok (nodes s)"
    and "ts_workspace_mount_id rq = None" and "ts_workspace_ref rq = Some path" and "\<not> blank path"
  shows "\<exists>m n th s'. resolve_or_attach_local_workspace path (nodes s) = (Inr m, n)
    \<and> co_start_thread rq s = (Inr th, s') \<and> reliable s' \<and> nodes s' = n
    \<and> th_workspace_mount_id th = Some (wm_workspace_id m) \<and> th_workspace_ref th = Some path
    \<and> thread_of (stores s') = (thread_of (stores s))(th_id th \<mapsto> th)"
proof -
  obtain m n where res: "resolve_or_attach_local_workspace path (nodes s) = (Inr m, n)"
    using mounts.resolve_total [OF assms(2), of path] by (auto simp: fst_def split: prod.splits)
  define s1 where "s1 = tick (s\<lparr>nodes := n, stores := set_registry (snapshot n) (stores s)\<rparr>)"
  have s1: "reliable s1" "nodes s1 = n" "thread_of (stores s1) = thread_of (stores s)"
    using assms(1) by (auto simp: s1_def reliable_def)
  let ?rq = "rq\<lparr>ts_workspace_mount_id := Some (wm_workspace_id m)\<rparr>"
  have "resolve_thread_workspace_mount rq s = (Inr ?rq, s1)"
    using assms(1,3-5) res
    by (auto simp: resolve_thread_workspace_mount_def success_iffs on_registry_Inr
        persist_node_registry_def write_node_registry_def store_iffs s1_def reliable_def io_result_def)
  then have run: "co_start_thread rq s = start_thread ?rq s1"
    by (simp add: co_start_thread_def bindR_run)
  obtain th s' where start: "start_thread ?rq s1 = (Inr th, s')" and "reliable s'"
    using succeedsD [OF succeeds_threads(1) s1(1)] by blast
  then show ?thesis
    using start_thread_Inr [OF start] res run s1 assms(4)
    by (intro exI [of _ m] exI [of _ n] exI [of _ th] exI [of _ s'])
      (auto dest!: turn_env_more coordinator_more)
qed

text \<open>A thread started on a path works there: on storage that works the start succeeds, the thread
  is bound to a mount of exactly that path on the local node, its tools run on the local node in
  that mount, every mount that existed is still there, and a second thread started on the same
  path shares the mount instead of adding one.\<close>

theorem thread_started_on_path:
  assumes "reliable s" and "registry_ok (nodes s)"
    and "ts_workspace_mount_id rq = None" and "ts_workspace_ref rq = Some path" and "\<not> blank path"
  shows "\<exists>th s' m. co_start_thread rq s = (Inr th, s')
    \<and> map_of (reg_mounts (nodes s')) (wm_workspace_id m) = Some m
    \<and> wm_node_id m = ''local'' \<and> wm_root_path m = path
    \<and> th_workspace_mount_id th = Some (wm_workspace_id m)
    \<and> fst (thread_execution_scope (th_id th) s') = Inr (''local'', Some (wm_workspace_id m))
    \<and> map_of (reg_mounts (nodes s)) \<subseteq>\<^sub>m map_of (reg_mounts (nodes s'))
    \<and> (\<exists>th2 s2. co_start_thread rq s' = (Inr th2, s2) \<and> nodes s2 = nodes s'
      \<and> th_workspace_mount_id th2 = th_workspace_mount_id th)"
proof -
  obtain m n th s' where res: "resolve_or_attach_local_workspace path (nodes s) = (Inr m, n)"
    and run: "co_start_thread rq s = (Inr th, s')" and s': "reliable s'" "nodes s' = n"
    and th: "th_workspace_mount_id th = Some (wm_workspace_id m)"
      "thread_of (stores s') = (thread_of (stores s))(th_id th \<mapsto> th)"
    using start_at_path [OF assms] by blast
  note mount = resolve_Inr [OF res assms(2)]
  have ok: "registry_ok (nodes s')" using mounts.resolve_ok [OF assms(2), of path] res s'(2) by simp
  obtain m2 n2 th2 s2 where second: "resolve_or_attach_local_workspace path (nodes s') = (Inr m2, n2)"
    "co_start_thread rq s' = (Inr th2, s2)" "nodes s2 = n2" "th_workspace_mount_id th2 = Some (wm_workspace_id m2)"
    using start_at_path [OF s'(1) ok assms(3-5)] by blast
  have "map_of (reg_mounts (nodes s)) \<subseteq>\<^sub>m map_of (reg_mounts n)"
    using mounts.resolve_keeps [OF assms(2), of _ _ path] res
    by (auto simp: map_le_def dom_def)
  moreover have "fst (thread_execution_scope (th_id th) s') = Inr (''local'', Some (wm_workspace_id m))"
    using s' th mount
    by (simp add: thread_execution_scope_def get_thread_def run_simps on_registry_def
        read_workspace_mount_def split_beta Let_def)
  ultimately show ?thesis
    using run th mount s'(2) second by auto
qed


definition demo_start :: thread_start_request where
  "demo_start = \<lparr>ts_title = None, ts_initial_goal = None, ts_workspace_ref = Some ''/work'',
     ts_workspace_mount_id = None\<rparr>"

lemma demo_co_registry: "registry_ok (nodes demo_co)"
  using coordinator_ok_new by (simp add: demo_co_def coordinator_ok_def)

theorem thread_started_on_path_witness:
  "\<exists>th s' m. co_start_thread demo_start demo_co = (Inr th, s') \<and> wm_root_path m = ''/work''
    \<and> map_of (reg_mounts (nodes s')) (wm_workspace_id m) = Some m
    \<and> fst (thread_execution_scope (th_id th) s') = Inr (''local'', Some (wm_workspace_id m))"
  using thread_started_on_path [of demo_co demo_start "''/work''"] demo_co_registry
  by (auto simp: demo_start_def blank_def trim_def is_ws_def)

text \<open>A fork continues its parent without touching it: the child has a fresh name, the parent as its
  parent, and inherits the goal, the workspace, the mount and the latest checkpoint, the pending
  commitments in order with at most the fork's own reason added, and no turn; no other thread's
  file and no log changes, and the child joins the active threads.\<close>

theorem fork_inherits:
  assumes "co_fork_thread rq s = (Inr child, s')"
  shows "\<exists>parent. thread_of (stores s) (tf_thread_id rq) = Some parent
    \<and> thread_of (stores s') = (thread_of (stores s))(th_id child \<mapsto> child)
    \<and> log_of (stores s') = log_of (stores s)
    \<and> th_id child = fst (next_thread_id (snd (now_timestamp (id_gen s))))
    \<and> th_parent_thread_id child = Some (th_id parent)
    \<and> th_active_goal child = th_active_goal parent
    \<and> th_workspace_ref child = th_workspace_ref parent
    \<and> th_workspace_mount_id child = th_workspace_mount_id parent
    \<and> th_latest_checkpoint_id child = th_latest_checkpoint_id parent
    \<and> th_latest_turn_id child = None
    \<and> th_pending_commitments child = th_pending_commitments parent
        @ (case tf_fork_reason rq of None \<Rightarrow> [] | Some r \<Rightarrow> [''Fork created for: '' @ r])
    \<and> set (active_ids s') = insert (th_id child) (set (active_ids s))
    \<and> active_turns s' = active_turns s"
proof -
  obtain parent where "thread_of (stores s) (tf_thread_id rq) = Some parent"
    and "th_pending_commitments child = fork_commitments parent (tf_fork_reason rq)"
    and "active_ids s' = sync_ids (th_id child) True (active_ids s)"
    and "runtime_env.more s' = runtime_env.more s"
    and "th_id child = fst (next_thread_id (snd (now_timestamp (id_gen s))))"
    "th_parent_thread_id child = Some (th_id parent)" "th_active_goal child = th_active_goal parent"
    "th_workspace_ref child = th_workspace_ref parent"
    "th_workspace_mount_id child = th_workspace_mount_id parent"
    "th_latest_checkpoint_id child = th_latest_checkpoint_id parent"
    "th_latest_turn_id child = None"
    "thread_of (stores s') = (thread_of (stores s))(th_id child \<mapsto> child)"
    "log_of (stores s') = log_of (stores s)"
    using fork_thread_Inr [OF assms [unfolded co_fork_thread_def]] by blast
  then show ?thesis
    using turn_env_more [of s' s]
    by (intro exI [of _ parent]) (simp add: fork_commitments_def sync_ids_set)
qed

theorem fork_inherits_witness:
  "\<exists>child s'. co_fork_thread \<lparr>tf_thread_id = ''t1'', tf_title = None, tf_fork_reason = Some ''try it''\<rparr> demo_co
      = (Inr child, s')
    \<and> th_pending_commitments child = [''ship the report'', ''Fork created for: try it'']"
proof -
  let ?rq = "\<lparr>tf_thread_id = ''t1'', tf_title = None, tf_fork_reason = Some ''try it''\<rparr>"
  obtain th s1 where eq: "co_fork_thread ?rq demo_co = store_and_activate th s1" and rel: "reliable s1"
    by (simp add: co_fork_thread_def fork_thread_def get_thread_def run_simps Let_def)
  obtain child s' where run: "co_fork_thread ?rq demo_co = (Inr child, s')"
    unfolding eq using succeedsD [OF succeeds_threads(2) rel] by blast
  then show ?thesis
    using fork_inherits [OF run] by (auto simp: demo_thread_def)
qed

definition demo_mount_request :: workspace_mount_attach_request where
  "demo_mount_request = \<lparr>wa_node_id = ''local'', wa_root_path = ''/data'', wa_label = None,
     wa_permissions = \<lparr>pm_read = True, pm_write = False, pm_shell = False\<rparr>\<rparr>"

lemma demo_local_node: "map_of (reg_nodes (nodes demo_co)) ''local'' \<noteq> None"
  using demo_co_registry by (simp add: registry_ok_def)

lemma persisted_run:
  "reliable s \<Longrightarrow> m (nodes s) = (Inr a, n) \<Longrightarrow> \<exists>s'. persisted m s = (Inr a, s')"
  by (auto simp: persisted_def persist_node_registry_def on_registry_def write_node_registry_def
      run_simps Let_def reliable_def io_write_def io_result_def)


theorem local_policy_reset_by_restart_witness:
  "\<exists>p n s' n'. co_update_node_policy ''local'' p demo_co = (Inr n, s') \<and> np_protected_paths (nr_policy n) = [''/etc'']
    \<and> map_of (reg_nodes (nodes (restart demo_host (\<lambda>n. n) s'))) ''local'' = Some n'
    \<and> np_protected_paths (nr_policy n') = []"
proof -
  let ?p = "(nr_policy (local_node_record demo_host))\<lparr>np_protected_paths := [''/etc'']\<rparr>"
  obtain n r where at: "update_node_policy ''local'' ?p (nodes demo_co) = (Inr n, r)"
    using demo_local_node by (auto simp: update_node_policy_def read_node_def set_node_def run_simps Let_def)
  obtain s' where run: "co_update_node_policy ''local'' ?p demo_co = (Inr n, s')"
    using persisted_run [where m = "update_node_policy ''local'' ?p", OF demo_co_views(5) at]
    by (auto simp: co_update_node_policy_def)
  then show ?thesis
    using local_policy_reset_by_restart [OF run demo_co_registry, of demo_host "\<lambda>n. n"] run
    by - (rule exI [of _ ?p], rule exI [of _ n], rule exI [of _ s'], auto simp: local_node_record_def)
qed

end
