(* ===== verification/Web.thy ===== *)
theory Web
  imports Ids
begin

text \<open>
  What the model layer of the server sees of the world outside: environment variables, the wall
  clock, the system's random bytes, and remote HTTP services. None of it is code of the repository,
  so each is a function the state \<open>web\<close> carries, and every theorem is one about all such functions.
  An HTTP client either cannot be built, or the request cannot be sent, or it is answered; the n-th
  request gets the answer \<open>wb_http\<close> has for it, and every request is recorded in \<open>wb_sent\<close>.
  \<open>provider_lib\<close> holds what the source takes from crates: URLs (\<open>reqwest::Url\<close>), SHA-256, Base64
  and the decoding of JSON text into a struct (\<open>serde_json::from_str\<close>), which yields the struct or
  the text of the error.
\<close>

section \<open>JSON values\<close>

text \<open>\<open>serde_json::Value\<close>. An integer is within the range of \<open>i64\<close> or \<open>u64\<close>; any other number is
  kept as its text.\<close>

datatype json =
  JNull
| JBool bool
| JInt int
| JFloat string
| JString string
| JArray "json list"
| JObject "(string \<times> json) list"

fun json_get :: "json \<Rightarrow> string \<Rightarrow> json option" where
  "json_get (JObject kvs) k = map_of kvs k"
| "json_get _ k = None"

fun as_str :: "json \<Rightarrow> string option" where
  "as_str (JString s) = Some s"
| "as_str _ = None"

fun as_bool :: "json \<Rightarrow> bool option" where
  "as_bool (JBool b) = Some b"
| "as_bool _ = None"

fun as_u64 :: "json \<Rightarrow> nat option" where
  "as_u64 (JInt i) = (if 0 \<le> i \<and> i < 2 ^ 64 then Some (nat i) else None)"
| "as_u64 _ = None"

section \<open>Errors of the model layer\<close>

datatype model_error = UnsupportedProvider string | ProviderFailure string

fun model_error_text :: "model_error \<Rightarrow> string" where
  "model_error_text (UnsupportedProvider provider) = ''provider '' @ provider @ '' is not configured''"
| "model_error_text (ProviderFailure message) = message"

section \<open>Requests and answers\<close>

datatype http_method = Get | Post

datatype http_body = NoBody | FormBody "(string \<times> string) list" | JsonBody json

record http_request =
  hq_method :: http_method
  hq_url :: string
  hq_headers :: "(string \<times> string) list"
  hq_body :: http_body

datatype http_outcome =
  NoClient string
| NotSent string
| Replied bool string "string + string"

record web =
  wb_env :: "string \<Rightarrow> string option"
  wb_http :: "nat \<Rightarrow> http_request \<Rightarrow> http_outcome"
  wb_sent :: "http_request list"
  wb_clock :: "nat \<Rightarrow> nat"
  wb_clock_reads :: nat
  wb_random :: "nat \<Rightarrow> nat"
  wb_drawn :: nat

type_synonym 'a web_run = "(model_error, web, 'a) run"

definition failure :: "string \<Rightarrow> 'a web_run" where
  "failure message = fail (ProviderFailure message)"

text \<open>
  One exchange: build a client, send, read the status and the body, refuse a status that is not a
  success, decode the body. Every helper of the source has this shape and its own texts for
  the five failures.
\<close>

record exchange_texts =
  xt_client :: string
  xt_send :: string
  xt_read :: string
  xt_status :: string
  xt_parse :: string

definition exchange ::
  "exchange_texts \<Rightarrow> (string \<Rightarrow> string + 'a) \<Rightarrow> http_request \<Rightarrow> 'a web_run" where
  "exchange x decode q w =
     (case wb_http w (length (wb_sent w)) q of
        NoClient e \<Rightarrow> Inl (ProviderFailure (xt_client x @ e))
      | NotSent e \<Rightarrow> Inl (ProviderFailure (xt_send x @ e))
      | Replied success status body \<Rightarrow>
          (case body of
             Inl e \<Rightarrow> Inl (ProviderFailure (xt_read x @ e))
           | Inr content \<Rightarrow>
               if \<not> success then Inl (ProviderFailure (xt_status x @ status @ '': '' @ content))
               else (case decode content of
                       Inl e \<Rightarrow> Inl (ProviderFailure (xt_parse x @ e))
                     | Inr v \<Rightarrow> Inr v)),
      w\<lparr>wb_sent := wb_sent w @ [q]\<rparr>)"

text \<open>The success of a request alone, without its body.\<close>

definition probe :: "string \<Rightarrow> http_request \<Rightarrow> bool web_run" where
  "probe send_text q w =
     (case wb_http w (length (wb_sent w)) q of
        NoClient e \<Rightarrow> Inl (ProviderFailure (send_text @ e))
      | NotSent e \<Rightarrow> Inl (ProviderFailure (send_text @ e))
      | Replied success status body \<Rightarrow> Inr success, w\<lparr>wb_sent := wb_sent w @ [q]\<rparr>)"

section \<open>Environment, clock and random bytes\<close>

definition env_var :: "string \<Rightarrow> string option web_run" where
  "env_var key = asks (\<lambda>w. wb_env w key)"

definition unix_time_ms :: "nat web_run" where
  "unix_time_ms w =
     (Inr (wb_clock w (wb_clock_reads w) mod 2 ^ 64), w\<lparr>wb_clock_reads := Suc (wb_clock_reads w)\<rparr>)"

definition fill_bytes :: "nat \<Rightarrow> nat list web_run" where
  "fill_bytes n w =
     (Inr (map (\<lambda>i. wb_random w (wb_drawn w + i) mod 256) [0..<n]), w\<lparr>wb_drawn := wb_drawn w + n\<rparr>)"

text \<open>Arithmetic on \<open>u64\<close> in a release build wraps; \<open>saturating_sub\<close> and \<open>saturating_add\<close> do not.\<close>

definition u64 :: "nat \<Rightarrow> nat" where
  "u64 n = n mod 2 ^ 64"

definition u32_saturating_add :: "nat \<Rightarrow> nat \<Rightarrow> nat" where
  "u32_saturating_add a b = min (a + b) (2 ^ 32 - 1)"

section \<open>Strings and sorted maps\<close>

definition trim_end_of :: "char \<Rightarrow> string \<Rightarrow> string" where
  "trim_end_of c s = rev (dropWhile (\<lambda>d. d = c) (rev s))"

definition strip_prefix :: "string \<Rightarrow> string \<Rightarrow> string option" where
  "strip_prefix p s = (if starts_with s p then Some (drop (length p) s) else None)"

definition ends_with :: "string \<Rightarrow> string \<Rightarrow> bool" where
  "ends_with s p \<longleftrightarrow> starts_with (rev s) (rev p)"

text \<open>\<open>value.map(str::trim).filter(|value| !value.is_empty())\<close>.\<close>

definition trimmed :: "string option \<Rightarrow> string option" where
  "trimmed v = (case v of None \<Rightarrow> None | Some s \<Rightarrow> if trim s = [] then None else Some (trim s))"

definition filled :: "string option \<Rightarrow> string option" where
  "filled v = (case v of None \<Rightarrow> None | Some s \<Rightarrow> if blank s then None else Some s)"

text \<open>A \<open>BTreeMap\<close> of strings as the list of its entries in the order of the keys.\<close>

fun tree_insert :: "string \<Rightarrow> 'v \<Rightarrow> (string \<times> 'v) list \<Rightarrow> (string \<times> 'v) list" where
  "tree_insert k v [] = [(k, v)]"
| "tree_insert k v ((k', v') # m) =
     (if k = k' then (k, v) # m
      else if k < k' then (k, v) # (k', v') # m
      else (k', v') # tree_insert k v m)"

definition tree_extend :: "(string \<times> 'v) list \<Rightarrow> (string \<times> 'v) list \<Rightarrow> (string \<times> 'v) list" where
  "tree_extend m kvs = foldl (\<lambda>m (k, v). tree_insert k v m) m kvs"

definition tree_of :: "(string \<times> 'v) list \<Rightarrow> (string \<times> 'v) list" where
  "tree_of = tree_extend []"

lemma map_of_tree_insert [simp]: "map_of (tree_insert k v m) = (map_of m)(k \<mapsto> v)"
  by (induction m) auto

lemma set_tree_insert: "fst ` set (tree_insert k v m) = insert k (fst ` set m)"
  by (induction k v m rule: tree_insert.induct) auto

lemma sorted_tree_insert: "sorted_wrt (<) (map fst m) \<Longrightarrow> sorted_wrt (<) (map fst (tree_insert k v m))"
proof (induction m)
  case (Cons x m)
  obtain k' v' where x: "x = (k', v')" by (cases x)
  have keys: "set (map fst (tree_insert k v m)) = insert k (fst ` set m)" by (simp add: set_tree_insert)
  have "\<forall>a \<in> set (map fst (tree_insert k v m)). k' < a" if "k' < k"
    using Cons.prems x that unfolding keys by auto
  with Cons x show ?case by (auto dest: less_trans)
qed simp

lemma map_of_tree_extend: "map_of (tree_extend m kvs) = map_of m ++ map_of (rev kvs)"
  by (induction kvs arbitrary: m) (auto simp: tree_extend_def split_beta map_add_def fun_eq_iff
      split: option.splits)

lemma map_of_rev_keys: "distinct (map fst xs) \<Longrightarrow> map_of (rev xs) = map_of xs"
  by (subst map_of_inject_set) (simp_all add: rev_map [symmetric])

section \<open>The third-party libraries\<close>

text \<open>A URL: host, path, decoded query, and everything else.\<close>

record url =
  ur_host :: "string option"
  ur_path :: string
  ur_query :: "(string \<times> string) list"
  ur_rest :: string

definition append_pairs :: "(string \<times> string) list \<Rightarrow> url \<Rightarrow> url" where
  "append_pairs kvs u = u\<lparr>ur_query := ur_query u @ kvs\<rparr>"

definition query_value :: "string \<Rightarrow> url \<Rightarrow> string option" where
  "query_value k u = map_of (ur_query u) k"

record url_lib =
  ul_parse :: "string \<Rightarrow> string + url"
  ul_text :: "url \<Rightarrow> string"
  ul_set_host :: "string \<Rightarrow> url \<Rightarrow> url option"
  ul_origin :: "url \<Rightarrow> string"

record crypto_lib =
  cl_sha256 :: "string \<Rightarrow> string"
  cl_base64 :: "string \<Rightarrow> string"
  cl_base64_url :: "string \<Rightarrow> string"
  cl_unbase64 :: "string \<Rightarrow> string option"

section \<open>Lemmas\<close>

lemma exchange_sent: "wb_sent (snd (exchange x d q w)) = wb_sent w @ [q]"
  by (simp add: exchange_def)

lemma exchange_frame:
  "snd (exchange x d q w) = w\<lparr>wb_sent := wb_sent w @ [q]\<rparr>"
  by (simp add: exchange_def)

lemma exchange_ok:
  "exchange x d q w = (Inr v, t) \<longleftrightarrow>
     (\<exists>status content. wb_http w (length (wb_sent w)) q = Replied True status (Inr content) \<and>
        d content = Inr v) \<and> t = w\<lparr>wb_sent := wb_sent w @ [q]\<rparr>"
  by (auto simp: exchange_def split: http_outcome.splits sum.splits if_splits)

lemma env_var_run [run_simps]: "env_var k w = (Inr (wb_env w k), w)"
  by (simp add: env_var_def run_simps)

lemma failure_run [run_simps]: "failure m w = (Inl (ProviderFailure m), w)"
  by (simp add: failure_def run_simps)

lemma trimmed_Some_iff: "trimmed v = Some t \<longleftrightarrow> (\<exists>s. v = Some s \<and> t = trim s \<and> t \<noteq> [])"
  by (auto simp: trimmed_def split: option.splits)

lemma filled_Some_iff: "filled v = Some t \<longleftrightarrow> v = Some t \<and> \<not> blank t"
  by (auto simp: filled_def split: option.splits)

end
