(* ===== verification/Tools.thy ===== *)
theory Tools
  imports Protocol
begin

text \<open>
  The tool surface of the protocol (\<open>liz-protocol/src/tool.rs\<close>): the names of the tools, the request
  and the result of each, and the call that carries a request in the context of a thread. Counters
  and line numbers (\<open>usize\<close>) are natural numbers, exit codes (\<open>i32\<close>) integers.
\<close>

datatype executor_stream = Stdout | Stderr

section \<open>Tool names\<close>

datatype tool_name =
  WorkspaceList | WorkspaceSearch | WorkspaceRead | WorkspaceWriteText | WorkspaceApplyPatch
| ShellExec | ShellSpawn | ShellWait | ShellReadOutput | ShellTerminate

fun tool_name_as_str :: "tool_name \<Rightarrow> string" where
  "tool_name_as_str WorkspaceList = ''workspace.list''"
| "tool_name_as_str WorkspaceSearch = ''workspace.search''"
| "tool_name_as_str WorkspaceRead = ''workspace.read''"
| "tool_name_as_str WorkspaceWriteText = ''workspace.write_text''"
| "tool_name_as_str WorkspaceApplyPatch = ''workspace.apply_patch''"
| "tool_name_as_str ShellExec = ''shell.exec''"
| "tool_name_as_str ShellSpawn = ''shell.spawn''"
| "tool_name_as_str ShellWait = ''shell.wait''"
| "tool_name_as_str ShellReadOutput = ''shell.read_output''"
| "tool_name_as_str ShellTerminate = ''shell.terminate''"

lemma tool_name_as_str_inject: "tool_name_as_str m = tool_name_as_str n \<longleftrightarrow> m = n"
  by (cases m; cases n) simp_all

section \<open>Workspace requests and results\<close>

record workspace_list_entry =
  we_path :: string
  we_is_dir :: bool

record workspace_list_request =
  wl_root :: string
  wl_recursive :: bool
  wl_include_hidden :: bool
  wl_max_entries :: "nat option"

record workspace_list_result =
  wlr_root :: string
  wlr_entries :: "workspace_list_entry list"
  wlr_truncated :: bool

record workspace_search_request =
  ws_root :: string
  ws_pattern :: string
  ws_case_sensitive :: bool
  ws_include_hidden :: bool
  ws_max_results :: "nat option"

record workspace_search_match =
  wm_path :: string
  wm_line_number :: nat
  wm_line :: string

record workspace_search_result =
  wsr_root :: string
  wsr_pattern :: string
  wsr_matches :: "workspace_search_match list"
  wsr_truncated :: bool

record workspace_read_request =
  wr_path :: string
  wr_start_line :: "nat option"
  wr_end_line :: "nat option"

record workspace_read_result =
  wrr_path :: string
  wrr_content :: string
  wrr_start_line :: nat
  wrr_end_line :: nat
  wrr_total_lines :: nat

record workspace_write_text_request =
  ww_path :: string
  ww_content :: string

record workspace_write_text_result =
  wwr_path :: string
  wwr_changed :: bool
  wwr_byte_length :: nat

record workspace_apply_patch_request =
  wp_path :: string
  wp_search :: string
  wp_replace :: string
  wp_replace_all :: bool

record workspace_apply_patch_result =
  wpr_path :: string
  wpr_replacements :: nat
  wpr_changed :: bool

section \<open>Shell requests and results\<close>

record shell_exec_request =
  se_command :: string
  se_working_dir :: "string option"
  se_sandbox :: "shell_sandbox_request option"

record shell_exec_result =
  ser_command :: string
  ser_working_dir :: "string option"
  ser_sandbox :: shell_sandbox_summary
  ser_exit_code :: int
  ser_stdout :: string
  ser_stderr :: string

record shell_spawn_request =
  sp_command :: string
  sp_working_dir :: "string option"
  sp_sandbox :: "shell_sandbox_request option"

record shell_spawn_result =
  spr_task_id :: executor_task_id
  spr_command :: string
  spr_working_dir :: "string option"
  spr_sandbox :: shell_sandbox_summary

record shell_wait_request =
  sw_task_id :: executor_task_id

record shell_wait_result =
  swr_task_id :: executor_task_id
  swr_sandbox :: shell_sandbox_summary
  swr_running :: bool
  swr_exit_code :: "int option"
  swr_stdout :: string
  swr_stderr :: string

record shell_read_output_request =
  so_task_id :: executor_task_id

record shell_read_output_result =
  sor_task_id :: executor_task_id
  sor_sandbox :: shell_sandbox_summary
  sor_running :: bool
  sor_exit_code :: "int option"
  sor_stdout_delta :: string
  sor_stderr_delta :: string

record shell_terminate_request =
  st_task_id :: executor_task_id

record shell_terminate_result =
  str_task_id :: executor_task_id
  str_sandbox :: shell_sandbox_summary
  str_terminated :: bool
  str_exit_code :: "int option"

section \<open>Invocations, results and calls\<close>

datatype tool_invocation =
  InvokeList workspace_list_request
| InvokeSearch workspace_search_request
| InvokeRead workspace_read_request
| InvokeWriteText workspace_write_text_request
| InvokeApplyPatch workspace_apply_patch_request
| InvokeExec shell_exec_request
| InvokeSpawn shell_spawn_request
| InvokeWait shell_wait_request
| InvokeReadOutput shell_read_output_request
| InvokeTerminate shell_terminate_request

fun invocation_tool_name :: "tool_invocation \<Rightarrow> tool_name" where
  "invocation_tool_name (InvokeList _) = WorkspaceList"
| "invocation_tool_name (InvokeSearch _) = WorkspaceSearch"
| "invocation_tool_name (InvokeRead _) = WorkspaceRead"
| "invocation_tool_name (InvokeWriteText _) = WorkspaceWriteText"
| "invocation_tool_name (InvokeApplyPatch _) = WorkspaceApplyPatch"
| "invocation_tool_name (InvokeExec _) = ShellExec"
| "invocation_tool_name (InvokeSpawn _) = ShellSpawn"
| "invocation_tool_name (InvokeWait _) = ShellWait"
| "invocation_tool_name (InvokeReadOutput _) = ShellReadOutput"
| "invocation_tool_name (InvokeTerminate _) = ShellTerminate"

datatype tool_result =
  ListResult workspace_list_result
| SearchResult workspace_search_result
| ReadResult workspace_read_result
| WriteTextResult workspace_write_text_result
| ApplyPatchResult workspace_apply_patch_result
| ExecResult shell_exec_result
| SpawnResult shell_spawn_result
| WaitResult shell_wait_result
| ReadOutputResult shell_read_output_result
| TerminateResult shell_terminate_result

fun result_tool_name :: "tool_result \<Rightarrow> tool_name" where
  "result_tool_name (ListResult _) = WorkspaceList"
| "result_tool_name (SearchResult _) = WorkspaceSearch"
| "result_tool_name (ReadResult _) = WorkspaceRead"
| "result_tool_name (WriteTextResult _) = WorkspaceWriteText"
| "result_tool_name (ApplyPatchResult _) = WorkspaceApplyPatch"
| "result_tool_name (ExecResult _) = ShellExec"
| "result_tool_name (SpawnResult _) = ShellSpawn"
| "result_tool_name (WaitResult _) = ShellWait"
| "result_tool_name (ReadOutputResult _) = ShellReadOutput"
| "result_tool_name (TerminateResult _) = ShellTerminate"

record tool_call_request =
  tq_thread_id :: thread_id
  tq_turn_id :: "turn_id option"
  tq_node_id :: "node_id option"
  tq_workspace_mount_id :: "workspace_mount_id option"
  tq_invocation :: tool_invocation

record tool_call_response =
  tp_execution_turn_id :: turn_id
  tp_summary :: string
  tp_result :: tool_result
  tp_artifact_refs :: "artifact_ref list"

end
