(* ===== verification/Tooling.thy ===== *)
theory Tooling
  imports Web Tools
begin

text \<open>
  The tools offered to the model and the calls that come back: the names and JSON schemas of
  \<open>model/tooling.rs\<close>, and the parsing of a call into a tool invocation (\<open>server/mod.rs\<close>). The
  property at the end relates the two, through the part of JSON Schema the schemas use.
\<close>

section \<open>Tool surfaces\<close>

datatype provider_tool_protocol = NativeTools | StructuredFallback

datatype tool_surface_mode = StandardSurface | ConversationOnlySurface

record provider_tool_schema =
  pts_canonical_name :: string
  pts_provider_name :: string
  pts_description :: string
  pts_input_json_schema :: json

record provider_tool_name_map =
  tnm_alias_to_canonical :: "(string \<times> string) list"
  tnm_canonical_to_alias :: "(string \<times> string) list"

definition name_map_from_pairs :: "(string \<times> string) list \<Rightarrow> provider_tool_name_map" where
  "name_map_from_pairs pairs =
     \<lparr>tnm_alias_to_canonical = tree_of (map (\<lambda>(canonical, alias). (alias, canonical)) pairs),
      tnm_canonical_to_alias = tree_of pairs\<rparr>"

definition canonical_name :: "provider_tool_name_map \<Rightarrow> string \<Rightarrow> string option" where
  "canonical_name m provider_name = map_of (tnm_alias_to_canonical m) provider_name"

definition provider_name :: "provider_tool_name_map \<Rightarrow> string \<Rightarrow> string option" where
  "provider_name m canonical = map_of (tnm_canonical_to_alias m) canonical"

record tool_surface_spec =
  tss_protocol :: provider_tool_protocol
  tss_tools :: "provider_tool_schema list"
  tss_name_map :: provider_tool_name_map

record provider_tool_call =
  ptc_call_id :: string
  ptc_tool_name :: string
  ptc_provider_tool_name :: string
  ptc_arguments :: json

record tool_result_injection =
  tri_call_id :: string
  tri_tool_name :: string
  tri_provider_tool_name :: string
  tri_result :: json
  tri_is_error :: bool
  tri_summary :: string

definition tool_name_pairs :: "(string \<times> string) list" where
  "tool_name_pairs =
     [(''workspace.list'', ''workspace_list''), (''workspace.search'', ''workspace_search''),
      (''workspace.read'', ''workspace_read''), (''workspace.write_text'', ''workspace_write_text''),
      (''workspace.apply_patch'', ''workspace_apply_patch''), (''shell.exec'', ''shell_exec''),
      (''shell.spawn'', ''shell_spawn''), (''shell.wait'', ''shell_wait''),
      (''shell.read_output'', ''shell_read_output''), (''shell.terminate'', ''shell_terminate'')]"

text \<open>Every schema is an object without further properties.\<close>

definition object_schema :: "string list \<Rightarrow> (string \<times> json) list \<Rightarrow> json" where
  "object_schema required properties =
     JObject [(''type'', JString ''object''), (''additionalProperties'', JBool False),
       (''required'', JArray (map JString required)), (''properties'', JObject properties)]"

definition type_schema :: "string \<Rightarrow> json" where
  "type_schema t = JObject [(''type'', JString t)]"

definition count_schema :: json where
  "count_schema = JObject [(''type'', JString ''integer''), (''minimum'', JInt 1)]"

definition shell_schema :: json where
  "shell_schema =
     object_schema [''command'']
       [(''command'', type_schema ''string''), (''working_dir'', type_schema ''string''),
        (''sandbox'', object_schema [''mode'', ''network_access'']
           [(''mode'', type_schema ''string''), (''network_access'', type_schema ''string'')])]"

definition task_schema :: json where
  "task_schema = object_schema [''task_id''] [(''task_id'', type_schema ''string'')]"

definition static_tool_schemas :: "(string \<times> json) list" where
  "static_tool_schemas =
     [(''workspace.list'', object_schema [''root'', ''recursive'', ''include_hidden'']
         [(''root'', type_schema ''string''), (''recursive'', type_schema ''boolean''),
          (''include_hidden'', type_schema ''boolean''), (''max_entries'', count_schema)]),
      (''workspace.search'', object_schema [''root'', ''pattern'', ''case_sensitive'', ''include_hidden'']
         [(''root'', type_schema ''string''), (''pattern'', type_schema ''string''),
          (''case_sensitive'', type_schema ''boolean''), (''include_hidden'', type_schema ''boolean''),
          (''max_results'', count_schema)]),
      (''workspace.read'', object_schema [''path'']
         [(''path'', type_schema ''string''), (''start_line'', count_schema), (''end_line'', count_schema)]),
      (''workspace.write_text'', object_schema [''path'', ''content'']
         [(''path'', type_schema ''string''), (''content'', type_schema ''string'')]),
      (''workspace.apply_patch'', object_schema [''path'', ''search'', ''replace'', ''replace_all'']
         [(''path'', type_schema ''string''), (''search'', type_schema ''string''),
          (''replace'', type_schema ''string''), (''replace_all'', type_schema ''boolean'')]),
      (''shell.exec'', shell_schema),
      (''shell.spawn'', shell_schema),
      (''shell.wait'', task_schema),
      (''shell.read_output'', task_schema),
      (''shell.terminate'', task_schema)]"

definition tool_description :: "string \<Rightarrow> string" where
  "tool_description name =
     (if name = ''workspace.list'' then
       ''List files and directories under an attached workspace path. Use this for structure ''
         @ ''discovery when you need to know what exists before searching or reading. Prefer a ''
         @ ''narrow root over the workspace root when a likely directory is known. Use ''
         @ ''recursive=false for a quick top-level map, and recursive=true only when the subtree ''
         @ ''is small or max_entries is set. Do not use this as a substitute for content search; ''
         @ ''use workspace.search when you need symbols, strings, or references. Output is ''
         @ ''structured entries with paths and directory/file metadata.''
      else if name = ''workspace.search'' then
       ''Search text across attached workspace files. Use this before guessing file locations, ''
         @ ''symbols, configuration keys, tests, or call sites. Start with the most specific ''
         @ ''stable term you know, then refine if results are noisy. Keep include_hidden=false ''
         @ ''unless hidden files are the real target. Do not use broad generic terms that will ''
         @ ''flood the context; narrow by root or pattern instead. After finding likely matches, ''
         @ ''use workspace.read with line ranges before editing.''
      else if name = ''workspace.read'' then
       ''Read a file, optionally limited to a line range. Use this after listing or searching ''
         @ ''identifies relevant files. For large files, always request the smallest useful ''
         @ ''start_line/end_line range and widen only if needed. Read before writing; do not patch ''
         @ ''files you have not inspected. Use repeated focused reads instead of loading unrelated ''
         @ ''files into the main context. Output includes file content and line metadata suitable ''
         @ ''for citations and follow-up edits.''
      else if name = ''workspace.write_text'' then
       ''Replace an entire file with provided text. Use this for new files or intentional ''
         @ ''complete rewrites only. Do not use it for surgical edits to existing files; use ''
         @ ''workspace.apply_patch so unrelated content is preserved. Before replacing an existing ''
         @ ''file, read it first and be certain the full new content is correct. After writing, ''
         @ ''read back or run a focused verification.''
      else if name = ''workspace.apply_patch'' then
       ''Apply an exact search/replace patch to one workspace file. Use this for minimal, ''
         @ ''surgical edits after reading the target region. The search text must match the ''
         @ ''existing file exactly. Keep the replacement scoped to the requested behavior and ''
         @ ''avoid opportunistic refactors. Use replace_all only for deliberate repeated ''
         @ ''mechanical changes. If a patch fails, read the current file section again before ''
         @ ''trying a different patch.''
      else if name = ''shell.exec'' then
       ''Run one short foreground shell command and return exit code, stdout, and stderr. Use ''
         @ ''this for fast checks such as cargo test on a focused target, formatting verification, ''
         @ ''git status, or simple diagnostics. Do not use it for long-running servers, watchers, ''
         @ ''or commands that need later output; use shell.spawn for those. Prefer non-destructive ''
         @ ''commands. Check the exit code and reason from the captured output before claiming ''
         @ ''success.''
      else if name = ''shell.spawn'' then
       ''Start a long-running shell process and return a task id. Use this for dev servers, ''
         @ ''watch mode tests, log tails, and commands that should keep running while liz ''
         @ ''continues the thread. Do not use it for quick commands that should complete ''
         @ ''immediately; use shell.exec. After spawning, use shell.read_output or shell.wait to ''
         @ ''observe progress, and shell.terminate when the process is no longer needed.''
      else if name = ''shell.wait'' then
       ''Wait for a background shell task to finish and return its final status and buffered ''
         @ ''output. Use this when a spawned command is expected to complete soon. Do not wait ''
         @ ''indefinitely on servers or watchers; use shell.read_output for snapshots and ''
         @ ''shell.terminate when appropriate. Always inspect the final exit status before ''
         @ ''reporting verification success.''
      else if name = ''shell.read_output'' then
       ''Read incremental stdout/stderr from a background shell task without necessarily ''
         @ ''stopping it. Use this to observe dev servers, watchers, and long-running diagnostics. ''
         @ ''Use it after shell.spawn before deciding whether a process is healthy, blocked, or ''
         @ ''ready. Do not infer success from silence; combine output, task state, and relevant ''
         @ ''follow-up checks.''
      else if name = ''shell.terminate'' then
       ''Terminate a background shell task by task id. Use this when a dev server, watcher, or ''
         @ ''long-running command is no longer needed or is blocking progress. Do not terminate ''
         @ ''unrelated tasks. Prefer reading recent output first so the final transcript explains ''
         @ ''why the process was stopped. After termination, treat the result as a side effect and ''
         @ ''report any relevant output or cleanup needs.''
      else [])"

text \<open>\<open>tool_schemas\<close>: name, description and schema of each tool.\<close>

definition tool_schemas :: "(string \<times> string \<times> json) list" where
  "tool_schemas = map (\<lambda>(name, schema). (name, tool_description name, schema)) static_tool_schemas"

text \<open>The alias of a tool without one would be a panic; \<open>the\<close> is never applied to \<open>None\<close> here
  (\<open>every_tool_has_alias\<close>).\<close>

definition standard_surface :: "provider_tool_protocol \<Rightarrow> tool_surface_spec" where
  "standard_surface protocol =
     (let name_map = name_map_from_pairs tool_name_pairs
      in \<lparr>tss_protocol = protocol,
          tss_tools = map (\<lambda>(name, description, schema).
            \<lparr>pts_canonical_name = name, pts_provider_name = the (provider_name name_map name),
             pts_description = description, pts_input_json_schema = schema\<rparr>) tool_schemas,
          tss_name_map = name_map\<rparr>)"

definition conversation_only_surface :: "provider_tool_protocol \<Rightarrow> tool_surface_spec" where
  "conversation_only_surface protocol =
     \<lparr>tss_protocol = protocol, tss_tools = [], tss_name_map = name_map_from_pairs []\<rparr>"

definition structured_fallback_instructions :: "tool_surface_spec \<Rightarrow> string" where
  "structured_fallback_instructions spec =
     (if tss_tools spec = []
      then ''No runtime tools are available for this turn. Answer directly in prose and do not emit ''
             @ ''<liz_tool_call> blocks.''
      else join [CHR 0x0A]
        ([''When you need runtime tools, emit exactly one <liz_tool_call> JSON object.'',
          ''Do not narrate the tool call in prose.'',
          ''Schema: {'' @ [CHR 0x22] @ ''tool_name'' @ [CHR 0x22] @ '':'' @ [CHR 0x22]
            @ ''<provider_tool_name>'' @ [CHR 0x22] @ '','' @ [CHR 0x22] @ ''arguments'' @ [CHR 0x22]
            @ '':{...}}'',
          ''Allowed provider tool names:'']
         @ map (\<lambda>(canonical, alias). ''- '' @ alias @ '' (maps to '' @ canonical @ '')'')
             (tnm_canonical_to_alias (tss_name_map spec))
         @ [''Wait for a <liz_tool_result> block before deciding next step or claiming completion.'']))"

section \<open>Parsing a call\<close>

definition required_string_field :: "json \<Rightarrow> string \<Rightarrow> string + string" where
  "required_string_field value field =
     (case Option.bind (json_get value field) as_str of
        Some s \<Rightarrow> Inr s
      | None \<Rightarrow> Inl (''missing required string field `'' @ field @ ''`''))"

definition optional_string_field :: "json \<Rightarrow> string \<Rightarrow> string option" where
  "optional_string_field value field = Option.bind (json_get value field) as_str"

definition optional_bool_field :: "json \<Rightarrow> string \<Rightarrow> bool option" where
  "optional_bool_field value field = Option.bind (json_get value field) as_bool"

definition optional_usize_field :: "json \<Rightarrow> string \<Rightarrow> nat option" where
  "optional_usize_field value field = Option.bind (json_get value field) as_u64"

text \<open>\<open>serde_json\<close> reads a variant without fields from its name, or from an object that maps its name
  to null.\<close>

fun variant_name :: "json \<Rightarrow> string option" where
  "variant_name (JString s) = Some s"
| "variant_name (JObject [(s, JNull)]) = Some s"
| "variant_name _ = None"

definition sandbox_modes :: "sandbox_mode list" where
  "sandbox_modes = [ReadOnly, WorkspaceWrite, DangerFullAccess, ExternalSandbox]"

definition network_accesses :: "sandbox_network_access list" where
  "network_accesses = [Disabled, Restricted, Enabled]"

definition sandbox_mode_from_value :: "json \<Rightarrow> sandbox_mode option" where
  "sandbox_mode_from_value v =
     Option.bind (variant_name v) (\<lambda>s. find (\<lambda>m. sandbox_mode_as_str m = s) sandbox_modes)"

definition network_access_from_value :: "json \<Rightarrow> sandbox_network_access option" where
  "network_access_from_value v =
     Option.bind (variant_name v) (\<lambda>s. find (\<lambda>a. network_access_as_str a = s) network_accesses)"

definition parse_shell_sandbox_request :: "json option \<Rightarrow> shell_sandbox_request option" where
  "parse_shell_sandbox_request value =
     Option.bind value (\<lambda>v.
     Option.bind (Option.bind (json_get v ''mode'') sandbox_mode_from_value) (\<lambda>mode.
     Option.bind (Option.bind (json_get v ''network_access'') network_access_from_value) (\<lambda>network.
     Some \<lparr>rq_mode = mode, rq_network_access = network\<rparr>)))"

text \<open>\<open>?\<close> on a parse result.\<close>

fun and_then :: "'e + 'a \<Rightarrow> ('a \<Rightarrow> 'e + 'b) \<Rightarrow> 'e + 'b" where
  "and_then (Inl e) f = Inl e"
| "and_then (Inr a) f = f a"

definition parse_tool_invocation :: "string \<Rightarrow> json \<Rightarrow> string + tool_invocation" where
  "parse_tool_invocation tool_name value =
     (if tool_name = ''workspace.list'' then
        and_then (required_string_field value ''root'') (\<lambda>root.
        Inr (InvokeList \<lparr>wl_root = root,
          wl_recursive = unwrap_or False (optional_bool_field value ''recursive''),
          wl_include_hidden = unwrap_or False (optional_bool_field value ''include_hidden''),
          wl_max_entries = optional_usize_field value ''max_entries''\<rparr>))
      else if tool_name = ''workspace.search'' then
        and_then (required_string_field value ''root'') (\<lambda>root.
        and_then (required_string_field value ''pattern'') (\<lambda>pattern.
        Inr (InvokeSearch \<lparr>ws_root = root, ws_pattern = pattern,
          ws_case_sensitive = unwrap_or False (optional_bool_field value ''case_sensitive''),
          ws_include_hidden = unwrap_or False (optional_bool_field value ''include_hidden''),
          ws_max_results = optional_usize_field value ''max_results''\<rparr>)))
      else if tool_name = ''workspace.read'' then
        and_then (required_string_field value ''path'') (\<lambda>path.
        Inr (InvokeRead \<lparr>wr_path = path, wr_start_line = optional_usize_field value ''start_line'',
          wr_end_line = optional_usize_field value ''end_line''\<rparr>))
      else if tool_name = ''workspace.write_text'' then
        and_then (required_string_field value ''path'') (\<lambda>path.
        and_then (required_string_field value ''content'') (\<lambda>content.
        Inr (InvokeWriteText \<lparr>ww_path = path, ww_content = content\<rparr>)))
      else if tool_name = ''workspace.apply_patch'' then
        and_then (required_string_field value ''path'') (\<lambda>path.
        and_then (required_string_field value ''search'') (\<lambda>search.
        and_then (required_string_field value ''replace'') (\<lambda>replace.
        Inr (InvokeApplyPatch \<lparr>wp_path = path, wp_search = search, wp_replace = replace,
          wp_replace_all = unwrap_or False (optional_bool_field value ''replace_all'')\<rparr>))))
      else if tool_name = ''shell.exec'' then
        and_then (required_string_field value ''command'') (\<lambda>command.
        Inr (InvokeExec \<lparr>se_command = command, se_working_dir = optional_string_field value ''working_dir'',
          se_sandbox = parse_shell_sandbox_request (json_get value ''sandbox'')\<rparr>))
      else if tool_name = ''shell.spawn'' then
        and_then (required_string_field value ''command'') (\<lambda>command.
        Inr (InvokeSpawn \<lparr>sp_command = command, sp_working_dir = optional_string_field value ''working_dir'',
          sp_sandbox = parse_shell_sandbox_request (json_get value ''sandbox'')\<rparr>))
      else if tool_name = ''shell.wait'' then
        and_then (required_string_field value ''task_id'') (\<lambda>task. Inr (InvokeWait \<lparr>sw_task_id = task\<rparr>))
      else if tool_name = ''shell.read_output'' then
        and_then (required_string_field value ''task_id'') (\<lambda>task. Inr (InvokeReadOutput \<lparr>so_task_id = task\<rparr>))
      else if tool_name = ''shell.terminate'' then
        and_then (required_string_field value ''task_id'') (\<lambda>task. Inr (InvokeTerminate \<lparr>st_task_id = task\<rparr>))
      else Inl (''unknown tool name: '' @ tool_name))"

section \<open>The schemas and the parser agree\<close>

lemma json_get_size: "json_get v k = Some s \<Longrightarrow> size s < size v"
proof (cases v)
  case (JObject kvs)
  assume "json_get v k = Some s"
  then have "(k, s) \<in> set kvs" using JObject by (simp add: map_of_SomeD)
  then have "size s \<le> size_list (size_prod (\<lambda>_. 0) size) kvs"
    using size_list_estimation' [of "(k, s)" kvs "size s" "size_prod (\<lambda>_. 0) size"] by simp
  then show ?thesis using JObject by simp
qed simp_all

lemma property_size:
  "map_of ps k = Some s \<Longrightarrow> Some (JObject ps) = json_get schema p \<Longrightarrow> size s < size schema"
  using json_get_size [of "JObject ps" k s] json_get_size [of schema p "JObject ps"] by simp

text \<open>
  JSON Schema as far as the schemas use it: a type, the minimum of an integer, and for an object
  its required and its only properties. A parsed integer is below \<open>2 ^ 64\<close>.
\<close>

function conforms :: "json \<Rightarrow> json \<Rightarrow> bool" where
  "conforms schema v =
     (case json_get schema ''type'' of
        Some (JString t) \<Rightarrow>
          if t = ''string'' then as_str v \<noteq> None
          else if t = ''boolean'' then as_bool v \<noteq> None
          else if t = ''integer'' then
            (case (v, json_get schema ''minimum'') of
               (JInt i, Some (JInt low)) \<Rightarrow> low \<le> i \<and> i < 2 ^ 64 | _ \<Rightarrow> False)
          else if t = ''object'' then
            (case (v, json_get schema ''properties'', json_get schema ''required'') of
               (JObject kvs, Some (JObject properties), Some (JArray required)) \<Rightarrow>
                 distinct (map fst kvs) \<and>
                 (\<forall>r \<in> set required. \<exists>k \<in> fst ` set kvs. r = JString k) \<and>
                 (\<forall>(k, x) \<in> set kvs. case json_get (JObject properties) k of
                    None \<Rightarrow> False | Some s \<Rightarrow> conforms s x)
             | _ \<Rightarrow> False)
          else False
      | _ \<Rightarrow> False)"
  by pat_completeness auto
termination
  by (relation "measure (size \<circ> fst)") (auto intro: property_size)

declare conforms.simps [simp del]

lemma schema_gets [simp]:
  "json_get (object_schema r ps) ''type'' = Some (JString ''object'')"
  "json_get (object_schema r ps) ''properties'' = Some (JObject ps)"
  "json_get (object_schema r ps) ''required'' = Some (JArray (map JString r))"
  "json_get (type_schema t) ''type'' = Some (JString t)"
  "json_get count_schema ''type'' = Some (JString ''integer'')"
  "json_get count_schema ''minimum'' = Some (JInt 1)"
  by (simp_all add: object_schema_def type_schema_def count_schema_def)

lemma conforms_object:
  "conforms (object_schema r ps) v \<longleftrightarrow>
     (\<exists>kvs. v = JObject kvs \<and> distinct (map fst kvs) \<and> set r \<subseteq> fst ` set kvs \<and>
        (\<forall>(k, x) \<in> set kvs. \<exists>s. map_of ps k = Some s \<and> conforms s x))"
proof (cases v)
  case (JObject kvs)
  have typed: "(case map_of ps k of None \<Rightarrow> False | Some s \<Rightarrow> conforms s x) =
      (\<exists>s. map_of ps k = Some s \<and> conforms s x)" for k x
    by (simp split: option.split)
  have present: "(\<forall>f \<in> set r. \<exists>k \<in> set kvs. f = fst k) = (set r \<subseteq> fst ` set kvs)"
    by (auto simp: image_iff subset_iff)
  show ?thesis
    using JObject by (simp add: conforms.simps [of "object_schema r ps"] typed present split_beta)
qed (simp_all add: conforms.simps [of "object_schema r ps"])

lemma conforms_string: "conforms (type_schema ''string'') v \<longleftrightarrow> (\<exists>s. v = JString s)"
  by (cases v) (simp_all add: conforms.simps [of "type_schema ''string''"])

lemma required_field:
  assumes "conforms (object_schema r ps) v" and "f \<in> set r" and "map_of ps f = Some (type_schema ''string'')"
  shows "\<exists>s. required_string_field v f = Inr s"
proof -
  obtain kvs where v: "v = JObject kvs" "set r \<subseteq> fst ` set kvs" "distinct (map fst kvs)"
    and typed: "\<And>k x. (k, x) \<in> set kvs \<Longrightarrow> \<exists>s. map_of ps k = Some s \<and> conforms s x"
    using assms(1) [unfolded conforms_object] by fast
  from v(2) assms(2) have "f \<in> fst ` set kvs" by (rule subsetD)
  then obtain x where x: "(f, x) \<in> set kvs" by (auto simp: image_iff)
  with typed [OF x] assms(3) obtain s where "x = JString s" by (auto simp: conforms_string)
  with x v(1,3) show ?thesis by (simp add: required_string_field_def)
qed

lemma every_tool_has_alias:
  "fst x \<in> fst ` set tool_schemas \<Longrightarrow> provider_name (name_map_from_pairs tool_name_pairs) (fst x) \<noteq> None"
  by (auto simp: tool_schemas_def static_tool_schemas_def provider_name_def name_map_from_pairs_def
      tool_name_pairs_def tree_of_def map_of_tree_extend)

lemma alias_bijection:
  "canonical_name (name_map_from_pairs tool_name_pairs) a = Some n \<longleftrightarrow>
   provider_name (name_map_from_pairs tool_name_pairs) n = Some a"
  by (auto simp: canonical_name_def provider_name_def name_map_from_pairs_def
      tool_name_pairs_def tree_of_def map_of_tree_extend split: if_splits)

lemma parses_list:
  assumes "conforms (object_schema [''root'', ''recursive'', ''include_hidden'']
      [(''root'', type_schema ''string''), (''recursive'', type_schema ''boolean''),
      (''include_hidden'', type_schema ''boolean''), (''max_entries'', count_schema)]) v"
  shows "\<exists>inv. parse_tool_invocation ''workspace.list'' v = Inr inv \<and>
    tool_name_as_str (invocation_tool_name inv) = ''workspace.list''"
  using required_field [OF assms, of "''root''"]
  by (auto simp: parse_tool_invocation_def)

lemma parses_search:
  assumes "conforms (object_schema [''root'', ''pattern'', ''case_sensitive'', ''include_hidden'']
      [(''root'', type_schema ''string''), (''pattern'', type_schema ''string''),
      (''case_sensitive'', type_schema ''boolean''), (''include_hidden'', type_schema ''boolean''),
      (''max_results'', count_schema)]) v"
  shows "\<exists>inv. parse_tool_invocation ''workspace.search'' v = Inr inv \<and>
    tool_name_as_str (invocation_tool_name inv) = ''workspace.search''"
  using required_field [OF assms, of "''root''"]
    required_field [OF assms, of "''pattern''"]
  by (auto simp: parse_tool_invocation_def)

lemma parses_read:
  assumes "conforms (object_schema [''path'']
      [(''path'', type_schema ''string''), (''start_line'', count_schema), (''end_line'', count_schema)]) v"
  shows "\<exists>inv. parse_tool_invocation ''workspace.read'' v = Inr inv \<and>
    tool_name_as_str (invocation_tool_name inv) = ''workspace.read''"
  using required_field [OF assms, of "''path''"]
  by (auto simp: parse_tool_invocation_def)

lemma parses_write_text:
  assumes "conforms (object_schema [''path'', ''content'']
      [(''path'', type_schema ''string''), (''content'', type_schema ''string'')]) v"
  shows "\<exists>inv. parse_tool_invocation ''workspace.write_text'' v = Inr inv \<and>
    tool_name_as_str (invocation_tool_name inv) = ''workspace.write_text''"
  using required_field [OF assms, of "''path''"]
    required_field [OF assms, of "''content''"]
  by (auto simp: parse_tool_invocation_def)

lemma parses_apply_patch:
  assumes "conforms (object_schema [''path'', ''search'', ''replace'', ''replace_all'']
      [(''path'', type_schema ''string''), (''search'', type_schema ''string''),
      (''replace'', type_schema ''string''), (''replace_all'', type_schema ''boolean'')]) v"
  shows "\<exists>inv. parse_tool_invocation ''workspace.apply_patch'' v = Inr inv \<and>
    tool_name_as_str (invocation_tool_name inv) = ''workspace.apply_patch''"
  using required_field [OF assms, of "''path''"]
    required_field [OF assms, of "''search''"]
    required_field [OF assms, of "''replace''"]
  by (auto simp: parse_tool_invocation_def)

lemma parses_exec:
  assumes "conforms (shell_schema) v"
  shows "\<exists>inv. parse_tool_invocation ''shell.exec'' v = Inr inv \<and>
    tool_name_as_str (invocation_tool_name inv) = ''shell.exec''"
  using required_field [OF assms[unfolded shell_schema_def], of "''command''"]
  by (auto simp: parse_tool_invocation_def)

lemma parses_spawn:
  assumes "conforms (shell_schema) v"
  shows "\<exists>inv. parse_tool_invocation ''shell.spawn'' v = Inr inv \<and>
    tool_name_as_str (invocation_tool_name inv) = ''shell.spawn''"
  using required_field [OF assms[unfolded shell_schema_def], of "''command''"]
  by (auto simp: parse_tool_invocation_def)

lemma parses_wait:
  assumes "conforms (task_schema) v"
  shows "\<exists>inv. parse_tool_invocation ''shell.wait'' v = Inr inv \<and>
    tool_name_as_str (invocation_tool_name inv) = ''shell.wait''"
  using required_field [OF assms[unfolded task_schema_def], of "''task_id''"]
  by (auto simp: parse_tool_invocation_def)

lemma parses_read_output:
  assumes "conforms (task_schema) v"
  shows "\<exists>inv. parse_tool_invocation ''shell.read_output'' v = Inr inv \<and>
    tool_name_as_str (invocation_tool_name inv) = ''shell.read_output''"
  using required_field [OF assms[unfolded task_schema_def], of "''task_id''"]
  by (auto simp: parse_tool_invocation_def)

lemma parses_terminate:
  assumes "conforms (task_schema) v"
  shows "\<exists>inv. parse_tool_invocation ''shell.terminate'' v = Inr inv \<and>
    tool_name_as_str (invocation_tool_name inv) = ''shell.terminate''"
  using required_field [OF assms[unfolded task_schema_def], of "''task_id''"]
  by (auto simp: parse_tool_invocation_def)

lemmas tool_parses =
  parses_list parses_search parses_read parses_write_text parses_apply_patch
  parses_exec parses_spawn parses_wait parses_read_output parses_terminate

text \<open>C31: what the model is offered is what the server understands. The tools of the standard surface are
  exactly the names the parser knows: any other name is refused as unknown. Arguments that conform
  to the schema of a tool parse to an invocation of that tool. The names offered to providers stand
  for one tool each.\<close>

theorem offered_tools_parse:
  "(name \<notin> fst ` set tool_schemas \<longrightarrow>
      parse_tool_invocation name v = Inl (''unknown tool name: '' @ name)) \<and>
   ((name, description, schema) \<in> set tool_schemas \<and> conforms schema v \<longrightarrow>
      (\<exists>inv. parse_tool_invocation name v = Inr inv \<and>
         tool_name_as_str (invocation_tool_name inv) = name)) \<and>
   (canonical_name (tss_name_map (standard_surface p)) alias = Some name \<longleftrightarrow>
      provider_name (tss_name_map (standard_surface p)) name = Some alias)"
proof (intro conjI impI)
  assume "name \<notin> fst ` set tool_schemas"
  then show "parse_tool_invocation name v = Inl (''unknown tool name: '' @ name)"
    by (simp add: tool_schemas_def static_tool_schemas_def parse_tool_invocation_def)
next
  assume tool: "(name, description, schema) \<in> set tool_schemas \<and> conforms schema v"
  then have "(name, schema) \<in> set static_tool_schemas" and c: "conforms schema v"
    by (auto simp: tool_schemas_def)
  then show "\<exists>inv. parse_tool_invocation name v = Inr inv \<and>
      tool_name_as_str (invocation_tool_name inv) = name"
    unfolding static_tool_schemas_def list.set insert_iff empty_iff prod.inject simp_thms
    by (elim disjE conjE) (simp_all only: tool_parses)
next
  show "canonical_name (tss_name_map (standard_surface p)) alias = Some name \<longleftrightarrow>
      provider_name (tss_name_map (standard_surface p)) name = Some alias"
    by (simp add: standard_surface_def Let_def alias_bijection)
qed

theorem offered_tools_parse_witness:
  "\<exists>inv. parse_tool_invocation ''shell.wait'' (JObject [(''task_id'', JString ''t'')]) = Inr inv \<and>
     tool_name_as_str (invocation_tool_name inv) = ''shell.wait''"
proof -
  have "(''shell.wait'', tool_description ''shell.wait'', task_schema) \<in> set tool_schemas"
    by (simp add: tool_schemas_def static_tool_schemas_def)
  moreover have "conforms task_schema (JObject [(''task_id'', JString ''t'')])"
    by (simp add: task_schema_def conforms_object conforms_string)
  ultimately show ?thesis
    using offered_tools_parse [where name = "''shell.wait''" and description = "tool_description ''shell.wait''"
        and schema = task_schema and v = "JObject [(''task_id'', JString ''t'')]"] by blast
qed

text \<open>A sandbox override the server does not understand is dropped without an error, although it
  conforms to the schema: the command then runs under the default sandbox.\<close>

lemma unknown_sandbox_dropped:
  "parse_tool_invocation ''shell.exec'' (JObject [(''command'', JString ''ls''),
      (''sandbox'', JObject [(''mode'', JString ''readonly''), (''network_access'', JString ''disabled'')])]) =
    Inr (InvokeExec \<lparr>se_command = ''ls'', se_working_dir = None, se_sandbox = None\<rparr>)"
  by (simp add: parse_tool_invocation_def required_string_field_def optional_string_field_def
      parse_shell_sandbox_request_def sandbox_mode_from_value_def sandbox_modes_def)

end
