(* ===== verification/Gateway.thy ===== *)
theory Gateway
  imports Tooling
begin

text \<open>
  What the server hands to the model layer and gets back (\<open>model/gateway.rs\<close>, \<open>config.rs\<close>,
  \<open>normalized_stream.rs\<close>, and the configuration file of \<open>config.rs\<close> at the root of the server): turn
  requests with their prompts and tool results, the events and the summary of a run, the provider
  overrides of a gateway and how they are merged. A run itself is the work of a provider adapter
  against a remote service: \<open>model_service\<close> is any function from the number of the call, the
  configuration and the request to the events it emits and its outcome.
\<close>

section \<open>Configuration\<close>

record provider_override =
  po_base_url :: "string option"
  po_api_key :: "string option"
  po_model_id :: "string option"
  po_headers :: "(string \<times> string) list"
  po_metadata :: "(string \<times> string) list"

definition no_override :: provider_override where
  "no_override = \<lparr>po_base_url = None, po_api_key = None, po_model_id = None, po_headers = [],
     po_metadata = []\<rparr>"

record model_gateway_config =
  gc_primary_provider :: string
  gc_overrides :: "(string \<times> provider_override) list"

text \<open>The fields \<open>b\<close> has replace those of \<open>a\<close>, its maps extend those of \<open>a\<close>.\<close>

definition merge_override :: "provider_override \<Rightarrow> provider_override \<Rightarrow> provider_override" where
  "merge_override a b =
     \<lparr>po_base_url = opt_or (po_base_url b) (po_base_url a),
      po_api_key = opt_or (po_api_key b) (po_api_key a),
      po_model_id = opt_or (po_model_id b) (po_model_id a),
      po_headers = tree_extend (po_headers a) (po_headers b),
      po_metadata = tree_extend (po_metadata a) (po_metadata b)\<rparr>"

definition with_provider_override ::
  "string \<Rightarrow> provider_override \<Rightarrow> model_gateway_config \<Rightarrow> model_gateway_config" where
  "with_provider_override i ov c =
     c\<lparr>gc_overrides := tree_insert i
         (case map_of (gc_overrides c) i of Some existing \<Rightarrow> merge_override existing ov | None \<Rightarrow> ov)
         (gc_overrides c)\<rparr>"

text \<open>\<open>ModelGatewayConfig::from_env\<close>.\<close>

definition env_headers :: "(string \<Rightarrow> string option) \<Rightarrow> (string \<times> string) list" where
  "env_headers env = tree_of
     ((case env ''LIZ_PROVIDER_REFERER'' of Some v \<Rightarrow> [(''HTTP-Referer'', v)] | None \<Rightarrow> [])
      @ (case env ''LIZ_PROVIDER_TITLE'' of Some v \<Rightarrow> [(''X-Title'', v)] | None \<Rightarrow> []))"

definition config_from_env :: "(string \<Rightarrow> string option) \<Rightarrow> model_gateway_config" where
  "config_from_env env =
     (let primary = unwrap_or ''openai'' (env ''LIZ_PROVIDER'');
          ov = \<lparr>po_base_url = env ''LIZ_PROVIDER_BASE_URL'', po_api_key = env ''LIZ_PROVIDER_API_KEY'',
                po_model_id = env ''LIZ_PROVIDER_MODEL'', po_headers = env_headers env, po_metadata = []\<rparr>
      in \<lparr>gc_primary_provider = primary,
          gc_overrides =
            (if po_base_url ov \<noteq> None \<or> po_api_key ov \<noteq> None \<or> po_model_id ov \<noteq> None \<or> po_headers ov \<noteq> []
             then [(primary, ov)] else [])\<rparr>)"

text \<open>The configuration file: \<open>LizConfigFile\<close> and its entries, which have the fields of an override.\<close>

record liz_config_file =
  lf_primary_provider :: "string option"
  lf_providers :: "(string \<times> provider_override) list"

definition into_gateway_config ::
  "liz_config_file \<Rightarrow> model_gateway_config \<Rightarrow> model_gateway_config" where
  "into_gateway_config f env_config =
     \<lparr>gc_primary_provider = unwrap_or (gc_primary_provider env_config) (lf_primary_provider f),
      gc_overrides =
        foldl (\<lambda>m (i, p). tree_insert i (merge_override (unwrap_or no_override (map_of m i)) p) m)
          (gc_overrides env_config) (lf_providers f)\<rparr>"

section \<open>Requests\<close>

record model_turn_request =
  mtr_thread :: thread
  mtr_turn :: turn
  mtr_system_prompt :: string
  mtr_developer_prompt :: string
  mtr_user_prompt :: string
  mtr_prompt :: string
  mtr_tool_result_injections :: "tool_result_injection list"
  mtr_tool_surface_mode :: tool_surface_mode

definition newline :: string where
  "newline = [CHR 0x0A]"

definition render_instruction_prompt :: "string \<Rightarrow> string \<Rightarrow> string" where
  "render_instruction_prompt system developer =
     (let a = trim system; b = trim developer
      in if a = [] then b else if b = [] then a else a @ newline @ newline @ b)"

definition render_flattened_prompt :: "string \<Rightarrow> string \<Rightarrow> string \<Rightarrow> string" where
  "render_flattened_prompt system developer user =
     (let a = render_instruction_prompt system developer; b = trim user
      in if a = [] then (if b = [] then [] else ''user:'' @ newline @ b)
         else if b = [] then ''system:'' @ newline @ a
         else ''system:'' @ newline @ a @ newline @ newline @ ''user:'' @ newline @ b)"

definition from_prompt_parts ::
  "thread \<Rightarrow> turn \<Rightarrow> string \<Rightarrow> string \<Rightarrow> string \<Rightarrow> model_turn_request" where
  "from_prompt_parts th t system developer user =
     \<lparr>mtr_thread = th, mtr_turn = t, mtr_system_prompt = system, mtr_developer_prompt = developer,
      mtr_user_prompt = user, mtr_prompt = render_flattened_prompt system developer user,
      mtr_tool_result_injections = [], mtr_tool_surface_mode = StandardSurface\<rparr>"

definition instruction_prompt :: "model_turn_request \<Rightarrow> string" where
  "instruction_prompt rq = render_instruction_prompt (mtr_system_prompt rq) (mtr_developer_prompt rq)"

section \<open>Runs\<close>

record usage_delta =
  ud_input_tokens :: "32 word"
  ud_output_tokens :: "32 word"
  ud_reasoning_tokens :: "32 word"
  ud_cache_hit_tokens :: "32 word"
  ud_cache_write_tokens :: "32 word"

definition usage_add :: "usage_delta \<Rightarrow> usage_delta \<Rightarrow> usage_delta" where
  "usage_add a b =
     \<lparr>ud_input_tokens = ud_input_tokens a + ud_input_tokens b,
      ud_output_tokens = ud_output_tokens a + ud_output_tokens b,
      ud_reasoning_tokens = ud_reasoning_tokens a + ud_reasoning_tokens b,
      ud_cache_hit_tokens = ud_cache_hit_tokens a + ud_cache_hit_tokens b,
      ud_cache_write_tokens = ud_cache_write_tokens a + ud_cache_write_tokens b\<rparr>"

datatype normalized_turn_event =
  AssistantDelta string
| AssistantMessage string
| CallStarted (call_id: string) (call_tool: string) (call_summary: string)
| CallDelta string string string "string option"
| CallCommitted string string string
| UsageEvent usage_delta
| ProviderRawEvent string

record model_run_summary =
  rn_assistant_message :: "string option"
  rn_usage :: usage_delta
  rn_tool_calls :: "provider_tool_call list"

type_synonym model_outcome = "normalized_turn_event list \<times> (model_error + model_run_summary)"
type_synonym model_service = "nat \<Rightarrow> model_gateway_config \<Rightarrow> model_turn_request \<Rightarrow> model_outcome"

text \<open>\<open>complete_text\<close>: a run without tools, on a thread of its own, whose events are dropped.\<close>

definition text_thread_id :: thread_id where
  "text_thread_id = ''thread_model_text''"

definition text_turn :: turn where
  "text_turn =
     \<lparr>tn_id = ''turn_model_text'', tn_thread_id = text_thread_id, tn_kind = Compilation,
      tn_status = turn_status.Running, tn_started_at = ''model:ephemeral'', tn_ended_at = None,
      tn_goal = Some ''Complete no-tool model request'', tn_summary = None,
      tn_checkpoint_before = None, tn_checkpoint_after = None\<rparr>"

definition text_thread :: thread where
  "text_thread =
     \<lparr>th_id = text_thread_id, th_title = ''No-tool model request'', th_status = thread_status.Active,
      th_created_at = ''model:ephemeral'', th_updated_at = ''model:ephemeral'', th_active_goal = None,
      th_active_summary = None, th_last_interruption = None, th_workspace_ref = None,
      th_workspace_mount_id = None, th_pending_commitments = [],
      th_latest_turn_id = Some (tn_id text_turn), th_latest_checkpoint_id = None,
      th_parent_thread_id = None\<rparr>"

definition text_request :: "string \<Rightarrow> string \<Rightarrow> string \<Rightarrow> model_turn_request" where
  "text_request system developer user =
     (from_prompt_parts text_thread text_turn system developer user)
       \<lparr>mtr_tool_surface_mode := ConversationOnlySurface\<rparr>"

fun completed_text :: "model_error + model_run_summary \<Rightarrow> model_error + string" where
  "completed_text (Inl e) = Inl e"
| "completed_text (Inr summary) =
     (if rn_tool_calls summary \<noteq> []
      then Inl (ProviderFailure ''no-tool model request returned tool calls'')
      else Inr (unwrap_or [] (rn_assistant_message summary)))"

section \<open>Facts\<close>

text \<open>A configuration file wins over the environment field by field and leaves the providers it does not
  name as the environment set them.\<close>

lemma merge_none: "merge_override no_override p =
    p\<lparr>po_headers := tree_of (po_headers p), po_metadata := tree_of (po_metadata p)\<rparr>"
  by (cases "po_base_url p"; cases "po_api_key p"; cases "po_model_id p")
    (simp_all add: merge_override_def no_override_def opt_or_def tree_of_def)

lemma overrides_fold:
  "i \<notin> set (map fst ps) \<Longrightarrow>
   map_of (foldl (\<lambda>m (i, p). tree_insert i (merge_override (unwrap_or no_override (map_of m i)) p) m) m ps) i
     = map_of m i"
  by (induction ps arbitrary: m) auto

lemma file_overrides:
  assumes "distinct (map fst (lf_providers f))"
  shows "map_of (gc_overrides (into_gateway_config f c)) i =
    (case map_of (lf_providers f) i of
       None \<Rightarrow> map_of (gc_overrides c) i
     | Some p \<Rightarrow> Some (merge_override (unwrap_or no_override (map_of (gc_overrides c) i)) p))"
proof -
  have "map_of (foldl (\<lambda>m (i, p). tree_insert i (merge_override (unwrap_or no_override (map_of m i)) p) m) m ps) i =
      (case map_of ps i of None \<Rightarrow> map_of m i
       | Some p \<Rightarrow> Some (merge_override (unwrap_or no_override (map_of m i)) p))"
    if "distinct (map fst ps)" for m ps
    using that
  proof (induction ps arbitrary: m)
    case (Cons x ps)
    obtain j p where x: "x = (j, p)" by (cases x)
    show ?case
    proof (cases "i = j")
      case True
      with Cons.prems x show ?thesis by (simp add: overrides_fold)
    next
      case False
      with Cons x show ?thesis by (auto split: option.split)
    qed
  qed simp
  with assms show ?thesis by (simp add: into_gateway_config_def)
qed

end
