(* ===== verification/Providers.thy ===== *)
theory Providers
  imports Gateway
begin

text \<open>
  The table of model providers (\<open>model/registry.rs\<close>) and the types of its entries (\<open>model/provider_spec.rs\<close>,
  \<open>family.rs\<close>, \<open>capabilities.rs\<close>): who is supported, over which family of protocols, with which credentials,
  default endpoint, default model and capabilities. The table is in the order of the source, with all
  of its texts; the registry is the sorted map of it.
\<close>

section \<open>Types\<close>

datatype model_provider_family =
  OpenAiResponses | OpenAiCompatible | AnthropicMessages | GoogleGenerativeAi | GoogleVertex
| GoogleVertexAnthropic | AwsBedrockConverse | GitHubCopilot | GitLabDuo

fun transport_label :: "model_provider_family \<Rightarrow> string" where
  "transport_label OpenAiResponses = ''openai-responses''"
| "transport_label OpenAiCompatible = ''openai-compatible''"
| "transport_label AnthropicMessages = ''anthropic-messages''"
| "transport_label GoogleGenerativeAi = ''google-generative-ai''"
| "transport_label GoogleVertex = ''google-vertex''"
| "transport_label GoogleVertexAnthropic = ''google-vertex-anthropic''"
| "transport_label AwsBedrockConverse = ''aws-bedrock-converse''"
| "transport_label GitHubCopilot = ''github-copilot''"
| "transport_label GitLabDuo = ''gitlab-duo''"

datatype provider_auth_kind =
  ApiKeyAuth | OAuthAuth | DeviceCodeAuth | AwsCredentialChain | GoogleApplicationDefault | ServiceKey
| SetupToken | CliSession | PersonalAccessToken | EntraId | LocalAuth | HybridAuth

fun auth_kind_label :: "provider_auth_kind \<Rightarrow> string" where
  "auth_kind_label ApiKeyAuth = ''api-key''"
| "auth_kind_label OAuthAuth = ''oauth''"
| "auth_kind_label DeviceCodeAuth = ''device-code''"
| "auth_kind_label AwsCredentialChain = ''aws-credential-chain''"
| "auth_kind_label GoogleApplicationDefault = ''google-adc''"
| "auth_kind_label ServiceKey = ''service-key''"
| "auth_kind_label SetupToken = ''setup-token''"
| "auth_kind_label CliSession = ''cli-session''"
| "auth_kind_label PersonalAccessToken = ''personal-access-token''"
| "auth_kind_label EntraId = ''entra-id''"
| "auth_kind_label LocalAuth = ''local''"
| "auth_kind_label HybridAuth = ''hybrid''"

datatype provider_implementation_status = Ready | Unimplemented

record provider_auth_strategy =
  pas_kind :: provider_auth_kind
  pas_label :: string
  pas_env_keys :: "string list"
  pas_config_keys :: "string list"
  pas_notes :: "string list"

record model_capabilities =
  mcp_native_tool_calls :: bool
  mcp_structured_tool_protocol :: bool
  mcp_tool_result_continuation :: bool
  mcp_streaming_tool_call_delta :: bool
  mcp_assistant_text_streaming :: bool
  mcp_tool_call_streaming :: bool
  mcp_tool_call_patching :: bool
  mcp_interleaved_text_and_tool_calls :: bool
  mcp_parallel_tool_calls :: bool
  mcp_strict_tool_schema :: bool
  mcp_prompt_caching :: bool
  mcp_server_side_conversation_state :: bool
  mcp_reasoning_token_accounting :: bool
  mcp_image_input :: bool
  mcp_max_context_window :: nat

record provider_spec =
  psp_id :: string
  psp_display_name :: string
  psp_family :: model_provider_family
  psp_auth_kind :: provider_auth_kind
  psp_auth_strategies :: "provider_auth_strategy list"
  psp_default_base_url :: "string option"
  psp_default_model :: string
  psp_api_key_envs :: "string list"
  psp_required_envs :: "string list"
  psp_default_headers :: "(string \<times> string) list"
  psp_capabilities :: model_capabilities
  psp_implementation_status :: provider_implementation_status
  psp_notes :: "string list"

section \<open>Capabilities\<close>

definition openai_streaming :: model_capabilities where
  "openai_streaming =
     \<lparr>mcp_native_tool_calls = True, mcp_structured_tool_protocol = True,
       mcp_tool_result_continuation = True, mcp_streaming_tool_call_delta = True,
       mcp_assistant_text_streaming = True, mcp_tool_call_streaming = True,
       mcp_tool_call_patching = True, mcp_interleaved_text_and_tool_calls = True,
       mcp_parallel_tool_calls = False, mcp_strict_tool_schema = True, mcp_prompt_caching = False,
       mcp_server_side_conversation_state = False, mcp_reasoning_token_accounting = True,
       mcp_image_input = True, mcp_max_context_window = 128000\<rparr>"

definition openai_compatible :: model_capabilities where
  "openai_compatible =
     \<lparr>mcp_native_tool_calls = True, mcp_structured_tool_protocol = True,
       mcp_tool_result_continuation = True, mcp_streaming_tool_call_delta = False,
       mcp_assistant_text_streaming = True, mcp_tool_call_streaming = False,
       mcp_tool_call_patching = False, mcp_interleaved_text_and_tool_calls = False,
       mcp_parallel_tool_calls = False, mcp_strict_tool_schema = False, mcp_prompt_caching = False,
       mcp_server_side_conversation_state = False, mcp_reasoning_token_accounting = False,
       mcp_image_input = False, mcp_max_context_window = 32000\<rparr>"

definition anthropic_messages :: model_capabilities where
  "anthropic_messages =
     \<lparr>mcp_native_tool_calls = True, mcp_structured_tool_protocol = True,
       mcp_tool_result_continuation = True, mcp_streaming_tool_call_delta = False,
       mcp_assistant_text_streaming = True, mcp_tool_call_streaming = True,
       mcp_tool_call_patching = False, mcp_interleaved_text_and_tool_calls = True,
       mcp_parallel_tool_calls = False, mcp_strict_tool_schema = True, mcp_prompt_caching = True,
       mcp_server_side_conversation_state = False, mcp_reasoning_token_accounting = True,
       mcp_image_input = True, mcp_max_context_window = 200000\<rparr>"

definition google_family :: model_capabilities where
  "google_family =
     \<lparr>mcp_native_tool_calls = True, mcp_structured_tool_protocol = True,
       mcp_tool_result_continuation = True, mcp_streaming_tool_call_delta = False,
       mcp_assistant_text_streaming = True, mcp_tool_call_streaming = True,
       mcp_tool_call_patching = False, mcp_interleaved_text_and_tool_calls = True,
       mcp_parallel_tool_calls = True, mcp_strict_tool_schema = False, mcp_prompt_caching = True,
       mcp_server_side_conversation_state = False, mcp_reasoning_token_accounting = False,
       mcp_image_input = True, mcp_max_context_window = 1000000\<rparr>"

definition bedrock_converse :: model_capabilities where
  "bedrock_converse =
     \<lparr>mcp_native_tool_calls = True, mcp_structured_tool_protocol = True,
       mcp_tool_result_continuation = True, mcp_streaming_tool_call_delta = False,
       mcp_assistant_text_streaming = True, mcp_tool_call_streaming = True,
       mcp_tool_call_patching = False, mcp_interleaved_text_and_tool_calls = True,
       mcp_parallel_tool_calls = False, mcp_strict_tool_schema = True, mcp_prompt_caching = False,
       mcp_server_side_conversation_state = False, mcp_reasoning_token_accounting = False,
       mcp_image_input = True, mcp_max_context_window = 200000\<rparr>"

definition local_gateway :: model_capabilities where
  "local_gateway =
     \<lparr>mcp_native_tool_calls = False, mcp_structured_tool_protocol = True,
       mcp_tool_result_continuation = True, mcp_streaming_tool_call_delta = False,
       mcp_assistant_text_streaming = True, mcp_tool_call_streaming = False,
       mcp_tool_call_patching = False, mcp_interleaved_text_and_tool_calls = False,
       mcp_parallel_tool_calls = False, mcp_strict_tool_schema = False, mcp_prompt_caching = False,
       mcp_server_side_conversation_state = False, mcp_reasoning_token_accounting = False,
       mcp_image_input = False, mcp_max_context_window = 16000\<rparr>"

definition with_max_context_window :: "model_capabilities \<Rightarrow> nat \<Rightarrow> model_capabilities" where
  "with_max_context_window c v = c\<lparr>mcp_max_context_window := v\<rparr>"

definition with_strict_tool_schema :: "model_capabilities \<Rightarrow> bool \<Rightarrow> model_capabilities" where
  "with_strict_tool_schema c v = c\<lparr>mcp_strict_tool_schema := v\<rparr>"

definition with_prompt_caching :: "model_capabilities \<Rightarrow> bool \<Rightarrow> model_capabilities" where
  "with_prompt_caching c v = c\<lparr>mcp_prompt_caching := v\<rparr>"

definition with_tool_call_streaming :: "model_capabilities \<Rightarrow> bool \<Rightarrow> model_capabilities" where
  "with_tool_call_streaming c v = c\<lparr>mcp_tool_call_streaming := v\<rparr>"

definition with_native_tool_calls :: "model_capabilities \<Rightarrow> bool \<Rightarrow> model_capabilities" where
  "with_native_tool_calls c v = c\<lparr>mcp_native_tool_calls := v\<rparr>"

definition with_structured_tool_protocol :: "model_capabilities \<Rightarrow> bool \<Rightarrow> model_capabilities" where
  "with_structured_tool_protocol c v = c\<lparr>mcp_structured_tool_protocol := v\<rparr>"

definition with_tool_result_continuation :: "model_capabilities \<Rightarrow> bool \<Rightarrow> model_capabilities" where
  "with_tool_result_continuation c v = c\<lparr>mcp_tool_result_continuation := v\<rparr>"

definition with_streaming_tool_call_delta :: "model_capabilities \<Rightarrow> bool \<Rightarrow> model_capabilities" where
  "with_streaming_tool_call_delta c v = c\<lparr>mcp_streaming_tool_call_delta := v\<rparr>"

definition with_image_input :: "model_capabilities \<Rightarrow> bool \<Rightarrow> model_capabilities" where
  "with_image_input c v = c\<lparr>mcp_image_input := v\<rparr>"

definition with_parallel_tool_calls :: "model_capabilities \<Rightarrow> bool \<Rightarrow> model_capabilities" where
  "with_parallel_tool_calls c v = c\<lparr>mcp_parallel_tool_calls := v\<rparr>"

definition with_server_side_conversation_state :: "model_capabilities \<Rightarrow> bool \<Rightarrow> model_capabilities" where
  "with_server_side_conversation_state c v = c\<lparr>mcp_server_side_conversation_state := v\<rparr>"

definition with_reasoning_token_accounting :: "model_capabilities \<Rightarrow> bool \<Rightarrow> model_capabilities" where
  "with_reasoning_token_accounting c v = c\<lparr>mcp_reasoning_token_accounting := v\<rparr>"

section \<open>Entries\<close>

definition default_headers :: "provider_spec \<Rightarrow> (string \<times> string) list" where
  "default_headers s = tree_of (psp_default_headers s)"

definition with_auth_strategies :: "provider_spec \<Rightarrow> provider_auth_strategy list \<Rightarrow> provider_spec" where
  "with_auth_strategies s strategies = s\<lparr>psp_auth_strategies := strategies\<rparr>"

definition with_notes :: "provider_spec \<Rightarrow> string list \<Rightarrow> provider_spec" where
  "with_notes s notes = s\<lparr>psp_notes := notes\<rparr>"

definition with_implementation_status ::
  "provider_spec \<Rightarrow> provider_implementation_status \<Rightarrow> provider_spec" where
  "with_implementation_status s st = s\<lparr>psp_implementation_status := st\<rparr>"

definition is_runtime_ready :: "provider_spec \<Rightarrow> bool" where
  "is_runtime_ready s \<longleftrightarrow> psp_implementation_status s = Ready"

definition credential_env_keys :: "provider_spec \<Rightarrow> string list" where
  "credential_env_keys s =
     foldl (\<lambda>keys k. if k \<in> set keys then keys else keys @ [k]) (psp_api_key_envs s)
       (concat (map pas_env_keys (psp_auth_strategies s)))"

definition auth_strategy ::
  "provider_auth_kind \<Rightarrow> string \<Rightarrow> string list \<Rightarrow> string list \<Rightarrow> string list \<Rightarrow> provider_auth_strategy" where
  "auth_strategy kind label env_keys config_keys notes =
     \<lparr>pas_kind = kind, pas_label = label, pas_env_keys = env_keys, pas_config_keys = config_keys,
      pas_notes = notes\<rparr>"

text \<open>The function \<open>spec\<close> of the source.\<close>

definition builtin_spec ::
  "string \<Rightarrow> string \<Rightarrow> model_provider_family \<Rightarrow> provider_auth_kind \<Rightarrow> string option \<Rightarrow> string \<Rightarrow> string list
   \<Rightarrow> string list \<Rightarrow> (string \<times> string) list \<Rightarrow> model_capabilities \<Rightarrow> string list \<Rightarrow> provider_spec" where
  "builtin_spec i display_name family kind base_url model api_key_envs required_envs headers capabilities
     notes =
     \<lparr>psp_id = i, psp_display_name = display_name, psp_family = family, psp_auth_kind = kind,
      psp_auth_strategies = [auth_strategy kind (auth_kind_label kind) api_key_envs required_envs []],
      psp_default_base_url = base_url, psp_default_model = model, psp_api_key_envs = api_key_envs,
      psp_required_envs = required_envs, psp_default_headers = headers,
      psp_capabilities = capabilities, psp_implementation_status = Ready, psp_notes = notes\<rparr>"

section \<open>Providers with an OpenAI-compatible interface\<close>

definition compatible_base_url :: "string \<Rightarrow> string option" where
  "compatible_base_url i = map_of
      [(''openrouter'', ''https://openrouter.ai/api/v1''), (''ollama'', ''http://localhost:11434/v1''),
         (''ollama-cloud'', ''https://ollama.com/api''), (''lmstudio'', ''http://127.0.0.1:1234/v1''),
         (''llama.cpp'', ''http://127.0.0.1:8080/v1''), (''vllm'', ''http://127.0.0.1:8000/v1''),
         (''sglang'', ''http://127.0.0.1:30000/v1''),
         (''vercel-ai-gateway'', ''https://ai-gateway.vercel.sh/v1''),
         (''vercel'', ''https://ai-gateway.vercel.sh/v1''), (''302ai'', ''https://api.302.ai/v1''),
         (''cohere'', ''https://api.cohere.com/compatibility/v1''),
         (''cortecs'', ''https://api.cortecs.ai/v1''), (''deepseek'', ''https://api.deepseek.com''),
         (''groq'', ''https://api.groq.com/openai/v1''),
         (''helicone'', ''https://ai-gateway.helicone.ai/v1''),
         (''io-net'', ''https://api.intelligence.io.solutions/api/v1''),
         (''mistral'', ''https://api.mistral.ai/v1''), (''moonshot'', ''https://api.moonshot.ai/v1''),
         (''moonshotai'', ''https://api.moonshot.ai/v1''),
         (''nebius'', ''https://api.tokenfactory.nebius.com/v1''),
         (''nebius-token-factory'', ''https://api.tokenfactory.nebius.com/v1''),
         (''ovhcloud'', ''https://oai.endpoints.kepler.ai.cloud.ovh.net/v1''),
         (''ovhcloud-ai-endpoints'', ''https://oai.endpoints.kepler.ai.cloud.ovh.net/v1''),
         (''scaleway'', ''https://api.scaleway.ai/v1''),
         (''stackit'', ''https://api.openai-compat.model-serving.eu01.onstackit.cloud/v1''),
         (''together'', ''https://api.together.xyz/v1''),
         (''togetherai'', ''https://api.together.xyz/v1''), (''zai'', ''https://api.z.ai/api/paas/v4'')] i"

definition compatible_api_key_envs :: "string \<Rightarrow> string list" where
  "compatible_api_key_envs i = unwrap_or [] (map_of
      [(''openrouter'', [''OPENROUTER_API_KEY'']), (''ollama'', []), (''llama.cpp'', []),
         (''lmstudio'', []), (''vllm'', []), (''sglang'', []),
         (''github-copilot'', [''GITHUB_COPILOT_TOKEN'']), (''gitlab'', [''GITLAB_TOKEN'']),
         (''cloudflare-workers-ai'', [''CLOUDFLARE_API_KEY'']), (''xai'', [''XAI_API_KEY'']),
         (''mistral'', [''MISTRAL_API_KEY'']), (''moonshot'', [''MOONSHOT_API_KEY'']),
         (''moonshotai'', [''MOONSHOT_API_KEY'']), (''together'', [''TOGETHER_API_KEY'']),
         (''togetherai'', [''TOGETHER_API_KEY'']), (''venice'', [''VENICE_API_KEY'']),
         (''qianfan'', [''QIANFAN_API_KEY'']), (''synthetic'', [''SYNTHETIC_API_KEY'']),
         (''xiaomi'', [''XIAOMI_API_KEY'']), (''kimi'', [''KIMI_API_KEY'']),
         (''huggingface'', [''HF_TOKEN'', ''HUGGINGFACE_HUB_TOKEN'']),
         (''litellm'', [''LITELLM_API_KEY'']), (''deepseek'', [''DEEPSEEK_API_KEY'']),
         (''cerebras'', [''CEREBRAS_API_KEY'']), (''cohere'', [''COHERE_API_KEY'']),
         (''groq'', [''GROQ_API_KEY'']), (''zenmux'', [''ZENMUX_API_KEY'']),
         (''302ai'', [''302AI_API_KEY'']), (''baseten'', [''BASETEN_API_KEY'']),
         (''cortecs'', [''CORTECS_API_KEY'']), (''firmware'', [''FIRMWARE_API_KEY'']),
         (''fireworks'', [''FIREWORKS_API_KEY'']), (''fireworks-ai'', [''FIREWORKS_API_KEY'']),
         (''io-net'', [''IOINTELLIGENCE_API_KEY'']), (''nebius'', [''NEBIUS_API_KEY'']),
         (''nebius-token-factory'', [''NEBIUS_API_KEY'']), (''ollama-cloud'', [''OLLAMA_API_KEY'']),
         (''ovhcloud'', [''OVHCLOUD_API_KEY'']), (''ovhcloud-ai-endpoints'', [''OVHCLOUD_API_KEY'']),
         (''stackit'', [''STACKIT_API_KEY'']), (''zai'', [''ZHIPU_API_KEY'']),
         (''vercel'', [''AI_GATEWAY_API_KEY'']), (''vercel-ai-gateway'', [''AI_GATEWAY_API_KEY''])] i)"

definition compatible_headers :: "string \<Rightarrow> (string \<times> string) list" where
  "compatible_headers i =
     (if i \<in> {''openrouter'', ''zenmux'', ''kilo''}
      then [(''HTTP-Referer'', ''https://liz.local/''), (''X-Title'', ''liz'')]
      else if i = ''vercel-ai-gateway'' then [(''http-referer'', ''https://liz.local/''), (''x-title'', ''liz'')]
      else [])"

definition compatible_auth_kind :: "string \<Rightarrow> provider_auth_kind" where
  "compatible_auth_kind i =
     (if i \<in> {''ollama'', ''llama.cpp'', ''lmstudio'', ''vllm'', ''sglang''} then LocalAuth
      else if i = ''github-copilot'' then DeviceCodeAuth
      else if i = ''gitlab'' then HybridAuth
      else ApiKeyAuth)"

definition openai_compatible_spec :: "string \<Rightarrow> string \<Rightarrow> string \<Rightarrow> provider_spec" where
  "openai_compatible_spec i display_name model =
     builtin_spec i display_name OpenAiCompatible (compatible_auth_kind i) (compatible_base_url i) model
       (compatible_api_key_envs i)
       (if i = ''cloudflare-workers-ai'' then [''CLOUDFLARE_ACCOUNT_ID''] else [])
       (compatible_headers i)
       (with_max_context_window (with_image_input (with_tool_call_streaming openai_compatible True) True)
         200000)
       [''OpenAI-compatible or gateway-style provider resolved through the generic adapter.'']"

definition is_unimplemented_openai_compatible_alias :: "string \<Rightarrow> bool" where
  "is_unimplemented_openai_compatible_alias i \<longleftrightarrow>
     i \<in> {''arcee'', ''baseten'', ''cerebras'', ''chutes'', ''deepinfra'', ''fireworks'', ''fireworks-ai'',
          ''firmware'', ''huggingface'', ''kilo'', ''kilocode'', ''litellm'', ''nvidia'', ''poe'',
          ''qianfan'', ''synthetic'', ''venice'', ''xiaomi'', ''zenmux''}"

definition openai_compatible_alias_spec :: "string \<Rightarrow> string \<Rightarrow> string \<Rightarrow> provider_spec" where
  "openai_compatible_alias_spec i display_name model =
     (let s = openai_compatible_spec i display_name model
      in if is_unimplemented_openai_compatible_alias i
         then with_notes (with_implementation_status s Unimplemented)
           [''Compatibility alias reserved for a later implementation pass.'',
            ''Selecting this provider should fail fast until liz ships a verified live endpoint or provider-specific routing metadata.'']
         else with_notes s
           [''Compatibility alias routed through the generic OpenAI-compatible adapter.'',
            ''Does not claim provider-native auth, model discovery, or custom transport behavior beyond the compatibility API surface.''])"

section \<open>The table\<close>

definition builtin_specs_1 :: "provider_spec list" where
  "builtin_specs_1 =
    [with_auth_strategies
       (builtin_spec ''openai'' ''OpenAI'' OpenAiResponses ApiKeyAuth (Some ''https://api.openai.com'')
         ''gpt-5.4''
         [''OPENAI_API_KEY''] [] [] (with_prompt_caching openai_streaming True)
         [''Primary OpenAI Responses-style provider.'', ''Uses direct API-key authentication.''])
       [auth_strategy ApiKeyAuth ''api-key'' [''OPENAI_API_KEY''] [''models.providers.openai.baseUrl'']
         [''Direct API-key auth with optional provider base URL override.'']],
     with_auth_strategies
       (builtin_spec ''anthropic'' ''Anthropic'' AnthropicMessages ApiKeyAuth (Some
         ''https://api.anthropic.com'') ''claude-sonnet-4-6''
         [''ANTHROPIC_API_KEY''] [] [(''anthropic-beta'',
           ''interleaved-thinking-2025-05-14,fine-grained-tool-streaming-2025-05-14'')]
           anthropic_messages
         [''Anthropic Messages family.'', ''Enables beta headers for streaming and tool use.''])
       [auth_strategy ApiKeyAuth ''api-key'' [''ANTHROPIC_API_KEY'']
         [''models.providers.anthropic.baseUrl''] [''Direct Anthropic API key path.'']],
     builtin_spec ''google'' ''Google'' GoogleGenerativeAi ApiKeyAuth (Some
       ''https://generativelanguage.googleapis.com'') ''gemini-3.1-pro''
       [''GEMINI_API_KEY'', ''GOOGLE_API_KEY''] [] [] google_family
       [''Google Generative AI direct provider.''],
     builtin_spec ''google-vertex'' ''Google Vertex AI'' GoogleVertex GoogleApplicationDefault None
       ''gemini-3.1-pro''
       [] [''GOOGLE_CLOUD_PROJECT'', ''GCP_PROJECT'', ''GCLOUD_PROJECT'', ''GOOGLE_VERTEX_LOCATION''] []
         (with_reasoning_token_accounting (with_server_side_conversation_state google_family False)
         False)
       [''Vertex AI provider resolved through Google ADC and project/location env.'']]"

definition builtin_specs_2 :: "provider_spec list" where
  "builtin_specs_2 =
    [with_auth_strategies
       (builtin_spec ''amazon-bedrock'' ''Amazon Bedrock'' AwsBedrockConverse AwsCredentialChain None
         ''anthropic.claude-sonnet-4-6-v1:0''
         [''AWS_BEARER_TOKEN_BEDROCK''] [''AWS_REGION'', ''AWS_PROFILE''] [] bedrock_converse
         [''Uses Bedrock Converse/ConverseStream semantics.'',
           ''Accepts Bedrock runtime endpoints, foundation model IDs, and inference profiles.''])
       [auth_strategy ApiKeyAuth ''bedrock-bearer-token'' [''AWS_BEARER_TOKEN_BEDROCK'']
         [''provider.amazon-bedrock.options.region'', ''provider.amazon-bedrock.options.endpoint'']
         [''Bearer-token auth takes precedence over the AWS credential chain.''], auth_strategy
         AwsCredentialChain ''aws-credential-chain'' [''AWS_ACCESS_KEY_ID'', ''AWS_SECRET_ACCESS_KEY'',
         ''AWS_PROFILE'', ''AWS_WEB_IDENTITY_TOKEN_FILE'', ''AWS_ROLE_ARN'']
         [''provider.amazon-bedrock.options.profile'', ''provider.amazon-bedrock.options.region'']
         [''Falls back to shared credentials, profiles, web identity, or instance metadata.'']],
     with_auth_strategies
       (builtin_spec ''amazon-bedrock-mantle'' ''Amazon Bedrock Mantle'' OpenAiCompatible
         AwsCredentialChain None ''gpt-oss-120b''
         [''AWS_BEARER_TOKEN_BEDROCK''] [''AWS_REGION'', ''AWS_PROFILE''] [] openai_compatible
         [''Uses the Bedrock Mantle OpenAI-compatible endpoint.'',
           ''Accepts explicit Bedrock bearer tokens or IAM-derived bearer tokens.''])
       [auth_strategy ApiKeyAuth ''bedrock-bearer-token'' [''AWS_BEARER_TOKEN_BEDROCK'']
         [''provider.amazon-bedrock-mantle.options.region'',
         ''provider.amazon-bedrock-mantle.options.endpoint'']
         [''Bearer-token auth takes precedence over the AWS credential chain.''], auth_strategy
         AwsCredentialChain ''aws-credential-chain'' [''AWS_ACCESS_KEY_ID'', ''AWS_SECRET_ACCESS_KEY'',
         ''AWS_PROFILE'', ''AWS_WEB_IDENTITY_TOKEN_FILE'', ''AWS_ROLE_ARN'']
         [''provider.amazon-bedrock-mantle.options.profile'',
         ''provider.amazon-bedrock-mantle.options.region'']
         [''Falls back to shared credentials, profiles, web identity, or instance metadata.'']],
     builtin_spec ''google-vertex-anthropic'' ''Google Vertex Anthropic'' GoogleVertexAnthropic
       GoogleApplicationDefault None ''claude-sonnet-4-6''
       [] [''GOOGLE_CLOUD_PROJECT'', ''GCP_PROJECT'', ''GCLOUD_PROJECT'', ''GOOGLE_VERTEX_LOCATION''] []
         (with_max_context_window anthropic_messages 1000000)
       [''Anthropic models hosted on Vertex AI.'']]"

definition builtin_specs_3 :: "provider_spec list" where
  "builtin_specs_3 =
    [builtin_spec ''anthropic-vertex'' ''Anthropic Vertex'' GoogleVertexAnthropic
       GoogleApplicationDefault None ''claude-sonnet-4-6''
       [] [''GOOGLE_CLOUD_PROJECT'', ''GCP_PROJECT'', ''GCLOUD_PROJECT'', ''GOOGLE_VERTEX_LOCATION''] []
         (with_max_context_window anthropic_messages 1000000)
       [''Dedicated Anthropic-on-Vertex provider variant.''],
     with_auth_strategies
       (builtin_spec ''github-copilot'' ''GitHub Copilot'' GitHubCopilot DeviceCodeAuth (Some
         ''https://api.githubcopilot.com'') ''gpt-4o''
         [''GITHUB_COPILOT_TOKEN''] [] [] (with_server_side_conversation_state (with_strict_tool_schema
           (with_image_input (with_tool_call_streaming openai_compatible True) True) True) True)
         [''Device auth and model discovery are provider-owned.'',
           ''GPT-5 Copilot models favor the Responses path.''])
       [auth_strategy DeviceCodeAuth ''device-code'' [''COPILOT_GITHUB_TOKEN'', ''GH_TOKEN'',
         ''GITHUB_TOKEN''] [''provider.github-copilot.options.enterpriseUrl'']
         [''Built-in plugin exchanges a GitHub token for Copilot runtime auth.'']],
     with_auth_strategies
       (builtin_spec ''gitlab'' ''GitLab Duo'' GitLabDuo HybridAuth (Some ''https://gitlab.com'')
         ''duo-chat-sonnet-4-5''
         [''GITLAB_TOKEN''] [''GITLAB_INSTANCE_URL'', ''GITLAB_AI_GATEWAY_URL'',
           ''GITLAB_OAUTH_CLIENT_ID''] [(''anthropic-beta'', ''context-1m-2025-08-07'')]
           (with_max_context_window (with_server_side_conversation_state anthropic_messages True)
           1000000)
         [''GitLab Duo Agent Platform provider.'', ''Workflow-model discovery is provider-owned.''])
       [auth_strategy OAuthAuth ''oauth'' [] [''GITLAB_INSTANCE_URL'', ''GITLAB_OAUTH_CLIENT_ID'',
         ''provider.gitlab.options.instanceUrl'']
         [''Supports OAuth on GitLab.com and self-hosted GitLab.''], auth_strategy PersonalAccessToken
         ''personal-access-token'' [''GITLAB_TOKEN''] [''GITLAB_INSTANCE_URL'',
         ''GITLAB_AI_GATEWAY_URL''] [''Supports personal access token authentication.'']],
     with_auth_strategies
       (builtin_spec ''openai-codex'' ''OpenAI Codex'' OpenAiResponses OAuthAuth (Some
         ''https://chatgpt.com/backend-api'') ''gpt-5.4''
         [''OPENAI_CODEX_ACCESS_TOKEN''] [] [] (with_server_side_conversation_state (with_prompt_caching
           openai_streaming True) True)
         [''Native Codex OAuth-backed Responses route.'',
           ''Uses ChatGPT/Codex OAuth tokens against chatgpt.com/backend-api/codex/responses.''])
       [auth_strategy OAuthAuth ''chatgpt-oauth'' [''OPENAI_CODEX_ACCESS_TOKEN'',
         ''OPENAI_CODEX_REFRESH_TOKEN''] [''provider.openai-codex.oauth.refreshToken'',
         ''provider.openai-codex.oauth.accountId'', ''provider.openai-codex.oauth.expiresAtMs'']
         [''Native ChatGPT/Codex OAuth path with refresh-token support.'']]]"

definition builtin_specs_4 :: "provider_spec list" where
  "builtin_specs_4 =
    [with_auth_strategies
       (builtin_spec ''xai'' ''xAI'' OpenAiResponses ApiKeyAuth (Some ''https://api.x.ai'') ''grok-4''
         [''XAI_API_KEY''] [] [] openai_streaming
         [''Uses Responses-style request handling.''])
       [auth_strategy ApiKeyAuth ''api-key'' [''XAI_API_KEY''] [''models.providers.xai.baseUrl'']
         [''Direct xAI API key path.'']],
     openai_compatible_spec ''openrouter'' ''OpenRouter'' ''openai/gpt-4.1-mini'',
     openai_compatible_spec ''ollama'' ''Ollama'' ''llama3.1:8b'',
     openai_compatible_spec ''vllm'' ''vLLM'' ''meta-llama/Llama-3.1-70B-Instruct'',
     openai_compatible_spec ''sglang'' ''SGLang'' ''meta-llama/Llama-3.1-70B-Instruct'',
     with_auth_strategies
       (builtin_spec ''opencode'' ''OpenCode Zen'' OpenAiResponses ApiKeyAuth (Some
         ''https://opencode.ai/zen/v1'') ''gpt-5.4''
         [''OPENCODE_API_KEY''] [] [] (with_prompt_caching openai_streaming True)
         [''Uses the OpenCode Zen GPT-family Responses endpoint.'',
           ''Routes default GPT models through https://opencode.ai/zen/v1/responses.''])
       [auth_strategy ApiKeyAuth ''api-key'' [''OPENCODE_API_KEY''] [''provider.opencode.baseUrl'']
         [''Sends the OpenCode Zen API key as a bearer token.'']],
     with_auth_strategies
       (builtin_spec ''opencode-go'' ''OpenCode Go'' OpenAiCompatible ApiKeyAuth (Some
         ''https://opencode.ai/zen/go/v1'') ''kimi-k2.5''
         [''OPENCODE_API_KEY''] [] [] (with_max_context_window (with_image_input
           (with_tool_call_streaming openai_compatible True) True) 200000)
         [''Uses the OpenCode Go OpenAI-compatible chat completions endpoint.'',
           ''Routes the default Go model lane through https://opencode.ai/zen/go/v1/chat/completions.''])
       [auth_strategy ApiKeyAuth ''api-key'' [''OPENCODE_API_KEY''] [''provider.opencode-go.baseUrl'']
         [''Sends the OpenCode Go API key as a bearer token.'']]]"

definition builtin_specs_5 :: "provider_spec list" where
  "builtin_specs_5 =
    [with_auth_strategies
       (builtin_spec ''qwen'' ''Qwen'' OpenAiCompatible ApiKeyAuth (Some
         ''https://coding-intl.dashscope.aliyuncs.com/v1'') ''qwen3.5-plus''
         [''QWEN_API_KEY'', ''MODELSTUDIO_API_KEY'', ''DASHSCOPE_API_KEY''] [] []
           (with_max_context_window (with_image_input (with_tool_call_streaming openai_compatible True)
           True) 1000000)
         [''Supports Qwen Cloud Coding Plan and Standard DashScope endpoints.'',
           ''Coding Plan endpoints omit models that are only available on Standard endpoints.''])
       [auth_strategy ApiKeyAuth ''coding-plan-global'' [''QWEN_API_KEY'', ''MODELSTUDIO_API_KEY'',
         ''DASHSCOPE_API_KEY''] [''QWEN_ENDPOINT=coding-global'',
         ''provider.qwen.endpoint=coding-global'']
         [''Uses https://coding-intl.dashscope.aliyuncs.com/v1.''], auth_strategy ApiKeyAuth
         ''coding-plan-cn'' [''QWEN_API_KEY'', ''MODELSTUDIO_API_KEY'', ''DASHSCOPE_API_KEY'']
         [''QWEN_ENDPOINT=coding-cn'', ''provider.qwen.endpoint=coding-cn'']
         [''Uses https://coding.dashscope.aliyuncs.com/v1.''], auth_strategy ApiKeyAuth
         ''standard-global'' [''QWEN_API_KEY'', ''MODELSTUDIO_API_KEY'', ''DASHSCOPE_API_KEY'']
         [''QWEN_ENDPOINT=standard-global'', ''provider.qwen.endpoint=standard-global'']
         [''Uses https://dashscope-intl.aliyuncs.com/compatible-mode/v1.''], auth_strategy ApiKeyAuth
         ''standard-cn'' [''QWEN_API_KEY'', ''MODELSTUDIO_API_KEY'', ''DASHSCOPE_API_KEY'']
         [''QWEN_ENDPOINT=standard-cn'', ''provider.qwen.endpoint=standard-cn'']
         [''Uses https://dashscope.aliyuncs.com/compatible-mode/v1.'']],
     with_auth_strategies
       (builtin_spec ''zai'' ''Z.AI'' OpenAiCompatible ApiKeyAuth (Some ''https://api.z.ai/api/paas/v4'')
         ''glm-5.1''
         [''ZAI_API_KEY'', ''Z_AI_API_KEY''] [] [] (with_max_context_window (with_tool_call_streaming
           openai_compatible True) 202800)
         [''Supports Z.AI general and Coding Plan endpoints.'',
           ''Coding Plan endpoints can be forced explicitly or detected from live probes.''])
       [auth_strategy ApiKeyAuth ''coding-plan-global'' [''ZAI_API_KEY'', ''Z_AI_API_KEY'']
         [''ZAI_ENDPOINT=coding-global'', ''provider.zai.endpoint=coding-global'']
         [''Uses https://api.z.ai/api/coding/paas/v4.''], auth_strategy ApiKeyAuth ''coding-plan-cn''
         [''ZAI_API_KEY'', ''Z_AI_API_KEY''] [''ZAI_ENDPOINT=coding-cn'',
         ''provider.zai.endpoint=coding-cn''] [''Uses https://open.bigmodel.cn/api/coding/paas/v4.''],
         auth_strategy ApiKeyAuth ''global'' [''ZAI_API_KEY'', ''Z_AI_API_KEY'']
         [''ZAI_ENDPOINT=global'', ''provider.zai.endpoint=global'']
         [''Uses https://api.z.ai/api/paas/v4.''], auth_strategy ApiKeyAuth ''cn'' [''ZAI_API_KEY'',
         ''Z_AI_API_KEY''] [''ZAI_ENDPOINT=cn'', ''provider.zai.endpoint=cn'']
         [''Uses https://open.bigmodel.cn/api/paas/v4.'']],
     openai_compatible_spec ''vercel-ai-gateway'' ''Vercel AI Gateway'' ''anthropic/claude-opus-4.6'']"

definition builtin_specs_6 :: "provider_spec list" where
  "builtin_specs_6 =
    [with_auth_strategies
       (builtin_spec ''cloudflare-ai-gateway'' ''Cloudflare AI Gateway'' OpenAiCompatible ApiKeyAuth None
         ''openai/gpt-5-mini''
         [''CLOUDFLARE_AI_GATEWAY_API_KEY''] [''CLOUDFLARE_ACCOUNT_ID'', ''CLOUDFLARE_GATEWAY_ID''] []
           (with_max_context_window (with_image_input (with_tool_call_streaming openai_compatible True)
           True) 200000)
         [''Uses the Cloudflare AI Gateway OpenAI-compatible /compat/chat/completions endpoint.'',
           ''Sends the upstream provider credential as the standard bearer token for compatibility mode.''])
       [auth_strategy ApiKeyAuth ''api-key'' [''CLOUDFLARE_AI_GATEWAY_API_KEY'']
         [''CLOUDFLARE_ACCOUNT_ID'', ''CLOUDFLARE_GATEWAY_ID'',
         ''provider.cloudflare-ai-gateway.baseUrl'']
         [''Builds https://gateway.ai.cloudflare.com/v1/{account}/{gateway}/compat when no explicit base URL override is present.'',
         ''Gateway id defaults to default when only the account id is configured.'']],
     openai_compatible_spec ''cloudflare-workers-ai'' ''Cloudflare Workers AI''
       ''@cf/meta/llama-3.1-70b-instruct'',
     with_auth_strategies
       (builtin_spec ''sap-ai-core'' ''SAP AI Core'' OpenAiCompatible ServiceKey None
         ''anthropic--claude-sonnet-4-6''
         [''AICORE_SERVICE_KEY''] [''AICORE_DEPLOYMENT_ID'', ''AICORE_RESOURCE_GROUP''] []
           (with_max_context_window (with_image_input (with_tool_call_streaming openai_compatible True)
           True) 200000)
         [''Uses SAP AI Core service-key auth and deployment-scoped OpenAI-compatible inference endpoints.'',
           ''Resolves bearer tokens from the service key before calling AI_API_URL/v2/inference/deployments/{deployment_id}.''])
       [auth_strategy ServiceKey ''service-key'' [''AICORE_SERVICE_KEY''] [''AICORE_DEPLOYMENT_ID'',
         ''AICORE_RESOURCE_GROUP'', ''provider.sap-ai-core.baseUrl'']
         [''Parses clientid, clientsecret, url, and serviceurls.AI_API_URL from the service key JSON.'',
         ''Mints OAuth bearer tokens through the SAP AI Core OAuth endpoint.'']],
     openai_compatible_alias_spec ''deepseek'' ''DeepSeek'' ''deepseek-chat'',
     openai_compatible_alias_spec ''mistral'' ''Mistral'' ''mistral-large-latest'',
     openai_compatible_alias_spec ''moonshot'' ''Moonshot'' ''moonshot-v1-128k'',
     openai_compatible_alias_spec ''moonshotai'' ''Moonshot AI'' ''moonshot-v1-128k'',
     with_auth_strategies
       (builtin_spec ''minimax'' ''MiniMax'' AnthropicMessages ApiKeyAuth (Some
         ''https://api.minimax.io/anthropic'') ''MiniMax-M2.7''
         [''MINIMAX_API_KEY''] [''MINIMAX_REGION'', ''MINIMAX_API_HOST''] []
           (with_server_side_conversation_state (with_image_input anthropic_messages True) False)
         [''Uses the Anthropic-compatible MiniMax M2.7 endpoint.'',
           ''Supports global and CN Coding Plan API-key routing.''])
       [auth_strategy ApiKeyAuth ''api-global'' [''MINIMAX_API_KEY''] [''MINIMAX_REGION=global'',
         ''provider.minimax.region=global''] [''Uses https://api.minimax.io/anthropic.''], auth_strategy
         ApiKeyAuth ''api-cn'' [''MINIMAX_API_KEY''] [''MINIMAX_REGION=cn'',
         ''provider.minimax.region=cn''] [''Uses https://api.minimaxi.com/anthropic.'']],
     openai_compatible_alias_spec ''litellm'' ''LiteLLM'' ''anthropic/claude-opus-4.6'',
     openai_compatible_alias_spec ''huggingface'' ''Hugging Face''
       ''Qwen/Qwen3-Coder-480B-A35B-Instruct'',
     openai_compatible_alias_spec ''together'' ''Together AI''
       ''meta-llama/Llama-4-Maverick-17B-128E-Instruct-FP8'',
     openai_compatible_alias_spec ''togetherai'' ''Together AI''
       ''meta-llama/Llama-4-Maverick-17B-128E-Instruct-FP8'',
     openai_compatible_alias_spec ''venice'' ''Venice AI'' ''venice-uncensored'']"

definition builtin_specs_7 :: "provider_spec list" where
  "builtin_specs_7 =
    [openai_compatible_alias_spec ''qianfan'' ''Qianfan'' ''ernie-4.5-8k'',
     openai_compatible_alias_spec ''synthetic'' ''Synthetic'' ''Synthetic-1'',
     openai_compatible_alias_spec ''xiaomi'' ''Xiaomi'' ''mimo-v2-flash'',
     builtin_spec ''kimi'' ''Kimi Code'' AnthropicMessages ApiKeyAuth (Some
       ''https://api.kimi.com/coding'') ''kimi-code''
       [''KIMI_API_KEY'', ''KIMICODE_API_KEY''] [] [(''User-Agent'', ''claude-code/0.1.0'')]
         (with_max_context_window (with_image_input anthropic_messages True) 262144)
       [''Uses the dedicated Kimi coding endpoint.'', ''Accepts the Kimi Code subscription API key.''],
     with_auth_strategies
       (builtin_spec ''azure'' ''Azure OpenAI'' OpenAiCompatible ApiKeyAuth None ''gpt-4.1''
         [''AZURE_OPENAI_API_KEY'', ''AZURE_API_KEY''] [''AZURE_RESOURCE_NAME'',
           ''AZURE_OPENAI_DEPLOYMENT''] [] (with_max_context_window (with_image_input
           (with_tool_call_streaming openai_compatible True) True) 200000)
         [''Uses the Azure OpenAI v1 endpoint with api-key authentication.'',
           ''The model field should resolve to the Azure deployment name.''])
       [auth_strategy ApiKeyAuth ''api-key'' [''AZURE_OPENAI_API_KEY'', ''AZURE_API_KEY'']
         [''AZURE_RESOURCE_NAME'', ''AZURE_OPENAI_DEPLOYMENT'', ''provider.azure.baseUrl'']
         [''Builds https://{resource}.openai.azure.com/openai/v1 when no explicit base URL override is present.'',
         ''Sends API keys with the api-key header instead of Authorization.'']],
     with_auth_strategies
       (builtin_spec ''azure-cognitive-services'' ''Azure Cognitive Services'' OpenAiCompatible
         ApiKeyAuth None ''gpt-4.1''
         [''AZURE_API_KEY''] [''AZURE_COGNITIVE_SERVICES_RESOURCE_NAME'',
           ''AZURE_COGNITIVE_SERVICES_DEPLOYMENT''] [] (with_max_context_window (with_image_input
           (with_tool_call_streaming openai_compatible True) True) 200000)
         [''Uses the Azure Cognitive Services OpenAI-compatible v1 endpoint with api-key authentication.'',
           ''The model field should resolve to the Azure deployment name.''])
       [auth_strategy ApiKeyAuth ''api-key'' [''AZURE_API_KEY'']
         [''AZURE_COGNITIVE_SERVICES_RESOURCE_NAME'', ''AZURE_COGNITIVE_SERVICES_DEPLOYMENT'',
         ''provider.azure-cognitive-services.baseUrl'']
         [''Builds https://{resource}.cognitiveservices.azure.com/openai/v1 when no explicit base URL override is present.'',
         ''Sends API keys with the api-key header instead of Authorization.'']]]"

definition builtin_specs_8 :: "provider_spec list" where
  "builtin_specs_8 =
    [with_auth_strategies
       (builtin_spec ''copilot-proxy'' ''Copilot Proxy'' OpenAiCompatible LocalAuth (Some
         ''http://localhost:3000/v1'') ''gpt-4.1''
         [] [] [] (with_max_context_window (with_image_input (with_tool_call_streaming openai_compatible
           True) True) 200000)
         [''Targets a local OpenAI-compatible Copilot proxy endpoint.'',
           ''Defaults to http://localhost:3000/v1 and can be overridden for other local proxy ports.''])
       [auth_strategy LocalAuth ''local'' [] [''provider.copilot-proxy.baseUrl'']
         [''Optional bearer tokens can still be supplied through a provider override when the local proxy requires them.'']],
     with_auth_strategies
       (builtin_spec ''microsoft-foundry'' ''Microsoft Foundry'' OpenAiCompatible ApiKeyAuth None
         ''gpt-4.1''
         [''MICROSOFT_FOUNDRY_API_KEY'', ''AZURE_API_KEY''] [''MICROSOFT_FOUNDRY_RESOURCE_NAME'',
           ''MICROSOFT_FOUNDRY_DEPLOYMENT''] [] (with_max_context_window (with_image_input
           (with_tool_call_streaming openai_compatible True) True) 200000)
         [''Uses the Microsoft Foundry OpenAI-compatible v1 endpoint on services.ai.azure.com.'',
           ''The model field should resolve to the Foundry deployment or route name.''])
       [auth_strategy ApiKeyAuth ''api-key'' [''MICROSOFT_FOUNDRY_API_KEY'', ''AZURE_API_KEY'']
         [''MICROSOFT_FOUNDRY_RESOURCE_NAME'', ''MICROSOFT_FOUNDRY_DEPLOYMENT'',
         ''provider.microsoft-foundry.baseUrl'']
         [''Builds https://{resource}.services.ai.azure.com/openai/v1 when no explicit base URL override is present.'',
         ''Sends API keys with the api-key header instead of Authorization.'']],
     openai_compatible_alias_spec ''302ai'' ''302.AI'' ''gpt-4.1-mini'',
     openai_compatible_alias_spec ''arcee'' ''Arcee'' ''arcee-ai/coder-large'',
     openai_compatible_alias_spec ''baseten'' ''Baseten'' ''deepseek-ai/DeepSeek-R1'',
     builtin_spec ''byteplus'' ''BytePlus'' OpenAiCompatible ApiKeyAuth (Some
       ''https://ark.ap-southeast.bytepluses.com/api/v3'') ''seed-1-8-251228''
       [''BYTEPLUS_API_KEY''] [] [] (with_max_context_window (with_image_input (with_tool_call_streaming
         openai_compatible True) True) 256000)
       [''Uses the BytePlus standard OpenAI-compatible API surface.''],
     builtin_spec ''byteplus-plan'' ''BytePlus Plan'' OpenAiCompatible ApiKeyAuth (Some
       ''https://ark.ap-southeast.bytepluses.com/api/coding/v3'') ''ark-code-latest''
       [''BYTEPLUS_API_KEY''] [] [] (with_max_context_window (with_tool_call_streaming openai_compatible
         True) 256000)
       [''Uses the BytePlus coding-plan OpenAI-compatible API surface.''],
     openai_compatible_alias_spec ''cerebras'' ''Cerebras'' ''llama-4-scout'',
     openai_compatible_alias_spec ''chutes'' ''Chutes'' ''deepseek-ai/DeepSeek-V3'',
     openai_compatible_alias_spec ''cohere'' ''Cohere'' ''command-a'',
     openai_compatible_alias_spec ''cortecs'' ''Cortecs'' ''moonshotai/kimi-k2-instruct'',
     openai_compatible_alias_spec ''deepinfra'' ''DeepInfra'' ''meta-llama/Llama-3.1-70B-Instruct'',
     openai_compatible_alias_spec ''firmware'' ''Firmware'' ''gpt-4.1-mini'',
     openai_compatible_alias_spec ''fireworks'' ''Fireworks AI''
       ''accounts/fireworks/models/llama-v3p1-70b-instruct'',
     openai_compatible_alias_spec ''fireworks-ai'' ''Fireworks AI''
       ''accounts/fireworks/models/llama-v3p1-70b-instruct'',
     openai_compatible_alias_spec ''groq'' ''Groq'' ''llama-3.3-70b-versatile'',
     openai_compatible_alias_spec ''helicone'' ''Helicone'' ''gpt-4.1-mini'',
     openai_compatible_alias_spec ''io-net'' ''IO.NET'' ''meta-llama/Llama-3.3-70B-Instruct'',
     openai_compatible_alias_spec ''kilo'' ''Kilo'' ''gpt-4.1-mini'',
     openai_compatible_alias_spec ''kilocode'' ''KiloCode'' ''kilocode/kilo-agent'',
     openai_compatible_spec ''llama.cpp'' ''llama.cpp'' ''meta-llama/Llama-3.1-8B-Instruct'',
     openai_compatible_spec ''lmstudio'' ''LM Studio'' ''google/gemma-3n-e4b'']"

definition builtin_specs_9 :: "provider_spec list" where
  "builtin_specs_9 =
    [with_auth_strategies
       (builtin_spec ''minimax-portal'' ''MiniMax Portal'' AnthropicMessages OAuthAuth (Some
         ''https://api.minimax.io/anthropic'') ''MiniMax-M2.7''
         [''MINIMAX_OAUTH_TOKEN'', ''MINIMAX_API_KEY''] [''MINIMAX_REGION'',
           ''provider.minimax-portal.region''] [] (with_server_side_conversation_state (with_image_input
           anthropic_messages True) False)
         [''Uses MiniMax Portal OAuth against the Anthropic-compatible endpoint.'',
           ''Supports global and CN device-code-style OAuth login.''])
       [auth_strategy OAuthAuth ''oauth-global'' [''MINIMAX_OAUTH_TOKEN''] [''MINIMAX_REGION=global'',
         ''provider.minimax-portal.region=global''] [''Uses https://api.minimax.io.''], auth_strategy
         OAuthAuth ''oauth-cn'' [''MINIMAX_OAUTH_TOKEN''] [''MINIMAX_REGION=cn'',
         ''provider.minimax-portal.region=cn''] [''Uses https://api.minimaxi.com.'']],
     openai_compatible_alias_spec ''nebius-token-factory'' ''Nebius Token Factory''
       ''moonshotai/kimi-k2-instruct'',
     openai_compatible_alias_spec ''nebius'' ''Nebius Token Factory'' ''moonshotai/kimi-k2-instruct'',
     openai_compatible_alias_spec ''nvidia'' ''NVIDIA'' ''meta/llama-3.1-70b-instruct'',
     openai_compatible_alias_spec ''ollama-cloud'' ''Ollama Cloud'' ''gpt-oss:20b-cloud'',
     openai_compatible_alias_spec ''ovhcloud-ai-endpoints'' ''OVHcloud AI Endpoints'' ''gpt-oss-120b'',
     openai_compatible_alias_spec ''ovhcloud'' ''OVHcloud AI Endpoints'' ''gpt-oss-120b'',
     openai_compatible_alias_spec ''poe'' ''Poe'' ''anthropic/claude-sonnet-4-6'',
     openai_compatible_alias_spec ''scaleway'' ''Scaleway'' ''devstral-2-123b-instruct-2512'',
     openai_compatible_alias_spec ''stackit'' ''STACKIT'' ''Llama-3.3-70B-Instruct'',
     builtin_spec ''stepfun'' ''StepFun'' OpenAiCompatible ApiKeyAuth (Some
       ''https://api.stepfun.ai/v1'') ''step-3.5-flash''
       [''STEPFUN_API_KEY''] [''STEPFUN_REGION''] [] (with_max_context_window (with_tool_call_streaming
         openai_compatible True) 262144)
       [''Uses the StepFun standard OpenAI-compatible API surface.''],
     builtin_spec ''stepfun-plan'' ''StepFun Plan'' OpenAiCompatible ApiKeyAuth (Some
       ''https://api.stepfun.ai/step_plan/v1'') ''step-3.5-flash''
       [''STEPFUN_API_KEY''] [''STEPFUN_REGION''] [] (with_max_context_window (with_tool_call_streaming
         openai_compatible True) 262144)
       [''Uses the StepFun Step Plan OpenAI-compatible API surface.''],
     builtin_spec ''volcengine'' ''Volcengine'' OpenAiCompatible ApiKeyAuth (Some
       ''https://ark.cn-beijing.volces.com/api/v3'') ''doubao-seed-1-8-251228''
       [''VOLCANO_ENGINE_API_KEY''] [] [] (with_max_context_window (with_image_input
         (with_tool_call_streaming openai_compatible True) True) 256000)
       [''Uses the Volcengine standard OpenAI-compatible API surface.''],
     builtin_spec ''volcengine-plan'' ''Volcengine Plan'' OpenAiCompatible ApiKeyAuth (Some
       ''https://ark.cn-beijing.volces.com/api/coding/v3'') ''ark-code-latest''
       [''VOLCANO_ENGINE_API_KEY''] [] [] (with_max_context_window (with_tool_call_streaming
         openai_compatible True) 256000)
       [''Uses the Volcengine coding-plan OpenAI-compatible API surface.''],
     openai_compatible_spec ''vercel'' ''Vercel AI Gateway'' ''anthropic/claude-sonnet-4'',
     openai_compatible_alias_spec ''zenmux'' ''ZenMux'' ''anthropic/claude-sonnet-4-6'']"

definition builtin_specs :: "provider_spec list" where
  "builtin_specs =
     builtin_specs_1 @ builtin_specs_2 @ builtin_specs_3 @ builtin_specs_4 @ builtin_specs_5 @ builtin_specs_6 @ builtin_specs_7 @ builtin_specs_8 @ builtin_specs_9"

definition provider_registry :: "(string \<times> provider_spec) list" where
  "provider_registry = tree_of (map (\<lambda>s. (psp_id s, s)) builtin_specs)"

definition registered_provider :: "string \<Rightarrow> provider_spec option" where
  "registered_provider i = map_of provider_registry i"

definition supported_provider_ids :: "string list" where
  "supported_provider_ids = map fst provider_registry"

end
