(* ===== verification/Provider_Auth.thy ===== *)
theory Provider_Auth
  imports Web
begin

text \<open>
  Runtime credentials of the providers (\<open>model/auth.rs\<close>): GitHub Copilot tokens and its device
  login, the OAuth flows of MiniMax, GitLab and OpenAI Codex, SAP AI Core service keys, the cache of
  Bedrock Mantle tokens and the detection of Z.AI endpoints. What Google and AWS crates do alone
  (application default credentials, request signing) has no counterpart here; the Mantle resolution
  takes the AWS credential chain and the signer as arguments.
\<close>

section \<open>Credentials\<close>

record copilot_runtime_auth =
  cra_token :: string
  cra_base_url :: string

record github_copilot_device_code_auth =
  gda_verification_uri :: string
  gda_user_code :: string
  gda_device_code :: string
  gda_interval_seconds :: nat
  gda_api_base_url :: string

record minimax_oauth_device_code_auth =
  mda_verification_uri :: string
  mda_user_code :: string
  mda_code_verifier :: string
  mda_interval_ms :: nat
  mda_expires_at_ms :: nat
  mda_region :: string

record minimax_oauth_runtime_auth =
  mra_access_token :: string
  mra_refresh_token :: string
  mra_expires_at_ms :: nat
  mra_resource_url :: string

datatype minimax_oauth_poll_outcome =
  MiniMaxPending nat
| MiniMaxComplete minimax_oauth_runtime_auth

datatype github_copilot_device_poll_outcome =
  CopilotPending nat
| CopilotSlowDown nat
| CopilotComplete string string

record gitlab_oauth_start_auth =
  gsa_authorize_url :: string
  gsa_state :: string
  gsa_code_verifier :: string

record gitlab_oauth_runtime_auth =
  gra_access_token :: string
  gra_refresh_token :: "string option"
  gra_expires_at_ms :: "nat option"

record open_ai_codex_runtime_auth =
  ora_access_token :: string
  ora_refresh_token :: string
  ora_expires_at_ms :: nat
  ora_account_id :: "string option"
  ora_email :: "string option"

record open_ai_codex_runtime_auth_request =
  orr_access_token :: "string option"
  orr_refresh_token :: "string option"
  orr_expires_at_ms :: "nat option"
  orr_account_id :: "string option"
  orr_token_url_override :: "string option"

record zai_detected_endpoint =
  zd_endpoint :: string
  zd_model_id :: string

record sap_ai_core_service_key =
  sk_client_id :: string
  sk_client_secret :: string
  sk_oauth_base_url :: string
  sk_ai_api_url :: string

section \<open>Answers of the services\<close>

record open_ai_codex_raw_token_response =
  otr_access_token :: string
  otr_refresh_token :: string
  otr_expires_in :: "nat option"
  otr_id_token :: "string option"

record open_ai_codex_auth_claims =
  oac_chatgpt_account_id :: "string option"
  oac_chatgpt_account_user_id :: "string option"
  oac_chatgpt_user_id :: "string option"
  oac_user_id :: "string option"

text \<open>An organization is its optional id, a profile its optional email.\<close>

record open_ai_codex_jwt_claims =
  ojc_chatgpt_account_id :: "string option"
  ojc_organizations :: "string option list option"
  ojc_email :: "string option"
  ojc_openai_auth :: "open_ai_codex_auth_claims option"
  ojc_openai_profile :: "string option option"

record github_copilot_device_code_response =
  gdr_verification_uri :: string
  gdr_user_code :: string
  gdr_device_code :: string
  gdr_interval :: nat

record github_copilot_device_poll_response_body =
  gpr_access_token :: "string option"
  gpr_error :: "string option"
  gpr_interval :: "nat option"

record gitlab_oauth_token_response =
  gtr_access_token :: string
  gtr_refresh_token :: "string option"
  gtr_expires_in :: "nat option"

record minimax_oauth_authorization_response =
  mar_user_code :: string
  mar_verification_uri :: string
  mar_expired_in :: nat
  mar_interval :: "nat option"
  mar_state :: string

record minimax_oauth_token_response_body =
  mtr_status :: "string option"
  mtr_access_token :: "string option"
  mtr_refresh_token :: "string option"
  mtr_expired_in :: "nat option"
  mtr_resource_url :: "string option"

record sap_ai_core_service_key_payload =
  skp_clientid :: string
  skp_clientsecret :: string
  skp_url :: string
  skp_ai_api_url :: string

text \<open>The derived decoders, and everything else the module takes from crates.\<close>

record token_decoders =
  td_copilot :: "string \<Rightarrow> string + string"
  td_device_code :: "string \<Rightarrow> string + github_copilot_device_code_response"
  td_device_poll :: "string \<Rightarrow> string + github_copilot_device_poll_response_body"
  td_gitlab :: "string \<Rightarrow> string + gitlab_oauth_token_response"
  td_minimax_start :: "string \<Rightarrow> string + minimax_oauth_authorization_response"
  td_minimax_token :: "string \<Rightarrow> string + minimax_oauth_token_response_body"
  td_codex :: "string \<Rightarrow> string + open_ai_codex_raw_token_response"
  td_claims :: "string \<Rightarrow> string + open_ai_codex_jwt_claims"
  td_sap_key :: "string \<Rightarrow> string + sap_ai_core_service_key_payload"
  td_sap_token :: "string \<Rightarrow> string + string"

record provider_lib =
  pv_urls :: url_lib
  pv_crypto :: crypto_lib
  pv_decode :: token_decoders

section \<open>Helpers\<close>

definition first_env :: "string list \<Rightarrow> string option web_run" where
  "first_env keys = asks (\<lambda>w.
     fold (\<lambda>key found. opt_or found (filled (wb_env w key))) keys None)"

definition post_form_texts :: exchange_texts where
  "post_form_texts =
     \<lparr>xt_client = ''failed to build OpenAI Codex OAuth client: '',
      xt_send = ''OpenAI Codex OAuth request failed: '',
      xt_read = ''failed to read OpenAI Codex OAuth response body: '',
      xt_status = ''OpenAI Codex OAuth endpoint returned '',
      xt_parse = ''failed to parse OpenAI Codex OAuth response: ''\<rparr>"

definition post_form_json_texts :: exchange_texts where
  "post_form_json_texts =
     \<lparr>xt_client = ''failed to build OAuth client: '', xt_send = ''OAuth request failed: '',
      xt_read = ''failed to read OAuth response body: '', xt_status = ''OAuth endpoint returned '',
      xt_parse = ''failed to parse OAuth response: ''\<rparr>"

definition post_json_body_texts :: exchange_texts where
  "post_json_body_texts =
     \<lparr>xt_client = ''failed to build HTTP client: '', xt_send = ''provider request failed: '',
      xt_read = ''failed to read response body: '', xt_status = ''provider request returned '',
      xt_parse = ''failed to parse JSON response: ''\<rparr>"

definition form_request :: "string \<Rightarrow> (string \<times> string) list \<Rightarrow> http_request" where
  "form_request url body =
     \<lparr>hq_method = Post, hq_url = url,
      hq_headers = [(''Content-Type'', ''application/x-www-form-urlencoded'')],
      hq_body = FormBody body\<rparr>"

definition post_form ::
  "provider_lib \<Rightarrow> string \<Rightarrow> (string \<times> string) list \<Rightarrow> open_ai_codex_raw_token_response web_run" where
  "post_form l url body = exchange post_form_texts (td_codex (pv_decode l)) (form_request url body)"

definition post_form_json ::
  "(string \<Rightarrow> string + 'a) \<Rightarrow> string \<Rightarrow> (string \<times> string) list \<Rightarrow> 'a web_run" where
  "post_form_json decode url body = exchange post_form_json_texts decode (form_request url body)"

text \<open>The headers every caller gives are constants that form valid header names and values.\<close>

definition post_json_body ::
  "(string \<Rightarrow> string + 'a) \<Rightarrow> string \<Rightarrow> json \<Rightarrow> (string \<times> string) list \<Rightarrow> 'a web_run" where
  "post_json_body decode url body headers =
     exchange post_json_body_texts decode
       \<lparr>hq_method = Post, hq_url = url, hq_headers = headers, hq_body = JsonBody body\<rparr>"

definition oauth_alphabet :: string where
  "oauth_alphabet = ''ABCDEFGHIJKLMNOPQRSTUVWXYZabcdefghijklmnopqrstuvwxyz0123456789-._~''"

definition generate_oauth_random_string :: "nat \<Rightarrow> string web_run" where
  "generate_oauth_random_string n =
     bindR (fill_bytes n) (\<lambda>bytes.
       ret (map (\<lambda>b. oauth_alphabet ! (b mod length oauth_alphabet)) bytes))"

definition pkce_code_challenge :: "provider_lib \<Rightarrow> string \<Rightarrow> string" where
  "pkce_code_challenge l verifier =
     trim_end_of CHR ''='' (replace_all ''/'' ''_'' (replace_all ''+'' ''-''
       (cl_base64 (pv_crypto l) (cl_sha256 (pv_crypto l) verifier))))"

section \<open>GitHub Copilot\<close>

definition derive_copilot_api_base_url_from_token :: "provider_lib \<Rightarrow> string \<Rightarrow> string option" where
  "derive_copilot_api_base_url_from_token l token =
     Option.bind (find ((\<noteq>) None) (map (\<lambda>part. strip_prefix ''proxy-ep='' (trim part))
                    (split_on (\<lambda>c. c = CHR '';'') token)))
       (\<lambda>found. Option.bind (map_option trim found) (\<lambda>proxy_endpoint.
          (case ul_parse (pv_urls l) proxy_endpoint of
             Inl e \<Rightarrow> None
           | Inr url \<Rightarrow>
               Option.bind (ur_host url) (\<lambda>host.
               Option.bind (ul_set_host (pv_urls l) (replace_all ''proxy.'' ''api.'' host) url) (\<lambda>url'.
                 Some (ul_origin (pv_urls l) url'))))))"

definition copilot_token_texts :: exchange_texts where
  "copilot_token_texts =
     \<lparr>xt_client = ''failed to build GitHub Copilot auth client: '',
      xt_send = ''github copilot token exchange failed: '',
      xt_read = ''failed to read GitHub Copilot token response: '',
      xt_status = ''github copilot token exchange returned '',
      xt_parse = ''failed to parse GitHub Copilot token exchange response: ''\<rparr>"

definition resolve_copilot_runtime_auth ::
  "provider_lib \<Rightarrow> string \<Rightarrow> string option \<Rightarrow> string option \<Rightarrow> copilot_runtime_auth web_run" where
  "resolve_copilot_runtime_auth l github_token token_url_override base_url_override =
     bindR (exchange copilot_token_texts (td_copilot (pv_decode l))
              \<lparr>hq_method = Get,
               hq_url = unwrap_or ''https://api.github.com/copilot_internal/v2/token'' token_url_override,
               hq_headers = [(''Accept'', ''application/json''),
                 (''Authorization'', ''Bearer '' @ github_token), (''Editor-Version'', ''vscode/1.96.2''),
                 (''User-Agent'', ''GitHubCopilotChat/0.26.7''), (''X-Github-Api-Version'', ''2025-04-01'')],
               hq_body = NoBody\<rparr>) (\<lambda>token.
     ret \<lparr>cra_token = token,
          cra_base_url = unwrap_or ''https://api.individual.githubcopilot.com''
            (opt_or base_url_override (derive_copilot_api_base_url_from_token l token))\<rparr>)"

definition normalize_github_copilot_domain :: "provider_lib \<Rightarrow> string option \<Rightarrow> string" where
  "normalize_github_copilot_domain l enterprise_url =
     (case trimmed enterprise_url of
        None \<Rightarrow> ''github.com''
      | Some value \<Rightarrow>
          (let candidate = (if contains value ''://'' then value else ''https://'' @ value)
           in case ul_parse (pv_urls l) candidate of
                Inl e \<Rightarrow> ''github.com''
              | Inr url \<Rightarrow> unwrap_or ''github.com'' (ur_host url)))"

definition copilot_api_base_url_for_domain :: "provider_lib \<Rightarrow> string option \<Rightarrow> string" where
  "copilot_api_base_url_for_domain l enterprise_url =
     (case trimmed enterprise_url of
        None \<Rightarrow> ''https://api.githubcopilot.com''
      | Some raw \<Rightarrow> ''https://copilot-api.'' @ normalize_github_copilot_domain l (Some raw))"

definition github_copilot_device_client_id :: string where
  "github_copilot_device_client_id = ''Ov23li8tweQw6odWQebz''"

definition copilot_headers :: "(string \<times> string) list" where
  "copilot_headers =
     [(''Accept'', ''application/json''), (''Content-Type'', ''application/json''),
      (''User-Agent'', ''liz-app-server'')]"

definition start_github_copilot_device_authorization ::
  "provider_lib \<Rightarrow> string option \<Rightarrow> string option \<Rightarrow> github_copilot_device_code_auth web_run" where
  "start_github_copilot_device_authorization l enterprise_url device_code_url_override =
     bindR (first_env [''LIZ_GITHUB_COPILOT_DEVICE_CODE_URL'']) (\<lambda>configured.
     bindR (post_json_body (td_device_code (pv_decode l))
              (unwrap_or (''https://'' @ normalize_github_copilot_domain l enterprise_url
                            @ ''/login/device/code'')
                 (opt_or device_code_url_override configured))
              (JObject [(''client_id'', JString github_copilot_device_client_id),
                        (''scope'', JString ''read:user'')])
              copilot_headers) (\<lambda>response.
     ret \<lparr>gda_verification_uri = gdr_verification_uri response, gda_user_code = gdr_user_code response,
          gda_device_code = gdr_device_code response,
          gda_interval_seconds = max (gdr_interval response) 1,
          gda_api_base_url = copilot_api_base_url_for_domain l enterprise_url\<rparr>))"

definition poll_github_copilot_device_authorization ::
  "provider_lib \<Rightarrow> string \<Rightarrow> string option \<Rightarrow> nat option \<Rightarrow> string option
   \<Rightarrow> github_copilot_device_poll_outcome web_run" where
  "poll_github_copilot_device_authorization l device_code enterprise_url interval_seconds
       access_token_url_override =
     bindR (first_env [''LIZ_GITHUB_COPILOT_ACCESS_TOKEN_URL'']) (\<lambda>configured.
     bindR (post_json_body (td_device_poll (pv_decode l))
              (unwrap_or (''https://'' @ normalize_github_copilot_domain l enterprise_url
                            @ ''/login/oauth/access_token'')
                 (opt_or access_token_url_override configured))
              (JObject [(''client_id'', JString github_copilot_device_client_id),
                        (''device_code'', JString device_code),
                        (''grant_type'', JString ''urn:ietf:params:oauth:grant-type:device_code'')])
              copilot_headers) (\<lambda>response.
     (case gpr_access_token response of
        Some access_token \<Rightarrow>
          ret (CopilotComplete access_token (copilot_api_base_url_for_domain l enterprise_url))
      | None \<Rightarrow>
          (let retry_after_seconds =
             u32_saturating_add (unwrap_or 5 (opt_or (gpr_interval response) interval_seconds)) 3
           in case gpr_error response of
                Some e \<Rightarrow>
                  if e = ''slow_down'' then ret (CopilotSlowDown retry_after_seconds)
                  else if e \<in> {''authorization_pending'', ''expired_token'', ''incorrect_device_code''}
                  then ret (CopilotPending retry_after_seconds)
                  else failure (''github copilot device-code login failed: '' @ e)
              | None \<Rightarrow> failure ''github copilot device-code login returned neither access token nor error''))))"

section \<open>MiniMax\<close>

definition minimax_oauth_client_id :: string where
  "minimax_oauth_client_id = ''78257093-7e40-4613-99e0-527b14b39113''"

definition minimax_base_url :: "string \<Rightarrow> string" where
  "minimax_base_url region =
     (if region = ''cn'' then ''https://api.minimaxi.com'' else ''https://api.minimax.io'')"

definition minimax_oauth_endpoints :: "string \<Rightarrow> string \<times> string" where
  "minimax_oauth_endpoints region =
     (minimax_base_url region, minimax_base_url region @ ''/oauth/token'')"

definition minimax_code_endpoint :: "string \<Rightarrow> string" where
  "minimax_code_endpoint region = minimax_base_url region @ ''/oauth/code''"

definition minimax_default_resource_url :: "string \<Rightarrow> string" where
  "minimax_default_resource_url region =
     (if region = ''cn'' then ''https://api.minimaxi.com/anthropic''
      else ''https://api.minimax.io/anthropic'')"

definition normalize_minimax_region :: "string \<Rightarrow> string web_run" where
  "normalize_minimax_region region =
     (let other = to_lower (trim region)
      in if other = ''global'' then ret ''global''
         else if other = ''cn'' then ret ''cn''
         else failure (''unsupported MiniMax region '' @ other))"

definition normalize_minimax_timestamp :: "nat \<Rightarrow> nat web_run" where
  "normalize_minimax_timestamp raw =
     (if raw > 1000000000000 then ret raw
      else if raw > 10000000000 then ret (u64 (raw * 1000))
      else bindR unix_time_ms (\<lambda>now. ret (u64 (now + u64 (raw * 1000)))))"

definition materialize_minimax_oauth_runtime_auth ::
  "minimax_oauth_token_response_body \<Rightarrow> string \<Rightarrow> minimax_oauth_runtime_auth web_run" where
  "materialize_minimax_oauth_runtime_auth response fallback_resource_url =
     bindR (ok_or (ProviderFailure
              ''MiniMax OAuth returned an incomplete token payload (missing access token)'')
              (mtr_access_token response)) (\<lambda>access_token.
     bindR (ok_or (ProviderFailure
              ''MiniMax OAuth returned an incomplete token payload (missing refresh token)'')
              (mtr_refresh_token response)) (\<lambda>refresh_token.
     bindR (case mtr_expired_in response of
              None \<Rightarrow> failure ''MiniMax OAuth returned an incomplete token payload (missing expiry)''
            | Some raw \<Rightarrow> normalize_minimax_timestamp raw) (\<lambda>expires_at_ms.
     ret \<lparr>mra_access_token = access_token, mra_refresh_token = refresh_token,
          mra_expires_at_ms = expires_at_ms,
          mra_resource_url = unwrap_or fallback_resource_url (filled (mtr_resource_url response))\<rparr>)))"

definition start_minimax_oauth_authorization ::
  "provider_lib \<Rightarrow> string \<Rightarrow> minimax_oauth_device_code_auth web_run" where
  "start_minimax_oauth_authorization l region =
     bindR (normalize_minimax_region region) (\<lambda>normalized_region.
     bindR (generate_oauth_random_string 43) (\<lambda>code_verifier.
     bindR (generate_oauth_random_string 32) (\<lambda>state.
     bindR (first_env [''LIZ_MINIMAX_OAUTH_CODE_URL'']) (\<lambda>configured.
     bindR (post_form_json (td_minimax_start (pv_decode l))
              (unwrap_or (minimax_code_endpoint normalized_region) configured)
              [(''response_type'', ''code''), (''client_id'', minimax_oauth_client_id),
               (''scope'', ''group_id profile model.completion''),
               (''code_challenge'', pkce_code_challenge l code_verifier),
               (''code_challenge_method'', ''S256''), (''state'', state)]) (\<lambda>response.
     bindR (guard (ProviderFailure ''MiniMax OAuth state mismatch during authorization'')
              (mar_state response = [] \<or> mar_state response = state)) (\<lambda>_.
     bindR (normalize_minimax_timestamp (mar_expired_in response)) (\<lambda>expires_at_ms.
     ret \<lparr>mda_verification_uri = mar_verification_uri response, mda_user_code = mar_user_code response,
          mda_code_verifier = code_verifier, mda_interval_ms = unwrap_or 2000 (mar_interval response),
          mda_expires_at_ms = expires_at_ms, mda_region = normalized_region\<rparr>)))))))"

definition poll_minimax_oauth_authorization ::
  "provider_lib \<Rightarrow> string \<Rightarrow> string \<Rightarrow> string \<Rightarrow> nat option \<Rightarrow> minimax_oauth_poll_outcome web_run" where
  "poll_minimax_oauth_authorization l region user_code code_verifier interval_ms =
     bindR (normalize_minimax_region region) (\<lambda>normalized_region.
     bindR (first_env [''LIZ_MINIMAX_OAUTH_TOKEN_URL'']) (\<lambda>configured.
     bindR (post_form_json (td_minimax_token (pv_decode l))
              (unwrap_or (snd (minimax_oauth_endpoints normalized_region)) configured)
              [(''grant_type'', ''urn:ietf:params:oauth:grant-type:user_code''),
               (''client_id'', minimax_oauth_client_id), (''user_code'', user_code),
               (''code_verifier'', code_verifier)]) (\<lambda>response.
     if mtr_status response = Some ''success''
     then bindR (materialize_minimax_oauth_runtime_auth response
                   (minimax_default_resource_url normalized_region)) (\<lambda>auth.
            ret (MiniMaxComplete auth))
     else if mtr_status response = Some ''error''
     then failure ''MiniMax OAuth authorization failed''
     else ret (MiniMaxPending (max (unwrap_or 2000 interval_ms) 2000)))))"

definition refresh_minimax_oauth_token ::
  "provider_lib \<Rightarrow> string \<Rightarrow> string \<Rightarrow> string option \<Rightarrow> minimax_oauth_runtime_auth web_run" where
  "refresh_minimax_oauth_token l region refresh_token fallback_resource_url =
     bindR (normalize_minimax_region region) (\<lambda>normalized_region.
     bindR (first_env [''LIZ_MINIMAX_OAUTH_TOKEN_URL'']) (\<lambda>configured.
     bindR (post_form_json (td_minimax_token (pv_decode l))
              (unwrap_or (snd (minimax_oauth_endpoints normalized_region)) configured)
              [(''grant_type'', ''refresh_token''), (''client_id'', minimax_oauth_client_id),
               (''refresh_token'', refresh_token)]) (\<lambda>response.
     materialize_minimax_oauth_runtime_auth response
       (unwrap_or (minimax_default_resource_url normalized_region) fallback_resource_url))))"

definition resolve_minimax_oauth_runtime_auth ::
  "provider_lib \<Rightarrow> string option \<Rightarrow> string option \<Rightarrow> nat option \<Rightarrow> string \<Rightarrow> string option
   \<Rightarrow> minimax_oauth_runtime_auth web_run" where
  "resolve_minimax_oauth_runtime_auth l access_token refresh_token expires_at_ms region resource_url =
     bindR (normalize_minimax_region region) (\<lambda>normalized_region.
     bindR unix_time_ms (\<lambda>now.
     (let refresh =
        bindR (ok_or (ProviderFailure ''MiniMax OAuth refresh requires a refresh token'')
                 (trimmed refresh_token)) (\<lambda>r.
          refresh_minimax_oauth_token l normalized_region r resource_url)
      in case (trimmed access_token, expires_at_ms) of
           (Some a, Some expires) \<Rightarrow>
             if expires > now
             then ret \<lparr>mra_access_token = a, mra_refresh_token = unwrap_or [] refresh_token,
                       mra_expires_at_ms = expires,
                       mra_resource_url = unwrap_or (minimax_default_resource_url normalized_region)
                                            (filled resource_url)\<rparr>
             else refresh
         | _ \<Rightarrow> refresh)))"

section \<open>GitLab\<close>

definition start_gitlab_oauth_authorization ::
  "provider_lib \<Rightarrow> string \<Rightarrow> string \<Rightarrow> string \<Rightarrow> string list \<Rightarrow> gitlab_oauth_start_auth web_run" where
  "start_gitlab_oauth_authorization l instance_url client_id redirect_uri scopes =
     bindR (generate_oauth_random_string 32) (\<lambda>state.
     bindR (generate_oauth_random_string 43) (\<lambda>code_verifier.
     (case ul_parse (pv_urls l) (trim_end_of CHR ''/'' instance_url @ ''/oauth/authorize'') of
        Inl e \<Rightarrow> failure (''failed to build GitLab authorize URL: '' @ e)
      | Inr url \<Rightarrow>
          ret \<lparr>gsa_authorize_url = ul_text (pv_urls l) (append_pairs
                 ([(''response_type'', ''code''), (''client_id'', client_id),
                   (''redirect_uri'', redirect_uri), (''state'', state),
                   (''code_challenge'', pkce_code_challenge l code_verifier),
                   (''code_challenge_method'', ''S256'')]
                  @ (if scopes = [] then [] else [(''scope'', join '' '' scopes)])) url),
               gsa_state = state, gsa_code_verifier = code_verifier\<rparr>)))"

definition materialize_gitlab_oauth_runtime_auth ::
  "gitlab_oauth_token_response \<Rightarrow> gitlab_oauth_runtime_auth web_run" where
  "materialize_gitlab_oauth_runtime_auth response =
     bindR (case gtr_expires_in response of
              None \<Rightarrow> ret None
            | Some expires_in \<Rightarrow>
                bindR unix_time_ms (\<lambda>now. ret (Some (u64 (now + u64 (expires_in * 1000)))))) (\<lambda>expires.
     ret \<lparr>gra_access_token = gtr_access_token response, gra_refresh_token = gtr_refresh_token response,
          gra_expires_at_ms = expires\<rparr>)"

definition exchange_gitlab_oauth_code ::
  "provider_lib \<Rightarrow> string \<Rightarrow> string \<Rightarrow> string option \<Rightarrow> string \<Rightarrow> string \<Rightarrow> string option \<Rightarrow> string option
   \<Rightarrow> gitlab_oauth_runtime_auth web_run" where
  "exchange_gitlab_oauth_code l instance_url client_id client_secret redirect_uri code code_verifier
       token_url_override =
     bindR (post_form_json (td_gitlab (pv_decode l))
              (unwrap_or (trim_end_of CHR ''/'' instance_url @ ''/oauth/token'') token_url_override)
              ([(''grant_type'', ''authorization_code''), (''client_id'', client_id),
                (''redirect_uri'', redirect_uri), (''code'', code)]
               @ (case filled client_secret of None \<Rightarrow> [] | Some s \<Rightarrow> [(''client_secret'', s)])
               @ (case filled code_verifier of None \<Rightarrow> [] | Some v \<Rightarrow> [(''code_verifier'', v)])))
       materialize_gitlab_oauth_runtime_auth"

definition refresh_gitlab_oauth_token ::
  "provider_lib \<Rightarrow> string \<Rightarrow> string \<Rightarrow> string option \<Rightarrow> string \<Rightarrow> string option
   \<Rightarrow> gitlab_oauth_runtime_auth web_run" where
  "refresh_gitlab_oauth_token l instance_url client_id client_secret refresh_token token_url_override =
     bindR (post_form_json (td_gitlab (pv_decode l))
              (unwrap_or (trim_end_of CHR ''/'' instance_url @ ''/oauth/token'') token_url_override)
              ([(''grant_type'', ''refresh_token''), (''client_id'', client_id),
                (''refresh_token'', refresh_token)]
               @ (case filled client_secret of None \<Rightarrow> [] | Some s \<Rightarrow> [(''client_secret'', s)])))
       materialize_gitlab_oauth_runtime_auth"

definition resolve_gitlab_oauth_runtime_auth ::
  "provider_lib \<Rightarrow> string option \<Rightarrow> string option \<Rightarrow> nat option \<Rightarrow> string \<Rightarrow> string option
   \<Rightarrow> string option \<Rightarrow> string option \<Rightarrow> gitlab_oauth_runtime_auth web_run" where
  "resolve_gitlab_oauth_runtime_auth l access_token refresh_token expires_at_ms instance_url client_id
       client_secret token_url_override =
     bindR unix_time_ms (\<lambda>now.
     (let refresh =
        bindR (ok_or (ProviderFailure
                 ''gitlab oauth requires a refresh token when the access token is expired'')
                 (trimmed refresh_token)) (\<lambda>r.
        bindR (ok_or (ProviderFailure ''gitlab oauth refresh requires a client id'')
                 (trimmed client_id)) (\<lambda>c.
          refresh_gitlab_oauth_token l instance_url c client_secret r token_url_override))
      in case (trimmed access_token, expires_at_ms) of
           (Some a, Some expires) \<Rightarrow>
             if expires > now
             then ret \<lparr>gra_access_token = a, gra_refresh_token = refresh_token,
                       gra_expires_at_ms = Some expires\<rparr>
             else refresh
         | _ \<Rightarrow> refresh))"

section \<open>OpenAI Codex\<close>

definition openai_codex_oauth_client_id :: string where
  "openai_codex_oauth_client_id = ''app_EMoamEEZ73f0CkXaXp7hrann''"

definition openai_codex_oauth_required_scopes :: "string list" where
  "openai_codex_oauth_required_scopes =
     [''openid'', ''profile'', ''email'', ''offline_access'', ''model.request'', ''api.responses.write'']"

definition normalize_openai_codex_authorize_url :: "provider_lib \<Rightarrow> string \<Rightarrow> string" where
  "normalize_openai_codex_authorize_url l raw_url =
     (case ul_parse (pv_urls l) (trim raw_url) of
        Inl e \<Rightarrow> raw_url
      | Inr url \<Rightarrow>
          if \<not> (case ur_host url of None \<Rightarrow> False
                | Some host \<Rightarrow> host = ''auth.openai.com'' \<or> ends_with host ''.openai.com'') then raw_url
          else if \<not> ends_with (trim_end_of CHR ''/'' (ur_path url)) ''/oauth/authorize'' then raw_url
          else
            (let scopes = (case query_value ''scope'' url of None \<Rightarrow> [] | Some v \<Rightarrow> split_whitespace v);
                 scopes' = fold (\<lambda>required ss. if required \<in> set ss then ss else ss @ [required])
                             openai_codex_oauth_required_scopes scopes;
                 query = filter (\<lambda>(k, v). k \<noteq> ''scope'') (ur_query url) @ [(''scope'', join '' '' scopes')]
             in ul_text (pv_urls l) (url\<lparr>ur_query := query\<rparr>)))"

definition build_openai_codex_authorize_url ::
  "provider_lib \<Rightarrow> string \<Rightarrow> string \<Rightarrow> string \<Rightarrow> string \<Rightarrow> model_error + string" where
  "build_openai_codex_authorize_url l redirect_uri code_challenge state originator =
     (case ul_parse (pv_urls l) ''https://auth.openai.com/oauth/authorize'' of
        Inl e \<Rightarrow> Inl (ProviderFailure (''failed to build OpenAI Codex authorize URL: '' @ e))
      | Inr url \<Rightarrow>
          Inr (ul_text (pv_urls l) (append_pairs
            [(''response_type'', ''code''), (''client_id'', openai_codex_oauth_client_id),
             (''redirect_uri'', redirect_uri),
             (''scope'', join '' '' openai_codex_oauth_required_scopes),
             (''code_challenge'', code_challenge), (''code_challenge_method'', ''S256''),
             (''id_token_add_organizations'', ''true''), (''codex_cli_simplified_flow'', ''true''),
             (''state'', state), (''originator'', originator)] url)))"

text \<open>The loop pads the text to a multiple of four characters.\<close>

definition base64url_decode :: "provider_lib \<Rightarrow> string \<Rightarrow> string option" where
  "base64url_decode l input =
     (let normalized = replace_all ''_'' ''/'' (replace_all ''-'' ''+'' input)
      in cl_unbase64 (pv_crypto l) (normalized @ replicate ((4 - length normalized mod 4) mod 4) CHR ''=''))"

definition decode_openai_codex_jwt_claims ::
  "provider_lib \<Rightarrow> string \<Rightarrow> open_ai_codex_jwt_claims option" where
  "decode_openai_codex_jwt_claims l token =
     (case split_on (\<lambda>c. c = CHR ''.'') token of
        _ # payload # _ \<Rightarrow>
          Option.bind (base64url_decode l payload) (\<lambda>bytes.
            (case td_claims (pv_decode l) bytes of Inl e \<Rightarrow> None | Inr claims \<Rightarrow> Some claims))
      | _ \<Rightarrow> None)"

definition extract_openai_codex_account_id :: "open_ai_codex_jwt_claims \<Rightarrow> string option" where
  "extract_openai_codex_account_id claims =
     opt_or (ojc_chatgpt_account_id claims)
       (opt_or (Option.bind (ojc_openai_auth claims) oac_chatgpt_account_id)
          (Option.bind (ojc_organizations claims) (\<lambda>os. case os of [] \<Rightarrow> None | oid # _ \<Rightarrow> oid)))"

definition extract_openai_codex_email :: "open_ai_codex_jwt_claims \<Rightarrow> string option" where
  "extract_openai_codex_email claims =
     opt_or (ojc_email claims) (Option.bind (ojc_openai_profile claims) (\<lambda>email. email))"

definition resolve_openai_codex_stable_subject :: "provider_lib \<Rightarrow> string \<Rightarrow> string option" where
  "resolve_openai_codex_stable_subject l access_token =
     Option.bind (decode_openai_codex_jwt_claims l access_token) (\<lambda>claims.
     Option.bind (ojc_openai_auth claims) (\<lambda>auth.
       opt_or (oac_chatgpt_account_user_id auth)
         (opt_or (oac_chatgpt_user_id auth) (oac_user_id auth))))"

definition materialize_openai_codex_runtime_auth ::
  "provider_lib \<Rightarrow> open_ai_codex_raw_token_response \<Rightarrow> string option
   \<Rightarrow> open_ai_codex_runtime_auth web_run" where
  "materialize_openai_codex_runtime_auth l response fallback_account_id =
     bindR unix_time_ms (\<lambda>now.
     (let claims = opt_or (Option.bind (otr_id_token response) (decode_openai_codex_jwt_claims l))
                     (decode_openai_codex_jwt_claims l (otr_access_token response))
      in ret \<lparr>ora_access_token = otr_access_token response, ora_refresh_token = otr_refresh_token response,
              ora_expires_at_ms = u64 (now + u64 (unwrap_or 3600 (otr_expires_in response) * 1000)),
              ora_account_id = opt_or (Option.bind claims extract_openai_codex_account_id)
                                 fallback_account_id,
              ora_email = Option.bind claims extract_openai_codex_email\<rparr>))"

definition codex_token_url :: "string option \<Rightarrow> string" where
  "codex_token_url token_url_override =
     unwrap_or ''https://auth.openai.com/oauth/token'' token_url_override"

definition exchange_openai_codex_authorization_code ::
  "provider_lib \<Rightarrow> string \<Rightarrow> string \<Rightarrow> string \<Rightarrow> string option \<Rightarrow> open_ai_codex_runtime_auth web_run" where
  "exchange_openai_codex_authorization_code l code redirect_uri code_verifier token_url_override =
     bindR (post_form l (codex_token_url token_url_override)
              [(''grant_type'', ''authorization_code''), (''code'', code),
               (''redirect_uri'', redirect_uri), (''client_id'', openai_codex_oauth_client_id),
               (''code_verifier'', code_verifier)]) (\<lambda>response.
     materialize_openai_codex_runtime_auth l response None)"

definition refresh_openai_codex_token ::
  "provider_lib \<Rightarrow> string \<Rightarrow> string option \<Rightarrow> open_ai_codex_runtime_auth web_run" where
  "refresh_openai_codex_token l refresh_token token_url_override =
     bindR (post_form l (codex_token_url token_url_override)
              [(''grant_type'', ''refresh_token''), (''refresh_token'', refresh_token),
               (''client_id'', openai_codex_oauth_client_id)]) (\<lambda>response.
     materialize_openai_codex_runtime_auth l response None)"

definition resolve_openai_codex_runtime_auth ::
  "provider_lib \<Rightarrow> open_ai_codex_runtime_auth_request \<Rightarrow> open_ai_codex_runtime_auth web_run" where
  "resolve_openai_codex_runtime_auth l params =
     bindR unix_time_ms (\<lambda>now_ms.
     bindR (ok_or (ProviderFailure
              ''openai-codex requires a refresh token or externally managed OAuth credential'')
              (trimmed (orr_refresh_token params))) (\<lambda>current_refresh.
     (let refresh =
        bindR (refresh_openai_codex_token l current_refresh (orr_token_url_override params)) (\<lambda>refreshed.
          ret (refreshed\<lparr>ora_account_id := opt_or (ora_account_id refreshed) (orr_account_id params)\<rparr>))
      in case (trimmed (orr_access_token params), orr_expires_at_ms params) of
           (Some access, Some expires) \<Rightarrow>
             if expires > now_ms
             then (let claims = decode_openai_codex_jwt_claims l access
                   in ret \<lparr>ora_access_token = access, ora_refresh_token = current_refresh,
                           ora_expires_at_ms = expires,
                           ora_account_id = opt_or (orr_account_id params)
                             (Option.bind claims extract_openai_codex_account_id),
                           ora_email = Option.bind claims extract_openai_codex_email\<rparr>)
             else refresh
         | _ \<Rightarrow> refresh)))"

section \<open>SAP AI Core\<close>

definition parse_sap_ai_core_service_key ::
  "provider_lib \<Rightarrow> string \<Rightarrow> model_error + sap_ai_core_service_key" where
  "parse_sap_ai_core_service_key l raw =
     (case td_sap_key (pv_decode l) raw of
        Inl e \<Rightarrow> Inl (ProviderFailure (''failed to parse SAP AI Core service key JSON: '' @ e))
      | Inr payload \<Rightarrow>
          (let client_id = trim (skp_clientid payload); client_secret = trim (skp_clientsecret payload);
               oauth_base_url = trim (skp_url payload); ai_api_url = trim (skp_ai_api_url payload)
           in if client_id = [] \<or> client_secret = [] \<or> oauth_base_url = [] \<or> ai_api_url = []
              then Inl (ProviderFailure
                ''SAP AI Core service key is missing clientid, clientsecret, url, or serviceurls.AI_API_URL'')
              else Inr \<lparr>sk_client_id = client_id, sk_client_secret = client_secret,
                        sk_oauth_base_url = trim_end_of CHR ''/'' oauth_base_url,
                        sk_ai_api_url = trim_end_of CHR ''/'' ai_api_url\<rparr>))"

definition resolve_sap_ai_core_runtime_auth ::
  "provider_lib \<Rightarrow> string option \<Rightarrow> string option \<Rightarrow> string option \<Rightarrow> string option \<Rightarrow> string web_run" where
  "resolve_sap_ai_core_runtime_auth l explicit_token client_id client_secret oauth_base_url =
     (let from_key =
        bindR (ok_or (ProviderFailure
                 ''sap-ai-core requires a service key client id or explicit bearer token'')
                 (trimmed client_id)) (\<lambda>client_id.
        bindR (ok_or (ProviderFailure
                 ''sap-ai-core requires a service key client secret or explicit bearer token'')
                 (trimmed client_secret)) (\<lambda>client_secret.
        bindR (ok_or (ProviderFailure
                 ''sap-ai-core requires a service key oauth base URL or explicit bearer token'')
                 (trimmed oauth_base_url)) (\<lambda>oauth_base_url.
        post_form_json (td_sap_token (pv_decode l)) (trim_end_of CHR ''/'' oauth_base_url @ ''/oauth/token'')
          [(''grant_type'', ''client_credentials''), (''client_id'', client_id),
           (''client_secret'', client_secret)])))
      in case trimmed explicit_token of
           Some token \<Rightarrow> if starts_with token ''{'' then from_key else ret token
         | None \<Rightarrow> from_key)"

section \<open>Bedrock Mantle\<close>

text \<open>The process-wide cache is a dictionary from regions to a token and its expiry.\<close>

record cached_bedrock_mantle_token =
  cb_token :: string
  cb_expires_at_ms :: nat

record mantle =
  mt_web :: web
  mt_cache :: "(string \<times> cached_bedrock_mantle_token) list"

type_synonym 'a mantle_run = "(model_error, mantle, 'a) run"

definition bedrock_mantle_supported_regions :: "string list" where
  "bedrock_mantle_supported_regions =
     [''us-east-1'', ''us-east-2'', ''us-west-2'', ''ap-northeast-1'', ''ap-south-1'', ''ap-southeast-3'',
      ''eu-central-1'', ''eu-west-1'', ''eu-west-2'', ''eu-south-1'', ''eu-north-1'', ''sa-east-1'']"

definition validate_bedrock_mantle_region :: "string \<Rightarrow> unit mantle_run" where
  "validate_bedrock_mantle_region region =
     guard (ProviderFailure (''amazon-bedrock-mantle is not available in region '' @ trim region))
       (trim region \<in> set bedrock_mantle_supported_regions)"

text \<open>The expiry of the AWS credentials, when they have one, in milliseconds.\<close>

definition mantle_cache_expiry_ms :: "nat \<Rightarrow> nat option \<Rightarrow> nat" where
  "mantle_cache_expiry_ms now_ms credential_expiry =
     (let preferred = u64 (now_ms + 3600000)
      in case credential_expiry of
           None \<Rightarrow> preferred
         | Some expiry_ms \<Rightarrow> min preferred (expiry_ms - 60000))"

definition load_cached_bedrock_mantle_token ::
  "(string \<times> cached_bedrock_mantle_token) list \<Rightarrow> string \<Rightarrow> nat \<Rightarrow> string option" where
  "load_cached_bedrock_mantle_token cache region now_ms =
     (case map_of cache region of
        None \<Rightarrow> None
      | Some entry \<Rightarrow> if cb_expires_at_ms entry > now_ms then Some (cb_token entry) else None)"

definition store_cached_bedrock_mantle_token :: "string \<Rightarrow> string \<Rightarrow> nat \<Rightarrow> unit mantle_run" where
  "store_cached_bedrock_mantle_token region token expires_at_ms =
     modify (\<lambda>m. m\<lparr>mt_cache := tree_insert region
       \<lparr>cb_token = token, cb_expires_at_ms = expires_at_ms\<rparr> (mt_cache m)\<rparr>)"

text \<open>\<open>no_runtime\<close> is the failure to start an asynchronous runtime, if any; \<open>credentials\<close> stands for the AWS credential chain (it yields the expiry with the credentials),
  \<open>mint\<close> for the signing of the bearer token with them.\<close>

definition resolve_bedrock_mantle_runtime_auth ::
  "string option \<Rightarrow> (string \<Rightarrow> model_error + nat option \<times> 'c)
   \<Rightarrow> (string \<Rightarrow> 'c \<Rightarrow> model_error + string) \<Rightarrow> string option \<Rightarrow> string \<Rightarrow> string mantle_run" where
  "resolve_bedrock_mantle_runtime_auth no_runtime credentials mint explicit_token region =
     (case trimmed explicit_token of
        Some token \<Rightarrow> ret token
      | None \<Rightarrow>
          bindR (validate_bedrock_mantle_region region) (\<lambda>_.
          bindR (guard (ProviderFailure (''failed to initialize AWS Mantle auth runtime: ''
                          @ unwrap_or [] no_runtime)) (no_runtime = None)) (\<lambda>_.
          bindR (\<lambda>m. case unix_time_ms (mt_web m) of (r, w) \<Rightarrow> (r, m\<lparr>mt_web := w\<rparr>)) (\<lambda>now.
          bindR (asks (\<lambda>m. load_cached_bedrock_mantle_token (mt_cache m) region now)) (\<lambda>cached.
          (case cached of
             Some token \<Rightarrow> ret token
           | None \<Rightarrow>
               bindR (from_result (credentials region)) (\<lambda>(expiry, c).
               bindR (from_result (mint region c)) (\<lambda>token.
               bindR (store_cached_bedrock_mantle_token region token
                        (mantle_cache_expiry_ms now expiry)) (\<lambda>_.
                 ret token)))))))))"

section \<open>Z.AI\<close>

definition env_or_static :: "string \<Rightarrow> string \<Rightarrow> web \<Rightarrow> string" where
  "env_or_static key fallback w = unwrap_or fallback (filled (wb_env w key))"

definition zai_detection_base_url :: "string \<Rightarrow> web \<Rightarrow> string" where
  "zai_detection_base_url endpoint =
     (if endpoint = ''coding-global'' then
        env_or_static ''LIZ_ZAI_DETECT_CODING_GLOBAL_BASE_URL'' ''https://api.z.ai/api/coding/paas/v4''
      else if endpoint = ''coding-cn'' then
        env_or_static ''LIZ_ZAI_DETECT_CODING_CN_BASE_URL'' ''https://open.bigmodel.cn/api/coding/paas/v4''
      else if endpoint = ''cn'' then
        env_or_static ''LIZ_ZAI_DETECT_CN_BASE_URL'' ''https://open.bigmodel.cn/api/paas/v4''
      else env_or_static ''LIZ_ZAI_DETECT_GLOBAL_BASE_URL'' ''https://api.z.ai/api/paas/v4'')"

definition normalize_zai_endpoint_id :: "string \<Rightarrow> string" where
  "normalize_zai_endpoint_id value =
     (let other = to_lower (trim value)
      in if other = ''coding_global'' then ''coding-global''
         else if other = ''coding_cn'' then ''coding-cn'' else other)"

text \<open>A candidate is its endpoint and its model; its base URL follows from the endpoint.\<close>

definition zai_endpoint_candidates :: "string option \<Rightarrow> (string \<times> string) list" where
  "zai_endpoint_candidates preferred_endpoint =
     (let chosen = map_option normalize_zai_endpoint_id preferred_endpoint
      in if chosen = Some ''coding-global'' then
           [(''coding-global'', ''glm-5.1''), (''coding-global'', ''glm-4.7'')]
         else if chosen = Some ''coding-cn'' then
           [(''coding-cn'', ''glm-5.1''), (''coding-cn'', ''glm-4.7'')]
         else if chosen = Some ''cn'' then [(''cn'', ''glm-5.1'')]
         else if chosen = Some ''global'' then [(''global'', ''glm-5.1'')]
         else [(''global'', ''glm-5.1''), (''cn'', ''glm-5.1''),
               (''coding-global'', ''glm-5.1''), (''coding-global'', ''glm-4.7''),
               (''coding-cn'', ''glm-5.1''), (''coding-cn'', ''glm-4.7'')])"

definition probe_zai_endpoint :: "string \<Rightarrow> string \<Rightarrow> string \<Rightarrow> bool web_run" where
  "probe_zai_endpoint api_key base_url model_id =
     probe (''Z.AI endpoint probe failed for '' @ base_url @ '': '')
       \<lparr>hq_method = Post, hq_url = trim_end_of CHR ''/'' base_url @ ''/chat/completions'',
        hq_headers = [(''Authorization'', ''Bearer '' @ api_key)],
        hq_body = JsonBody (JObject [(''model'', JString model_id),
          (''messages'', JArray [JObject [(''role'', JString ''user''), (''content'', JString ''ping'')]]),
          (''stream'', JBool False), (''max_tokens'', JInt 1)])\<rparr>"

fun try_candidates :: "string \<Rightarrow> (string \<times> string) list \<Rightarrow> zai_detected_endpoint option web_run" where
  "try_candidates api_key [] = ret None"
| "try_candidates api_key ((endpoint, model) # cs) =
     bindR (asks (zai_detection_base_url endpoint)) (\<lambda>base_url.
     bindR (probe_zai_endpoint api_key base_url model) (\<lambda>ok.
       if ok then ret (Some \<lparr>zd_endpoint = endpoint, zd_model_id = model\<rparr>)
       else try_candidates api_key cs))"

text \<open>The client is built once, before the loop; its failure is a parameter.\<close>

definition detect_zai_endpoint ::
  "string option \<Rightarrow> string \<Rightarrow> string option \<Rightarrow> zai_detected_endpoint option web_run" where
  "detect_zai_endpoint client_failure api_key preferred_endpoint =
     (case client_failure of
        Some e \<Rightarrow> failure (''failed to build Z.AI detection client: '' @ e)
      | None \<Rightarrow> try_candidates api_key (zai_endpoint_candidates preferred_endpoint))"

end
