(* ===== verification/Logins.thy ===== *)
theory Logins
  imports Provider_Auth Coordinator
begin

text \<open>
  The provider logins of \<open>RuntimeCoordinator\<close> (\<open>runtime/coordinator.rs\<close>): the flows for OpenAI Codex,
  GitHub Copilot, GitLab and MiniMax. A start hands out what the client has to show and keep; a
  completion or a successful poll stores a credential profile. The state is the coordinator and
  the world outside (\<open>web\<close>).
\<close>

record login_env =
  lg_runtime :: coordinator
  lg_web :: web

type_synonym 'a login_run = "(runtime_error, login_env, 'a) run"

definition on_runtime :: "(runtime_error, coordinator, 'a) run \<Rightarrow> 'a login_run" where
  "on_runtime m s = (case m (lg_runtime s) of (r, c) \<Rightarrow> (r, s\<lparr>lg_runtime := c\<rparr>))"

text \<open>\<open>map_err(|error| RuntimeError::invalid_state(code, error.to_string()))\<close>.\<close>

definition on_web :: "string \<Rightarrow> 'a web_run \<Rightarrow> 'a login_run" where
  "on_web code m s =
     (case m (lg_web s) of
        (Inl e, w) \<Rightarrow> (Inl (InvalidState code (model_error_text e)), s\<lparr>lg_web := w\<rparr>)
      | (Inr a, w) \<Rightarrow> (Inr a, s\<lparr>lg_web := w\<rparr>))"

definition store_profile :: "provider_auth_profile \<Rightarrow> provider_auth_profile login_run" where
  "store_profile p = on_runtime (upsert_provider_auth_profile p)"

section \<open>Requests and answers\<close>

record open_ai_codex_oauth_start_request =
  xs_redirect_uri :: string
  xs_originator :: "string option"

record open_ai_codex_oauth_complete_request =
  xc_redirect_uri :: string
  xc_code_or_redirect_url :: string
  xc_code_verifier :: string
  xc_expected_state :: "string option"
  xc_profile_id :: "string option"

record gitlab_oauth_start_request =
  ls_instance_url :: string
  ls_client_id :: string
  ls_redirect_uri :: string
  ls_scopes :: "string list"

record gitlab_oauth_complete_request =
  lc_instance_url :: string
  lc_client_id :: string
  lc_client_secret :: "string option"
  lc_redirect_uri :: string
  lc_code :: string
  lc_code_verifier :: "string option"
  lc_profile_id :: "string option"

record gitlab_pat_save_request =
  lp_instance_url :: "string option"
  lp_token :: string
  lp_profile_id :: "string option"
  lp_display_name :: "string option"

record github_copilot_device_poll_request =
  hp_device_code :: string
  hp_enterprise_url :: "string option"
  hp_interval_seconds :: "nat option"
  hp_profile_id :: "string option"

record minimax_oauth_poll_request =
  mp_user_code :: string
  mp_code_verifier :: string
  mp_region :: string
  mp_interval_ms :: "nat option"
  mp_profile_id :: "string option"

record oauth_start =
  os_authorize_url :: string
  os_state :: string
  os_code_verifier :: string

record github_copilot_device_code =
  gd_verification_uri :: string
  gd_user_code :: string
  gd_device_code :: string
  gd_interval_seconds :: nat
  gd_api_base_url :: string

record minimax_oauth_device_code =
  md_verification_uri :: string
  md_user_code :: string
  md_code_verifier :: string
  md_interval_ms :: nat
  md_expires_at_ms :: nat
  md_region :: string

datatype github_copilot_device_poll_status = DevicePending | DeviceSlowDown | DeviceComplete

record github_copilot_device_poll_response =
  hr_status :: github_copilot_device_poll_status
  hr_retry_after_seconds :: "nat option"
  hr_profile :: "provider_auth_profile option"

datatype minimax_oauth_poll_status = OAuthPending | OAuthComplete

record minimax_oauth_poll_response =
  mr_status :: minimax_oauth_poll_status
  mr_retry_after_ms :: "nat option"
  mr_profile :: "provider_auth_profile option"

section \<open>OpenAI Codex\<close>

record parsed_codex_callback =
  pc_code :: string
  pc_state :: "string option"

definition parse_codex_callback :: "url_lib \<Rightarrow> string \<Rightarrow> string + parsed_codex_callback" where
  "parse_codex_callback u input =
     (let trimmed = trim input in
      if trimmed = [] then Inl ''OpenAI Codex OAuth callback must not be empty''
      else (case ul_parse u trimmed of
              Inr url \<Rightarrow>
                (case filled (query_value ''code'' url) of
                   None \<Rightarrow> Inl ''OpenAI Codex OAuth redirect URL did not include a code parameter''
                 | Some code \<Rightarrow> Inr \<lparr>pc_code = code, pc_state = filled (query_value ''state'' url)\<rparr>)
            | Inl e \<Rightarrow> Inr \<lparr>pc_code = trimmed, pc_state = None\<rparr>))"

text \<open>\<open>URL_SAFE_NO_PAD\<close> is another encoder of the same crate.\<close>

definition pkce_sha256_challenge :: "crypto_lib \<Rightarrow> string \<Rightarrow> string" where
  "pkce_sha256_challenge c verifier = cl_base64_url c (cl_sha256 c verifier)"

definition generate_codex_state :: "string web_run" where
  "generate_codex_state = generate_oauth_random_string 32"

definition generate_codex_code_verifier :: "string web_run" where
  "generate_codex_code_verifier = generate_oauth_random_string 64"

definition start_openai_codex_oauth_login ::
  "provider_lib \<Rightarrow> open_ai_codex_oauth_start_request \<Rightarrow> oauth_start login_run" where
  "start_openai_codex_oauth_login l request =
     on_web ''openai_codex_oauth_start_failed''
       (bindR generate_codex_code_verifier (\<lambda>code_verifier.
        bindR generate_codex_state (\<lambda>state.
        bindR (from_result (build_openai_codex_authorize_url l (xs_redirect_uri request)
                 (pkce_sha256_challenge (pv_crypto l) code_verifier) state
                 (unwrap_or ''liz'' (xs_originator request)))) (\<lambda>authorize_url.
        ret \<lparr>os_authorize_url = authorize_url, os_state = state, os_code_verifier = code_verifier\<rparr>))))"

definition codex_profile :: "string option \<Rightarrow> open_ai_codex_runtime_auth \<Rightarrow> provider_auth_profile" where
  "codex_profile profile_id oauth =
     \<lparr>pf_profile_id = unwrap_or ''openai-codex:default'' profile_id, pf_provider_id = ''openai-codex'',
      pf_display_name = opt_or (ora_email oauth) (Some ''OpenAI Codex''),
      pf_credential = OAuth (ora_access_token oauth) (Some (ora_refresh_token oauth))
        (Some (ora_expires_at_ms oauth)) (ora_account_id oauth) (ora_email oauth)\<rparr>"

definition codex_callback ::
  "provider_lib \<Rightarrow> open_ai_codex_oauth_complete_request \<Rightarrow> runtime_error + parsed_codex_callback" where
  "codex_callback l request =
     (case parse_codex_callback (pv_urls l) (xc_code_or_redirect_url request) of
        Inl e \<Rightarrow> Inl (InvalidState ''openai_codex_oauth_complete_failed'' e)
      | Inr callback \<Rightarrow>
          (case xc_expected_state request of
             Some expected \<Rightarrow>
               if pc_state callback \<noteq> Some expected
               then Inl (InvalidState ''openai_codex_oauth_state_mismatch''
                      ''OpenAI Codex OAuth callback state did not match the expected value'')
               else Inr callback
           | None \<Rightarrow> Inr callback))"

definition complete_openai_codex_oauth_login ::
  "provider_lib \<Rightarrow> open_ai_codex_oauth_complete_request \<Rightarrow> provider_auth_profile login_run" where
  "complete_openai_codex_oauth_login l request =
     bindR (from_result (codex_callback l request)) (\<lambda>callback.
     bindR (on_web ''openai_codex_oauth_complete_failed''
              (bindR (env_var ''OPENAI_CODEX_TOKEN_URL'') (\<lambda>a.
               bindR (env_var ''LIZ_OPENAI_CODEX_TOKEN_URL'') (\<lambda>b.
               exchange_openai_codex_authorization_code l (pc_code callback) (xc_redirect_uri request)
                 (xc_code_verifier request) (opt_or a b))))) (\<lambda>oauth.
     store_profile (codex_profile (xc_profile_id request) oauth)))"

section \<open>GitHub Copilot\<close>

text \<open>The start request is the optional enterprise URL.\<close>

definition start_github_copilot_device_login ::
  "provider_lib \<Rightarrow> string option \<Rightarrow> github_copilot_device_code login_run" where
  "start_github_copilot_device_login l enterprise_url =
     bindR (on_web ''github_copilot_device_start_failed''
              (start_github_copilot_device_authorization l enterprise_url None)) (\<lambda>device.
     ret \<lparr>gd_verification_uri = gda_verification_uri device, gd_user_code = gda_user_code device,
          gd_device_code = gda_device_code device, gd_interval_seconds = gda_interval_seconds device,
          gd_api_base_url = gda_api_base_url device\<rparr>)"

definition poll_github_copilot_device_login ::
  "provider_lib \<Rightarrow> github_copilot_device_poll_request \<Rightarrow> github_copilot_device_poll_response login_run" where
  "poll_github_copilot_device_login l request =
     bindR (on_web ''github_copilot_device_poll_failed''
              (poll_github_copilot_device_authorization l (hp_device_code request)
                 (hp_enterprise_url request) (hp_interval_seconds request) None)) (\<lambda>poll.
     (case poll of
        CopilotPending retry \<Rightarrow>
          ret \<lparr>hr_status = DevicePending, hr_retry_after_seconds = Some retry, hr_profile = None\<rparr>
      | CopilotSlowDown retry \<Rightarrow>
          ret \<lparr>hr_status = DeviceSlowDown, hr_retry_after_seconds = Some retry, hr_profile = None\<rparr>
      | CopilotComplete github_token api_base_url \<Rightarrow>
          bindR (store_profile
                   \<lparr>pf_profile_id = unwrap_or ''github-copilot:default'' (hp_profile_id request),
                    pf_provider_id = ''github-copilot'', pf_display_name = Some ''GitHub Copilot'',
                    pf_credential = Token github_token None
                      (tree_of [(''copilot.api_base_url'', api_base_url)])\<rparr>) (\<lambda>stored.
          ret \<lparr>hr_status = DeviceComplete, hr_retry_after_seconds = None, hr_profile = Some stored\<rparr>)))"

section \<open>GitLab\<close>

definition start_gitlab_oauth_login ::
  "provider_lib \<Rightarrow> gitlab_oauth_start_request \<Rightarrow> oauth_start login_run" where
  "start_gitlab_oauth_login l request =
     bindR (on_web ''gitlab_oauth_start_failed''
              (start_gitlab_oauth_authorization l (ls_instance_url request) (ls_client_id request)
                 (ls_redirect_uri request) (ls_scopes request))) (\<lambda>oauth.
     ret \<lparr>os_authorize_url = gsa_authorize_url oauth, os_state = gsa_state oauth,
          os_code_verifier = gsa_code_verifier oauth\<rparr>)"

definition gitlab_metadata ::
  "gitlab_oauth_complete_request \<Rightarrow> gitlab_oauth_runtime_auth \<Rightarrow> (string \<times> string) list" where
  "gitlab_metadata request oauth = tree_of
     ([(''gitlab.auth_mode'', ''oauth''), (''gitlab.instance_url'', lc_instance_url request),
       (''gitlab.oauth_client_id'', lc_client_id request)]
      @ (case lc_client_secret request of None \<Rightarrow> [] | Some s \<Rightarrow> [(''gitlab.oauth_client_secret'', s)])
      @ (case gra_refresh_token oauth of None \<Rightarrow> [] | Some r \<Rightarrow> [(''gitlab.oauth.refresh_token'', r)])
      @ (case gra_expires_at_ms oauth of None \<Rightarrow> []
         | Some ms \<Rightarrow> [(''gitlab.oauth.expires_at_ms'', show_dec ms)]))"

definition complete_gitlab_oauth_login ::
  "provider_lib \<Rightarrow> gitlab_oauth_complete_request \<Rightarrow> provider_auth_profile login_run" where
  "complete_gitlab_oauth_login l request =
     bindR (on_web ''gitlab_oauth_complete_failed''
              (bindR (env_var ''LIZ_GITLAB_OAUTH_TOKEN_URL'') (\<lambda>token_url_override.
               exchange_gitlab_oauth_code l (lc_instance_url request) (lc_client_id request)
                 (lc_client_secret request) (lc_redirect_uri request) (lc_code request)
                 (lc_code_verifier request) token_url_override))) (\<lambda>oauth.
     store_profile
       \<lparr>pf_profile_id = unwrap_or ''gitlab:default'' (lc_profile_id request), pf_provider_id = ''gitlab'',
        pf_display_name = Some ''GitLab OAuth'',
        pf_credential = Token (gra_access_token oauth) (gra_expires_at_ms oauth)
          (gitlab_metadata request oauth)\<rparr>)"

definition save_gitlab_pat :: "gitlab_pat_save_request \<Rightarrow> provider_auth_profile login_run" where
  "save_gitlab_pat request =
     store_profile
       \<lparr>pf_profile_id = unwrap_or ''gitlab:default'' (lp_profile_id request), pf_provider_id = ''gitlab'',
        pf_display_name = opt_or (lp_display_name request) (Some ''GitLab PAT''),
        pf_credential = Token (lp_token request) None
          (case lp_instance_url request of
             None \<Rightarrow> tree_insert ''gitlab.auth_mode'' ''pat'' []
           | Some instance_url \<Rightarrow>
               tree_insert ''gitlab.instance_url'' instance_url (tree_insert ''gitlab.auth_mode'' ''pat'' []))\<rparr>"

section \<open>MiniMax\<close>

text \<open>The start request is the region.\<close>

definition start_minimax_oauth_login ::
  "provider_lib \<Rightarrow> string \<Rightarrow> minimax_oauth_device_code login_run" where
  "start_minimax_oauth_login l region =
     bindR (on_web ''minimax_oauth_start_failed'' (start_minimax_oauth_authorization l region)) (\<lambda>device.
     ret \<lparr>md_verification_uri = mda_verification_uri device, md_user_code = mda_user_code device,
          md_code_verifier = mda_code_verifier device, md_interval_ms = mda_interval_ms device,
          md_expires_at_ms = mda_expires_at_ms device, md_region = mda_region device\<rparr>)"

definition poll_minimax_oauth_login ::
  "provider_lib \<Rightarrow> minimax_oauth_poll_request \<Rightarrow> minimax_oauth_poll_response login_run" where
  "poll_minimax_oauth_login l request =
     bindR (on_web ''minimax_oauth_poll_failed''
              (poll_minimax_oauth_authorization l (mp_region request) (mp_user_code request)
                 (mp_code_verifier request) (mp_interval_ms request))) (\<lambda>poll.
     (case poll of
        MiniMaxPending retry \<Rightarrow>
          ret \<lparr>mr_status = OAuthPending, mr_retry_after_ms = Some retry, mr_profile = None\<rparr>
      | MiniMaxComplete auth \<Rightarrow>
          bindR (store_profile
                   \<lparr>pf_profile_id = unwrap_or ''minimax-portal:default'' (mp_profile_id request),
                    pf_provider_id = ''minimax-portal'',
                    pf_display_name = Some (''MiniMax OAuth ('' @ mp_region request @ '')''),
                    pf_credential = Token (mra_access_token auth) (Some (mra_expires_at_ms auth))
                      (tree_of [(''minimax.auth_mode'', ''oauth''), (''minimax.region'', mp_region request),
                        (''minimax.oauth.refresh_token'', mra_refresh_token auth),
                        (''minimax.resource_url'', mra_resource_url auth)])\<rparr>) (\<lambda>stored.
          ret \<lparr>mr_status = OAuthComplete, mr_retry_after_ms = None, mr_profile = Some stored\<rparr>)))"

section \<open>Effects of the helpers\<close>

lemma on_runtime_web [simp]: "lg_web (snd (on_runtime m s)) = lg_web s"
  by (simp add: on_runtime_def split_beta)

lemma on_web_runtime [simp]: "lg_runtime (snd (on_web code m s)) = lg_runtime s"
  by (simp add: on_web_def split: prod.split sum.split)

lemma on_web_run:
  "on_web code m s =
     (case fst (m (lg_web s)) of
        Inl e \<Rightarrow> Inl (InvalidState code (model_error_text e)) | Inr a \<Rightarrow> Inr a,
      s\<lparr>lg_web := snd (m (lg_web s))\<rparr>)"
  by (simp add: on_web_def split: prod.split sum.split)

lemma on_runtime_run:
  "on_runtime m s = (fst (m (lg_runtime s)), s\<lparr>lg_runtime := snd (m (lg_runtime s))\<rparr>)"
  by (simp add: on_runtime_def split_beta)

lemma upsert_profile_effect:
  assumes "profiles_ok s"
  shows "case upsert_provider_auth_profile p s of
      (Inr q, t) \<Rightarrow> q = p \<and> profiles_ok t \<and> profiles_at t = (profiles_at s)(pf_profile_id p \<mapsto> p)
    | (Inl e, t) \<Rightarrow> profiles_ok t \<and> profiles_at t = profiles_at s"
proof -
  have "distinct (map pf_profile_id (profiles_of (stores s)))" using assms by (simp add: profiles_ok_def)
  then show ?thesis
    using assms profiles.distinct_put profiles.lookup_put
    by (auto simp: upsert_provider_auth_profile_def validate_provider_auth_profile_def guard_def
        io_op_defs io_read_def io_write_def run_simps profiles_ok_def profiles_at_def
        split: option.splits sum.splits prod.splits if_splits)
qed

lemma materialize_codex_frame:
  "wb_sent (snd (materialize_openai_codex_runtime_auth l r a w)) = wb_sent w"
  by (simp add: materialize_openai_codex_runtime_auth_def run_simps unix_time_ms_def Let_def)

lemma post_form_frame: "wb_sent (snd (post_form l url body w)) = wb_sent w @ [form_request url body]"
  by (simp add: post_form_def exchange_sent)

lemma post_form_json_frame:
  "wb_sent (snd (post_form_json d url body w)) = wb_sent w @ [form_request url body]"
  by (simp add: post_form_json_def exchange_sent)

section \<open>Completing a Codex login\<close>

definition codex_exchange_request ::
  "web \<Rightarrow> open_ai_codex_oauth_complete_request \<Rightarrow> parsed_codex_callback \<Rightarrow> http_request" where
  "codex_exchange_request w rq cb =
     form_request (codex_token_url (opt_or (wb_env w ''OPENAI_CODEX_TOKEN_URL'')
                                           (wb_env w ''LIZ_OPENAI_CODEX_TOKEN_URL'')))
       [(''grant_type'', ''authorization_code''), (''code'', pc_code cb),
        (''redirect_uri'', xc_redirect_uri rq), (''client_id'', openai_codex_oauth_client_id),
        (''code_verifier'', xc_code_verifier rq)]"

lemma exchange_codex_sent:
  "wb_sent (snd (exchange_openai_codex_authorization_code l code uri verifier url w)) =
     wb_sent w @ [form_request (codex_token_url url)
       [(''grant_type'', ''authorization_code''), (''code'', code), (''redirect_uri'', uri),
        (''client_id'', openai_codex_oauth_client_id), (''code_verifier'', verifier)]]"
  by (simp add: exchange_openai_codex_authorization_code_def bindR_run post_form_frame
      materialize_codex_frame split: sum.split)

text \<open>C27: a Codex login is completed only for the callback the client waits for. When the client says
  which state it expects, a callback with another state, or a bare code without any, ends the login
  before anything happens: no request is sent and nothing is stored. A login that is completed has
  sent exactly one request, with the code of that callback and the client's verifier, and stores
  exactly one profile, the one it returns, under the requested or the default name; one that fails
  stores nothing.\<close>

theorem codex_login_checks_state:
  assumes "profiles_ok (lg_runtime s)"
  shows "case complete_openai_codex_oauth_login l rq s of
      (Inr p, t) \<Rightarrow> (\<exists>cb. parse_codex_callback (pv_urls l) (xc_code_or_redirect_url rq) = Inr cb \<and>
          (xc_expected_state rq = None \<or> pc_state cb = xc_expected_state rq) \<and>
          wb_sent (lg_web t) = wb_sent (lg_web s) @ [codex_exchange_request (lg_web s) rq cb]) \<and>
        pf_profile_id p = unwrap_or ''openai-codex:default'' (xc_profile_id rq) \<and>
        profiles_at (lg_runtime t) = (profiles_at (lg_runtime s))(pf_profile_id p \<mapsto> p)
    | (Inl e, t) \<Rightarrow> profiles_at (lg_runtime t) = profiles_at (lg_runtime s) \<and>
        (case parse_codex_callback (pv_urls l) (xc_code_or_redirect_url rq) of
           Inl message \<Rightarrow> t = s
         | Inr cb \<Rightarrow> xc_expected_state rq = None \<or> pc_state cb = xc_expected_state rq \<or> t = s)"
proof (cases "codex_callback l rq")
  case (Inl e)
  then show ?thesis
    by (auto simp: complete_openai_codex_oauth_login_def run_simps from_result_def codex_callback_def
        split: sum.splits option.splits if_splits)
next
  case (Inr cb)
  then have cb: "parse_codex_callback (pv_urls l) (xc_code_or_redirect_url rq) = Inr cb"
    "xc_expected_state rq = None \<or> pc_state cb = xc_expected_state rq"
    by (auto simp: codex_callback_def split: sum.splits option.splits if_splits)
  define w where "w = exchange_openai_codex_authorization_code l (pc_code cb) (xc_redirect_uri rq)
      (xc_code_verifier rq) (opt_or (wb_env (lg_web s) ''OPENAI_CODEX_TOKEN_URL'')
                                    (wb_env (lg_web s) ''LIZ_OPENAI_CODEX_TOKEN_URL'')) (lg_web s)"
  have sent: "wb_sent (snd w) = wb_sent (lg_web s) @ [codex_exchange_request (lg_web s) rq cb]"
    by (simp add: w_def exchange_codex_sent codex_exchange_request_def)
  have run: "complete_openai_codex_oauth_login l rq s =
    (case fst w of
       Inl e \<Rightarrow> (Inl (InvalidState ''openai_codex_oauth_complete_failed'' (model_error_text e)),
                 s\<lparr>lg_web := snd w\<rparr>)
     | Inr oauth \<Rightarrow> store_profile (codex_profile (xc_profile_id rq) oauth) (s\<lparr>lg_web := snd w\<rparr>))"
    by (simp add: complete_openai_codex_oauth_login_def Inr from_result_def run_simps on_web_run
        w_def [symmetric] split: sum.split)
  show ?thesis
  proof (cases "fst w")
    case (Inl e)
    then show ?thesis unfolding run using cb by auto
  next
    case (Inr oauth)
    let ?p = "codex_profile (xc_profile_id rq) oauth"
    have "pf_profile_id ?p = unwrap_or ''openai-codex:default'' (xc_profile_id rq)"
      by (simp add: codex_profile_def)
    with upsert_profile_effect [OF assms, of ?p] show ?thesis
      unfolding run using Inr cb sent
      by (auto simp: store_profile_def on_runtime_run split: prod.splits sum.splits)
  qed
qed

text \<open>A library that knows one redirect URL, and a login whose callback carries another state.\<close>

definition demo_url_lib :: url_lib where
  "demo_url_lib = \<lparr>ul_parse = (\<lambda>s. if s = ''http://localhost/cb'' then
       Inr \<lparr>ur_host = Some ''localhost'', ur_path = ''/cb'', ur_query = [(''code'', ''c1''), (''state'', ''s2'')],
            ur_rest = []\<rparr> else Inl ''relative URL without a base''),
     ul_text = ur_path, ul_set_host = (\<lambda>_ _. None), ul_origin = ur_path\<rparr>"

definition demo_lib :: provider_lib where
  "demo_lib = \<lparr>pv_urls = demo_url_lib,
     pv_crypto = \<lparr>cl_sha256 = id, cl_base64 = id, cl_base64_url = id, cl_unbase64 = Some\<rparr>,
     pv_decode = \<lparr>td_copilot = Inl, td_device_code = Inl, td_device_poll = Inl, td_gitlab = Inl,
       td_minimax_start = Inl, td_minimax_token = Inl, td_codex = Inl, td_claims = Inl,
       td_sap_key = Inl, td_sap_token = Inl\<rparr>\<rparr>"

definition demo_login :: login_env where
  "demo_login = \<lparr>lg_runtime = demo_co,
     lg_web = \<lparr>wb_env = (\<lambda>_. None), wb_http = (\<lambda>_ _. NotSent ''offline''), wb_sent = [],
       wb_clock = id, wb_clock_reads = 0, wb_random = id, wb_drawn = 0\<rparr>\<rparr>"

theorem codex_login_checks_state_witness:
  "\<exists>e. complete_openai_codex_oauth_login demo_lib
     \<lparr>xc_redirect_uri = ''http://localhost/cb'', xc_code_or_redirect_url = ''http://localhost/cb'',
      xc_code_verifier = ''v'', xc_expected_state = Some ''s1'', xc_profile_id = None\<rparr> demo_login =
     (Inl e, demo_login)"
proof -
  let ?rq = "\<lparr>xc_redirect_uri = ''http://localhost/cb'', xc_code_or_redirect_url = ''http://localhost/cb'',
      xc_code_verifier = ''v'', xc_expected_state = Some ''s1'', xc_profile_id = None\<rparr>"
  have parsed: "parse_codex_callback (pv_urls demo_lib) (xc_code_or_redirect_url ?rq) =
      Inr \<lparr>pc_code = ''c1'', pc_state = Some ''s2''\<rparr>"
    by code_simp
  have ok: "profiles_ok (lg_runtime demo_login)"
    by (simp add: demo_login_def demo_co_eq profiles_ok_def demo_files_def profiles_of_def)
  show ?thesis
    using codex_login_checks_state [OF ok, where l = demo_lib and rq = ?rq] parsed
    by (cases "complete_openai_codex_oauth_login demo_lib ?rq demo_login"; cases "fst (complete_openai_codex_oauth_login demo_lib ?rq demo_login)") simp_all
qed

section \<open>Reusing a credential\<close>

definition now_ms :: "web \<Rightarrow> nat" where
  "now_ms w = wb_clock w (wb_clock_reads w) mod 2 ^ 64"

definition live :: "string option \<Rightarrow> nat option \<Rightarrow> web \<Rightarrow> bool" where
  "live token expires w \<longleftrightarrow> trimmed token \<noteq> None \<and> (\<exists>e. expires = Some e \<and> e > now_ms w)"

definition refresh_form :: "http_request \<Rightarrow> string \<Rightarrow> bool" where
  "refresh_form q r \<longleftrightarrow> (\<exists>kvs. hq_body q = FormBody kvs \<and>
     (''grant_type'', ''refresh_token'') \<in> set kvs \<and> (''refresh_token'', r) \<in> set kvs)"

text \<open>Sent nothing, or one refresh.\<close>

definition one_refresh :: "string option \<Rightarrow> ('e + 'a) \<Rightarrow> web \<Rightarrow> web \<Rightarrow> bool" where
  "one_refresh refresh_token r w t \<longleftrightarrow>
     (\<exists>e. r = Inl e \<and> wb_sent t = wb_sent w) \<or>
     (\<exists>q given. trimmed refresh_token = Some given \<and> wb_sent t = wb_sent w @ [q] \<and> refresh_form q given)"

lemma unix_time_run: "unix_time_ms w = (Inr (now_ms w), w\<lparr>wb_clock_reads := Suc (wb_clock_reads w)\<rparr>)"
  by (simp add: unix_time_ms_def now_ms_def)

lemma first_env_run: "\<exists>v. first_env ks w = (Inr v, w)"
  by (simp add: first_env_def run_simps)

lemma normalize_timestamp_sent: "wb_sent (snd (normalize_minimax_timestamp raw w)) = wb_sent w"
  by (simp add: normalize_minimax_timestamp_def run_simps unix_time_run)

lemma normalize_timestamp_ok: "\<exists>v. fst (normalize_minimax_timestamp raw w) = Inr v"
  by (simp add: normalize_minimax_timestamp_def run_simps unix_time_run)

lemma materialize_minimax_sent:
  "wb_sent (snd (materialize_minimax_oauth_runtime_auth response url w)) = wb_sent w"
  by (auto simp: materialize_minimax_oauth_runtime_auth_def bindR_run ok_or_def ret_def fail_def
      failure_def normalize_timestamp_sent split: sum.split option.split)

lemma materialize_gitlab_sent: "wb_sent (snd (materialize_gitlab_oauth_runtime_auth response w)) = wb_sent w"
  by (auto simp: materialize_gitlab_oauth_runtime_auth_def run_simps unix_time_run split: option.split)

lemma refresh_gitlab_sent:
  "\<exists>q. wb_sent (snd (refresh_gitlab_oauth_token l url c secret r over w)) = wb_sent w @ [q] \<and> refresh_form q r"
  by (auto simp: refresh_gitlab_oauth_token_def bindR_run post_form_json_frame materialize_gitlab_sent
      refresh_form_def form_request_def split: sum.split)

lemma refresh_codex_sent:
  "\<exists>q. wb_sent (snd (refresh_openai_codex_token l r over w)) = wb_sent w @ [q] \<and> refresh_form q r"
  by (auto simp: refresh_openai_codex_token_def bindR_run post_form_frame materialize_codex_frame
      refresh_form_def form_request_def split: sum.split)

lemma refresh_minimax_sent:
  assumes "normalize_minimax_region region w = (Inr region', w)"
  shows "\<exists>q. wb_sent (snd (refresh_minimax_oauth_token l region r fallback w)) = wb_sent w @ [q] \<and>
    refresh_form q r"
proof -
  obtain v where "first_env [''LIZ_MINIMAX_OAUTH_TOKEN_URL''] w = (Inr v, w)"
    using first_env_run by blast
  with assms show ?thesis
    by (auto simp: refresh_minimax_oauth_token_def bindR_run post_form_json_frame
        materialize_minimax_sent refresh_form_def form_request_def split: sum.split)
qed

lemma ok_or_trimmed_run:
  "bindR (ok_or e (trimmed v)) f w = (case trimmed v of None \<Rightarrow> (Inl e, w) | Some a \<Rightarrow> f a w)"
  by (cases "trimmed v") (simp_all add: run_simps)

lemma bindR_ok_or: "bindR (ok_or e None) f w = (Inl e, w)" "bindR (ok_or e (Some a)) f w = f a w"
  by (simp_all add: run_simps)

lemma trimmed_the: "trimmed v = Some a \<Longrightarrow> a = trim (the v)"
  by (auto simp: trimmed_Some_iff)

lemma gitlab_reuse:
  "case resolve_gitlab_oauth_runtime_auth l access refresh expires url client secret over w of (r, t) \<Rightarrow>
     if live access expires w
     then r = Inr \<lparr>gra_access_token = trim (the access), gra_refresh_token = refresh,
                   gra_expires_at_ms = expires\<rparr> \<and> wb_sent t = wb_sent w
     else one_refresh refresh r w t"
proof -
  let ?w = "w\<lparr>wb_clock_reads := Suc (wb_clock_reads w)\<rparr>"
  let ?refresh = "\<lambda>w. case trimmed refresh of
      None \<Rightarrow> (Inl (ProviderFailure
                 ''gitlab oauth requires a refresh token when the access token is expired''), w)
    | Some r \<Rightarrow> (case trimmed client of
        None \<Rightarrow> (Inl (ProviderFailure ''gitlab oauth refresh requires a client id''), w)
      | Some c \<Rightarrow> refresh_gitlab_oauth_token l url c secret r over w)"
  have "case ?refresh ?w of (r, t) \<Rightarrow> one_refresh refresh r w t"
  proof (cases "trimmed refresh")
    case None
    then show ?thesis by (simp add: one_refresh_def)
  next
    case (Some r)
    show ?thesis
    proof (cases "trimmed client")
      case None
      with Some show ?thesis by (simp add: one_refresh_def)
    next
      case (Some c)
      with \<open>trimmed refresh = Some r\<close> refresh_gitlab_sent [of l url c secret r over ?w] show ?thesis
        by (auto simp: one_refresh_def split_beta)
    qed
  qed
  then show ?thesis
    by (auto simp: resolve_gitlab_oauth_runtime_auth_def bindR_run [of unix_time_ms] unix_time_run
        ok_or_trimmed_run bindR_ok_or live_def ret_run trimmed_the Let_def split: option.split)
qed

lemma codex_reuse:
  "case resolve_openai_codex_runtime_auth l params w of (r, t) \<Rightarrow>
     if trimmed (orr_refresh_token params) = None then (\<exists>e. r = Inl e) \<and> wb_sent t = wb_sent w
     else if live (orr_access_token params) (orr_expires_at_ms params) w
     then (\<exists>a. r = Inr a \<and> ora_access_token a = trim (the (orr_access_token params)) \<and>
             Some (ora_expires_at_ms a) = orr_expires_at_ms params) \<and> wb_sent t = wb_sent w
     else one_refresh (orr_refresh_token params) r w t"
proof (cases "trimmed (orr_refresh_token params)")
  case None
  then show ?thesis
    by (simp add: resolve_openai_codex_runtime_auth_def bindR_run [of unix_time_ms] unix_time_run
        bindR_ok_or)
next
  case (Some c)
  let ?w = "w\<lparr>wb_clock_reads := Suc (wb_clock_reads w)\<rparr>"
  let ?f = "\<lambda>x. ret (x\<lparr>ora_account_id := opt_or (ora_account_id x) (orr_account_id params)\<rparr>)"
  have "case bindR (refresh_openai_codex_token l c (orr_token_url_override params)) ?f ?w of
      (r, t) \<Rightarrow> one_refresh (orr_refresh_token params) r w t"
    using refresh_codex_sent [of l c "orr_token_url_override params" ?w] Some
    by (auto simp: one_refresh_def bindR_run ret_run split_beta split: sum.split)
  with Some show ?thesis
    by (auto simp: resolve_openai_codex_runtime_auth_def bindR_run [of unix_time_ms] unix_time_run
        ok_or_trimmed_run bindR_ok_or live_def ret_run trimmed_the Let_def split: option.split)
qed

lemma minimax_reuse:
  "case resolve_minimax_oauth_runtime_auth l access refresh expires region resource w of (r, t) \<Rightarrow>
     if to_lower (trim region) \<notin> {''global'', ''cn''} then (\<exists>e. r = Inl e) \<and> wb_sent t = wb_sent w
     else if live access expires w
     then (\<exists>a. r = Inr a \<and> mra_access_token a = trim (the access) \<and>
             Some (mra_expires_at_ms a) = expires) \<and> wb_sent t = wb_sent w
     else one_refresh refresh r w t"
proof (cases "to_lower (trim region) \<in> {''global'', ''cn''}")
  case False
  then obtain e where "normalize_minimax_region region w = (Inl e, w)"
    by (auto simp: normalize_minimax_region_def failure_run Let_def)
  with False show ?thesis
    by (simp add: resolve_minimax_oauth_runtime_auth_def bindR_run [of "normalize_minimax_region region"])
next
  case True
  then obtain known where known: "normalize_minimax_region region w = (Inr known, w)"
    "known \<in> {''global'', ''cn''}" for w
    by (auto simp: normalize_minimax_region_def ret_run)
  have again: "normalize_minimax_region known w = (Inr known, w)" for w
  proof -
    have "to_lower (trim ''global'') = ''global''" "to_lower (trim ''cn'') = ''cn''" by code_simp+
    with known(2) show ?thesis by (auto simp: normalize_minimax_region_def ret_run)
  qed
  let ?w = "w\<lparr>wb_clock_reads := Suc (wb_clock_reads w)\<rparr>"
  have "case (case trimmed refresh of
        None \<Rightarrow> (Inl (ProviderFailure ''MiniMax OAuth refresh requires a refresh token''), ?w)
      | Some r \<Rightarrow> refresh_minimax_oauth_token l known r resource ?w) of
      (r, t) \<Rightarrow> one_refresh refresh r w t"
  proof (cases "trimmed refresh")
    case None
    then show ?thesis by (simp add: one_refresh_def)
  next
    case (Some r)
    with refresh_minimax_sent [OF again, of l r resource ?w] show ?thesis
      by (auto simp: one_refresh_def split_beta)
  qed
  with True show ?thesis
    by (auto simp: resolve_minimax_oauth_runtime_auth_def bindR_run [of "normalize_minimax_region region"]
        bindR_run [of unix_time_ms] known unix_time_run ok_or_trimmed_run bindR_ok_or live_def ret_run trimmed_the
        Let_def split: option.split)
qed

text \<open>A stored credential is used as long as it is valid and refreshed when it is not. Each of the
  three resolutions compares the expiry with the clock once: if the access token is not blank and its
  expiry lies ahead, it is returned, trimmed, with its own expiry and no request is sent; otherwise
  the only request that can be sent is a single refresh with the trimmed refresh token, and without
  one there is an error and no request. (A Codex credential always needs a refresh token, MiniMax a
  known region; without them there is an error and no request.)\<close>

theorem live_credential_reused:
  "(case resolve_gitlab_oauth_runtime_auth l access refresh expires url client secret over w of (r, t) \<Rightarrow>
      if live access expires w
      then r = Inr \<lparr>gra_access_token = trim (the access), gra_refresh_token = refresh,
                    gra_expires_at_ms = expires\<rparr> \<and> wb_sent t = wb_sent w
      else one_refresh refresh r w t) \<and>
   (case resolve_openai_codex_runtime_auth l params w of (r, t) \<Rightarrow>
      if trimmed (orr_refresh_token params) = None then (\<exists>e. r = Inl e) \<and> wb_sent t = wb_sent w
      else if live (orr_access_token params) (orr_expires_at_ms params) w
      then (\<exists>a. r = Inr a \<and> ora_access_token a = trim (the (orr_access_token params)) \<and>
              Some (ora_expires_at_ms a) = orr_expires_at_ms params) \<and> wb_sent t = wb_sent w
      else one_refresh (orr_refresh_token params) r w t) \<and>
   (case resolve_minimax_oauth_runtime_auth l access refresh expires region resource w of (r, t) \<Rightarrow>
      if to_lower (trim region) \<notin> {''global'', ''cn''} then (\<exists>e. r = Inl e) \<and> wb_sent t = wb_sent w
      else if live access expires w
      then (\<exists>a. r = Inr a \<and> mra_access_token a = trim (the access) \<and>
              Some (mra_expires_at_ms a) = expires) \<and> wb_sent t = wb_sent w
      else one_refresh refresh r w t)"
proof (intro conjI)
  show "case resolve_gitlab_oauth_runtime_auth l access refresh expires url client secret over w of (r, t) \<Rightarrow>
      if live access expires w
      then r = Inr \<lparr>gra_access_token = trim (the access), gra_refresh_token = refresh,
                    gra_expires_at_ms = expires\<rparr> \<and> wb_sent t = wb_sent w
      else one_refresh refresh r w t"
    by (rule gitlab_reuse)
  show "case resolve_openai_codex_runtime_auth l params w of (r, t) \<Rightarrow>
      if trimmed (orr_refresh_token params) = None then (\<exists>e. r = Inl e) \<and> wb_sent t = wb_sent w
      else if live (orr_access_token params) (orr_expires_at_ms params) w
      then (\<exists>a. r = Inr a \<and> ora_access_token a = trim (the (orr_access_token params)) \<and>
              Some (ora_expires_at_ms a) = orr_expires_at_ms params) \<and> wb_sent t = wb_sent w
      else one_refresh (orr_refresh_token params) r w t"
    by (rule codex_reuse)
  show "case resolve_minimax_oauth_runtime_auth l access refresh expires region resource w of (r, t) \<Rightarrow>
      if to_lower (trim region) \<notin> {''global'', ''cn''} then (\<exists>e. r = Inl e) \<and> wb_sent t = wb_sent w
      else if live access expires w
      then (\<exists>a. r = Inr a \<and> mra_access_token a = trim (the access) \<and>
              Some (mra_expires_at_ms a) = expires) \<and> wb_sent t = wb_sent w
      else one_refresh refresh r w t"
    by (rule minimax_reuse)
qed

section \<open>What the timestamps and the poll errors become\<close>

text \<open>A MiniMax expiry given as a Unix time in seconds is taken for a duration: it is added to
  the present.\<close>

lemma seconds_timestamp_taken_as_duration:
  "fst (normalize_minimax_timestamp 1700000000 w) = Inr (u64 (now_ms w + 1700000000000))"
  by (simp add: normalize_minimax_timestamp_def run_simps unix_time_run u64_def)

text \<open>A device code that is expired or wrong is reported as pending, like one the user has not entered
  yet, so a client that polls until the login is complete or fails never stops.\<close>

lemma expired_code_stays_pending:
  assumes "wb_http w (length (wb_sent w)) = (\<lambda>q. Replied True ''200 OK'' (Inr body))"
    and "td_device_poll (pv_decode l) body =
      Inr \<lparr>gpr_access_token = None, gpr_error = Some ''expired_token'', gpr_interval = None\<rparr>"
  shows "fst (poll_github_copilot_device_authorization l code enterprise interval over w) =
    Inr (CopilotPending (u32_saturating_add (unwrap_or 5 interval) 3))"
proof -
  obtain v where "first_env [''LIZ_GITHUB_COPILOT_ACCESS_TOKEN_URL''] w = (Inr v, w)"
    using first_env_run by blast
  then show ?thesis
    using assms by (simp add: poll_github_copilot_device_authorization_def run_simps post_json_body_def
        exchange_def)
qed

end
