(* ===== verification/Messages.thy ===== *)
theory Messages
  imports Logins Tools
begin

text \<open>
  The protocol's requests and responses (\<open>liz-protocol/src/requests.rs\<close>, \<open>responses.rs\<close>) with their method
  names, and the envelopes that carry them. A request or response struct with a single field is that
  field, one without fields is nothing, and a small one is the sequence of its fields.
\<close>

section \<open>Requests\<close>

record runtime_config_update_request =
  cu_sandbox :: "shell_sandbox_request option"
  cu_approval_policy :: "approval_policy option"

record thread_rollback_request =
  bk_thread_id :: thread_id
  bk_target_checkpoint_id :: "checkpoint_id option"
  bk_rollback_scope :: checkpoint_scope

datatype (plugins only: code size) client_request =
  OpenAiCodexOAuthStart open_ai_codex_oauth_start_request
| OpenAiCodexOAuthComplete open_ai_codex_oauth_complete_request
| GitLabOAuthStart gitlab_oauth_start_request
| GitLabOAuthComplete gitlab_oauth_complete_request
| GitLabPatSave gitlab_pat_save_request
| GitHubCopilotDeviceStart "string option"
| GitHubCopilotDevicePoll github_copilot_device_poll_request
| MiniMaxOAuthStart string
| MiniMaxOAuthPoll minimax_oauth_poll_request
| ProviderAuthList "string option"
| ModelStatus
| RuntimeConfigGet
| RuntimeConfigUpdate runtime_config_update_request
| ProviderAuthUpsert provider_auth_profile
| ProviderAuthDelete string
| ThreadStart thread_start_request
| ThreadResume thread_id
| ThreadList thread_list_request
| ThreadFork thread_fork_request
| TurnStart turn_start_request
| TurnCancel turn_cancel_request
| ApprovalRespond approval_respond_request
| ToolCall tool_call_request
| ThreadRollback thread_rollback_request
| MemoryReadWakeup thread_id
| MemoryCompileNow thread_id
| MemoryListTopics "memory_topic_status option" "nat option"
| MemorySearch string memory_search_mode "nat option"
| MemoryOpenSession thread_id
| MemoryOpenEvidence thread_id "turn_id option" "artifact_id option" "memory_fact_id option"
| MemorySurfaceAboutYouRead
| MemorySurfaceAboutYouUpdate about_you_surface
| MemorySurfaceCarryingRead "nat option"
| MemorySurfaceKnowledgeList "nat option"
| MemorySurfaceKnowledgeCorrect memory_fact_id string
| PeopleSurfaceRead
| PeopleSurfaceUpsert person_boundary
| PeopleSurfaceDelete string
| NodeList
| NodeRead node_id
| NodeUpdatePolicy node_id node_policy
| NodeHeartbeat node_id node_status
| WorkspaceMountList "node_id option"
| WorkspaceMountAttach workspace_mount_attach_request
| WorkspaceMountDetach workspace_mount_id

fun request_method :: "client_request \<Rightarrow> string" where
  "request_method (OpenAiCodexOAuthStart _) = ''provider_auth/openai_codex_oauth_start''"
| "request_method (OpenAiCodexOAuthComplete _) = ''provider_auth/openai_codex_oauth_complete''"
| "request_method (GitLabOAuthStart _) = ''provider_auth/gitlab_oauth_start''"
| "request_method (GitLabOAuthComplete _) = ''provider_auth/gitlab_oauth_complete''"
| "request_method (GitLabPatSave _) = ''provider_auth/gitlab_pat_save''"
| "request_method (GitHubCopilotDeviceStart _) = ''provider_auth/github_copilot_device_start''"
| "request_method (GitHubCopilotDevicePoll _) = ''provider_auth/github_copilot_device_poll''"
| "request_method (MiniMaxOAuthStart _) = ''provider_auth/minimax_oauth_start''"
| "request_method (MiniMaxOAuthPoll _) = ''provider_auth/minimax_oauth_poll''"
| "request_method (ProviderAuthList _) = ''provider_auth/list''"
| "request_method ModelStatus = ''model/status''"
| "request_method RuntimeConfigGet = ''runtime/config_get''"
| "request_method (RuntimeConfigUpdate _) = ''runtime/config_update''"
| "request_method (ProviderAuthUpsert _) = ''provider_auth/upsert''"
| "request_method (ProviderAuthDelete _) = ''provider_auth/delete''"
| "request_method (ThreadStart _) = ''thread/start''"
| "request_method (ThreadResume _) = ''thread/resume''"
| "request_method (ThreadList _) = ''thread/list''"
| "request_method (ThreadFork _) = ''thread/fork''"
| "request_method (TurnStart _) = ''turn/start''"
| "request_method (TurnCancel _) = ''turn/cancel''"
| "request_method (ApprovalRespond _) = ''approval/respond''"
| "request_method (ToolCall _) = ''tool/call''"
| "request_method (ThreadRollback _) = ''thread/rollback''"
| "request_method (MemoryReadWakeup _) = ''memory/read_wakeup''"
| "request_method (MemoryCompileNow _) = ''memory/compile_now''"
| "request_method (MemoryListTopics _ _) = ''memory/list_topics''"
| "request_method (MemorySearch _ _ _) = ''memory/search''"
| "request_method (MemoryOpenSession _) = ''memory/open_session''"
| "request_method (MemoryOpenEvidence _ _ _ _) = ''memory/open_evidence''"
| "request_method MemorySurfaceAboutYouRead = ''memory_surface/about_you/read''"
| "request_method (MemorySurfaceAboutYouUpdate _) = ''memory_surface/about_you/update''"
| "request_method (MemorySurfaceCarryingRead _) = ''memory_surface/carrying/read''"
| "request_method (MemorySurfaceKnowledgeList _) = ''memory_surface/knowledge/list''"
| "request_method (MemorySurfaceKnowledgeCorrect _ _) = ''memory_surface/knowledge/correct''"
| "request_method PeopleSurfaceRead = ''people_surface/read''"
| "request_method (PeopleSurfaceUpsert _) = ''people_surface/upsert''"
| "request_method (PeopleSurfaceDelete _) = ''people_surface/delete''"
| "request_method NodeList = ''node/list''"
| "request_method (NodeRead _) = ''node/read''"
| "request_method (NodeUpdatePolicy _ _) = ''node/update_policy''"
| "request_method (NodeHeartbeat _ _) = ''node/heartbeat''"
| "request_method (WorkspaceMountList _) = ''workspace_mount/list''"
| "request_method (WorkspaceMountAttach _) = ''workspace_mount/attach''"
| "request_method (WorkspaceMountDetach _) = ''workspace_mount/detach''"

record client_request_envelope =
  qe_request_id :: string
  qe_request :: client_request

section \<open>Responses\<close>

record model_status_response =
  ms_provider_id :: string
  ms_display_name :: "string option"
  ms_model_id :: "string option"
  ms_auth_kind :: "string option"
  ms_ready :: bool
  ms_credential_configured :: bool
  ms_credential_hints :: "string list"
  ms_notes :: "string list"

record runtime_config_response =
  rc_sandbox :: shell_sandbox_summary
  rc_approval_policy :: approval_policy

datatype (plugins only: code size) response_payload =
  OpenAiCodexOAuthStartReply oauth_start
| OpenAiCodexOAuthCompleteReply provider_auth_profile
| GitLabOAuthStartReply oauth_start
| GitLabOAuthCompleteReply provider_auth_profile
| GitLabPatSaveReply provider_auth_profile
| GitHubCopilotDeviceStartReply github_copilot_device_code
| GitHubCopilotDevicePollReply github_copilot_device_poll_response
| MiniMaxOAuthStartReply minimax_oauth_device_code
| MiniMaxOAuthPollReply minimax_oauth_poll_response
| ProviderAuthListReply "provider_auth_profile list"
| ModelStatusReply model_status_response
| RuntimeConfigReply runtime_config_response
| ProviderAuthUpsertReply provider_auth_profile
| ProviderAuthDeleteReply string
| ThreadStartReply thread
| ThreadResumeReply thread "resume_summary option"
| ThreadListReply "thread list"
| ThreadForkReply thread
| TurnStartReply turn
| TurnCancelReply turn
| ApprovalRespondReply approval_request
| ToolCallReply tool_call_response
| ThreadRollbackReply thread "checkpoint option" checkpoint_scope
| MemoryReadWakeupReply thread_id memory_wakeup recent_conversation_wakeup_view
| MemoryCompileNowReply thread_id memory_compilation_summary
| MemoryListTopicsReply "memory_topic_summary list"
| MemorySearchReply string memory_search_mode "memory_search_hit list"
| MemoryOpenSessionReply memory_session_view
| MemoryOpenEvidenceReply memory_evidence_view
| MemorySurfaceAboutYouReadReply about_you_surface
| MemorySurfaceAboutYouUpdateReply about_you_surface
| MemorySurfaceCarryingReadReply carrying_surface
| MemorySurfaceKnowledgeListReply "knowledge_item list"
| MemorySurfaceKnowledgeCorrectReply knowledge_item
| PeopleSurfaceReadReply people_surface
| PeopleSurfaceUpsertReply people_surface
| PeopleSurfaceDeleteReply people_surface
| NodeListReply "node_record list"
| NodeReadReply node_record
| NodeUpdatePolicyReply node_record
| NodeHeartbeatReply node_record inbound_event_action
| WorkspaceMountListReply "workspace_mount list"
| WorkspaceMountAttachReply workspace_mount
| WorkspaceMountDetachReply workspace_mount_id

fun reply_method :: "response_payload \<Rightarrow> string" where
  "reply_method (OpenAiCodexOAuthStartReply _) = ''provider_auth/openai_codex_oauth_start''"
| "reply_method (OpenAiCodexOAuthCompleteReply _) = ''provider_auth/openai_codex_oauth_complete''"
| "reply_method (GitLabOAuthStartReply _) = ''provider_auth/gitlab_oauth_start''"
| "reply_method (GitLabOAuthCompleteReply _) = ''provider_auth/gitlab_oauth_complete''"
| "reply_method (GitLabPatSaveReply _) = ''provider_auth/gitlab_pat_save''"
| "reply_method (GitHubCopilotDeviceStartReply _) = ''provider_auth/github_copilot_device_start''"
| "reply_method (GitHubCopilotDevicePollReply _) = ''provider_auth/github_copilot_device_poll''"
| "reply_method (MiniMaxOAuthStartReply _) = ''provider_auth/minimax_oauth_start''"
| "reply_method (MiniMaxOAuthPollReply _) = ''provider_auth/minimax_oauth_poll''"
| "reply_method (ProviderAuthListReply _) = ''provider_auth/list''"
| "reply_method (ModelStatusReply _) = ''model/status''"
| "reply_method (RuntimeConfigReply _) = ''runtime/config''"
| "reply_method (ProviderAuthUpsertReply _) = ''provider_auth/upsert''"
| "reply_method (ProviderAuthDeleteReply _) = ''provider_auth/delete''"
| "reply_method (ThreadStartReply _) = ''thread/start''"
| "reply_method (ThreadResumeReply _ _) = ''thread/resume''"
| "reply_method (ThreadListReply _) = ''thread/list''"
| "reply_method (ThreadForkReply _) = ''thread/fork''"
| "reply_method (TurnStartReply _) = ''turn/start''"
| "reply_method (TurnCancelReply _) = ''turn/cancel''"
| "reply_method (ApprovalRespondReply _) = ''approval/respond''"
| "reply_method (ToolCallReply _) = ''tool/call''"
| "reply_method (ThreadRollbackReply _ _ _) = ''thread/rollback''"
| "reply_method (MemoryReadWakeupReply _ _ _) = ''memory/read_wakeup''"
| "reply_method (MemoryCompileNowReply _ _) = ''memory/compile_now''"
| "reply_method (MemoryListTopicsReply _) = ''memory/list_topics''"
| "reply_method (MemorySearchReply _ _ _) = ''memory/search''"
| "reply_method (MemoryOpenSessionReply _) = ''memory/open_session''"
| "reply_method (MemoryOpenEvidenceReply _) = ''memory/open_evidence''"
| "reply_method (MemorySurfaceAboutYouReadReply _) = ''memory_surface/about_you/read''"
| "reply_method (MemorySurfaceAboutYouUpdateReply _) = ''memory_surface/about_you/update''"
| "reply_method (MemorySurfaceCarryingReadReply _) = ''memory_surface/carrying/read''"
| "reply_method (MemorySurfaceKnowledgeListReply _) = ''memory_surface/knowledge/list''"
| "reply_method (MemorySurfaceKnowledgeCorrectReply _) = ''memory_surface/knowledge/correct''"
| "reply_method (PeopleSurfaceReadReply _) = ''people_surface/read''"
| "reply_method (PeopleSurfaceUpsertReply _) = ''people_surface/upsert''"
| "reply_method (PeopleSurfaceDeleteReply _) = ''people_surface/delete''"
| "reply_method (NodeListReply _) = ''node/list''"
| "reply_method (NodeReadReply _) = ''node/read''"
| "reply_method (NodeUpdatePolicyReply _) = ''node/update_policy''"
| "reply_method (NodeHeartbeatReply _ _) = ''node/heartbeat''"
| "reply_method (WorkspaceMountListReply _) = ''workspace_mount/list''"
| "reply_method (WorkspaceMountAttachReply _) = ''workspace_mount/attach''"
| "reply_method (WorkspaceMountDetachReply _) = ''workspace_mount/detach''"

text \<open>The code, the text and whether a retry may help.\<close>

record response_error =
  re_code :: string
  re_message :: string
  re_retryable :: bool

text \<open>\<open>ok\<close> is \<open>true\<close> in every success envelope and \<open>false\<close> in every error envelope, so the constructor
  stands for it.\<close>

datatype server_response_envelope =
  Success (ve_request_id: string) (ve_response: response_payload)
| Error (ve_request_id: string) (ve_error: response_error)

end
