(* ===== verification/Sandbox.thy ===== *)
theory Sandbox
  imports Ids Tools
begin

text \<open>
  The choice of a sandbox for a shell command (\<open>executor/sandbox.rs\<close>): the defaults read from the
  environment, the mode a request overrides them with, and the platform backend that has to enforce
  the mode. The operating system the server is compiled for and its environment are the record
  \<open>host_env\<close>; \<open>env::var\<close> is the field \<open>he_var\<close>.
\<close>

section \<open>The host\<close>

datatype target_os = MacOs | Linux | Windows | OtherOs

record host_env =
  he_os :: target_os
  he_var :: "string \<Rightarrow> string option"
  he_exe_dir :: "string option"
  he_path_dirs :: "string list"
  he_is_file :: "string \<Rightarrow> bool"

section \<open>Backends\<close>

datatype platform_sandbox_backend =
  PlatformNone | PlatformMacosSeatbelt | PlatformLinuxHelper
| PlatformWindowsRestrictedToken | PlatformWindowsSandboxUser

fun platform_as_str :: "platform_sandbox_backend \<Rightarrow> string" where
  "platform_as_str PlatformNone = ''none''"
| "platform_as_str PlatformMacosSeatbelt = ''macos-seatbelt''"
| "platform_as_str PlatformLinuxHelper = ''linux-helper''"
| "platform_as_str PlatformWindowsRestrictedToken = ''windows-restricted-token''"
| "platform_as_str PlatformWindowsSandboxUser = ''windows-sandbox-user''"

fun platform_to_protocol :: "platform_sandbox_backend \<Rightarrow> sandbox_backend_kind" where
  "platform_to_protocol PlatformNone = NoBackend"
| "platform_to_protocol PlatformMacosSeatbelt = MacosSeatbelt"
| "platform_to_protocol PlatformLinuxHelper = LinuxHelper"
| "platform_to_protocol PlatformWindowsRestrictedToken = WindowsRestrictedToken"
| "platform_to_protocol PlatformWindowsSandboxUser = WindowsSandboxUser"

text \<open>The metric tag of a backend is the wire name of its protocol representation.\<close>

lemma platform_as_str_protocol: "backend_kind_as_str (platform_to_protocol b) = platform_as_str b"
  by (cases b) simp_all

datatype windows_sandbox_backend = RestrictedToken | SandboxUser

definition windows_backend_from_env :: "host_env \<Rightarrow> windows_sandbox_backend" where
  "windows_backend_from_env h =
     (if to_lower (unwrap_or ''sandbox-user'' (he_var h ''LIZ_WINDOWS_SANDBOX_BACKEND''))
           = ''restricted-token''
      then RestrictedToken else SandboxUser)"

datatype linux_sandbox_variant = Helper | LegacyLandlock

definition linux_variant_from_env :: "host_env \<Rightarrow> linux_sandbox_variant" where
  "linux_variant_from_env h =
     (if to_lower (unwrap_or ''helper'' (he_var h ''LIZ_LINUX_SANDBOX_VARIANT''))
           = ''legacy-landlock''
      then LegacyLandlock else Helper)"

section \<open>Configuration\<close>

record sandbox_config =
  sb_default_mode :: sandbox_mode
  sb_default_network_access :: sandbox_network_access
  sb_windows_backend :: windows_sandbox_backend
  sb_linux_variant :: linux_sandbox_variant

definition parse_sandbox_mode :: "host_env \<Rightarrow> string \<Rightarrow> sandbox_mode option" where
  "parse_sandbox_mode h key =
     Option.bind (he_var h key) (\<lambda>v.
       let s = to_lower v in
       if s = ''read-only'' then Some ReadOnly
       else if s = ''workspace-write'' then Some WorkspaceWrite
       else if s = ''danger-full-access'' then Some DangerFullAccess
       else if s = ''external-sandbox'' then Some ExternalSandbox
       else None)"

definition parse_network_access :: "host_env \<Rightarrow> string \<Rightarrow> sandbox_network_access option" where
  "parse_network_access h key =
     Option.bind (he_var h key) (\<lambda>v.
       let s = to_lower v in
       if s = ''disabled'' then Some Disabled
       else if s = ''restricted'' then Some Restricted
       else if s = ''enabled'' then Some Enabled
       else None)"

definition default_sandbox_mode :: "host_env \<Rightarrow> sandbox_mode" where
  "default_sandbox_mode h = (if he_os h = OtherOs then DangerFullAccess else WorkspaceWrite)"

definition sandbox_from_env :: "host_env \<Rightarrow> sandbox_config" where
  "sandbox_from_env h =
     \<lparr>sb_default_mode = unwrap_or (default_sandbox_mode h) (parse_sandbox_mode h ''LIZ_SANDBOX_MODE''),
      sb_default_network_access =
        unwrap_or Restricted (parse_network_access h ''LIZ_SANDBOX_NETWORK''),
      sb_windows_backend = windows_backend_from_env h,
      sb_linux_variant = linux_variant_from_env h\<rparr>"

definition set_default_request :: "shell_sandbox_request \<Rightarrow> sandbox_config \<Rightarrow> sandbox_config" where
  "set_default_request r c =
     c\<lparr>sb_default_mode := rq_mode r, sb_default_network_access := rq_network_access r\<rparr>"

section \<open>Resolution\<close>

record effective_sandbox_request =
  es_mode :: sandbox_mode
  es_network_access :: sandbox_network_access
  es_backend :: platform_sandbox_backend
  es_request :: "shell_sandbox_request option"

definition select_backend :: "host_env \<Rightarrow> sandbox_config \<Rightarrow> sandbox_mode \<Rightarrow> platform_sandbox_backend" where
  "select_backend h c mode =
     (if mode \<in> {DangerFullAccess, ExternalSandbox} then PlatformNone
      else (case he_os h of
        MacOs \<Rightarrow> PlatformMacosSeatbelt
      | Linux \<Rightarrow> PlatformLinuxHelper
      | Windows \<Rightarrow> (case sb_windows_backend c of
          RestrictedToken \<Rightarrow> PlatformWindowsRestrictedToken
        | SandboxUser \<Rightarrow> PlatformWindowsSandboxUser)
      | OtherOs \<Rightarrow> PlatformNone))"

definition resolve_request ::
  "host_env \<Rightarrow> sandbox_config \<Rightarrow> shell_sandbox_request option \<Rightarrow> effective_sandbox_request" where
  "resolve_request h c request =
     (let mode = unwrap_or (sb_default_mode c) (map_option rq_mode request);
          network = unwrap_or (sb_default_network_access c) (map_option rq_network_access request)
      in \<lparr>es_mode = mode, es_network_access = network, es_backend = select_backend h c mode,
          es_request = request\<rparr>)"

definition ensure_supported :: "effective_sandbox_request \<Rightarrow> runtime_error + unit" where
  "ensure_supported e =
     (case es_mode e of
        DangerFullAccess \<Rightarrow> Inr ()
      | ExternalSandbox \<Rightarrow> Inr ()
      | _ \<Rightarrow> (case es_backend e of
          PlatformNone \<Rightarrow> Inl (InvalidState ''sandbox_backend_unavailable''
            (''sandbox mode '' @ sandbox_mode_as_str (es_mode e)
               @ '' is enabled but no platform backend is available''))
        | _ \<Rightarrow> Inr ()))"

definition to_summary :: "effective_sandbox_request \<Rightarrow> shell_sandbox_summary" where
  "to_summary e =
     \<lparr>sum_mode = es_mode e, sum_network_access = es_network_access e,
      sum_backend = platform_to_protocol (es_backend e)\<rparr>"

section \<open>Facts about the choice\<close>

text \<open>Modes that ask for enforcement by the platform.\<close>

definition restricted :: "sandbox_mode \<Rightarrow> bool" where
  "restricted m \<longleftrightarrow> m = ReadOnly \<or> m = WorkspaceWrite"

lemma restricted_simps [simp]:
  "restricted ReadOnly" "restricted WorkspaceWrite"
  "\<not> restricted DangerFullAccess" "\<not> restricted ExternalSandbox"
  by (simp_all add: restricted_def)

lemma resolve_request_simps [simp]:
  "es_mode (resolve_request h c None) = sb_default_mode c"
  "es_mode (resolve_request h c (Some r)) = rq_mode r"
  "es_network_access (resolve_request h c None) = sb_default_network_access c"
  "es_network_access (resolve_request h c (Some r)) = rq_network_access r"
  "es_backend (resolve_request h c r') = select_backend h c (es_mode (resolve_request h c r'))"
  "es_request (resolve_request h c r') = r'"
  by (simp_all add: resolve_request_def unwrap_or_def Let_def)

lemma select_backend_None_iff:
  "select_backend h c m = PlatformNone \<longleftrightarrow> \<not> restricted m \<or> he_os h = OtherOs"
  by (cases m; cases "he_os h") (auto simp: select_backend_def split: windows_sandbox_backend.splits)

lemma ensure_supported_iff:
  "ensure_supported e = Inr u \<longleftrightarrow> \<not> restricted (es_mode e) \<or> es_backend e \<noteq> PlatformNone"
  by (cases "es_mode e"; cases "es_backend e") (simp_all add: ensure_supported_def)

lemma set_default_request_resolves:
  "resolve_request h (set_default_request r c) None
     = (resolve_request h c (Some r))\<lparr>es_request := None\<rparr>"
  by (cases "he_os h")
    (simp_all add: resolve_request_def set_default_request_def select_backend_def unwrap_or_def Let_def)

end
