(* ===== verification/Shell.thy ===== *)
theory Shell
  imports Sandbox
begin

text \<open>
  Shell execution on the local node (\<open>executor/shell.rs\<close>): the command line that is handed to the
  operating system for each sandbox mode, foreground execution, and background tasks whose output
  two reader threads collect while clients read it, wait for it or terminate it.

  Processes belong to the operating system. The state carries what it will do: \<open>plan n c\<close> is the fate of
  the \<open>n\<close>-th process started, for the command \<open>c\<close>, where \<open>None\<close> means it cannot be started.
  \<open>launched\<close> lists the commands that were handed over. The threads that share a task's
  state are interleaved as explicit steps (\<open>shell_step\<close>). A call that blocks on a process is described
  at the point where it returns.
\<close>

section \<open>Command lines\<close>

record shell_command =
  cm_program :: string
  cm_args :: "string list"
  cm_current_dir :: "string option"

definition command_new :: "string \<Rightarrow> string list \<Rightarrow> shell_command" where
  "command_new program args = \<lparr>cm_program = program, cm_args = args, cm_current_dir = None\<rparr>"

definition direct_shell_command :: "host_env \<Rightarrow> string \<Rightarrow> shell_command" where
  "direct_shell_command h command =
     (if he_os h = Windows then command_new ''powershell'' [''-NoProfile'', ''-Command'', command]
      else command_new ''sh'' [''-lc'', command])"

definition build_macos_policy ::
  "string option \<Rightarrow> sandbox_mode \<Rightarrow> sandbox_network_access \<Rightarrow> string" where
  "build_macos_policy working_dir mode network_access =
     (let workspace_root = unwrap_or ''.'' working_dir;
          file_write_policy =
            (if mode = WorkspaceWrite
             then ''(allow file-write* (subpath '' @ [CHR 0x22] @ workspace_root @ [CHR 0x22] @ ''))''
                    @ [CHR 0x0A]
             else []);
          network_policy =
            (case network_access of
               Disabled \<Rightarrow> []
             | Restricted \<Rightarrow> ''(allow network-outbound (remote ip '' @ [CHR 0x22] @ ''localhost:*''
                 @ [CHR 0x22] @ ''))'' @ [CHR 0x0A]
             | Enabled \<Rightarrow> ''(allow network-outbound)'' @ [CHR 0x0A] @ ''(allow network-inbound)''
                 @ [CHR 0x0A])
      in ''(version 1)'' @ [CHR 0x0A] @ ''(deny default)'' @ [CHR 0x0A] @ ''(allow process*)''
           @ [CHR 0x0A] @ ''(allow signal (target self))'' @ [CHR 0x0A] @ ''(allow file-read*)''
           @ [CHR 0x0A] @ file_write_policy @ network_policy)"

definition build_linux_helper_command ::
  "string \<Rightarrow> string \<Rightarrow> string option \<Rightarrow> effective_sandbox_request \<Rightarrow> linux_sandbox_variant
   \<Rightarrow> shell_command" where
  "build_linux_helper_command helper command working_dir sandbox variant =
     command_new helper
       ([''--sandbox-mode'', sandbox_mode_as_str (es_mode sandbox),
         ''--network-access'', network_access_as_str (es_network_access sandbox)]
        @ (case working_dir of None \<Rightarrow> [] | Some dir \<Rightarrow> [''--working-dir'', dir])
        @ (if variant = LegacyLandlock then [''--use-legacy-landlock''] else [])
        @ [''--'', ''sh'', ''-lc'', command])"

definition build_windows_helper_command ::
  "string \<Rightarrow> string \<Rightarrow> string option \<Rightarrow> effective_sandbox_request \<Rightarrow> shell_command" where
  "build_windows_helper_command helper command working_dir sandbox =
     command_new helper
       ([''--sandbox-mode'', sandbox_mode_as_str (es_mode sandbox),
         ''--network-access'', network_access_as_str (es_network_access sandbox)]
        @ (case working_dir of None \<Rightarrow> [] | Some dir \<Rightarrow> [''--working-dir'', dir])
        @ [''--'', ''powershell'', ''-NoProfile'', ''-Command'', command])"

subsection \<open>Finding the helper\<close>

fun helper_names_for_backend :: "platform_sandbox_backend \<Rightarrow> string list option" where
  "helper_names_for_backend PlatformLinuxHelper =
     Some [''liz-linux-sandbox'', ''liz-linux-sandbox-helper'']"
| "helper_names_for_backend PlatformWindowsRestrictedToken =
     Some [''liz-windows-restricted-token.exe'', ''liz-windows-restricted-token.cmd'']"
| "helper_names_for_backend PlatformWindowsSandboxUser =
     Some [''liz-windows-sandbox-user.exe'', ''liz-windows-sandbox-user.cmd'']"
| "helper_names_for_backend _ = None"

text \<open>\<open>Path::join\<close> of a directory and a plain file name, with the host's separator.\<close>

definition path_join :: "target_os \<Rightarrow> string \<Rightarrow> string \<Rightarrow> string" where
  "path_join os dir name =
     (let sep = (if os = Windows then CHR 0x5C else CHR 0x2F)
      in if dir = [] \<or> last dir = sep then dir @ name else dir @ sep # name)"

definition helper_candidates_in_dir :: "target_os \<Rightarrow> string \<Rightarrow> string list \<Rightarrow> string list" where
  "helper_candidates_in_dir os dir names = map (path_join os dir) names"

definition resolve_default_helper_path ::
  "host_env \<Rightarrow> platform_sandbox_backend \<Rightarrow> string option" where
  "resolve_default_helper_path h backend =
     Option.bind (helper_names_for_backend backend) (\<lambda>names.
       find (he_is_file h)
         ((case he_exe_dir h of
             None \<Rightarrow> [] | Some dir \<Rightarrow> helper_candidates_in_dir (he_os h) dir names)
          @ concat (map (\<lambda>dir. helper_candidates_in_dir (he_os h) dir names) (he_path_dirs h))))"

fun helper_lookup :: "platform_sandbox_backend \<Rightarrow> (string \<times> string \<times> string) option" where
  "helper_lookup PlatformLinuxHelper =
     Some (''LIZ_LINUX_SANDBOX_HELPER'', ''linux_sandbox_helper_missing'', ''Linux sandbox helper'')"
| "helper_lookup PlatformWindowsRestrictedToken =
     Some (''LIZ_WINDOWS_RESTRICTED_TOKEN_HELPER'', ''windows_restricted_token_helper_missing'',
           ''Windows restricted-token sandbox helper'')"
| "helper_lookup PlatformWindowsSandboxUser =
     Some (''LIZ_WINDOWS_SANDBOX_USER_HELPER'', ''windows_sandbox_user_helper_missing'',
           ''Windows sandbox-user helper'')"
| "helper_lookup _ = None"

definition helper_path_for_backend ::
  "host_env \<Rightarrow> platform_sandbox_backend \<Rightarrow> runtime_error + string" where
  "helper_path_for_backend h backend =
     (case helper_lookup backend of
        None \<Rightarrow> Inl (InvalidState ''sandbox_backend_helper_not_applicable''
                 ''helper path lookup is not applicable to this backend'')
      | Some (env_key, code, description) \<Rightarrow>
          (case he_var h env_key of
             Some value \<Rightarrow> Inr value
           | None \<Rightarrow>
               (case resolve_default_helper_path h backend of
                  Some path \<Rightarrow> Inr path
                | None \<Rightarrow> Inl (InvalidState code
                    (description @ '' is required in '' @ env_key
                       @ '' or on the default helper search path'')))))"

subsection \<open>Building the command\<close>

definition sandboxed_shell_command ::
  "host_env \<Rightarrow> string \<Rightarrow> string option \<Rightarrow> effective_sandbox_request \<Rightarrow> sandbox_config
   \<Rightarrow> runtime_error + shell_command" where
  "sandboxed_shell_command h command working_dir sandbox config =
     (case es_backend sandbox of
        PlatformMacosSeatbelt \<Rightarrow>
          Inr (command_new ''/usr/bin/sandbox-exec''
            [''-p'', build_macos_policy working_dir (es_mode sandbox) (es_network_access sandbox),
             ''--'', ''sh'', ''-lc'', command])
      | PlatformLinuxHelper \<Rightarrow>
          map_ok (\<lambda>helper. build_linux_helper_command helper command working_dir sandbox
                             (sb_linux_variant config))
            (helper_path_for_backend h (es_backend sandbox))
      | PlatformWindowsRestrictedToken \<Rightarrow>
          map_ok (\<lambda>helper. build_windows_helper_command helper command working_dir sandbox)
            (helper_path_for_backend h (es_backend sandbox))
      | PlatformWindowsSandboxUser \<Rightarrow>
          map_ok (\<lambda>helper. build_windows_helper_command helper command working_dir sandbox)
            (helper_path_for_backend h (es_backend sandbox))
      | PlatformNone \<Rightarrow>
          Inl (InvalidState ''sandbox_backend_unavailable''
                 ''sandbox mode requires a platform backend''))"

definition build_shell_command ::
  "host_env \<Rightarrow> string \<Rightarrow> string option \<Rightarrow> effective_sandbox_request \<Rightarrow> sandbox_config
   \<Rightarrow> runtime_error + shell_command" where
  "build_shell_command h command working_dir sandbox config =
     map_ok (\<lambda>built. case working_dir of None \<Rightarrow> built
                       | Some dir \<Rightarrow> built\<lparr>cm_current_dir := Some dir\<rparr>)
       (if es_mode sandbox \<in> {DangerFullAccess, ExternalSandbox}
        then Inr (direct_shell_command h command)
        else sandboxed_shell_command h command working_dir sandbox config)"

record prepared_shell_command =
  pr_command :: shell_command
  pr_sandbox :: effective_sandbox_request

definition prepare_shell_command ::
  "host_env \<Rightarrow> sandbox_config \<Rightarrow> string \<Rightarrow> string option \<Rightarrow> shell_sandbox_request option
   \<Rightarrow> runtime_error + prepared_shell_command" where
  "prepare_shell_command h config command working_dir override =
     (let sandbox = resolve_request h config override
      in case ensure_supported sandbox of
           Inl e \<Rightarrow> Inl e
         | Inr _ \<Rightarrow>
             map_ok (\<lambda>c. \<lparr>pr_command = c, pr_sandbox = sandbox\<rparr>)
               (build_shell_command h command working_dir sandbox config))"

text \<open>A command runs in a restricted mode only behind the backend's enforcer, and the enforcer is
  told the mode and the network access.\<close>

definition enforced :: "host_env \<Rightarrow> string option \<Rightarrow> effective_sandbox_request \<Rightarrow> shell_command \<Rightarrow> bool" where
  "enforced h working_dir e c \<longleftrightarrow>
     (if es_backend e = PlatformMacosSeatbelt
      then cm_program c = ''/usr/bin/sandbox-exec'' \<and>
           take 3 (cm_args c) =
             [''-p'', build_macos_policy working_dir (es_mode e) (es_network_access e), ''--'']
      else helper_path_for_backend h (es_backend e) = Inr (cm_program c) \<and>
           take 4 (cm_args c) =
             [''--sandbox-mode'', sandbox_mode_as_str (es_mode e),
              ''--network-access'', network_access_as_str (es_network_access e)])"

lemma map_ok_Inr_iff [simp]: "map_ok f x = Inr b \<longleftrightarrow> (\<exists>a. x = Inr a \<and> b = f a)"
  by (cases x) auto

lemma map_ok_Inl_iff [simp]: "map_ok f x = Inl e \<longleftrightarrow> x = Inl e"
  by (cases x) auto

lemma prepare_shell_command_Inr:
  "prepare_shell_command h c command dir ov = Inr p \<longleftrightarrow>
     pr_sandbox p = resolve_request h c ov \<and>
     ensure_supported (pr_sandbox p) = Inr () \<and>
     build_shell_command h command dir (pr_sandbox p) c = Inr (pr_command p)"
  by (cases p) (auto simp: prepare_shell_command_def Let_def split: sum.splits)

lemma sandboxed_shell_command_enforced:
  assumes "sandboxed_shell_command h command dir e c = Inr cmd"
  shows "enforced h dir e cmd \<and> last (cm_args cmd) = command"
  using assms
  by (cases "es_backend e")
    (auto simp: sandboxed_shell_command_def enforced_def command_new_def
       build_linux_helper_command_def build_windows_helper_command_def split: option.splits)

lemma current_dir_args [simp]:
  "cm_args (case d of None \<Rightarrow> b | Some x \<Rightarrow> b\<lparr>cm_current_dir := Some x\<rparr>) = cm_args b"
  "cm_program (case d of None \<Rightarrow> b | Some x \<Rightarrow> b\<lparr>cm_current_dir := Some x\<rparr>) = cm_program b"
  by (simp_all split: option.split)

lemma prepared_enforced:
  assumes "prepare_shell_command h c command dir ov = Inr p" and "restricted (es_mode (pr_sandbox p))"
  shows "enforced h dir (pr_sandbox p) (pr_command p) \<and> last (cm_args (pr_command p)) = command"
proof -
  from assms have e: "es_mode (pr_sandbox p) \<notin> {DangerFullAccess, ExternalSandbox}"
    by (auto simp: restricted_def)
  from assms(1) e obtain b where b: "sandboxed_shell_command h command dir (pr_sandbox p) c = Inr b"
    and p: "cm_args (pr_command p) = cm_args b" "cm_program (pr_command p) = cm_program b"
    by (auto simp: prepare_shell_command_Inr build_shell_command_def simp del: insert_iff)
  from sandboxed_shell_command_enforced [OF b] show ?thesis
    by (simp add: enforced_def p)
qed

lemma helper_lookup_platforms:
  "helper_lookup b = None \<longleftrightarrow> b = PlatformMacosSeatbelt \<or> b = PlatformNone"
  by (cases b) simp_all

lemma prepare_succeeds_iff:
  "(\<exists>p. prepare_shell_command h c command dir ov = Inr p) \<longleftrightarrow>
     \<not> restricted (es_mode (resolve_request h c ov)) \<or> he_os h = MacOs \<or>
     (\<exists>helper. helper_path_for_backend h (es_backend (resolve_request h c ov)) = Inr helper)"
proof -
  let ?e = "resolve_request h c ov"
  have ok: "(\<exists>p. prepare_shell_command h c command dir ov = Inr p) \<longleftrightarrow>
      ensure_supported ?e = Inr () \<and> (\<exists>b. build_shell_command h command dir ?e c = Inr b)"
    by (auto simp: prepare_shell_command_def Let_def split: sum.splits)
  have built: "(\<exists>b. build_shell_command h command dir ?e c = Inr b) \<longleftrightarrow>
      \<not> restricted (es_mode ?e) \<or> (\<exists>b. sandboxed_shell_command h command dir ?e c = Inr b)"
    by (cases "es_mode ?e") (simp_all add: build_shell_command_def)
  have wrapped: "(\<exists>b. sandboxed_shell_command h command dir e c = Inr b) \<longleftrightarrow>
      es_backend e = PlatformMacosSeatbelt \<or>
      (\<exists>helper. helper_path_for_backend h (es_backend e) = Inr helper)" for e
    by (cases "es_backend e")
      (simp_all add: sandboxed_shell_command_def helper_path_for_backend_def [of h PlatformNone])
  have mac: "select_backend h c m = PlatformMacosSeatbelt \<longleftrightarrow> restricted m \<and> he_os h = MacOs" for m
    by (cases m; cases "he_os h") (auto simp: select_backend_def split: windows_sandbox_backend.splits)
  have none: "helper_path_for_backend h PlatformNone \<noteq> Inr helper" for helper
    by (simp add: helper_path_for_backend_def)
  have other: "he_os h = OtherOs \<Longrightarrow> select_backend h c m = PlatformNone" for m
    by (simp add: select_backend_None_iff)
  show ?thesis
    using none by (auto simp: ok built wrapped mac other ensure_supported_iff select_backend_None_iff)
qed

section \<open>Output\<close>

record shell_output_chunk =
  oc_stream :: executor_stream
  oc_chunk :: string

definition banner :: "effective_sandbox_request \<Rightarrow> string" where
  "banner e =
     ''[sandbox mode='' @ sandbox_mode_as_str (es_mode e) @ '' backend=''
       @ platform_as_str (es_backend e) @ '' network='' @ network_access_as_str (es_network_access e)
       @ '']'' @ [CHR 0x0A]"

definition decorate_stdout :: "effective_sandbox_request \<Rightarrow> string \<Rightarrow> string" where
  "decorate_stdout e stdout =
     (if es_mode e \<in> {DangerFullAccess, ExternalSandbox} then stdout else banner e @ stdout)"

definition output_chunks :: "string \<Rightarrow> string \<Rightarrow> shell_output_chunk list" where
  "output_chunks stdout stderr =
     (if stdout = [] then [] else [\<lparr>oc_stream = Stdout, oc_chunk = stdout\<rparr>])
     @ (if stderr = [] then [] else [\<lparr>oc_stream = Stderr, oc_chunk = stderr\<rparr>])"

section \<open>Processes and background tasks\<close>

text \<open>
  What a process of the operating system will do: the exit code it ends with (\<open>None\<close> when a signal
  ends it), the code seen when it is killed first, what it prints when it runs in the foreground, and
  whether waiting for it fails. \<open>ch_ended\<close> says it is over and can be reaped.
\<close>

record process_fate =
  pf_exit :: "int option"
  pf_killed :: "int option"
  pf_stdout :: string
  pf_stderr :: string
  pf_wait_error :: "string option"

record child =
  ch_fate :: process_fate
  ch_ended :: bool

record background_task =
  bt_stdout :: string
  bt_stderr :: string
  bt_delivered_stdout_len :: nat
  bt_delivered_stderr_len :: nat
  bt_exit_code :: "int option"
  bt_sandbox :: effective_sandbox_request
  bt_command :: string
  bt_working_dir :: "string option"
  bt_child :: child

definition background_task_new ::
  "string \<Rightarrow> string option \<Rightarrow> effective_sandbox_request \<Rightarrow> process_fate \<Rightarrow> background_task" where
  "background_task_new command working_dir e fate =
     \<lparr>bt_stdout = [], bt_stderr = [], bt_delivered_stdout_len = 0, bt_delivered_stderr_len = 0,
      bt_exit_code = None, bt_sandbox = e, bt_command = command, bt_working_dir = working_dir,
      bt_child = \<lparr>ch_fate = fate, ch_ended = False\<rparr>\<rparr>"

record shell_executor =
  sx_tasks :: "(executor_task_id, background_task) dict"
  sx_ids :: id_generator
  sx_sandbox :: sandbox_config
  sx_plan :: "nat \<Rightarrow> shell_command \<Rightarrow> string + process_fate"
  sx_launched :: "shell_command list"

type_synonym 'a shell_run = "(runtime_error, shell_executor, 'a) run"

definition shell_executor_new ::
  "host_env \<Rightarrow> id_generator \<Rightarrow> (nat \<Rightarrow> shell_command \<Rightarrow> string + process_fate) \<Rightarrow> shell_executor" where
  "shell_executor_new h g plan =
     \<lparr>sx_tasks = [], sx_ids = g\<lparr>sequence := 0\<rparr>, sx_sandbox = sandbox_from_env h, sx_plan = plan,
      sx_launched = []\<rparr>"

text \<open>\<open>Command::output\<close> and \<open>Command::spawn\<close> hand the command to the operating system.\<close>

definition launch :: "string \<Rightarrow> string \<Rightarrow> shell_command \<Rightarrow> process_fate shell_run" where
  "launch code message c s =
     (case sx_plan s (length (sx_launched s)) c of
        Inl cause \<Rightarrow> Inl (InvalidState code (message @ cause))
      | Inr fate \<Rightarrow> Inr fate, s\<lparr>sx_launched := sx_launched s @ [c]\<rparr>)"

section \<open>The operations\<close>

definition set_default_sandbox :: "host_env \<Rightarrow> shell_sandbox_request \<Rightarrow> shell_sandbox_summary shell_run" where
  "set_default_sandbox h r =
     bindR (modify (\<lambda>s. s\<lparr>sx_sandbox := set_default_request r (sx_sandbox s)\<rparr>)) (\<lambda>_.
       asks (\<lambda>s. to_summary (resolve_request h (sx_sandbox s) None)))"

definition default_sandbox_summary :: "host_env \<Rightarrow> shell_executor \<Rightarrow> shell_sandbox_summary" where
  "default_sandbox_summary h s = to_summary (resolve_request h (sx_sandbox s) None)"

record shell_execution =
  sh_result :: shell_exec_result
  sh_output_chunks :: "shell_output_chunk list"

definition shell_exec :: "host_env \<Rightarrow> shell_exec_request \<Rightarrow> shell_execution shell_run" where
  "shell_exec h r =
     bindR (asks sx_sandbox) (\<lambda>config.
     bindR (from_result (prepare_shell_command h config (se_command r) (se_working_dir r) (se_sandbox r)))
       (\<lambda>prepared.
     bindR (launch ''shell_exec_failed'' ''failed to execute shell command: '' (pr_command prepared))
       (\<lambda>output.
     (let decorated = decorate_stdout (pr_sandbox prepared) (pf_stdout output)
      in ret \<lparr>sh_result =
                \<lparr>ser_command = se_command r, ser_working_dir = se_working_dir r,
                 ser_sandbox = to_summary (pr_sandbox prepared),
                 ser_exit_code = unwrap_or (-1) (pf_exit output),
                 ser_stdout = decorated, ser_stderr = pf_stderr output\<rparr>,
              sh_output_chunks = output_chunks decorated (pf_stderr output)\<rparr>))))"

text \<open>The pipes of a spawned child are always there: \<open>build_shell_command\<close> asks for them.\<close>

definition next_task_id :: "executor_task_id shell_run" where
  "next_task_id s =
     (let (i, g) = next_value ''executor'' (sx_ids s) in (Inr i, s\<lparr>sx_ids := g\<rparr>))"

definition shell_spawn :: "host_env \<Rightarrow> shell_spawn_request \<Rightarrow> shell_spawn_result shell_run" where
  "shell_spawn h r =
     bindR (asks sx_sandbox) (\<lambda>config.
     bindR (from_result (prepare_shell_command h config (sp_command r) (sp_working_dir r) (sp_sandbox r)))
       (\<lambda>prepared.
     bindR (launch ''shell_spawn_failed'' ''failed to spawn shell command: '' (pr_command prepared))
       (\<lambda>fate.
     bindR next_task_id (\<lambda>i.
     bindR (modify (\<lambda>s. s\<lparr>sx_tasks := AList.update i
              (background_task_new (sp_command r) (sp_working_dir r) (pr_sandbox prepared) fate)
              (sx_tasks s)\<rparr>)) (\<lambda>_.
     ret \<lparr>spr_task_id = i, spr_command = sp_command r, spr_working_dir = sp_working_dir r,
          spr_sandbox = to_summary (pr_sandbox prepared)\<rparr>)))))"

definition find_task :: "executor_task_id \<Rightarrow> background_task shell_run" where
  "find_task i =
     bindR (asks (\<lambda>s. map_of (sx_tasks s) i))
       (ok_or (NotFound ''shell_task_not_found'' ''background shell task does not exist''))"

definition put_task :: "executor_task_id \<Rightarrow> background_task \<Rightarrow> unit shell_run" where
  "put_task i t = modify (\<lambda>s. s\<lparr>sx_tasks := AList.update i t (sx_tasks s)\<rparr>)"

text \<open>\<open>try_wait\<close> sees the end of a child that is over; an error counts as not finished.\<close>

definition update_exit_code_if_finished :: "background_task \<Rightarrow> background_task" where
  "update_exit_code_if_finished t =
     (if ch_ended (bt_child t) \<and> pf_wait_error (ch_fate (bt_child t)) = None
      then t\<lparr>bt_exit_code := Some (unwrap_or (-1) (pf_exit (ch_fate (bt_child t))))\<rparr>
      else t)"

record shell_read_output_execution =
  ro_result :: shell_read_output_result
  ro_output_chunks :: "shell_output_chunk list"

definition shell_read_output ::
  "shell_read_output_request \<Rightarrow> shell_read_output_execution shell_run" where
  "shell_read_output r =
     bindR (find_task (so_task_id r)) (\<lambda>found.
     (let t = update_exit_code_if_finished found;
          stdout_delta = drop (bt_delivered_stdout_len t) (bt_stdout t);
          stderr_delta = drop (bt_delivered_stderr_len t) (bt_stderr t)
      in bindR (put_task (so_task_id r)
                  (t\<lparr>bt_delivered_stdout_len := length (bt_stdout t),
                     bt_delivered_stderr_len := length (bt_stderr t)\<rparr>)) (\<lambda>_.
         ret \<lparr>ro_result =
                \<lparr>sor_task_id = so_task_id r, sor_sandbox = to_summary (bt_sandbox t),
                 sor_running = (bt_exit_code t = None), sor_exit_code = bt_exit_code t,
                 sor_stdout_delta = stdout_delta, sor_stderr_delta = stderr_delta\<rparr>,
              ro_output_chunks = output_chunks stdout_delta stderr_delta\<rparr>)))"

text \<open>Waiting returns once the child is over, with its exit code or with the system's error.\<close>

definition wait_for_exit_code :: "process_fate \<Rightarrow> runtime_error + int option" where
  "wait_for_exit_code fate =
     (case pf_wait_error fate of
        Some cause \<Rightarrow> Inl (InvalidState ''shell_wait_failed''
                              (''failed while waiting for shell command: '' @ cause))
      | None \<Rightarrow> Inr (Some (unwrap_or (-1) (pf_exit fate))))"

record shell_wait_execution =
  wa_result :: shell_wait_result
  wa_output_chunks :: "shell_output_chunk list"

definition shell_wait :: "shell_wait_request \<Rightarrow> shell_wait_execution shell_run" where
  "shell_wait r =
     bindR (find_task (sw_task_id r)) (\<lambda>t0.
     (let t1 = t0\<lparr>bt_child := (bt_child t0)\<lparr>ch_ended := True\<rparr>\<rparr>
      in bindR (put_task (sw_task_id r) t1) (\<lambda>_.
         bindR (from_result (wait_for_exit_code (ch_fate (bt_child t1)))) (\<lambda>code.
         (let t = (case code of None \<Rightarrow> t1 | Some c \<Rightarrow> t1\<lparr>bt_exit_code := Some c\<rparr>)
          in bindR (put_task (sw_task_id r) t) (\<lambda>_.
             ret \<lparr>wa_result =
                    \<lparr>swr_task_id = sw_task_id r, swr_sandbox = to_summary (bt_sandbox t),
                     swr_running = (bt_exit_code t = None), swr_exit_code = bt_exit_code t,
                     swr_stdout = bt_stdout t, swr_stderr = bt_stderr t\<rparr>,
                  wa_output_chunks = output_chunks (bt_stdout t) (bt_stderr t)\<rparr>))))))"

text \<open>Killing a child that runs changes how it ends; killing one that is over does nothing.\<close>

definition kill_child :: "child \<Rightarrow> child" where
  "kill_child c =
     (if ch_ended c then c
      else c\<lparr>ch_fate := (ch_fate c)\<lparr>pf_exit := pf_killed (ch_fate c)\<rparr>, ch_ended := True\<rparr>)"

definition shell_terminate :: "shell_terminate_request \<Rightarrow> shell_terminate_result shell_run" where
  "shell_terminate r =
     bindR (find_task (st_task_id r)) (\<lambda>t0.
     (let t1 = t0\<lparr>bt_child := kill_child (bt_child t0)\<rparr>
      in bindR (put_task (st_task_id r) t1) (\<lambda>_.
         bindR (from_result (wait_for_exit_code (ch_fate (bt_child t1)))) (\<lambda>code.
         (let t = t1\<lparr>bt_exit_code := opt_or code (bt_exit_code t1)\<rparr>
          in bindR (put_task (st_task_id r) t) (\<lambda>_.
             ret \<lparr>str_task_id = st_task_id r, str_sandbox = to_summary (bt_sandbox t),
                  str_terminated = True, str_exit_code = bt_exit_code t\<rparr>))))))"

section \<open>The reader threads\<close>

text \<open>One successful read of a pipe: what \<open>start_reader\<close> does with the decoded bytes.\<close>

definition reader_append :: "executor_stream \<Rightarrow> string \<Rightarrow> background_task \<Rightarrow> background_task" where
  "reader_append stream chunk t =
     (case stream of
        Stdout \<Rightarrow>
          t\<lparr>bt_stdout :=
              (if bt_stdout t = [] \<and> es_mode (bt_sandbox t) \<notin> {DangerFullAccess, ExternalSandbox}
               then banner (bt_sandbox t) else bt_stdout t) @ chunk\<rparr>
      | Stderr \<Rightarrow> t\<lparr>bt_stderr := bt_stderr t @ chunk\<rparr>)"

definition child_ends :: "background_task \<Rightarrow> background_task" where
  "child_ends t = t\<lparr>bt_child := (bt_child t)\<lparr>ch_ended := True\<rparr>\<rparr>"

definition in_task :: "executor_task_id \<Rightarrow> (background_task \<Rightarrow> background_task) \<Rightarrow> shell_executor \<Rightarrow> shell_executor" where
  "in_task i f s =
     (case map_of (sx_tasks s) i of
        None \<Rightarrow> s | Some t \<Rightarrow> s\<lparr>sx_tasks := AList.update i (f t) (sx_tasks s)\<rparr>)"

end
