(* ===== verification/Shell_Tasks.thy ===== *)
theory Shell_Tasks
  imports Shell
begin

text \<open>
  Interleavings of the shell executor: what clients call, what the reader threads of the background
  tasks append, and when children end, in any order. The locks of \<open>LocalShellExecutor\<close> make each
  of these one step. The theory shows what a command may be launched as, and that the output of a
  background task reaches its readers completely and once.
\<close>

section \<open>Actions and traces\<close>

datatype shell_action =
  ActExec shell_exec_request
| ActSpawn shell_spawn_request
| ActReadOutput shell_read_output_request
| ActWait shell_wait_request
| ActTerminate shell_terminate_request
| ActSetDefault shell_sandbox_request
| Arrives executor_task_id executor_stream string
| ChildEnds executor_task_id

type_synonym shell_outcome = "(runtime_error + tool_result) option"

fun answered :: "('a \<Rightarrow> tool_result) \<Rightarrow> (runtime_error + 'a) \<times> shell_executor \<Rightarrow> shell_outcome \<times> shell_executor"
where
  "answered f (r, s) = (Some (map_ok f r), s)"

fun shell_act :: "host_env \<Rightarrow> shell_action \<Rightarrow> shell_executor \<Rightarrow> shell_outcome \<times> shell_executor" where
  "shell_act h (ActExec r) s = answered (\<lambda>x. ExecResult (sh_result x)) (shell_exec h r s)"
| "shell_act h (ActSpawn r) s = answered SpawnResult (shell_spawn h r s)"
| "shell_act h (ActReadOutput r) s =
     answered (\<lambda>x. ReadOutputResult (ro_result x)) (shell_read_output r s)"
| "shell_act h (ActWait r) s = answered (\<lambda>x. WaitResult (wa_result x)) (shell_wait r s)"
| "shell_act h (ActTerminate r) s = answered TerminateResult (shell_terminate r s)"
| "shell_act h (ActSetDefault r) s = (None, snd (set_default_sandbox h r s))"
| "shell_act h (Arrives i stream chunk) s = (None, in_task i (reader_append stream chunk) s)"
| "shell_act h (ChildEnds i) s = (None, in_task i child_ends s)"

fun shell_trace :: "host_env \<Rightarrow> shell_action list \<Rightarrow> shell_executor \<Rightarrow> shell_outcome list \<times> shell_executor"
where
  "shell_trace h [] s = ([], s)"
| "shell_trace h (a # as) s =
     (let (out, s1) = shell_act h a s; (outs, s2) = shell_trace h as s1 in (out # outs, s2))"

text \<open>What a trace says of one task: the chunks that arrive on a stream and the deltas that are read.\<close>

fun arrivals :: "executor_task_id \<Rightarrow> executor_stream \<Rightarrow> shell_action list \<Rightarrow> string list" where
  "arrivals i stream [] = []"
| "arrivals i stream (Arrives j st c # as) =
     (if j = i \<and> st = stream then c # arrivals i stream as else arrivals i stream as)"
| "arrivals i stream (_ # as) = arrivals i stream as"

fun delta_of :: "executor_task_id \<Rightarrow> executor_stream \<Rightarrow> shell_outcome \<Rightarrow> string" where
  "delta_of i stream (Some (Inr (ReadOutputResult r))) =
     (if sor_task_id r \<noteq> i then []
      else case stream of Stdout \<Rightarrow> sor_stdout_delta r | Stderr \<Rightarrow> sor_stderr_delta r)"
| "delta_of i stream _ = []"

definition deltas :: "executor_task_id \<Rightarrow> executor_stream \<Rightarrow> shell_outcome list \<Rightarrow> string" where
  "deltas i stream outs = concat (map (delta_of i stream) outs)"

fun spawned :: "shell_outcome \<Rightarrow> executor_task_id option" where
  "spawned (Some (Inr (SpawnResult r))) = Some (spr_task_id r)"
| "spawned _ = None"

fun task_text :: "executor_stream \<Rightarrow> background_task \<Rightarrow> string" where
  "task_text Stdout t = bt_stdout t"
| "task_text Stderr t = bt_stderr t"

fun delivered :: "executor_stream \<Rightarrow> background_task \<Rightarrow> nat" where
  "delivered Stdout t = bt_delivered_stdout_len t"
| "delivered Stderr t = bt_delivered_stderr_len t"

definition undelivered :: "executor_stream \<Rightarrow> background_task \<Rightarrow> string" where
  "undelivered stream t = drop (delivered stream t) (task_text stream t)"

text \<open>The full text of a stream: the chunks in order, behind the banner on a restricted standard output.\<close>

definition full_text :: "executor_stream \<Rightarrow> effective_sandbox_request \<Rightarrow> string list \<Rightarrow> string" where
  "full_text stream e chunks =
     (if chunks = [] \<or> stream = Stderr \<or> es_mode e \<in> {DangerFullAccess, ExternalSandbox}
      then concat chunks else banner e @ concat chunks)"

section \<open>One action\<close>

lemma from_result_run [run_simps]:
  "from_result (Inl e) s = (Inl e, s)" "from_result (Inr a) s = (Inr a, s)"
  by (simp_all add: from_result_def run_simps)

lemma find_task_run:
  "find_task i s = (case map_of (sx_tasks s) i of
     None \<Rightarrow> (Inl (NotFound ''shell_task_not_found'' ''background shell task does not exist''), s)
   | Some t \<Rightarrow> (Inr t, s))"
  by (simp add: find_task_def run_simps split: option.split)

lemma put_task_run [run_simps]:
  "put_task i t s = (Inr (), s\<lparr>sx_tasks := AList.update i t (sx_tasks s)\<rparr>)"
  by (simp add: put_task_def run_simps)

lemma launch_tasks [simp]:
  "sx_tasks (snd (launch c m cmd s)) = sx_tasks s"
  "sx_ids (snd (launch c m cmd s)) = sx_ids s"
  by (simp_all add: launch_def)

lemma shell_exec_tasks [simp]:
  "sx_tasks (snd (shell_exec h r s)) = sx_tasks s"
  "sx_ids (snd (shell_exec h r s)) = sx_ids s"
  by (simp_all add: shell_exec_def run_simps from_result_def Let_def split: sum.split)

text \<open>What an action leaves of a task that it does not create.\<close>

definition task_step :: "executor_task_id \<Rightarrow> executor_stream \<Rightarrow> shell_action \<Rightarrow> shell_outcome
  \<Rightarrow> background_task \<Rightarrow> background_task \<Rightarrow> bool"
where
  "task_step i stream a out t t' \<longleftrightarrow>
     bt_sandbox t' = bt_sandbox t \<and>
     (delivered stream t \<le> length (task_text stream t) \<longrightarrow>
        delivered stream t' \<le> length (task_text stream t') \<and>
        (\<exists>grown. task_text stream t' = task_text stream t @ grown \<and>
           delta_of i stream out @ undelivered stream t' = undelivered stream t @ grown)) \<and>
     (\<forall>cs. task_text stream t = full_text stream (bt_sandbox t) cs \<longrightarrow>
         task_text stream t' = full_text stream (bt_sandbox t) (cs @ arrivals i stream [a]))"

lemma task_step_quiet:
  assumes "bt_sandbox t' = bt_sandbox t"
    and "task_text stream t' = task_text stream t"
    and "delivered stream t' = delivered stream t"
    and "delta_of i stream out = []" and "arrivals i stream [a] = []"
  shows "task_step i stream a out t t'"
  using assms by (simp add: task_step_def undelivered_def)

lemma banner_not_Nil [simp]: "banner e \<noteq> []"
  by (simp add: banner_def)

lemma task_step_append: "task_step i st (Arrives i stream chunk) None t (reader_append stream chunk t)"
proof (cases "st = stream")
  case False
  then show ?thesis
    by (cases st; cases stream) (auto intro!: task_step_quiet simp: reader_append_def)
next
  case True
  show ?thesis
  proof (cases stream)
    case Stderr
    with True show ?thesis
      by (simp add: task_step_def reader_append_def undelivered_def full_text_def)
  next
    case Stdout
    show ?thesis
    proof (cases "es_mode (bt_sandbox t) \<in> {DangerFullAccess, ExternalSandbox}")
      case True
      with Stdout \<open>st = stream\<close> show ?thesis
        by (simp add: task_step_def reader_append_def undelivered_def full_text_def)
    next
      case False
      with Stdout \<open>st = stream\<close> show ?thesis
        by (cases "bt_stdout t = []")
          (simp_all add: task_step_def reader_append_def undelivered_def full_text_def)
    qed
  qed
qed

lemma task_step_read:
  assumes "map_of (sx_tasks s) i = Some t" and "so_task_id r = i"
  shows "\<exists>t'. map_of (sx_tasks (snd (shell_read_output r s))) i = Some t' \<and>
     task_step i stream (ActReadOutput r) (fst (answered (\<lambda>x. ReadOutputResult (ro_result x)) (shell_read_output r s))) t t'"
proof -
  let ?u = "update_exit_code_if_finished t"
  have u: "bt_sandbox ?u = bt_sandbox t" "task_text stream ?u = task_text stream t"
    "delivered stream ?u = delivered stream t" "bt_stdout ?u = bt_stdout t" "bt_stderr ?u = bt_stderr t" 
    "bt_delivered_stdout_len ?u = bt_delivered_stdout_len t"
    "bt_delivered_stderr_len ?u = bt_delivered_stderr_len t" for stream
    by (cases stream; simp add: update_exit_code_if_finished_def)+
  from assms show ?thesis
    by (cases stream) (auto simp: shell_read_output_def run_simps find_task_run Let_def task_step_def u undelivered_def
       split: executor_stream.split)
qed

lemma task_fields_quiet:
  "task_text stream (t\<lparr>bt_child := c\<rparr>) = task_text stream t"
  "delivered stream (t\<lparr>bt_child := c\<rparr>) = delivered stream t"
  "task_text stream (t\<lparr>bt_exit_code := x\<rparr>) = task_text stream t"
  "delivered stream (t\<lparr>bt_exit_code := x\<rparr>) = delivered stream t"
  by (cases stream; simp)+

lemma task_step_wait:
  assumes "map_of (sx_tasks s) i = Some t" and "sw_task_id r = i"
  shows "\<exists>t'. map_of (sx_tasks (snd (shell_wait r s))) i = Some t' \<and>
     task_step i stream (ActWait r) (fst (answered (\<lambda>x. WaitResult (wa_result x)) (shell_wait r s))) t t'"
  using assms
  by (auto intro!: task_step_quiet simp: shell_wait_def run_simps find_task_run from_result_def Let_def
      task_fields_quiet split: sum.split option.split)

lemma task_step_terminate:
  assumes "map_of (sx_tasks s) i = Some t" and "st_task_id r = i"
  shows "\<exists>t'. map_of (sx_tasks (snd (shell_terminate r s))) i = Some t' \<and>
     task_step i stream (ActTerminate r) (fst (answered TerminateResult (shell_terminate r s))) t t'"
  using assms
  by (auto intro!: task_step_quiet simp: shell_terminate_def run_simps find_task_run from_result_def
      Let_def task_fields_quiet split: sum.split option.split)

text \<open>Operations on another task leave a task as it is.\<close>

lemma other_task_untouched:
  "so_task_id ro \<noteq> i \<Longrightarrow> map_of (sx_tasks (snd (shell_read_output ro s))) i = map_of (sx_tasks s) i"
  "sw_task_id rw \<noteq> i \<Longrightarrow> map_of (sx_tasks (snd (shell_wait rw s))) i = map_of (sx_tasks s) i"
  "st_task_id rt \<noteq> i \<Longrightarrow> map_of (sx_tasks (snd (shell_terminate rt s))) i = map_of (sx_tasks s) i"
  "j \<noteq> i \<Longrightarrow> map_of (sx_tasks (in_task j f s)) i = map_of (sx_tasks s) i"
  by (auto simp: shell_read_output_def shell_wait_def shell_terminate_def in_task_def run_simps
      find_task_run from_result_def Let_def split: sum.splits option.splits)

lemma shell_spawn_run:
  "shell_spawn h r s =
     (case prepare_shell_command h (sx_sandbox s) (sp_command r) (sp_working_dir r) (sp_sandbox r) of
        Inl e \<Rightarrow> (Inl e, s)
      | Inr p \<Rightarrow>
        (let s1 = snd (launch ''shell_spawn_failed'' ''failed to spawn shell command: '' (pr_command p) s)
         in case fst (launch ''shell_spawn_failed'' ''failed to spawn shell command: '' (pr_command p) s) of
              Inl e \<Rightarrow> (Inl e, s1)
            | Inr fate \<Rightarrow>
                (let i = fst (next_value ''executor'' (sx_ids s))
                 in (Inr \<lparr>spr_task_id = i, spr_command = sp_command r,
                          spr_working_dir = sp_working_dir r, spr_sandbox = to_summary (pr_sandbox p)\<rparr>,
                     s1\<lparr>sx_ids := snd (next_value ''executor'' (sx_ids s)),
                        sx_tasks := AList.update i
                          (background_task_new (sp_command r) (sp_working_dir r) (pr_sandbox p) fate)
                          (sx_tasks s)\<rparr>))))"
  by (simp add: shell_spawn_def run_simps from_result_def next_task_id_def Let_def split_beta split: sum.split)

lemma shell_spawn_other:
  assumes "map_of (sx_tasks s) i = Some t"
    and "spawned (fst (answered SpawnResult (shell_spawn h r s))) \<noteq> Some i"
  shows "map_of (sx_tasks (snd (shell_spawn h r s))) i = Some t"
  using assms by (auto simp: shell_spawn_run Let_def split: sum.splits)

lemma snd_answered [simp]: "snd (answered f x) = snd x" "fst (answered f x) = Some (map_ok f (fst x))"
  by (cases x; simp)+

lemma delta_other:
  "so_task_id r \<noteq> i \<Longrightarrow> delta_of i stream (Some (map_ok (\<lambda>x. ReadOutputResult (ro_result x)) (fst (shell_read_output r s)))) = []"
  "delta_of i stream (Some (map_ok (\<lambda>x. WaitResult (g x)) y)) = []"
  "delta_of i stream (Some (map_ok TerminateResult z)) = []"
  "delta_of i stream (Some (map_ok SpawnResult u)) = []"
  "delta_of i stream (Some (map_ok (\<lambda>x. ExecResult (k x)) v)) = []"
      apply (simp add: shell_read_output_def run_simps find_task_run Let_def split: option.split)
     apply (cases y; simp)
    apply (cases z; simp)
   apply (cases u; simp)
  apply (cases v; simp)
  done

lemma shell_act_on_task:
  assumes t: "map_of (sx_tasks s) i = Some t" and act: "shell_act h a s = (out, s')"
    and new: "spawned out \<noteq> Some i"
  shows "\<exists>t'. map_of (sx_tasks s') i = Some t' \<and> (\<forall>stream. task_step i stream a out t t')"
proof -
  from act have eqs: "s' = snd (shell_act h a s)" "out = fst (shell_act h a s)" by simp_all
  have step: "\<exists>t'. map_of (sx_tasks s') i = Some t' \<and> task_step i stream a out t t'" for stream
  proof (cases a)
    case (ActExec r)
    with t show ?thesis
      by (auto intro!: task_step_quiet simp: eqs delta_other)
  next
    case (ActSpawn r)
    with shell_spawn_other [OF t, of h r] new have "map_of (sx_tasks s') i = Some t"
      by (simp add: eqs)
    with ActSpawn show ?thesis by (auto intro!: task_step_quiet simp: eqs(2) delta_other)
  next
    case (ActReadOutput r)
    then show ?thesis
      using t task_step_read [OF t, of r stream]
      by (cases "so_task_id r = i")
        (auto intro!: task_step_quiet simp: delta_other other_task_untouched eqs)
  next
    case (ActWait r)
    then show ?thesis
      using t task_step_wait [OF t, of r stream]
      by (cases "sw_task_id r = i")
        (auto intro!: task_step_quiet simp: delta_other other_task_untouched eqs)
  next
    case (ActTerminate r)
    then show ?thesis
      using t task_step_terminate [OF t, of r stream]
      by (cases "st_task_id r = i")
        (auto intro!: task_step_quiet simp: delta_other other_task_untouched eqs)
  next
    case (ActSetDefault r)
    with t show ?thesis
      by (auto intro!: task_step_quiet simp: eqs set_default_sandbox_def run_simps)
  next
    case (Arrives j st c)
    with t show ?thesis
      by (cases "j = i") (auto intro!: task_step_quiet task_step_append simp: eqs in_task_def split: option.split)
  next
    case (ChildEnds j)
    with t show ?thesis
      by (cases "j = i")
        (auto intro!: task_step_quiet simp: eqs in_task_def child_ends_def task_fields_quiet
            split: option.split)
  qed
  from step [of Stdout] obtain t' where t': "map_of (sx_tasks s') i = Some t'" by blast
  with step show ?thesis by fastforce
qed

section \<open>Traces\<close>

lemma shell_trace_on_task:
  assumes "map_of (sx_tasks s) i = Some t" and "shell_trace h as s = (outs, s')"
    and "Some i \<notin> spawned ` set outs" and "delivered stream t \<le> length (task_text stream t)"
    and "task_text stream t = full_text stream (bt_sandbox t) cs"
  shows "\<exists>t'. map_of (sx_tasks s') i = Some t' \<and> bt_sandbox t' = bt_sandbox t \<and>
     (\<exists>grown. task_text stream t' = task_text stream t @ grown \<and>
        deltas i stream outs @ undelivered stream t' = undelivered stream t @ grown) \<and>
     task_text stream t' = full_text stream (bt_sandbox t) (cs @ arrivals i stream as)"
  using assms
proof (induction as arbitrary: s t outs cs)
  case Nil
  then show ?case by (simp add: deltas_def)
next
  case (Cons a as)
  obtain out s1 where act: "shell_act h a s = (out, s1)" by fastforce
  obtain outs1 where tr: "shell_trace h as s1 = (outs1, s')" and outs: "outs = out # outs1"
    using Cons.prems(2) act by (auto split: prod.splits)
  from Cons.prems(3) outs have new: "spawned out \<noteq> Some i" "Some i \<notin> spawned ` set outs1" by auto
  from shell_act_on_task [OF Cons.prems(1) act new(1)] obtain t1 where
    t1: "map_of (sx_tasks s1) i = Some t1" and st: "task_step i stream a out t t1" by blast
  from st Cons.prems(4) obtain g1 where sb: "bt_sandbox t1 = bt_sandbox t"
    and d1: "delivered stream t1 \<le> length (task_text stream t1)"
    and g1: "task_text stream t1 = task_text stream t @ g1"
      "delta_of i stream out @ undelivered stream t1 = undelivered stream t @ g1"
    and f1: "task_text stream t1 = full_text stream (bt_sandbox t1) (cs @ arrivals i stream [a])"
    using Cons.prems(5) by (auto simp: task_step_def)
  from Cons.IH [OF t1 tr new(2) d1 f1] obtain t' g2 where
    t': "map_of (sx_tasks s') i = Some t'" "bt_sandbox t' = bt_sandbox t1" and
    g2: "task_text stream t' = task_text stream t1 @ g2"
      "deltas i stream outs1 @ undelivered stream t' = undelivered stream t1 @ g2" and
    f2: "task_text stream t' = full_text stream (bt_sandbox t1) ((cs @ arrivals i stream [a]) @ arrivals i stream as)"
    by blast
  have "arrivals i stream [a] @ arrivals i stream as = arrivals i stream (a # as)"
    by (cases a) simp_all
  with f2 sb have full: "task_text stream t' = full_text stream (bt_sandbox t) (cs @ arrivals i stream (a # as))"
    by simp
  have "deltas i stream outs = delta_of i stream out @ deltas i stream outs1"
    by (simp add: deltas_def outs)
  then have grown: "deltas i stream outs @ undelivered stream t' = undelivered stream t @ (g1 @ g2)"
    by (simp add: g2(2)) (metis append.assoc g1(2))
  have "task_text stream t' = task_text stream t @ (g1 @ g2)" by (simp add: g2(1) g1(1))
  with grown have "\<exists>grown. task_text stream t' = task_text stream t @ grown \<and>
        deltas i stream outs @ undelivered stream t' = undelivered stream t @ grown" by blast
  with t' sb full show ?case by auto
qed

text \<open>Task identifiers are not given out twice before the counter goes round.\<close>

lemma tasks_ids [simp]:
  "sx_ids (in_task i f s) = sx_ids s"
  "sx_ids (snd (shell_read_output ro s)) = sx_ids s"
  "sx_ids (snd (shell_wait rw s)) = sx_ids s"
  "sx_ids (snd (shell_terminate rt s)) = sx_ids s"
  "sx_ids (snd (set_default_sandbox h r s)) = sx_ids s"
  by (auto simp: in_task_def shell_read_output_def shell_wait_def shell_terminate_def run_simps
      find_task_run from_result_def set_default_sandbox_def Let_def split: option.split sum.split)

lemma not_spawned [simp]:
  "spawned (Some (map_ok (\<lambda>x. ReadOutputResult (f1 x)) y1)) = None"
  "spawned (Some (map_ok (\<lambda>x. WaitResult (f2 x)) y2)) = None"
  "spawned (Some (map_ok TerminateResult y3)) = None"
  "spawned (Some (map_ok (\<lambda>x. ExecResult (f4 x)) y4)) = None"
     apply (cases y1; simp)
    apply (cases y2; simp)
   apply (cases y3; simp)
  apply (cases y4; simp)
  done

lemma shell_act_ids:
  assumes "shell_act h a s = (out, s')"
  shows "(spawned out = None \<and> sequence (sx_ids s') = sequence (sx_ids s)) \<or>
     (\<exists>n. spawned out = Some (id_text ''executor'' n (sequence (sx_ids s) + 1)) \<and>
          sequence (sx_ids s') = sequence (sx_ids s) + 1)"
proof -
  from assms have eqs: "s' = snd (shell_act h a s)" "out = fst (shell_act h a s)" by simp_all
  show ?thesis
    by (cases a)
      (auto simp: eqs shell_spawn_run Let_def next_value_def read_clock_def split: sum.split)
qed

lemma shell_trace_spawned:
  assumes "shell_trace h as s = (outs, s')" and "Some j \<in> spawned ` set outs"
  shows "\<exists>n k. 1 \<le> k \<and> k \<le> length as \<and> j = id_text ''executor'' n (sequence (sx_ids s) + of_nat k)"
  using assms
proof (induction as arbitrary: s outs)
  case Nil
  then show ?case by simp
next
  case (Cons a as)
  obtain out s1 where act: "shell_act h a s = (out, s1)" by fastforce
  obtain outs1 where tr: "shell_trace h as s1 = (outs1, s')" and outs: "outs = out # outs1"
    using Cons.prems(1) act by (auto split: prod.splits)
  show ?case
  proof (cases "spawned out = Some j")
    case True
    with shell_act_ids [OF act] obtain n where "j = id_text ''executor'' n (sequence (sx_ids s) + 1)"
      by auto
    then show ?thesis by (intro exI [of _ n] exI [of _ 1]) simp
  next
    case False
    with Cons.prems(2) outs have "Some j \<in> spawned ` set outs1" by auto
    from Cons.IH [OF tr this] obtain n k where k: "1 \<le> k" "k \<le> length as"
      and j: "j = id_text ''executor'' n (sequence (sx_ids s1) + of_nat k)" by blast
    from shell_act_ids [OF act]
    have "sequence (sx_ids s1) = sequence (sx_ids s) \<or> sequence (sx_ids s1) = sequence (sx_ids s) + 1"
      by auto
    then show ?thesis
    proof
      assume "sequence (sx_ids s1) = sequence (sx_ids s)"
      with k j show ?thesis by (intro exI [of _ n] exI [of _ k]) simp
    next
      assume "sequence (sx_ids s1) = sequence (sx_ids s) + 1"
      with k j show ?thesis by (intro exI [of _ n] exI [of _ "Suc k"]) (simp add: add.assoc)
    qed
  qed
qed

lemma word_offset_nonzero: "1 \<le> k \<Longrightarrow> k < 2 ^ 64 \<Longrightarrow> (w :: 64 word) + of_nat k \<noteq> w"
  by (auto simp: word_of_nat_eq_0_iff dest: dvd_imp_le)

lemma spawned_not_again:
  assumes "shell_spawn h r s = (Inr x, s1)" and "shell_trace h as s1 = (outs, s2)"
    and "length as < 2 ^ 64"
  shows "Some (spr_task_id x) \<notin> spawned ` set outs"
proof
  assume "Some (spr_task_id x) \<in> spawned ` set outs"
  from shell_trace_spawned [OF assms(2) this] obtain n k where k: "1 \<le> k" "k \<le> length as"
    and i: "spr_task_id x = id_text ''executor'' n (sequence (sx_ids s1) + of_nat k)" by blast
  from shell_act_ids [of h "ActSpawn r" s "Some (Inr (SpawnResult x))" s1] assms(1)
  obtain m where "spr_task_id x = id_text ''executor'' m (sequence (sx_ids s1))" by auto
  with i have "sequence (sx_ids s1) + of_nat k = sequence (sx_ids s1)"
    by (metis id_text_inj)
  with word_offset_nonzero [of k] k assms(3) show False by simp
qed

section \<open>Properties\<close>


definition sample_host :: host_env where
  "sample_host =
     \<lparr>he_os = Linux, he_var = (\<lambda>_. None), he_exe_dir = Some ''/opt/liz'', he_path_dirs = [''/usr/bin''],
      he_is_file = (\<lambda>p. p = ''/usr/bin/liz-linux-sandbox'')\<rparr>"


text \<open>C22: The output of a background task reaches its readers completely and exactly once. After a
  task is spawned, whatever clients and reader threads do and in whatever order, for fewer than
  2^64 steps: the deltas that reading the task's output has returned so far, followed by what is not
  delivered yet, are the text collected so far, and that text is all the chunks the process wrote
  to the stream, in order, on a restricted standard output behind one banner.\<close>

theorem output_delivered_once:
  assumes "shell_spawn h r s = (Inr x, s1)" and "shell_trace h as s1 = (outs, s2)"
    and "length as < 2 ^ 64"
  shows "\<exists>t. map_of (sx_tasks s2) (spr_task_id x) = Some t \<and>
     deltas (spr_task_id x) stream outs @ undelivered stream t = task_text stream t \<and>
     task_text stream t =
       full_text stream (resolve_request h (sx_sandbox s) (sp_sandbox r)) (arrivals (spr_task_id x) stream as)"
proof -
  let ?e = "resolve_request h (sx_sandbox s) (sp_sandbox r)"
  from assms(1) obtain fate where t: "map_of (sx_tasks s1) (spr_task_id x)
      = Some (background_task_new (sp_command r) (sp_working_dir r) ?e fate)" (is "_ = Some ?t")
    by (auto simp: shell_spawn_run Let_def prepare_shell_command_Inr split: sum.splits)
  have "delivered stream ?t \<le> length (task_text stream ?t)"
    and "task_text stream ?t = full_text stream (bt_sandbox ?t) []"
    and fresh: "task_text stream ?t = []" "undelivered stream ?t = []" "bt_sandbox ?t = ?e"
    by (cases stream; simp add: background_task_new_def full_text_def undelivered_def)+
  from shell_trace_on_task [OF t assms(2) spawned_not_again [OF assms] this(1,2)] fresh
  show ?thesis by fastforce
qed

text \<open>A process that is still running, and an executor on the sample host that starts it.\<close>

definition sample_fate :: process_fate where
  "sample_fate =
     \<lparr>pf_exit = Some 0, pf_killed = None, pf_stdout = ''out'', pf_stderr = [], pf_wait_error = None\<rparr>"

definition sample_executor :: shell_executor where
  "sample_executor =
     shell_executor_new sample_host \<lparr>sequence = 0, clock = (\<lambda>n. n), clock_reads = 0\<rparr>
       (\<lambda>n c. Inr sample_fate)"

definition sample_spawn :: shell_spawn_request where
  "sample_spawn = \<lparr>sp_command = ''ls'', sp_working_dir = None, sp_sandbox = None\<rparr>"

definition sample_actions :: "shell_action list" where
  "sample_actions =
     [Arrives ''executor_0_1'' Stdout ''a'', ActReadOutput \<lparr>so_task_id = ''executor_0_1''\<rparr>,
      Arrives ''executor_0_1'' Stdout ''b'', ActWait \<lparr>sw_task_id = ''executor_0_1''\<rparr>]"

lemma digit_chars: "digit_char 0 = CHR ''0''" "digit_char (Suc 0) = CHR ''1''"
  by code_simp+

lemma sample_spawned:
  "\<exists>x s1. shell_spawn sample_host sample_spawn sample_executor = (Inr x, s1) \<and>
     spr_task_id x = ''executor_0_1''"
  by (simp add: shell_spawn_run sample_executor_def shell_executor_new_def sandbox_from_env_def
      sample_host_def default_sandbox_mode_def parse_sandbox_mode_def unwrap_or_def
      prepare_shell_command_def ensure_supported_def select_backend_def build_shell_command_def
      sandboxed_shell_command_def helper_path_for_backend_def resolve_default_helper_path_def
      helper_candidates_in_dir_def path_join_def build_linux_helper_command_def command_new_def
      launch_def next_value_def read_clock_def id_text_def show_hex_def show_dec_def
      show_base.simps digit_chars sample_spawn_def Let_def)

lemma output_delivered_once_witness:
  "\<exists>x s1. shell_spawn sample_host sample_spawn sample_executor = (Inr x, s1) \<and>
     (\<exists>t. map_of (sx_tasks (snd (shell_trace sample_host sample_actions s1))) ''executor_0_1'' = Some t \<and>
        deltas ''executor_0_1'' Stdout (fst (shell_trace sample_host sample_actions s1))
            @ undelivered Stdout t = task_text Stdout t \<and>
        task_text Stdout t =
          ''[sandbox mode=workspace-write backend=linux-helper network=restricted]'' @ [CHR 0x0A] @ ''ab'')"
proof -
  obtain x s1 where x: "shell_spawn sample_host sample_spawn sample_executor = (Inr x, s1)"
    and i: "spr_task_id x = ''executor_0_1''" using sample_spawned by blast
  have "arrivals ''executor_0_1'' Stdout sample_actions = [''a'', ''b'']"
    by (simp add: sample_actions_def)
  moreover have "full_text Stdout (resolve_request sample_host (sx_sandbox sample_executor) None) [''a'', ''b'']
      = ''[sandbox mode=workspace-write backend=linux-helper network=restricted]'' @ [CHR 0x0A] @ ''ab''"
    by (simp add: full_text_def sample_executor_def shell_executor_new_def sandbox_from_env_def
        sample_host_def default_sandbox_mode_def parse_sandbox_mode_def parse_network_access_def
        unwrap_or_def banner_def select_backend_def)
  moreover have "sp_sandbox sample_spawn = None" "length sample_actions < 2 ^ 64"
    by (simp_all add: sample_spawn_def sample_actions_def)
  ultimately show ?thesis
    using output_delivered_once [OF x surjective_pairing, of sample_actions Stdout] x i by fastforce
qed

text \<open>The working directory stands in the macOS policy as it is, without escaping: a directory named
  like the one below makes the whole file system writable in workspace-write mode.\<close>

definition write_rule :: "string \<Rightarrow> string" where
  "write_rule dir =
     ''(allow file-write* (subpath '' @ [CHR 0x22] @ dir @ [CHR 0x22] @ ''))''"

lemma macos_policy_injection:
  "contains (build_macos_policy (Some (''w'' @ [CHR 0x22] @ ''))(allow file-write* (subpath ''
       @ [CHR 0x22] @ root)) WorkspaceWrite network) (write_rule root)"
proof -
  let ?pre = "''(version 1)'' @ [CHR 0x0A] @ ''(deny default)'' @ [CHR 0x0A] @ ''(allow process*)''
    @ [CHR 0x0A] @ ''(allow signal (target self))'' @ [CHR 0x0A] @ ''(allow file-read*)'' @ [CHR 0x0A]
    @ ''(allow file-write* (subpath '' @ [CHR 0x22] @ ''w'' @ [CHR 0x22] @ ''))''"
  have "\<exists>rest. build_macos_policy (Some (''w'' @ [CHR 0x22] @ ''))(allow file-write* (subpath ''
       @ [CHR 0x22] @ root)) WorkspaceWrite network = ?pre @ write_rule root @ rest"
    by (simp add: build_macos_policy_def write_rule_def unwrap_or_def Let_def)
  then show ?thesis by (metis contains_iff)
qed

end
