(* ===== verification/File_Tree.thy ===== *)
theory File_Tree
  imports Prelude Text_Utils
begin

text \<open>
  The file system as the workspace tools use it through \<open>std::fs\<close> and \<open>std::path\<close>: a tree of
  directories and files below one root. A file holds text, or bytes that are not UTF-8 text; a broken
  entry is a link that leads nowhere, so that its metadata cannot be read. Links that lead somewhere
  are not represented. What may be read and written at a location, and the text of the system's
  error there, are fields of the state; a failing operation changes nothing at that location.
\<close>

type_synonym location = "string list"

datatype fs_node =
  TextFile string
| BinaryFile
| Directory "(string \<times> fs_node) list"
| Broken

record file_system =
  fs_root :: fs_node
  fs_cwd :: location
  fs_readable :: "location \<Rightarrow> bool"
  fs_writable :: "location \<Rightarrow> bool"
  fs_error :: "location \<Rightarrow> string"

section \<open>Paths\<close>

text \<open>Where a path leads: its components from the root or the working directory, where \<open>.\<close> stays
  and \<open>..\<close> goes up. The empty path leads nowhere.\<close>

fun walk_components :: "string list \<Rightarrow> location \<Rightarrow> location" where
  "walk_components [] at = at"
| "walk_components (c # cs) at =
     (if c = [] \<or> c = ''.'' then walk_components cs at
      else if c = ''..'' then walk_components cs (butlast at)
      else walk_components cs (at @ [c]))"

definition path_components :: "string \<Rightarrow> string list" where
  "path_components p = split_on (\<lambda>c. c = CHR 0x2F) p"

definition locate :: "file_system \<Rightarrow> string \<Rightarrow> location" where
  "locate fs p =
     walk_components (path_components p) (if p \<noteq> [] \<and> hd p = CHR 0x2F then [] else fs_cwd fs)"

fun node_at :: "location \<Rightarrow> fs_node \<Rightarrow> fs_node option" where
  "node_at [] n = Some n"
| "node_at (c # cs) (Directory ch) = Option.bind (map_of ch c) (node_at cs)"
| "node_at (c # cs) _ = None"

definition path_node :: "file_system \<Rightarrow> string \<Rightarrow> fs_node option" where
  "path_node fs p = (if p = [] then None else node_at (locate fs p) (fs_root fs))"

definition path_exists :: "file_system \<Rightarrow> string \<Rightarrow> bool" where
  "path_exists fs p \<longleftrightarrow> path_node fs p \<noteq> None \<and> path_node fs p \<noteq> Some Broken"

fun is_directory :: "fs_node \<Rightarrow> bool" where
  "is_directory (Directory _) = True"
| "is_directory _ = False"

fun is_regular :: "fs_node \<Rightarrow> bool" where
  "is_regular (TextFile _) = True"
| "is_regular BinaryFile = True"
| "is_regular _ = False"

definition path_is_dir :: "file_system \<Rightarrow> string \<Rightarrow> bool" where
  "path_is_dir fs p = (case path_node fs p of Some n \<Rightarrow> is_directory n | None \<Rightarrow> False)"

definition path_is_file :: "file_system \<Rightarrow> string \<Rightarrow> bool" where
  "path_is_file fs p = (case path_node fs p of Some n \<Rightarrow> is_regular n | None \<Rightarrow> False)"

section \<open>Reading and writing\<close>

definition text_at :: "file_system \<Rightarrow> location \<Rightarrow> string option" where
  "text_at fs l = (case node_at l (fs_root fs) of Some (TextFile t) \<Rightarrow> Some t | _ \<Rightarrow> None)"

definition read_to_string :: "file_system \<Rightarrow> string \<Rightarrow> string option" where
  "read_to_string fs p =
     (if p \<noteq> [] \<and> fs_readable fs (locate fs p) then text_at fs (locate fs p) else None)"

fun put_at :: "location \<Rightarrow> string \<Rightarrow> fs_node \<Rightarrow> fs_node option" where
  "put_at [] t (TextFile _) = Some (TextFile t)"
| "put_at [] t BinaryFile = Some (TextFile t)"
| "put_at [] t _ = None"
| "put_at (c # cs) t (Directory ch) =
     (case map_of ch c of
        Some n \<Rightarrow> map_option (\<lambda>m. Directory (AList.update c m ch)) (put_at cs t n)
      | None \<Rightarrow> if cs = [] then Some (Directory (AList.update c (TextFile t) ch)) else None)"
| "put_at (c # cs) t _ = None"

text \<open>\<open>fs::write\<close>: replaces a file or creates it in an existing directory.\<close>

definition write_at :: "location \<Rightarrow> string \<Rightarrow> file_system \<Rightarrow> file_system option" where
  "write_at l t fs =
     (if fs_writable fs l
      then map_option (\<lambda>n. fs\<lparr>fs_root := n\<rparr>) (put_at l t (fs_root fs)) else None)"

text \<open>\<open>fs::create_dir_all\<close>: the directories on the way that can be made stay when a later one fails.\<close>

fun make_dirs :: "(location \<Rightarrow> bool) \<Rightarrow> location \<Rightarrow> location \<Rightarrow> fs_node \<Rightarrow> bool \<times> fs_node" where
  "make_dirs w at [] n = (is_directory n, n)"
| "make_dirs w at (c # cs) (Directory ch) =
     (case map_of ch c of
        Some n \<Rightarrow> (let (ok, m) = make_dirs w (at @ [c]) cs n in (ok, Directory (AList.update c m ch)))
      | None \<Rightarrow>
          if w (at @ [c])
          then (let (ok, m) = make_dirs w (at @ [c]) cs (Directory [])
                in (ok, Directory (AList.update c m ch)))
          else (False, Directory ch))"
| "make_dirs w at (c # cs) n = (False, n)"

definition create_dirs :: "location \<Rightarrow> file_system \<Rightarrow> bool \<times> file_system" where
  "create_dirs l fs =
     (let (ok, n) = make_dirs (fs_writable fs) [] l (fs_root fs) in (ok, fs\<lparr>fs_root := n\<rparr>))"

section \<open>Laws\<close>

text \<open>The contract of a store of texts by location whose writes may be refused.\<close>

locale text_store =
  fixes text_of :: "'s \<Rightarrow> 'l \<Rightarrow> string option" and store :: "'l \<Rightarrow> string \<Rightarrow> 's \<Rightarrow> 's option"
  assumes text_store: "store l t s = Some s' \<Longrightarrow> text_of s' k = (if k = l then Some t else text_of s k)"
begin

lemma text_stored: "store l t s = Some s' \<Longrightarrow> text_of s' l = Some t"
  by (simp add: text_store)

lemma text_elsewhere: "store l t s = Some s' \<Longrightarrow> k \<noteq> l \<Longrightarrow> text_of s' k = text_of s k"
  by (simp add: text_store)

fun store_all :: "('l \<times> string) list \<Rightarrow> 's \<Rightarrow> 's option" where
  "store_all [] s = Some s"
| "store_all ((l, t) # ws) s = Option.bind (store l t s) (store_all ws)"

lemma text_store_all:
  "store_all ws s = Some s' \<Longrightarrow>
   text_of s' k = (case map_of (rev ws) k of Some t \<Rightarrow> Some t | None \<Rightarrow> text_of s k)"
proof (induction ws s rule: store_all.induct)
  case (1 s)
  then show ?case by simp
next
  case (2 l t ws s)
  then obtain s1 where s1: "store l t s = Some s1" "store_all ws s1 = Some s'"
    by (auto simp: bind_eq_Some_conv)
  from "2.IH" [OF this] text_store [OF s1(1)] show ?case
    by (auto simp: map_of_append map_add_def split: option.splits)
qed

end

lemma node_at_put:
  "put_at l t n = Some m \<Longrightarrow> node_at l m = Some (TextFile t)"
  by (induction l t n arbitrary: m rule: put_at.induct) (auto split: option.splits if_splits)

definition text_node :: "fs_node option \<Rightarrow> string option" where
  "text_node n = (case n of Some (TextFile t) \<Rightarrow> Some t | _ \<Rightarrow> None)"

lemma text_node_put:
  "put_at l t n = Some m \<Longrightarrow> k \<noteq> l \<Longrightarrow> text_node (node_at k m) = text_node (node_at k n)"
proof (induction l t n arbitrary: m k rule: put_at.induct)
  case (1 t u)
  then show ?case by (cases k) (auto simp: text_node_def)
next
  case (2 t)
  then show ?case by (cases k) (auto simp: text_node_def)
next
  case (4 c cs t ch)
  show ?case
  proof (cases k)
    case Nil
    with "4.prems" show ?thesis by (auto simp: text_node_def split: option.splits if_splits)
  next
    case (Cons d ds)
    then show ?thesis
    proof (cases "map_of ch c")
      case None
      with "4.prems" Cons show ?thesis
        by (cases ds) (auto simp: text_node_def split: if_splits)
    next
      case (Some n)
      with "4.prems" obtain n' where n': "put_at cs t n = Some n'" "m = Directory (AList.update c n' ch)"
        by auto
      from "4.IH" [OF Some n'(1), of ds] "4.prems"(2) Cons Some n'(2) show ?thesis
        by (cases "d = c") auto
    qed
  qed
qed simp_all

lemma text_at_node: "text_at fs l = text_node (node_at l (fs_root fs))"
  by (simp add: text_at_def text_node_def)

interpretation files: text_store text_at write_at
  by unfold_locales
    (auto simp: write_at_def text_at_node node_at_put text_node_put text_node_def [of "Some (TextFile t)" for t]
      split: if_splits)

lemma text_node_empty [simp]: "text_node (node_at k (Directory [])) = None" "text_node None = None"
  by (cases k; simp add: text_node_def) (simp add: text_node_def)

lemma text_node_make_dirs:
  "make_dirs w at l n = (ok, m) \<Longrightarrow> text_node (node_at k m) = text_node (node_at k n)"
proof (induction w at l n arbitrary: ok m k rule: make_dirs.induct)
  case (2 w at c cs ch)
  then show ?case
    by (cases k; cases "map_of ch c")
      (auto simp: text_node_def [of "Some (Directory x)" for x] split: if_splits prod.splits option.splits)
qed auto

lemma text_at_create_dirs: "create_dirs l fs = (ok, fs') \<Longrightarrow> text_at fs' k = text_at fs k"
  by (auto simp: create_dirs_def text_at_node text_node_make_dirs split: prod.splits)

lemma fs_fields_same:
  "create_dirs l fs = (ok, fs') \<Longrightarrow> fs_cwd fs' = fs_cwd fs \<and> fs_readable fs' = fs_readable fs \<and>
     fs_writable fs' = fs_writable fs \<and> fs_error fs' = fs_error fs"
  "write_at l t fs = Some fs' \<Longrightarrow> fs_cwd fs' = fs_cwd fs \<and> fs_readable fs' = fs_readable fs \<and>
     fs_writable fs' = fs_writable fs \<and> fs_error fs' = fs_error fs"
  by (auto simp: create_dirs_def write_at_def split: prod.splits if_splits)

lemma locate_cong: "fs_cwd fs' = fs_cwd fs \<Longrightarrow> locate fs' p = locate fs p"
  by (simp add: locate_def)

end
