(* ===== verification/Workspace_Tools.thy ===== *)
theory Workspace_Tools
  imports File_Tree Tools Ids
begin

text \<open>
  The workspace tools of the local node (\<open>executor/workspace.rs\<close>): listing, searching, reading,
  writing and patching files. The two that write are computations over the file system; the others
  only look at it.
\<close>

section \<open>Paths\<close>

definition is_hidden :: "string \<Rightarrow> bool" where
  "is_hidden name \<longleftrightarrow> starts_with name ''.''"

text \<open>\<open>relative_display\<close> of the entry whose names below the root are \<open>rel\<close>.\<close>

definition relative_display :: "location \<Rightarrow> string" where
  "relative_display rel = replace_all [CHR 0x5C] ''/'' (join ''/'' rel)"

definition push_path :: "string \<Rightarrow> string \<Rightarrow> string" where
  "push_path p name = (if p = [] \<or> last p = CHR 0x2F then p @ name else p @ CHR 0x2F # name)"

text \<open>\<open>Path::join\<close>: an absolute second path replaces the first.\<close>

definition join_path :: "string \<Rightarrow> string \<Rightarrow> string" where
  "join_path p q = (if q \<noteq> [] \<and> hd q = CHR 0x2F then q else push_path p q)"

definition display_below :: "string \<Rightarrow> location \<Rightarrow> string" where
  "display_below root rel = foldl push_path root rel"

definition ensure_directory :: "file_system \<Rightarrow> string \<Rightarrow> runtime_error + unit" where
  "ensure_directory fs p =
     (if \<not> path_exists fs p
      then Inl (NotFound ''workspace_root_not_found'' (''workspace root '' @ p @ '' does not exist''))
      else if \<not> path_is_dir fs p
      then Inl (InvalidState ''workspace_root_not_directory''
                 (''workspace root '' @ p @ '' is not a directory''))
      else Inr ())"

definition ensure_file :: "file_system \<Rightarrow> string \<Rightarrow> runtime_error + unit" where
  "ensure_file fs p =
     (if \<not> path_exists fs p
      then Inl (NotFound ''workspace_file_not_found'' (''workspace file '' @ p @ '' does not exist''))
      else if \<not> path_is_file fs p
      then Inl (InvalidState ''workspace_path_not_file''
                 (''workspace path '' @ p @ '' is not a file''))
      else Inr ())"

definition usize_max :: nat where
  "usize_max = 18446744073709551615"

section \<open>Listing\<close>

text \<open>The errors of a traversal, for the code of the operation that runs it.\<close>

definition enumerate_error :: "string \<Rightarrow> file_system \<Rightarrow> string \<Rightarrow> location \<Rightarrow> runtime_error" where
  "enumerate_error code fs root rel =
     InvalidState code (''failed to enumerate '' @ display_below root rel @ '': ''
       @ fs_error fs (locate fs root @ rel))"

definition stat_error :: "string \<Rightarrow> file_system \<Rightarrow> string \<Rightarrow> location \<Rightarrow> runtime_error" where
  "stat_error code fs root rel =
     InvalidState code (''failed to stat '' @ display_below root rel @ '': ''
       @ fs_error fs (locate fs root @ rel))"

lemma size_list_sort_by [simp]: "size_list f (sort_by le xs) = size_list f xs"
proof -
  have ins: "size_list f (insert_by le x ys) = Suc (f x + size_list f ys)" for x ys
    by (induction ys) auto
  show ?thesis by (induction xs) (simp_all add: ins)
qed

text \<open>
  \<open>collect_entries\<close> enumerates a directory and \<open>collect_paths\<close> is its loop over the sorted paths; the
  state of both is the entries found and the flag \<open>truncated\<close>.
\<close>

function (sequential) collect_entries ::
    "file_system \<Rightarrow> workspace_list_request \<Rightarrow> location \<Rightarrow> fs_node
     \<Rightarrow> workspace_list_entry list \<times> bool \<Rightarrow> runtime_error + workspace_list_entry list \<times> bool"
  and collect_paths ::
    "file_system \<Rightarrow> workspace_list_request \<Rightarrow> location \<Rightarrow> (string \<times> fs_node) list
     \<Rightarrow> workspace_list_entry list \<times> bool \<Rightarrow> runtime_error + workspace_list_entry list \<times> bool"
where
  "collect_entries fs r rel (Directory ch) st =
     (if fs_readable fs (locate fs (wl_root r) @ rel)
      then collect_paths fs r rel (sort_by (le_on fst) ch) st
      else Inl (enumerate_error ''workspace_list_failed'' fs (wl_root r) rel))"
| "collect_entries fs r rel n st =
     Inl (enumerate_error ''workspace_list_failed'' fs (wl_root r) rel)"
| "collect_paths fs r rel [] st = Inr st"
| "collect_paths fs r rel ((name, n) # ps) (entries, truncated) =
     (if length entries \<ge> unwrap_or usize_max (wl_max_entries r) then Inr (entries, True)
      else if \<not> wl_include_hidden r \<and> is_hidden name then collect_paths fs r rel ps (entries, truncated)
      else if n = Broken then Inl (stat_error ''workspace_list_failed'' fs (wl_root r) (rel @ [name]))
      else (let entries' = entries @ [\<lparr>we_path = relative_display (rel @ [name]), we_is_dir = is_directory n\<rparr>]
            in if wl_recursive r \<and> is_directory n
               then (case collect_entries fs r (rel @ [name]) n (entries', truncated) of
                       Inl e \<Rightarrow> Inl e
                     | Inr (es, stop) \<Rightarrow>
                         if stop then Inr (es, stop) else collect_paths fs r rel ps (es, stop))
               else collect_paths fs r rel ps (entries', truncated)))"
  by pat_completeness auto
termination
  by (relation "measure (\<lambda>x. case x of
       Inl (fs, r, rel, n, st) \<Rightarrow> 2 * size n
     | Inr (fs, r, rel, ps, st) \<Rightarrow> 2 * size_list (size_prod (\<lambda>_. 0) size) ps + 1)")
    auto

definition list_root :: "file_system \<Rightarrow> string \<Rightarrow> fs_node" where
  "list_root fs p = unwrap_or Broken (path_node fs p)"

definition workspace_list :: "file_system \<Rightarrow> workspace_list_request \<Rightarrow> runtime_error + workspace_list_result" where
  "workspace_list fs r =
     (case ensure_directory fs (wl_root r) of
        Inl e \<Rightarrow> Inl e
      | Inr _ \<Rightarrow>
          (case collect_entries fs r [] (list_root fs (wl_root r)) ([], False) of
             Inl e \<Rightarrow> Inl e
           | Inr (entries, truncated) \<Rightarrow>
               Inr \<lparr>wlr_root = wl_root r, wlr_entries = entries, wlr_truncated = truncated\<rparr>))"

section \<open>Searching\<close>

function (sequential) collect_files ::
    "file_system \<Rightarrow> workspace_search_request \<Rightarrow> location \<Rightarrow> fs_node \<Rightarrow> string list
     \<Rightarrow> runtime_error + string list"
  and collect_file_paths ::
    "file_system \<Rightarrow> workspace_search_request \<Rightarrow> location \<Rightarrow> (string \<times> fs_node) list \<Rightarrow> string list
     \<Rightarrow> runtime_error + string list"
where
  "collect_files fs r rel (Directory ch) files =
     (if fs_readable fs (locate fs (ws_root r) @ rel)
      then collect_file_paths fs r rel (sort_by (le_on fst) ch) files
      else Inl (enumerate_error ''workspace_search_failed'' fs (ws_root r) rel))"
| "collect_files fs r rel n files =
     Inl (enumerate_error ''workspace_search_failed'' fs (ws_root r) rel)"
| "collect_file_paths fs r rel [] files = Inr files"
| "collect_file_paths fs r rel ((name, n) # ps) files =
     (if \<not> ws_include_hidden r \<and> is_hidden name then collect_file_paths fs r rel ps files
      else if n = Broken then Inl (stat_error ''workspace_search_failed'' fs (ws_root r) (rel @ [name]))
      else if is_directory n
      then (case collect_files fs r (rel @ [name]) n files of
              Inl e \<Rightarrow> Inl e | Inr files' \<Rightarrow> collect_file_paths fs r rel ps files')
      else collect_file_paths fs r rel ps (files @ [relative_display (rel @ [name])]))"
  by pat_completeness auto
termination
  by (relation "measure (\<lambda>x. case x of
       Inl (fs, r, rel, n, st) \<Rightarrow> 2 * size n
     | Inr (fs, r, rel, ps, st) \<Rightarrow> 2 * size_list (size_prod (\<lambda>_. 0) size) ps + 1)")
    auto

definition line_matches :: "workspace_search_request \<Rightarrow> string \<Rightarrow> bool" where
  "line_matches r line =
     (if ws_case_sensitive r then contains line (ws_pattern r)
      else contains (to_lower line) (to_lower (ws_pattern r)))"

text \<open>The two loops of \<open>search\<close>; the flag is \<open>truncated\<close>, which leaving the inner loop sets.\<close>

fun search_lines ::
  "workspace_search_request \<Rightarrow> string \<Rightarrow> nat \<Rightarrow> string list \<Rightarrow> workspace_search_match list \<times> bool
   \<Rightarrow> workspace_search_match list \<times> bool"
where
  "search_lines r file index [] st = st"
| "search_lines r file index (line # lines) (matches, truncated) =
     (if line_matches r line
      then (let found = matches @ [\<lparr>wm_path = file, wm_line_number = index + 1, wm_line = line\<rparr>]
            in if length found \<ge> unwrap_or usize_max (ws_max_results r) then (found, True)
               else search_lines r file (index + 1) lines (found, truncated))
      else search_lines r file (index + 1) lines (matches, truncated))"

fun search_files ::
  "file_system \<Rightarrow> workspace_search_request \<Rightarrow> string list \<Rightarrow> workspace_search_match list \<times> bool
   \<Rightarrow> workspace_search_match list \<times> bool"
where
  "search_files fs r [] st = st"
| "search_files fs r (file # files) (matches, truncated) =
     (if length matches \<ge> unwrap_or usize_max (ws_max_results r) then (matches, True)
      else (case read_to_string fs (join_path (ws_root r) file) of
              None \<Rightarrow> search_files fs r files (matches, truncated)
            | Some content \<Rightarrow>
                search_files fs r files
                  (search_lines r file 0 (lines_of content) (matches, truncated))))"

definition workspace_search ::
  "file_system \<Rightarrow> workspace_search_request \<Rightarrow> runtime_error + workspace_search_result" where
  "workspace_search fs r =
     (case ensure_directory fs (ws_root r) of
        Inl e \<Rightarrow> Inl e
      | Inr _ \<Rightarrow>
          (case collect_files fs r [] (list_root fs (ws_root r)) [] of
             Inl e \<Rightarrow> Inl e
           | Inr files \<Rightarrow>
               (case search_files fs r files ([], False) of (matches, truncated) \<Rightarrow>
                  Inr \<lparr>wsr_root = ws_root r, wsr_pattern = ws_pattern r, wsr_matches = matches,
                       wsr_truncated = truncated\<rparr>)))"

section \<open>Reading\<close>

text \<open>Slicing a vector: \<open>None\<close> is the panic of a range out of order or out of bounds.\<close>

definition slice :: "nat \<Rightarrow> nat \<Rightarrow> 'a list \<Rightarrow> 'a list option" where
  "slice i j xs = (if i \<le> j \<and> j \<le> length xs then Some (take (j - i) (drop i xs)) else None)"

text \<open>\<open>read\<close>; the inner option is the panic its slice would raise.\<close>

definition workspace_read ::
  "file_system \<Rightarrow> workspace_read_request \<Rightarrow> runtime_error + workspace_read_result option" where
  "workspace_read fs r =
     (case ensure_file fs (wr_path r) of
        Inl e \<Rightarrow> Inl e
      | Inr _ \<Rightarrow>
          (case read_to_string fs (wr_path r) of
             None \<Rightarrow> Inl (InvalidState ''workspace_read_failed''
                       (''failed to read '' @ wr_path r @ '': '' @ fs_error fs (locate fs (wr_path r))))
           | Some text \<Rightarrow>
               (let lines = lines_of text;
                    total_lines = max (length lines) 1;
                    start_line = max (unwrap_or 1 (wr_start_line r)) 1;
                    end_line = max (unwrap_or (max (length lines) 1) (wr_end_line r)) start_line;
                    content = (if lines = [] then Some []
                               else map_option (join [CHR 0x0A])
                                 (slice (min (start_line - 1) (length lines))
                                        (min end_line (length lines)) lines))
                in Inr (map_option (\<lambda>c. \<lparr>wrr_path = wr_path r, wrr_content = c,
                       wrr_start_line = start_line, wrr_end_line = min end_line total_lines,
                       wrr_total_lines = total_lines\<rparr>) content))))"

section \<open>Writing\<close>

type_synonym 'a fs_run = "(runtime_error, file_system, 'a) run"

record workspace_write_execution =
  we_result :: workspace_write_text_result
  we_before :: string
  we_after :: string

record workspace_patch_execution =
  pe_result :: workspace_apply_patch_result
  pe_before :: string
  pe_after :: string

definition write_failure :: "string \<Rightarrow> string \<Rightarrow> string \<Rightarrow> file_system \<Rightarrow> runtime_error" where
  "write_failure code message p fs =
     InvalidState code (message @ p @ '': '' @ fs_error fs (locate fs p))"

text \<open>The directories of the path's parent; a path of one component has an empty parent, for which
  there is nothing to do.\<close>

definition create_parents :: "string \<Rightarrow> unit fs_run" where
  "create_parents p fs =
     (let l = locate fs p
      in if p = [] \<or> CHR 0x2F \<notin> set p \<or> l = [] then (Inr (), fs)
         else (case create_dirs (butlast l) fs of (ok, fs') \<Rightarrow>
                 (if ok then Inr ()
                  else Inl (write_failure ''workspace_write_parent_failed''
                              ''failed to create parent directories for '' p fs), fs')))"

definition write_file :: "string \<Rightarrow> string \<Rightarrow> string \<Rightarrow> unit fs_run" where
  "write_file code p t fs =
     (case (if p = [] then None else write_at (locate fs p) t fs) of
        None \<Rightarrow> (Inl (write_failure code ''failed to write '' p fs), fs)
      | Some fs' \<Rightarrow> (Inr (), fs'))"

definition workspace_write_text ::
  "workspace_write_text_request \<Rightarrow> workspace_write_execution fs_run" where
  "workspace_write_text r =
     bindR (asks (\<lambda>fs. unwrap_or [] (read_to_string fs (ww_path r)))) (\<lambda>before.
     bindR (create_parents (ww_path r)) (\<lambda>_.
     bindR (write_file ''workspace_write_failed'' (ww_path r) (ww_content r)) (\<lambda>_.
     ret \<lparr>we_result = \<lparr>wwr_path = ww_path r, wwr_changed = (before \<noteq> ww_content r),
                       wwr_byte_length = length (ww_content r)\<rparr>,
          we_before = before, we_after = ww_content r\<rparr>)))"

definition workspace_apply_patch ::
  "workspace_apply_patch_request \<Rightarrow> workspace_patch_execution fs_run" where
  "workspace_apply_patch r =
     bindR (bindR (asks (\<lambda>fs. ensure_file fs (wp_path r))) (\<lambda>checked.
              case checked of Inl e \<Rightarrow> fail e | Inr _ \<Rightarrow> ret ())) (\<lambda>_.
     bindR (bindR (asks (\<lambda>fs. (fs, read_to_string fs (wp_path r)))) (\<lambda>(fs, text).
              ok_or (write_failure ''workspace_patch_read_failed'' ''failed to read '' (wp_path r) fs) text))
       (\<lambda>before.
     (let found = match_count (wp_search r) before
      in bindR (guard (NotFound ''workspace_patch_search_not_found''
                   (''patch target was not found in '' @ wp_path r)) (found \<noteq> 0)) (\<lambda>_.
     (let replacements = (if wp_replace_all r then found else 1);
          after = (if wp_replace_all r then replace_all (wp_search r) (wp_replace r) before
                   else replace_once (wp_search r) (wp_replace r) before)
      in bindR (write_file ''workspace_patch_write_failed'' (wp_path r) after) (\<lambda>_.
         ret \<lparr>pe_result = \<lparr>wpr_path = wp_path r, wpr_replacements = replacements,
                           wpr_changed = (before \<noteq> after)\<rparr>,
              pe_before = before, pe_after = after\<rparr>))))))"

end
