(* ===== verification/Workspace_Laws.thy ===== *)
theory Workspace_Laws
  imports Workspace_Tools
begin

text \<open>
  What the workspace tools return. A listing and a search are compared with a declarative account of
  the tree: the visible locations below the root in lexicographic order of their names, and the
  matching lines of the visible files. Reading is shown to stay within bounds, writing and patching
  to change one file only.
\<close>

section \<open>Trees\<close>

fun wf_tree :: "fs_node \<Rightarrow> bool" where
  "wf_tree (Directory ch) \<longleftrightarrow> distinct (map fst ch) \<and> (\<forall>(c, n) \<in> set ch. wf_tree n)"
| "wf_tree _ \<longleftrightarrow> True"

definition visible :: "bool \<Rightarrow> location \<Rightarrow> bool" where
  "visible hidden p \<longleftrightarrow> (\<forall>c \<in> set p. hidden \<or> \<not> is_hidden c)"

lemma visible_simps [simp]:
  "visible hidden []"
  "visible hidden (c # p) \<longleftrightarrow> (hidden \<or> \<not> is_hidden c) \<and> visible hidden p"
  by (auto simp: visible_def)

text \<open>Everything below a node that a traversal may meet can be read.\<close>

definition sound_below :: "file_system \<Rightarrow> bool \<Rightarrow> location \<Rightarrow> fs_node \<Rightarrow> bool" where
  "sound_below fs hidden l n \<longleftrightarrow>
     (\<forall>p m. node_at p n = Some m \<longrightarrow> visible hidden p \<longrightarrow>
        m \<noteq> Broken \<and> (is_directory m \<longrightarrow> fs_readable fs (l @ p)))"

lemma sound_below_child:
  assumes "sound_below fs hidden l (Directory ch)" and "map_of ch c = Some n"
    and "hidden \<or> \<not> is_hidden c"
  shows "sound_below fs hidden (l @ [c]) n"
  unfolding sound_below_def
proof (intro allI impI)
  fix p m
  assume "node_at p n = Some m" "visible hidden p"
  with assms show "m \<noteq> Broken \<and> (is_directory m \<longrightarrow> fs_readable fs ((l @ [c]) @ p))"
    by (auto simp: sound_below_def dest!: spec [of _ "c # p"])
qed

lemma sound_below_here:
  "sound_below fs hidden l n \<Longrightarrow> n \<noteq> Broken \<and> (is_directory n \<longrightarrow> fs_readable fs l)"
  by (auto simp: sound_below_def dest!: spec [of _ "[]"])

section \<open>The reference traversal\<close>

text \<open>The visible locations below a node with whether each is a directory, without bound and errors.\<close>

function (sequential) tree_entries :: "bool \<Rightarrow> bool \<Rightarrow> location \<Rightarrow> fs_node \<Rightarrow> (location \<times> bool) list"
  and path_entries :: "bool \<Rightarrow> bool \<Rightarrow> location \<Rightarrow> (string \<times> fs_node) list \<Rightarrow> (location \<times> bool) list"
where
  "tree_entries hidden recursive rel (Directory ch) =
     path_entries hidden recursive rel (sort_by (le_on fst) ch)"
| "tree_entries hidden recursive rel n = []"
| "path_entries hidden recursive rel [] = []"
| "path_entries hidden recursive rel ((name, n) # ps) =
     (if \<not> hidden \<and> is_hidden name then []
      else (rel @ [name], is_directory n) #
           (if recursive then tree_entries hidden recursive (rel @ [name]) n else []))
     @ path_entries hidden recursive rel ps"
  by pat_completeness auto
termination
  by (relation "measure (\<lambda>x. case x of
       Inl (hidden, recursive, rel, n) \<Rightarrow> 2 * size n
     | Inr (hidden, recursive, rel, ps) \<Rightarrow> 2 * size_list (size_prod (\<lambda>_. 0) size) ps + 1)")
    auto

text \<open>The entries are the visible locations below the node.\<close>

definition entry_at :: "bool \<Rightarrow> bool \<Rightarrow> location \<Rightarrow> fs_node \<Rightarrow> bool \<Rightarrow> bool" where
  "entry_at hidden recursive q n d \<longleftrightarrow>
     q \<noteq> [] \<and> map_option is_directory (node_at q n) = Some d \<and> visible hidden q \<and>
     (recursive \<or> length q = 1)"

lemma entry_at_simps [simp]:
  "\<not> entry_at hidden recursive [] n d"
  "\<not> is_directory n \<Longrightarrow> \<not> entry_at hidden recursive q n d"
  "entry_at hidden recursive (c # q) (Directory ch) d \<longleftrightarrow>
     (\<exists>m. map_of ch c = Some m \<and> (hidden \<or> \<not> is_hidden c) \<and>
        (if q = [] then d = is_directory m else recursive \<and> entry_at hidden recursive q m d))"
proof -
  show "\<not> entry_at hidden recursive [] n d" by (simp add: entry_at_def)
  show "\<not> is_directory n \<Longrightarrow> \<not> entry_at hidden recursive q n d"
    by (cases q; cases n) (simp_all add: entry_at_def)
  show "entry_at hidden recursive (c # q) (Directory ch) d \<longleftrightarrow>
     (\<exists>m. map_of ch c = Some m \<and> (hidden \<or> \<not> is_hidden c) \<and>
        (if q = [] then d = is_directory m else recursive \<and> entry_at hidden recursive q m d))"
    by (cases "map_of ch c"; cases q) (auto simp: entry_at_def)
qed

lemma map_of_sort_by: "distinct (map fst ch) \<Longrightarrow> map_of (sort_by le ch) = map_of ch"
  by (subst map_of_inject_set) simp_all

lemma entry_at_sorted:
  "distinct (map fst ch) \<Longrightarrow>
   entry_at hidden recursive q (Directory (sort_by le ch)) d = entry_at hidden recursive q (Directory ch) d"
  by (cases q) (simp_all add: map_of_sort_by)

definition entries_of :: "bool \<Rightarrow> bool \<Rightarrow> location \<Rightarrow> fs_node \<Rightarrow> (location \<times> bool) set" where
  "entries_of hidden recursive rel n = {(rel @ q, d) | q d. entry_at hidden recursive q n d}"

lemma entries_of_Cons:
  assumes "name \<notin> fst ` set ps"
  shows "entries_of hidden recursive rel (Directory ((name, n) # ps)) =
    (if \<not> hidden \<and> is_hidden name then {}
     else insert (rel @ [name], is_directory n)
            (if recursive then entries_of hidden recursive (rel @ [name]) n else {}))
    \<union> entries_of hidden recursive rel (Directory ps)" (is "?l = ?r")
proof -
  have ne: "map_of ps name = None" using assms by (simp add: map_of_eq_None_iff)
  have l: "(rel @ q, d) \<in> ?l \<longleftrightarrow> (rel @ q, d) \<in> ?r" for q d
  proof (cases q)
    case Nil
    then show ?thesis by (simp add: entries_of_def)
  next
    case (Cons c p)
    with ne show ?thesis
      by (cases "c = name"; cases p) (auto simp: entries_of_def)
  qed
  have "\<exists>q d. x = (rel @ q, d)" if "x \<in> ?l \<union> ?r" for x
    using that by (auto simp: entries_of_def split: if_splits)
  with l show ?thesis by blast
qed

lemma entries_of_leaf: "\<not> is_directory n \<Longrightarrow> entries_of hidden recursive rel n = {}"
  by (simp add: entries_of_def)

lemma entries_of_empty: "entries_of hidden recursive rel (Directory []) = {}"
proof -
  have "\<not> entry_at hidden recursive q (Directory []) d" for q d by (cases q) simp_all
  then show ?thesis by (simp add: entries_of_def)
qed

lemma set_entries:
  "wf_tree n \<Longrightarrow> set (tree_entries hidden recursive rel n) = entries_of hidden recursive rel n"
  "distinct (map fst ps) \<Longrightarrow> (\<forall>(c, m) \<in> set ps. wf_tree m) \<Longrightarrow>
     set (path_entries hidden recursive rel ps) = entries_of hidden recursive rel (Directory ps)"
proof (induction hidden recursive rel n and hidden recursive rel ps
    rule: tree_entries_path_entries.induct)
  case (1 hidden recursive rel ch)
  then have "distinct (map fst (sort_by (le_on fst) ch))"
    and "\<forall>(c, m) \<in> set (sort_by (le_on fst) ch). wf_tree m" by auto
  from "1.IH" [OF this] "1.prems" show ?case by (simp add: entries_of_def entry_at_sorted)
next
  case (4 hidden recursive rel name n ps)
  then have "name \<notin> fst ` set ps" by auto
  with 4 show ?case by (cases hidden; cases recursive) (simp_all add: entries_of_Cons)
qed (simp_all add: entries_of_leaf entries_of_empty)

text \<open>They come in strictly ascending lexicographic order of their names.\<close>

lemma prefix_less: "p < q \<Longrightarrow> rel @ p < rel @ (q :: location)"
  by (induction rel) simp_all

lemma entries_prefix: "x \<in> entries_of hidden recursive rel n \<Longrightarrow> \<exists>c q. fst x = rel @ c # q"
  by (auto simp: entries_of_def) (metis entry_at_simps(1) list.exhaust)

lemma sorted_entries:
  "wf_tree n \<Longrightarrow> sorted_wrt (<) (map fst (tree_entries hidden recursive rel n))"
  "sorted_wrt (<) (map fst ps) \<Longrightarrow> (\<forall>(c, m) \<in> set ps. wf_tree m) \<Longrightarrow>
     sorted_wrt (<) (map fst (path_entries hidden recursive rel ps))"
proof (induction hidden recursive rel n and hidden recursive rel ps
    rule: tree_entries_path_entries.induct)
  case (1 hidden recursive rel ch)
  let ?s = "sort_by (le_on fst) ch"
  have "sorted_wrt (le_on fst) ?s" by (rule asc.sorted_sort_by)
  then have "sorted (map fst ?s)" by (simp add: sorted_wrt_map le_on_def [abs_def])
  with "1.prems" have "sorted_wrt (<) (map fst ?s)" by (simp add: strict_sorted_iff)
  moreover from "1.prems" have "\<forall>(c, m) \<in> set ?s. wf_tree m" by auto
  ultimately show ?case using "1.IH" by simp
next
  case (4 hidden recursive rel name n ps)
  have rest: "sorted_wrt (<) (map fst (path_entries hidden recursive rel ps))"
    using 4 by simp
  have d: "distinct (map fst ps)" using "4.prems"(1) by (simp add: strict_sorted_iff)
  have later: "\<exists>c q. p = rel @ c # q \<and> name < c"
    if "p \<in> fst ` set (path_entries hidden recursive rel ps)" for p
  proof -
    from that set_entries(2) [OF d] "4.prems"(2) obtain q e
      where p: "p = rel @ q" and e: "entry_at hidden recursive q (Directory ps) e"
      by (auto simp: entries_of_def)
    then obtain c r where q: "q = c # r" by (cases q) simp_all
    with e have "c \<in> fst ` set ps" by (auto dest: map_of_SomeD intro: rev_image_eqI)
    with "4.prems"(1) p q show ?thesis by auto
  qed
  have inner: "\<exists>c q. p = rel @ [name] @ c # q"
    if "p \<in> fst ` set (tree_entries hidden recursive (rel @ [name]) n)" for p
    using that set_entries(1) [of n] "4.prems"(2) entries_prefix by fastforce
  have sub: "sorted_wrt (<) (map fst (tree_entries hidden recursive (rel @ [name]) n))"
    if "recursive" "hidden \<or> \<not> is_hidden name" using "4.IH"(1) that "4.prems"(2) by auto
  have one: "rel @ [name] < rel @ [name] @ c # q" for c q
    by (intro prefix_less) simp
  have two: "rel @ name # r < rel @ c # q" if "name < c" for c q r
    using that by (intro prefix_less) simp
  let ?sub = "map fst (tree_entries hidden recursive (rel @ [name]) n)"
  let ?rest = "map fst (path_entries hidden recursive rel ps)"
  have a: "rel @ [name] < p" if "p \<in> set ?sub" for p
    using inner [of p] that one by auto
  have b: "rel @ name # r < p" if "p \<in> set ?rest" for p r
    using later [of p] that two by auto
  have c: "p < q" if p: "p \<in> set ?sub" and q: "q \<in> set ?rest" for p q
  proof -
    from inner [of p] p obtain r where "p = rel @ name # r" by auto
    with b [OF q] show ?thesis by simp
  qed
  show ?case
  proof (cases "hidden \<or> \<not> is_hidden name")
    case False
    with rest show ?thesis by simp
  next
    case True
    with rest sub a b [where r = "[]"] c show ?thesis
      by (cases recursive) (simp_all add: sorted_wrt_append ball_Un del: set_map)
  qed
qed simp_all

section \<open>Listing against the reference\<close>

definition list_bound :: "workspace_list_request \<Rightarrow> nat" where
  "list_bound r = unwrap_or usize_max (wl_max_entries r)"

definition listed :: "location \<times> bool \<Rightarrow> workspace_list_entry" where
  "listed e = \<lparr>we_path = relative_display (fst e), we_is_dir = snd e\<rparr>"

text \<open>A bounded loop over \<open>all\<close> ends with everything, or is cut off with the first \<open>m\<close>.\<close>

definition bounded :: "nat \<Rightarrow> 'a list \<Rightarrow> 'a list \<Rightarrow> bool \<Rightarrow> bool" where
  "bounded m all found stop \<longleftrightarrow>
     (if stop then found = take m all \<and> m \<le> length all else found = all \<and> length all \<le> m)"

lemma bounded_more: "bounded m all found True \<Longrightarrow> bounded m (all @ rest) found True"
  by (simp add: bounded_def)

lemma collect_bounded:
  "wf_tree n \<Longrightarrow> is_directory n \<Longrightarrow>
   sound_below fs (wl_include_hidden r) (locate fs (wl_root r) @ rel) n \<Longrightarrow>
   length (fst st) \<le> list_bound r \<Longrightarrow> \<not> snd st \<Longrightarrow>
   \<exists>found stop. collect_entries fs r rel n st = Inr (found, stop) \<and>
     bounded (list_bound r)
       (fst st @ map listed (tree_entries (wl_include_hidden r) (wl_recursive r) rel n)) found stop"
  "\<forall>(c, m) \<in> set ps. wf_tree m \<and> (wl_include_hidden r \<or> \<not> is_hidden c \<longrightarrow>
     sound_below fs (wl_include_hidden r) (locate fs (wl_root r) @ rel @ [c]) m) \<Longrightarrow>
   length (fst st) \<le> list_bound r \<Longrightarrow> \<not> snd st \<Longrightarrow>
   \<exists>found stop. collect_paths fs r rel ps st = Inr (found, stop) \<and>
     bounded (list_bound r)
       (fst st @ map listed (path_entries (wl_include_hidden r) (wl_recursive r) rel ps)) found stop"
proof (induction fs r rel n st and fs r rel ps st rule: collect_entries_collect_paths.induct)
  case (1 fs r rel ch st)
  have "sound_below fs (wl_include_hidden r) (locate fs (wl_root r) @ rel @ [c]) m"
    if "(c, m) \<in> set ch" "wl_include_hidden r \<or> \<not> is_hidden c" for c m
  proof -
    from that(1) "1.prems"(1) have "map_of ch c = Some m" by simp
    from sound_below_child [OF "1.prems"(3) this that(2)] show ?thesis by simp
  qed
  with "1.prems"(1) have "\<forall>(c, m) \<in> set (sort_by (le_on fst) ch). wf_tree m \<and>
      (wl_include_hidden r \<or> \<not> is_hidden c \<longrightarrow>
       sound_below fs (wl_include_hidden r) (locate fs (wl_root r) @ rel @ [c]) m)" by auto
  with "1.IH" "1.prems" sound_below_here [OF "1.prems"(3)] show ?case by simp
next
  case (3 fs r rel st)
  then show ?case by (intro exI [of _ "fst st"] exI [of _ False]) (auto simp: bounded_def prod_eq_iff)
next
  case (4 fs r rel name n ps entries truncated)
  let ?m = "list_bound r" and ?h = "wl_include_hidden r" and ?rc = "wl_recursive r"
  let ?P = "path_entries ?h ?rc rel ps" and ?T = "tree_entries ?h ?rc (rel @ [name]) n"
  have ps: "\<forall>(c, m) \<in> set ps. wf_tree m \<and> (?h \<or> \<not> is_hidden c \<longrightarrow>
      sound_below fs ?h (locate fs (wl_root r) @ rel @ [c]) m)" using "4.prems"(1) by simp
  have bd: "list_bound r = unwrap_or usize_max (wl_max_entries r)" by (simp add: list_bound_def)
  consider "length entries \<ge> ?m" | "length entries < ?m" "\<not> ?h \<and> is_hidden name"
    | "length entries < ?m" "?h \<or> \<not> is_hidden name" by linarith
  then show ?case
  proof cases
    case 1
    with "4.prems" have "length entries = ?m" by simp
    with 1 show ?thesis by (auto simp add: bd [symmetric] bounded_def)
  next
    case 2
    with "4.IH"(1) ps "4.prems" show ?thesis by (simp add: bd [symmetric])
  next
    case 3
    let ?es = "entries @ [\<lparr>we_path = relative_display (rel @ [name]), we_is_dir = is_directory n\<rparr>]"
    have es: "?es = entries @ [listed (rel @ [name], is_directory n)]" by (simp add: listed_def)
    from "4.prems"(1) 3 have sb: "sound_below fs ?h (locate fs (wl_root r) @ rel @ [name]) n"
      and wf: "wf_tree n" by auto
    from sound_below_here [OF sb] have nb: "n \<noteq> Broken" by simp
    from 3 have len: "length ?es \<le> ?m" by simp
    have go: "\<not> unwrap_or usize_max (wl_max_entries r) \<le> length entries"
      "\<not> (\<not> ?h \<and> is_hidden name)" using 3 by (simp_all add: bd [symmetric])
    show ?thesis
    proof (cases "?rc \<and> is_directory n")
      case False
      then have none: "(if ?rc then ?T else []) = []" by (cases n) simp_all
      have code: "collect_paths fs r rel ((name, n) # ps) (entries, truncated)
          = collect_paths fs r rel ps (?es, truncated)"
        using go nb False by (simp only: collect_paths.simps Let_def) simp
      have ref: "path_entries ?h ?rc rel ((name, n) # ps) = (rel @ [name], is_directory n) # ?P"
        using 3 none by simp
      show ?thesis
        using "4.IH"(4) [OF go nb refl False ps] len "4.prems" unfolding code ref by (simp add: listed_def)
    next
      case True
      have "\<exists>found stop. collect_entries fs r (rel @ [name]) n (?es, truncated) = Inr (found, stop) \<and>
          bounded ?m (?es @ map listed ?T) found stop"
        using "4.IH"(2) [OF go nb refl True wf] True sb len "4.prems" by simp
      then obtain found stop where
        f: "collect_entries fs r (rel @ [name]) n (?es, truncated) = Inr (found, stop)"
        and b: "bounded ?m (?es @ map listed ?T) found stop" by blast
      have code: "collect_paths fs r rel ((name, n) # ps) (entries, truncated)
          = (if stop then Inr (found, stop) else collect_paths fs r rel ps (found, stop))"
        using go nb True f by (simp only: collect_paths.simps Let_def) simp
      have ref: "map listed (path_entries ?h ?rc rel ((name, n) # ps))
          = (listed (rel @ [name], is_directory n) # map listed ?T) @ map listed ?P"
        using 3 True by simp
      have shape: "?es @ map listed ?T = entries @ listed (rel @ [name], is_directory n) # map listed ?T"
        by (simp add: listed_def)
      show ?thesis
      proof (cases stop)
        case True
        with bounded_more [of ?m "?es @ map listed ?T" found "map listed ?P"] b
        show ?thesis unfolding code ref shape by auto
      next
        case False
        then have f: "collect_entries fs r (rel @ [name]) n (?es, truncated) = Inr (found, False)"
          using f by simp
        from False b have "found = ?es @ map listed ?T" "length found \<le> ?m"
          by (simp_all add: bounded_def)
        with "4.IH"(3) [OF go nb refl \<open>?rc \<and> is_directory n\<close> f refl _ ps] False
        show ?thesis unfolding code ref shape by simp
      qed
    qed
  qed
qed simp_all

text \<open>A file system whose directory at a path can be traversed.\<close>

definition traversable :: "file_system \<Rightarrow> string \<Rightarrow> bool \<Rightarrow> bool" where
  "traversable fs root hidden \<longleftrightarrow>
     path_is_dir fs root \<and> wf_tree (list_root fs root) \<and>
     sound_below fs hidden (locate fs root) (list_root fs root)"

lemma traversableD:
  assumes "traversable fs root hidden"
  shows "ensure_directory fs root = Inr ()" and "is_directory (list_root fs root)"
  using assms
  by (auto simp: traversable_def ensure_directory_def path_is_dir_def path_exists_def list_root_def
      unwrap_or_def split: option.splits)

text \<open>C23: Listing a directory whose visible part can be read succeeds, and returns the first
  \<open>max_entries\<close> of its visible entries: those below the root whose every name is visible, at any
  depth or directly in it, each once and in lexicographic order of the names on the way. A
  result that is not marked as truncated is complete, and one that is marked is full.\<close>

theorem listing_characterised:
  assumes "traversable fs (wl_root r) (wl_include_hidden r)"
  shows "\<exists>res paths. workspace_list fs r = Inr res \<and>
     sorted_wrt (<) (map fst paths) \<and>
     (\<forall>p d. (p, d) \<in> set paths \<longleftrightarrow>
        entry_at (wl_include_hidden r) (wl_recursive r) p (list_root fs (wl_root r)) d) \<and>
     wlr_entries res = take (list_bound r) (map listed paths) \<and>
     (wlr_truncated res \<or> length paths \<le> list_bound r) \<and>
     (\<not> wlr_truncated res \<or> list_bound r \<le> length paths)"
proof -
  let ?n = "list_root fs (wl_root r)"
  let ?paths = "tree_entries (wl_include_hidden r) (wl_recursive r) [] ?n"
  from traversableD [OF assms] have dir: "ensure_directory fs (wl_root r) = Inr ()" "is_directory ?n"
    by blast+
  from assms have wf: "wf_tree ?n" by (simp add: traversable_def)
  from collect_bounded(1) [OF wf dir(2), of fs r "[]" "([], False)"] assms obtain found stop where
    found: "collect_entries fs r [] ?n ([], False) = Inr (found, stop)"
    and b: "bounded (list_bound r) (map listed ?paths) found stop"
    by (auto simp: traversable_def)
  let ?res = "\<lparr>wlr_root = wl_root r, wlr_entries = found, wlr_truncated = stop\<rparr>"
  have "workspace_list fs r = Inr ?res" by (simp add: workspace_list_def dir found)
  moreover have "sorted_wrt (<) (map fst ?paths)" by (rule sorted_entries(1) [OF wf])
  moreover have "(p, d) \<in> set ?paths \<longleftrightarrow> entry_at (wl_include_hidden r) (wl_recursive r) p ?n d" for p d
    by (simp add: set_entries(1) [OF wf] entries_of_def)
  moreover have "wlr_entries ?res = take (list_bound r) (map listed ?paths)"
    and "wlr_truncated ?res \<or> length ?paths \<le> list_bound r"
    and "\<not> wlr_truncated ?res \<or> list_bound r \<le> length ?paths"
    using b by (auto simp: bounded_def split: if_splits)
  ultimately show ?thesis by blast
qed

section \<open>Searching against the reference\<close>

definition search_bound :: "workspace_search_request \<Rightarrow> nat" where
  "search_bound r = unwrap_or usize_max (ws_max_results r)"

definition line_hits :: "workspace_search_request \<Rightarrow> string \<Rightarrow> nat \<Rightarrow> string list \<Rightarrow> workspace_search_match list" where
  "line_hits r file start lines =
     map (\<lambda>(i, line). \<lparr>wm_path = file, wm_line_number = i + 1, wm_line = line\<rparr>)
       (filter (\<lambda>(i, line). line_matches r line) (enumerate start lines))"

definition file_hits :: "file_system \<Rightarrow> workspace_search_request \<Rightarrow> string \<Rightarrow> workspace_search_match list" where
  "file_hits fs r file =
     (case read_to_string fs (join_path (ws_root r) file) of
        None \<Rightarrow> [] | Some content \<Rightarrow> line_hits r file 0 (lines_of content))"

definition visible_files :: "bool \<Rightarrow> fs_node \<Rightarrow> string list" where
  "visible_files hidden n =
     map (\<lambda>e. relative_display (fst e)) (filter (\<lambda>e. \<not> snd e) (tree_entries hidden True [] n))"

lemma line_hits_simps [simp]:
  "line_hits r file i [] = []"
  "line_hits r file i (line # lines) =
     (if line_matches r line
      then \<lparr>wm_path = file, wm_line_number = i + 1, wm_line = line\<rparr> # line_hits r file (Suc i) lines
      else line_hits r file (Suc i) lines)"
  by (simp_all add: line_hits_def)

lemma search_lines_bounded:
  "length ms < search_bound r \<Longrightarrow>
   search_lines r file i lines (ms, tr) =
     (take (search_bound r) (ms @ line_hits r file i lines),
      tr \<or> search_bound r \<le> length (ms @ line_hits r file i lines))"
proof (induction lines arbitrary: i ms)
  case Nil
  then show ?case by simp
next
  case (Cons line lines)
  show ?case
  proof (cases "line_matches r line")
    case False
    with Cons show ?thesis by simp
  next
    case True
    let ?ms = "ms @ [\<lparr>wm_path = file, wm_line_number = i + 1, wm_line = line\<rparr>]"
    show ?thesis
    proof (cases "search_bound r \<le> length ?ms")
      case True
      with Cons.prems have "search_bound r = length ?ms" by simp
      with \<open>line_matches r line\<close> show ?thesis by (simp add: search_bound_def [symmetric] Let_def)
    next
      case False
      with \<open>line_matches r line\<close> Cons.IH [of ?ms "Suc i"] show ?thesis
        by (simp add: search_bound_def [symmetric] Let_def)
    qed
  qed
qed

lemma search_files_bounded:
  "length ms \<le> search_bound r \<Longrightarrow>
   search_files fs r files (ms, tr) =
     (take (search_bound r) (ms @ concat (map (file_hits fs r) files)),
      tr \<or> files \<noteq> [] \<and> search_bound r \<le> length (ms @ concat (map (file_hits fs r) files)))"
proof (induction files arbitrary: ms tr)
  case Nil
  then show ?case by simp
next
  case (Cons f files)
  show ?case
  proof (cases "search_bound r \<le> length ms")
    case True
    with Cons.prems show ?thesis by (simp add: search_bound_def [symmetric])
  next
    case False
    then have lt: "length ms < search_bound r" by simp
    show ?thesis
    proof (cases "read_to_string fs (join_path (ws_root r) f)" )
      case None
      with False Cons.IH [of ms tr] show ?thesis
        by (cases files) (simp_all add: search_bound_def [symmetric] file_hits_def)
    next
      case (Some content)
      let ?hits = "line_hits r f 0 (lines_of content)"
      have hits: "file_hits fs r f = ?hits" by (simp add: file_hits_def Some)
      let ?m = "search_bound r"
      have step: "search_files fs r (f # files) (ms, tr)
          = search_files fs r files (take ?m (ms @ ?hits), tr \<or> ?m \<le> length (ms @ ?hits))"
        using False Some search_lines_bounded [OF lt, of f 0 "lines_of content" tr]
        by (simp add: search_bound_def [symmetric])
      have "length (take ?m (ms @ ?hits)) \<le> ?m" by simp
      from Cons.IH [OF this] show ?thesis
        unfolding step using lt by (cases "?m \<le> length (ms @ ?hits)") (auto simp: hits)
    qed
  qed
qed

lemma collect_files_ref:
  "wf_tree n \<Longrightarrow> is_directory n \<Longrightarrow>
   sound_below fs (ws_include_hidden r) (locate fs (ws_root r) @ rel) n \<Longrightarrow>
   collect_files fs r rel n files =
     Inr (files @ map (\<lambda>e. relative_display (fst e))
       (filter (\<lambda>e. \<not> snd e) (tree_entries (ws_include_hidden r) True rel n)))"
  "\<forall>(c, m) \<in> set ps. wf_tree m \<and> (ws_include_hidden r \<or> \<not> is_hidden c \<longrightarrow>
     sound_below fs (ws_include_hidden r) (locate fs (ws_root r) @ rel @ [c]) m) \<Longrightarrow>
   collect_file_paths fs r rel ps files =
     Inr (files @ map (\<lambda>e. relative_display (fst e))
       (filter (\<lambda>e. \<not> snd e) (path_entries (ws_include_hidden r) True rel ps)))"
proof (induction fs r rel n files and fs r rel ps files rule: collect_files_collect_file_paths.induct)
  case (1 fs r rel ch files)
  have "sound_below fs (ws_include_hidden r) (locate fs (ws_root r) @ rel @ [c]) m"
    if "(c, m) \<in> set ch" "ws_include_hidden r \<or> \<not> is_hidden c" for c m
  proof -
    from that(1) "1.prems"(1) have "map_of ch c = Some m" by simp
    from sound_below_child [OF "1.prems"(3) this that(2)] show ?thesis by simp
  qed
  with "1.prems"(1) have "\<forall>(c, m) \<in> set (sort_by (le_on fst) ch). wf_tree m \<and>
      (ws_include_hidden r \<or> \<not> is_hidden c \<longrightarrow>
       sound_below fs (ws_include_hidden r) (locate fs (ws_root r) @ rel @ [c]) m)" by auto
  with "1.IH" "1.prems" sound_below_here [OF "1.prems"(3)] show ?case by simp
next
  case (4 fs r rel name n ps files)
  have ps: "\<forall>(c, m) \<in> set ps. wf_tree m \<and> (ws_include_hidden r \<or> \<not> is_hidden c \<longrightarrow>
      sound_below fs (ws_include_hidden r) (locate fs (ws_root r) @ rel @ [c]) m)"
    using "4.prems"(1) by simp
  show ?case
  proof (cases "ws_include_hidden r \<or> \<not> is_hidden name")
    case False
    with "4.IH"(1) ps show ?thesis by simp
  next
    case True
    then have go: "\<not> (\<not> ws_include_hidden r \<and> is_hidden name)" by simp
    from "4.prems"(1) True have sb: "sound_below fs (ws_include_hidden r) (locate fs (ws_root r) @ rel @ [name]) n"
      and wf: "wf_tree n" by auto
    from sound_below_here [OF sb] have nb: "n \<noteq> Broken" by simp
    show ?thesis
    proof (cases "is_directory n")
      case False
      then have "tree_entries (ws_include_hidden r) True (rel @ [name]) n = []" by (cases n) simp_all
      with go nb False "4.IH"(4) [OF go nb False ps] show ?thesis by auto
    next
      case dir: True
      have inner: "collect_files fs r (rel @ [name]) n files =
          Inr (files @ map (\<lambda>e. relative_display (fst e))
            (filter (\<lambda>e. \<not> snd e) (tree_entries (ws_include_hidden r) True (rel @ [name]) n)))"
        using "4.IH"(2) [OF go nb dir wf dir] sb by simp
      from "4.IH"(3) [OF go nb dir inner ps] inner go nb dir show ?thesis by auto
    qed
  qed
qed simp_all

text \<open>Searching a directory whose visible part can be read succeeds, and returns the first
  \<open>max_results\<close> of the matching lines of its visible files, file by file in the order of a listing and
  line by line, with their numbers from one. Files that cannot be read as text are passed over. The
  result is marked as truncated exactly when there is a file to search and the matches reach the
  bound, also when they reach it exactly.\<close>

theorem search_characterised:
  assumes "traversable fs (ws_root r) (ws_include_hidden r)"
  defines "files \<equiv> visible_files (ws_include_hidden r) (list_root fs (ws_root r))"
  defines "hits \<equiv> concat (map (file_hits fs r) files)"
  shows "workspace_search fs r = Inr \<lparr>wsr_root = ws_root r, wsr_pattern = ws_pattern r,
     wsr_matches = take (search_bound r) hits,
     wsr_truncated = (files \<noteq> [] \<and> search_bound r \<le> length hits)\<rparr>"
proof -
  let ?n = "list_root fs (ws_root r)"
  from traversableD [OF assms(1)] have dir: "ensure_directory fs (ws_root r) = Inr ()" "is_directory ?n"
    by blast+
  have "collect_files fs r [] ?n [] = Inr files"
    using collect_files_ref(1) [of ?n fs r "[]" "[]"] assms(1) dir
    by (simp add: traversable_def files_def visible_files_def)
  then show ?thesis
    using search_files_bounded [of "[]" r fs files False]
    by (simp add: workspace_search_def dir hits_def)
qed

section \<open>Reading\<close>

lemma ensure_file_iff:
  "ensure_file fs p = Inr u \<longleftrightarrow> (\<exists>n. path_node fs p = Some n \<and> is_regular n)"
  by (auto simp: ensure_file_def path_exists_def path_is_file_def split: option.splits)

lemma text_is_file:
  "read_to_string fs p = Some t \<Longrightarrow> ensure_file fs p = Inr ()"
  by (auto simp: ensure_file_def path_exists_def path_is_file_def path_node_def read_to_string_def
      text_at_def split: option.splits fs_node.splits if_splits)

lemma workspace_read_total: "workspace_read fs r \<noteq> Inr None"
  by (auto simp: workspace_read_def slice_def Let_def split: sum.splits option.splits)

text \<open>C24: Reading a range of lines never slices out of bounds, whatever range is asked for: the two
  ends may be zero, in the wrong order or past the end of the file. When a text is read, the content
  is the lines from the first to the last one asked for, joined by newlines, as far as they exist;
  the range reported starts at one or later, and does not end past the file.\<close>

theorem read_stays_in_bounds:
  assumes "read_to_string fs (wr_path r) = Some text"
  defines "lines \<equiv> lines_of text"
  shows "\<exists>res. workspace_read fs r = Inr (Some res) \<and>
     1 \<le> wrr_start_line res \<and> wrr_end_line res \<le> wrr_total_lines res \<and>
     wrr_total_lines res = max (length lines) 1 \<and>
     wrr_content res = join [CHR 0x0A]
       (take (Suc (wrr_end_line res) - wrr_start_line res) (drop (wrr_start_line res - 1) lines)) \<and>
     wrr_start_line res = max (unwrap_or 1 (wr_start_line r)) 1 \<and>
     wrr_end_line res =
       min (max (unwrap_or (length lines) (wr_end_line r)) (wrr_start_line res)) (max (length lines) 1)"
proof -
  define first where "first = max (unwrap_or 1 (wr_start_line r)) 1"
  define n where "n = length lines"
  define final where "final = max (unwrap_or (max n 1) (wr_end_line r)) first"
  define res where "res = \<lparr>wrr_path = wr_path r,
    wrr_content = join [CHR 0x0A] (take (min final n - min (first - 1) n) (drop (min (first - 1) n) lines)),
    wrr_start_line = first, wrr_end_line = min final (max n 1), wrr_total_lines = max n 1\<rparr>"
  have first: "1 \<le> first" and final: "first \<le> final" by (simp_all add: first_def final_def)
  have "slice (min (first - 1) n) (min final n) lines
      = Some (take (min final n - min (first - 1) n) (drop (min (first - 1) n) lines))"
    using final by (simp add: slice_def n_def)
  then have run: "workspace_read fs r = Inr (Some res)"
    using assms(1) text_is_file [OF assms(1)]
    by (cases "lines = []")
      (simp_all add: workspace_read_def Let_def res_def first_def n_def final_def lines_def)
  have content: "take (min final n - min (first - 1) n) (drop (min (first - 1) n) lines)
      = take (Suc (min final (max n 1)) - first) (drop (first - 1) lines)"
  proof (cases "n = 0 \<or> n < first - 1")
    case True
    then show ?thesis
    proof
      assume "n = 0"
      then have "lines = []" by (simp add: n_def)
      then show ?thesis by simp
    next
      assume "n < first - 1"
      then have "drop (first - 1) lines = []" "min (first - 1) n = n" "min final n = n"
        using final by (simp_all add: n_def)
      then show ?thesis by simp
    qed
  next
    case False
    then have "max n 1 = n" "min (first - 1) n = first - 1" by auto
    moreover from first have "Suc (min final n) - first = min final n - (first - 1)" by linarith
    ultimately show ?thesis by (simp only:)
  qed
  have "min final (max n 1) = min (max (unwrap_or n (wr_end_line r)) first) (max n 1)"
    using first by (cases "wr_end_line r") (auto simp: final_def unwrap_or_def)
  moreover have fields: "wrr_start_line res = first" "wrr_end_line res = min final (max n 1)"
    "wrr_total_lines res = max n 1"
    "wrr_content res = join [CHR 0x0A]
       (take (min final n - min (first - 1) n) (drop (min (first - 1) n) lines))"
    by (simp_all add: res_def)
  ultimately show ?thesis
    unfolding n_def [symmetric] first_def [symmetric]
    by (intro exI [of _ res] conjI) (use run first content in \<open>simp_all only: fields min.cobounded2\<close>)
qed

section \<open>Writing and patching\<close>

lemma create_parents_texts:
  "create_parents p fs = (res, fs') \<Longrightarrow> text_at fs' l = text_at fs l"
  by (auto simp: create_parents_def Let_def text_at_create_dirs split: if_splits prod.splits)

lemma create_parents_fields:
  "create_parents p fs = (res, fs') \<Longrightarrow> fs_cwd fs' = fs_cwd fs \<and> fs_readable fs' = fs_readable fs"
  by (auto simp: create_parents_def Let_def fs_fields_same(1) split: if_splits prod.splits)

lemma write_file_Inr:
  "write_file code p t fs = (Inr u, fs') \<longleftrightarrow> p \<noteq> [] \<and> write_at (locate fs p) t fs = Some fs'"
  by (auto simp: write_file_def split: option.splits if_splits)

lemma write_file_Inl: "write_file code p t fs = (Inl e, fs') \<Longrightarrow> fs' = fs"
  by (auto simp: write_file_def split: option.splits if_splits)

lemma write_file_texts:
  "write_file code p t fs = (Inr u, fs') \<Longrightarrow>
     text_at fs' l = (if l = locate fs p then Some t else text_at fs l)"
  by (auto simp: write_file_Inr files.text_store)


lemma length_replace_once:
  "contains s pat \<Longrightarrow> length (replace_once pat to s) + length pat = length s + length to"
proof (induction pat to s rule: replace_once.induct)
  case (1 pat to)
  then show ?case by (cases pat) auto
next
  case (2 pat to c cs)
  show ?case
  proof (cases "starts_with (c # cs) pat")
    case True
    then obtain rest where "c # cs = pat @ rest" by (auto simp: starts_with_iff)
    then have "length (drop (length pat) (c # cs)) + length pat = length (c # cs)" by simp
    with True show ?thesis by simp
  next
    case False
    with 2 show ?thesis by simp
  qed
qed

lemma length_replace_all:
  "length (replace_all pat to s) + match_count pat s * length pat = length s + match_count pat s * length to"
proof (cases "pat = []")
  case True
  have "length (concat (map (\<lambda>c. c # to) s)) = length s + length s * length to"
    by (induction s) simp_all
  with True show ?thesis by (simp add: replace_all_def match_count_def)
next
  case False
  then show ?thesis using length_replace_from by (simp add: replace_all_def match_count_def)
qed

lemma apply_patch_run:
  "workspace_apply_patch r fs =
     (case ensure_file fs (wp_path r) of
        Inl e \<Rightarrow> (Inl e, fs)
      | Inr _ \<Rightarrow>
     (case read_to_string fs (wp_path r) of
        None \<Rightarrow> (Inl (write_failure ''workspace_patch_read_failed'' ''failed to read '' (wp_path r) fs), fs)
      | Some before \<Rightarrow>
     (if match_count (wp_search r) before = 0
      then (Inl (NotFound ''workspace_patch_search_not_found''
                  (''patch target was not found in '' @ wp_path r)), fs)
      else
     (let after = (if wp_replace_all r then replace_all (wp_search r) (wp_replace r) before
                   else replace_once (wp_search r) (wp_replace r) before)
      in case write_file ''workspace_patch_write_failed'' (wp_path r) after fs of
           (Inl e, fs') \<Rightarrow> (Inl e, fs')
         | (Inr _, fs') \<Rightarrow>
             (Inr \<lparr>pe_result = \<lparr>wpr_path = wp_path r,
                 wpr_replacements = (if wp_replace_all r then match_count (wp_search r) before else 1),
                 wpr_changed = (before \<noteq> after)\<rparr>,
               pe_before = before, pe_after = after\<rparr>, fs')))))"
  by (simp add: workspace_apply_patch_def run_simps ok_or_def guard_def Let_def split_beta
      split: sum.split option.split)


section \<open>Concrete runs\<close>

lemma sound_below_simps:
  "sound_below fs hidden l (TextFile t)" "sound_below fs hidden l BinaryFile"
  "fs_readable fs l \<Longrightarrow>
   \<forall>(c, n) \<in> set ch. (hidden \<or> \<not> is_hidden c) \<longrightarrow> sound_below fs hidden (l @ [c]) n \<Longrightarrow>
   sound_below fs hidden l (Directory ch)"
proof -
  have leaf: "node_at p n = Some m \<Longrightarrow> \<not> is_directory n \<Longrightarrow> m = n" for p n m
    by (cases p; cases n) auto
  show "sound_below fs hidden l (TextFile t)" "sound_below fs hidden l BinaryFile"
    by (auto simp: sound_below_def dest: leaf)
  assume r: "fs_readable fs l"
    and sub: "\<forall>(c, n) \<in> set ch. (hidden \<or> \<not> is_hidden c) \<longrightarrow> sound_below fs hidden (l @ [c]) n"
  show "sound_below fs hidden l (Directory ch)"
    unfolding sound_below_def
  proof (intro allI impI)
    fix p m
    assume p: "node_at p (Directory ch) = Some m" "visible hidden p"
    show "m \<noteq> Broken \<and> (is_directory m \<longrightarrow> fs_readable fs (l @ p))"
    proof (cases p)
      case Nil
      with p r show ?thesis by auto
    next
      case (Cons c q)
      with p obtain n where n: "map_of ch c = Some n" "node_at q n = Some m" and v: "hidden \<or> \<not> is_hidden c"
        by (auto simp: bind_eq_Some_conv)
      with sub have "sound_below fs hidden (l @ [c]) n" by (blast dest: map_of_SomeD)
      with n(2) p(2) Cons show ?thesis by (auto simp: sound_below_def)
    qed
  qed
qed

definition sample_tree :: fs_node where
  "sample_tree = Directory [(''w'', Directory
     [(''b'', TextFile (''one'' @ [CHR 0x0A] @ ''two'')), (''.git'', Broken),
      (''a'', Directory [(''c'', TextFile ''one'')])])]"

definition sample_fs :: file_system where
  "sample_fs = \<lparr>fs_root = sample_tree, fs_cwd = [], fs_readable = (\<lambda>_. True),
     fs_writable = (\<lambda>_. True), fs_error = (\<lambda>_. ''denied'')\<rparr>"

definition sample_listing :: workspace_list_request where
  "sample_listing = \<lparr>wl_root = ''/w'', wl_recursive = True, wl_include_hidden = False,
     wl_max_entries = Some 2\<rparr>"

definition sample_search :: workspace_search_request where
  "sample_search = \<lparr>ws_root = ''/w'', ws_pattern = ''ONE'', ws_case_sensitive = False,
     ws_include_hidden = False, ws_max_results = None\<rparr>"

lemma sample_root:
  "locate sample_fs ''/w'' = [''w'']"
  "list_root sample_fs ''/w'' = Directory [(''b'', TextFile (''one'' @ [CHR 0x0A] @ ''two'')),
     (''.git'', Broken), (''a'', Directory [(''c'', TextFile ''one'')])]"
  "path_is_dir sample_fs ''/w''"
  by code_simp+

lemma sample_readable: "fs_readable sample_fs l"
  by (simp add: sample_fs_def)

lemma sample_traversable: "traversable sample_fs ''/w'' False"
  unfolding traversable_def sample_root(2)
  by (simp add: sample_root sound_below_simps sample_readable is_hidden_def)

lemma listing_characterised_witness:
  "traversable sample_fs (wl_root sample_listing) (wl_include_hidden sample_listing) \<and>
   (\<exists>res paths. workspace_list sample_fs sample_listing = Inr res \<and>
      wlr_entries res = take 2 (map listed paths) \<and> sorted_wrt (<) (map fst paths) \<and>
      ([''a'', ''c''], False) \<in> set paths)"
proof -
  have t: "traversable sample_fs (wl_root sample_listing) (wl_include_hidden sample_listing)"
    by (simp add: sample_listing_def sample_traversable)
  have "entry_at False True [''a'', ''c''] (list_root sample_fs ''/w'') False"
    by (simp add: sample_root is_hidden_def)
  moreover have "list_bound sample_listing = 2"
    by (simp add: list_bound_def sample_listing_def unwrap_or_def)
  moreover have "wl_root sample_listing = ''/w''" "wl_include_hidden sample_listing = False"
    "wl_recursive sample_listing = True" by (simp_all add: sample_listing_def)
  ultimately show ?thesis using t listing_characterised [OF t] by auto
qed

lemma search_characterised_witness:
  "traversable sample_fs (ws_root sample_search) (ws_include_hidden sample_search) \<and>
   (\<exists>hits. workspace_search sample_fs sample_search =
      Inr \<lparr>wsr_root = ''/w'', wsr_pattern = ''ONE'', wsr_matches = hits, wsr_truncated = False\<rparr> \<and>
      map wm_path hits = [''a/c'', ''b''])"
proof -
  have t: "traversable sample_fs (ws_root sample_search) (ws_include_hidden sample_search)"
    by (simp add: sample_search_def sample_traversable)
  have "map wm_path (concat (map (file_hits sample_fs sample_search)
      (visible_files (ws_include_hidden sample_search) (list_root sample_fs (ws_root sample_search)))))
    = [''a/c'', ''b'']" (is "map wm_path ?hits = _")
    by code_simp
  moreover from this have "length ?hits = 2" by (metis length_map length_Cons list.size(3) numeral_2_eq_2)
  moreover have "search_bound sample_search = usize_max" "2 < usize_max"
    "ws_root sample_search = ''/w''" "ws_pattern sample_search = ''ONE''"
    by (simp_all add: search_bound_def sample_search_def unwrap_or_def usize_max_def)
  ultimately show ?thesis using t search_characterised [OF t] by auto
qed

definition sample_read :: workspace_read_request where
  "sample_read = \<lparr>wr_path = ''w/b'', wr_start_line = Some 2, wr_end_line = Some 9\<rparr>"

lemma read_stays_in_bounds_witness:
  "read_to_string sample_fs (wr_path sample_read) = Some (''one'' @ [CHR 0x0A] @ ''two'') \<and>
   (\<exists>res. workspace_read sample_fs sample_read = Inr (Some res) \<and> wrr_start_line res = 2 \<and>
      wrr_end_line res = 2 \<and> wrr_content res = ''two'')"
proof -
  have t: "read_to_string sample_fs (wr_path sample_read) = Some (''one'' @ [CHR 0x0A] @ ''two'')"
    by code_simp
  have "lines_of (''one'' @ [CHR 0x0A] @ ''two'') = [''one'', ''two'']" by code_simp
  with t read_stays_in_bounds [OF t] show ?thesis
    by (auto simp: sample_read_def unwrap_or_def)
qed

section \<open>Where the tools surprise\<close>

text \<open>One link that leads nowhere makes listing its directory fail, whatever else is in it.\<close>

lemma broken_link_fails_listing:
  "workspace_list (sample_fs\<lparr>fs_root := Directory [(''w'', Directory [(''a'', TextFile []), (''z'', Broken)])]\<rparr>)
     (sample_listing\<lparr>wl_max_entries := None\<rparr>)
   = Inl (InvalidState ''workspace_list_failed'' ''failed to stat /w/z: denied'')"
  by (simp add: workspace_list_def sample_fs_def sample_listing_def ensure_directory_def path_exists_def
      path_is_dir_def path_node_def locate_def path_components_def list_root_def unwrap_or_def le_on_def
      is_hidden_def usize_max_def stat_error_def display_below_def push_path_def less_eq_char_def less_eq_list_code)

text \<open>Emptying a file that holds no UTF-8 text changes it, and is reported as no change.\<close>

lemma emptied_binary_reported_unchanged:
  "case workspace_write_text \<lparr>ww_path = ''/w'', ww_content = []\<rparr>
      (sample_fs\<lparr>fs_root := Directory [(''w'', BinaryFile)]\<rparr>) of
     (Inr x, fs') \<Rightarrow> fs_root fs' = Directory [(''w'', TextFile [])] \<and> \<not> wwr_changed (we_result x)
   | _ \<Rightarrow> False"
  by code_simp

end
