(* ===== verification/Executor.thy ===== *)
theory Executor
  imports Shell_Tasks Workspace_Laws
begin

text \<open>
  The dispatch of tool calls on the local node (\<open>executor/mod.rs\<close>): which tool runs, the summary and
  the artifacts of its execution, and the router that refuses every node but the local one. The
  state is the shell executor and the file system; what a shell command does to the files is up to
  the operating system and not represented. The texts \<open>serde_json\<close> produces are fields of a
  \<open>serializer\<close>.
\<close>

section \<open>Artifacts\<close>

record pending_artifact =
  pa_kind :: artifact_kind
  pa_summary :: string
  pa_body :: string

record executor_output =
  eo_stream :: executor_stream
  eo_chunk :: string

record executed_tool =
  et_tool_name :: tool_name
  et_summary :: string
  et_result :: tool_result
  et_artifacts :: "pending_artifact list"
  et_output_chunks :: "executor_output list"

record tool_trace_artifact =
  ta_tool_name :: string
  ta_sandbox :: "shell_sandbox_summary option"
  ta_invocation :: tool_invocation
  ta_summary :: string
  ta_result :: tool_result

record serializer =
  sz_snapshot :: "tool_result \<Rightarrow> string"
  sz_trace :: "tool_trace_artifact \<Rightarrow> string"
  sz_exec_output :: "shell_exec_result \<Rightarrow> string"
  sz_wait_output :: "shell_wait_result \<Rightarrow> string"

definition show_int :: "int \<Rightarrow> string" where
  "show_int i = (if i < 0 then CHR ''-'' # show_dec (nat (- i)) else show_dec (nat i))"

definition sandbox_words :: "shell_sandbox_summary \<Rightarrow> string" where
  "sandbox_words x = sandbox_mode_as_str (sum_mode x) @ '' via '' @ backend_kind_as_str (sum_backend x)"

definition render_diff :: "string \<Rightarrow> string \<Rightarrow> string \<Rightarrow> string" where
  "render_diff path before after =
     ''--- '' @ path @ [CHR 0x0A] @ ''+++ '' @ path @ [CHR 0x0A] @ ''@@'' @ [CHR 0x0A]
     @ concat (map (\<lambda>line. CHR ''-'' # line @ [CHR 0x0A]) (lines_of before))
     @ concat (map (\<lambda>line. CHR ''+'' # line @ [CHR 0x0A]) (lines_of after))"

definition diff_artifact :: "string \<Rightarrow> string \<Rightarrow> string \<Rightarrow> pending_artifact" where
  "diff_artifact path before after =
     \<lparr>pa_kind = Diff, pa_summary = ''Diff for '' @ path, pa_body = render_diff path before after\<rparr>"

definition command_output_artifact :: "serializer \<Rightarrow> shell_exec_result \<Rightarrow> pending_artifact" where
  "command_output_artifact z r =
     \<lparr>pa_kind = CommandOutput,
      pa_summary = ''Command output for '' @ ser_command r @ '' under '' @ sandbox_words (ser_sandbox r),
      pa_body = sz_exec_output z r\<rparr>"

definition command_output_artifact_from_wait :: "serializer \<Rightarrow> shell_wait_result \<Rightarrow> pending_artifact" where
  "command_output_artifact_from_wait z r =
     \<lparr>pa_kind = CommandOutput,
      pa_summary = ''Command output for '' @ swr_task_id r @ '' under '' @ sandbox_words (swr_sandbox r),
      pa_body = sz_wait_output z r\<rparr>"

fun tool_result_sandbox_summary :: "tool_result \<Rightarrow> shell_sandbox_summary option" where
  "tool_result_sandbox_summary (ExecResult r) = Some (ser_sandbox r)"
| "tool_result_sandbox_summary (SpawnResult r) = Some (spr_sandbox r)"
| "tool_result_sandbox_summary (WaitResult r) = Some (swr_sandbox r)"
| "tool_result_sandbox_summary (ReadOutputResult r) = Some (sor_sandbox r)"
| "tool_result_sandbox_summary (TerminateResult r) = Some (str_sandbox r)"
| "tool_result_sandbox_summary _ = None"

definition executed_tool_of ::
  "serializer \<Rightarrow> tool_name \<Rightarrow> string \<Rightarrow> tool_result \<Rightarrow> tool_invocation \<Rightarrow> pending_artifact option
   \<Rightarrow> executor_output list \<Rightarrow> executed_tool" where
  "executed_tool_of z name summary result invocation extra chunks =
     \<lparr>et_tool_name = name, et_summary = summary, et_result = result,
      et_artifacts =
        [\<lparr>pa_kind = ToolTrace, pa_summary = ''Tool trace for '' @ tool_name_as_str name,
          pa_body = sz_trace z \<lparr>ta_tool_name = tool_name_as_str name,
            ta_sandbox = tool_result_sandbox_summary result, ta_invocation = invocation,
            ta_summary = summary, ta_result = result\<rparr>\<rparr>,
         \<lparr>pa_kind = Snapshot, pa_summary = summary, pa_body = sz_snapshot z result\<rparr>]
        @ (case extra of None \<Rightarrow> [] | Some a \<Rightarrow> [a]),
      et_output_chunks = chunks\<rparr>"

section \<open>Dispatch\<close>

record node_executor =
  nx_shell :: shell_executor
  nx_files :: file_system

type_synonym 'a node_run = "(runtime_error, node_executor, 'a) run"

definition on_shell :: "'a shell_run \<Rightarrow> 'a node_run" where
  "on_shell m x = (case m (nx_shell x) of (r, s) \<Rightarrow> (r, x\<lparr>nx_shell := s\<rparr>))"

definition on_files :: "'a fs_run \<Rightarrow> 'a node_run" where
  "on_files m x = (case m (nx_files x) of (r, fs) \<Rightarrow> (r, x\<lparr>nx_files := fs\<rparr>))"

definition looking :: "(file_system \<Rightarrow> runtime_error + 'a) \<Rightarrow> 'a node_run" where
  "looking f x = (f (nx_files x), x)"

definition normalize_chunks :: "shell_output_chunk list \<Rightarrow> executor_output list" where
  "normalize_chunks = map (\<lambda>c. \<lparr>eo_stream = oc_stream c, eo_chunk = oc_chunk c\<rparr>)"

text \<open>\<open>execute_tool\<close>. Reading never panics (\<open>workspace_read_total\<close>), so its result is unwrapped here.\<close>

definition execute_tool :: "host_env \<Rightarrow> serializer \<Rightarrow> tool_call_request \<Rightarrow> executed_tool node_run" where
  "execute_tool h z request =
     (let inv = tq_invocation request in
      case inv of
        InvokeList input \<Rightarrow>
          bindR (looking (\<lambda>fs. workspace_list fs input)) (\<lambda>result.
          ret (executed_tool_of z WorkspaceList
                 (''Listed '' @ show_dec (length (wlr_entries result)) @ '' workspace entries under ''
                    @ wlr_root result)
                 (ListResult result) inv None []))
      | InvokeSearch input \<Rightarrow>
          bindR (looking (\<lambda>fs. workspace_search fs input)) (\<lambda>result.
          ret (executed_tool_of z WorkspaceSearch
                 (''Found '' @ show_dec (length (wsr_matches result)) @ '' matches for ''
                    @ ws_pattern input @ '' under '' @ wsr_root result)
                 (SearchResult result) inv None []))
      | InvokeRead input \<Rightarrow>
          bindR (looking (\<lambda>fs. map_ok the (workspace_read fs input))) (\<lambda>result.
          ret (executed_tool_of z WorkspaceRead
                 (''Read lines '' @ show_dec (wrr_start_line result) @ ''-''
                    @ show_dec (wrr_end_line result) @ '' from '' @ wrr_path result)
                 (ReadResult result) inv None []))
      | InvokeWriteText input \<Rightarrow>
          bindR (on_files (workspace_write_text input)) (\<lambda>write.
          ret (executed_tool_of z WorkspaceWriteText
                 (if wwr_changed (we_result write)
                  then ''Wrote '' @ show_dec (wwr_byte_length (we_result write)) @ '' bytes to ''
                         @ wwr_path (we_result write)
                  else ''Confirmed '' @ wwr_path (we_result write)
                         @ '' already matched the requested contents'')
                 (WriteTextResult (we_result write)) inv
                 (Some (diff_artifact (ww_path input) (we_before write) (we_after write))) []))
      | InvokeApplyPatch input \<Rightarrow>
          bindR (on_files (workspace_apply_patch input)) (\<lambda>patch.
          ret (executed_tool_of z WorkspaceApplyPatch
                 (''Patched '' @ show_dec (wpr_replacements (pe_result patch)) @ '' replacement(s) in ''
                    @ wpr_path (pe_result patch))
                 (ApplyPatchResult (pe_result patch)) inv
                 (Some (diff_artifact (wp_path input) (pe_before patch) (pe_after patch))) []))
      | InvokeExec input \<Rightarrow>
          bindR (on_shell (shell_exec h input)) (\<lambda>execution.
          ret (executed_tool_of z ShellExec
                 (''Command exited with code '' @ show_int (ser_exit_code (sh_result execution))
                    @ '' under '' @ sandbox_words (ser_sandbox (sh_result execution)) @ '': ''
                    @ ser_command (sh_result execution))
                 (ExecResult (sh_result execution)) inv
                 (Some (command_output_artifact z (sh_result execution)))
                 (normalize_chunks (sh_output_chunks execution))))
      | InvokeSpawn input \<Rightarrow>
          bindR (on_shell (shell_spawn h input)) (\<lambda>spawned.
          ret (executed_tool_of z ShellSpawn
                 (''Spawned background shell task '' @ spr_task_id spawned @ '' under ''
                    @ sandbox_words (spr_sandbox spawned))
                 (SpawnResult spawned) inv None []))
      | InvokeReadOutput input \<Rightarrow>
          bindR (on_shell (shell_read_output input)) (\<lambda>read.
          ret (executed_tool_of z ShellReadOutput
                 (''Read background shell output for '' @ sor_task_id (ro_result read) @ '' under ''
                    @ sandbox_words (sor_sandbox (ro_result read)))
                 (ReadOutputResult (ro_result read)) inv None
                 (normalize_chunks (ro_output_chunks read))))
      | InvokeWait input \<Rightarrow>
          bindR (on_shell (shell_wait input)) (\<lambda>waited.
          ret (executed_tool_of z ShellWait
                 (''Waited for background shell task '' @ swr_task_id (wa_result waited) @ '' under ''
                    @ sandbox_words (swr_sandbox (wa_result waited)))
                 (WaitResult (wa_result waited)) inv
                 (Some (command_output_artifact_from_wait z (wa_result waited)))
                 (normalize_chunks (wa_output_chunks waited))))
      | InvokeTerminate input \<Rightarrow>
          bindR (on_shell (shell_terminate input)) (\<lambda>terminated.
          ret (executed_tool_of z ShellTerminate
                 (''Terminated background shell task '' @ str_task_id terminated @ '' under ''
                    @ sandbox_words (str_sandbox terminated))
                 (TerminateResult terminated) inv None [])))"

section \<open>The router\<close>

record node_executed_tool =
  ne_node_id :: node_id
  ne_executed :: executed_tool

definition router_execute_tool ::
  "host_env \<Rightarrow> serializer \<Rightarrow> tool_call_request \<Rightarrow> node_executed_tool node_run" where
  "router_execute_tool h z request =
     (let node = unwrap_or ''local'' (tq_node_id request)
      in bindR (guard (Unsupported ''remote_node_not_ready''
                  ''remote node execution is not available yet'') (node = ''local'')) (\<lambda>_.
         bindR (execute_tool h z request) (\<lambda>executed.
         ret \<lparr>ne_node_id = node, ne_executed = executed\<rparr>)))"

definition router_default_shell_sandbox :: "host_env \<Rightarrow> node_executor \<Rightarrow> shell_sandbox_summary" where
  "router_default_shell_sandbox h x = default_sandbox_summary h (nx_shell x)"

definition router_set_default_shell_sandbox ::
  "host_env \<Rightarrow> shell_sandbox_request \<Rightarrow> shell_sandbox_summary node_run" where
  "router_set_default_shell_sandbox h r = on_shell (set_default_sandbox h r)"

section \<open>Facts\<close>

lemma on_shell_run:
  "on_shell m x = (fst (m (nx_shell x)), x\<lparr>nx_shell := snd (m (nx_shell x))\<rparr>)"
  by (simp add: on_shell_def split_beta)

lemma on_files_run:
  "on_files m x = (fst (m (nx_files x)), x\<lparr>nx_files := snd (m (nx_files x))\<rparr>)"
  by (simp add: on_files_def split_beta)

lemma looking_run: "looking f x = (f (nx_files x), x)"
  by (simp add: looking_def)

lemmas node_runs = on_shell_run on_files_run looking_run

lemma executed_tool_of_simps [simp]:
  "et_tool_name (executed_tool_of z name summary result invocation extra chunks) = name"
  "et_result (executed_tool_of z name summary result invocation extra chunks) = result"
  "et_summary (executed_tool_of z name summary result invocation extra chunks) = summary"
  "map pa_kind (et_artifacts (executed_tool_of z name summary result invocation extra chunks)) =
     [ToolTrace, Snapshot] @ (case extra of None \<Rightarrow> [] | Some a \<Rightarrow> [pa_kind a])"
  by (simp_all add: executed_tool_of_def split: option.split)

text \<open>The kind of the third artifact, when the tool leaves one.\<close>

fun extra_artifact_kind :: "tool_name \<Rightarrow> artifact_kind list" where
  "extra_artifact_kind WorkspaceWriteText = [Diff]"
| "extra_artifact_kind WorkspaceApplyPatch = [Diff]"
| "extra_artifact_kind ShellExec = [CommandOutput]"
| "extra_artifact_kind ShellWait = [CommandOutput]"
| "extra_artifact_kind _ = []"

lemma extra_kinds [simp]:
  "pa_kind (diff_artifact p b a) = Diff" "pa_kind (command_output_artifact z r) = CommandOutput"
  "pa_kind (command_output_artifact_from_wait z w) = CommandOutput"
  by (simp_all add: diff_artifact_def command_output_artifact_def command_output_artifact_from_wait_def)

text \<open>C34: The result of a tool call has the shape its invocation promises: the tool that ran is the
  one that was asked for, the result is of that tool, and it leaves a trace and a snapshot, with a
  diff for the tools that write and the command output for those that run a command to its end.\<close>

theorem tool_result_typed:
  "case fst (execute_tool h z request x) of
     Inr e \<Rightarrow> et_tool_name e = invocation_tool_name (tq_invocation request) \<and>
       result_tool_name (et_result e) = invocation_tool_name (tq_invocation request) \<and>
       map pa_kind (et_artifacts e) =
         [ToolTrace, Snapshot] @ extra_artifact_kind (invocation_tool_name (tq_invocation request))
   | Inl e \<Rightarrow> True"
  by (cases "tq_invocation request")
    (auto simp: execute_tool_def run_simps node_runs split: sum.split)

text \<open>What an invocation may write to, and the command it may launch.\<close>

fun written_path :: "tool_invocation \<Rightarrow> string option" where
  "written_path (InvokeWriteText r) = Some (ww_path r)"
| "written_path (InvokeApplyPatch r) = Some (wp_path r)"
| "written_path _ = None"

fun shell_request :: "tool_invocation \<Rightarrow> (string \<times> string option \<times> shell_sandbox_request option) option" where
  "shell_request (InvokeExec r) = Some (se_command r, se_working_dir r, se_sandbox r)"
| "shell_request (InvokeSpawn r) = Some (sp_command r, sp_working_dir r, sp_sandbox r)"
| "shell_request _ = None"

lemma write_text_frame:
  "l \<noteq> locate fs (ww_path r) \<Longrightarrow> text_at (snd (workspace_write_text r fs)) l = text_at fs l"
proof -
  assume l: "l \<noteq> locate fs (ww_path r)"
  obtain pr fs1 where p: "create_parents (ww_path r) fs = (pr, fs1)" by fastforce
  obtain wr fs2 where w: "write_file ''workspace_write_failed'' (ww_path r) (ww_content r) fs1 = (wr, fs2)"
    by fastforce
  have loc: "locate fs1 (ww_path r) = locate fs (ww_path r)"
    by (rule locate_cong) (simp add: create_parents_fields [OF p])
  have "text_at fs2 l = text_at fs1 l"
  proof (cases wr)
    case (Inl e)
    with w write_file_Inl show ?thesis by blast
  next
    case (Inr u)
    from write_file_texts [OF w [unfolded Inr]] l loc show ?thesis by simp
  qed
  with p w create_parents_texts [OF p] show ?thesis
    by (cases pr; cases wr) (simp_all add: workspace_write_text_def run_simps)
qed

lemma apply_patch_frame:
  "l \<noteq> locate fs (wp_path r) \<Longrightarrow> text_at (snd (workspace_apply_patch r fs)) l = text_at fs l"
  by (auto simp: apply_patch_run Let_def write_file_texts dest: write_file_Inl
      split: sum.split option.split prod.split)

lemma launched_quiet:
  "sx_launched (snd (shell_read_output ro s)) = sx_launched s"
  "sx_launched (snd (shell_wait rw s)) = sx_launched s"
  "sx_launched (snd (shell_terminate rt s)) = sx_launched s"
  by (auto simp: shell_read_output_def shell_wait_def shell_terminate_def run_simps
      find_task_run from_result_def Let_def split: option.split sum.split)

lemma launch_launched: "sx_launched (snd (launch code m c s)) = sx_launched s @ [c]"
  by (simp add: launch_def)

lemma shell_exec_launched:
  "sx_launched (snd (shell_exec h r s)) = sx_launched s @
     (case prepare_shell_command h (sx_sandbox s) (se_command r) (se_working_dir r) (se_sandbox r) of
        Inl e \<Rightarrow> [] | Inr p \<Rightarrow> [pr_command p])"
  by (simp add: shell_exec_def run_simps from_result_def Let_def launch_launched split: sum.split)

lemma shell_spawn_launched:
  "sx_launched (snd (shell_spawn h r s)) = sx_launched s @
     (case prepare_shell_command h (sx_sandbox s) (sp_command r) (sp_working_dir r) (sp_sandbox r) of
        Inl e \<Rightarrow> [] | Inr p \<Rightarrow> [pr_command p])"
  by (auto simp: shell_spawn_run Let_def launch_launched split: sum.split)

definition launches :: "host_env \<Rightarrow> tool_invocation \<Rightarrow> shell_executor \<Rightarrow> shell_command list" where
  "launches h invocation s =
     (case shell_request invocation of
        None \<Rightarrow> []
      | Some (command, dir, ov) \<Rightarrow>
          (case prepare_shell_command h (sx_sandbox s) command dir ov of
             Inl e \<Rightarrow> [] | Inr p \<Rightarrow> [pr_command p]))"

lemma execute_tool_effects:
  "sx_launched (nx_shell (snd (execute_tool h z request x))) =
     sx_launched (nx_shell x) @ launches h (tq_invocation request) (nx_shell x)"
  "written_path (tq_invocation request) = None \<Longrightarrow>
     nx_files (snd (execute_tool h z request x)) = nx_files x"
  "written_path (tq_invocation request) = Some p \<Longrightarrow> l \<noteq> locate (nx_files x) p \<Longrightarrow>
     text_at (nx_files (snd (execute_tool h z request x))) l = text_at (nx_files x) l"
    apply (cases "tq_invocation request";
       simp add: execute_tool_def run_simps node_runs launches_def launched_quiet shell_exec_launched
         shell_spawn_launched split: sum.split)
   apply (cases "tq_invocation request";
      simp add: execute_tool_def run_simps node_runs split: sum.split)
  apply (cases "tq_invocation request";
     simp add: execute_tool_def run_simps node_runs write_text_frame apply_patch_frame split: sum.split)
  done



text \<open>The mount a call names, its thread and its turn play no part in its execution: neither the
  permissions of the mount nor its root are consulted, and an absolute path reaches any file.\<close>

lemma mount_not_consulted:
  "router_execute_tool h z (request\<lparr>tq_workspace_mount_id := m, tq_thread_id := t, tq_turn_id := u\<rparr>)
     = router_execute_tool h z request"
  by (rule ext) (simp add: router_execute_tool_def execute_tool_def Let_def)

end
