(* ===== verification/Server_Events.thy ===== *)
theory Server_Events
  imports Ids Tools
begin

text \<open>
  The events the server sends (\<open>liz-protocol/src/events.rs\<close>) and the bus that carries them to the
  subscribers (\<open>events/mod.rs\<close>). The bus keeps the sending ends of unbounded channels; a channel is
  represented by everything that was sent on it, how much of it was received, and whether its
  receiving end is still there. Sending fails exactly when it is gone.
\<close>

section \<open>Payloads\<close>

record assistant_chunk_event =
  ace_chunk :: string
  ace_stream_id :: "string option"
  ace_is_final :: bool

record tool_call_started_event =
  tse_call_id :: string
  tse_tool_name :: string
  tse_summary :: string

record tool_call_updated_event =
  tue_call_id :: string
  tue_tool_name :: string
  tue_delta_summary :: string
  tue_preview :: "string option"

record tool_call_committed_event =
  tme_call_id :: string
  tme_tool_name :: string
  tme_arguments_summary :: string
  tme_risk_hint :: "risk_level option"
  tme_node_id :: "node_id option"
  tme_workspace_mount_id :: "workspace_mount_id option"

record tool_completed_event =
  tce_tool_name :: string
  tce_summary :: string
  tce_artifact_ids :: "artifact_id list"
  tce_node_id :: "node_id option"
  tce_workspace_mount_id :: "workspace_mount_id option"

record tool_failed_event =
  tfe_tool_name :: string
  tfe_summary :: string
  tfe_node_id :: "node_id option"
  tfe_workspace_mount_id :: "workspace_mount_id option"

record executor_output_chunk_event =
  oce_executor_task_id :: executor_task_id
  oce_stream :: executor_stream
  oce_chunk :: string
  oce_node_id :: "node_id option"
  oce_workspace_mount_id :: "workspace_mount_id option"

text \<open>A payload struct with a single field is that field; \<open>TurnFailed\<close> carries the turn and the
  message, \<open>ApprovalResolved\<close> the approval and the decision.\<close>

datatype server_event_payload =
  ThreadStarted thread
| ThreadResumed thread
| ThreadForked thread
| ThreadUpdated thread
| ThreadInterrupted thread
| ThreadArchived thread
| TurnStarted turn
| TurnCompleted turn
| TurnFailed turn string
| TurnCancelled turn
| AssistantChunk assistant_chunk_event
| AssistantCompleted string
| ToolCallStarted tool_call_started_event
| ToolCallUpdated tool_call_updated_event
| ToolCallCommitted tool_call_committed_event
| ToolCompleted tool_completed_event
| ToolFailed tool_failed_event
| ExecutorOutputChunk executor_output_chunk_event
| ApprovalRequested approval_request
| ApprovalResolved approval_request approval_decision
| ArtifactCreated artifact_ref
| DiffAvailable artifact_ref
| CheckpointCreated checkpoint
| MemoryWakeupLoaded memory_wakeup
| MemoryCompilationApplied memory_compilation_summary
| MemoryInvalidationApplied memory_compilation_summary
| MemoryDreamingCompleted string

datatype event_type =
  ThreadStartedType | ThreadResumedType | ThreadForkedType | ThreadUpdatedType
| ThreadInterruptedType | ThreadArchivedType | TurnStartedType | TurnCompletedType
| TurnFailedType | TurnCancelledType | AssistantChunkType | AssistantCompletedType
| ToolCallStartedType | ToolCallUpdatedType | ToolCallCommittedType | ToolCompletedType
| ToolFailedType | ExecutorOutputChunkType | ApprovalRequestedType | ApprovalResolvedType
| ArtifactCreatedType | DiffAvailableType | CheckpointCreatedType | MemoryWakeupLoadedType
| MemoryCompilationAppliedType | MemoryInvalidationAppliedType | MemoryDreamingCompletedType

fun payload_event_type :: "server_event_payload \<Rightarrow> event_type" where
  "payload_event_type (ThreadStarted _) = ThreadStartedType"
| "payload_event_type (ThreadResumed _) = ThreadResumedType"
| "payload_event_type (ThreadForked _) = ThreadForkedType"
| "payload_event_type (ThreadUpdated _) = ThreadUpdatedType"
| "payload_event_type (ThreadInterrupted _) = ThreadInterruptedType"
| "payload_event_type (ThreadArchived _) = ThreadArchivedType"
| "payload_event_type (TurnStarted _) = TurnStartedType"
| "payload_event_type (TurnCompleted _) = TurnCompletedType"
| "payload_event_type (TurnFailed _ _) = TurnFailedType"
| "payload_event_type (TurnCancelled _) = TurnCancelledType"
| "payload_event_type (AssistantChunk _) = AssistantChunkType"
| "payload_event_type (AssistantCompleted _) = AssistantCompletedType"
| "payload_event_type (ToolCallStarted _) = ToolCallStartedType"
| "payload_event_type (ToolCallUpdated _) = ToolCallUpdatedType"
| "payload_event_type (ToolCallCommitted _) = ToolCallCommittedType"
| "payload_event_type (ToolCompleted _) = ToolCompletedType"
| "payload_event_type (ToolFailed _) = ToolFailedType"
| "payload_event_type (ExecutorOutputChunk _) = ExecutorOutputChunkType"
| "payload_event_type (ApprovalRequested _) = ApprovalRequestedType"
| "payload_event_type (ApprovalResolved _ _) = ApprovalResolvedType"
| "payload_event_type (ArtifactCreated _) = ArtifactCreatedType"
| "payload_event_type (DiffAvailable _) = DiffAvailableType"
| "payload_event_type (CheckpointCreated _) = CheckpointCreatedType"
| "payload_event_type (MemoryWakeupLoaded _) = MemoryWakeupLoadedType"
| "payload_event_type (MemoryCompilationApplied _) = MemoryCompilationAppliedType"
| "payload_event_type (MemoryInvalidationApplied _) = MemoryInvalidationAppliedType"
| "payload_event_type (MemoryDreamingCompleted _) = MemoryDreamingCompletedType"

record server_event =
  ev_event_id :: event_id
  ev_thread_id :: thread_id
  ev_turn_id :: "turn_id option"
  ev_created_at :: timestamp
  ev_payload :: server_event_payload

record pending_event =
  pe_thread_id :: thread_id
  pe_turn_id :: "turn_id option"
  pe_payload :: server_event_payload

definition pending :: "thread_id \<Rightarrow> turn_id option \<Rightarrow> server_event_payload \<Rightarrow> pending_event" where
  "pending k i p = \<lparr>pe_thread_id = k, pe_turn_id = i, pe_payload = p\<rparr>"

section \<open>The bus\<close>

record channel =
  cn_sent :: "server_event list"
  cn_received :: nat
  cn_alive :: bool

record event_bus =
  bus_subscribers :: "nat list"
  bus_channels :: "channel list"
  bus_ids :: id_generator

definition event_bus_new :: "(nat \<Rightarrow> nat) \<Rightarrow> event_bus" where
  "event_bus_new clk =
     \<lparr>bus_subscribers = [], bus_channels = [],
      bus_ids = \<lparr>sequence = 0, clock = clk, clock_reads = 0\<rparr>\<rparr>"

text \<open>\<open>subscribe\<close>: the receiver it returns is the number of the new channel.\<close>

definition subscribe :: "event_bus \<Rightarrow> nat \<times> event_bus" where
  "subscribe b =
     (let n = length (bus_channels b)
      in (n, b\<lparr>bus_subscribers := bus_subscribers b @ [n],
              bus_channels := bus_channels b @ [\<lparr>cn_sent = [], cn_received = 0, cn_alive = True\<rparr>]\<rparr>))"

definition send :: "nat \<Rightarrow> server_event \<Rightarrow> channel list \<Rightarrow> bool \<times> channel list" where
  "send n e cs =
     (if cn_alive (cs ! n) then (True, cs[n := (cs ! n)\<lparr>cn_sent := cn_sent (cs ! n) @ [e]\<rparr>])
      else (False, cs))"

text \<open>\<open>subscribers.retain(|sender| sender.send(event.clone()).is_ok())\<close>.\<close>

fun retain_sent :: "server_event \<Rightarrow> nat list \<Rightarrow> channel list \<Rightarrow> nat list \<times> channel list" where
  "retain_sent e [] cs = ([], cs)"
| "retain_sent e (n # ns) cs =
     (let (ok, cs1) = send n e cs; (kept, cs2) = retain_sent e ns cs1
      in (if ok then n # kept else kept, cs2))"

definition publish :: "pending_event \<Rightarrow> event_bus \<Rightarrow> server_event \<times> event_bus" where
  "publish p b =
     (let s = sequence (bus_ids b) + 1;
          (now, ids) = now_timestamp ((bus_ids b)\<lparr>sequence := s\<rparr>);
          e = \<lparr>ev_event_id = ''event_'' @ show_dec (unat s), ev_thread_id = pe_thread_id p,
               ev_turn_id = pe_turn_id p, ev_created_at = now, ev_payload = pe_payload p\<rparr>;
          (kept, cs) = retain_sent e (bus_subscribers b) (bus_channels b)
      in (e, b\<lparr>bus_subscribers := kept, bus_channels := cs, bus_ids := ids\<rparr>))"

fun publish_all :: "pending_event list \<Rightarrow> event_bus \<Rightarrow> server_event list \<times> event_bus" where
  "publish_all [] b = ([], b)"
| "publish_all (p # ps) b =
     (let (e, b1) = publish p b; (es, b2) = publish_all ps b1 in (e # es, b2))"

text \<open>What a subscriber does with its receiving end.\<close>

definition receive :: "nat \<Rightarrow> event_bus \<Rightarrow> server_event option \<times> event_bus" where
  "receive n b =
     (let c = bus_channels b ! n
      in if n < length (bus_channels b) \<and> cn_alive c \<and> cn_received c < length (cn_sent c)
         then (Some (cn_sent c ! cn_received c),
               b\<lparr>bus_channels := (bus_channels b)[n := c\<lparr>cn_received := Suc (cn_received c)\<rparr>]\<rparr>)
         else (None, b))"

definition drop_receiver :: "nat \<Rightarrow> event_bus \<Rightarrow> event_bus" where
  "drop_receiver n b =
     (if n < length (bus_channels b)
      then b\<lparr>bus_channels := (bus_channels b)[n := (bus_channels b ! n)\<lparr>cn_alive := False\<rparr>]\<rparr>
      else b)"

section \<open>The invariant and the effect of publishing\<close>

text \<open>Every channel whose receiver is there has its sender registered, once.\<close>

definition bus_ok :: "event_bus \<Rightarrow> bool" where
  "bus_ok b \<longleftrightarrow>
     distinct (bus_subscribers b) \<and> (\<forall>n \<in> set (bus_subscribers b). n < length (bus_channels b)) \<and>
     (\<forall>n < length (bus_channels b). cn_alive (bus_channels b ! n) \<longrightarrow> n \<in> set (bus_subscribers b)) \<and>
     (\<forall>c \<in> set (bus_channels b). cn_received c \<le> length (cn_sent c))"

lemma bus_ok_new: "bus_ok (event_bus_new clk)"
  by (simp add: bus_ok_def event_bus_new_def)

lemma retain_sent_effect:
  assumes "distinct ns" and "\<forall>n \<in> set ns. n < length cs"
  shows "retain_sent e ns cs =
    (filter (\<lambda>n. cn_alive (cs ! n)) ns,
     map (\<lambda>n. if n \<in> set ns \<and> cn_alive (cs ! n)
              then (cs ! n)\<lparr>cn_sent := cn_sent (cs ! n) @ [e]\<rparr> else cs ! n) [0..<length cs])"
  using assms
proof (induction ns arbitrary: cs)
  case Nil
  then show ?case by (simp add: map_nth)
next
  case (Cons m ns)
  show ?case
  proof (cases "cn_alive (cs ! m)")
    case True
    let ?cs = "cs[m := (cs ! m)\<lparr>cn_sent := cn_sent (cs ! m) @ [e]\<rparr>]"
    have alive: "cn_alive (?cs ! n) = cn_alive (cs ! n)" for n
      using Cons.prems by (cases "n = m") auto
    have "retain_sent e ns ?cs = (filter (\<lambda>n. cn_alive (?cs ! n)) ns,
        map (\<lambda>n. if n \<in> set ns \<and> cn_alive (?cs ! n)
              then (?cs ! n)\<lparr>cn_sent := cn_sent (?cs ! n) @ [e]\<rparr> else ?cs ! n) [0..<length ?cs])"
      using Cons.prems by (intro Cons.IH) auto
    then show ?thesis
      using True Cons.prems unfolding alive
      by (auto simp: send_def nth_list_update intro!: map_cong)
  next
    case False
    with Cons show ?thesis by (auto simp: send_def intro!: map_cong)
  qed
qed

lemma publish_effect:
  assumes "bus_ok b"
  shows "ev_payload (fst (publish p b)) = pe_payload p"
    and "ev_thread_id (fst (publish p b)) = pe_thread_id p"
    and "ev_turn_id (fst (publish p b)) = pe_turn_id p"
    and "ev_event_id (fst (publish p b)) = ''event_'' @ show_dec (unat (sequence (bus_ids b) + 1))"
    and "sequence (bus_ids (snd (publish p b))) = sequence (bus_ids b) + 1"
    and "length (bus_channels (snd (publish p b))) = length (bus_channels b)"
    and "n < length (bus_channels b) \<Longrightarrow>
      bus_channels (snd (publish p b)) ! n =
        (if cn_alive (bus_channels b ! n)
         then (bus_channels b ! n)\<lparr>cn_sent := cn_sent (bus_channels b ! n) @ [fst (publish p b)]\<rparr>
         else bus_channels b ! n)"
    and "bus_ok (snd (publish p b))"
proof -
  have d: "distinct (bus_subscribers b)" and l: "\<forall>n \<in> set (bus_subscribers b). n < length (bus_channels b)"
    and a: "\<And>n. n < length (bus_channels b) \<Longrightarrow> cn_alive (bus_channels b ! n) \<Longrightarrow> n \<in> set (bus_subscribers b)"
    and r: "\<And>n. n < length (bus_channels b) \<Longrightarrow>
      cn_received (bus_channels b ! n) \<le> length (cn_sent (bus_channels b ! n))"
    using assms by (auto simp: bus_ok_def)
  note ret = retain_sent_effect [OF d l]
  show "ev_payload (fst (publish p b)) = pe_payload p"
    and "ev_thread_id (fst (publish p b)) = pe_thread_id p"
    and "ev_turn_id (fst (publish p b)) = pe_turn_id p"
    and "ev_event_id (fst (publish p b)) = ''event_'' @ show_dec (unat (sequence (bus_ids b) + 1))"
    and "sequence (bus_ids (snd (publish p b))) = sequence (bus_ids b) + 1"
    and len: "length (bus_channels (snd (publish p b))) = length (bus_channels b)"
    by (simp_all add: publish_def Let_def split_beta ret now_timestamp_def read_clock_def)
  show chan: "bus_channels (snd (publish p b)) ! n =
        (if cn_alive (bus_channels b ! n)
         then (bus_channels b ! n)\<lparr>cn_sent := cn_sent (bus_channels b ! n) @ [fst (publish p b)]\<rparr>
         else bus_channels b ! n)" if "n < length (bus_channels b)" for n
    using that a [OF that] by (auto simp: publish_def Let_def split_beta ret now_timestamp_def read_clock_def)
  have subs: "bus_subscribers (snd (publish p b)) =
      filter (\<lambda>n. cn_alive (bus_channels b ! n)) (bus_subscribers b)"
    by (simp add: publish_def Let_def split_beta ret now_timestamp_def read_clock_def)
  show "bus_ok (snd (publish p b))"
    using d l a r by (auto simp: bus_ok_def subs len chan in_set_conv_nth all_set_conv_all_nth le_SucI)
qed

section \<open>Runs of the bus\<close>

datatype bus_action = Publish pending_event | Subscribe | Receive nat | DropReceiver nat

datatype bus_outcome = Published server_event | Received nat server_event | Quiet

fun bus_act :: "bus_action \<Rightarrow> event_bus \<Rightarrow> bus_outcome \<times> event_bus" where
  "bus_act (Publish p) b = (let (e, b1) = publish p b in (Published e, b1))"
| "bus_act Subscribe b = (Quiet, snd (subscribe b))"
| "bus_act (Receive n) b =
     (case receive n b of (None, b1) \<Rightarrow> (Quiet, b1) | (Some e, b1) \<Rightarrow> (Received n e, b1))"
| "bus_act (DropReceiver n) b = (Quiet, drop_receiver n b)"

fun bus_run :: "bus_action list \<Rightarrow> event_bus \<Rightarrow> bus_outcome list \<times> event_bus" where
  "bus_run [] b = ([], b)"
| "bus_run (a # as) b = (let (r, b1) = bus_act a b; (rs, b2) = bus_run as b1 in (r # rs, b2))"

fun published :: "bus_outcome list \<Rightarrow> server_event list" where
  "published [] = []"
| "published (Published e # rs) = e # published rs"
| "published (_ # rs) = published rs"

fun received_by :: "nat \<Rightarrow> bus_outcome list \<Rightarrow> server_event list" where
  "received_by n [] = []"
| "received_by n (Received m e # rs) = (if m = n then e # received_by n rs else received_by n rs)"
| "received_by n (_ # rs) = received_by n rs"

fun submitted :: "bus_action list \<Rightarrow> pending_event list" where
  "submitted [] = []"
| "submitted (Publish p # as) = p # submitted as"
| "submitted (_ # as) = submitted as"

lemma receive_effect:
  assumes "m < length (bus_channels b)"
  shows "bus_channels (snd (receive n b)) ! m =
      (if m = n \<and> fst (receive n b) \<noteq> None
       then (bus_channels b ! m)\<lparr>cn_received := Suc (cn_received (bus_channels b ! m))\<rparr>
       else bus_channels b ! m)"
    and "bus_ids (snd (receive n b)) = bus_ids b"
    and "bus_subscribers (snd (receive n b)) = bus_subscribers b"
    and "length (bus_channels (snd (receive n b))) = length (bus_channels b)"
  using assms by (auto simp: receive_def Let_def nth_list_update)

lemma receive_some:
  assumes "receive n b = (Some e, b1)"
  shows "n < length (bus_channels b)" "cn_alive (bus_channels b ! n)"
    and "cn_received (bus_channels b ! n) < length (cn_sent (bus_channels b ! n))"
    and "e = cn_sent (bus_channels b ! n) ! cn_received (bus_channels b ! n)"
    and "b1 = b\<lparr>bus_channels := (bus_channels b)[n := (bus_channels b ! n)
                  \<lparr>cn_received := Suc (cn_received (bus_channels b ! n))\<rparr>]\<rparr>"
  using assms by (auto simp: receive_def Let_def split: if_splits)

lemma receive_none: "receive n b = (None, b1) \<Longrightarrow> b1 = b"
  by (auto simp: receive_def Let_def split: if_splits)

lemma bus_ok_act: "bus_ok b \<Longrightarrow> bus_ok (snd (bus_act a b))"
proof (cases a)
  case (Publish p)
  moreover assume "bus_ok b"
  ultimately show ?thesis using publish_effect(8) [of b p] by (simp add: split_beta)
next
  case Subscribe
  moreover assume "bus_ok b"
  ultimately show ?thesis
    by (auto simp: bus_ok_def subscribe_def Let_def nth_append less_Suc_eq dest: bspec)
next
  case (Receive n)
  moreover assume ok: "bus_ok b"
  ultimately show ?thesis
    by (auto simp: bus_ok_def receive_def Let_def nth_list_update all_set_conv_all_nth
        split: if_splits)
next
  case (DropReceiver n)
  moreover assume "bus_ok b"
  ultimately show ?thesis
    by (auto simp: bus_ok_def drop_receiver_def nth_list_update all_set_conv_all_nth
        split: if_splits)
qed

lemma bus_ok_run: "bus_ok b \<Longrightarrow> bus_ok (snd (bus_run as b))"
  by (induction as arbitrary: b) (simp_all add: split_beta bus_ok_act)

text \<open>What one action does to a channel that is not dropped.\<close>

lemma channel_act:
  assumes ok: "bus_ok b" and n: "n < length (bus_channels b)" and alive: "cn_alive (bus_channels b ! n)"
    and kept: "a \<noteq> DropReceiver n"
  shows "n < length (bus_channels (snd (bus_act a b)))"
    and "cn_alive (bus_channels (snd (bus_act a b)) ! n)"
    and "cn_sent (bus_channels (snd (bus_act a b)) ! n) =
      cn_sent (bus_channels b ! n) @ published [fst (bus_act a b)]"
    and "cn_received (bus_channels (snd (bus_act a b)) ! n) =
      cn_received (bus_channels b ! n) + length (received_by n [fst (bus_act a b)])"
    and "received_by n [fst (bus_act a b)] =
      take (length (received_by n [fst (bus_act a b)]))
        (drop (cn_received (bus_channels b ! n)) (cn_sent (bus_channels b ! n)))"
proof -
  have "n < length (bus_channels (snd (bus_act a b))) \<and>
    cn_alive (bus_channels (snd (bus_act a b)) ! n) \<and>
    cn_sent (bus_channels (snd (bus_act a b)) ! n) =
      cn_sent (bus_channels b ! n) @ published [fst (bus_act a b)] \<and>
    cn_received (bus_channels (snd (bus_act a b)) ! n) =
      cn_received (bus_channels b ! n) + length (received_by n [fst (bus_act a b)]) \<and>
    received_by n [fst (bus_act a b)] =
      take (length (received_by n [fst (bus_act a b)]))
        (drop (cn_received (bus_channels b ! n)) (cn_sent (bus_channels b ! n)))"
  proof (cases a)
    case (Publish p)
    with publish_effect(6) [OF ok] publish_effect(7) [OF ok n] n alive show ?thesis
      by (simp add: split_beta)
  next
    case Subscribe
    with n alive show ?thesis by (simp add: subscribe_def Let_def nth_append)
  next
    case (Receive m)
    show ?thesis
    proof (cases "receive m b")
      case (Pair o1 b1)
      show ?thesis
      proof (cases o1)
        case None
        with Pair Receive n alive receive_none [of m b b1] show ?thesis by simp
      next
        case (Some e)
        note got = receive_some [OF Pair [unfolded Some]]
        from Pair Some Receive n alive got show ?thesis
          by (auto simp: nth_list_update take_Suc_conv_app_nth hd_drop_conv_nth take_Suc)
      qed
    qed
  next
    case (DropReceiver m)
    with n alive kept show ?thesis by (simp add: drop_receiver_def nth_list_update)
  qed
  then show "n < length (bus_channels (snd (bus_act a b)))"
    and "cn_alive (bus_channels (snd (bus_act a b)) ! n)"
    and "cn_sent (bus_channels (snd (bus_act a b)) ! n) =
      cn_sent (bus_channels b ! n) @ published [fst (bus_act a b)]"
    and "cn_received (bus_channels (snd (bus_act a b)) ! n) =
      cn_received (bus_channels b ! n) + length (received_by n [fst (bus_act a b)])"
    and "received_by n [fst (bus_act a b)] =
      take (length (received_by n [fst (bus_act a b)]))
        (drop (cn_received (bus_channels b ! n)) (cn_sent (bus_channels b ! n)))" by blast+
qed

lemma published_Cons: "published (r # rs) = published [r] @ published rs"
  by (cases r) simp_all

lemma received_by_Cons: "received_by n (r # rs) = received_by n [r] @ received_by n rs"
  by (cases r) simp_all

lemma channel_run:
  assumes "bus_ok b" and "n < length (bus_channels b)" and "cn_alive (bus_channels b ! n)"
    and "DropReceiver n \<notin> set as"
  shows "cn_sent (bus_channels (snd (bus_run as b)) ! n) =
      cn_sent (bus_channels b ! n) @ published (fst (bus_run as b)) \<and>
    received_by n (fst (bus_run as b)) =
      take (length (received_by n (fst (bus_run as b))))
        (drop (cn_received (bus_channels b ! n))
          (cn_sent (bus_channels b ! n) @ published (fst (bus_run as b))))"
  using assms
proof (induction as arbitrary: b)
  case Nil
  then show ?case by simp
next
  case (Cons a as)
  let ?b = "snd (bus_act a b)" and ?r = "fst (bus_act a b)"
  have run: "fst (bus_run (a # as) b) = ?r # fst (bus_run as ?b)"
    "snd (bus_run (a # as) b) = snd (bus_run as ?b)"
    by (simp_all add: split_beta)
  from Cons.prems have prem: "bus_ok b" "n < length (bus_channels b)" "cn_alive (bus_channels b ! n)"
    "a \<noteq> DropReceiver n" "DropReceiver n \<notin> set as" by auto
  note act = channel_act [OF prem(1-4)]
  note IH = Cons.IH [OF bus_ok_act [OF prem(1)] act(1,2) prem(5)]
  let ?c = "cn_received (bus_channels b ! n)" and ?s = "cn_sent (bus_channels b ! n)"
    and ?x = "received_by n [?r]" and ?y = "received_by n (fst (bus_run as ?b))"
    and ?t = "cn_sent (bus_channels b ! n) @ published (?r # fst (bus_run as ?b))"
  have y: "?y = take (length ?y) (drop (?c + length ?x) ?t)"
    using conjunct2 [OF IH] unfolding act(3,4) published_Cons [of ?r "fst (bus_run as ?b)"]
    by (simp only: append_assoc)
  have "?c \<le> length ?s" using prem by (auto simp: bus_ok_def)
  with arg_cong [OF act(5), of length] have le: "?c + length ?x \<le> length ?s" by simp
  have x: "?x = take (length ?x) (drop ?c ?t)"
    using act(5) le by simp
  have "?x @ ?y = take (length ?x) (drop ?c ?t) @ take (length ?y) (drop (length ?x) (drop ?c ?t))"
    by (rule arg_cong2 [where f = append, OF x])
      (use y in \<open>simp only: drop_drop add.commute [of "length ?x" ?c]\<close>)
  also have "\<dots> = take (length (?x @ ?y)) (drop ?c ?t)"
    by (simp only: take_add length_append)
  finally have "?x @ ?y = take (length (?x @ ?y)) (drop ?c ?t)" .
  moreover have "?s @ published [?r] @ published (fst (bus_run as ?b)) = ?t"
    by (simp only: published_Cons [of ?r "fst (bus_run as ?b)"])
  ultimately show ?case
    using conjunct1 [OF IH] unfolding run received_by_Cons [of n ?r "fst (bus_run as ?b)"] act(3)
    by (simp only: append_assoc simp_thms)
qed

lemma ids_act:
  assumes "bus_ok b"
  shows "sequence (bus_ids (snd (bus_act a b))) =
    sequence (bus_ids b) + (if \<exists>p. a = Publish p then 1 else 0)"
  using publish_effect(5) [OF assms]
  by (cases a)
    (auto simp: split_beta subscribe_def Let_def drop_receiver_def receive_def split: option.splits)

lemma run_publishes:
  assumes "bus_ok b"
  shows "map (\<lambda>e. (ev_thread_id e, ev_turn_id e, ev_payload e)) (published (fst (bus_run as b))) =
      map (\<lambda>p. (pe_thread_id p, pe_turn_id p, pe_payload p)) (submitted as)"
  using assms
proof (induction as arbitrary: b)
  case (Cons a as)
  then show ?case
    using Cons.IH [OF bus_ok_act, of b a] publish_effect(1-3) [OF Cons.prems]
    by (cases a) (auto simp: split_beta split: option.splits)
qed simp

lemma run_numbers:
  assumes "bus_ok b"
  shows "map ev_event_id (published (fst (bus_run as b))) =
      map (\<lambda>i. ''event_'' @ show_dec (unat (sequence (bus_ids b) + of_nat (Suc i))))
        [0..<length (submitted as)]"
  using assms
proof (induction as arbitrary: b)
  case (Cons a as)
  note IH = Cons.IH [OF bus_ok_act [OF Cons.prems], of a] and ids = ids_act [OF Cons.prems, of a]
  show ?case
  proof (cases a)
    case (Publish p)
    have "map (\<lambda>i. ''event_'' @ show_dec (unat (sequence (bus_ids b) + of_nat (Suc i))))
        [0..<Suc (length (submitted as))] =
      (''event_'' @ show_dec (unat (sequence (bus_ids b) + 1))) #
      map (\<lambda>i. ''event_'' @ show_dec (unat (sequence (bus_ids b) + 1 + of_nat (Suc i))))
        [0..<length (submitted as)]"
      by (simp add: upt_conv_Cons map_Suc_upt [symmetric] ac_simps del: upt_Suc)
    with Publish IH ids publish_effect(4) [OF Cons.prems, of p] show ?thesis
      by (simp add: split_beta del: upt_Suc)
  next
    case Subscribe
    with IH ids show ?thesis by (simp add: split_beta)
  next
    case (Receive m)
    with IH ids show ?thesis by (auto simp: split_beta split: option.splits)
  next
    case (DropReceiver m)
    with IH ids show ?thesis by (simp add: split_beta)
  qed
qed simp

text \<open>C37: the bus loses, reorders and repeats nothing. Whatever happened on the bus before, a
  receiver that subscribes and is not dropped has been sent, in order, exactly one event for each
  event submitted since; the events it has taken out so far are the first of these; each carries
  the thread, the turn and the payload it was submitted with, and their identifiers are numbered
  on without a gap from the number the bus had reached (modulo \<open>2 ^ 64\<close>).\<close>

theorem subscriber_sees_every_event:
  fixes earlier later :: "bus_action list" and clk :: "nat \<Rightarrow> nat"
  defines "b \<equiv> snd (bus_run earlier (event_bus_new clk))"
  defines "n \<equiv> fst (subscribe b)"
  defines "outcome \<equiv> bus_run later (snd (subscribe b))"
  assumes "DropReceiver n \<notin> set later"
  shows "cn_sent (bus_channels (snd outcome) ! n) = published (fst outcome) \<and>
    received_by n (fst outcome) = take (length (received_by n (fst outcome))) (published (fst outcome)) \<and>
    map (\<lambda>e. (ev_thread_id e, ev_turn_id e, ev_payload e)) (published (fst outcome)) =
      map (\<lambda>p. (pe_thread_id p, pe_turn_id p, pe_payload p)) (submitted later) \<and>
    map ev_event_id (published (fst outcome)) =
      map (\<lambda>i. ''event_'' @ show_dec (unat (sequence (bus_ids b) + of_nat (Suc i))))
        [0..<length (submitted later)]"
proof -
  have ok: "bus_ok (snd (subscribe b))"
    using bus_ok_act [of b Subscribe] bus_ok_run [OF bus_ok_new, of earlier clk] by (simp add: b_def)
  have chan: "n < length (bus_channels (snd (subscribe b)))"
    "bus_channels (snd (subscribe b)) ! n = \<lparr>cn_sent = [], cn_received = 0, cn_alive = True\<rparr>"
    "bus_ids (snd (subscribe b)) = bus_ids b"
    by (simp_all add: n_def subscribe_def Let_def nth_append)
  from channel_run [OF ok chan(1), of later] run_publishes [OF ok, of later]
    run_numbers [OF ok, of later] assms(4) chan
  show ?thesis by (simp add: outcome_def)
qed

definition sample_bus_run :: "bus_action list" where
  "sample_bus_run =
     [Publish (pending ''t'' (Some ''u'') (AssistantCompleted ''one'')), Receive 0,
      Publish (pending ''t'' None (AssistantCompleted ''two''))]"

lemmas bus_steps = subscribe_def event_bus_new_def publish_def pending_def now_timestamp_def
  read_clock_def send_def receive_def

theorem subscriber_sees_every_event_witness:
  "let b = snd (bus_run [] (event_bus_new (\<lambda>_. 0)));
       outcome = bus_run sample_bus_run (snd (subscribe b))
   in map ev_payload (cn_sent (bus_channels (snd outcome) ! 0)) =
        [AssistantCompleted ''one'', AssistantCompleted ''two''] \<and>
      map ev_payload (received_by 0 (fst outcome)) = [AssistantCompleted ''one'']"
proof -
  let ?o = "bus_run sample_bus_run (snd (subscribe (snd (bus_run [] (event_bus_new (\<lambda>_. 0))))))"
  have "fst (subscribe (snd (bus_run [] (event_bus_new (\<lambda>_. 0))))) = 0"
    by (simp add: subscribe_def event_bus_new_def)
  then have "cn_sent (bus_channels (snd ?o) ! 0) = published (fst ?o)"
    using subscriber_sees_every_event [where earlier = "[]" and clk = "\<lambda>_. 0" and later = sample_bus_run]
    by (simp only:) (simp add: sample_bus_run_def)
  moreover have "map ev_payload (published (fst ?o)) = [AssistantCompleted ''one'', AssistantCompleted ''two'']"
    and "map ev_payload (received_by 0 (fst ?o)) = [AssistantCompleted ''one'']"
    by (simp_all add: sample_bus_run_def bus_steps Let_def)
  ultimately show ?thesis by (simp add: Let_def)
qed

end
