(* ===== verification/Handlers.thy ===== *)
theory Handlers
  imports Messages Executor Server_Events
begin

text \<open>
  The request handlers (\<open>handlers/mod.rs\<close>): every request is dispatched to the runtime coordinator, the
  logins or the executor, and becomes a response and the events to publish. The state is what the
  handlers mutate: the coordinator and the world behind it (\<open>login_env\<close>) and the executor. What they
  take from crates and from the operating system is in \<open>services\<close>.
\<close>

record handler_env =
  he_login :: login_env
  he_node :: node_executor

record services =
  vc_lib :: provider_lib
  vc_host :: host_env
  vc_serializer :: serializer
  vc_cosine :: "nat \<Rightarrow> nat \<Rightarrow> nat \<Rightarrow> nat"
  vc_storage_text :: "storage_error \<Rightarrow> string"

type_synonym 'a handler_run = "(runtime_error, handler_env, 'a) run"
type_synonym handled = "response_payload \<times> pending_event list"

abbreviation runtime_of :: "handler_env \<Rightarrow> coordinator" where
  "runtime_of s \<equiv> lg_runtime (he_login s)"

definition on_login :: "'a login_run \<Rightarrow> 'a handler_run" where
  "on_login m s = (case m (he_login s) of (r, l) \<Rightarrow> (r, s\<lparr>he_login := l\<rparr>))"

definition on_co :: "(runtime_error, coordinator, 'a) run \<Rightarrow> 'a handler_run" where
  "on_co m = on_login (on_runtime m)"

definition on_node :: "'a node_run \<Rightarrow> 'a handler_run" where
  "on_node m s = (case m (he_node s) of (r, n) \<Rightarrow> (r, s\<lparr>he_node := n\<rparr>))"

text \<open>\<open>if let Ok(value) = ...\<close>: an error is dropped, what was done before it stays.\<close>

definition attempt :: "('e, 's, 'a) run \<Rightarrow> ('e, 's, 'a option) run" where
  "attempt m s = (case m s of (Inl e, t) \<Rightarrow> (Inr None, t) | (Inr a, t) \<Rightarrow> (Inr (Some a), t))"

section \<open>Answers\<close>

text \<open>\<open>runtime.operation(request).map(|response| (payload, events))\<close>.\<close>

definition answer :: "('a \<Rightarrow> handled) \<Rightarrow> 'a handler_run \<Rightarrow> handled handler_run" where
  "answer f m = bindR m (\<lambda>a. ret (f a))"

definition plain :: "('a \<Rightarrow> response_payload) \<Rightarrow> 'a handler_run \<Rightarrow> handled handler_run" where
  "plain f = answer (\<lambda>a. (f a, []))"

definition thread_event :: "(thread \<Rightarrow> server_event_payload) \<Rightarrow> thread \<Rightarrow> pending_event" where
  "thread_event c th = pending (th_id th) None (c th)"

definition turn_event :: "(turn \<Rightarrow> server_event_payload) \<Rightarrow> turn \<Rightarrow> pending_event" where
  "turn_event c t = pending (tn_thread_id t) (Some (tn_id t)) (c t)"

text \<open>The event of a turn, and the thread as it is stored now, when it can be read.\<close>

definition turn_and_thread ::
  "(turn \<Rightarrow> response_payload) \<Rightarrow> (turn \<Rightarrow> server_event_payload) \<Rightarrow> (thread \<Rightarrow> server_event_payload)
   \<Rightarrow> turn \<Rightarrow> handled handler_run" where
  "turn_and_thread reply c d t =
     bindR (attempt (on_co (get_thread (tn_thread_id t)))) (\<lambda>found.
     ret (reply t, turn_event c t #
       (case found of
          Some (Some th) \<Rightarrow> [pending (th_id th) (Some (tn_id t)) (d th)]
        | _ \<Rightarrow> [])))"

section \<open>Tool calls\<close>

definition normalize_tool_call_node :: "tool_call_request \<Rightarrow> tool_call_request handler_run" where
  "normalize_tool_call_node request =
     (case tq_node_id request of
        Some n \<Rightarrow> ret request
      | None \<Rightarrow>
          (case tq_workspace_mount_id request of
             Some m \<Rightarrow>
               bindR (on_co (on_registry (read_workspace_mount m))) (\<lambda>mount.
               ret (request\<lparr>tq_node_id := Some (wm_node_id mount)\<rparr>))
           | None \<Rightarrow> ret (request\<lparr>tq_node_id := Some ''local''\<rparr>)))"

definition executor_task_id_for_tool :: "thread_id \<Rightarrow> tool_result \<Rightarrow> executor_task_id" where
  "executor_task_id_for_tool k r =
     (case r of
        SpawnResult x \<Rightarrow> spr_task_id x
      | WaitResult x \<Rightarrow> swr_task_id x
      | ReadOutputResult x \<Rightarrow> sor_task_id x
      | TerminateResult x \<Rightarrow> str_task_id x
      | _ \<Rightarrow> ''executor_'' @ k @ ''_''
               @ map (\<lambda>c. if c = CHR ''.'' then CHR ''_'' else c) (tool_name_as_str (result_tool_name r)))"

definition artifact_events :: "artifact_ref \<Rightarrow> pending_event list" where
  "artifact_events a =
     pending (ar_thread_id a) (Some (ar_turn_id a)) (ArtifactCreated a) #
     (if ar_kind a = Diff then [pending (ar_thread_id a) (Some (ar_turn_id a)) (DiffAvailable a)] else [])"

definition chunk_event ::
  "thread_id \<Rightarrow> turn_id \<Rightarrow> executor_task_id \<Rightarrow> node_id \<Rightarrow> workspace_mount_id option \<Rightarrow> executor_output
   \<Rightarrow> pending_event" where
  "chunk_event k i task node mount c =
     pending k (Some i) (ExecutorOutputChunk
       \<lparr>oce_executor_task_id = task, oce_stream = eo_stream c, oce_chunk = eo_chunk c,
        oce_node_id = Some node, oce_workspace_mount_id = mount\<rparr>)"

text \<open>What is published about a tool that ran: its artifacts, its output, its end.\<close>

definition tool_events ::
  "thread_id \<Rightarrow> turn_id \<Rightarrow> node_id \<Rightarrow> workspace_mount_id option \<Rightarrow> executed_tool \<Rightarrow> artifact_ref list
   \<Rightarrow> pending_event list" where
  "tool_events k i node mount x refs =
     concat (map artifact_events refs)
     @ map (chunk_event k i (executor_task_id_for_tool k (et_result x)) node mount) (et_output_chunks x)
     @ [pending k (Some i) (ToolCompleted
         \<lparr>tce_tool_name = tool_name_as_str (et_tool_name x), tce_summary = et_summary x,
          tce_artifact_ids = map ar_id refs, tce_node_id = Some node, tce_workspace_mount_id = mount\<rparr>)]"

definition artifact_specs :: "executed_tool \<Rightarrow> (artifact_kind \<times> string \<times> string) list" where
  "artifact_specs x = map (\<lambda>a. (pa_kind a, pa_summary a, pa_body a)) (et_artifacts x)"

definition handle_tool_call :: "services \<Rightarrow> tool_call_request \<Rightarrow> handled handler_run" where
  "handle_tool_call v request0 =
     bindR (normalize_tool_call_node request0) (\<lambda>request.
     bindR (on_node (router_execute_tool (vc_host v) (vc_serializer v) request)) (\<lambda>ran.
     let x = ne_executed ran; k = tq_thread_id request; mount = tq_workspace_mount_id request
     in bindR (on_co (record_tool_execution k (tq_turn_id request) (Some (ne_node_id ran)) mount
                 (tool_name_as_str (et_tool_name x)) (et_summary x) (artifact_specs x))) (\<lambda>(i, refs).
        ret (ToolCallReply \<lparr>tp_execution_turn_id = i, tp_summary = et_summary x, tp_result = et_result x,
                            tp_artifact_refs = refs\<rparr>,
             tool_events k i (ne_node_id ran) mount x refs))))"

section \<open>Dispatch\<close>

definition handle_thread_resume :: "thread_id \<Rightarrow> handled handler_run" where
  "handle_thread_resume k =
     bindR (on_co (co_resume_thread k)) (\<lambda>(th, summary).
     bindR (attempt (on_co (read_wakeup (th_id th)))) (\<lambda>memory.
     ret (ThreadResumeReply th (Some summary),
          thread_event ThreadResumed th #
          (case memory of
             Some (wakeup, _) \<Rightarrow> [pending (th_id th) None (MemoryWakeupLoaded wakeup)]
           | None \<Rightarrow> []))))"

text \<open>The compilation was applied; if it invalidated facts, that too.\<close>

definition compilation_events ::
  "thread_id \<Rightarrow> turn_id option \<Rightarrow> memory_compilation_summary \<Rightarrow> pending_event list" where
  "compilation_events k i c =
     pending k i (MemoryCompilationApplied c) #
     (if mc_invalidated_fact_ids c = [] then [] else [pending k i (MemoryInvalidationApplied c)])"

fun dispatch :: "services \<Rightarrow> client_request \<Rightarrow> handled handler_run" where
  "dispatch v (OpenAiCodexOAuthStart r) =
     plain OpenAiCodexOAuthStartReply (on_login (start_openai_codex_oauth_login (vc_lib v) r))"
| "dispatch v (OpenAiCodexOAuthComplete r) =
     plain OpenAiCodexOAuthCompleteReply (on_login (complete_openai_codex_oauth_login (vc_lib v) r))"
| "dispatch v (GitLabOAuthStart r) =
     plain GitLabOAuthStartReply (on_login (start_gitlab_oauth_login (vc_lib v) r))"
| "dispatch v (GitLabOAuthComplete r) =
     plain GitLabOAuthCompleteReply (on_login (complete_gitlab_oauth_login (vc_lib v) r))"
| "dispatch v (GitLabPatSave r) = plain GitLabPatSaveReply (on_login (save_gitlab_pat r))"
| "dispatch v (GitHubCopilotDeviceStart r) =
     plain GitHubCopilotDeviceStartReply (on_login (start_github_copilot_device_login (vc_lib v) r))"
| "dispatch v (GitHubCopilotDevicePoll r) =
     plain GitHubCopilotDevicePollReply (on_login (poll_github_copilot_device_login (vc_lib v) r))"
| "dispatch v (MiniMaxOAuthStart r) =
     plain MiniMaxOAuthStartReply (on_login (start_minimax_oauth_login (vc_lib v) r))"
| "dispatch v (MiniMaxOAuthPoll r) =
     plain MiniMaxOAuthPollReply (on_login (poll_minimax_oauth_login (vc_lib v) r))"
| "dispatch v (ProviderAuthList r) = plain ProviderAuthListReply (on_co (list_provider_auth_profiles r))"
| "dispatch v ModelStatus =
     fail (Unsupported ''model_status_requires_server'' ''model/status must be handled by the app server'')"
| "dispatch v RuntimeConfigGet =
     fail (Unsupported ''runtime_config_requires_server'' ''runtime/config must be handled by the app server'')"
| "dispatch v (RuntimeConfigUpdate r) =
     fail (Unsupported ''runtime_config_requires_server'' ''runtime/config must be handled by the app server'')"
| "dispatch v (ProviderAuthUpsert p) =
     plain ProviderAuthUpsertReply (on_co (upsert_provider_auth_profile p))"
| "dispatch v (ProviderAuthDelete i) =
     plain ProviderAuthDeleteReply (on_co (delete_provider_auth_profile i))"
| "dispatch v (ThreadStart r) =
     answer (\<lambda>th. (ThreadStartReply th, [thread_event ThreadStarted th])) (on_co (co_start_thread r))"
| "dispatch v (ThreadResume k) = handle_thread_resume k"
| "dispatch v (ThreadList r) = plain ThreadListReply (on_co (list_threads r))"
| "dispatch v (ThreadFork r) =
     answer (\<lambda>th. (ThreadForkReply th, [thread_event ThreadForked th])) (on_co (co_fork_thread r))"
| "dispatch v (TurnStart r) =
     bindR (on_co (co_start_turn r)) (turn_and_thread TurnStartReply TurnStarted ThreadUpdated)"
| "dispatch v (TurnCancel r) =
     bindR (on_co (cancel_turn r)) (turn_and_thread TurnCancelReply TurnCancelled ThreadInterrupted)"
| "dispatch v (ApprovalRespond r) =
     answer (\<lambda>a. (ApprovalRespondReply a,
                  [pending (ap_thread_id a) (Some (ap_turn_id a)) (ApprovalResolved a (rr_decision r))]))
       (on_co (respond_approval r))"
| "dispatch v (ToolCall r) = handle_tool_call v r"
| "dispatch v (ThreadRollback r) =
     fail (Unsupported ''rollback_not_ready'' ''rollback handling is implemented in a later phase'')"
| "dispatch v (MemoryReadWakeup k) =
     answer (\<lambda>(wakeup, recent). (MemoryReadWakeupReply k wakeup recent,
                                 [pending k None (MemoryWakeupLoaded wakeup)]))
       (on_co (read_wakeup k))"
| "dispatch v (MemoryCompileNow k) =
     answer (\<lambda>c. (MemoryCompileNowReply k c, compilation_events k None c)) (on_co (compile_thread k))"
| "dispatch v (MemoryListTopics status limit) =
     plain MemoryListTopicsReply (on_co (list_topics status limit))"
| "dispatch v (MemorySearch query mode limit) =
     plain (MemorySearchReply query mode) (on_co (search_memory (vc_cosine v) query mode limit))"
| "dispatch v (MemoryOpenSession k) = plain MemoryOpenSessionReply (on_co (open_session k))"
| "dispatch v (MemoryOpenEvidence k i a f) = plain MemoryOpenEvidenceReply (on_co (open_evidence k i a f))"
| "dispatch v MemorySurfaceAboutYouRead =
     plain MemorySurfaceAboutYouReadReply (on_co build_about_you_surface)"
| "dispatch v (MemorySurfaceAboutYouUpdate u) =
     plain MemorySurfaceAboutYouUpdateReply (on_co (update_about_you_surface u))"
| "dispatch v (MemorySurfaceCarryingRead limit) =
     plain MemorySurfaceCarryingReadReply (on_co (read_carrying_surface limit))"
| "dispatch v (MemorySurfaceKnowledgeList limit) =
     plain MemorySurfaceKnowledgeListReply (on_co (list_knowledge_surface limit))"
| "dispatch v (MemorySurfaceKnowledgeCorrect i value) =
     plain MemorySurfaceKnowledgeCorrectReply (on_co (correct_knowledge_surface i value))"
| "dispatch v PeopleSurfaceRead = plain PeopleSurfaceReadReply (on_co read_people_surface)"
| "dispatch v (PeopleSurfaceUpsert p) = plain PeopleSurfaceUpsertReply (on_co (upsert_people_surface p))"
| "dispatch v (PeopleSurfaceDelete i) = plain PeopleSurfaceDeleteReply (on_co (delete_people_surface i))"
| "dispatch v NodeList = plain NodeListReply (on_co (asks (\<lambda>s. list_nodes (nodes s))))"
| "dispatch v (NodeRead n) = plain NodeReadReply (on_co (on_registry (read_node n)))"
| "dispatch v (NodeUpdatePolicy n p) = plain NodeUpdatePolicyReply (on_co (co_update_node_policy n p))"
| "dispatch v (NodeHeartbeat n st) =
     plain (\<lambda>(n, action). NodeHeartbeatReply n action) (on_co (heartbeat_node n st))"
| "dispatch v (WorkspaceMountList n) =
     plain WorkspaceMountListReply (on_co (asks (\<lambda>s. list_workspace_mounts n (nodes s))))"
| "dispatch v (WorkspaceMountAttach r) =
     plain WorkspaceMountAttachReply (on_co (co_attach_workspace_mount r))"
| "dispatch v (WorkspaceMountDetach i) =
     plain WorkspaceMountDetachReply (on_co (co_detach_workspace_mount i))"

fun runtime_error_text :: "(storage_error \<Rightarrow> string) \<Rightarrow> runtime_error \<Rightarrow> string" where
  "runtime_error_text f (NotFound code message) = message"
| "runtime_error_text f (InvalidState code message) = message"
| "runtime_error_text f (Unsupported code message) = message"
| "runtime_error_text f (Storage e) = ''runtime storage failure: '' @ f e"

definition error_envelope :: "services \<Rightarrow> string \<Rightarrow> runtime_error \<Rightarrow> server_response_envelope" where
  "error_envelope v request_id e =
     Error request_id \<lparr>re_code = error_code e, re_message = runtime_error_text (vc_storage_text v) e,
                       re_retryable = retryable e\<rparr>"

record handled_request =
  hr_response :: server_response_envelope
  hr_events :: "pending_event list"

definition handle_request :: "services \<Rightarrow> client_request_envelope \<Rightarrow> handler_env \<Rightarrow> handled_request \<times> handler_env" where
  "handle_request v envelope s =
     (case dispatch v (qe_request envelope) s of
        (Inr (response, events), t) \<Rightarrow>
          (\<lparr>hr_response = Success (qe_request_id envelope) response, hr_events = events\<rparr>, t)
      | (Inl e, t) \<Rightarrow>
          (\<lparr>hr_response = error_envelope v (qe_request_id envelope) e, hr_events = []\<rparr>, t))"

section \<open>What a request does to the runtime\<close>

definition login_steps :: "login_env \<Rightarrow> login_env \<Rightarrow> bool" where
  "login_steps s t \<longleftrightarrow> co_step\<^sup>*\<^sup>* (lg_runtime s) (lg_runtime t)"

definition runtime_steps :: "handler_env \<Rightarrow> handler_env \<Rightarrow> bool" where
  "runtime_steps s t \<longleftrightarrow> co_step\<^sup>*\<^sup>* (runtime_of s) (runtime_of t)"

interpretation login_order: progress_order login_steps
  by unfold_locales (auto simp: login_steps_def)

interpretation runtime_order: progress_order runtime_steps
  by unfold_locales (auto simp: runtime_steps_def)

lemma steps_runtime: "(\<And>s. co_step s (snd (m s))) \<Longrightarrow> advances login_steps (on_runtime m)"
  by (auto simp: advances_def login_steps_def on_runtime_def split_beta)

lemma steps_web: "advances login_steps (on_web code m)"
  by (auto simp: advances_def login_steps_def on_web_def split: prod.split sum.split)

lemma steps_store: "advances login_steps (store_profile p)"
  unfolding store_profile_def by (intro steps_runtime co_step.intros)

lemma steps_outcomes:
  "(\<And>r. advances R (f r)) \<Longrightarrow> (\<And>r. advances R (g r)) \<Longrightarrow> (\<And>t u. advances R (h t u)) \<Longrightarrow>
     advances R (case_github_copilot_device_poll_outcome f g h outcome)"
  "(\<And>r. advances R (p r)) \<Longrightarrow> (\<And>a. advances R (q a)) \<Longrightarrow>
     advances R (case_minimax_oauth_poll_outcome p q poll)"
  by (cases outcome; simp) (cases poll; simp)

lemmas login_intros = steps_outcomes steps_web steps_store advances_case_prod login_order.advances_intros

lemma steps_logins:
  "advances login_steps (start_openai_codex_oauth_login l r1)"
  "advances login_steps (complete_openai_codex_oauth_login l r2)"
  "advances login_steps (start_gitlab_oauth_login l r3)"
  "advances login_steps (complete_gitlab_oauth_login l r4)"
  "advances login_steps (save_gitlab_pat r5)"
  "advances login_steps (start_github_copilot_device_login l r6)"
  "advances login_steps (poll_github_copilot_device_login l r7)"
  "advances login_steps (start_minimax_oauth_login l r8)"
  "advances login_steps (poll_minimax_oauth_login l r9)"
  unfolding start_openai_codex_oauth_login_def complete_openai_codex_oauth_login_def
    start_gitlab_oauth_login_def complete_gitlab_oauth_login_def save_gitlab_pat_def
    start_github_copilot_device_login_def poll_github_copilot_device_login_def
    start_minimax_oauth_login_def poll_minimax_oauth_login_def Let_def
  by (intro login_intros)+

lemma steps_login: "advances login_steps m \<Longrightarrow> advances runtime_steps (on_login m)"
  by (auto simp: advances_def login_steps_def runtime_steps_def on_login_def split_beta)

lemma steps_co: "(\<And>s. co_step s (snd (m s))) \<Longrightarrow> advances runtime_steps (on_co m)"
  unfolding on_co_def by (intro steps_login steps_runtime)

lemma steps_reading: "advances same_files m \<Longrightarrow> advances runtime_steps (on_co m)"
  by (intro steps_co co_step.intros(25)) (simp add: advances_def)

lemma steps_node: "advances runtime_steps (on_node m)"
  by (auto simp: advances_def runtime_steps_def on_node_def split_beta)

lemma steps_attempt: "advances runtime_steps m \<Longrightarrow> advances runtime_steps (attempt m)"
  by (auto simp: advances_def attempt_def split: prod.splits sum.splits) (metis snd_conv)+

lemma steps_answer:
  "advances runtime_steps m \<Longrightarrow> advances runtime_steps (answer f m)"
  "advances runtime_steps m \<Longrightarrow> advances runtime_steps (plain g m)"
  unfolding plain_def answer_def by (intro runtime_order.advances_intros; assumption)+

lemma reads_on_registry:
  "(\<And>r. snd (m r) = r) \<Longrightarrow> advances same_files (on_registry m)"
  by (auto simp: advances_def on_registry_def split_beta Let_def reads_only.R_refl)

lemma surface_reads:
  "advances same_files (get_thread k)" "advances same_files (list_provider_auth_profiles provider)"
  "advances same_files (list_threads lrq)" "advances same_files build_about_you_surface"
  "advances same_files (read_carrying_surface limit)" "advances same_files (list_knowledge_surface limit)"
  "advances same_files read_people_surface" "advances same_files (asks g)"
  unfolding list_provider_auth_profiles_def list_threads_def build_about_you_surface_def
    read_carrying_surface_def list_knowledge_surface_def read_people_surface_def io_op_defs Let_def
  by (intro reads_intros)+

lemma registry_reads:
  "advances same_files (on_registry (read_node n))" "advances same_files (on_registry (read_workspace_mount w))"
  by (intro reads_on_registry; simp add: read_node_def read_workspace_mount_def run_simps ok_or_def
      split: option.split)+

lemmas reads_ops = recall_reads surface_reads registry_reads

lemmas step_intros = steps_logins [THEN steps_login] reads_ops [THEN steps_reading]
  co_step.intros(1-23) [THEN steps_co] steps_node steps_attempt steps_answer
  advances_case_prod runtime_order.advances_intros

lemma steps_turn_and_thread: "advances runtime_steps (turn_and_thread reply c d t)"
  unfolding turn_and_thread_def by (intro step_intros)

lemma dispatch_steps: "advances runtime_steps (dispatch v r)"
  by (cases r; simp only: dispatch.simps handle_thread_resume_def handle_tool_call_def
      normalize_tool_call_node_def Let_def; intro step_intros steps_turn_and_thread)

lemma handle_request_run:
  "handle_request v q s =
     (case dispatch v (qe_request q) s of
        (Inr (response, events), t) \<Rightarrow>
          (\<lparr>hr_response = Success (qe_request_id q) response, hr_events = events\<rparr>, t)
      | (Inl e, t) \<Rightarrow> (\<lparr>hr_response = error_envelope v (qe_request_id q) e, hr_events = []\<rparr>, t))"
  by (simp add: handle_request_def)

lemma handle_request_steps: "runtime_steps s (snd (handle_request v q s))"
  using dispatch_steps [of v "qe_request q"] unfolding advances_def
  by (auto simp: handle_request_def split: prod.split sum.split) (metis snd_conv)+

section \<open>What is answered\<close>

lemma answer_run:
  "answer f m s = (case m s of (Inl e, t) \<Rightarrow> (Inl e, t) | (Inr a, t) \<Rightarrow> (Inr (f a), t))"
  by (simp add: answer_def bindR_run ret_run split: prod.split sum.split)

lemma answer_Inr: "answer f m s = (Inr x, t) \<longleftrightarrow> (\<exists>a. m s = (Inr a, t) \<and> x = f a)"
  by (auto simp: answer_run split: prod.splits sum.splits)

lemma turn_and_thread_Inr:
  "turn_and_thread reply c d i s = (Inr (p, es), t) \<Longrightarrow> p = reply i"
  by (auto simp: turn_and_thread_def success_iffs)

lemma dispatch_method:
  assumes "dispatch v r s = (Inr (p, es), t)"
  shows "reply_method p = request_method r"
  using assms
  by (cases r) (auto simp: plain_def answer_Inr fail_def handle_thread_resume_def handle_tool_call_def Let_def
      success_iffs dest!: turn_and_thread_Inr split: prod.splits)

text \<open>C9: every request is answered, under its own identifier, by a response of its own method or by an
  error; an error carries the code of what went wrong, invites a retry exactly for failures of the
  storage, and publishes nothing. Whatever the outcome, the runtime moves only by operations of
  the coordinator, so a reachable state stays one.\<close>

theorem request_answered:
  "case handle_request v q s of (h, t) \<Rightarrow>
     ve_request_id (hr_response h) = qe_request_id q \<and>
     (case hr_response h of
        Success i p \<Rightarrow> reply_method p = request_method (qe_request q)
      | Error i x \<Rightarrow> hr_events h = [] \<and>
          (\<exists>e. fst (dispatch v (qe_request q) s) = Inl e \<and> re_code x = error_code e \<and>
               (re_retryable x \<longleftrightarrow> (\<exists>f. e = Storage f)))) \<and>
     co_step\<^sup>*\<^sup>* (runtime_of s) (runtime_of t)"
proof -
  obtain r t where run: "dispatch v (qe_request q) s = (r, t)" by fastforce
  have steps: "co_step\<^sup>*\<^sup>* (runtime_of s) (runtime_of t)"
    using advancesD [OF dispatch_steps [of v "qe_request q"], of s] run by (simp add: runtime_steps_def)
  show ?thesis
  proof (cases r)
    case (Inl e)
    then show ?thesis using run steps
      by (cases e) (simp_all add: handle_request_def error_envelope_def)
  next
    case (Inr x)
    obtain p es where "x = (p, es)" by fastforce
    with run Inr dispatch_method [of v "qe_request q" s p es t] steps show ?thesis
      by (simp add: handle_request_def)
  qed
qed

end
