(* ===== verification/Provider_Resolution.thy ===== *)
theory Provider_Resolution
  imports Providers Handlers
begin

text \<open>
  From an entry of the table to a provider that can be called (\<open>model/config.rs\<close>, with the parts of
  \<open>model/gateway.rs\<close>, \<open>server/mod.rs\<close>, \<open>model/output_budget.rs\<close> and \<open>model/prompt_cache.rs\<close> that read it): the
  override of the configuration, the environment and the rules of each provider give the endpoint, the
  credential, the model, the headers and the metadata. Every rule is a function of the environment but
  the one for \<open>zai\<close>, which may ask the service which endpoint a key belongs to; \<open>cf\<close> says whether the
  client for that can be built.
\<close>

section \<open>Resolved providers\<close>

record resolved_provider =
  rp_spec :: provider_spec
  rp_base_url :: "string option"
  rp_api_key :: "string option"
  rp_model_id :: string
  rp_headers :: "(string \<times> string) list"
  rp_metadata :: "(string \<times> string) list"

type_synonym environment = "string \<Rightarrow> string option"

definition env_first :: "environment \<Rightarrow> string list \<Rightarrow> string option" where
  "env_first env keys = hd_opt (List.map_filter (\<lambda>key. filled (env key)) keys)"

text \<open>\<open>metadata.entry(key).or_insert(value)\<close>.\<close>

definition or_insert :: "string \<Rightarrow> string \<Rightarrow> (string \<times> string) list \<Rightarrow> (string \<times> string) list" where
  "or_insert k v m = (if map_of m k = None then tree_insert k v m else m)"

definition note_meta :: "string \<Rightarrow> string \<Rightarrow> resolved_provider \<Rightarrow> resolved_provider" where
  "note_meta k v p = p\<lparr>rp_metadata := or_insert k v (rp_metadata p)\<rparr>"

definition note_found :: "string \<Rightarrow> string option \<Rightarrow> resolved_provider \<Rightarrow> resolved_provider" where
  "note_found k found p = (case found of None \<Rightarrow> p | Some v \<Rightarrow> note_meta k v p)"

text \<open>What the override says.\<close>

definition given :: "(provider_override \<Rightarrow> 'a option) \<Rightarrow> provider_override option \<Rightarrow> 'a option" where
  "given field ov = Option.bind ov field"

definition given_meta :: "string \<Rightarrow> provider_override option \<Rightarrow> string option" where
  "given_meta k = given (\<lambda>o'. map_of (po_metadata o') k)"

definition own_key :: "provider_override option \<Rightarrow> string option \<Rightarrow> resolved_provider \<Rightarrow> resolved_provider" where
  "own_key ov found p = (if given po_api_key ov = None then p\<lparr>rp_api_key := found\<rparr> else p)"

definition own_url :: "provider_override option \<Rightarrow> string option \<Rightarrow> resolved_provider \<Rightarrow> resolved_provider" where
  "own_url ov found p = (if given po_base_url ov = None then p\<lparr>rp_base_url := found\<rparr> else p)"

definition missing_url :: "string \<Rightarrow> resolved_provider \<Rightarrow> resolved_provider" where
  "missing_url url p = (if rp_base_url p = None then p\<lparr>rp_base_url := Some url\<rparr> else p)"

definition default_model_becomes :: "string \<Rightarrow> resolved_provider \<Rightarrow> resolved_provider" where
  "default_model_becomes m p =
     (if rp_model_id p = psp_default_model (rp_spec p) then p\<lparr>rp_model_id := m\<rparr> else p)"

section \<open>Endpoints by region\<close>

definition resolve_qwen_base_url :: "string \<Rightarrow> string" where
  "resolve_qwen_base_url endpoint =
     (let e = to_lower (trim endpoint)
      in if e \<in> {''coding-cn'', ''cn-coding''} then ''https://coding.dashscope.aliyuncs.com/v1''
         else if e \<in> {''standard-cn'', ''cn-standard'', ''cn''}
         then ''https://dashscope.aliyuncs.com/compatible-mode/v1''
         else if e \<in> {''standard-global'', ''global-standard'', ''standard''}
         then ''https://dashscope-intl.aliyuncs.com/compatible-mode/v1''
         else ''https://coding-intl.dashscope.aliyuncs.com/v1'')"

definition resolve_zai_base_url :: "string \<Rightarrow> string" where
  "resolve_zai_base_url endpoint =
     (let e = to_lower (trim endpoint)
      in if e = ''coding-cn'' then ''https://open.bigmodel.cn/api/coding/paas/v4''
         else if e = ''cn'' then ''https://open.bigmodel.cn/api/paas/v4''
         else if e = ''coding-global'' then ''https://api.z.ai/api/coding/paas/v4''
         else ''https://api.z.ai/api/paas/v4'')"

definition minimax_region_url :: "string \<Rightarrow> string" where
  "minimax_region_url region =
     (if to_lower region = ''cn'' then ''https://api.minimaxi.com/anthropic''
      else ''https://api.minimax.io/anthropic'')"

definition resolve_minimax_base_url :: "provider_lib \<Rightarrow> string \<Rightarrow> string option \<Rightarrow> string" where
  "resolve_minimax_base_url l region host_override =
     (case trimmed host_override of
        None \<Rightarrow> minimax_region_url region
      | Some host \<Rightarrow>
          (case ul_parse (pv_urls l) host of
             Inl _ \<Rightarrow> minimax_region_url region
           | Inr url \<Rightarrow>
               let path = trim_end_of CHR ''/'' (ur_path url); origin = ul_origin (pv_urls l) url
               in if ends_with path ''/anthropic'' then origin @ path
                  else trim_end_of CHR ''/'' origin @ ''/anthropic''))"

definition resolve_stepfun_base_url :: "string \<Rightarrow> string \<Rightarrow> string" where
  "resolve_stepfun_base_url provider region =
     (let cn = (to_lower region = ''cn'')
      in if provider = ''stepfun-plan'' then
           (if cn then ''https://api.stepfun.com/step_plan/v1'' else ''https://api.stepfun.ai/step_plan/v1'')
         else if provider = ''stepfun'' \<and> cn then ''https://api.stepfun.com/v1''
         else ''https://api.stepfun.ai/v1'')"

section \<open>The rules of the providers\<close>

text \<open>The three Azure variants differ in their variables, metadata keys and domain.\<close>

definition resolve_azure_resource ::
  "string \<Rightarrow> string \<Rightarrow> string \<Rightarrow> string \<Rightarrow> string \<Rightarrow> environment \<Rightarrow> resolved_provider \<Rightarrow> resolved_provider" where
  "resolve_azure_resource resource_env resource_key domain deployment_env deployment_key env p =
     (let p1 = (case env resource_env of
                  Some name \<Rightarrow>
                    if rp_base_url p = None
                    then missing_url (''https://'' @ name @ domain) (note_meta resource_key name p) else p
                | None \<Rightarrow> p)
      in case env_first env [deployment_env] of
           None \<Rightarrow> p1
         | Some deployment \<Rightarrow> default_model_becomes deployment (note_meta deployment_key deployment p1))"

definition resolve_azure :: "environment \<Rightarrow> resolved_provider \<Rightarrow> resolved_provider" where
  "resolve_azure =
     resolve_azure_resource ''AZURE_RESOURCE_NAME'' ''azure.resource_name'' ''.openai.azure.com/openai/v1''
       ''AZURE_OPENAI_DEPLOYMENT'' ''azure.deployment''"

definition resolve_azure_cognitive :: "environment \<Rightarrow> resolved_provider \<Rightarrow> resolved_provider" where
  "resolve_azure_cognitive =
     resolve_azure_resource ''AZURE_COGNITIVE_SERVICES_RESOURCE_NAME'' ''azure.cognitive.resource_name''
       ''.cognitiveservices.azure.com/openai/v1'' ''AZURE_COGNITIVE_SERVICES_DEPLOYMENT''
       ''azure.cognitive.deployment''"

definition resolve_foundry :: "environment \<Rightarrow> resolved_provider \<Rightarrow> resolved_provider" where
  "resolve_foundry =
     resolve_azure_resource ''MICROSOFT_FOUNDRY_RESOURCE_NAME'' ''microsoft_foundry.resource_name''
       ''.services.ai.azure.com/openai/v1'' ''MICROSOFT_FOUNDRY_DEPLOYMENT'' ''microsoft_foundry.deployment''"

definition resolve_cloudflare_gateway :: "environment \<Rightarrow> resolved_provider \<Rightarrow> resolved_provider" where
  "resolve_cloudflare_gateway env p =
     (if rp_base_url p \<noteq> None then p
      else case env ''CLOUDFLARE_ACCOUNT_ID'' of
             None \<Rightarrow> p
           | Some account \<Rightarrow>
               let gateway = unwrap_or ''default'' (env ''CLOUDFLARE_GATEWAY_ID'')
               in missing_url (''https://gateway.ai.cloudflare.com/v1/'' @ account @ ''/'' @ gateway @ ''/compat'')
                    (note_meta ''cloudflare.gateway_id'' gateway
                      (note_meta ''cloudflare.account_id'' account p)))"

definition resolve_cloudflare_workers :: "environment \<Rightarrow> resolved_provider \<Rightarrow> resolved_provider" where
  "resolve_cloudflare_workers env p =
     (if rp_base_url p \<noteq> None then p
      else case env ''CLOUDFLARE_ACCOUNT_ID'' of
             None \<Rightarrow> p
           | Some account \<Rightarrow>
               missing_url (''https://api.cloudflare.com/client/v4/accounts/'' @ account @ ''/ai/v1'')
                 (note_meta ''cloudflare.account_id'' account p))"

definition sap_deployment ::
  "sap_ai_core_service_key \<Rightarrow> provider_override option \<Rightarrow> environment \<Rightarrow> resolved_provider \<Rightarrow> resolved_provider" where
  "sap_deployment key ov env p =
     (case opt_or (given_meta ''sap_ai_core.deployment_id'' ov) (env_first env [''AICORE_DEPLOYMENT_ID'']) of
        None \<Rightarrow> p
      | Some deployment \<Rightarrow>
          own_url ov (Some (trim_end_of CHR ''/'' (sk_ai_api_url key) @ ''/v2/inference/deployments/'' @ deployment))
            (default_model_becomes deployment (note_meta ''sap_ai_core.deployment_id'' deployment p)))"

definition resolve_sap ::
  "provider_lib \<Rightarrow> environment \<Rightarrow> provider_override option \<Rightarrow> resolved_provider \<Rightarrow> resolved_provider" where
  "resolve_sap l env ov p =
     (case opt_or (rp_api_key p) (env_first env [''AICORE_SERVICE_KEY'']) of
        None \<Rightarrow> p
      | Some raw \<Rightarrow>
          (case parse_sap_ai_core_service_key l raw of
             Inl _ \<Rightarrow> p
           | Inr key \<Rightarrow>
               note_meta ''sap_ai_core.resource_group''
                 (unwrap_or ''default'' (opt_or (given_meta ''sap_ai_core.resource_group'' ov)
                    (env_first env [''AICORE_RESOURCE_GROUP''])))
                 (sap_deployment key ov env
                   (note_meta ''sap_ai_core.ai_api_url'' (sk_ai_api_url key)
                     (note_meta ''sap_ai_core.oauth_base_url'' (sk_oauth_base_url key)
                       (note_meta ''sap_ai_core.client_secret'' (sk_client_secret key)
                         (note_meta ''sap_ai_core.client_id'' (sk_client_id key)
                           (p\<lparr>rp_api_key := None\<rparr>))))))))"

definition resolve_gitlab ::
  "environment \<Rightarrow> provider_override option \<Rightarrow> resolved_provider \<Rightarrow> resolved_provider" where
  "resolve_gitlab env ov p =
     (let p1 = (case env ''GITLAB_INSTANCE_URL'' of
                  None \<Rightarrow> p
                | Some url \<Rightarrow> missing_url url (note_meta ''gitlab.instance_url'' url p));
          p2 = (case env ''GITLAB_AI_GATEWAY_URL'' of
                  None \<Rightarrow> p1
                | Some url \<Rightarrow> own_url ov (Some url) (note_meta ''gitlab.ai_gateway_url'' url p1))
      in note_found ''gitlab.oauth_client_id'' (env ''GITLAB_OAUTH_CLIENT_ID'') p2)"

definition resolve_codex ::
  "environment \<Rightarrow> provider_override option \<Rightarrow> resolved_provider \<Rightarrow> resolved_provider" where
  "resolve_codex env ov p =
     note_found ''openai_codex.token_url'' (env_first env [''OPENAI_CODEX_TOKEN_URL''])
       (note_found ''openai_codex.email'' (env_first env [''OPENAI_CODEX_EMAIL''])
         (note_found ''openai_codex.account_id'' (env_first env [''OPENAI_CODEX_ACCOUNT_ID''])
           (note_found ''openai_codex.expires_at_ms'' (env_first env [''OPENAI_CODEX_EXPIRES_AT_MS''])
             (note_found ''openai_codex.refresh_token'' (env_first env [''OPENAI_CODEX_REFRESH_TOKEN''])
               (p\<lparr>rp_api_key := opt_or (given po_api_key ov) (env_first env [''OPENAI_CODEX_ACCESS_TOKEN''])\<rparr>)))))"

definition resolve_vertex :: "environment \<Rightarrow> resolved_provider \<Rightarrow> resolved_provider" where
  "resolve_vertex env p =
     note_found ''google.location''
       (env_first env [''GOOGLE_VERTEX_LOCATION'', ''GOOGLE_CLOUD_LOCATION'', ''VERTEX_LOCATION''])
       (note_found ''google.project''
         (env_first env [''GOOGLE_CLOUD_PROJECT'', ''GCP_PROJECT'', ''GCLOUD_PROJECT'']) p)"

definition note_aws_chain :: "resolved_provider \<Rightarrow> resolved_provider" where
  "note_aws_chain p =
     (if psp_auth_kind (rp_spec p) = AwsCredentialChain \<and> rp_api_key p = None
      then note_meta ''aws.auth'' ''credential-chain-or-bearer-token'' p else p)"

definition resolve_bedrock ::
  "environment \<Rightarrow> provider_override option \<Rightarrow> resolved_provider \<Rightarrow> resolved_provider" where
  "resolve_bedrock env ov p =
     note_aws_chain
       (note_found ''aws.profile'' (env_first env [''AWS_PROFILE''])
         (note_found ''aws.region'' (env_first env [''AWS_REGION'', ''AWS_DEFAULT_REGION''])
           (own_key ov (env_first env [''AWS_BEARER_TOKEN_BEDROCK'']) p)))"

definition resolve_mantle ::
  "environment \<Rightarrow> provider_override option \<Rightarrow> resolved_provider \<Rightarrow> resolved_provider" where
  "resolve_mantle env ov p =
     (let region = unwrap_or ''us-east-1'' (env_first env [''AWS_REGION'', ''AWS_DEFAULT_REGION''])
      in note_aws_chain
           (missing_url (''https://bedrock-mantle.'' @ region @ ''.api.aws/v1'')
             (note_found ''aws.profile'' (env_first env [''AWS_PROFILE''])
               (note_meta ''aws.region'' region
                 (own_key ov (env_first env [''AWS_BEARER_TOKEN_BEDROCK'']) p)))))"

definition resolve_qwen ::
  "environment \<Rightarrow> provider_override option \<Rightarrow> resolved_provider \<Rightarrow> resolved_provider" where
  "resolve_qwen env ov p0 =
     (let p = own_key ov (env_first env [''QWEN_API_KEY'', ''MODELSTUDIO_API_KEY'', ''DASHSCOPE_API_KEY'']) p0
      in case opt_or (given_meta ''qwen.endpoint'' ov)
                (env_first env [''QWEN_ENDPOINT'', ''MODELSTUDIO_ENDPOINT'', ''DASHSCOPE_ENDPOINT'']) of
           None \<Rightarrow> p
         | Some e \<Rightarrow> own_url ov (Some (resolve_qwen_base_url e)) (note_meta ''qwen.endpoint'' e p))"

definition resolve_kimi ::
  "environment \<Rightarrow> provider_override option \<Rightarrow> resolved_provider \<Rightarrow> resolved_provider" where
  "resolve_kimi env ov p = own_key ov (env_first env [''KIMI_API_KEY'', ''KIMICODE_API_KEY'']) p"

definition zai_endpoint_found :: "zai_detected_endpoint \<Rightarrow> resolved_provider \<Rightarrow> resolved_provider" where
  "zai_endpoint_found d p =
     default_model_becomes (zd_model_id d)
       ((note_meta ''zai.endpoint'' (zd_endpoint d) p)
          \<lparr>rp_base_url := Some (resolve_zai_base_url (zd_endpoint d))\<rparr>)"

definition resolve_zai ::
  "string option \<Rightarrow> environment \<Rightarrow> provider_override option \<Rightarrow> resolved_provider \<Rightarrow> resolved_provider web_run" where
  "resolve_zai cf env ov p0 =
     (let p = own_key ov (env_first env [''ZAI_API_KEY'', ''Z_AI_API_KEY'']) p0
      in case opt_or (given_meta ''zai.endpoint'' ov) (env_first env [''ZAI_ENDPOINT'']) of
           Some e \<Rightarrow> ret (own_url ov (Some (resolve_zai_base_url e)) (note_meta ''zai.endpoint'' e p))
         | None \<Rightarrow>
             (case rp_api_key p of
                None \<Rightarrow> ret p
              | Some key \<Rightarrow>
                  if given po_base_url ov \<noteq> None then ret p
                  else bindR (attempt (detect_zai_endpoint cf key None)) (\<lambda>found.
                       ret (case found of Some (Some d) \<Rightarrow> zai_endpoint_found d p | _ \<Rightarrow> p))))"

definition resolve_stepfun ::
  "environment \<Rightarrow> provider_override option \<Rightarrow> resolved_provider \<Rightarrow> resolved_provider" where
  "resolve_stepfun env ov p =
     (let region = unwrap_or ''intl'' (env_first env [''STEPFUN_REGION''])
      in own_url ov (Some (resolve_stepfun_base_url (psp_id (rp_spec p)) region))
           (note_meta ''stepfun.region'' region (own_key ov (env_first env [''STEPFUN_API_KEY'']) p)))"

definition minimax_region :: "environment \<Rightarrow> provider_override option \<Rightarrow> string" where
  "minimax_region env ov =
     unwrap_or ''global'' (opt_or (given_meta ''minimax.region'' ov) (env_first env [''MINIMAX_REGION'']))"

definition resolve_minimax ::
  "provider_lib \<Rightarrow> environment \<Rightarrow> provider_override option \<Rightarrow> resolved_provider \<Rightarrow> resolved_provider" where
  "resolve_minimax l env ov p =
     (let region = minimax_region env ov
      in own_url ov (Some (resolve_minimax_base_url l region (env_first env [''MINIMAX_API_HOST''])))
           (note_meta ''minimax.region'' region (own_key ov (env_first env [''MINIMAX_API_KEY'']) p)))"

definition resolve_minimax_portal ::
  "provider_lib \<Rightarrow> environment \<Rightarrow> provider_override option \<Rightarrow> resolved_provider \<Rightarrow> resolved_provider" where
  "resolve_minimax_portal l env ov p0 =
     (let region = minimax_region env ov;
          p = note_found ''minimax.resource_url'' (env_first env [''MINIMAX_RESOURCE_URL''])
                (note_found ''minimax.oauth.expires_at_ms'' (env_first env [''MINIMAX_OAUTH_EXPIRES_AT_MS''])
                  (note_found ''minimax.oauth.refresh_token'' (env_first env [''MINIMAX_OAUTH_REFRESH_TOKEN''])
                    (note_meta ''minimax.region'' region
                      (own_key ov (env_first env [''MINIMAX_OAUTH_TOKEN'', ''MINIMAX_API_KEY'']) p0))))
      in own_url ov (opt_or (map_of (rp_metadata p) ''minimax.resource_url'')
           (Some (resolve_minimax_base_url l region None))) p)"

section \<open>Resolution\<close>

text \<open>Before the rules of the provider.\<close>

definition resolution_start ::
  "environment \<Rightarrow> provider_spec \<Rightarrow> provider_override option \<Rightarrow> resolved_provider" where
  "resolution_start env s ov =
     \<lparr>rp_spec = s,
      rp_base_url = opt_or (given po_base_url ov) (psp_default_base_url s),
      rp_api_key = opt_or (given po_api_key ov) (env_first env (credential_env_keys s)),
      rp_model_id = unwrap_or (psp_default_model s) (given po_model_id ov),
      rp_headers = tree_extend (default_headers s) (case ov of None \<Rightarrow> [] | Some o' \<Rightarrow> po_headers o'),
      rp_metadata = tree_of (case ov of None \<Rightarrow> [] | Some o' \<Rightarrow> po_metadata o')\<rparr>"

text \<open>The rules of every provider but \<open>zai\<close>.\<close>

definition provider_rules ::
  "provider_lib \<Rightarrow> environment \<Rightarrow> provider_override option \<Rightarrow> resolved_provider \<Rightarrow> resolved_provider" where
  "provider_rules l env ov p =
     (let i = psp_id (rp_spec p)
      in if i = ''azure'' then resolve_azure env p
         else if i = ''azure-cognitive-services'' then resolve_azure_cognitive env p
         else if i = ''microsoft-foundry'' then resolve_foundry env p
         else if i = ''cloudflare-ai-gateway'' then resolve_cloudflare_gateway env p
         else if i = ''cloudflare-workers-ai'' then resolve_cloudflare_workers env p
         else if i = ''sap-ai-core'' then resolve_sap l env ov p
         else if i = ''gitlab'' then resolve_gitlab env ov p
         else if i = ''openai-codex'' then resolve_codex env ov p
         else if i \<in> {''google-vertex'', ''google-vertex-anthropic'', ''anthropic-vertex''}
         then resolve_vertex env p
         else if i = ''amazon-bedrock'' then resolve_bedrock env ov p
         else if i = ''amazon-bedrock-mantle'' then resolve_mantle env ov p
         else if i = ''qwen'' then resolve_qwen env ov p
         else if i = ''kimi'' then resolve_kimi env ov p
         else if i \<in> {''stepfun'', ''stepfun-plan''} then resolve_stepfun env ov p
         else if i = ''minimax'' then resolve_minimax l env ov p
         else if i = ''minimax-portal'' then resolve_minimax_portal l env ov p
         else p)"

definition from_spec ::
  "provider_lib \<Rightarrow> string option \<Rightarrow> provider_spec \<Rightarrow> provider_override option \<Rightarrow> resolved_provider web_run" where
  "from_spec l cf s ov =
     bindR (asks wb_env) (\<lambda>env.
     let p = resolution_start env s ov
     in if psp_id s = ''zai'' then resolve_zai cf env ov p
        else ret (provider_rules l env ov p))"

section \<open>The gateway\<close>

text \<open>\<open>simulate\<close> is set by tests only.\<close>

definition resolve_primary_provider ::
  "provider_lib \<Rightarrow> string option \<Rightarrow> bool \<Rightarrow> model_gateway_config \<Rightarrow> resolved_provider web_run" where
  "resolve_primary_provider l cf simulate g =
     (case registered_provider (gc_primary_provider g) of
        None \<Rightarrow> fail (UnsupportedProvider (gc_primary_provider g))
      | Some s \<Rightarrow>
          if \<not> simulate \<and> \<not> is_runtime_ready s
          then fail (UnsupportedProvider
                 (''provider '' @ psp_id s @ '' is not yet implemented for live runtime use''))
          else from_spec l cf s (map_of (gc_overrides g) (gc_primary_provider g)))"

definition primary_capabilities :: "model_gateway_config \<Rightarrow> model_capabilities" where
  "primary_capabilities g =
     psp_capabilities (unwrap_or (the (registered_provider ''openai''))
       (registered_provider (gc_primary_provider g)))"

definition resolved_tool_protocol :: "resolved_provider \<Rightarrow> provider_tool_protocol" where
  "resolved_tool_protocol p =
     (let s = rp_spec p; c = psp_capabilities s
      in if psp_family s = GitLabDuo \<and> mcp_structured_tool_protocol c then StructuredFallback
         else if mcp_native_tool_calls c then NativeTools else StructuredFallback)"

definition turn_tool_surface :: "resolved_provider \<Rightarrow> model_turn_request \<Rightarrow> tool_surface_spec" where
  "turn_tool_surface p rq =
     (case mtr_tool_surface_mode rq of
        StandardSurface \<Rightarrow> standard_surface (resolved_tool_protocol p)
      | ConversationOnlySurface \<Rightarrow> conversation_only_surface (resolved_tool_protocol p))"

definition provider_summary :: "(string \<times> string) list" where
  "provider_summary = map (\<lambda>(i, s). (i, transport_label (psp_family s))) provider_registry"

section \<open>Readiness\<close>

definition credential_hints_for_spec :: "provider_spec \<Rightarrow> string list" where
  "credential_hints_for_spec s =
     foldl (\<lambda>hints k. if k \<in> set hints then hints else hints @ [k]) (credential_env_keys s)
       (concat (map pas_config_keys (psp_auth_strategies s)))"

definition status_of_resolved :: "string \<Rightarrow> resolved_provider \<Rightarrow> model_status_response" where
  "status_of_resolved i p =
     (let s = rp_spec p; hints = credential_hints_for_spec s;
          configured = (rp_api_key p \<noteq> None \<or> psp_auth_kind s = LocalAuth
                        \<or> (\<exists>(k, v) \<in> set (rp_metadata p). \<not> blank v))
      in \<lparr>ms_provider_id = i, ms_display_name = Some (psp_display_name s), ms_model_id = Some (rp_model_id p),
          ms_auth_kind = Some (auth_kind_label (psp_auth_kind s)), ms_ready = configured,
          ms_credential_configured = configured, ms_credential_hints = hints,
          ms_notes = psp_notes s
            @ (if configured then [] else [''Configure credentials with '' @ join '' or '' hints])\<rparr>)"

definition status_of_error :: "string \<Rightarrow> model_error \<Rightarrow> model_status_response" where
  "status_of_error i e =
     (case registered_provider i of
        None \<Rightarrow>
          \<lparr>ms_provider_id = i, ms_display_name = None, ms_model_id = None, ms_auth_kind = None,
           ms_ready = False, ms_credential_configured = False, ms_credential_hints = [],
           ms_notes = [model_error_text e]\<rparr>
      | Some s \<Rightarrow>
          \<lparr>ms_provider_id = i, ms_display_name = Some (psp_display_name s),
           ms_model_id = Some (psp_default_model s),
           ms_auth_kind = Some (auth_kind_label (psp_auth_kind s)), ms_ready = False,
           ms_credential_configured = False, ms_credential_hints = credential_hints_for_spec s,
           ms_notes = [model_error_text e]\<rparr>)"

definition model_status_from_gateway ::
  "provider_lib \<Rightarrow> string option \<Rightarrow> model_gateway_config \<Rightarrow> web \<Rightarrow> model_status_response \<times> web" where
  "model_status_from_gateway l cf g w =
     (case resolve_primary_provider l cf False g w of
        (Inr p, w') \<Rightarrow> (status_of_resolved (gc_primary_provider g) p, w')
      | (Inl e, w') \<Rightarrow> (status_of_error (gc_primary_provider g) e, w'))"

section \<open>Budgets and caching\<close>

definition output_budget :: "resolved_provider \<Rightarrow> nat" where
  "output_budget p = max 1024 (min 32000 (mcp_max_context_window (psp_capabilities (rp_spec p)) div 4))"

record prompt_cache_policy =
  pcp_cached_content :: "string option"
  pcp_anthropic_ephemeral :: bool
  pcp_openai_cache_retention :: "string option"
  pcp_openai_prompt_cache_key :: "string option"

definition prompt_cache_policy_for :: "resolved_provider \<Rightarrow> prompt_cache_policy" where
  "prompt_cache_policy_for p =
     (let meta = map_of (rp_metadata p); s = rp_spec p; caching = mcp_prompt_caching (psp_capabilities s)
      in \<lparr>pcp_cached_content = filled (opt_or (meta ''google.cached_content'') (meta ''google.cachedContent'')),
          pcp_anthropic_ephemeral =
            (caching \<and> psp_family s \<in> {AnthropicMessages, GoogleVertexAnthropic}),
          pcp_openai_cache_retention =
            (if caching \<and> psp_family s \<in> {OpenAiResponses, OpenAiCompatible}
             then Some (unwrap_or ''ephemeral'' (opt_or (meta ''prompt_cache.retention'') (meta ''cache_retention'')))
             else None),
          pcp_openai_prompt_cache_key =
            filled (opt_or (meta ''prompt_cache.key'') (meta ''prompt_cache_key''))\<rparr>)"

end
