(* ===== verification/Memory_Prompt.thy ===== *)
theory Memory_Prompt
  imports Memory Web
begin

text \<open>
  The prompt that asks a language model to compile the memory of a thread (\<open>runtime/memory.rs\<close>:
  \<open>render_memory_compilation_prompt\<close>). What it shows is a JSON value; the text \<open>serde_json\<close> writes for
  one is a parameter.
\<close>

record memory_compilation_prompt =
  mp_system_prompt :: string
  mp_developer_prompt :: string
  mp_user_prompt :: string

section \<open>Values as JSON\<close>

definition json_option :: "string option \<Rightarrow> json" where
  "json_option v = (case v of None \<Rightarrow> JNull | Some s \<Rightarrow> JString s)"

definition json_strings :: "string list \<Rightarrow> json" where
  "json_strings ss = JArray (map JString ss)"

text \<open>The names \<open>rename_all = "snake_case"\<close> gives.\<close>

fun fact_kind_name :: "memory_fact_kind \<Rightarrow> string" where
  "fact_kind_name memory_fact_kind.Identity = ''identity''"
| "fact_kind_name memory_fact_kind.ActiveState = ''active_state''"
| "fact_kind_name memory_fact_kind.Commitment = ''commitment''"
| "fact_kind_name memory_fact_kind.Decision = ''decision''"
| "fact_kind_name memory_fact_kind.Topic = ''topic''"
| "fact_kind_name memory_fact_kind.ProcedureCandidate = ''procedure_candidate''"
| "fact_kind_name memory_fact_kind.Keyword = ''keyword''"

fun thread_status_name :: "thread_status \<Rightarrow> string" where
  "thread_status_name thread_status.Active = ''active''"
| "thread_status_name thread_status.WaitingApproval = ''waiting_approval''"
| "thread_status_name thread_status.Interrupted = ''interrupted''"
| "thread_status_name thread_status.Completed = ''completed''"
| "thread_status_name thread_status.Failed = ''failed''"
| "thread_status_name thread_status.Archived = ''archived''"

section \<open>The prompt\<close>

definition fact_json :: "stored_memory_fact \<Rightarrow> json" where
  "fact_json f = JObject
     [(''kind'', JString (fact_kind_name (sf_kind f))), (''subject'', JString (sf_subject f)),
      (''value'', JString (sf_value f)), (''keywords'', json_strings (sf_keywords f))]"

definition shown_facts :: "stored_memory_fact list \<Rightarrow> stored_memory_fact list" where
  "shown_facts fs = take 12 (filter (\<lambda>f. sf_invalidated_at f = None) fs)"

definition entry_json :: "nat \<times> turn_log_entry \<Rightarrow> json" where
  "entry_json x = (case x of (n, e) \<Rightarrow> JObject
     [(''citation_index'', JInt (int n)), (''event'', JString (le_event e)),
      (''summary'', JString (le_summary e)), (''turn_id'', json_option (le_turn_id e)),
      (''artifact_ids'', json_strings (le_artifact_ids e))])"

definition citation_json :: "nat \<times> memory_citation_ref \<Rightarrow> json" where
  "citation_json x = (case x of (n, c) \<Rightarrow> JObject
     [(''citation_index'', JInt (int n)), (''thread_id'', JString (ci_thread_id c)),
      (''turn_id'', json_option (ci_turn_id c)), (''artifact_id'', json_option (ci_artifact_id c)),
      (''note'', JString (ci_note c))])"

definition output_schema :: json where
  "output_schema = JObject
     [(''identity_summary_update'', JString ''string|null''),
      (''active_state_summary'', JString ''string|null''),
      (''recent_topics'', json_strings [''string'']), (''recent_keywords'', json_strings [''string'']),
      (''commitments'', json_strings [''string'']), (''candidate_procedures'', json_strings [''string'']),
      (''durable_facts'', JArray [JObject
         [(''kind'', JString
             ''identity|active_state|commitment|decision|topic|procedure_candidate|keyword|null''),
          (''subject'', JString ''stable fact subject''), (''value'', JString ''fact value''),
          (''keywords'', json_strings [''string''])]]),
      (''invalidation_candidates'', json_strings [''existing fact subject''])]"

definition compilation_payload :: "memory_compilation_input \<Rightarrow> json" where
  "compilation_payload input =
     (let th = mi_thread input in
      JObject
       [(''thread'', JObject
          [(''id'', JString (th_id th)), (''title'', JString (th_title th)),
           (''status'', JString (thread_status_name (th_status th))),
           (''active_goal'', json_option (th_active_goal th)),
           (''active_summary'', json_option (th_active_summary th)),
           (''pending_commitments'', json_strings (th_pending_commitments th))]),
        (''recent_entries'', JArray (map entry_json (enumerate 0 (mi_recent_entries input)))),
        (''existing_facts'', JArray (map fact_json (shown_facts (mi_existing_facts input)))),
        (''citations'', JArray (map citation_json (enumerate 0 (mi_citations input)))),
        (''output_schema'', output_schema)])"

definition render_memory_compilation_prompt ::
  "(json \<Rightarrow> string) \<Rightarrow> memory_compilation_input \<Rightarrow> memory_compilation_prompt" where
  "render_memory_compilation_prompt to_text input =
     \<lparr>mp_system_prompt = ''You are liz'' @ [CHR 0x27] @ ''s private memory compiler. Return only strict JSON.'',
      mp_developer_prompt =
        ''Compile durable memory from cited conversation evidence. ''
        @ ''Do not invent identity facts. Only include identity_summary_update when the ''
        @ ''recent entries explicitly support it. Prefer concise facts, current commitments, ''
        @ ''topic labels, keyword recall hints, reusable procedure candidates, and existing ''
        @ ''fact subjects that should be invalidated.'',
      mp_user_prompt = to_text (compilation_payload input)\<rparr>"

definition build_compilation_prompt ::
  "(json \<Rightarrow> string) \<Rightarrow> thread_id \<Rightarrow> ('z, memory_compilation_prompt) rt" where
  "build_compilation_prompt to_text k =
     bindR (build_compilation_input k) (\<lambda>input. ret (render_memory_compilation_prompt to_text input))"

section \<open>Facts\<close>

text \<open>The prompt numbers the recent entries from zero under the name \<open>citation_index\<close>, but only the first
  four of them, the oldest, are among the citations: the indexes of the others refer to nothing.\<close>

lemma newest_entries_uncited:
  assumes "build_compilation_input k s = (Inr input, t)"
  shows "length (mi_citations input) = min 4 (length (mi_recent_entries input))"
    and "map ci_note (mi_citations input) = map le_summary (take 4 (mi_recent_entries input))"
  using assms by (auto simp: build_compilation_input_def citations_from_entries_def run_simps Let_def
      take_map split: sum.splits prod.splits)

text \<open>Only live facts are shown, at most twelve.\<close>

lemma shown_facts_live:
  "f \<in> set (shown_facts fs) \<Longrightarrow> f \<in> set fs \<and> sf_invalidated_at f = None"
  by (auto simp: shown_facts_def dest: in_set_takeD)

end
