(* ===== verification/Server.thy ===== *)
theory Server
  imports Provider_Resolution Memory_Prompt Handlers Lifecycle
begin

text \<open>
  The application server (\<open>server/mod.rs\<close>): a request is handled, its events are published, and then the
  server acts on it: a started turn is rated and either waits for an approval or is run; a decided
  approval resumes or cancels its turn; a turn that ends has its memory compiled. Running a turn is a
  loop of model calls, each of which ends the turn or asks for tools whose results are injected into
  the next. The loop may run for ever, so the operations that contain it return an \<open>option\<close>.

  The state keeps every call of the model in \<open>sv_calls\<close>; nothing reads it but the number of calls, which
  tells the answers of the service apart. The answers, the text of a JSON value and whether an HTTP
  client can be built are fields of \<open>server_services\<close>.
\<close>

record server_services =
  vs_services :: services
  vs_model :: model_service
  vs_text :: "json \<Rightarrow> string"
  vs_result :: "tool_result \<Rightarrow> json option"
  vs_delta :: "string \<Rightarrow> string + memory_compilation_delta"
  vs_client_failure :: "string option"

record app_server =
  sv_env :: handler_env
  sv_bus :: event_bus
  sv_gateway :: model_gateway_config
  sv_approval_policy :: approval_policy
  sv_calls :: "(model_gateway_config \<times> model_turn_request) list"

type_synonym 'a server_run = "(unit, app_server, 'a) run"

definition new_server ::
  "coordinator \<Rightarrow> web \<Rightarrow> node_executor \<Rightarrow> (nat \<Rightarrow> nat) \<Rightarrow> model_gateway_config \<Rightarrow> app_server" where
  "new_server c w x clk g =
     \<lparr>sv_env = \<lparr>he_login = \<lparr>lg_runtime = c, lg_web = w\<rparr>, he_node = x\<rparr>, sv_bus = event_bus_new clk,
      sv_gateway = g, sv_approval_policy = OnRequest, sv_calls = []\<rparr>"

text \<open>An operation below the server, with its result; and the same under \<open>let Ok(..) = .. else { return }\<close>.\<close>

definition on_env :: "'a handler_run \<Rightarrow> (runtime_error + 'a) server_run" where
  "on_env m s = (case m (sv_env s) of (r, e) \<Rightarrow> (Inr r, s\<lparr>sv_env := e\<rparr>))"

definition or_return :: "'a handler_run \<Rightarrow> 'a server_run" where
  "or_return m = bindR (on_env m) (\<lambda>r. case r of Inl e \<Rightarrow> fail () | Inr a \<Rightarrow> ret a)"

definition announce :: "pending_event \<Rightarrow> unit server_run" where
  "announce p = modify (\<lambda>s. s\<lparr>sv_bus := snd (publish p (sv_bus s))\<rparr>)"

definition announce_all :: "pending_event list \<Rightarrow> unit server_run" where
  "announce_all ps = modify (\<lambda>s. s\<lparr>sv_bus := snd (publish_all ps (sv_bus s))\<rparr>)"

section \<open>The gateway with the stored credentials\<close>

definition provider_groups :: "provider_auth_profile list \<Rightarrow> (string \<times> provider_auth_profile list) list" where
  "provider_groups ps =
     foldl (\<lambda>m p. tree_insert (pf_provider_id p) (unwrap_or [] (map_of m (pf_provider_id p)) @ [p]) m) [] ps"

definition default_profile :: "string \<times> provider_auth_profile list \<Rightarrow> provider_auth_profile option" where
  "default_profile g =
     (case g of (i, ps) \<Rightarrow>
        let sorted = sort_by (le_on pf_profile_id) ps
        in opt_or (find (\<lambda>p. pf_profile_id p = i @ '':default'') sorted) (hd_opt sorted))"

definition select_default_auth_profiles :: "provider_auth_profile list \<Rightarrow> provider_auth_profile list" where
  "select_default_auth_profiles ps = List.map_filter default_profile (provider_groups ps)"

definition entry :: "string \<Rightarrow> string option \<Rightarrow> (string \<times> string) list" where
  "entry k v = (case v of None \<Rightarrow> [] | Some x \<Rightarrow> [(k, x)])"

definition oauth_metadata ::
  "string \<Rightarrow> string option \<Rightarrow> nat option \<Rightarrow> string option \<Rightarrow> string option \<Rightarrow> (string \<times> string) list" where
  "oauth_metadata provider refresh expires account email =
     (case refresh of
        None \<Rightarrow> []
      | Some token \<Rightarrow>
          if provider = ''openai-codex'' then
            (''openai_codex.refresh_token'', token)
            # entry ''openai_codex.expires_at_ms'' (map_option show_dec expires)
            @ entry ''openai_codex.account_id'' account
            @ entry ''openai_codex.email'' email
          else if provider = ''gitlab'' then
            [(''gitlab.auth_mode'', ''oauth''), (''gitlab.oauth.refresh_token'', token)]
            @ entry ''gitlab.oauth.expires_at_ms'' (map_option show_dec expires)
          else [(''oauth.refresh_token'', token)])"

definition provider_override_from_auth_profile :: "provider_auth_profile \<Rightarrow> provider_override" where
  "provider_override_from_auth_profile p =
     (case pf_credential p of
        ApiKey key \<Rightarrow> no_override\<lparr>po_api_key := Some key\<rparr>
      | OAuth access refresh expires account email \<Rightarrow>
          no_override\<lparr>po_api_key := Some access,
            po_metadata := tree_of (oauth_metadata (pf_provider_id p) refresh expires account email)\<rparr>
      | Token token expires metadata \<Rightarrow>
          no_override\<lparr>po_api_key := Some token,
            po_metadata := tree_of (metadata
              @ (if pf_provider_id p = ''minimax-portal''
                 then entry ''minimax.oauth.expires_at_ms'' (map_option show_dec expires) else [])
              @ entry ''auth.expires_at_ms'' (map_option show_dec expires))\<rparr>)"

definition gateway_with_provider_auth_profiles :: "model_gateway_config server_run" where
  "gateway_with_provider_auth_profiles =
     bindR (asks sv_gateway) (\<lambda>g.
     bindR (on_env (on_co read_auth_profiles)) (\<lambda>r.
     ret (case r of
            Inl e \<Rightarrow> g
          | Inr ps \<Rightarrow>
              foldl (\<lambda>g p. with_provider_override (pf_provider_id p)
                             (provider_override_from_auth_profile p) g)
                g (select_default_auth_profiles ps))))"

definition on_web :: "(web \<Rightarrow> 'a \<times> web) \<Rightarrow> 'a server_run" where
  "on_web f s =
     (case f (lg_web (he_login (sv_env s))) of
        (a, w) \<Rightarrow> (Inr a, s\<lparr>sv_env := (sv_env s)\<lparr>he_login := (he_login (sv_env s))\<lparr>lg_web := w\<rparr>\<rparr>\<rparr>))"

definition model_status :: "server_services \<Rightarrow> model_status_response server_run" where
  "model_status v =
     bindR gateway_with_provider_auth_profiles (\<lambda>g.
     on_web (model_status_from_gateway (vc_lib (vs_services v)) (vs_client_failure v) g))"

definition call_model ::
  "server_services \<Rightarrow> model_gateway_config \<Rightarrow> model_turn_request \<Rightarrow> model_outcome server_run" where
  "call_model v g rq =
     bindR (asks (\<lambda>s. vs_model v (length (sv_calls s)) g rq)) (\<lambda>outcome.
     bindR (modify (\<lambda>s. s\<lparr>sv_calls := sv_calls s @ [(g, rq)]\<rparr>)) (\<lambda>_. ret outcome))"

section \<open>Memory at the end of a turn\<close>

text \<open>\<open>complete_text\<close> over the gateway's run.\<close>

definition complete_text ::
  "server_services \<Rightarrow> model_gateway_config \<Rightarrow> memory_compilation_prompt \<Rightarrow> (model_error + string) server_run" where
  "complete_text v g p =
     bindR (call_model v g (text_request (mp_system_prompt p) (mp_developer_prompt p) (mp_user_prompt p)))
       (\<lambda>(events, outcome). ret (completed_text outcome))"

definition compile_memory_for_thread_with_model ::
  "server_services \<Rightarrow> thread_id \<Rightarrow> memory_compilation_summary server_run" where
  "compile_memory_for_thread_with_model v k =
     bindR (or_return (on_co (build_compilation_prompt (vs_text v) k))) (\<lambda>prompt.
     bindR gateway_with_provider_auth_profiles (\<lambda>g.
     bindR (complete_text v g prompt) (\<lambda>r.
     case r of
       Inl e \<Rightarrow> fail ()
     | Inr raw \<Rightarrow> or_return (on_co (compile_thread_from_llm_output (vs_delta v) k raw)))))"

definition compile_memory_for_thread_summary ::
  "server_services \<Rightarrow> thread_id \<Rightarrow> memory_compilation_summary option server_run" where
  "compile_memory_for_thread_summary v k =
     bindR (attempt (compile_memory_for_thread_with_model v k)) (\<lambda>found.
     case found of
       Some c \<Rightarrow> ret (Some c)
     | None \<Rightarrow> attempt (or_return (on_co (compile_thread k))))"

definition publish_memory_compilation_events ::
  "thread_id \<Rightarrow> turn_id option \<Rightarrow> memory_compilation_summary \<Rightarrow> unit server_run" where
  "publish_memory_compilation_events k i c =
     bindR (announce_all (compilation_events k i c)) (\<lambda>_.
     bindR (on_env (on_co (summarize_dreaming k))) (\<lambda>r.
     case r of
       Inr (Some summary) \<Rightarrow> announce (pending k i (MemoryDreamingCompleted summary))
     | _ \<Rightarrow> ret ()))"

definition compile_memory_for_thread ::
  "server_services \<Rightarrow> thread_id \<Rightarrow> turn_id option \<Rightarrow> unit server_run" where
  "compile_memory_for_thread v k i =
     bindR (compile_memory_for_thread_summary v k) (\<lambda>found.
     case found of None \<Rightarrow> ret () | Some c \<Rightarrow> publish_memory_compilation_events k i c)"

section \<open>Events of a model run\<close>

definition local_thread_execution_scope :: "thread_id \<Rightarrow> (node_id \<times> workspace_mount_id option) server_run" where
  "local_thread_execution_scope k =
     bindR (on_env (on_co (thread_execution_scope k))) (\<lambda>r.
     ret (case r of Inl e \<Rightarrow> (''local'', None) | Inr scope \<Rightarrow> scope))"

definition apply_output_policy :: "interaction_context option \<Rightarrow> string \<Rightarrow> string" where
  "apply_output_policy ic message =
     (case ic of
        None \<Rightarrow> message
      | Some context \<Rightarrow>
          (case check_output context message of
             Allowed \<Rightarrow> message
           | Redacted redacted \<Rightarrow> redacted
           | NeedsOwnerConfirmation reason \<Rightarrow>
               ''I need owner confirmation before sharing this response. '' @ reason
           | Denied reason \<Rightarrow> ''I cannot share that response in this interaction. '' @ reason))"

definition handle_model_event ::
  "thread_id \<Rightarrow> turn_id \<Rightarrow> interaction_context option \<Rightarrow> normalized_turn_event \<Rightarrow> unit server_run" where
  "handle_model_event k i ic e =
     (case e of
        AssistantDelta chunk \<Rightarrow>
          announce (pending k (Some i) (AssistantChunk
            \<lparr>ace_chunk = chunk, ace_stream_id = Some ''primary'', ace_is_final = False\<rparr>))
      | AssistantMessage message \<Rightarrow>
          announce (pending k (Some i) (AssistantCompleted (apply_output_policy ic message)))
      | CallStarted c tool summary \<Rightarrow>
          announce (pending k (Some i) (ToolCallStarted
            \<lparr>tse_call_id = c, tse_tool_name = tool, tse_summary = summary\<rparr>))
      | CallDelta c tool delta preview \<Rightarrow>
          announce (pending k (Some i) (ToolCallUpdated
            \<lparr>tue_call_id = c, tue_tool_name = tool, tue_delta_summary = delta, tue_preview = preview\<rparr>))
      | CallCommitted c tool arguments \<Rightarrow>
          bindR (local_thread_execution_scope k) (\<lambda>(node, mount).
          announce (pending k (Some i) (ToolCallCommitted
            \<lparr>tme_call_id = c, tme_tool_name = tool, tme_arguments_summary = arguments,
             tme_risk_hint = None, tme_node_id = Some node, tme_workspace_mount_id = mount\<rparr>)))
      | _ \<Rightarrow> ret ())"

section \<open>Tool calls of the model\<close>

definition error_json :: "string \<Rightarrow> json" where
  "error_json message = JObject [(''error'', JString message)]"

definition injection :: "provider_tool_call \<Rightarrow> json \<Rightarrow> bool \<Rightarrow> string \<Rightarrow> tool_result_injection" where
  "injection call result failed summary =
     \<lparr>tri_call_id = ptc_call_id call, tri_tool_name = ptc_tool_name call,
      tri_provider_tool_name = ptc_provider_tool_name call, tri_result = result,
      tri_is_error = failed, tri_summary = summary\<rparr>"

definition tool_failure ::
  "thread_id \<Rightarrow> turn_id \<Rightarrow> node_id \<Rightarrow> workspace_mount_id option \<Rightarrow> provider_tool_call \<Rightarrow> string \<Rightarrow> string
   \<Rightarrow> string \<Rightarrow> tool_result_injection server_run" where
  "tool_failure k i node mount call tool message summary =
     bindR (announce (pending k (Some i) (ToolFailed
       \<lparr>tfe_tool_name = tool, tfe_summary = message, tfe_node_id = Some node,
        tfe_workspace_mount_id = mount\<rparr>))) (\<lambda>_.
     ret (injection call (error_json message) True summary))"

definition result_json :: "server_services \<Rightarrow> executed_tool \<Rightarrow> json" where
  "result_json v x =
     (case vs_result v (et_result x) of
        Some value \<Rightarrow> value
      | None \<Rightarrow> JObject [(''tool_name'', JString (tool_name_as_str (et_tool_name x))),
                         (''summary'', JString ''tool result serialization failed'')])"

definition execute_model_tool_call ::
  "server_services \<Rightarrow> thread_id \<Rightarrow> turn_id \<Rightarrow> provider_tool_call \<Rightarrow> tool_result_injection server_run" where
  "execute_model_tool_call v k i call =
     bindR (local_thread_execution_scope k) (\<lambda>(node, mount).
     case parse_tool_invocation (ptc_tool_name call) (ptc_arguments call) of
       Inl message \<Rightarrow>
         tool_failure k i node mount call (ptc_tool_name call) message ''Tool invocation parse failed''
     | Inr invocation \<Rightarrow>
         bindR (on_env (on_node (router_execute_tool (vc_host (vs_services v)) (vc_serializer (vs_services v))
           \<lparr>tq_thread_id = k, tq_turn_id = Some i, tq_node_id = Some node,
            tq_workspace_mount_id = mount, tq_invocation = invocation\<rparr>))) (\<lambda>executed.
         case executed of
           Inl e \<Rightarrow>
             tool_failure k i node mount call (ptc_tool_name call)
               (runtime_error_text (vc_storage_text (vs_services v)) e) ''Tool execution failed''
         | Inr y \<Rightarrow>
             let x = ne_executed y; name = tool_name_as_str (et_tool_name x)
             in bindR (on_env (on_co (record_tool_execution k (Some i) (Some (ne_node_id y)) mount name
                         (et_summary x) (artifact_specs x)))) (\<lambda>recorded.
                case recorded of
                  Inl e \<Rightarrow>
                    tool_failure k i (ne_node_id y) mount call name
                      (runtime_error_text (vc_storage_text (vs_services v)) e) ''Tool result recording failed''
                | Inr (turn, refs) \<Rightarrow>
                    bindR (announce_all (tool_events k turn (ne_node_id y) mount x refs)) (\<lambda>_.
                    ret (injection call (result_json v x) False (name @ '' succeeded''))))))"

definition tool_call_fingerprint :: "(json \<Rightarrow> string) \<Rightarrow> provider_tool_call list \<Rightarrow> string" where
  "tool_call_fingerprint to_text calls =
     join ''|'' (map (\<lambda>c. ptc_tool_name c @ '':'' @ to_text (ptc_arguments c)) calls)"

text \<open>The diagnostic is named by the milliseconds since the epoch.\<close>

definition current_millis :: "nat server_run" where
  "current_millis s =
     (let w = lg_web (he_login (sv_env s))
      in (Inr (wb_clock w (wb_clock_reads w)),
          s\<lparr>sv_env := (sv_env s)\<lparr>he_login := (he_login (sv_env s))
             \<lparr>lg_web := w\<lparr>wb_clock_reads := Suc (wb_clock_reads w)\<rparr>\<rparr>\<rparr>\<rparr>))"

definition runtime_diagnostic_injection :: "string \<Rightarrow> string \<Rightarrow> tool_result_injection server_run" where
  "runtime_diagnostic_injection tool message =
     bindR current_millis (\<lambda>now.
     ret \<lparr>tri_call_id = ''diagnostic_'' @ show_dec now, tri_tool_name = tool, tri_provider_tool_name = tool,
          tri_result = JObject [(''diagnostic'', JString message)], tri_is_error = True,
          tri_summary = ''Runtime diagnostic''\<rparr>)"

section \<open>The loop of a turn\<close>

text \<open>What \<open>stream_model_turn\<close> is called with.\<close>

record turn_run =
  tr_thread :: thread
  tr_turn :: turn
  tr_system_prompt :: string
  tr_developer_prompt :: string
  tr_user_prompt :: string
  tr_output_context :: "interaction_context option"

record loop_state =
  ls_results :: "tool_result_injection list"
  ls_fingerprint :: string
  ls_repeated :: nat

definition loop_start :: loop_state where
  "loop_start = \<lparr>ls_results = [], ls_fingerprint = [], ls_repeated = 0\<rparr>"

definition base_request :: "turn_run \<Rightarrow> model_turn_request" where
  "base_request r =
     (from_prompt_parts (tr_thread r) (tr_turn r) (tr_system_prompt r) (tr_developer_prompt r)
        (tr_user_prompt r))
       \<lparr>mtr_tool_surface_mode :=
          (if th_workspace_mount_id (tr_thread r) \<noteq> None \<or> th_workspace_ref (tr_thread r) \<noteq> None
           then StandardSurface else ConversationOnlySurface)\<rparr>"

abbreviation run_thread_id :: "turn_run \<Rightarrow> thread_id" where
  "run_thread_id r \<equiv> th_id (tr_thread r)"

abbreviation run_turn_id :: "turn_run \<Rightarrow> turn_id" where
  "run_turn_id r \<equiv> tn_id (tr_turn r)"

text \<open>The turn is over: it is recorded as failed or completed, and its memory compiled.\<close>

definition fail_model_turn :: "server_services \<Rightarrow> turn_run \<Rightarrow> model_error \<Rightarrow> unit server_run" where
  "fail_model_turn v r e =
     bindR (on_env (on_co (fail_turn (run_thread_id r) (run_turn_id r) (model_error_text e)))) (\<lambda>failed.
     case failed of
       Inl _ \<Rightarrow> ret ()
     | Inr t \<Rightarrow>
         bindR (announce (pending (run_thread_id r) (Some (tn_id t)) (TurnFailed t (model_error_text e)))) (\<lambda>_.
         compile_memory_for_thread v (run_thread_id r) (Some (run_turn_id r))))"

definition finish_model_turn :: "server_services \<Rightarrow> turn_run \<Rightarrow> string option \<Rightarrow> unit server_run" where
  "finish_model_turn v r message =
     bindR (on_env (on_co (complete_turn (run_thread_id r) (run_turn_id r)
       (apply_output_policy (tr_output_context r) (unwrap_or ''Completed turn'' message))))) (\<lambda>ended.
     case ended of
       Inl _ \<Rightarrow> ret ()
     | Inr t \<Rightarrow>
         bindR (announce (pending (run_thread_id r) (Some (tn_id t)) (TurnCompleted t))) (\<lambda>_.
         compile_memory_for_thread v (run_thread_id r) (Some (run_turn_id r))))"

text \<open>One round: \<open>None\<close> is the \<open>return\<close> of the loop, otherwise the state of its next round.\<close>

definition tool_round ::
  "server_services \<Rightarrow> turn_run \<Rightarrow> loop_state \<Rightarrow> provider_tool_call list \<Rightarrow> loop_state server_run" where
  "tool_round v r l calls =
     (let fingerprint = tool_call_fingerprint (vs_text v) calls;
          repeated = (if fingerprint = ls_fingerprint l then u32_saturating_add (ls_repeated l) 1 else 0)
      in bindR (collectR (execute_model_tool_call v (run_thread_id r) (run_turn_id r)) calls) (\<lambda>results.
         bindR (if repeated \<ge> 2
                then bindR (runtime_diagnostic_injection ''runtime.loop_diagnostic''
                       (''Detected repeated tool-call pattern. Explain the blocker or choose a different action.''))
                       (\<lambda>d. ret [d])
                else ret []) (\<lambda>diagnostics.
         ret \<lparr>ls_results = ls_results l @ results @ diagnostics, ls_fingerprint = fingerprint,
              ls_repeated = repeated\<rparr>)))"

definition model_round ::
  "server_services \<Rightarrow> model_gateway_config \<Rightarrow> turn_run \<Rightarrow> loop_state \<Rightarrow> loop_state option server_run" where
  "model_round v g r l =
     bindR (call_model v g ((base_request r)\<lparr>mtr_tool_result_injections := ls_results l\<rparr>)) (\<lambda>(events, outcome).
     bindR (collectR (handle_model_event (run_thread_id r) (run_turn_id r) (tr_output_context r)) events) (\<lambda>_.
     case outcome of
       Inl e \<Rightarrow> bindR (fail_model_turn v r e) (\<lambda>_. ret None)
     | Inr summary \<Rightarrow>
         if rn_tool_calls summary = []
         then bindR (finish_model_turn v r (rn_assistant_message summary)) (\<lambda>_. ret None)
         else bindR (tool_round v r l (rn_tool_calls summary)) (\<lambda>l'. ret (Some l'))))"

partial_function (option) model_loop ::
  "server_services \<Rightarrow> model_gateway_config \<Rightarrow> turn_run \<Rightarrow> loop_state \<Rightarrow> app_server \<Rightarrow> app_server option" where
  "model_loop v g r l s =
     (case model_round v g r l s of
        (Inr (Some l'), t) \<Rightarrow> model_loop v g r l' t
      | (_, t) \<Rightarrow> Some t)"

definition stream_model_turn :: "server_services \<Rightarrow> turn_run \<Rightarrow> app_server \<Rightarrow> app_server option" where
  "stream_model_turn v r s =
     (case gateway_with_provider_auth_profiles s of
        (Inr g, t) \<Rightarrow> model_loop v g r loop_start t
      | (Inl _, t) \<Rightarrow> Some t)"

section \<open>After the response\<close>

text \<open>What follows a request: nothing more, or a turn to run.\<close>

definition run_of ::
  "thread \<Rightarrow> turn \<Rightarrow> assembled_context \<Rightarrow> interaction_context option \<Rightarrow> turn_run" where
  "run_of th t c ic =
     \<lparr>tr_thread = th, tr_turn = t, tr_system_prompt = ax_system_prompt c,
      tr_developer_prompt = ax_developer_prompt c, tr_user_prompt = ax_user_prompt c,
      tr_output_context = ic\<rparr>"

definition stored_thread :: "thread_id \<Rightarrow> thread server_run" where
  "stored_thread k = bindR (or_return (on_co (get_thread k))) (\<lambda>found. ok_or () found)"

definition request_approval :: "turn_run \<Rightarrow> policy_decision \<Rightarrow> unit server_run" where
  "request_approval r decision =
     bindR (or_return (on_co (require_approval_for_turn (run_thread_id r) (run_turn_id r) decision)))
       (\<lambda>(cp, approval).
     announce_all
       ((case cp of
           Some c \<Rightarrow> [pending (run_thread_id r) (Some (run_turn_id r)) (CheckpointCreated c)]
         | None \<Rightarrow> [])
        @ [pending (run_thread_id r) (Some (run_turn_id r)) (ApprovalRequested approval)]))"

definition decide_turn :: "turn \<Rightarrow> turn_start_request \<Rightarrow> turn_run option server_run" where
  "decide_turn t request =
     bindR (stored_thread (tn_thread_id t)) (\<lambda>th.
     bindR (or_return (on_co (assemble_context_for_interaction (th_id th) (st_input request)
       (st_participant request) (st_interaction_context request)))) (\<lambda>context.
     bindR (asks sv_approval_policy) (\<lambda>policy.
     let decision = evaluate (st_input request) context;
         r = run_of th t context (st_interaction_context request)
     in if policy = OnRequest \<and> pd_requires_approval decision
        then bindR (request_approval r decision) (\<lambda>_. ret None)
        else ret (Some r))))"

definition decide_approved :: "approval_request \<Rightarrow> turn_run option server_run" where
  "decide_approved a =
     bindR (or_return (on_co (resume_approved_turn (ap_thread_id a) (ap_turn_id a)))) (\<lambda>t.
     bindR (stored_thread (ap_thread_id a)) (\<lambda>th.
     bindR (or_return (on_co (assemble_context_for_interaction (th_id th) (unwrap_or [] (tn_goal t)) None None)))
       (\<lambda>context.
     ret (Some (run_of th t context None)))))"

definition deny_turn :: "server_services \<Rightarrow> approval_request \<Rightarrow> unit server_run" where
  "deny_turn v a =
     bindR (or_return (on_co (cancel_turn
       \<lparr>tc_thread_id = ap_thread_id a, tc_turn_id = ap_turn_id a\<rparr>))) (\<lambda>t.
     bindR (announce (pending (ap_thread_id a) (Some (tn_id t)) (TurnCancelled t))) (\<lambda>_.
     bindR (on_env (on_co (get_thread (ap_thread_id a)))) (\<lambda>found.
     bindR (case found of
              Inr (Some th) \<Rightarrow> announce (pending (th_id th) (Some (tn_id t)) (ThreadInterrupted th))
            | _ \<Rightarrow> ret ()) (\<lambda>_.
     compile_memory_for_thread v (ap_thread_id a) (Some (tn_id t))))))"

text \<open>The continuation of a request by what was answered.\<close>

definition follow_up ::
  "server_services \<Rightarrow> client_request \<Rightarrow> server_response_envelope \<Rightarrow> turn_run option server_run" where
  "follow_up v request response =
     (case (request, response) of
        (TurnStart r, Success _ (TurnStartReply t)) \<Rightarrow> decide_turn t r
      | (TurnCancel r, Success _ _) \<Rightarrow>
          bindR (compile_memory_for_thread v (tc_thread_id r) None) (\<lambda>_. ret None)
      | (ApprovalRespond r, Success _ (ApprovalRespondReply a)) \<Rightarrow>
          (case rr_decision r of
             Deny \<Rightarrow> bindR (deny_turn v a) (\<lambda>_. ret None)
           | _ \<Rightarrow> decide_approved a)
      | _ \<Rightarrow> ret None)"

section \<open>Requests\<close>

definition runtime_config :: "server_services \<Rightarrow> app_server \<Rightarrow> runtime_config_response" where
  "runtime_config v s =
     \<lparr>rc_sandbox = router_default_shell_sandbox (vc_host (vs_services v)) (he_node (sv_env s)),
      rc_approval_policy = sv_approval_policy s\<rparr>"

definition update_runtime_config ::
  "server_services \<Rightarrow> runtime_config_update_request \<Rightarrow> runtime_config_response server_run" where
  "update_runtime_config v r =
     bindR (case cu_sandbox r of
              None \<Rightarrow> ret ()
            | Some sandbox \<Rightarrow>
                bindR (on_env (on_node (router_set_default_shell_sandbox (vc_host (vs_services v)) sandbox)))
                  (\<lambda>_. ret ())) (\<lambda>_.
     bindR (case cu_approval_policy r of
              None \<Rightarrow> ret ()
            | Some policy \<Rightarrow> modify (\<lambda>s. s\<lparr>sv_approval_policy := policy\<rparr>)) (\<lambda>_.
     asks (runtime_config v)))"

definition handle_and_publish ::
  "server_services \<Rightarrow> client_request_envelope \<Rightarrow> server_response_envelope server_run" where
  "handle_and_publish v q s =
     (case handle_request (vs_services v) q (sv_env s) of
        (h, e) \<Rightarrow> (Inr (hr_response h),
                   s\<lparr>sv_env := e, sv_bus := snd (publish_all (hr_events h) (sv_bus s))\<rparr>))"

definition handle_and_follow ::
  "server_services \<Rightarrow> client_request_envelope \<Rightarrow> (server_response_envelope \<times> turn_run option) server_run" where
  "handle_and_follow v q =
     bindR (handle_and_publish v q) (\<lambda>response.
     bindR (attempt (follow_up v (qe_request q) response)) (\<lambda>next.
     ret (response, case next of Some (Some r) \<Rightarrow> Some r | _ \<Rightarrow> None)))"

text \<open>Everything before a turn is run: the response, and the turn to run.\<close>

definition answer_request ::
  "server_services \<Rightarrow> client_request_envelope \<Rightarrow> (server_response_envelope \<times> turn_run option) server_run" where
  "answer_request v q =
     (let success = (\<lambda>p. ret (Success (qe_request_id q) p, None))
      in case qe_request q of
           ModelStatus \<Rightarrow> bindR (model_status v) (\<lambda>status. success (ModelStatusReply status))
         | RuntimeConfigGet \<Rightarrow> bindR (asks (runtime_config v)) (\<lambda>c. success (RuntimeConfigReply c))
         | RuntimeConfigUpdate r \<Rightarrow>
             bindR (update_runtime_config v r) (\<lambda>c. success (RuntimeConfigReply c))
         | MemoryCompileNow k \<Rightarrow>
             bindR (compile_memory_for_thread_summary v k) (\<lambda>found.
             case found of
               Some c \<Rightarrow>
                 bindR (publish_memory_compilation_events k None c) (\<lambda>_. success (MemoryCompileNowReply k c))
             | None \<Rightarrow> handle_and_follow v q)
         | _ \<Rightarrow> handle_and_follow v q)"

definition server_handle ::
  "server_services \<Rightarrow> client_request_envelope \<Rightarrow> app_server \<Rightarrow> (server_response_envelope \<times> app_server) option" where
  "server_handle v q s =
     (case answer_request v q s of
        (Inr (response, None), t) \<Rightarrow> Some (response, t)
      | (Inr (response, Some r), t) \<Rightarrow> map_option (Pair response) (stream_model_turn v r t)
      | (Inl _, t) \<Rightarrow> None)"

end
