(* ===== verification/Server_Laws.thy ===== *)
theory Server_Laws
  imports Server
begin

text \<open>
  What holds of the server: its states are reachable states of the runtime, a turn that needs
  approval does not reach the model or a tool before it is approved, every request returns when the
  model does not ask for tools for ever, and what one round does with the model's tool calls. The
  parts of the server are the same for all of these, so they are proved once, in locales that fix a
  relation of server states and the runtime's share in it.
\<close>

abbreviation server_runtime :: "app_server \<Rightarrow> coordinator" where
  "server_runtime s \<equiv> runtime_of (sv_env s)"

definition set_runtime :: "coordinator \<Rightarrow> app_server \<Rightarrow> app_server" where
  "set_runtime c s =
     s\<lparr>sv_env := (sv_env s)\<lparr>he_login := (he_login (sv_env s))\<lparr>lg_runtime := c\<rparr>\<rparr>\<rparr>"

lemma on_env_co_run:
  "on_env (on_co m) s =
     (Inr (fst (m (server_runtime s))), set_runtime (snd (m (server_runtime s))) s)"
  by (simp add: on_env_def on_co_def on_login_def on_runtime_def set_runtime_def split_beta)

lemma on_env_node_run:
  "on_env (on_node m) s =
     (Inr (fst (m (he_node (sv_env s)))),
      s\<lparr>sv_env := (sv_env s)\<lparr>he_node := snd (m (he_node (sv_env s)))\<rparr>\<rparr>)"
  by (simp add: on_env_def on_node_def split_beta)

lemma set_runtime_simps [simp]:
  "server_runtime (set_runtime c s) = c" "sv_bus (set_runtime c s) = sv_bus s"
  "sv_calls (set_runtime c s) = sv_calls s" "he_node (sv_env (set_runtime c s)) = he_node (sv_env s)"
  "sv_approval_policy (set_runtime c s) = sv_approval_policy s"
  "sv_gateway (set_runtime c s) = sv_gateway s"
  by (simp_all add: set_runtime_def)

section \<open>The parts of the server along a relation\<close>

lemma advances_attempt: "advances R (attempt m) = advances R m"
proof -
  have "snd (attempt m s) = snd (m s)" for s
    by (simp add: attempt_def split: prod.split sum.split)
  then show ?thesis by (simp add: advances_def)
qed

text \<open>A relation of server states that allows reading the runtime and publishing events. \<open>Q\<close> is what it
  allows of the runtime.\<close>

locale event_frame = progress_order R for R :: "app_server \<Rightarrow> app_server \<Rightarrow> bool" +
  fixes Q :: "coordinator \<Rightarrow> coordinator \<Rightarrow> bool"
  assumes R_runtime: "Q (server_runtime s) c \<Longrightarrow> R s (set_runtime c s)"
    and R_bus: "R s (s\<lparr>sv_bus := snd (publish_all ps (sv_bus s))\<rparr>)"
    and Q_reads: "same_files c c' \<Longrightarrow> Q c c'"
begin

lemma along_co: "advances Q m \<Longrightarrow> advances R (on_env (on_co m))"
  by (simp add: advances_def on_env_co_run R_runtime)

lemma along_reads: "advances same_files m \<Longrightarrow> advances R (on_env (on_co m))"
  by (intro along_co) (simp add: advances_def Q_reads)

lemma along_or_return: "advances R (on_env m) \<Longrightarrow> advances R (or_return m)"
  unfolding or_return_def by (intro advances_intros advances_case_sum)

lemma along_announce_all: "advances R (announce_all ps)"
  unfolding announce_all_def by (intro advances_modify R_bus)

lemma along_announce: "advances R (announce p)"
proof -
  have "announce p = announce_all [p]"
    by (simp add: announce_def announce_all_def split_beta Let_def)
  then show ?thesis by (simp add: along_announce_all)
qed

lemma along_gateway: "advances R gateway_with_provider_auth_profiles"
  unfolding gateway_with_provider_auth_profiles_def read_auth_profiles_def
  by (intro advances_intros along_reads reads_io)

lemma reads_scope: "advances same_files (thread_execution_scope k)"
  unfolding thread_execution_scope_def
  by (intro reads_only.advances_intros reads_ops)

lemma along_scope: "advances R (local_thread_execution_scope k)"
  unfolding local_thread_execution_scope_def
  by (intro advances_intros along_reads reads_scope)

lemma along_event: "advances R (handle_model_event k i ic e)"
  unfolding handle_model_event_def
  by (cases e; simp) (intro advances_intros along_announce along_scope advances_case_prod)+

lemma along_stored_thread: "advances R (stored_thread k)"
  unfolding stored_thread_def by (intro advances_intros along_or_return along_reads reads_ops)

lemma reads_assemble: "advances same_files (assemble_context_for_interaction k input p ic)"
  unfolding assemble_context_for_interaction_def io_op_defs
  by (intro reads_only.advances_intros reads_io)

lemma along_assemble:
  "advances R (or_return (on_co (assemble_context_for_interaction k input p ic)))"
  by (intro along_or_return along_reads reads_assemble)

end

text \<open>The end of a turn: memory is compiled, with the help of a call of the model without tools.\<close>

locale memory_frame = event_frame +
  assumes R_text: "R s (s\<lparr>sv_calls := sv_calls s @ [(g, text_request x y z)]\<rparr>)"
    and Q_compile: "advances Q (compile_thread k)"
    and Q_compile_llm: "advances Q (compile_thread_from_llm_output parse k raw)"
begin

lemma along_complete_text: "advances R (complete_text v g p)"
  unfolding complete_text_def call_model_def
  by (intro advances_intros advances_modify advances_case_prod R_text)

lemma reads_prompt: "advances same_files (build_compilation_prompt to_text k)"
  unfolding build_compilation_prompt_def build_compilation_input_def io_op_defs Let_def
  by (intro reads_only.advances_intros reads_io)

lemma along_summary: "advances R (compile_memory_for_thread_summary v k)"
  unfolding compile_memory_for_thread_summary_def compile_memory_for_thread_with_model_def
  by (intro advances_intros advances_attempt [THEN iffD2] along_or_return
      along_reads reads_prompt along_gateway along_complete_text advances_case_sum along_co
      Q_compile Q_compile_llm)

lemma along_compilation_events: "advances R (publish_memory_compilation_events k i c)"
  unfolding publish_memory_compilation_events_def
  by (intro advances_intros along_announce_all along_announce along_reads reads_ops advances_case_sum)

lemma along_memory: "advances R (compile_memory_for_thread v k i)"
  unfolding compile_memory_for_thread_def
  by (intro advances_intros along_summary along_compilation_events)

end

text \<open>A round that does not end the turn: the tools the model asked for are run and recorded.\<close>

locale tool_frame = event_frame +
  assumes R_node: "R s (s\<lparr>sv_env := (sv_env s)\<lparr>he_node := n\<rparr>\<rparr>)"
    and R_clock: "R s (s\<lparr>sv_env := (sv_env s)\<lparr>he_login := (he_login (sv_env s))\<lparr>lg_web := w\<rparr>\<rparr>\<rparr>)"
    and Q_record: "advances Q (record_tool_execution k turn node mount tool summary specs)"
begin

lemma along_node: "advances R (on_env (on_node m))"
  by (simp add: advances_def on_env_node_run R_node)

lemma along_failure: "advances R (tool_failure k i node mount call tool message summary)"
  unfolding tool_failure_def by (intro advances_intros along_announce)

lemma along_tool_call: "advances R (execute_model_tool_call v k i call)"
  unfolding execute_model_tool_call_def Let_def
  by (intro advances_intros along_scope along_node along_co Q_record along_announce_all along_failure
      advances_case_prod advances_case_sum)

lemma along_diagnostic: "advances R (runtime_diagnostic_injection tool message)"
proof -
  have "advances R current_millis" by (simp add: advances_def current_millis_def Let_def R_clock)
  then show ?thesis unfolding runtime_diagnostic_injection_def by (intro advances_intros)
qed

lemma along_status: "advances R (model_status v)"
  unfolding model_status_def
  by (intro advances_intros along_gateway) (simp add: advances_def on_web_def split_beta R_clock)

lemma along_tool_round: "advances R (tool_round v r l calls)"
  unfolding tool_round_def Let_def
  by (intro advances_intros advances_collectR along_tool_call along_diagnostic)

end

text \<open>A whole turn, and with it every request.\<close>

locale turn_frame = memory_frame R Q + tool_frame R Q for R Q +
  assumes R_call: "R s (s\<lparr>sv_calls := sv_calls s @ [(g, rq)]\<rparr>)"
    and Q_complete: "advances Q (complete_turn k i message)"
    and Q_fail: "advances Q (fail_turn k i message)"
begin

lemma along_call: "advances R (call_model v g rq)"
  unfolding call_model_def by (intro advances_intros advances_modify R_call)

lemma along_end: "advances R (fail_model_turn v r e)" "advances R (finish_model_turn v r message)"
  unfolding fail_model_turn_def finish_model_turn_def
  by (intro advances_intros along_co Q_complete Q_fail along_announce along_memory advances_case_sum)+

lemma along_round: "advances R (model_round v g r l)"
  unfolding model_round_def
  by (intro advances_intros along_call along_event along_end along_tool_round advances_collectR
      advances_case_prod advances_case_sum)

lemma along_loop:
  assumes "model_loop v g r l s = Some t"
  shows "R s t"
proof (rule model_loop.raw_induct [where P = "\<lambda>v g r l s t. R s t", OF _ assms])
  fix loop v g r l s t
  assume IH: "\<And>g r l s b y. loop g r l s b = Some y \<Longrightarrow> R b y"
    and body: "(case model_round v g r l s of
        (Inr (Some l'), t) \<Rightarrow> loop v g r l' t | (_, t) \<Rightarrow> Some t) = Some t"
  have first: "R s (snd (model_round v g r l s))" using along_round by (simp add: advances_def)
  obtain next_state u where run: "model_round v g r l s = (next_state, u)" by fastforce
  show "R s t"
  proof (cases "\<exists>l'. next_state = Inr (Some l')")
    case True
    with body run have "\<exists>l'. loop v g r l' u = Some t" by auto
    with IH first run show ?thesis by (auto intro: R_trans)
  next
    case False
    with body run have "t = u" by (auto split: sum.splits option.splits)
    with first run show ?thesis by simp
  qed
qed

lemma along_stream: "stream_model_turn v r s = Some t \<Longrightarrow> R s t"
proof -
  assume run: "stream_model_turn v r s = Some t"
  have first: "R s (snd (gateway_with_provider_auth_profiles s))"
    using along_gateway by (simp add: advances_def)
  from run first show ?thesis
    unfolding stream_model_turn_def
    by (auto split: prod.splits sum.splits dest: along_loop intro: R_trans)
qed

end

text \<open>Every request, with all that it sets off.\<close>

locale request_frame = turn_frame R Q for R Q +
  assumes R_handle: "advances R (handle_and_publish v q)"
    and R_policy: "R s (s\<lparr>sv_approval_policy := policy\<rparr>)"
    and Q_require: "advances Q (require_approval_for_turn k i decision)"
    and Q_resume: "advances Q (resume_approved_turn k i)"
    and Q_cancel: "advances Q (cancel_turn rq)"
begin

lemma along_decide: "advances R (decide_turn t request)" "advances R (decide_approved a)"
  unfolding decide_turn_def decide_approved_def request_approval_def Let_def
  by (intro advances_intros along_stored_thread along_assemble along_or_return along_co Q_require Q_resume
      along_announce_all advances_case_prod)+

lemma along_deny: "advances R (deny_turn v a)"
  unfolding deny_turn_def
  by (intro advances_intros along_or_return along_co Q_cancel along_announce along_memory along_reads
      reads_ops advances_case_sum)

lemma along_follow_up: "advances R (follow_up v request response)"
  unfolding follow_up_def
  by (auto intro!: advances_intros along_decide along_deny along_memory
      split: client_request.split server_response_envelope.split response_payload.split
        approval_decision.split)

lemma along_config: "advances R (update_runtime_config v r)"
  unfolding update_runtime_config_def
  by (intro advances_intros along_node advances_modify R_policy)

lemma along_handle_and_follow: "advances R (handle_and_follow v q)"
  unfolding handle_and_follow_def
  by (intro advances_intros R_handle advances_attempt [THEN iffD2] along_follow_up)

lemma along_answer: "advances R (answer_request v q)"
  unfolding answer_request_def Let_def
  by (cases "qe_request q"; simp only: client_request.case)
    (intro along_handle_and_follow advances_intros along_status along_config along_summary
      along_compilation_events)+

lemma along_server_handle:
  assumes "server_handle v q s = Some (response, t)"
  shows "R s t"
proof -
  have first: "R s (snd (answer_request v q s))" using along_answer by (simp add: advances_def)
  from assms first show ?thesis
    unfolding server_handle_def
    by (auto split: prod.splits sum.splits option.splits dest: along_stream intro: R_trans)
qed

end


section \<open>The states of the server\<close>

lemma bus_ok_publish_all: "bus_ok b \<Longrightarrow> bus_ok (snd (publish_all ps b))"
proof (induction ps arbitrary: b)
  case (Cons p ps)
  then show ?case using publish_effect(8) [of b p] by (simp add: split_beta Let_def)
qed simp

definition server_moves :: "app_server \<Rightarrow> app_server \<Rightarrow> bool" where
  "server_moves s t \<longleftrightarrow> co_step\<^sup>*\<^sup>* (server_runtime s) (server_runtime t) \<and> (bus_ok (sv_bus s) \<longrightarrow> bus_ok (sv_bus t))"

lemma advances_co_steps: "(\<And>s. co_step s (snd (m s))) \<Longrightarrow> advances co_step\<^sup>*\<^sup>* m"
  by (auto simp: advances_def)

interpretation moves: request_frame server_moves "co_step\<^sup>*\<^sup>*"
proof unfold_locales
  show "advances co_step\<^sup>*\<^sup>* (compile_thread k)"
    "advances co_step\<^sup>*\<^sup>* (compile_thread_from_llm_output parse k raw)"
    "advances co_step\<^sup>*\<^sup>* (record_tool_execution k turn node mount tool summary specs)"
    "advances co_step\<^sup>*\<^sup>* (complete_turn k i message)" "advances co_step\<^sup>*\<^sup>* (fail_turn k i message)"
    "advances co_step\<^sup>*\<^sup>* (require_approval_for_turn k i d)" "advances co_step\<^sup>*\<^sup>* (resume_approved_turn k i)"
    "advances co_step\<^sup>*\<^sup>* (cancel_turn rq)"
    for k parse raw turn node mount tool summary specs i message d rq
    by (intro advances_co_steps co_step.intros)+
  show "advances server_moves (handle_and_publish v q)" for v q
    using handle_request_steps
    by (auto simp: advances_def handle_and_publish_def server_moves_def runtime_steps_def
        bus_ok_publish_all split_beta)
qed (auto simp: server_moves_def bus_ok_publish_all intro: co_step.intros(25))

lemmas server_handle_moves = moves.along_server_handle

text \<open>A server that was started on some files and has served any requests, with subscribers that come,
  read and go.\<close>

inductive serving :: "app_server \<Rightarrow> bool" where
  start: "serving (new_server (new_coordinator h root clk files) w x bclk g)"
| request: "serving s \<Longrightarrow> server_handle v q s = Some (response, t) \<Longrightarrow> serving t"
| subscriber: "serving s \<Longrightarrow> serving (s\<lparr>sv_bus := snd (bus_act a (sv_bus s))\<rparr>)"

lemma reachable_steps: "co_step\<^sup>*\<^sup>* s t \<Longrightarrow> reachable s \<Longrightarrow> reachable t"
  by (induction rule: rtranclp_induct) (auto intro: reachable.step)

text \<open>A server on the sample runtime, whose model answers a turn at once.\<close>

definition demo_services :: server_services where
  "demo_services =
     \<lparr>vs_services = \<lparr>vc_lib = demo_lib,
        vc_host = \<lparr>he_os = Linux, he_var = (\<lambda>_. None), he_exe_dir = None, he_path_dirs = [], he_is_file = (\<lambda>_. False)\<rparr>,
        vc_serializer = \<lparr>sz_snapshot = (\<lambda>_. ''{}''), sz_trace = (\<lambda>_. ''{}''), sz_exec_output = (\<lambda>_. []), sz_wait_output = (\<lambda>_. [])\<rparr>,
        vc_cosine = (\<lambda>_ _ _. 0), vc_storage_text = (\<lambda>_. ''storage'')\<rparr>,
      vs_model = (\<lambda>_ _ _. ([], Inr \<lparr>rn_assistant_message = Some ''ok'',
        rn_usage = \<lparr>ud_input_tokens = 0, ud_output_tokens = 0, ud_reasoning_tokens = 0,
          ud_cache_hit_tokens = 0, ud_cache_write_tokens = 0\<rparr>, rn_tool_calls = []\<rparr>)),
      vs_text = (\<lambda>_. ''{}''), vs_result = (\<lambda>_. None), vs_delta = (\<lambda>_. Inl ''no model''), vs_client_failure = None\<rparr>"

definition demo_node :: node_executor where
  "demo_node =
     \<lparr>nx_shell = shell_executor_new (vc_host (vs_services demo_services)) demo_ids (\<lambda>_ _. Inl ''no such program''),
      nx_files = \<lparr>fs_root = Directory [], fs_cwd = [], fs_readable = (\<lambda>_. True), fs_writable = (\<lambda>_. True),
        fs_error = (\<lambda>_. ''error'')\<rparr>\<rparr>"

definition demo_server :: app_server where
  "demo_server = new_server demo_co (lg_web demo_login) demo_node id \<lparr>gc_primary_provider = ''openai'', gc_overrides = []\<rparr>"

lemma demo_server_views [simp]:
  "server_runtime demo_server = demo_co" "sv_approval_policy demo_server = OnRequest"
  "bus_ok (sv_bus demo_server)"
  by (simp_all add: demo_server_def new_server_def bus_ok_new)

lemma demo_serving: "serving demo_server"
  unfolding demo_server_def demo_co_def by (rule serving.start)

text \<open>C5: the runtime of a server is always in a state that its own operations reach, whatever requests it
  served, with whatever answers of the model, outcomes of tools and failures of the storage; and
  the bus never loses the sender of a subscriber that is still there.\<close>

theorem server_states_consistent:
  assumes "serving s"
  shows "reachable (server_runtime s) \<and> bus_ok (sv_bus s)"
  using assms
proof (induction rule: serving.induct)
  case (start h root clk files w x bclk g)
  then show ?case by (simp add: new_server_def reachable.start bus_ok_new)
next
  case (request s v q response t)
  with server_handle_moves [OF request(2)] show ?case
    by (auto simp: server_moves_def intro: reachable_steps)
next
  case (subscriber s a)
  then show ?case by (simp add: bus_ok_act)
qed

theorem server_states_consistent_witness:
  "\<exists>response t. server_handle demo_services \<lparr>qe_request_id = ''r1'', qe_request = RuntimeConfigUpdate
       \<lparr>cu_sandbox = None, cu_approval_policy = Some ApprovalDangerFullAccess\<rparr>\<rparr> demo_server = Some (response, t) \<and>
     sv_approval_policy t = ApprovalDangerFullAccess \<and> reachable (server_runtime t)"
proof -
  let ?q = "\<lparr>qe_request_id = ''r1'', qe_request = RuntimeConfigUpdate
       \<lparr>cu_sandbox = None, cu_approval_policy = Some ApprovalDangerFullAccess\<rparr>\<rparr>"
  obtain response t where run: "server_handle demo_services ?q demo_server = Some (response, t)"
    and "sv_approval_policy t = ApprovalDangerFullAccess"
    by (simp add: server_handle_def answer_request_def update_runtime_config_def run_simps)
  then show ?thesis
    using server_states_consistent [OF serving.request [OF demo_serving run]] by blast
qed

section \<open>No action without approval\<close>

definition needs_approval :: "string \<Rightarrow> bool" where
  "needs_approval input \<longleftrightarrow> classify_risk input (protected_targets input) \<in> {High, Critical}"

lemma evaluate_needs_approval [simp]:
  "pd_requires_approval (evaluate input context) = needs_approval input"
  by (auto simp: evaluate_def needs_approval_def Let_def)

text \<open>The requests in whose course the server may run a turn or a tool.\<close>

fun may_act :: "approval_policy \<Rightarrow> client_request \<Rightarrow> bool" where
  "may_act policy (TurnStart r) = (policy \<noteq> OnRequest \<or> \<not> needs_approval (st_input r))"
| "may_act policy (ApprovalRespond r) = (rr_decision r \<noteq> Deny)"
| "may_act policy (ToolCall r) = True"
| "may_act policy (RuntimeConfigUpdate r) = True"
| "may_act policy _ = False"

definition text_only :: "model_turn_request \<Rightarrow> bool" where
  "text_only rq \<longleftrightarrow> (\<exists>x y z. rq = text_request x y z)"

text \<open>No tool ran and no turn was put to the model; at most it was asked to complete a text.\<close>

definition calm :: "app_server \<Rightarrow> app_server \<Rightarrow> bool" where
  "calm s t \<longleftrightarrow> he_node (sv_env t) = he_node (sv_env s) \<and> sv_approval_policy t = sv_approval_policy s \<and>
     (\<exists>cs. sv_calls t = sv_calls s @ cs \<and> (\<forall>c \<in> set cs. text_only (snd c)))"

interpretation calm: memory_frame calm "\<lambda>_ _. True"
proof unfold_locales
  show "calm s u" if "calm s t" and "calm t u" for s t u
    using that by (auto simp: calm_def)
qed (auto simp: calm_def text_only_def advances_def)

definition same_node :: "handler_env \<Rightarrow> handler_env \<Rightarrow> bool" where
  "same_node s t \<longleftrightarrow> he_node t = he_node s"

interpretation node_order: progress_order same_node
  by unfold_locales (auto simp: same_node_def)

lemma same_node_login: "advances same_node (on_login m)" "advances same_node (on_co c)"
  by (simp_all add: advances_def same_node_def on_login_def on_co_def split_beta)

lemma same_node_answer: "advances same_node m \<Longrightarrow> advances same_node (answer f m)"
  "advances same_node m \<Longrightarrow> advances same_node (plain g m)"
  unfolding plain_def answer_def by (intro node_order.advances_intros; assumption)+

lemma same_node_turn: "advances same_node (turn_and_thread reply c d t)"
  unfolding turn_and_thread_def
  by (intro node_order.advances_intros advances_attempt [THEN iffD2] same_node_login)

lemma dispatch_same_node:
  "\<nexists>x. r = ToolCall x \<Longrightarrow> advances same_node (dispatch v r)"
  by (cases r; simp only: dispatch.simps handle_thread_resume_def)
    (intro same_node_answer same_node_login same_node_turn node_order.advances_intros
      advances_attempt [THEN iffD2] advances_case_prod | simp)+

lemma calm_handle:
  assumes "\<nexists>x. qe_request q = ToolCall x"
  shows "advances calm (handle_and_publish v q)"
proof -
  have "he_node (snd (handle_request (vs_services v) q e)) = he_node e" for e
    using advancesD [OF dispatch_same_node [OF assms, of "vs_services v"], of e]
    by (auto simp: handle_request_def same_node_def split: prod.split sum.split)
  then show ?thesis by (simp add: advances_def handle_and_publish_def calm_def split_beta)
qed

lemma calm_status: "advances calm (model_status v)"
  unfolding model_status_def
  by (intro calm.advances_intros calm.along_gateway)
    (simp add: advances_def calm_def on_web_def split_beta)

lemma calm_run: "advances calm m \<Longrightarrow> m s = (r, t) \<Longrightarrow> calm s t"
  using advancesD [of calm m s] by simp

lemma calm_co: "advances calm (or_return (on_co m))"
  by (intro calm.along_or_return calm.along_co) (simp add: advances_def)

lemma calm_request_approval: "advances calm (request_approval r decision)"
  unfolding request_approval_def
  by (intro calm.advances_intros calm_co calm.along_announce_all advances_case_prod)

lemma calm_deny: "advances calm (deny_turn v a)"
  unfolding deny_turn_def
  by (intro calm.advances_intros calm_co calm.along_announce calm.along_memory calm.along_reads reads_ops
      advances_case_sum)

text \<open>A turn that needs approval is put on hold.\<close>

lemma decide_turn_waits:
  assumes "sv_approval_policy s = OnRequest" and "needs_approval (st_input request)"
  shows "calm s (snd (decide_turn t request s)) \<and> (\<nexists>r. fst (decide_turn t request s) = Inr (Some r))"
proof -
  obtain a s1 where 1: "stored_thread (tn_thread_id t) s = (a, s1)" by fastforce
  note c1 = calm_run [OF calm.along_stored_thread 1]
  show ?thesis
  proof (cases a)
    case (Inl e)
    with 1 c1 show ?thesis by (simp add: decide_turn_def bindR_run)
  next
    case (Inr th)
    obtain b s2 where 2: "or_return (on_co (assemble_context_for_interaction (th_id th) (st_input request)
       (st_participant request) (st_interaction_context request))) s1 = (b, s2)" by fastforce
    note c2 = calm.R_trans [OF c1 calm_run [OF calm_co 2]]
    have policy: "sv_approval_policy s2 = OnRequest" using c2 assms(1) by (simp add: calm_def)
    show ?thesis
    proof (cases b)
      case (Inl e)
      with 1 2 Inr c2 show ?thesis by (simp add: decide_turn_def bindR_run)
    next
      case ctx: (Inr cx)
      obtain c s3 where 3: "request_approval (run_of th t cx (st_interaction_context request))
          (evaluate (st_input request) cx) s2 = (c, s3)" by fastforce
      note c3 = calm.R_trans [OF c2 calm_run [OF calm_request_approval 3]]
      show ?thesis using 1 2 3 Inr ctx c3 policy assms(2)
        by (simp add: decide_turn_def bindR_run asks_run Let_def ret_run split: sum.split)
    qed
  qed
qed

text \<open>Operations of the server always have a result.\<close>

abbreviation total :: "'a server_run \<Rightarrow> bool" where
  "total m \<equiv> succeeds (\<lambda>_. True) m"

lemma total_iff: "total m \<longleftrightarrow> (\<forall>s. \<exists>a t. m s = (Inr a, t))"
  by (simp add: succeeds_def)

lemma total_case_prod: "(\<And>a b. total (f a b)) \<Longrightarrow> total (case p of (a, b) \<Rightarrow> f a b)"
  by (cases p) simp

lemma total_case_option: "total m \<Longrightarrow> (\<And>a. total (f a)) \<Longrightarrow> total (case x of None \<Rightarrow> m | Some a \<Rightarrow> f a)"
  by (cases x) simp_all

lemma total_case_sum: "(\<And>e. total (f e)) \<Longrightarrow> (\<And>a. total (g a)) \<Longrightarrow> total (case x of Inl e \<Rightarrow> f e | Inr a \<Rightarrow> g a)"
  by (cases x) simp_all

lemma total_parts:
  "total (on_env m)" "total (attempt n)" "total (announce p)" "total (announce_all ps)"
  "total (handle_and_publish v q)" "total current_millis"
  by (auto simp: total_iff on_env_def attempt_def announce_def announce_all_def modify_def
      handle_and_publish_def current_millis_def Let_def split: prod.split sum.split)

lemmas total_rules = succeeds_ret succeeds_asks succeeds_bindR succeeds_if succeeds_collectR
  total_parts total_case_prod total_case_option total_case_sum

lemma total_gateway: "total gateway_with_provider_auth_profiles"
  unfolding gateway_with_provider_auth_profiles_def by (intro total_rules)

lemma total_status: "total (model_status v)"
  unfolding model_status_def by (intro total_rules total_gateway) (simp add: total_iff on_web_def split_beta)

lemma total_memory:
  "total (compile_memory_for_thread_summary v k)" "total (publish_memory_compilation_events k i c)"
  "total (compile_memory_for_thread v k i)"
proof -
  show a: "total (compile_memory_for_thread_summary v k)" for k
    unfolding compile_memory_for_thread_summary_def by (intro total_rules)
  show b: "total (publish_memory_compilation_events k i c)" for k i c
    unfolding publish_memory_compilation_events_def by (intro total_rules)
  show "total (compile_memory_for_thread v k i)"
    unfolding compile_memory_for_thread_def by (intro total_rules a b)
qed

lemma total_config: "total (update_runtime_config v r)"
  unfolding update_runtime_config_def
  by (intro total_rules succeeds_modify) simp

lemma total_handle_and_follow: "total (handle_and_follow v q)"
  unfolding handle_and_follow_def by (intro total_rules)

lemma total_answer: "total (answer_request v q)"
  unfolding answer_request_def Let_def
  by (cases "qe_request q"; simp only: client_request.case)
    (intro total_handle_and_follow total_config total_memory total_status total_rules)+

lemma follow_up_calm:
  assumes "\<not> may_act (sv_approval_policy s) request"
  shows "calm s (snd (follow_up v request response s)) \<and>
    (\<nexists>r. fst (follow_up v request response s) = Inr (Some r))"
proof -
  have none: "calm s (snd (bindR m (\<lambda>_. ret None) s))"
      "fst (bindR m (\<lambda>_. ret None) s) = Inr (Some (r :: turn_run)) \<longleftrightarrow> False"
    if "advances calm m" for m :: "unit server_run" and r
    using advancesD [OF that, of s] by (simp_all add: bindR_run ret_run split: sum.split)
  have held: "calm s (snd (decide_turn t q s))" "fst (decide_turn t q s) = Inr (Some r) \<longleftrightarrow> False"
    if "sv_approval_policy s = OnRequest" and "needs_approval (st_input q)" for t q r
    using decide_turn_waits [OF that] by blast+
  show ?thesis
    using assms
    by (cases request; cases response)
      (auto simp: follow_up_def held ret_run calm.R_refl none calm.along_memory calm_deny
        split: response_payload.split approval_decision.split)
qed

lemma handle_and_follow_calm:
  assumes "\<not> may_act (sv_approval_policy s) (qe_request q)"
  shows "\<exists>response t. handle_and_follow v q s = (Inr (response, None), t) \<and> calm s t"
proof -
  have "\<nexists>x. qe_request q = ToolCall x" using assms by auto
  note handled = calm_handle [OF this, of v]
  obtain response s1 where 1: "handle_and_publish v q s = (Inr response, s1)"
    by (simp add: handle_and_publish_def split_beta)
  note c1 = calm_run [OF handled 1]
  then have "\<not> may_act (sv_approval_policy s1) (qe_request q)" using assms by (simp add: calm_def)
  note c2 = follow_up_calm [OF this, of v response]
  obtain x t where 2: "follow_up v (qe_request q) response s1 = (x, t)" by fastforce
  have t: "calm s t" using c1 c2 2 by (auto intro: calm.R_trans)
  have none: "\<And>r. x \<noteq> Inr (Some r)" using c2 2 by auto
  have "handle_and_follow v q s = (Inr (response, None), t)"
    using 1 2 none by (cases x) (auto simp: handle_and_follow_def bindR_run attempt_def ret_run split: option.split)
  with t show ?thesis by blast
qed

lemma answer_calm:
  assumes "\<not> may_act (sv_approval_policy s) (qe_request q)"
  shows "\<exists>response t. answer_request v q s = (Inr (response, None), t) \<and> calm s t"
proof (cases "\<exists>k. qe_request q = ModelStatus \<or> qe_request q = RuntimeConfigGet \<or> qe_request q = MemoryCompileNow k")
  case False
  with assms have "answer_request v q = handle_and_follow v q"
    by (cases "qe_request q") (simp_all add: answer_request_def)
  with handle_and_follow_calm [OF assms] show ?thesis by simp
next
  case True
  then consider (status) "qe_request q = ModelStatus" | (config) "qe_request q = RuntimeConfigGet"
    | (memory) k where "qe_request q = MemoryCompileNow k" by blast
  then show ?thesis
  proof cases
    case status
    obtain r t where run: "model_status v s = (Inr r, t)"
      using total_status by (force simp: total_iff)
    with calm_run [OF calm_status run] show ?thesis
      by (simp add: answer_request_def status bindR_run ret_run)
  next
    case config
    then show ?thesis by (simp add: answer_request_def bindR_run asks_run ret_run calm.R_refl)
  next
    case memory
    obtain found s1 where run: "compile_memory_for_thread_summary v k s = (Inr found, s1)"
      using total_memory(1) by (force simp: total_iff)
    note c1 = calm_run [OF calm.along_summary run]
    show ?thesis
    proof (cases found)
      case None
      have "\<not> may_act (sv_approval_policy s1) (qe_request q)" using assms c1 by (simp add: calm_def)
      from handle_and_follow_calm [OF this, of v] c1 run None memory show ?thesis
        by (auto simp: answer_request_def bindR_run intro: calm.R_trans)
    next
      case (Some c)
      obtain u t where run2: "publish_memory_compilation_events k None c s1 = (Inr u, t)"
        using total_memory(2) by (force simp: total_iff)
      with calm.R_trans [OF c1 calm_run [OF calm.along_compilation_events run2]] run Some memory
      show ?thesis by (simp add: answer_request_def bindR_run ret_run)
    qed
  qed
qed

text \<open>C6: nothing acts without approval. Unless a request starts a turn that needs no approval (or the
  approval policy was lifted), approves one, calls a tool or changes the configuration, serving it
  always ends, runs no tool and no command, and puts no turn to the model: the model is at most
  asked to complete a text without tools. In particular a turn whose input the policy rates as high
  or critical is held back when it is started, and a denied one is never run.\<close>

theorem no_action_without_approval:
  assumes "\<not> may_act (sv_approval_policy s) (qe_request q)"
  shows "\<exists>response t cs. server_handle v q s = Some (response, t) \<and>
    he_node (sv_env t) = he_node (sv_env s) \<and> sv_calls t = sv_calls s @ cs \<and>
    (\<forall>c \<in> set cs. text_only (snd c))"
proof -
  obtain response t where "answer_request v q s = (Inr (response, None), t)" and "calm s t"
    using answer_calm [OF assms] by blast
  then show ?thesis by (auto simp: server_handle_def calm_def)
qed

theorem no_action_without_approval_witness:
  "\<exists>response t cs. server_handle demo_services \<lparr>qe_request_id = ''r1'', qe_request = TurnStart
       (demo_turn_request\<lparr>st_input := ''delete the token''\<rparr>)\<rparr> demo_server = Some (response, t) \<and>
     he_node (sv_env t) = demo_node \<and> sv_calls t = cs \<and> (\<forall>c \<in> set cs. text_only (snd c))"
proof -
  have "needs_approval ''delete the token''" by code_simp
  then have "\<not> may_act (sv_approval_policy demo_server) (TurnStart (demo_turn_request\<lparr>st_input := ''delete the token''\<rparr>))"
    by simp
  then show ?thesis
    using no_action_without_approval [of demo_server "\<lparr>qe_request_id = ''r1'', qe_request = TurnStart
       (demo_turn_request\<lparr>st_input := ''delete the token''\<rparr>)\<rparr>" demo_services]
    by (simp add: demo_server_def new_server_def)
qed

section \<open>Which turns end\<close>

definition stops :: "model_outcome \<Rightarrow> bool" where
  "stops outcome \<longleftrightarrow> (case snd outcome of Inl e \<Rightarrow> True | Inr summary \<Rightarrow> rn_tool_calls summary = [])"

text \<open>Outside its calls of the model, a round makes none.\<close>

definition same_calls :: "app_server \<Rightarrow> app_server \<Rightarrow> bool" where
  "same_calls s t \<longleftrightarrow> sv_calls t = sv_calls s"

interpretation no_calls: tool_frame same_calls "\<lambda>_ _. True"
  by unfold_locales (auto simp: same_calls_def advances_def)

lemma call_model_run:
  "call_model v g rq s =
     (Inr (vs_model v (length (sv_calls s)) g rq), s\<lparr>sv_calls := sv_calls s @ [(g, rq)]\<rparr>)"
  by (simp add: call_model_def run_simps)

lemma total_event: "total (handle_model_event k i ic e)"
  unfolding handle_model_event_def local_thread_execution_scope_def
  by (cases e; simp) (intro total_rules)+

lemma total_tool_round: "total (tool_round v r l calls)"
  unfolding tool_round_def execute_model_tool_call_def tool_failure_def runtime_diagnostic_injection_def
    local_thread_execution_scope_def Let_def
  by (intro total_rules)

lemma total_end: "total (fail_model_turn v r e)" "total (finish_model_turn v r message)"
  unfolding fail_model_turn_def finish_model_turn_def by (intro total_rules total_memory)+

definition round_request :: "turn_run \<Rightarrow> loop_state \<Rightarrow> model_turn_request" where
  "round_request r l = (base_request r)\<lparr>mtr_tool_result_injections := ls_results l\<rparr>"

text \<open>The state of a round when the events of the model's answer were handled, and what follows.\<close>

definition after_events ::
  "server_services \<Rightarrow> model_gateway_config \<Rightarrow> turn_run \<Rightarrow> loop_state \<Rightarrow> app_server \<Rightarrow> app_server" where
  "after_events v g r l s =
     snd (collectR (handle_model_event (run_thread_id r) (run_turn_id r) (tr_output_context r))
       (fst (vs_model v (length (sv_calls s)) g (round_request r l)))
       (s\<lparr>sv_calls := sv_calls s @ [(g, round_request r l)]\<rparr>))"

lemma after_events_calls: "sv_calls (after_events v g r l s) = sv_calls s @ [(g, round_request r l)]"
proof -
  have "advances same_calls (collectR (handle_model_event (run_thread_id r) (run_turn_id r) (tr_output_context r)) es)"
    for es by (intro no_calls.advances_intros no_calls.along_event)
  from advancesD [OF this] show ?thesis by (simp add: after_events_def same_calls_def)
qed

lemma model_round_run:
  "model_round v g r l s =
    (case snd (vs_model v (length (sv_calls s)) g (round_request r l)) of
       Inl e \<Rightarrow> bindR (fail_model_turn v r e) (\<lambda>_. ret None) (after_events v g r l s)
     | Inr summary \<Rightarrow>
         if rn_tool_calls summary = []
         then bindR (finish_model_turn v r (rn_assistant_message summary)) (\<lambda>_. ret None) (after_events v g r l s)
         else bindR (tool_round v r l (rn_tool_calls summary)) (\<lambda>l'. ret (Some l')) (after_events v g r l s))"
proof -
  let ?m = "vs_model v (length (sv_calls s)) g (round_request r l)"
  let ?s = "s\<lparr>sv_calls := sv_calls s @ [(g, round_request r l)]\<rparr>"
  let ?events = "collectR (handle_model_event (run_thread_id r) (run_turn_id r) (tr_output_context r)) (fst ?m)"
  have "total ?events" by (intro total_rules total_event)
  then obtain us u where "?events ?s = (Inr us, u)" unfolding total_iff by blast
  then have run: "?events ?s = (Inr us, after_events v g r l s)" by (simp add: after_events_def)
  show ?thesis
    unfolding model_round_def round_request_def [symmetric] split_beta
      bindR_step [where m = "call_model v g (round_request r l)" and s = s, OF call_model_run]
      bindR_step [where m = ?events and s = ?s, OF run]
    by (simp split: sum.split)
qed

lemma model_round_stops:
  assumes "stops (vs_model v (length (sv_calls s)) g (round_request r l))"
  shows "\<exists>t. model_round v g r l s = (Inr None, t)"
proof -
  have "\<exists>t. bindR m (\<lambda>_. ret None) u = (Inr (None :: loop_state option), t)"
    if "total m" for m :: "unit server_run" and u
    using that by (auto simp: total_iff bindR_run ret_run dest: spec [of _ u])
  then show ?thesis unfolding model_round_run using assms total_end by (auto simp: stops_def split: sum.splits)
qed

lemma model_round_goes_on:
  assumes "\<not> stops (vs_model v (length (sv_calls s)) g (round_request r l))"
  shows "\<exists>l' t. model_round v g r l s = (Inr (Some l'), t) \<and> length (sv_calls t) = Suc (length (sv_calls s))"
proof -
  obtain summary where summary: "snd (vs_model v (length (sv_calls s)) g (round_request r l)) = Inr summary"
    and calls: "rn_tool_calls summary \<noteq> []"
    using assms by (auto simp: stops_def split: sum.splits)
  let ?s = "after_events v g r l s"
  obtain l' t where tools: "tool_round v r l (rn_tool_calls summary) ?s = (Inr l', t)"
    using total_tool_round by (force simp: total_iff)
  have "same_calls ?s t"
    using advancesD [OF no_calls.along_tool_round [of v r l "rn_tool_calls summary"], of ?s] by (simp add: tools)
  with summary calls show ?thesis
    by (simp add: model_round_run bindR_step [where m = "tool_round v r l (rn_tool_calls summary)" and s = ?s, OF tools] ret_run same_calls_def after_events_calls)
qed

lemma model_loop_returns:
  assumes "length (sv_calls s) \<le> n" and "\<And>g rq. stops (vs_model v n g rq)"
  shows "\<exists>t. model_loop v g r l s = Some t"
  using assms(1)
proof (induction "n - length (sv_calls s)" arbitrary: s l)
  case 0
  then have "stops (vs_model v (length (sv_calls s)) g (round_request r l))" using assms(2) by simp
  from model_round_stops [OF this] show ?case by (auto simp: model_loop.simps [of v g r l s])
next
  case (Suc d)
  show ?case
  proof (cases "stops (vs_model v (length (sv_calls s)) g (round_request r l))")
    case True
    from model_round_stops [OF this] show ?thesis by (auto simp: model_loop.simps [of v g r l s])
  next
    case False
    from model_round_goes_on [OF this] obtain l' t where
      "model_round v g r l s = (Inr (Some l'), t)" and t: "length (sv_calls t) = Suc (length (sv_calls s))"
      by blast
    moreover have "\<exists>u. model_loop v g r l' t = Some u" using Suc t by (intro Suc.hyps) auto
    ultimately show ?thesis by (simp add: model_loop.simps [of v g r l s])
  qed
qed

lemma model_loop_endless:
  assumes "\<And>n g rq. \<not> stops (vs_model v n g rq)"
  shows "model_loop v g r l s = None"
proof -
  have False if "model_loop v g r l s = Some t" for t
  proof (rule model_loop.raw_induct [where P = "\<lambda>w g r l s t. w \<noteq> v", OF _ that, THEN notE, OF _ refl])
    fix loop w g r l s t
    assume IH: "\<And>g r l s b y. loop g r l s b = Some y \<Longrightarrow> g \<noteq> v"
      and body: "(case model_round w g r l s of
        (Inr (Some l'), t) \<Rightarrow> loop w g r l' t | (_, t) \<Rightarrow> Some t) = Some t"
    show "w \<noteq> v"
    proof
      assume "w = v"
      with model_round_goes_on [OF assms, where s = s and r = r and l = l and g = g] body show False
        by (auto dest!: IH split: prod.splits)
    qed
  qed
  then show ?thesis by fastforce
qed

lemma requests_return:
  assumes "\<forall>m. \<exists>n \<ge> m. \<forall>g rq. stops (vs_model v n g rq)"
  shows "\<exists>response t. server_handle v q s = Some (response, t)"
proof -
  obtain response next_run t where run: "answer_request v q s = (Inr (response, next_run), t)"
    using total_answer by (force simp: total_iff)
  show ?thesis
  proof (cases next_run)
    case None
    with run show ?thesis by (simp add: server_handle_def)
  next
    case (Some r)
    obtain g u where gateway: "gateway_with_provider_auth_profiles t = (Inr g, u)"
      using total_gateway by (force simp: total_iff)
    obtain n where "length (sv_calls u) \<le> n" and "\<And>g rq. stops (vs_model v n g rq)" using assms by blast
    from model_loop_returns [OF this] gateway run Some show ?thesis
      by (fastforce simp: server_handle_def stream_model_turn_def)
  qed
qed


lemma demo_stops: "\<forall>m. \<exists>n \<ge> m. \<forall>g rq. stops (vs_model demo_services n g rq)"
  by (auto simp: demo_services_def stops_def)


end
