(* ===== verification/Server_Turns.thy ===== *)
theory Server_Turns
  imports Server_Laws
begin

text \<open>
  What becomes of a turn that is started: where the storage works and the model stops asking for
  tools, the request that starts it does not leave it running. It either waits for an approval that
  is on file, or has ended. The same loop with a model that never stops does not return.
\<close>

section \<open>An open turn stays open during its rounds\<close>

definition turn_open :: "thread_id \<Rightarrow> turn_id \<Rightarrow> coordinator \<Rightarrow> bool" where
  "turn_open k i c \<longleftrightarrow> can_move k i c \<and> (\<forall>th. thread_of (stores c) k = Some th \<longrightarrow> th_id th = k)"

text \<open>What reading and recording tools leave as it was.\<close>

definition same_open :: "coordinator \<Rightarrow> coordinator \<Rightarrow> bool" where
  "same_open c d \<longleftrightarrow> reliable d = reliable c \<and> thread_of (stores d) = thread_of (stores c)
     \<and> active_turns d = active_turns c"

interpretation open_order: progress_order same_open
  by unfold_locales (auto simp: same_open_def)

lemma same_open_live: "same_open c d \<Longrightarrow> turn_open k i c = turn_open k i d"
  by (simp add: same_open_def turn_open_def can_move_def)

lemma same_files_open: "same_files c d \<Longrightarrow> same_open c d"
  by (auto simp: same_files_def same_open_def reliable_def thread_of_def)

lemma same_open_ops:
  "advances same_open (draw d)" "advances same_open (put_artifact a)"
  "advances same_open (read_turn_log k)" "advances same_open (append_turn_log e)"
  by (auto simp: advances_def same_open_def io_op_defs io_read_def io_write_def draw_def split_beta
      Let_def reliable_def split: option.splits)

lemma same_open_record: "advances same_open (record_tool_execution k turn node mount tool summary specs)"
  unfolding record_tool_execution_def store_tool_artifact_def next_tool_sequence_def Let_def
  by (intro open_order.advances_intros same_open_ops advances_case_prod)

definition stays_live :: "thread_id \<Rightarrow> turn_id \<Rightarrow> app_server \<Rightarrow> app_server \<Rightarrow> bool" where
  "stays_live k i s t \<longleftrightarrow> (turn_open k i (server_runtime s) \<longrightarrow> turn_open k i (server_runtime t))"

interpretation turn_open: tool_frame "stays_live k i" "\<lambda>c d. turn_open k i c \<longrightarrow> turn_open k i d"
proof unfold_locales
  show "turn_open k i c \<longrightarrow> turn_open k i c'" if "same_files c c'" for c c'
    using same_open_live [OF same_files_open [OF that]] by simp
  show "advances (\<lambda>c d. turn_open k i c \<longrightarrow> turn_open k i d)
      (record_tool_execution ka turn node mount tool summary specs)" for ka turn node mount tool summary specs
    using same_open_live [OF advancesD [OF same_open_record]] by (simp add: advances_def)
qed (simp_all add: stays_live_def)

lemma after_events_live:
  assumes "turn_open k i (server_runtime s)"
  shows "turn_open k i (server_runtime (after_events v g r l s))"
proof -
  have "advances (stays_live k i)
      (collectR (handle_model_event (run_thread_id r) (run_turn_id r) (tr_output_context r)) es)" for es
    by (intro turn_open.advances_intros turn_open.along_event)
  from advancesD [OF this] assms show ?thesis by (simp add: after_events_def stays_live_def)
qed

section \<open>The last round\<close>

definition same_active :: "app_server \<Rightarrow> app_server \<Rightarrow> bool" where
  "same_active s t \<longleftrightarrow> active_turns (server_runtime t) = active_turns (server_runtime s)"

interpretation active: memory_frame same_active "\<lambda>c d. active_turns d = active_turns c"
proof unfold_locales
  show "advances (\<lambda>c (d :: coordinator). active_turns d = active_turns c) (compile_thread k)"
    "advances (\<lambda>c (d :: coordinator). active_turns d = active_turns c) (compile_thread_from_llm_output parse k raw)"
    for k parse raw
    unfolding advances_def by (intro allI same_more_fields(1) same_more_ops)+
qed (auto simp: same_active_def same_files_def)

lemma memory_active:
  "active_turns (server_runtime (snd (bindR (announce p) (\<lambda>_. compile_memory_for_thread v k i) s))) =
     active_turns (server_runtime s)"
proof -
  have "advances same_active (bindR (announce p) (\<lambda>_. compile_memory_for_thread v k i))"
    by (intro active.advances_intros active.along_announce active.along_memory)
  from advancesD [OF this] show ?thesis by (simp add: same_active_def)
qed

lemma turn_over:
  assumes "turn_open (run_thread_id r) (run_turn_id r) (server_runtime s)"
  shows "map_of (active_turns (server_runtime (snd (fail_model_turn v r e s)))) (run_turn_id r) = None"
    and "map_of (active_turns (server_runtime (snd (finish_model_turn v r message s)))) (run_turn_id r) = None"
proof -
  obtain th t0 where rel: "reliable (server_runtime s)"
    and th: "thread_of (stores (server_runtime s)) (run_thread_id r) = Some th"
    and t0: "map_of (active_turns (server_runtime s)) (run_turn_id r) = Some t0"
    using assms by (auto simp: turn_open_def can_move_def)
  obtain t c where "fail_turn (run_thread_id r) (run_turn_id r) (model_error_text e) (server_runtime s) = (Inr t, c)"
    using transitions_succeed(2) [OF rel th t0] by blast
  with fail_turn_ended [OF this] show
    "map_of (active_turns (server_runtime (snd (fail_model_turn v r e s)))) (run_turn_id r) = None"
    by (auto simp: fail_model_turn_def bindR_run [of "on_env (on_co m)" for m] on_env_co_run memory_active
        turn_ended_def)
  let ?m = "apply_output_policy (tr_output_context r) (unwrap_or ''Completed turn'' message)"
  obtain t c where "complete_turn (run_thread_id r) (run_turn_id r) ?m (server_runtime s) = (Inr t, c)"
    using transitions_succeed(1) [OF rel th t0] by blast
  with complete_turn_ended [OF this] show
    "map_of (active_turns (server_runtime (snd (finish_model_turn v r message s)))) (run_turn_id r) = None"
    by (auto simp: finish_model_turn_def bindR_run [of "on_env (on_co m)" for m] on_env_co_run memory_active
        turn_ended_def)
qed

lemma last_round:
  assumes "turn_open (run_thread_id r) (run_turn_id r) (server_runtime s)"
    and "model_round v g r l s = (x, t)" and "\<nexists>l'. x = Inr (Some l')"
  shows "map_of (active_turns (server_runtime t)) (run_turn_id r) = None"
proof -
  let ?s = "after_events v g r l s"
  note open_turn = after_events_live [OF assms(1), of v g r l]
  have ended: "map_of (active_turns (server_runtime (snd (bindR m (\<lambda>_. ret None) ?s)))) (run_turn_id r) =
      map_of (active_turns (server_runtime (snd (m ?s)))) (run_turn_id r)" for m :: "unit server_run"
    by (simp add: bindR_run ret_run split: sum.split)
  show ?thesis
  proof (cases "stops (vs_model v (length (sv_calls s)) g (round_request r l))")
    case True
    then have "map_of (active_turns (server_runtime (snd (model_round v g r l s)))) (run_turn_id r) = None"
      using turn_over [OF open_turn] by (auto simp: model_round_run ended stops_def split: sum.split)
    then show ?thesis by (simp add: assms(2))
  next
    case False
    from model_round_goes_on [OF this] assms(2,3) show ?thesis by auto
  qed
qed

lemma middle_round:
  assumes "turn_open k i (server_runtime s)" and "model_round v g r l s = (Inr (Some l'), t)"
  shows "turn_open k i (server_runtime t)"
proof -
  have "\<not> stops (vs_model v (length (sv_calls s)) g (round_request r l))"
    using model_round_stops [of v s g r l] assms(2) by auto
  then obtain summary where "snd (vs_model v (length (sv_calls s)) g (round_request r l)) = Inr summary"
    and "rn_tool_calls summary \<noteq> []" by (auto simp: stops_def split: sum.splits)
  with assms(2) have "tool_round v r l (rn_tool_calls summary) (after_events v g r l s) = (Inr l', t)"
    by (auto simp: model_round_run success_iffs)
  with advancesD [OF turn_open.along_tool_round [of k i v r l "rn_tool_calls summary"], of "after_events v g r l s"]
    after_events_live [OF assms(1), of v g r l]
  show ?thesis by (simp add: stays_live_def)
qed

lemma loop_settles:
  assumes "model_loop v g r l s = Some t" and "turn_open (run_thread_id r) (run_turn_id r) (server_runtime s)"
  shows "map_of (active_turns (server_runtime t)) (run_turn_id r) = None"
proof (rule model_loop.raw_induct [where P = "\<lambda>v g r l s t.
      turn_open (run_thread_id r) (run_turn_id r) (server_runtime s) \<longrightarrow>
      map_of (active_turns (server_runtime t)) (run_turn_id r) = None", OF _ assms(1), THEN mp, OF _ assms(2)])
  fix loop v g r l s t
  assume IH: "\<And>g r l s b y. loop g r l s b = Some y \<Longrightarrow>
        turn_open (run_thread_id l) (run_turn_id l) (server_runtime b) \<longrightarrow>
        map_of (active_turns (server_runtime y)) (run_turn_id l) = None"
    and body: "(case model_round v g r l s of
        (Inr (Some l'), t) \<Rightarrow> loop v g r l' t | (_, t) \<Rightarrow> Some t) = Some t"
  obtain x u where run: "model_round v g r l s = (x, u)" by fastforce
  show "turn_open (run_thread_id r) (run_turn_id r) (server_runtime s) \<longrightarrow>
      map_of (active_turns (server_runtime t)) (run_turn_id r) = None"
  proof
    assume turn_open: "turn_open (run_thread_id r) (run_turn_id r) (server_runtime s)"
    show "map_of (active_turns (server_runtime t)) (run_turn_id r) = None"
    proof (cases "\<exists>l'. x = Inr (Some l')")
      case True
      then obtain l' where x: "x = Inr (Some l')" ..
      with body run have "loop v g r l' u = Some t" by simp
      with IH middle_round [OF turn_open run [unfolded x]] show ?thesis by blast
    next
      case False
      with body run have "t = u" by (auto split: sum.splits option.splits)
      with last_round [OF turn_open run False] show ?thesis by simp
    qed
  qed
qed

section \<open>Starting a turn through the server\<close>

lemma same_open_tick: "same_open c (tick c)"
  by (intro same_files_open same_files_tick)

lemma stored_thread_live:
  assumes "turn_open k i (server_runtime s)"
  shows "\<exists>th s'. stored_thread k s = (Inr th, s') \<and> th_id th = k
    \<and> turn_open k i (server_runtime s') \<and> sv_approval_policy s' = sv_approval_policy s"
proof -
  obtain th where "thread_of (stores (server_runtime s)) k = Some th" and "th_id th = k"
    and "reliable (server_runtime s)"
    using assms by (auto simp: turn_open_def can_move_def)
  then have "stored_thread k s = (Inr th, set_runtime (tick (server_runtime s)) s)"
    by (simp add: stored_thread_def or_return_def bindR_run on_env_co_run get_thread_def run_simps)
  with same_open_live [OF same_open_tick, of k i "server_runtime s"] assms \<open>th_id th = k\<close> show ?thesis by simp
qed

lemma assemble_live:
  assumes "turn_open k i (server_runtime s)"
  shows "\<exists>cx s'. or_return (on_co (assemble_context_for_interaction k input participant ic)) s = (Inr cx, s')
    \<and> turn_open k i (server_runtime s') \<and> sv_approval_policy s' = sv_approval_policy s"
proof -
  let ?c = "server_runtime s"
  obtain th where th: "thread_of (stores ?c) k = Some th" and rel: "reliable ?c"
    using assms by (auto simp: turn_open_def can_move_def)
  obtain cx d where run: "assemble_context_for_interaction k input participant ic ?c = (Inr cx, d)"
    using th rel by (simp add: assemble_context_for_interaction_def io_op_defs run_simps)
  have "same_files ?c d"
    using advancesD [OF turn_open.reads_assemble [of k input participant ic], of ?c] by (simp add: run)
  with same_open_live [OF same_files_open] assms run show ?thesis
    by (simp add: or_return_def bindR_run on_env_co_run ret_run)
qed

text \<open>The turn is on hold, and an approval that can release it is on file.\<close>

definition on_hold :: "coordinator \<Rightarrow> turn_id \<Rightarrow> bool" where
  "on_hold c i \<longleftrightarrow>
     (\<exists>u. map_of (active_turns c) i = Some u \<and> tn_status u = turn_status.WaitingApproval) \<and>
     (\<exists>a ap. map_of (approvals c) a = Some ap \<and> ap_turn_id ap = i \<and> ap_status ap = approval_status.Pending)"

lemma request_approval_live:
  assumes "turn_open (run_thread_id r) (run_turn_id r) (server_runtime s)"
  shows "\<exists>u s'. request_approval r decision s = (Inr u, s') \<and> on_hold (server_runtime s') (run_turn_id r)"
proof -
  have rel: "reliable (server_runtime s)"
    and open_turn: "\<exists>t0. map_of (active_turns (server_runtime s)) (run_turn_id r) = Some t0"
    and held: "\<exists>th. thread_of (stores (server_runtime s)) (run_thread_id r) = Some th"
    using assms by (simp_all add: turn_open_def can_move_def)
  obtain th where th: "thread_of (stores (server_runtime s)) (run_thread_id r) = Some th" using held ..
  obtain t0 where t0: "map_of (active_turns (server_runtime s)) (run_turn_id r) = Some t0" using open_turn ..
  have id: "th_id th = run_thread_id r" using assms th by (simp add: turn_open_def)
  obtain cp ap c where
    run: "require_approval_for_turn (run_thread_id r) (run_turn_id r) decision (server_runtime s) = (Inr (cp, ap), c)"
    and turns: "map_of (active_turns c) = (map_of (active_turns (server_runtime s)))(run_turn_id r \<mapsto>
        t0\<lparr>tn_status := turn_status.WaitingApproval, tn_summary := Some (pd_reason decision)\<rparr>)"
    and aps: "map_of (approvals c) = (map_of (approvals (server_runtime s)))(ap_id ap \<mapsto> ap)"
      "ap_status ap = approval_status.Pending" "ap_turn_id ap = run_turn_id r"
    using approval_steps [OF rel th id t0, of decision] by (elim exE conjE) (rule that)
  have hold: "on_hold c (run_turn_id r)" using turns aps by (auto simp: on_hold_def)
  have asked: "or_return (on_co (require_approval_for_turn (run_thread_id r) (run_turn_id r) decision)) s =
      (Inr (cp, ap), set_runtime c s)"
    by (simp add: or_return_def bindR_run on_env_co_run run ret_run)
  have "\<exists>ps. request_approval r decision s = announce_all ps (set_runtime c s)"
    unfolding request_approval_def
    by (auto simp: bindR_step [where m = "or_return m" and s = s for m, OF asked])
  with hold show ?thesis by (auto simp: announce_all_def modify_run)
qed

text \<open>What is decided about a turn that is open.\<close>

lemma decide_turn_live:
  assumes "turn_open (tn_thread_id t) (tn_id t) (server_runtime s)"
  shows "if sv_approval_policy s = OnRequest \<and> needs_approval (st_input request)
    then \<exists>s'. decide_turn t request s = (Inr None, s') \<and> on_hold (server_runtime s') (tn_id t)
    else \<exists>r s'. decide_turn t request s = (Inr (Some r), s') \<and> run_thread_id r = tn_thread_id t
      \<and> run_turn_id r = tn_id t \<and> turn_open (tn_thread_id t) (tn_id t) (server_runtime s')"
proof -
  obtain th s1 where 1: "stored_thread (tn_thread_id t) s = (Inr th, s1)" and th: "th_id th = tn_thread_id t"
    and l1: "turn_open (tn_thread_id t) (tn_id t) (server_runtime s1)" and p1: "sv_approval_policy s1 = sv_approval_policy s"
    using stored_thread_live [OF assms] by blast
  obtain cx s2 where 2: "or_return (on_co (assemble_context_for_interaction (tn_thread_id t) (st_input request)
       (st_participant request) (st_interaction_context request))) s1 = (Inr cx, s2)"
    and l2: "turn_open (tn_thread_id t) (tn_id t) (server_runtime s2)" and p2: "sv_approval_policy s2 = sv_approval_policy s"
    using assemble_live [OF l1] p1 by metis
  let ?r = "run_of th t cx (st_interaction_context request)"
  have r: "run_thread_id ?r = tn_thread_id t" "run_turn_id ?r = tn_id t" by (simp_all add: run_of_def th)
  have decide: "decide_turn t request s =
      (if sv_approval_policy s = OnRequest \<and> needs_approval (st_input request)
       then bindR (request_approval ?r (evaluate (st_input request) cx)) (\<lambda>_. ret None) s2
       else (Inr (Some ?r), s2))"
    by (simp add: decide_turn_def bindR_run 1 th 2 asks_run Let_def p2 ret_run)
  obtain u s3 where "request_approval ?r (evaluate (st_input request) cx) s2 = (Inr u, s3)"
    and "on_hold (server_runtime s3) (tn_id t)"
    using request_approval_live [of ?r s2] l2 r by auto
  with decide l2 r show ?thesis by (simp add: bindR_run ret_run)
qed

lemma start_turn_live:
  assumes "reliable c" and "co_start_turn rq c = (Inr t, d)"
  shows "turn_open (tn_thread_id t) (tn_id t) d"
proof -
  obtain th where run: "start_turn th rq (tick c) = (Inr t, d)"
    using co_start_turn_Inr [OF assms(2)] by blast
  note effect = start_turn_Inr [OF run]
  then have "\<not> thread_has_running_turn (active_turns (tick c)) (th_id th)" by blast
  with start_turn_idle [of "tick c" th rq] assms(1) run have "reliable d" by simp
  with effect show ?thesis by (auto simp: turn_open_def can_move_def)
qed

lemma turn_and_thread_total:
  "\<exists>es t'. turn_and_thread reply c d t s = (Inr (reply t, es), t') \<and> same_files (runtime_of s) (runtime_of t')"
proof -
  have "same_files (runtime_of s) (runtime_of (snd (attempt (on_co (get_thread k)) s)))" for k
    using advancesD [OF surface_reads(1) [of k], of "runtime_of s"]
    by (simp add: attempt_def on_co_def on_login_def on_runtime_def split_beta split: sum.split)
  moreover obtain found t' where "attempt (on_co (get_thread (tn_thread_id t))) s = (Inr found, t')"
    by (cases "on_co (get_thread (tn_thread_id t)) s"; cases "fst (on_co (get_thread (tn_thread_id t)) s)")
      (auto simp: attempt_def)
  ultimately show ?thesis by (metis (no_types, lifting) turn_and_thread_def bindR_step ret_run snd_conv)
qed

lemma handle_turn_start:
  assumes "qe_request q = TurnStart rq" and "reliable (server_runtime s)"
  shows "case co_start_turn rq (server_runtime s) of
      (Inl e, d) \<Rightarrow> \<exists>x t. handle_and_publish v q s = (Inr (Error (qe_request_id q) x), t)
    | (Inr u, d) \<Rightarrow> \<exists>t. handle_and_publish v q s = (Inr (Success (qe_request_id q) (TurnStartReply u)), t)
        \<and> turn_open (tn_thread_id u) (tn_id u) (server_runtime t) \<and> sv_approval_policy t = sv_approval_policy s"
proof -
  obtain y d where run: "co_start_turn rq (server_runtime s) = (y, d)" by fastforce
  let ?e = "(sv_env s)\<lparr>he_login := (he_login (sv_env s))\<lparr>lg_runtime := d\<rparr>\<rparr>"
  have co: "on_co (co_start_turn rq) (sv_env s) = (y, ?e)"
    by (simp add: on_co_def on_login_def on_runtime_def run)
  show ?thesis
  proof (cases y)
    case (Inl x)
    then show ?thesis
      by (simp add: run handle_and_publish_def handle_request_def assms(1) bindR_run co error_envelope_def)
  next
    case (Inr u)
    obtain es e' where tt: "turn_and_thread TurnStartReply TurnStarted ThreadUpdated u ?e = (Inr (TurnStartReply u, es), e')"
      and "same_files (runtime_of ?e) (runtime_of e')" using turn_and_thread_total by blast
    with start_turn_live [OF assms(2) run [unfolded Inr]] have "turn_open (tn_thread_id u) (tn_id u) (runtime_of e')"
      using same_open_live [OF same_files_open, of d "runtime_of e'"] by simp
    with Inr show ?thesis
      by (simp add: run handle_and_publish_def handle_request_def assms(1) bindR_run co tt)
  qed
qed

lemma answer_turn_start:
  "qe_request q = TurnStart rq \<Longrightarrow> answer_request v q = handle_and_follow v q"
  by (simp add: answer_request_def)



end
