(* ===== verification/Server_Tools.thy ===== *)
theory Server_Tools
  imports Server_Turns
begin

text \<open>
  What the model gets back for its tool calls, and what of its answer is published
  (\<open>stream_model_turn\<close>, \<open>execute_model_tool_call\<close>, \<open>handle_model_event\<close> and \<open>apply_output_policy\<close> in
  \<open>server/mod.rs\<close>). The calculus of \<open>yields\<close> says that an operation always returns, and what it returns.
\<close>

section \<open>Operations that always return a value of a kind\<close>

definition yields :: "('a \<Rightarrow> bool) \<Rightarrow> ('e, 's, 'a) run \<Rightarrow> bool" where
  "yields Q m \<longleftrightarrow> (\<forall>s. \<exists>a t. m s = (Inr a, t) \<and> Q a)"

lemma yields_ret: "Q a \<Longrightarrow> yields Q (ret a)"
  by (simp add: yields_def ret_run)

lemma yieldsD: "yields Q m \<Longrightarrow> \<exists>a t. m s = (Inr a, t) \<and> Q a"
  by (simp add: yields_def)

lemma yields_bindR:
  assumes "total m" and "\<And>a. yields Q (f a)"
  shows "yields Q (bindR m f)"
  unfolding yields_def
proof
  fix s
  obtain a t where "m s = (Inr a, t)" using assms(1) unfolding total_iff by blast
  with yieldsD [OF assms(2), of a t] show "\<exists>b u. bindR m f s = (Inr b, u) \<and> Q b"
    by (simp add: bindR_run)
qed

lemma yields_case_prod: "(\<And>a b. yields Q (f a b)) \<Longrightarrow> yields Q (case p of (a, b) \<Rightarrow> f a b)"
  by (cases p) simp

lemma yields_case_sum:
  "(\<And>e. yields Q (f e)) \<Longrightarrow> (\<And>a. yields Q (g a)) \<Longrightarrow> yields Q (case x of Inl e \<Rightarrow> f e | Inr a \<Rightarrow> g a)"
  by (cases x) simp_all

lemmas yields_rules = yields_bindR yields_case_prod yields_case_sum

lemma yields_collectR:
  assumes "\<And>x. yields (Q x) (f x)"
  shows "yields (list_all2 Q xs) (collectR f xs)"
proof (induction xs)
  case Nil
  show ?case by (simp add: yields_ret)
next
  case (Cons x xs)
  show ?case
    unfolding yields_def
  proof
    fix s
    obtain a t where "f x s = (Inr a, t)" "Q x a" using yieldsD [OF assms, of x s] by blast
    moreover obtain as u where "collectR f xs t = (Inr as, u)" "list_all2 Q xs as"
      using yieldsD [OF Cons, of t] by blast
    ultimately show "\<exists>as t. collectR f (x # xs) s = (Inr as, t) \<and> list_all2 Q (x # xs) as"
      by (simp add: run_simps)
  qed
qed

section \<open>Tool calls\<close>

text \<open>A result for a call: it carries the names of the call, and it is an error or has a tool's result.\<close>

definition answers_call :: "server_services \<Rightarrow> provider_tool_call \<Rightarrow> tool_result_injection \<Rightarrow> bool" where
  "answers_call v call x \<longleftrightarrow>
     tri_call_id x = ptc_call_id call \<and> tri_tool_name x = ptc_tool_name call \<and>
     tri_provider_tool_name x = ptc_provider_tool_name call \<and>
     (if tri_is_error x then \<exists>message. tri_result x = error_json message
      else \<exists>y. tri_result x = result_json v y)"

lemma answers_injection:
  "answers_call v call (injection call (error_json message) True summary)"
  "answers_call v call (injection call (result_json v y) False summary)"
  by (auto simp: answers_call_def injection_def)

lemma yields_failure: "yields (answers_call v call) (tool_failure k i node mount call tool message summary)"
  unfolding tool_failure_def
  by (intro yields_rules total_rules yields_ret answers_injection)

lemma yields_tool_call: "yields (answers_call v call) (execute_model_tool_call v k i call)"
  unfolding execute_model_tool_call_def local_thread_execution_scope_def Let_def
  by (intro yields_rules total_rules yields_failure yields_ret answers_injection)


section \<open>What is published of an answer\<close>

lemma announced_event:
  "sv_bus (snd (handle_model_event k i ic (AssistantMessage message) s)) =
     snd (publish (pending k (Some i) (AssistantCompleted (apply_output_policy ic message))) (sv_bus s))"
  by (simp add: handle_model_event_def announce_def modify_run)

text \<open>A piece of an answer is published as it is, whatever the output policy says of the answer.\<close>

lemma chunks_bypass_output_policy:
  "sv_bus (snd (handle_model_event k i ic (AssistantDelta chunk) s)) =
     snd (publish (pending k (Some i) (AssistantChunk
       \<lparr>ace_chunk = chunk, ace_stream_id = Some ''primary'', ace_is_final = False\<rparr>)) (sv_bus s))"
  by (simp add: handle_model_event_def announce_def modify_run)

text \<open>The turn that goes on after an approval has no interaction context, so its answer is not checked.\<close>

lemma approved_turn_unchecked:
  assumes "decide_approved a s = (Inr (Some r), t)"
  shows "apply_output_policy (tr_output_context r) message = message"
  using assms
  by (auto simp: decide_approved_def bindR_run ret_run run_of_def apply_output_policy_def
      split: prod.splits sum.splits)

text \<open>Where the scope of a thread cannot be read, its tools run on the local device, without a mount.\<close>

lemma unreadable_scope_is_local:
  assumes "fst (thread_execution_scope k (server_runtime s)) = Inl e"
  shows "fst (local_thread_execution_scope k s) = Inr (''local'', None)"
  using assms by (simp add: local_thread_execution_scope_def bindR_run on_env_co_run ret_run)

end
