(* ===== verification/Cli_Config.thy ===== *)
theory Cli_Config
  imports Gateway
begin

text \<open>
  The settings of the terminal client (\<open>liz-cli/src/settings.rs\<close>) and the draft its configuration
  panel edits (\<open>ConfigDraft\<close> in \<open>view_model.rs\<close>). The file has the structure of the server's
  (\<open>liz_config_file\<close>, whose entries have the fields of a provider override). The draft shows the fields of
  one provider and keeps those of the others; \<open>draft_of\<close> is what it holds for any of them.
\<close>

section \<open>Rows of a list\<close>

text \<open>\<open>iter().position(..)\<close>, and the selection moving by one with wrap-around.\<close>

fun position :: "('a \<Rightarrow> bool) \<Rightarrow> 'a list \<Rightarrow> nat option" where
  "position p [] = None"
| "position p (x # xs) = (if p x then Some 0 else map_option Suc (position p xs))"

definition previous_row :: "nat \<Rightarrow> nat \<Rightarrow> nat" where
  "previous_row n i = (if i = 0 then n - 1 else i - 1)"

definition next_row :: "nat \<Rightarrow> nat \<Rightarrow> nat" where
  "next_row n i = (i + 1) mod n"

lemma position_Some: "position p xs = Some i \<Longrightarrow> i < length xs \<and> p (xs ! i)"
  by (induction xs arbitrary: i) (auto split: if_splits)

lemma position_None [simp]: "position p xs = None \<longleftrightarrow> (\<forall>x \<in> set xs. \<not> p x)"
  by (induction xs) auto

lemma position_nth: "distinct xs \<Longrightarrow> i < length xs \<Longrightarrow> position (\<lambda>x. x = xs ! i) xs = Some i"
proof (induction xs arbitrary: i)
  case (Cons x xs)
  then show ?case by (cases i) auto
qed simp

lemma position_key:
  assumes "distinct (map key xs)" and "x \<in> set xs"
  shows "\<exists>i. position (\<lambda>y. key y = key x) xs = Some i \<and> i < length xs \<and> xs ! i = x"
  using assms
proof (induction xs)
  case (Cons y ys)
  show ?case
  proof (cases "key y = key x")
    case True
    with Cons.prems have "y = x" by (auto simp: image_iff)
    then show ?thesis by simp
  next
    case False
    with Cons.prems have "x \<in> set ys" by auto
    with Cons False show ?thesis by fastforce
  qed
qed simp

lemma row_bounds: "i < n \<Longrightarrow> previous_row n i < n" "0 < n \<Longrightarrow> next_row n i < n"
  by (auto simp: previous_row_def next_row_def)

lemma next_previous_row: "i < n \<Longrightarrow> next_row n (previous_row n i) = i"
  by (auto simp: previous_row_def next_row_def)

lemma previous_next_row: "i < n \<Longrightarrow> previous_row n (next_row n i) = i"
proof (cases "Suc i = n")
  case False
  moreover assume "i < n"
  ultimately have "Suc i < n" by simp
  then show ?thesis by (simp add: previous_row_def next_row_def)
qed (auto simp: previous_row_def next_row_def)

section \<open>Settings\<close>

datatype provider_field = BaseUrlField | ApiKeyField | ModelField

definition parse_provider_field :: "string \<Rightarrow> provider_field option" where
  "parse_provider_field v =
     (if v \<in> {''base-url'', ''base_url''} then Some BaseUrlField
      else if v \<in> {''api-key'', ''api_key''} then Some ApiKeyField
      else if v \<in> {''model'', ''model-id'', ''model_id''} then Some ModelField
      else None)"

fun provider_field_name :: "provider_field \<Rightarrow> string" where
  "provider_field_name BaseUrlField = ''base-url''"
| "provider_field_name ApiKeyField = ''api-key''"
| "provider_field_name ModelField = ''model''"

lemma provider_field_roundtrip: "parse_provider_field (provider_field_name f) = Some f"
  by (cases f) (simp_all add: parse_provider_field_def)

fun set_provider_field :: "provider_field \<Rightarrow> string \<Rightarrow> provider_override \<Rightarrow> provider_override" where
  "set_provider_field BaseUrlField v p = p\<lparr>po_base_url := Some v\<rparr>"
| "set_provider_field ApiKeyField v p = p\<lparr>po_api_key := Some v\<rparr>"
| "set_provider_field ModelField v p = p\<lparr>po_model_id := Some v\<rparr>"

definition set_primary_provider :: "string \<Rightarrow> liz_config_file \<Rightarrow> liz_config_file" where
  "set_primary_provider i c = c\<lparr>lf_primary_provider := Some i\<rparr>"

definition upsert_provider :: "string \<Rightarrow> provider_field \<Rightarrow> string \<Rightarrow> liz_config_file \<Rightarrow> liz_config_file" where
  "upsert_provider i field v c =
     c\<lparr>lf_providers := tree_insert i
         (set_provider_field field v (unwrap_or no_override (map_of (lf_providers c) i)))
         (lf_providers c)\<rparr>"

text \<open>The nearest \<open>.liz\<close> directory upwards; a path is the list of its components.\<close>

function find_existing_liz_dir :: "(string list \<Rightarrow> bool) \<Rightarrow> string list \<Rightarrow> string list option" where
  "find_existing_liz_dir is_dir start =
     (if is_dir (start @ [''.liz'']) then Some (start @ [''.liz''])
      else if start = [] then None else find_existing_liz_dir is_dir (butlast start))"
  by auto
termination by (relation "measure (\<lambda>(_, start). length start)") auto

declare find_existing_liz_dir.simps [simp del]

section \<open>The draft\<close>

datatype config_focus = ProviderRow | BaseUrlRow | ApiKeyRow | ModelRow

definition all_rows :: "config_focus list" where
  "all_rows = [ProviderRow, BaseUrlRow, ApiKeyRow, ModelRow]"

fun config_focus_label :: "config_focus \<Rightarrow> string" where
  "config_focus_label ProviderRow = ''Provider''"
| "config_focus_label BaseUrlRow = ''Base URL''"
| "config_focus_label ApiKeyRow = ''API key''"
| "config_focus_label ModelRow = ''Model''"

record provider_override_draft =
  od_base_url :: string
  od_api_key :: string
  od_model_id :: string

definition empty_draft :: provider_override_draft where
  "empty_draft = \<lparr>od_base_url = [], od_api_key = [], od_model_id = []\<rparr>"

record config_draft =
  cd_config_path :: string
  cd_provider_id :: string
  cd_auth_profiles :: "provider_auth_profile list"
  cd_known_providers :: "string list"
  cd_base_url :: string
  cd_api_key :: string
  cd_model_id :: string
  cd_dirty :: bool
  cd_focus :: config_focus
  cd_provider_overrides :: "(string \<times> provider_override_draft) list"

definition config_draft_default :: config_draft where
  "config_draft_default =
     \<lparr>cd_config_path = [], cd_provider_id = ''openai'', cd_auth_profiles = [],
      cd_known_providers = [''openai''], cd_base_url = [], cd_api_key = [], cd_model_id = [],
      cd_dirty = False, cd_focus = ProviderRow, cd_provider_overrides = []\<rparr>"

definition focused_value :: "config_draft \<Rightarrow> string" where
  "focused_value d =
     (case cd_focus d of
        ProviderRow \<Rightarrow> cd_provider_id d
      | BaseUrlRow \<Rightarrow> cd_base_url d
      | ApiKeyRow \<Rightarrow> cd_api_key d
      | ModelRow \<Rightarrow> cd_model_id d)"

definition edit_focused :: "(string \<Rightarrow> string) \<Rightarrow> config_draft \<Rightarrow> config_draft" where
  "edit_focused f d =
     (case cd_focus d of
        ProviderRow \<Rightarrow> d\<lparr>cd_provider_id := f (cd_provider_id d)\<rparr>
      | BaseUrlRow \<Rightarrow> d\<lparr>cd_base_url := f (cd_base_url d)\<rparr>
      | ApiKeyRow \<Rightarrow> d\<lparr>cd_api_key := f (cd_api_key d)\<rparr>
      | ModelRow \<Rightarrow> d\<lparr>cd_model_id := f (cd_model_id d)\<rparr>)"

definition row_index :: "config_focus \<Rightarrow> nat" where
  "row_index r = unwrap_or 0 (position (\<lambda>x. x = r) all_rows)"

definition focus_previous :: "config_draft \<Rightarrow> config_draft" where
  "focus_previous d =
     d\<lparr>cd_focus := all_rows ! previous_row (length all_rows) (row_index (cd_focus d))\<rparr>"

definition focus_next :: "config_draft \<Rightarrow> config_draft" where
  "focus_next d = d\<lparr>cd_focus := all_rows ! next_row (length all_rows) (row_index (cd_focus d))\<rparr>"

definition sync_known_providers :: "config_draft \<Rightarrow> config_draft" where
  "sync_known_providers d =
     (if cd_provider_id d = [] \<or> cd_provider_id d \<in> set (cd_known_providers d) then d
      else d\<lparr>cd_known_providers := cd_provider_id d # cd_known_providers d\<rparr>)"

definition visible_draft :: "config_draft \<Rightarrow> provider_override_draft" where
  "visible_draft d =
     \<lparr>od_base_url = cd_base_url d, od_api_key = cd_api_key d, od_model_id = cd_model_id d\<rparr>"

definition persist_visible_fields :: "config_draft \<Rightarrow> config_draft" where
  "persist_visible_fields d =
     (if cd_provider_id d = [] then d
      else d\<lparr>cd_provider_overrides :=
               tree_insert (cd_provider_id d) (visible_draft d) (cd_provider_overrides d)\<rparr>)"

definition restore_visible_fields :: "config_draft \<Rightarrow> config_draft" where
  "restore_visible_fields d =
     (let saved = unwrap_or empty_draft (map_of (cd_provider_overrides d) (cd_provider_id d))
      in d\<lparr>cd_base_url := od_base_url saved, cd_api_key := od_api_key saved,
           cd_model_id := od_model_id saved\<rparr>)"

definition push_char :: "char \<Rightarrow> config_draft \<Rightarrow> config_draft" where
  "push_char c d =
     persist_visible_fields (sync_known_providers ((edit_focused (\<lambda>s. s @ [c]) d)\<lparr>cd_dirty := True\<rparr>))"

definition pop_char :: "config_draft \<Rightarrow> config_draft" where
  "pop_char d =
     (if focused_value d = [] then d
      else persist_visible_fields (sync_known_providers ((edit_focused butlast d)\<lparr>cd_dirty := True\<rparr>)))"

definition cycle_provider :: "int \<Rightarrow> config_draft \<Rightarrow> config_draft" where
  "cycle_provider direction d0 =
     (let d = (if cd_known_providers d0 = [] then d0\<lparr>cd_known_providers := [cd_provider_id d0]\<rparr> else d0);
          n = length (cd_known_providers d);
          current = unwrap_or 0 (position (\<lambda>p. p = cd_provider_id d) (cd_known_providers d));
          row = (if direction < 0 then previous_row n current else next_row n current);
          shown = (persist_visible_fields d)\<lparr>cd_provider_id := cd_known_providers d ! row\<rparr>
      in (restore_visible_fields shown)\<lparr>cd_dirty := True\<rparr>)"

definition push_unique_provider :: "string list \<Rightarrow> string \<Rightarrow> string list" where
  "push_unique_provider ps p = (if p = [] \<or> p \<in> set ps then ps else ps @ [p])"

definition collect_known_providers ::
  "string \<Rightarrow> liz_config_file \<Rightarrow> provider_auth_profile list \<Rightarrow> string option \<Rightarrow> string list" where
  "collect_known_providers current config profiles fallback =
     foldl push_unique_provider []
       ([current] @ (case fallback of None \<Rightarrow> [] | Some p \<Rightarrow> [p])
        @ [''openai'', ''anthropic'', ''openai-codex'', ''github-copilot'', ''gitlab'', ''minimax'']
        @ map fst (lf_providers config)
        @ map pf_provider_id profiles)"

definition draft_of_entry :: "provider_override \<Rightarrow> provider_override_draft" where
  "draft_of_entry p =
     \<lparr>od_base_url = unwrap_or [] (po_base_url p), od_api_key = unwrap_or [] (po_api_key p),
      od_model_id = unwrap_or [] (po_model_id p)\<rparr>"

definition load_from ::
  "string \<Rightarrow> liz_config_file \<Rightarrow> provider_auth_profile list \<Rightarrow> string option \<Rightarrow> config_draft" where
  "load_from location config profiles fallback =
     (let provider_id = unwrap_or ''openai'' (opt_or (lf_primary_provider config) fallback);
          entry = unwrap_or empty_draft (map_option draft_of_entry (map_of (lf_providers config) provider_id))
      in restore_visible_fields
           \<lparr>cd_config_path = location, cd_provider_id = provider_id, cd_auth_profiles = profiles,
            cd_known_providers = collect_known_providers provider_id config profiles fallback,
            cd_base_url = od_base_url entry, cd_api_key = od_api_key entry, cd_model_id = od_model_id entry,
            cd_dirty = False, cd_focus = ProviderRow,
            cd_provider_overrides = map (\<lambda>(i, p). (i, draft_of_entry p)) (lf_providers config)\<rparr>)"

section \<open>What a draft holds\<close>

definition draft_of :: "config_draft \<Rightarrow> string \<Rightarrow> provider_override_draft" where
  "draft_of d i =
     (if i = cd_provider_id d then visible_draft d
      else unwrap_or empty_draft (map_of (cd_provider_overrides d) i))"

lemma visible_restore: "visible_draft (restore_visible_fields d) =
    unwrap_or empty_draft (map_of (cd_provider_overrides d) (cd_provider_id d))"
  by (simp add: visible_draft_def restore_visible_fields_def Let_def)

lemma restore_fields [simp]:
  "cd_provider_id (restore_visible_fields d) = cd_provider_id d"
  "cd_provider_overrides (restore_visible_fields d) = cd_provider_overrides d"
  "cd_known_providers (restore_visible_fields d) = cd_known_providers d"
  by (simp_all add: restore_visible_fields_def Let_def)

lemma persist_fields [simp]:
  "cd_provider_id (persist_visible_fields d) = cd_provider_id d"
  "cd_known_providers (persist_visible_fields d) = cd_known_providers d"
  "visible_draft (persist_visible_fields d) = visible_draft d"
  by (simp_all add: persist_visible_fields_def visible_draft_def)

lemma visible_update [simp]:
  "visible_draft (d\<lparr>cd_dirty := b\<rparr>) = visible_draft d"
  "visible_draft (d\<lparr>cd_known_providers := ps\<rparr>) = visible_draft d"
  "visible_draft (d\<lparr>cd_provider_id := i\<rparr>) = visible_draft d"
  by (simp_all add: visible_draft_def)

text \<open>C39: paging through the providers loses no edit: from a draft that names a provider, moving to the
  next or the previous one keeps what the draft holds for every provider, shown or not.\<close>

theorem cycling_loses_no_edit:
  assumes "cd_provider_id d \<noteq> []"
  shows "draft_of (cycle_provider direction d) = draft_of d"
proof
  fix i
  have shown: "map_of (cd_provider_overrides (persist_visible_fields e)) =
      (map_of (cd_provider_overrides d))(cd_provider_id d \<mapsto> visible_draft d)"
    if "cd_provider_id e = cd_provider_id d" "visible_draft e = visible_draft d"
      "cd_provider_overrides e = cd_provider_overrides d" for e
    using assms that by (simp add: persist_visible_fields_def)
  show "draft_of (cycle_provider direction d) i = draft_of d i"
    by (simp add: cycle_provider_def Let_def draft_of_def visible_restore shown)
qed

theorem cycling_loses_no_edit_witness:
  "draft_of (cycle_provider 1 ((config_draft_default\<lparr>cd_known_providers := [''openai'', ''gitlab'']\<rparr>)
     \<lparr>cd_api_key := ''k''\<rparr>)) ''openai'' = \<lparr>od_base_url = [], od_api_key = ''k'', od_model_id = []\<rparr>"
  by (subst cycling_loses_no_edit)
    (simp_all add: config_draft_default_def draft_of_def visible_draft_def)

text \<open>The draft does lose them when the name of the provider was deleted first.\<close>

lemma unnamed_edits_lost:
  assumes "cd_provider_id d = []" and "cd_known_providers d = [p, q]" and "p \<noteq> []" and "q \<noteq> []"
    and "map_of (cd_provider_overrides d) q = None"
  shows "visible_draft (cycle_provider 1 d) = empty_draft"
  using assms by (simp add: cycle_provider_def Let_def visible_restore persist_visible_fields_def next_row_def)

text \<open>Typing the name of a provider registers every prefix of it as a provider.\<close>

lemma typed_prefix_is_known:
  assumes "cd_focus d = ProviderRow" and "cd_provider_id d @ [c] \<notin> set (cd_known_providers d)"
  shows "cd_known_providers (push_char c d) = (cd_provider_id d @ [c]) # cd_known_providers d"
  using assms by (simp add: push_char_def edit_focused_def sync_known_providers_def)

end
