(* ===== verification/Cli_View.thy ===== *)
theory Cli_View
  imports Cli_Config Messages Server_Events
begin

text \<open>
  The view model of the terminal client (\<open>liz-cli/src/view_model.rs\<close>): what the client shows, as a
  function of the responses and events it received and of what the user did. Every method of
  \<open>ViewModel\<close> is a function on the record of its fields. An index into a list that is out of range is
  answered as the source does by \<open>get\<close>.
\<close>

section \<open>Entries, commands, panels\<close>

datatype transcript_entry_kind = UserEntry | AssistantEntry | ToolEntry | ApprovalEntry | SystemEntry

fun entry_kind_label :: "transcript_entry_kind \<Rightarrow> string" where
  "entry_kind_label UserEntry = ''you''"
| "entry_kind_label AssistantEntry = ''liz''"
| "entry_kind_label ToolEntry = ''tool''"
| "entry_kind_label ApprovalEntry = ''approval''"
| "entry_kind_label SystemEntry = ''system''"

record transcript_entry =
  te_kind :: transcript_entry_kind
  te_body :: string

definition transcript :: "transcript_entry_kind \<Rightarrow> string \<Rightarrow> transcript_entry" where
  "transcript k b = \<lparr>te_kind = k, te_body = b\<rparr>"

datatype overlay_panel =
  HelpPanel | MemoryPanel | ConfigPanel | StatusPanel | ThreadsPanel | CommandPalette
| SandboxPanel | PermissionsPanel

record slash_command_spec =
  sc_name :: string
  sc_description :: string
  sc_usage :: string

record slash_command_suggestion =
  sg_spec :: slash_command_spec
  sg_exact_match :: bool

definition command_spec :: "string \<Rightarrow> string \<Rightarrow> string \<Rightarrow> slash_command_spec" where
  "command_spec n d u = \<lparr>sc_name = n, sc_description = d, sc_usage = u\<rparr>"

definition builtin_commands :: "slash_command_spec list" where
  "builtin_commands =
     [command_spec ''help'' ''Open command reference'' ''/help'',
      command_spec ''config'' ''Open config panel'' ''/config'',
      command_spec ''status'' ''Open runtime status'' ''/status'',
      command_spec ''memory'' ''Open memory panel'' ''/memory'',
      command_spec ''threads'' ''Browse conversations'' ''/threads'',
      command_spec ''new'' ''Start a new conversation'' ''/new'',
      command_spec ''resume'' ''Resume selected conversation'' ''/resume'',
      command_spec ''fork'' ''Fork selected conversation'' ''/fork'',
      command_spec ''search'' ''Search memory'' ''/search'',
      command_spec ''wakeup'' ''Refresh wake-up'' ''/wakeup'',
      command_spec ''compile'' ''Compile memory for this conversation'' ''/compile'',
      command_spec ''sandbox'' ''Set shell sandbox mode''
        ''/sandbox <read-only|workspace-write|external-sandbox>'',
      command_spec ''permissions'' ''Set approval policy'' ''/permissions <on-request|danger-full-access>'',
      command_spec ''approve'' ''Approve the current request'' ''/approve'',
      command_spec ''deny'' ''Deny the current request'' ''/deny'',
      command_spec ''cancel'' ''Cancel the running turn'' ''/cancel'',
      command_spec ''clear'' ''Clear visible transcript and start fresh'' ''/clear'',
      command_spec ''exit'' ''Leave liz-cli'' ''/exit'']"

definition sandbox_modes :: "sandbox_mode list" where
  "sandbox_modes = [ReadOnly, WorkspaceWrite, ExternalSandbox]"

definition permission_policies :: "approval_policy list" where
  "permission_policies = [OnRequest, ApprovalDangerFullAccess]"

fun approval_policy_as_str :: "approval_policy \<Rightarrow> string" where
  "approval_policy_as_str OnRequest = ''on-request''"
| "approval_policy_as_str ApprovalDangerFullAccess = ''danger-full-access''"

text \<open>\<open>{:?}\<close> of a decision.\<close>

fun decision_debug :: "approval_decision \<Rightarrow> string" where
  "decision_debug ApproveOnce = ''ApproveOnce''"
| "decision_debug ApproveAndPersist = ''ApproveAndPersist''"
| "decision_debug Deny = ''Deny''"

definition nth_opt :: "'a list \<Rightarrow> nat \<Rightarrow> 'a option" where
  "nth_opt xs i = (if i < length xs then Some (xs ! i) else None)"

section \<open>The state\<close>

record view_model =
  vm_thread_statuses :: "(thread_id \<times> thread_status) list"
  vm_threads :: "thread list"
  vm_selected_thread_index :: nat
  vm_active_thread_id :: "thread_id option"
  vm_transcript_entries :: "transcript_entry list"
  vm_thread_transcripts :: "(thread_id \<times> transcript_entry list) list"
  vm_pending_approvals :: "approval_request list"
  vm_resume_summary :: "resume_summary option"
  vm_wakeup :: "memory_wakeup option"
  vm_recent_conversation :: "recent_conversation_wakeup_view option"
  vm_topics :: "memory_topic_summary list"
  vm_recall_hits :: "memory_search_hit list"
  vm_session_view :: "memory_session_view option"
  vm_evidence_view :: "memory_evidence_view option"
  vm_diff_preview :: "string option"
  vm_candidate_procedures :: "string list"
  vm_dreaming_summaries :: "string list"
  vm_model_status :: "model_status_response option"
  vm_runtime_sandbox :: "shell_sandbox_summary option"
  vm_runtime_approval_policy :: "approval_policy option"
  vm_auth_profiles :: "provider_auth_profile list"
  vm_status_line :: string
  vm_input_buffer :: string
  vm_active_overlay :: "overlay_panel option"
  vm_command_suggestions :: "slash_command_suggestion list"
  vm_selected_command_index :: nat
  vm_selected_sandbox_index :: nat
  vm_selected_permission_index :: nat
  vm_config_draft :: config_draft
  vm_slash_mode :: bool
  vm_input_history :: "string list"
  vm_input_history_index :: "nat option"
  vm_pending_thread_start_entries :: "transcript_entry list"
  vm_assistant_streaming :: "string option"

definition view_model_default :: view_model where
  "view_model_default =
     \<lparr>vm_thread_statuses = [], vm_threads = [], vm_selected_thread_index = 0, vm_active_thread_id = None,
      vm_transcript_entries = [], vm_thread_transcripts = [], vm_pending_approvals = [],
      vm_resume_summary = None, vm_wakeup = None, vm_recent_conversation = None, vm_topics = [],
      vm_recall_hits = [], vm_session_view = None, vm_evidence_view = None, vm_diff_preview = None,
      vm_candidate_procedures = [], vm_dreaming_summaries = [], vm_model_status = None,
      vm_runtime_sandbox = None, vm_runtime_approval_policy = None, vm_auth_profiles = [],
      vm_status_line = [], vm_input_buffer = [], vm_active_overlay = None, vm_command_suggestions = [],
      vm_selected_command_index = 0, vm_selected_sandbox_index = 0, vm_selected_permission_index = 0,
      vm_config_draft = config_draft_default, vm_slash_mode = False, vm_input_history = [],
      vm_input_history_index = None, vm_pending_thread_start_entries = [], vm_assistant_streaming = None\<rparr>"

section \<open>Threads and their transcripts\<close>

definition selected_thread :: "view_model \<Rightarrow> thread option" where
  "selected_thread v = nth_opt (vm_threads v) (vm_selected_thread_index v)"

definition active_thread :: "view_model \<Rightarrow> thread option" where
  "active_thread v =
     Option.bind (vm_active_thread_id v) (\<lambda>k. find (\<lambda>th. th_id th = k) (vm_threads v))"

definition transcript_of :: "view_model \<Rightarrow> thread_id \<Rightarrow> transcript_entry list" where
  "transcript_of v k = unwrap_or [] (map_of (vm_thread_transcripts v) k)"

definition sync_visible_transcript :: "view_model \<Rightarrow> view_model" where
  "sync_visible_transcript v =
     v\<lparr>vm_transcript_entries :=
         (case vm_active_thread_id v of None \<Rightarrow> [] | Some k \<Rightarrow> transcript_of v k)\<rparr>"

definition activate_selected_thread :: "view_model \<Rightarrow> thread_id option \<times> view_model" where
  "activate_selected_thread v =
     (case selected_thread v of
        None \<Rightarrow> (None, v)
      | Some th \<Rightarrow> (Some (th_id th), sync_visible_transcript (v\<lparr>vm_active_thread_id := Some (th_id th)\<rparr>)))"

definition push_deduped_entry :: "transcript_entry list \<Rightarrow> transcript_entry \<Rightarrow> transcript_entry list" where
  "push_deduped_entry es e =
     (if blank (te_body e) then es
      else if e \<in> set (take 3 (rev es)) then es
      else es @ [e])"

definition push_thread_entry ::
  "thread_id \<Rightarrow> transcript_entry_kind \<Rightarrow> string \<Rightarrow> view_model \<Rightarrow> view_model" where
  "push_thread_entry k kind body v =
     (let pushed = v\<lparr>vm_thread_transcripts :=
            tree_insert k (push_deduped_entry (transcript_of v k) (transcript kind body))
              (vm_thread_transcripts v)\<rparr>
      in if vm_active_thread_id v = Some k then sync_visible_transcript pushed else pushed)"

definition push_entry_for_selected_thread ::
  "transcript_entry_kind \<Rightarrow> string \<Rightarrow> view_model \<Rightarrow> view_model" where
  "push_entry_for_selected_thread kind body v =
     (case vm_active_thread_id v of
        Some k \<Rightarrow> push_thread_entry k kind body v
      | None \<Rightarrow>
          v\<lparr>vm_transcript_entries := push_deduped_entry (vm_transcript_entries v) (transcript kind body)\<rparr>)"

definition push_user_message :: "string \<Rightarrow> view_model \<Rightarrow> view_model" where
  "push_user_message m = push_entry_for_selected_thread UserEntry m"

definition push_system_message :: "string \<Rightarrow> view_model \<Rightarrow> view_model" where
  "push_system_message m = push_entry_for_selected_thread SystemEntry m"

definition push_pending_thread_start_message :: "string \<Rightarrow> view_model \<Rightarrow> view_model" where
  "push_pending_thread_start_message m v =
     (let entries = push_deduped_entry (vm_pending_thread_start_entries v) (transcript UserEntry m)
      in v\<lparr>vm_pending_thread_start_entries := entries, vm_transcript_entries := entries\<rparr>)"

definition position_of_thread :: "thread_id \<Rightarrow> thread list \<Rightarrow> nat option" where
  "position_of_thread k = position (\<lambda>th. th_id th = k)"

definition upsert_thread :: "thread \<Rightarrow> view_model \<Rightarrow> view_model" where
  "upsert_thread th v =
     (let selected = map_option th_id (selected_thread v);
          active = (case vm_active_thread_id v of None \<Rightarrow> Some (th_id th) | Some k \<Rightarrow> Some k);
          threads = sort_by (ge_on th_updated_at) (upsert_by th_id th (vm_threads v));
          index = unwrap_or 0 (position_of_thread (unwrap_or (th_id th) selected) threads)
      in sync_visible_transcript
           (v\<lparr>vm_active_thread_id := active, vm_threads := threads,
              vm_thread_statuses := tree_insert (th_id th) (th_status th) (vm_thread_statuses v),
              vm_selected_thread_index := index\<rparr>))"

definition attach_pending_entries_to_thread :: "thread_id \<Rightarrow> view_model \<Rightarrow> view_model" where
  "attach_pending_entries_to_thread k v =
     (if vm_pending_thread_start_entries v = [] then sync_visible_transcript v
      else sync_visible_transcript
        (v\<lparr>vm_thread_transcripts :=
             tree_insert k (foldl push_deduped_entry (transcript_of v k) (vm_pending_thread_start_entries v))
               (vm_thread_transcripts v),
           vm_pending_thread_start_entries := []\<rparr>))"

definition entry_from_session :: "memory_session_entry \<Rightarrow> transcript_entry option" where
  "entry_from_session e =
     (let body = trim (se_summary e); event = se_event e
      in if body = [] then None
         else Some
           (if event = ''turn_started'' then
              transcript UserEntry (unwrap_or body (strip_prefix ''Started turn for: '' body))
            else if event = ''turn_completed'' then transcript AssistantEntry body
            else if event = ''tool_completed'' then transcript ToolEntry body
            else if event = ''approval_wait'' then transcript ApprovalEntry body
            else if event = ''approval_resolved'' then transcript SystemEntry body
            else if event = ''turn_cancelled'' then transcript SystemEntry (''Interrupted: '' @ body)
            else if event = ''turn_failed'' then transcript SystemEntry (''Turn failed: '' @ body)
            else transcript SystemEntry body))"

definition replace_thread_history :: "memory_session_view \<Rightarrow> view_model \<Rightarrow> view_model" where
  "replace_thread_history session v =
     (let k = sv_thread_id session;
          history = foldl push_deduped_entry
            (List.map_filter entry_from_session (sv_recent_entries session)) (transcript_of v k);
          replaced = v\<lparr>vm_thread_transcripts := tree_insert k history (vm_thread_transcripts v)\<rparr>
      in if vm_active_thread_id v = Some k then sync_visible_transcript replaced else replaced)"

section \<open>Pickers\<close>

definition select_previous_command :: "view_model \<Rightarrow> view_model" where
  "select_previous_command v =
     (if vm_command_suggestions v = [] then v\<lparr>vm_selected_command_index := 0\<rparr>
      else v\<lparr>vm_selected_command_index :=
               previous_row (length (vm_command_suggestions v)) (vm_selected_command_index v)\<rparr>)"

definition select_next_command :: "view_model \<Rightarrow> view_model" where
  "select_next_command v =
     (if vm_command_suggestions v = [] then v\<lparr>vm_selected_command_index := 0\<rparr>
      else v\<lparr>vm_selected_command_index :=
               next_row (length (vm_command_suggestions v)) (vm_selected_command_index v)\<rparr>)"

definition selected_sandbox_mode :: "view_model \<Rightarrow> sandbox_mode" where
  "selected_sandbox_mode v = unwrap_or WorkspaceWrite (nth_opt sandbox_modes (vm_selected_sandbox_index v))"

definition set_selected_sandbox_mode :: "sandbox_mode \<Rightarrow> view_model \<Rightarrow> view_model" where
  "set_selected_sandbox_mode mode v =
     v\<lparr>vm_selected_sandbox_index := unwrap_or 1 (position (\<lambda>m. m = mode) sandbox_modes)\<rparr>"

definition select_previous_sandbox_mode :: "view_model \<Rightarrow> view_model" where
  "select_previous_sandbox_mode v =
     v\<lparr>vm_selected_sandbox_index := previous_row (length sandbox_modes) (vm_selected_sandbox_index v)\<rparr>"

definition select_next_sandbox_mode :: "view_model \<Rightarrow> view_model" where
  "select_next_sandbox_mode v =
     v\<lparr>vm_selected_sandbox_index := next_row (length sandbox_modes) (vm_selected_sandbox_index v)\<rparr>"

definition selected_permission_policy :: "view_model \<Rightarrow> approval_policy" where
  "selected_permission_policy v =
     unwrap_or OnRequest (nth_opt permission_policies (vm_selected_permission_index v))"

definition set_selected_permission_policy :: "approval_policy \<Rightarrow> view_model \<Rightarrow> view_model" where
  "set_selected_permission_policy policy v =
     v\<lparr>vm_selected_permission_index := unwrap_or 0 (position (\<lambda>p. p = policy) permission_policies)\<rparr>"

definition select_previous_permission_policy :: "view_model \<Rightarrow> view_model" where
  "select_previous_permission_policy v =
     v\<lparr>vm_selected_permission_index :=
         previous_row (length permission_policies) (vm_selected_permission_index v)\<rparr>"

definition select_next_permission_policy :: "view_model \<Rightarrow> view_model" where
  "select_next_permission_policy v =
     v\<lparr>vm_selected_permission_index :=
         next_row (length permission_policies) (vm_selected_permission_index v)\<rparr>"

definition select_previous_thread :: "view_model \<Rightarrow> view_model" where
  "select_previous_thread v =
     v\<lparr>vm_selected_thread_index :=
         (if vm_threads v = [] then 0 else previous_row (length (vm_threads v)) (vm_selected_thread_index v))\<rparr>"

definition select_next_thread :: "view_model \<Rightarrow> view_model" where
  "select_next_thread v =
     v\<lparr>vm_selected_thread_index :=
         (if vm_threads v = [] then 0 else next_row (length (vm_threads v)) (vm_selected_thread_index v))\<rparr>"

section \<open>The composer\<close>

definition trim_start :: "string \<Rightarrow> string" where
  "trim_start s = dropWhile is_ws s"

definition max_input_history_entries :: nat where
  "max_input_history_entries = 100"

definition record_input_history :: "string \<Rightarrow> view_model \<Rightarrow> view_model" where
  "record_input_history input v =
     (let entry = trim input; hs = vm_input_history v; grown = hs @ [entry]
      in if entry = [] then v
         else if hs \<noteq> [] \<and> last hs = entry then v\<lparr>vm_input_history_index := None\<rparr>
         else v\<lparr>vm_input_history := (if length grown > max_input_history_entries then tl grown else grown),
                vm_input_history_index := None\<rparr>)"

definition clear_input_history_selection :: "view_model \<Rightarrow> view_model" where
  "clear_input_history_selection v = v\<lparr>vm_input_history_index := None\<rparr>"

definition slash_query :: "view_model \<Rightarrow> string option" where
  "slash_query v =
     (case trim_start (vm_input_buffer v) of
        c # rest \<Rightarrow>
          if c = CHR ''/'' then Some (case split_whitespace rest of [] \<Rightarrow> [] | w # _ \<Rightarrow> w) else None
      | [] \<Rightarrow> None)"

definition has_exact_slash_command :: "view_model \<Rightarrow> bool" where
  "has_exact_slash_command v =
     (case slash_query v of None \<Rightarrow> False | Some q \<Rightarrow> \<exists>spec \<in> set builtin_commands. sc_name spec = q)"

definition command_matches :: "string \<Rightarrow> slash_command_spec \<Rightarrow> bool" where
  "command_matches q spec \<longleftrightarrow>
     q = [] \<or> starts_with (sc_name spec) q \<or> contains (to_lower (sc_description spec)) q"

definition suggestion_le :: "string \<Rightarrow> slash_command_suggestion \<Rightarrow> slash_command_suggestion \<Rightarrow> bool" where
  "suggestion_le q =
     then_with (ge_on (\<lambda>x. starts_with (sc_name (sg_spec x)) q))
       (then_with (ge_on sg_exact_match) (le_on (\<lambda>x. sc_name (sg_spec x))))"

definition slash_suggestions :: "string \<Rightarrow> slash_command_suggestion list" where
  "slash_suggestions query =
     (let q = to_lower (trim query)
      in sort_by (suggestion_le q)
           (map (\<lambda>spec. \<lparr>sg_spec = spec, sg_exact_match = (sc_name spec = q)\<rparr>)
             (filter (command_matches q) builtin_commands)))"

definition refresh_composer_affordances :: "view_model \<Rightarrow> view_model" where
  "refresh_composer_affordances v0 =
     (let v = v0\<lparr>vm_slash_mode := starts_with (trim_start (vm_input_buffer v0)) ''/'',
                 vm_command_suggestions :=
                   (case slash_query v0 of Some q \<Rightarrow> slash_suggestions q | None \<Rightarrow> [])\<rparr>
      in if vm_command_suggestions v = []
         then v\<lparr>vm_active_overlay :=
                  (if vm_active_overlay v = Some CommandPalette then None else vm_active_overlay v),
                vm_selected_command_index := 0\<rparr>
         else v\<lparr>vm_selected_command_index :=
                  (if length (vm_command_suggestions v) \<le> vm_selected_command_index v then 0
                   else vm_selected_command_index v),
                vm_active_overlay := (if vm_slash_mode v then Some CommandPalette else vm_active_overlay v)\<rparr>)"

definition recall_previous_input :: "view_model \<Rightarrow> bool \<times> view_model" where
  "recall_previous_input v =
     (if vm_input_history v = [] then (False, v)
      else let i = (case vm_input_history_index v of
                      None \<Rightarrow> length (vm_input_history v) - 1
                    | Some 0 \<Rightarrow> 0
                    | Some (Suc i) \<Rightarrow> i)
           in (True, refresh_composer_affordances
                (v\<lparr>vm_input_history_index := Some i, vm_input_buffer := vm_input_history v ! i\<rparr>)))"

definition open_overlay :: "overlay_panel \<Rightarrow> view_model \<Rightarrow> view_model" where
  "open_overlay p v = v\<lparr>vm_active_overlay := Some p\<rparr>"

definition close_overlay :: "view_model \<Rightarrow> view_model" where
  "close_overlay v0 =
     (let v = v0\<lparr>vm_active_overlay := None\<rparr>
      in if vm_active_overlay v = Some CommandPalette
         then v\<lparr>vm_command_suggestions := [], vm_selected_command_index := 0\<rparr> else v)"

definition selected_command_suggestion :: "view_model \<Rightarrow> slash_command_suggestion option" where
  "selected_command_suggestion v = nth_opt (vm_command_suggestions v) (vm_selected_command_index v)"

text \<open>What follows the first word of the composer.\<close>

definition after_first_word :: "string \<Rightarrow> string" where
  "after_first_word s =
     (case dropWhile (\<lambda>c. \<not> is_ws c) (trim_start s) of [] \<Rightarrow> [] | _ # rest \<Rightarrow> trim_start rest)"

definition accept_command_suggestion :: "view_model \<Rightarrow> bool \<times> view_model" where
  "accept_command_suggestion v =
     (case selected_command_suggestion v of
        None \<Rightarrow> (False, v)
      | Some suggestion \<Rightarrow>
          let rest = after_first_word (vm_input_buffer v);
              input = ''/'' @ sc_name (sg_spec suggestion) @ '' '' @ rest
          in (True, (refresh_composer_affordances (v\<lparr>vm_input_buffer := input\<rparr>))
                      \<lparr>vm_active_overlay := None\<rparr>))"

section \<open>Responses\<close>

definition status :: "string \<Rightarrow> view_model \<Rightarrow> view_model" where
  "status line v = v\<lparr>vm_status_line := line\<rparr>"

definition counted :: "string \<Rightarrow> string \<Rightarrow> string \<Rightarrow> nat \<Rightarrow> string" where
  "counted none one noun n =
     (if n = 0 then none else if n = 1 then one else ''Loaded '' @ show_dec n @ noun)"

definition apply_thread_list :: "thread list \<Rightarrow> view_model \<Rightarrow> view_model" where
  "apply_thread_list ths v =
     (let selected = map_option th_id (selected_thread v);
          active = opt_filter (\<lambda>k. \<exists>th \<in> set ths. th_id th = k) (vm_active_thread_id v);
          index = unwrap_or 0 (Option.bind selected (\<lambda>k. position_of_thread k ths))
      in status (counted ''No conversations yet'' ''Loaded 1 conversation'' '' conversations'' (length ths))
           (sync_visible_transcript
             (v\<lparr>vm_threads := ths,
                vm_thread_statuses := tree_of (map (\<lambda>th. (th_id th, th_status th)) ths),
                vm_active_thread_id := active, vm_selected_thread_index := index\<rparr>)))"

definition upsert_auth_profile :: "provider_auth_profile \<Rightarrow> view_model \<Rightarrow> view_model" where
  "upsert_auth_profile p v =
     v\<lparr>vm_auth_profiles :=
         (if \<exists>x \<in> set (vm_auth_profiles v). pf_profile_id x = pf_profile_id p
          then upsert_by pf_profile_id p (vm_auth_profiles v)
          else sort_by (le_on pf_profile_id) (vm_auth_profiles v @ [p]))\<rparr>"

definition show_profiles :: "view_model \<Rightarrow> view_model" where
  "show_profiles v =
     v\<lparr>vm_config_draft := (vm_config_draft v)\<lparr>cd_auth_profiles := vm_auth_profiles v\<rparr>\<rparr>"

definition apply_model_status :: "model_status_response \<Rightarrow> view_model \<Rightarrow> view_model" where
  "apply_model_status r =
     (let name = unwrap_or (ms_provider_id r) (ms_display_name r)
      in status
           (if ms_ready r
            then name @ '' ready'' @ (case ms_model_id r of None \<Rightarrow> [] | Some m \<Rightarrow> '' on '' @ m)
            else name @ '' needs configuration''))"

definition apply_runtime_config :: "runtime_config_response \<Rightarrow> view_model \<Rightarrow> view_model" where
  "apply_runtime_config r v =
     status (''Shell sandbox '' @ sandbox_mode_as_str (sum_mode (rc_sandbox r)) @ '' via ''
             @ backend_kind_as_str (sum_backend (rc_sandbox r)) @ ''; permissions ''
             @ approval_policy_as_str (rc_approval_policy r))
       (v\<lparr>vm_runtime_sandbox := Some (rc_sandbox r),
          vm_runtime_approval_policy := Some (rc_approval_policy r)\<rparr>)"

definition apply_evidence :: "memory_evidence_view \<Rightarrow> view_model \<Rightarrow> view_model" where
  "apply_evidence x v =
     status (''Opened evidence '' @ ci_note (ev_citation x))
       (v\<lparr>vm_diff_preview :=
            opt_filter (\<lambda>body. case ev_artifact x of None \<Rightarrow> False | Some a \<Rightarrow> ar_kind a = Diff)
              (ev_artifact_body x),
          vm_evidence_view := Some x\<rparr>)"

fun apply_payload :: "response_payload \<Rightarrow> view_model \<Rightarrow> view_model" where
  "apply_payload (ThreadStartReply th) v =
     status (''Started '' @ th_title th)
       (attach_pending_entries_to_thread (th_id th)
         (upsert_thread th (v\<lparr>vm_active_thread_id := Some (th_id th)\<rparr>)))"
| "apply_payload (ThreadResumeReply th summary) v =
     status (''Resumed '' @ th_title th)
       (sync_visible_transcript
         ((upsert_thread th (v\<lparr>vm_active_thread_id := Some (th_id th)\<rparr>))\<lparr>vm_resume_summary := summary\<rparr>))"
| "apply_payload (ThreadListReply ths) v = apply_thread_list ths v"
| "apply_payload (ThreadForkReply th) v =
     status (''Forked '' @ th_title th)
       (sync_visible_transcript (upsert_thread th (v\<lparr>vm_active_thread_id := Some (th_id th)\<rparr>)))"
| "apply_payload (MemoryReadWakeupReply k wakeup recent) v =
     status (''Ready to continue '' @ k)
       (v\<lparr>vm_wakeup := Some wakeup, vm_recent_conversation := Some recent\<rparr>)"
| "apply_payload (MemoryListTopicsReply topics) v =
     status (''Loaded '' @ show_dec (length topics) @ '' memory topics'') (v\<lparr>vm_topics := topics\<rparr>)"
| "apply_payload (MemorySearchReply query mode hits) v =
     status (''Search found '' @ show_dec (length hits) @ '' result(s)'')
       (v\<lparr>vm_recall_hits := hits, vm_active_overlay := Some MemoryPanel\<rparr>)"
| "apply_payload (MemoryOpenSessionReply session) v =
     status (''Opened '' @ sv_title session)
       (replace_thread_history session (v\<lparr>vm_session_view := Some session\<rparr>))"
| "apply_payload (MemoryOpenEvidenceReply x) v = apply_evidence x v"
| "apply_payload (MemoryCompileNowReply k c) v =
     status (mc_delta_summary c) (v\<lparr>vm_candidate_procedures := mc_candidate_procedures c\<rparr>)"
| "apply_payload (ApprovalRespondReply a) v =
     status (''Resolved approval '' @ ap_id a)
       (v\<lparr>vm_pending_approvals := remove_by ap_id (ap_id a) (vm_pending_approvals v)\<rparr>)"
| "apply_payload (TurnStartReply t) v = status ''Message sent'' v"
| "apply_payload (TurnCancelReply t) v = status ''Turn cancelled'' v"
| "apply_payload (ToolCallReply r) v = status (tool_call_response.tp_summary r) v"
| "apply_payload (ModelStatusReply r) v = apply_model_status r (v\<lparr>vm_model_status := Some r\<rparr>)"
| "apply_payload (RuntimeConfigReply r) v = apply_runtime_config r v"
| "apply_payload (ProviderAuthListReply ps) v =
     status (counted ''No saved provider profiles'' ''Loaded 1 provider profile'' '' provider profiles''
              (length ps))
       (show_profiles (v\<lparr>vm_auth_profiles := ps\<rparr>))"
| "apply_payload (ProviderAuthUpsertReply p) v =
     status (''Saved provider profile '' @ pf_profile_id p) (show_profiles (upsert_auth_profile p v))"
| "apply_payload (ProviderAuthDeleteReply i) v =
     status (''Deleted provider profile '' @ i)
       (show_profiles (v\<lparr>vm_auth_profiles := remove_by pf_profile_id i (vm_auth_profiles v)\<rparr>))"
| "apply_payload _ v = v"

fun apply_response :: "server_response_envelope \<Rightarrow> view_model \<Rightarrow> view_model" where
  "apply_response (Success i p) v = apply_payload p v"
| "apply_response (Error i e) v =
     status (re_message e) (push_entry_for_selected_thread SystemEntry (re_message e) v)"

section \<open>Events\<close>

definition apply_event :: "server_event \<Rightarrow> view_model \<Rightarrow> view_model" where
  "apply_event e v =
     (let k = ev_thread_id e
      in case ev_payload e of
           ThreadStarted th \<Rightarrow> upsert_thread th v
         | ThreadResumed th \<Rightarrow> upsert_thread th v
         | ThreadUpdated th \<Rightarrow> upsert_thread th v
         | ThreadInterrupted th \<Rightarrow> upsert_thread th v
         | ThreadForked th \<Rightarrow> upsert_thread th v
         | ThreadArchived th \<Rightarrow> upsert_thread th v
         | TurnStarted t \<Rightarrow>
             (case tn_goal t of
                None \<Rightarrow> status ''liz is working'' v
              | Some goal \<Rightarrow>
                  status (''Working on '' @ goal)
                    (if blank goal then v else push_thread_entry k UserEntry goal v))
         | TurnCompleted t \<Rightarrow> status (unwrap_or ''Turn completed'' (tn_summary t)) v
         | TurnFailed t message \<Rightarrow>
             status message (push_thread_entry k SystemEntry (''Turn failed: '' @ message) v)
         | TurnCancelled t \<Rightarrow>
             status ''Turn interrupted'' (push_thread_entry k SystemEntry ''Turn interrupted'' v)
         | AssistantChunk c \<Rightarrow>
             status ''liz is replying''
               (v\<lparr>vm_assistant_streaming := Some (unwrap_or [] (vm_assistant_streaming v) @ ace_chunk c)\<rparr>)
         | AssistantCompleted message \<Rightarrow>
             status ''Reply finished''
               (push_thread_entry k AssistantEntry message (v\<lparr>vm_assistant_streaming := None\<rparr>))
         | ToolCallStarted c \<Rightarrow> status (tse_tool_name c @ '': '' @ tse_summary c) v
         | ToolCallUpdated c \<Rightarrow>
             status (tue_tool_name c @ '': '' @ tue_delta_summary c
                     @ (case tue_preview c of None \<Rightarrow> [] | Some p \<Rightarrow> '' ('' @ p @ '')'')) v
         | ToolCallCommitted c \<Rightarrow> status (tme_tool_name c @ '': '' @ tme_arguments_summary c) v
         | ToolCompleted c \<Rightarrow>
             status (tce_tool_name c @ '' finished'')
               (push_thread_entry k ToolEntry (tce_tool_name c @ '': '' @ tce_summary c) v)
         | ToolFailed c \<Rightarrow>
             status (tfe_tool_name c @ '' failed'')
               (push_thread_entry k ToolEntry (tfe_tool_name c @ '': '' @ tfe_summary c) v)
         | ApprovalRequested a \<Rightarrow>
             status ''Approval needed''
               (push_thread_entry k ApprovalEntry (ap_id a @ '' needs approval: '' @ ap_reason a)
                 (v\<lparr>vm_pending_approvals := vm_pending_approvals v @ [a]\<rparr>))
         | ApprovalResolved a decision \<Rightarrow>
             status (''Approval '' @ ap_id a @ '' resolved'')
               (push_thread_entry k SystemEntry
                 (''Approval '' @ ap_id a @ '' resolved as '' @ decision_debug decision)
                 (v\<lparr>vm_pending_approvals := remove_by ap_id (ap_id a) (vm_pending_approvals v)\<rparr>))
         | DiffAvailable a \<Rightarrow> status ''Diff preview ready'' (v\<lparr>vm_diff_preview := Some (ar_summary a)\<rparr>)
         | MemoryWakeupLoaded w \<Rightarrow> status ''Wake-up refreshed'' (v\<lparr>vm_wakeup := Some w\<rparr>)
         | MemoryCompilationApplied c \<Rightarrow>
             status (mc_delta_summary c)
               (push_thread_entry k SystemEntry (''Memory updated: '' @ mc_delta_summary c)
                 (v\<lparr>vm_candidate_procedures := mc_candidate_procedures c\<rparr>))
         | MemoryDreamingCompleted summary \<Rightarrow>
             status ''Reflection updated''
               (v\<lparr>vm_dreaming_summaries := vm_dreaming_summaries v @ [summary]\<rparr>)
         | _ \<Rightarrow> v)"

end
