(* ===== verification/Cli_App.thy ===== *)
theory Cli_App
  imports Cli_View
begin

text \<open>
  The terminal client (\<open>liz-cli/src/tui.rs\<close>): its command line, what every key does, and what follows a
  response or an event. The client's channel to the socket thread is the list of the requests that
  were sent on it; sending fails once that thread is gone. The configuration file is a value with a
  pending failure for reading and one for writing. Drawing (\<open>renderers.rs\<close>) reads the state only.
\<close>

section \<open>Arguments\<close>

record cli_args =
  cg_banner_only :: bool
  cg_show_help :: bool
  cg_server_url :: string

definition cli_args_default :: cli_args where
  "cli_args_default =
     \<lparr>cg_banner_only = False, cg_show_help = False, cg_server_url = ''ws://127.0.0.1:7777''\<rparr>"

fun parse_cli_args :: "cli_args \<Rightarrow> string list \<Rightarrow> cli_args" where
  "parse_cli_args parsed [] = parsed"
| "parse_cli_args parsed (arg # args) =
     (if arg = ''--banner'' then parse_cli_args (parsed\<lparr>cg_banner_only := True\<rparr>) args
      else if arg = ''--help'' \<or> arg = ''-h'' then parse_cli_args (parsed\<lparr>cg_show_help := True\<rparr>) args
      else if arg = ''--url'' then
        (case args of
           [] \<Rightarrow> parsed
         | url # rest \<Rightarrow> parse_cli_args (parsed\<lparr>cg_server_url := url\<rparr>) rest)
      else parse_cli_args parsed args)"

section \<open>The client\<close>

datatype cli_error = Disconnected | ConfigIo string

record config_disk =
  dk_path :: string
  dk_config :: liz_config_file
  dk_read_fault :: "string option"
  dk_write_fault :: "string option"

record cli_app =
  ca_view :: view_model
  ca_next_request_number :: "64 word"
  ca_should_exit :: bool
  ca_pending_new_thread_input :: "string option"
  ca_connected :: bool
  ca_sent :: "client_request_envelope list"
  ca_disk :: config_disk

type_synonym 'a cli_run = "(cli_error, cli_app, 'a) run"

text \<open>The status line of a new client ends in an ellipsis, in UTF-8.\<close>

definition new_cli_app :: "config_disk \<Rightarrow> cli_app" where
  "new_cli_app disk =
     \<lparr>ca_view = status (''Connecting'' @ [CHR 0xE2, CHR 0x80, CHR 0xA6]) view_model_default,
      ca_next_request_number = 1, ca_should_exit = False, ca_pending_new_thread_input = None,
      ca_connected = True, ca_sent = [], ca_disk = disk\<rparr>"

definition on_view :: "(view_model \<Rightarrow> view_model) \<Rightarrow> unit cli_run" where
  "on_view f = modify (\<lambda>s. s\<lparr>ca_view := f (ca_view s)\<rparr>)"

definition say :: "string \<Rightarrow> unit cli_run" where
  "say line = on_view (status line)"

definition view :: "(view_model \<Rightarrow> 'a) \<Rightarrow> 'a cli_run" where
  "view f = asks (\<lambda>s. f (ca_view s))"

definition request_name :: "64 word \<Rightarrow> string" where
  "request_name n = ''cli_request_'' @ pad_zeros 4 (show_dec (unat n))"

definition send_request :: "client_request \<Rightarrow> unit cli_run" where
  "send_request rq s =
     (let t = s\<lparr>ca_next_request_number := ca_next_request_number s + 1\<rparr>
      in if ca_connected s
         then (Inr (), t\<lparr>ca_sent := ca_sent s
                  @ [\<lparr>qe_request_id = request_name (ca_next_request_number s), qe_request = rq\<rparr>]\<rparr>)
         else (Inl Disconnected, t))"

definition cli_channel_ref :: channel_ref where
  "cli_channel_ref = \<lparr>ch_kind = Cli, ch_external_conversation_id = ''cli''\<rparr>"

definition owner_participant_ref :: participant_ref where
  "owner_participant_ref =
     \<lparr>pt_external_participant_id = ''owner'', pt_display_name = Some ''owner''\<rparr>"

definition owner_turn :: "thread_id \<Rightarrow> string \<Rightarrow> client_request" where
  "owner_turn k input = TurnStart
     \<lparr>st_thread_id = k, st_input = input, st_input_kind = UserMessage,
      st_channel = Some cli_channel_ref, st_participant = Some owner_participant_ref,
      st_interaction_context = None\<rparr>"

section \<open>Requests of the client\<close>

definition list_topics_request :: "unit cli_run" where
  "list_topics_request = send_request (MemoryListTopics None (Some 12))"

definition refresh_threads :: "unit cli_run" where
  "refresh_threads = send_request (ThreadList \<lparr>tl_status = None, tl_limit = Some 24\<rparr>)"

definition bootstrap :: "unit cli_run" where
  "bootstrap =
     bindR refresh_threads (\<lambda>_.
     bindR (send_request ModelStatus) (\<lambda>_.
     bindR (send_request RuntimeConfigGet) (\<lambda>_.
     bindR (send_request (ProviderAuthList None)) (\<lambda>_.
     say ''Loading conversations and runtime status''))))"

definition load_thread_surfaces :: "thread_id \<Rightarrow> unit cli_run" where
  "load_thread_surfaces k =
     bindR (send_request (MemoryReadWakeup k)) (\<lambda>_.
     bindR (send_request (MemoryOpenSession k)) (\<lambda>_.
     list_topics_request))"

definition load_selected_thread_surfaces :: "unit cli_run" where
  "load_selected_thread_surfaces =
     bindR (view (fst \<circ> activate_selected_thread)) (\<lambda>found.
     bindR (on_view (snd \<circ> activate_selected_thread)) (\<lambda>_.
     case found of None \<Rightarrow> ret () | Some k \<Rightarrow> load_thread_surfaces k))"

text \<open>A request about the active conversation, with the line that says so.\<close>

definition for_active_thread :: "(thread_id \<Rightarrow> client_request) \<Rightarrow> string \<Rightarrow> unit cli_run" where
  "for_active_thread f line =
     bindR (view vm_active_thread_id) (\<lambda>found.
     case found of
       None \<Rightarrow> say ''No conversation selected''
     | Some k \<Rightarrow> bindR (send_request (f k)) (\<lambda>_. say line))"

definition request_selected_wakeup :: "unit cli_run" where
  "request_selected_wakeup = for_active_thread MemoryReadWakeup ''Refreshing wake-up''"

definition compile_selected_thread_memory :: "unit cli_run" where
  "compile_selected_thread_memory = for_active_thread MemoryCompileNow ''Compiling memory''"

definition open_selected_session :: "unit cli_run" where
  "open_selected_session = for_active_thread MemoryOpenSession ''Opening session''"

definition fork_selected_thread :: "string \<Rightarrow> unit cli_run" where
  "fork_selected_thread argument =
     for_active_thread
       (\<lambda>k. ThreadFork \<lparr>tf_thread_id = k, tf_title = (if argument = [] then None else Some argument),
                        tf_fork_reason = Some ''Forked from liz-cli''\<rparr>)
       ''Forking conversation''"

definition resume_selected_thread :: "unit cli_run" where
  "resume_selected_thread =
     bindR (view selected_thread) (\<lambda>found.
     case found of
       None \<Rightarrow> say ''No conversation selected''
     | Some th \<Rightarrow> bindR (send_request (ThreadResume (th_id th))) (\<lambda>_. say ''Resuming conversation''))"

definition cancel_selected_turn :: "unit cli_run" where
  "cancel_selected_turn =
     bindR (view active_thread) (\<lambda>found.
     case found of
       None \<Rightarrow> say ''No conversation selected''
     | Some th \<Rightarrow>
         (case th_latest_turn_id th of
            None \<Rightarrow> say ''No active turn to cancel''
          | Some i \<Rightarrow>
              bindR (send_request (TurnCancel \<lparr>tc_thread_id = th_id th, tc_turn_id = i\<rparr>)) (\<lambda>_.
              say ''Cancelling turn'')))"

definition respond_to_first_approval :: "approval_decision \<Rightarrow> unit cli_run" where
  "respond_to_first_approval decision =
     bindR (view (hd_opt \<circ> vm_pending_approvals)) (\<lambda>found.
     case found of
       None \<Rightarrow> say ''No pending approvals''
     | Some a \<Rightarrow>
         bindR (send_request (ApprovalRespond \<lparr>rr_approval_id = ap_id a, rr_decision = decision\<rparr>)) (\<lambda>_.
         say ''Approval response sent''))"

definition expand_search_hit :: "memory_search_hit \<Rightarrow> unit cli_run" where
  "expand_search_hit hit =
     (case mh_thread_id hit of
        None \<Rightarrow> ret ()
      | Some k \<Rightarrow>
          send_request
            (if mh_kind hit \<in> {SessionHit, TopicHit} then MemoryOpenSession k
             else MemoryOpenEvidence k (mh_turn_id hit) (mh_artifact_id hit) (mh_fact_id hit)))"

definition search_memory_request :: "string \<Rightarrow> unit cli_run" where
  "search_memory_request argument =
     (if argument = [] then say ''Use /search <query>''
      else bindR (send_request (MemorySearch argument SemanticSearch (Some 8))) (\<lambda>_.
           bindR (on_view (open_overlay MemoryPanel)) (\<lambda>_.
           say ''Searching memory'')))"

definition open_memory_overlay :: "unit cli_run" where
  "open_memory_overlay =
     bindR list_topics_request (\<lambda>_.
     bindR (view vm_active_thread_id) (\<lambda>active.
     bindR (if active = None then ret () else bindR request_selected_wakeup (\<lambda>_. open_selected_session)) (\<lambda>_.
     bindR (on_view (open_overlay MemoryPanel)) (\<lambda>_.
     say ''Memory opened''))))"

section \<open>Sandbox and permissions\<close>

definition parse_sandbox_mode :: "string \<Rightarrow> sandbox_mode option" where
  "parse_sandbox_mode value =
     (let v = to_lower value
      in if v \<in> {''read-only'', ''readonly''} then Some ReadOnly
         else if v \<in> {''workspace-write'', ''workspace''} then Some WorkspaceWrite
         else if v \<in> {''external-sandbox'', ''external''} then Some ExternalSandbox
         else None)"

definition parse_approval_policy :: "string \<Rightarrow> approval_policy option" where
  "parse_approval_policy value =
     (let v = to_lower value
      in if v \<in> {''on-request'', ''ask'', ''prompt''} then Some OnRequest
         else if v \<in> {''danger-full-access'', ''danger'', ''full-access''} then Some ApprovalDangerFullAccess
         else None)"

definition set_sandbox_mode :: "sandbox_mode \<Rightarrow> unit cli_run" where
  "set_sandbox_mode mode =
     bindR (send_request (RuntimeConfigUpdate
       \<lparr>cu_sandbox = Some \<lparr>rq_mode = mode, rq_network_access = Restricted\<rparr>, cu_approval_policy = None\<rparr>)) (\<lambda>_.
     say (''Setting shell sandbox to '' @ sandbox_mode_as_str mode))"

definition set_approval_policy :: "approval_policy \<Rightarrow> unit cli_run" where
  "set_approval_policy policy =
     bindR (send_request (RuntimeConfigUpdate
       \<lparr>cu_sandbox = None, cu_approval_policy = Some policy\<rparr>)) (\<lambda>_.
     say (''Setting permissions to '' @ approval_policy_as_str policy))"

definition open_sandbox_overlay :: "unit cli_run" where
  "open_sandbox_overlay =
     bindR (view (\<lambda>v. unwrap_or WorkspaceWrite (map_option sum_mode (vm_runtime_sandbox v)))) (\<lambda>mode.
     bindR (on_view (open_overlay SandboxPanel \<circ> set_selected_sandbox_mode mode)) (\<lambda>_.
     bindR (send_request RuntimeConfigGet) (\<lambda>_.
     say ''Sandbox picker opened'')))"

definition open_permissions_overlay :: "unit cli_run" where
  "open_permissions_overlay =
     bindR (view (\<lambda>v. unwrap_or OnRequest (vm_runtime_approval_policy v))) (\<lambda>policy.
     bindR (on_view (open_overlay PermissionsPanel \<circ> set_selected_permission_policy policy)) (\<lambda>_.
     bindR (send_request RuntimeConfigGet) (\<lambda>_.
     say ''Permissions picker opened'')))"

definition first_word :: "string \<Rightarrow> string" where
  "first_word s = (case split_whitespace s of [] \<Rightarrow> [] | w # _ \<Rightarrow> w)"

definition configure_sandbox :: "string \<Rightarrow> unit cli_run" where
  "configure_sandbox argument =
     (let raw = first_word argument
      in if raw = [] then open_sandbox_overlay
         else case parse_sandbox_mode raw of
                Some mode \<Rightarrow> set_sandbox_mode mode
              | None \<Rightarrow>
                  if parse_approval_policy raw \<noteq> None
                  then say ''Use /permissions danger-full-access for approval policy''
                  else say (''Unknown sandbox mode '' @ raw))"

definition configure_permissions :: "string \<Rightarrow> unit cli_run" where
  "configure_permissions argument =
     (let raw = first_word argument
      in if raw = [] then open_permissions_overlay
         else case parse_approval_policy raw of
                Some policy \<Rightarrow> set_approval_policy policy
              | None \<Rightarrow> say (''Unknown permissions policy '' @ raw))"

section \<open>The configuration panel\<close>

definition load_config :: "liz_config_file cli_run" where
  "load_config s =
     (case dk_read_fault (ca_disk s) of
        Some e \<Rightarrow> (Inl (ConfigIo e), s) | None \<Rightarrow> (Inr (dk_config (ca_disk s)), s))"

definition save_config :: "liz_config_file \<Rightarrow> unit cli_run" where
  "save_config c s =
     (case dk_write_fault (ca_disk s) of
        Some e \<Rightarrow> (Inl (ConfigIo e), s)
      | None \<Rightarrow> (Inr (), s\<lparr>ca_disk := (ca_disk s)\<lparr>dk_config := c\<rparr>\<rparr>))"

definition open_config_overlay :: "unit cli_run" where
  "open_config_overlay =
     bindR load_config (\<lambda>config.
     bindR (asks (dk_path \<circ> ca_disk)) (\<lambda>path.
     bindR (on_view (\<lambda>v. v\<lparr>vm_config_draft :=
       load_from path config (vm_auth_profiles v) (map_option ms_provider_id (vm_model_status v))\<rparr>)) (\<lambda>_.
     bindR (send_request (ProviderAuthList None)) (\<lambda>_.
     bindR (send_request ModelStatus) (\<lambda>_.
     bindR (on_view (open_overlay ConfigPanel)) (\<lambda>_.
     say ''Config opened''))))))"

definition save_override :: "string \<Rightarrow> provider_field \<Rightarrow> string \<Rightarrow> liz_config_file \<Rightarrow> liz_config_file" where
  "save_override i field v c = (if v = [] then c else upsert_provider i field v c)"

definition saved_config :: "config_draft \<Rightarrow> liz_config_file \<Rightarrow> liz_config_file" where
  "saved_config d c =
     (let i = trim (cd_provider_id d)
      in save_override i ModelField (trim (cd_model_id d))
           (save_override i ApiKeyField (trim (cd_api_key d))
             (save_override i BaseUrlField (trim (cd_base_url d)) (set_primary_provider i c))))"

definition save_config_draft :: "unit cli_run" where
  "save_config_draft =
     bindR load_config (\<lambda>config.
     bindR (view vm_config_draft) (\<lambda>d.
     if trim (cd_provider_id d) = [] then say ''Provider cannot be empty''
     else bindR (save_config (saved_config d config)) (\<lambda>_.
          bindR (on_view (\<lambda>v. v\<lparr>vm_config_draft := (vm_config_draft v)\<lparr>cd_dirty := False\<rparr>\<rparr>)) (\<lambda>_.
          bindR (send_request ModelStatus) (\<lambda>_.
          say ''Config saved'')))))"

section \<open>Messages and commands\<close>

definition start_thread_from_message :: "string \<Rightarrow> unit cli_run" where
  "start_thread_from_message input =
     bindR (modify (\<lambda>s. s\<lparr>ca_pending_new_thread_input := Some input\<rparr>)) (\<lambda>_.
     bindR (on_view (push_pending_thread_start_message input)) (\<lambda>_.
     bindR (send_request (ThreadStart
       \<lparr>ts_title = Some (take 48 input), ts_initial_goal = Some input, ts_workspace_ref = None,
        ts_workspace_mount_id = None\<rparr>)) (\<lambda>_.
     say ''Starting conversation'')))"

definition start_new_thread :: "string \<Rightarrow> unit cli_run" where
  "start_new_thread argument =
     (if argument = []
      then bindR (modify (\<lambda>s. s\<lparr>ca_pending_new_thread_input := None\<rparr>)) (\<lambda>_.
           bindR (on_view (\<lambda>v. close_overlay (v\<lparr>vm_transcript_entries := []\<rparr>))) (\<lambda>_.
           say ''New conversation ready. Type the first message when you are ready.''))
      else start_thread_from_message argument)"

definition panel_command :: "overlay_panel \<Rightarrow> string \<Rightarrow> unit cli_run" where
  "panel_command p line = bindR (on_view (open_overlay p)) (\<lambda>_. say line)"

definition handle_slash_command :: "string \<Rightarrow> unit cli_run" where
  "handle_slash_command input =
     (let trimmed = trim input;
          command = takeWhile (\<lambda>c. \<not> is_ws c) trimmed;
          argument = trim (dropWhile (\<lambda>c. \<not> is_ws c) trimmed)
      in if command = ''/help'' then panel_command HelpPanel ''Help opened''
         else if command = ''/config'' \<or> command = ''/settings'' then open_config_overlay
         else if command = ''/status'' then
           bindR (send_request ModelStatus) (\<lambda>_.
           bindR (send_request RuntimeConfigGet) (\<lambda>_. panel_command StatusPanel ''Status opened''))
         else if command = ''/memory'' then open_memory_overlay
         else if command = ''/threads'' then panel_command ThreadsPanel ''Conversation picker opened''
         else if command = ''/new'' then start_new_thread argument
         else if command = ''/clear'' then start_new_thread []
         else if command = ''/resume'' then resume_selected_thread
         else if command = ''/fork'' then fork_selected_thread argument
         else if command = ''/search'' then search_memory_request argument
         else if command = ''/wakeup'' then request_selected_wakeup
         else if command = ''/compile'' then compile_selected_thread_memory
         else if command = ''/sandbox'' then configure_sandbox argument
         else if command = ''/permissions'' then configure_permissions argument
         else if command = ''/approve'' then respond_to_first_approval ApproveOnce
         else if command = ''/deny'' then respond_to_first_approval Deny
         else if command = ''/cancel'' then cancel_selected_turn
         else if command = ''/exit'' \<or> command = ''/quit'' then
           bindR (modify (\<lambda>s. s\<lparr>ca_should_exit := True\<rparr>)) (\<lambda>_. say ''Closing liz-cli'')
         else panel_command HelpPanel (''Unknown command '' @ command))"

definition clear_composer :: "view_model \<Rightarrow> view_model" where
  "clear_composer v0 =
     (let v = refresh_composer_affordances (v0\<lparr>vm_input_buffer := []\<rparr>)
      in if vm_active_overlay v = Some CommandPalette then close_overlay v else v)"

definition submit_input :: "unit cli_run" where
  "submit_input =
     bindR (view (trim \<circ> vm_input_buffer)) (\<lambda>input.
     if input = [] then say ''Composer is empty''
     else bindR (on_view clear_composer) (\<lambda>_.
          if starts_with input ''/'' then handle_slash_command input
          else bindR (on_view (record_input_history input)) (\<lambda>_.
               bindR (view vm_active_thread_id) (\<lambda>active.
               case active of
                 None \<Rightarrow> start_thread_from_message input
               | Some k \<Rightarrow>
                   bindR (on_view (push_user_message input)) (\<lambda>_.
                   bindR (send_request (owner_turn k input)) (\<lambda>_.
                   say ''Message sent''))))))"

section \<open>Keys\<close>

datatype key_code = KeyEsc | KeyUp | KeyDown | KeyLeft | KeyRight | KeyTab | KeyEnter | KeyBackspace
| KeyChar char | OtherKey

record key_event =
  ke_code :: key_code
  ke_press :: bool
  ke_control :: bool
  ke_shift :: bool
  ke_other_modifier :: bool

definition plain_key :: "key_event \<Rightarrow> bool" where
  "plain_key k \<longleftrightarrow> \<not> ke_control k \<and> \<not> ke_other_modifier k"

definition draft_edit :: "(config_draft \<Rightarrow> config_draft) \<Rightarrow> unit cli_run" where
  "draft_edit f = on_view (\<lambda>v. v\<lparr>vm_config_draft := f (vm_config_draft v)\<rparr>)"

definition close_with :: "string \<Rightarrow> unit cli_run" where
  "close_with line = bindR (on_view close_overlay) (\<lambda>_. say line)"

definition handle_config_key :: "key_event \<Rightarrow> unit cli_run" where
  "handle_config_key k =
     (case ke_code k of
        KeyEsc \<Rightarrow> close_with ''Config closed''
      | KeyTab \<Rightarrow> draft_edit focus_next
      | KeyDown \<Rightarrow> draft_edit focus_next
      | KeyUp \<Rightarrow> draft_edit focus_previous
      | KeyLeft \<Rightarrow> draft_edit (cycle_provider (-1))
      | KeyRight \<Rightarrow> draft_edit (cycle_provider 1)
      | KeyBackspace \<Rightarrow> draft_edit pop_char
      | KeyChar c \<Rightarrow>
          if c = CHR ''s'' \<and> ke_control k then save_config_draft
          else if plain_key k then draft_edit (push_char c) else ret ()
      | _ \<Rightarrow> ret ())"

definition handle_threads_overlay_key :: "key_event \<Rightarrow> unit cli_run" where
  "handle_threads_overlay_key k =
     (case ke_code k of
        KeyEsc \<Rightarrow> close_with ''Conversation picker closed''
      | KeyUp \<Rightarrow> on_view select_previous_thread
      | KeyDown \<Rightarrow> on_view select_next_thread
      | KeyEnter \<Rightarrow>
          bindR (on_view close_overlay) (\<lambda>_.
          bindR load_selected_thread_surfaces (\<lambda>_.
          say ''Conversation opened''))
      | _ \<Rightarrow> ret ())"

definition handle_sandbox_overlay_key :: "key_event \<Rightarrow> unit cli_run" where
  "handle_sandbox_overlay_key k =
     (case ke_code k of
        KeyEsc \<Rightarrow> close_with ''Sandbox picker closed''
      | KeyUp \<Rightarrow> on_view select_previous_sandbox_mode
      | KeyTab \<Rightarrow> on_view select_next_sandbox_mode
      | KeyDown \<Rightarrow> on_view select_next_sandbox_mode
      | KeyEnter \<Rightarrow>
          bindR (view selected_sandbox_mode) (\<lambda>mode.
          bindR (on_view close_overlay) (\<lambda>_. set_sandbox_mode mode))
      | _ \<Rightarrow> ret ())"

definition handle_permissions_overlay_key :: "key_event \<Rightarrow> unit cli_run" where
  "handle_permissions_overlay_key k =
     (case ke_code k of
        KeyEsc \<Rightarrow> close_with ''Permissions picker closed''
      | KeyUp \<Rightarrow> on_view select_previous_permission_policy
      | KeyTab \<Rightarrow> on_view select_next_permission_policy
      | KeyDown \<Rightarrow> on_view select_next_permission_policy
      | KeyEnter \<Rightarrow>
          bindR (view selected_permission_policy) (\<lambda>policy.
          bindR (on_view close_overlay) (\<lambda>_. set_approval_policy policy))
      | _ \<Rightarrow> ret ())"

definition edit_input :: "(string \<Rightarrow> string) \<Rightarrow> view_model \<Rightarrow> view_model" where
  "edit_input f v =
     refresh_composer_affordances
       ((clear_input_history_selection v)\<lparr>vm_input_buffer := f (vm_input_buffer v)\<rparr>)"

definition handle_escape :: "unit cli_run" where
  "handle_escape =
     bindR (view id) (\<lambda>v.
     if vm_pending_approvals v \<noteq> [] then respond_to_first_approval Deny
     else if vm_active_overlay v \<noteq> None then close_with ''Overlay closed''
     else if vm_input_buffer v \<noteq> [] then bindR (on_view (edit_input (\<lambda>_. []))) (\<lambda>_. say ''Composer cleared'')
     else ret ())"

definition handle_enter :: "unit cli_run" where
  "handle_enter =
     bindR (view id) (\<lambda>v.
     if vm_active_overlay v = Some CommandPalette \<and> vm_command_suggestions v \<noteq> []
        \<and> starts_with (trim (vm_input_buffer v)) ''/'' \<and> \<not> has_exact_slash_command v
     then on_view (snd \<circ> accept_command_suggestion)
     else if vm_pending_approvals v \<noteq> [] \<and> blank (vm_input_buffer v)
     then respond_to_first_approval ApproveOnce
     else submit_input)"

definition handle_composer_key :: "key_event \<Rightarrow> unit cli_run" where
  "handle_composer_key k =
     (case ke_code k of
        KeyEsc \<Rightarrow> handle_escape
      | KeyUp \<Rightarrow>
          bindR (view id) (\<lambda>v.
          if vm_active_overlay v = Some CommandPalette then on_view select_previous_command
          else if fst (recall_previous_input v)
          then bindR (on_view (snd \<circ> recall_previous_input)) (\<lambda>_. say ''Recalled previous message'')
          else say ''No previous messages'')
      | KeyDown \<Rightarrow>
          bindR (view id) (\<lambda>v.
          if vm_active_overlay v = Some CommandPalette then on_view select_next_command else ret ())
      | KeyTab \<Rightarrow>
          bindR (view id) (\<lambda>v.
          if vm_slash_mode v \<and> fst (accept_command_suggestion v)
          then bindR (on_view (snd \<circ> accept_command_suggestion)) (\<lambda>_. say ''Command completed'')
          else ret ())
      | KeyEnter \<Rightarrow> if ke_shift k then on_view (edit_input (\<lambda>s. s @ [CHR 0x0A])) else handle_enter
      | KeyBackspace \<Rightarrow> on_view (edit_input butlast)
      | KeyChar c \<Rightarrow>
          bindR (view id) (\<lambda>v.
          if c = CHR ''?'' \<and> vm_input_buffer v = [] then panel_command HelpPanel ''Help opened''
          else if plain_key k then on_view (edit_input (\<lambda>s. s @ [c]))
          else ret ())
      | _ \<Rightarrow> ret ())"

text \<open>The result says whether the screen is to be drawn again.\<close>

definition handle_key :: "key_event \<Rightarrow> bool cli_run" where
  "handle_key k =
     (if \<not> ke_press k then ret False
      else if ke_control k \<and> ke_code k = KeyChar (CHR ''c'')
      then bindR (modify (\<lambda>s. s\<lparr>ca_should_exit := True\<rparr>)) (\<lambda>_. ret True)
      else bindR (view vm_active_overlay) (\<lambda>overlay.
           bindR (if overlay = Some ConfigPanel then handle_config_key k
                  else if overlay = Some ThreadsPanel then handle_threads_overlay_key k
                  else if overlay = Some SandboxPanel then handle_sandbox_overlay_key k
                  else if overlay = Some PermissionsPanel then handle_permissions_overlay_key k
                  else handle_composer_key k) (\<lambda>_.
           ret True)))"

section \<open>Responses and events\<close>

definition reload_thread :: "thread_id \<Rightarrow> unit cli_run" where
  "reload_thread k = bindR refresh_threads (\<lambda>_. load_thread_surfaces k)"

definition start_pending_turn :: "thread_id \<Rightarrow> unit cli_run" where
  "start_pending_turn k =
     bindR (asks ca_pending_new_thread_input) (\<lambda>input.
     case input of
       None \<Rightarrow> ret ()
     | Some text \<Rightarrow>
         bindR (modify (\<lambda>s. s\<lparr>ca_pending_new_thread_input := None\<rparr>)) (\<lambda>_.
         send_request (owner_turn k text)))"

fun follow_up_after_response :: "server_response_envelope \<Rightarrow> unit cli_run" where
  "follow_up_after_response (Success i p) =
     (case p of
        ThreadStartReply th \<Rightarrow>
          bindR (reload_thread (th_id th)) (\<lambda>_. start_pending_turn (th_id th))
      | ThreadResumeReply th summary \<Rightarrow> reload_thread (th_id th)
      | ThreadForkReply th \<Rightarrow> reload_thread (th_id th)
      | MemorySearchReply query mode hits \<Rightarrow>
          (case hits of [] \<Rightarrow> ret () | hit # _ \<Rightarrow> expand_search_hit hit)
      | MemoryCompileNowReply k c \<Rightarrow> list_topics_request
      | _ \<Rightarrow> ret ())"
| "follow_up_after_response (Error i e) = ret ()"

definition follow_up_after_event :: "server_event_payload \<Rightarrow> unit cli_run" where
  "follow_up_after_event p =
     (case p of MemoryCompilationApplied c \<Rightarrow> list_topics_request | _ \<Rightarrow> ret ())"

text \<open>One response and one event of \<open>drain_transport\<close>.\<close>

definition receive_response :: "server_response_envelope \<Rightarrow> unit cli_run" where
  "receive_response r = bindR (on_view (apply_response r)) (\<lambda>_. follow_up_after_response r)"

definition receive_event :: "server_event \<Rightarrow> unit cli_run" where
  "receive_event e = bindR (on_view (apply_event e)) (\<lambda>_. follow_up_after_event (ev_payload e))"

end
