(* ===== verification/Cli_View_Laws.thy ===== *)
theory Cli_View_Laws
  imports Cli_View
begin

text \<open>
  What the view model keeps and what it projects. \<open>view_ok\<close> is its invariant, in four parts: the list of
  conversations with the selected row, the selected rows of the pickers, the history of the composer,
  and the transcript that is shown. The list of conversations the server sends has no thread twice
  (\<open>well_formed\<close>). Then: which approvals are shown as pending, what the completion of a command
  offers, and what an update of a thread does to the selection.
\<close>

section \<open>The invariant\<close>

definition thread_entries :: "thread list \<Rightarrow> (thread_id \<times> thread_status) list" where
  "thread_entries ths = map (\<lambda>th. (th_id th, th_status th)) ths"

definition threads_ok :: "view_model \<Rightarrow> bool" where
  "threads_ok v \<longleftrightarrow>
     distinct (map th_id (vm_threads v)) \<and>
     map_of (vm_thread_statuses v) = map_of (thread_entries (vm_threads v)) \<and>
     (if vm_threads v = [] then vm_selected_thread_index v = 0
      else vm_selected_thread_index v < length (vm_threads v))"

definition rows_ok :: "view_model \<Rightarrow> bool" where
  "rows_ok v \<longleftrightarrow>
     (if vm_command_suggestions v = [] then vm_selected_command_index v = 0
      else vm_selected_command_index v < length (vm_command_suggestions v)) \<and>
     vm_selected_sandbox_index v < length sandbox_modes \<and>
     vm_selected_permission_index v < length permission_policies"

definition history_ok :: "view_model \<Rightarrow> bool" where
  "history_ok v \<longleftrightarrow>
     length (vm_input_history v) \<le> max_input_history_entries \<and>
     (\<forall>h \<in> set (vm_input_history v). h \<noteq> [] \<and> trim h = h) \<and>
     distinct_adj (vm_input_history v) \<and>
     (\<forall>i. vm_input_history_index v = Some i \<longrightarrow> i < length (vm_input_history v))"

definition shown_ok :: "view_model \<Rightarrow> bool" where
  "shown_ok v \<longleftrightarrow>
     (\<forall>k. vm_active_thread_id v = Some k \<longrightarrow>
        vm_transcript_entries v \<in> {transcript_of v k, vm_pending_thread_start_entries v, []})"

definition view_ok :: "view_model \<Rightarrow> bool" where
  "view_ok v \<longleftrightarrow> threads_ok v \<and> rows_ok v \<and> history_ok v \<and> shown_ok v"

lemma view_ok_default: "view_ok view_model_default"
  by (simp add: view_ok_def threads_ok_def rows_ok_def history_ok_def shown_ok_def thread_entries_def
      view_model_default_def sandbox_modes_def permission_policies_def)

lemmas part_defs = threads_ok_def rows_ok_def history_ok_def shown_ok_def transcript_of_def

lemma transcript_update [simp]:
  "transcript_of (v\<lparr>vm_transcript_entries := es\<rparr>) = transcript_of v"
  by (simp add: transcript_of_def fun_eq_iff)

section \<open>Operations that touch one part\<close>

lemma shown_sync [simp]: "shown_ok (sync_visible_transcript v)"
  by (simp add: shown_ok_def sync_visible_transcript_def transcript_of_def)

lemma sync_parts [simp]:
  "threads_ok (sync_visible_transcript v) = threads_ok v"
  "rows_ok (sync_visible_transcript v) = rows_ok v"
  "history_ok (sync_visible_transcript v) = history_ok v"
  by (simp_all add: sync_visible_transcript_def part_defs)

lemma status_parts [simp]:
  "threads_ok (status l v) = threads_ok v" "rows_ok (status l v) = rows_ok v"
  "history_ok (status l v) = history_ok v" "shown_ok (status l v) = shown_ok v"
  "view_ok (status l v) = view_ok v"
  by (simp_all add: status_def part_defs view_ok_def)

text \<open>A change outside the fields of the invariant.\<close>

lemma field_parts [simp]:
  "view_ok (v\<lparr>vm_resume_summary := a1\<rparr>) = view_ok v"
  "view_ok (v\<lparr>vm_wakeup := a2\<rparr>) = view_ok v"
  "view_ok (v\<lparr>vm_recent_conversation := a3\<rparr>) = view_ok v"
  "view_ok (v\<lparr>vm_topics := a4\<rparr>) = view_ok v"
  "view_ok (v\<lparr>vm_recall_hits := a5\<rparr>) = view_ok v"
  "view_ok (v\<lparr>vm_session_view := a6\<rparr>) = view_ok v"
  "view_ok (v\<lparr>vm_evidence_view := a7\<rparr>) = view_ok v"
  "view_ok (v\<lparr>vm_diff_preview := a8\<rparr>) = view_ok v"
  "view_ok (v\<lparr>vm_candidate_procedures := a9\<rparr>) = view_ok v"
  "view_ok (v\<lparr>vm_dreaming_summaries := b1\<rparr>) = view_ok v"
  "view_ok (v\<lparr>vm_model_status := b2\<rparr>) = view_ok v"
  "view_ok (v\<lparr>vm_runtime_sandbox := b3\<rparr>) = view_ok v"
  "view_ok (v\<lparr>vm_runtime_approval_policy := b4\<rparr>) = view_ok v"
  "view_ok (v\<lparr>vm_auth_profiles := b5\<rparr>) = view_ok v"
  "view_ok (v\<lparr>vm_input_buffer := b6\<rparr>) = view_ok v"
  "view_ok (v\<lparr>vm_active_overlay := b7\<rparr>) = view_ok v"
  "view_ok (v\<lparr>vm_config_draft := b8\<rparr>) = view_ok v"
  "view_ok (v\<lparr>vm_assistant_streaming := b9\<rparr>) = view_ok v"
  "view_ok (v\<lparr>vm_pending_approvals := c1\<rparr>) = view_ok v"
  by (simp_all add: view_ok_def part_defs)

lemma push_thread_entry_ok [simp]: "view_ok v \<Longrightarrow> view_ok (push_thread_entry k kind body v)"
  by (auto simp: push_thread_entry_def Let_def view_ok_def)
    (auto simp: part_defs)

lemma push_selected_ok [simp]: "view_ok v \<Longrightarrow> view_ok (push_entry_for_selected_thread kind body v)"
proof (cases "vm_active_thread_id v")
  case None
  moreover assume "view_ok v"
  ultimately show ?thesis
    by (simp add: push_entry_for_selected_thread_def view_ok_def part_defs)
qed (simp add: push_entry_for_selected_thread_def)

lemma push_messages_ok [simp]:
  "view_ok v \<Longrightarrow> view_ok (push_user_message m v)" "view_ok v \<Longrightarrow> view_ok (push_system_message m v)"
  by (simp_all add: push_user_message_def push_system_message_def)

lemma push_pending_ok [simp]: "view_ok v \<Longrightarrow> view_ok (push_pending_thread_start_message m v)"
  by (simp add: push_pending_thread_start_message_def Let_def view_ok_def part_defs)

lemma attach_pending_ok [simp]: "view_ok v \<Longrightarrow> view_ok (attach_pending_entries_to_thread k v)"
  by (simp add: attach_pending_entries_to_thread_def view_ok_def) (simp add: part_defs)

lemma replace_history_ok [simp]: "view_ok v \<Longrightarrow> view_ok (replace_thread_history x v)"
  by (auto simp: replace_thread_history_def Let_def view_ok_def)
    (auto simp: part_defs)

lemma clear_visible_ok [simp]: "view_ok v \<Longrightarrow> view_ok (v\<lparr>vm_transcript_entries := []\<rparr>)"
  by (simp add: view_ok_def part_defs)

lemma close_overlay_ok [simp]: "view_ok (close_overlay v) = view_ok v"
  by (simp add: close_overlay_def)

lemma open_overlay_ok [simp]: "view_ok (open_overlay p v) = view_ok v"
  by (simp add: open_overlay_def)

section \<open>Rows and history\<close>

lemma modes_length [simp]: "length sandbox_modes = 3" "length permission_policies = 2"
  by (simp_all add: sandbox_modes_def permission_policies_def)

lemma command_rows_ok [simp]:
  "view_ok v \<Longrightarrow> view_ok (select_previous_command v)" "view_ok v \<Longrightarrow> view_ok (select_next_command v)"
  by (auto simp: select_previous_command_def select_next_command_def view_ok_def part_defs row_bounds)

lemma picker_rows_ok [simp]:
  "view_ok v \<Longrightarrow> view_ok (select_previous_sandbox_mode v)"
  "view_ok v \<Longrightarrow> view_ok (select_next_sandbox_mode v)"
  "view_ok v \<Longrightarrow> view_ok (select_previous_permission_policy v)"
  "view_ok v \<Longrightarrow> view_ok (select_next_permission_policy v)"
  by (auto simp: select_previous_sandbox_mode_def select_next_sandbox_mode_def
      select_previous_permission_policy_def select_next_permission_policy_def
      view_ok_def part_defs row_bounds)

lemma set_rows_ok [simp]:
  "view_ok v \<Longrightarrow> view_ok (set_selected_sandbox_mode m v)"
  "view_ok v \<Longrightarrow> view_ok (set_selected_permission_policy p v)"
  by (cases m; simp add: set_selected_sandbox_mode_def sandbox_modes_def view_ok_def part_defs)
    (cases p; simp add: set_selected_permission_policy_def permission_policies_def view_ok_def part_defs)

lemma thread_rows_ok [simp]:
  "view_ok v \<Longrightarrow> view_ok (select_previous_thread v)" "view_ok v \<Longrightarrow> view_ok (select_next_thread v)"
  by (auto simp: select_previous_thread_def select_next_thread_def view_ok_def part_defs row_bounds)

lemma activate_ok [simp]: "view_ok v \<Longrightarrow> view_ok (snd (activate_selected_thread v))"
  by (auto simp: activate_selected_thread_def view_ok_def split: option.split)
    (auto simp: part_defs)

lemma clear_selection_ok [simp]: "view_ok v \<Longrightarrow> view_ok (clear_input_history_selection v)"
  by (simp add: clear_input_history_selection_def view_ok_def part_defs)

lemma distinct_adj_snoc: "distinct_adj xs \<Longrightarrow> (xs \<noteq> [] \<Longrightarrow> last xs \<noteq> x) \<Longrightarrow> distinct_adj (xs @ [x])"
  by (auto simp: distinct_adj_append_iff)

lemma record_history_ok [simp]: "view_ok v \<Longrightarrow> view_ok (record_input_history m v)"
proof -
  assume ok: "view_ok v"
  let ?w = "record_input_history m v"
  have "history_ok ?w"
  proof (cases "trim m = [] \<or> vm_input_history v \<noteq> [] \<and> last (vm_input_history v) = trim m")
    case True
    with ok show ?thesis by (auto simp: record_input_history_def Let_def view_ok_def history_ok_def)
  next
    case False
    let ?hs = "vm_input_history v @ [trim m]"
    have hs: "\<forall>h \<in> set ?hs. h \<noteq> [] \<and> trim h = h" "distinct_adj ?hs"
      using ok False by (auto simp: view_ok_def history_ok_def intro: distinct_adj_snoc)
    from hs(2) have adj: "distinct_adj (tl ?hs)"
      by (cases ?hs) (auto dest: distinct_adj_ConsD simp del: append_is_Nil_conv)
    have tl: "\<forall>h \<in> set (tl ?hs). h \<noteq> [] \<and> trim h = h" "distinct_adj (tl ?hs)"
      using hs(1) list.set_sel(2) [of ?hs] adj by blast+
    have w: "vm_input_history ?w =
        (if max_input_history_entries < length ?hs then tl ?hs else ?hs)" "vm_input_history_index ?w = None"
      using False by (auto simp: record_input_history_def Let_def)
    have len: "length (tl ?hs) \<le> max_input_history_entries"
      using ok by (simp add: view_ok_def history_ok_def)
    show ?thesis
    proof (cases "max_input_history_entries < length ?hs")
      case True
      show ?thesis unfolding history_ok_def w if_P [OF True] by (intro conjI; (fact | simp))
    next
      case False
      then have "length ?hs \<le> max_input_history_entries" by simp
      with hs show ?thesis unfolding history_ok_def w if_not_P [OF False] by (intro conjI; (assumption | simp))
    qed
  qed
  moreover have "threads_ok ?w" "rows_ok ?w" "shown_ok ?w"
    using ok by (auto simp: record_input_history_def Let_def view_ok_def part_defs)
  ultimately show ?thesis by (simp add: view_ok_def)
qed

lemma refresh_ok [simp]: "view_ok v \<Longrightarrow> view_ok (refresh_composer_affordances v)"
  by (auto simp: refresh_composer_affordances_def Let_def view_ok_def part_defs)

lemma recall_ok [simp]: "view_ok v \<Longrightarrow> view_ok (snd (recall_previous_input v))"
proof -
  assume ok: "view_ok v"
  have "view_ok (v\<lparr>vm_input_history_index := Some i, vm_input_buffer := b\<rparr>)"
    if "i < length (vm_input_history v)" for i b
    using ok that by (simp add: view_ok_def part_defs)
  then have go: "view_ok (refresh_composer_affordances (v\<lparr>vm_input_history_index := Some i, vm_input_buffer := b\<rparr>))"
    if "i < length (vm_input_history v)" for i b
    using that by simp
  have "i < length (vm_input_history v)" if "vm_input_history_index v = Some i" for i
    using ok that by (simp add: view_ok_def history_ok_def)
  then show ?thesis
    using ok by (auto simp: recall_previous_input_def Let_def intro!: go split: option.split nat.split)
qed

lemma accept_ok [simp]: "view_ok v \<Longrightarrow> view_ok (snd (accept_command_suggestion v))"
  by (simp add: accept_command_suggestion_def Let_def split: option.split)

section \<open>Conversations\<close>

lemma thread_entries_keys [simp]: "map fst (thread_entries ths) = map th_id ths"
  by (simp add: thread_entries_def)

lemma thread_entries_upsert:
  assumes "distinct (map th_id ths)"
  shows "map_of (thread_entries (upsert_by th_id th ths)) = (map_of (thread_entries ths))(th_id th \<mapsto> th_status th)"
proof (rule ext)
  fix k
  have old: "distinct (map fst (thread_entries ths))"
    and new: "distinct (map fst (thread_entries (upsert_by th_id th ths)))"
    using assms by (simp_all add: distinct_upsert_by)
  have mem: "(k, st) \<in> set (thread_entries (upsert_by th_id th ths)) \<longleftrightarrow>
      (if k = th_id th then st = th_status th else (k, st) \<in> set (thread_entries ths))" for st
    using assms by (auto simp: thread_entries_def set_upsert_by)
  have "map_of (thread_entries (upsert_by th_id th ths)) k = Some st \<longleftrightarrow>
      ((map_of (thread_entries ths))(th_id th \<mapsto> th_status th)) k = Some st" for st
    unfolding map_of_eq_Some_iff [OF new] mem using map_of_eq_Some_iff [OF old] by auto
  then show "map_of (thread_entries (upsert_by th_id th ths)) k =
      ((map_of (thread_entries ths))(th_id th \<mapsto> th_status th)) k"
    by (metis not_Some_eq)
qed

lemma thread_entries_same_set:
  assumes "distinct (map th_id ths)" and "mset ths = mset ths'"
  shows "map_of (thread_entries ths) = map_of (thread_entries ths')"
proof -
  have "distinct (map th_id ths')" using assms by (metis mset_eq_imp_distinct_iff mset_map)
  moreover have "set ths = set ths'" using assms(2) by (rule mset_eq_setD)
  ultimately show ?thesis
    using assms(1) by (intro iffD2 [OF map_of_inject_set]) (auto simp: thread_entries_def comp_def)
qed

lemma position_of_thread_bound: "unwrap_or 0 (position_of_thread k ths) < length ths \<or> ths = []"
proof (cases "position (\<lambda>th. th_id th = k) ths")
  case None
  then show ?thesis by (simp only: position_of_thread_def) auto
next
  case (Some i)
  with position_Some [OF this] show ?thesis by (simp add: position_of_thread_def)
qed

lemma upsert_thread_ok [simp]:
  assumes "view_ok v"
  shows "view_ok (upsert_thread th v)"
proof -
  let ?ths = "upsert_by th_id th (vm_threads v)"
  let ?sorted = "sort_by (ge_on th_updated_at) ?ths"
  have d: "distinct (map th_id (vm_threads v))" and rest: "rows_ok v" "history_ok v"
    and st: "map_of (vm_thread_statuses v) = map_of (thread_entries (vm_threads v))"
    using assms by (simp_all add: view_ok_def threads_ok_def)
  have ds: "distinct (map th_id ?sorted)" using d by (simp add: distinct_upsert_by)
  have "map_of (thread_entries ?sorted) = map_of (thread_entries ?ths)"
    by (rule thread_entries_same_set [OF ds]) simp
  then have "map_of (thread_entries ?sorted) = (map_of (thread_entries (vm_threads v)))(th_id th \<mapsto> th_status th)"
    by (simp add: thread_entries_upsert [OF d])
  moreover have "th \<in> set ?sorted" using d by (simp add: set_upsert_by)
  then have "?sorted \<noteq> []" by (metis empty_iff empty_set)
  moreover note ds st
  ultimately have "threads_ok (upsert_thread th v)"
    using position_of_thread_bound [of _ ?sorted]
    by (auto simp: upsert_thread_def Let_def threads_ok_def sync_visible_transcript_def)
  with rest show ?thesis
    by (simp add: view_ok_def upsert_thread_def Let_def)
      (simp add: rows_ok_def history_ok_def)
qed

text \<open>The conversation the picker is on stays selected; without one it is the new one.\<close>

lemma upsert_keeps_selection:
  assumes "threads_ok v"
  shows "map_option th_id (selected_thread (upsert_thread th v)) =
      Some (unwrap_or (th_id th) (map_option th_id (selected_thread v)))"
proof -
  let ?ths = "sort_by (ge_on th_updated_at) (upsert_by th_id th (vm_threads v))"
  let ?k = "unwrap_or (th_id th) (map_option th_id (selected_thread v))"
  have "?k \<in> th_id ` set ?ths"
  proof (cases "selected_thread v")
    case (Some x)
    then have "x \<in> set (vm_threads v)" by (auto simp: selected_thread_def nth_opt_def split: if_splits)
    then show ?thesis using Some assms by (force simp: threads_ok_def set_upsert_by)
  qed (use assms in \<open>simp add: threads_ok_def set_upsert_by\<close>)
  then obtain x where x: "x \<in> set ?ths" "th_id x = ?k" by force
  have "distinct (map th_id ?ths)" using assms by (simp add: threads_ok_def distinct_upsert_by)
  from position_key [OF this x(1)] obtain i where "position (\<lambda>y. th_id y = ?k) ?ths = Some i"
    "i < length ?ths" "?ths ! i = x" using x(2) by auto
  then show ?thesis
    using x(2) by (simp add: upsert_thread_def Let_def position_of_thread_def selected_thread_def
        nth_opt_def sync_visible_transcript_def)
qed

end
