(* ===== verification/Cli_Projection.thy ===== *)
theory Cli_Projection
  imports Cli_View_Laws
begin

text \<open>
  What the view model shows after the responses and events of the server: the invariant survives all
  of them, the pending approvals are those requested and not resolved since, completion offers
  exactly the commands that match. Some lemmas record where the projection loses or repeats
  something.
\<close>

section \<open>The invariant under responses and events\<close>

definition well_formed :: "server_response_envelope \<Rightarrow> bool" where
  "well_formed r \<longleftrightarrow> (case r of Success i (ThreadListReply ths) \<Rightarrow> distinct (map th_id ths) | _ \<Rightarrow> True)"

lemma active_upsert_ok: "view_ok v \<Longrightarrow> view_ok (upsert_thread th (v\<lparr>vm_active_thread_id := k\<rparr>))"
proof -
  assume "view_ok v"
  then have "view_ok (upsert_thread th v)" by simp
  moreover have "upsert_thread th (v\<lparr>vm_active_thread_id := k\<rparr>) =
      sync_visible_transcript ((upsert_thread th v)\<lparr>vm_active_thread_id :=
        (case k of None \<Rightarrow> Some (th_id th) | Some i \<Rightarrow> Some i)\<rparr>)"
    by (simp add: upsert_thread_def Let_def selected_thread_def sync_visible_transcript_def
        transcript_of_def split: option.split)
  ultimately show ?thesis by (simp add: view_ok_def) (simp add: part_defs)
qed

lemma sync_ok: "view_ok v \<Longrightarrow> view_ok (sync_visible_transcript v)"
  by (simp add: view_ok_def)

lemma show_profiles_ok [simp]:
  "view_ok (show_profiles v) = view_ok v" "view_ok (upsert_auth_profile p v) = view_ok v"
  by (simp_all add: show_profiles_def upsert_auth_profile_def)

lemma apply_config_ok [simp]:
  "view_ok (apply_runtime_config c v) = view_ok v" "view_ok (apply_model_status m v) = view_ok v"
  "view_ok (apply_evidence x v) = view_ok v"
  by (simp_all add: apply_runtime_config_def apply_model_status_def apply_evidence_def Let_def)

lemma apply_thread_list_ok:
  assumes "view_ok v" and "distinct (map th_id ths)"
  shows "view_ok (apply_thread_list ths v)"
proof -
  let ?w = "apply_thread_list ths v"
  have "map_of (tree_of (thread_entries ths)) = map_of (thread_entries ths)"
    using assms(2) by (simp add: tree_of_def map_of_tree_extend map_of_rev_keys)
  moreover have "unwrap_or 0 (Option.bind s (\<lambda>k. position_of_thread k ths)) < length ths \<or> ths = []" for s
    using position_of_thread_bound by (cases s) auto
  moreover have "ths = [] \<Longrightarrow> unwrap_or 0 (Option.bind s (\<lambda>k. position_of_thread k ths)) = 0" for s
    by (cases s) (simp_all add: position_of_thread_def)
  ultimately have "threads_ok ?w"
    using assms(2) by (simp add: apply_thread_list_def Let_def threads_ok_def thread_entries_def
        sync_visible_transcript_def status_def) blast
  moreover have "rows_ok ?w" "history_ok ?w" "shown_ok ?w"
    using assms(1) by (simp_all add: apply_thread_list_def Let_def view_ok_def)
      (simp_all add: part_defs)
  ultimately show ?thesis by (simp add: view_ok_def)
qed

lemma apply_payload_ok:
  assumes "view_ok v" and "well_formed (Success i p)"
  shows "view_ok (apply_payload p v)"
  using assms
  by (cases p) (simp_all add: well_formed_def apply_thread_list_ok active_upsert_ok sync_ok)

lemma apply_response_ok: "view_ok v \<Longrightarrow> well_formed r \<Longrightarrow> view_ok (apply_response r v)"
  by (cases r) (simp_all add: apply_payload_ok)

lemma apply_event_ok: "view_ok v \<Longrightarrow> view_ok (apply_event e v)"
  by (cases "ev_payload e") (simp_all add: apply_event_def Let_def split: option.split)

section \<open>Pending approvals\<close>

definition resolved :: "server_event_payload list \<Rightarrow> approval_id \<Rightarrow> bool" where
  "resolved ps i \<longleftrightarrow> (\<exists>a d. ApprovalResolved a d \<in> set ps \<and> ap_id a = i)"

fun unresolved :: "server_event_payload list \<Rightarrow> approval_request list" where
  "unresolved [] = []"
| "unresolved (p # ps) =
     (case p of
        ApprovalRequested a \<Rightarrow> if resolved ps (ap_id a) then [] else [a]
      | _ \<Rightarrow> [])
     @ unresolved ps"

definition apply_events :: "server_event list \<Rightarrow> view_model \<Rightarrow> view_model" where
  "apply_events es v = foldl (\<lambda>v e. apply_event e v) v es"

lemma pending_fields [simp]:
  "vm_pending_approvals (status l v) = vm_pending_approvals v"
  "vm_pending_approvals (sync_visible_transcript v) = vm_pending_approvals v"
  "vm_pending_approvals (push_thread_entry k kind b v) = vm_pending_approvals v"
  "vm_pending_approvals (upsert_thread th v) = vm_pending_approvals v"
  by (simp_all add: status_def sync_visible_transcript_def push_thread_entry_def upsert_thread_def Let_def)

lemma pending_apply_event:
  "vm_pending_approvals (apply_event e v) =
     (case ev_payload e of
        ApprovalRequested a \<Rightarrow> vm_pending_approvals v @ [a]
      | ApprovalResolved a d \<Rightarrow> remove_by ap_id (ap_id a) (vm_pending_approvals v)
      | _ \<Rightarrow> vm_pending_approvals v)"
  by (cases "ev_payload e") (simp_all add: apply_event_def Let_def split: option.split)

lemma resolved_Cons:
  "resolved (p # ps) i \<longleftrightarrow> (case p of ApprovalResolved a d \<Rightarrow> ap_id a = i | _ \<Rightarrow> False) \<or> resolved ps i"
  by (auto simp: resolved_def split: server_event_payload.split)

text \<open>C14: the approvals the client shows as pending are, in the order of their requests, those that were
  pending before and those requested by the events since, without the ones that an event resolved
  after they were requested.\<close>

theorem pending_approvals_projected:
  "vm_pending_approvals (apply_events es v) =
     filter (\<lambda>a. \<not> resolved (map ev_payload es) (ap_id a)) (vm_pending_approvals v)
     @ unresolved (map ev_payload es)"
proof (induction es arbitrary: v)
  case Nil
  show ?case by (simp add: apply_events_def resolved_def)
next
  case (Cons e es)
  have "vm_pending_approvals (apply_events (e # es) v) =
      vm_pending_approvals (apply_events es (apply_event e v))"
    by (simp add: apply_events_def)
  then show ?case
    unfolding Cons.IH pending_apply_event
    by (cases "ev_payload e") (auto simp: resolved_Cons remove_by_def intro: filter_cong)
qed

section \<open>Completion\<close>

interpretation suggested: total_preorder "suggestion_le q" for q
  unfolding suggestion_le_def
  by (intro total_preorder_then_with desc.total_preorder_axioms asc.total_preorder_axioms)

lemma builtin_names_distinct: "distinct (map sc_name builtin_commands)"
  by (simp add: builtin_commands_def command_spec_def)

lemma sorted_prefix:
  assumes "sorted_wrt le xs" and "\<And>x y. x \<in> set xs \<Longrightarrow> y \<in> set xs \<Longrightarrow> le x y \<Longrightarrow> P y \<Longrightarrow> P x"
  shows "xs = filter P xs @ filter (\<lambda>x. \<not> P x) xs"
  using assms
proof (induction xs)
  case (Cons x xs)
  show ?case
  proof (cases "P x")
    case True
    with Cons show ?thesis by auto
  next
    case False
    with Cons.prems have "\<forall>y \<in> set xs. \<not> P y" by auto
    with False show ?thesis by (simp add: filter_True filter_False)
  qed
qed simp

text \<open>Completion offers exactly the commands whose name begins with what was typed or whose
  description mentions it, each once, sorted by \<open>suggestion_le\<close>: commands whose name begins with it come first,
  ties are in the order of the names. A command that was typed in full comes before all others.\<close>

theorem completion_characterised:
  "set (map sg_spec (slash_suggestions query)) = {spec \<in> set builtin_commands. command_matches (to_lower (trim query)) spec} \<and>
   distinct (map (\<lambda>x. sc_name (sg_spec x)) (slash_suggestions query)) \<and>
   sorted_wrt (suggestion_le (to_lower (trim query))) (slash_suggestions query) \<and>
   slash_suggestions query = filter (\<lambda>x. sc_name (sg_spec x) = to_lower (trim query)) (slash_suggestions query)
     @ filter (\<lambda>x. sc_name (sg_spec x) \<noteq> to_lower (trim query)) (slash_suggestions query)"
proof -
  let ?q = "to_lower (trim query)" and ?xs = "slash_suggestions query"
  let ?found = "map (\<lambda>spec. \<lparr>sg_spec = spec, sg_exact_match = (sc_name spec = ?q)\<rparr>)
      (filter (command_matches ?q) builtin_commands)"
  have xs: "?xs = sort_by (suggestion_le ?q) ?found" by (simp add: slash_suggestions_def Let_def)
  have sorted: "sorted_wrt (suggestion_le ?q) ?xs" unfolding xs by (rule suggested.sorted_sort_by)
  have exact: "sg_exact_match x \<longleftrightarrow> sc_name (sg_spec x) = ?q" if "x \<in> set ?xs" for x
    using that by (auto simp: xs)
  have "?xs = filter (\<lambda>x. sc_name (sg_spec x) = ?q) ?xs @ filter (\<lambda>x. sc_name (sg_spec x) \<noteq> ?q) ?xs"
    using exact by (intro sorted_prefix [OF sorted])
      (auto simp: suggestion_le_def then_with_def ge_on_def starts_with_iff)
  moreover have "distinct (map (\<lambda>x. sc_name (sg_spec x)) ?xs)"
    unfolding xs distinct_map_sort_by using builtin_names_distinct
    by (simp add: comp_def distinct_map_filter)
  moreover have "set (map sg_spec ?xs) = {spec \<in> set builtin_commands. command_matches ?q spec}"
    by (force simp: xs)
  ultimately show ?thesis using sorted by blast
qed

section \<open>Where the projection is not faithful\<close>

text \<open>A message that repeats one of the last three entries of its conversation is not shown.\<close>

lemma repeated_message_dropped:
  assumes "e \<in> set (take 3 (rev es))"
  shows "push_deduped_entry es e = es"
  using assms by (simp add: push_deduped_entry_def)

text \<open>Opening a conversation a second time appends its history to itself: entries further back than
  three are not recognised.\<close>

definition demo_history :: memory_session_view where
  "demo_history = \<lparr>sv_thread_id = ''t1'', sv_title = ''t'', sv_status = thread_status.Active, sv_active_summary = None,
     sv_pending_commitments = [],
     sv_recent_entries = map (\<lambda>m. \<lparr>se_recorded_at = [], se_event = ''turn_completed'', se_summary = m,
       se_turn_id = None, se_artifact_ids = []\<rparr>) [''a'', ''b'', ''c'', ''d''],
     sv_artifacts = []\<rparr>"

lemma reopened_history_doubled:
  "map te_body (transcript_of (replace_thread_history demo_history
     (replace_thread_history demo_history view_model_default)) ''t1'') =
   [''a'', ''b'', ''c'', ''d'', ''a'', ''b'', ''c'', ''d'']"
  by code_simp

text \<open>A turn that fails or is cancelled leaves the text that was streamed; the next reply, of whatever
  conversation, is appended to it.\<close>

lemma failed_turn_keeps_stream:
  assumes "ev_payload e = TurnFailed t m \<or> ev_payload e = TurnCancelled t"
  shows "vm_assistant_streaming (apply_event e v) = vm_assistant_streaming v"
  using assms by (auto simp: apply_event_def status_def push_thread_entry_def sync_visible_transcript_def Let_def)

text \<open>Closing the palette is meant to clear its suggestions; the test comes after the panel is gone.\<close>

lemma closed_palette_keeps_suggestions:
  "vm_command_suggestions (close_overlay v) = vm_command_suggestions v"
  by (simp add: close_overlay_def)

end
