(* ===== verification/Cli_App_Laws.thy ===== *)
theory Cli_App_Laws
  imports Cli_App Cli_Projection
begin

text \<open>
  What the terminal client keeps and what it sends. The first part: no key, response or event breaks
  the invariant of the view. The second is a calculus for the requests an operation sends from a
  state (\<open>sends\<close>), from which every request that a key can set off is licensed by what the user did:
  \<open>licensed\<close> says by which key on which screen.
\<close>

section \<open>The view under everything the client does\<close>

abbreviation shown_well :: "cli_app \<Rightarrow> bool" where
  "shown_well s \<equiv> view_ok (ca_view s)"

lemma keeps_view: "(\<And>v. view_ok v \<Longrightarrow> view_ok (f v)) \<Longrightarrow> keeps shown_well (on_view f)"
  by (simp add: on_view_def keeps_modify)

lemma keeps_say: "keeps shown_well (say line)"
  unfolding say_def by (rule keeps_view) simp

lemma keeps_looking: "keeps shown_well (view f)"
  unfolding view_def by (rule keeps_asks)

lemma keeps_send: "keeps shown_well (send_request rq)"
  by (simp add: keeps_def send_request_def Let_def)

lemma keeps_load: "keeps shown_well load_config" "keeps shown_well (save_config c)"
  by (simp_all add: keeps_def load_config_def save_config_def split: option.split)

lemma keeps_flags:
  "keeps shown_well (modify (\<lambda>s. s\<lparr>ca_should_exit := b\<rparr>))"
  "keeps shown_well (modify (\<lambda>s. s\<lparr>ca_pending_new_thread_input := t\<rparr>))"
  by (simp_all add: keeps_modify)

lemma keeps_case_key:
  "keeps I a1 \<Longrightarrow> keeps I a2 \<Longrightarrow> keeps I a3 \<Longrightarrow> keeps I a4 \<Longrightarrow> keeps I a5 \<Longrightarrow> keeps I a6 \<Longrightarrow> keeps I a7 \<Longrightarrow>
     keeps I a8 \<Longrightarrow> (\<And>c. keeps I (f c)) \<Longrightarrow> keeps I a9 \<Longrightarrow>
     keeps I (case k of KeyEsc \<Rightarrow> a1 | KeyUp \<Rightarrow> a2 | KeyDown \<Rightarrow> a3 | KeyLeft \<Rightarrow> a4 | KeyRight \<Rightarrow> a5 | KeyTab \<Rightarrow> a6
       | KeyEnter \<Rightarrow> a7 | KeyBackspace \<Rightarrow> a8 | KeyChar c \<Rightarrow> f c | OtherKey \<Rightarrow> a9)"
  by (cases k) simp_all

lemmas keeps_client = keeps_say keeps_looking keeps_send keeps_load keeps_flags keeps_rules keeps_case_key

lemma edit_input_ok: "view_ok v \<Longrightarrow> view_ok (edit_input f v)"
  by (simp add: edit_input_def)

lemma clear_composer_ok: "view_ok v \<Longrightarrow> view_ok (clear_composer v)"
  by (simp add: clear_composer_def Let_def)

lemma keeps_view_updates:
  "keeps shown_well (on_view (open_overlay p))" "keeps shown_well (on_view close_overlay)"
  "keeps shown_well (on_view (edit_input f))" "keeps shown_well (on_view clear_composer)"
  "keeps shown_well (on_view (push_user_message m))" "keeps shown_well (on_view (push_pending_thread_start_message m))"
  "keeps shown_well (on_view (record_input_history m))"
  "keeps shown_well (on_view (snd \<circ> accept_command_suggestion))"
  "keeps shown_well (on_view (snd \<circ> recall_previous_input))"
  "keeps shown_well (on_view (snd \<circ> activate_selected_thread))"
  "keeps shown_well (on_view select_previous_command)" "keeps shown_well (on_view select_next_command)"
  "keeps shown_well (on_view select_previous_thread)" "keeps shown_well (on_view select_next_thread)"
  "keeps shown_well (on_view select_previous_sandbox_mode)" "keeps shown_well (on_view select_next_sandbox_mode)"
  "keeps shown_well (on_view select_previous_permission_policy)"
  "keeps shown_well (on_view select_next_permission_policy)"
  "keeps shown_well (on_view (open_overlay p \<circ> set_selected_sandbox_mode mode))"
  "keeps shown_well (on_view (open_overlay p \<circ> set_selected_permission_policy policy))"
  "keeps shown_well (on_view (\<lambda>v. v\<lparr>vm_config_draft := g v\<rparr>))"
  "keeps shown_well (on_view (\<lambda>v. close_overlay (v\<lparr>vm_transcript_entries := []\<rparr>)))"
  by (rule keeps_view; simp add: edit_input_ok clear_composer_ok)+

lemmas keeps_panels = keeps_view_updates keeps_client

lemma keeps_requests:
  "keeps shown_well (load_thread_surfaces k)" "keeps shown_well load_selected_thread_surfaces"
  "keeps shown_well (for_active_thread g l)" "keeps shown_well resume_selected_thread"
  "keeps shown_well cancel_selected_turn" "keeps shown_well (respond_to_first_approval d)"
  "keeps shown_well (expand_search_hit hit)" "keeps shown_well (search_memory_request a)"
  "keeps shown_well (set_sandbox_mode m)" "keeps shown_well (set_approval_policy p)"
  "keeps shown_well open_sandbox_overlay" "keeps shown_well open_permissions_overlay"
  "keeps shown_well list_topics_request" "keeps shown_well refresh_threads"
  unfolding load_thread_surfaces_def load_selected_thread_surfaces_def for_active_thread_def
    resume_selected_thread_def cancel_selected_turn_def respond_to_first_approval_def expand_search_hit_def
    search_memory_request_def set_sandbox_mode_def set_approval_policy_def open_sandbox_overlay_def
    open_permissions_overlay_def list_topics_request_def refresh_threads_def
  by (intro keeps_panels)+

lemma keeps_commands:
  "keeps shown_well (handle_slash_command input)" "keeps shown_well (start_thread_from_message input)"
  "keeps shown_well open_config_overlay" "keeps shown_well save_config_draft"
proof -
  show start: "keeps shown_well (start_thread_from_message input)" for input
    unfolding start_thread_from_message_def by (intro keeps_panels)
  show panel: "keeps shown_well open_config_overlay" "keeps shown_well save_config_draft"
    unfolding open_config_overlay_def save_config_draft_def by (intro keeps_panels)+
  have "keeps shown_well (start_new_thread a)" for a
    unfolding start_new_thread_def by (intro keeps_panels start)
  moreover have "keeps shown_well (configure_sandbox a)" "keeps shown_well (configure_permissions a)"
      "keeps shown_well open_memory_overlay" "keeps shown_well (panel_command p l)" for a p l
    unfolding configure_sandbox_def configure_permissions_def open_memory_overlay_def panel_command_def
      request_selected_wakeup_def open_selected_session_def Let_def
    by (intro keeps_requests keeps_panels)+
  ultimately show "keeps shown_well (handle_slash_command input)"
    unfolding handle_slash_command_def request_selected_wakeup_def compile_selected_thread_memory_def
      fork_selected_thread_def Let_def
    by (intro keeps_requests panel keeps_panels)
qed

lemma keeps_key: "keeps shown_well (handle_key k)"
proof -
  have "keeps shown_well submit_input"
    unfolding submit_input_def by (intro keeps_commands keeps_panels)
  then have "keeps shown_well (handle_composer_key k)"
    unfolding handle_composer_key_def handle_escape_def handle_enter_def close_with_def panel_command_def
    by (intro keeps_requests keeps_panels)
  moreover have "keeps shown_well (handle_config_key k)" "keeps shown_well (handle_threads_overlay_key k)"
    "keeps shown_well (handle_sandbox_overlay_key k)" "keeps shown_well (handle_permissions_overlay_key k)"
    unfolding handle_config_key_def handle_threads_overlay_key_def handle_sandbox_overlay_key_def
      handle_permissions_overlay_key_def close_with_def draft_edit_def
    by (intro keeps_requests keeps_commands keeps_panels)+
  ultimately show ?thesis unfolding handle_key_def by (intro keeps_panels)
qed

lemma keeps_follow_up:
  "keeps shown_well (follow_up_after_response r)" "keeps shown_well (follow_up_after_event p)"
proof -
  have reload: "keeps shown_well (reload_thread k)" "keeps shown_well (start_pending_turn k)" for k
    unfolding reload_thread_def start_pending_turn_def by (intro keeps_requests keeps_panels)+
  show "keeps shown_well (follow_up_after_event p)"
    unfolding follow_up_after_event_def
    by (cases p; simp only: server_event_payload.case) (intro keeps_requests keeps_panels)+
  show "keeps shown_well (follow_up_after_response r)"
  proof (cases r)
    case (Success i q)
    have hits: "keeps shown_well (case hits of [] \<Rightarrow> ret () | hit # _ \<Rightarrow> expand_search_hit hit)" for hits
      by (cases hits; simp) (intro keeps_requests keeps_panels)+
    show ?thesis unfolding Success
      by (cases q; simp only: follow_up_after_response.simps response_payload.case)
        (intro reload keeps_requests keeps_panels hits)+
  qed (simp add: keeps_ret)
qed

text \<open>Everything that can happen to a client: a key, a response, an event, the loss of the connection,
  a change of the configuration file or of its accessibility.\<close>

datatype client_act =
  Press key_event
| Respond server_response_envelope
| Deliver server_event
| LoseConnection
| ChangeDisk config_disk

fun client_step :: "client_act \<Rightarrow> cli_app \<Rightarrow> cli_app" where
  "client_step (Press k) s = snd (handle_key k s)"
| "client_step (Respond r) s = snd (receive_response r s)"
| "client_step (Deliver e) s = snd (receive_event e s)"
| "client_step LoseConnection s = s\<lparr>ca_connected := False\<rparr>"
| "client_step (ChangeDisk d) s = s\<lparr>ca_disk := d\<rparr>"

definition client_run :: "client_act list \<Rightarrow> cli_app \<Rightarrow> cli_app" where
  "client_run acts s = foldl (\<lambda>s a. client_step a s) s acts"

fun act_well_formed :: "client_act \<Rightarrow> bool" where
  "act_well_formed (Respond r) = well_formed r"
| "act_well_formed _ = True"

lemma client_step_ok: "shown_well s \<Longrightarrow> act_well_formed a \<Longrightarrow> shown_well (client_step a s)"
proof (cases a)
  case (Respond r)
  moreover assume "shown_well s" and "act_well_formed a"
  ultimately have "shown_well (s\<lparr>ca_view := apply_response r (ca_view s)\<rparr>)"
    by (simp add: apply_response_ok)
  from keepsD [OF keeps_follow_up(1) this] Respond show ?thesis
    by (simp add: receive_response_def bindR_run on_view_def modify_run)
next
  case (Deliver e)
  moreover assume "shown_well s"
  ultimately have "shown_well (s\<lparr>ca_view := apply_event e (ca_view s)\<rparr>)"
    by (simp add: apply_event_ok)
  from keepsD [OF keeps_follow_up(2) this] Deliver show ?thesis
    by (simp add: receive_event_def bindR_run on_view_def modify_run)
qed (simp_all add: keepsD [OF keeps_key])


definition demo_disk :: config_disk where
  "demo_disk = \<lparr>dk_path = ''.liz/config.json'',
     dk_config = \<lparr>lf_primary_provider = None, lf_providers = []\<rparr>, dk_read_fault = None, dk_write_fault = None\<rparr>"

definition demo_key :: "key_code \<Rightarrow> key_event" where
  "demo_key c = \<lparr>ke_code = c, ke_press = True, ke_control = False, ke_shift = False, ke_other_modifier = False\<rparr>"


section \<open>What is sent\<close>

definition emits :: "(client_request \<Rightarrow> bool) \<Rightarrow> cli_app \<Rightarrow> cli_app \<Rightarrow> bool" where
  "emits P s t \<longleftrightarrow> (\<exists>new. ca_sent t = ca_sent s @ new \<and> list_all (\<lambda>q. P (qe_request q)) new)"

definition sends :: "cli_app \<Rightarrow> 'a cli_run \<Rightarrow> (client_request \<Rightarrow> bool) \<Rightarrow> bool" where
  "sends s m P \<longleftrightarrow> emits P s (snd (m s))"

lemma emits_refl: "ca_sent t = ca_sent s \<Longrightarrow> emits P s t"
  by (simp add: emits_def)

lemma emits_trans: "emits P s t \<Longrightarrow> emits P t u \<Longrightarrow> emits P s u"
  by (auto simp: emits_def)

lemma emits_from: "ca_sent t = ca_sent s \<Longrightarrow> emits P s = emits P t"
  by (simp add: emits_def fun_eq_iff)

lemma sends_ret [simp]: "sends s (ret a) P" "sends s (say l) P" "sends s (on_view f) P"
    "sends s (draft_edit g) P" "sends s (asks h) P" "sends s (view j) P"
  by (simp_all add: sends_def emits_refl ret_run say_def draft_edit_def on_view_def modify_run view_def asks_run)

lemma sends_view [simp]:
  "sends s (bindR (view f) g) P = sends s (g (f (ca_view s))) P"
  "sends s (bindR (asks h) g') P = sends s (g' (h s)) P"
  by (simp_all add: sends_def view_def bindR_run asks_run)

lemma sends_on_view [simp]:
  "sends s (bindR (on_view f) g) P = sends (s\<lparr>ca_view := f (ca_view s)\<rparr>) (g ()) P"
  by (simp add: sends_def on_view_def bindR_run modify_run emits_def)

lemma sends_flags [simp]:
  "sends s (bindR (modify (\<lambda>s. s\<lparr>ca_should_exit := b\<rparr>)) g) P = sends (s\<lparr>ca_should_exit := b\<rparr>) (g ()) P"
  "sends s (bindR (modify (\<lambda>s. s\<lparr>ca_pending_new_thread_input := t\<rparr>)) g') P =
     sends (s\<lparr>ca_pending_new_thread_input := t\<rparr>) (g' ()) P"
  by (simp_all add: sends_def bindR_run modify_run emits_def)

lemma sends_send: "P rq \<Longrightarrow> sends s (send_request rq) P"
  by (simp add: sends_def send_request_def Let_def emits_def)

lemma sends_bindR:
  assumes "sends s m P" and "\<And>a. sends (snd (m s)) (f a) P"
  shows "sends s (bindR m f) P"
  using assms emits_trans [of P s "snd (m s)"]
  by (auto simp: sends_def bindR_run split: sum.split)

lemma send_keeps_view [simp]: "ca_view (snd (send_request rq s)) = ca_view s"
  by (simp add: send_request_def Let_def)

lemma sends_disk: "sends s load_config P" "sends s (save_config c) P"
  by (simp_all add: sends_def load_config_def save_config_def emits_refl split: option.split)

lemma disk_keeps_view [simp]:
  "ca_view (snd (load_config s)) = ca_view s" "ca_view (snd (save_config c s)) = ca_view s"
  by (simp_all add: load_config_def save_config_def split: option.split)

lemmas sends_intros = sends_bindR sends_send sends_disk

section \<open>What a key licenses\<close>

definition captured :: "view_model \<Rightarrow> bool" where
  "captured v \<longleftrightarrow>
     vm_active_overlay v \<in> {Some ConfigPanel, Some ThreadsPanel, Some SandboxPanel, Some PermissionsPanel}"

definition composing :: "key_code \<Rightarrow> view_model \<Rightarrow> key_event \<Rightarrow> bool" where
  "composing c v k \<longleftrightarrow> ke_press k \<and> ke_code k = c \<and> \<not> captured v"

definition command_of :: "view_model \<Rightarrow> string" where
  "command_of v = takeWhile (\<lambda>c. \<not> is_ws c) (trim (vm_input_buffer v))"

definition argument_of :: "view_model \<Rightarrow> string" where
  "argument_of v = trim (dropWhile (\<lambda>c. \<not> is_ws c) (trim (vm_input_buffer v)))"

definition commanded :: "string \<Rightarrow> view_model \<Rightarrow> key_event \<Rightarrow> bool" where
  "commanded c v k \<longleftrightarrow> composing KeyEnter v k \<and> command_of v = c"

definition message_of :: "view_model \<Rightarrow> key_event \<Rightarrow> string option" where
  "message_of v k =
     (let text = trim (vm_input_buffer v)
      in if composing KeyEnter v k \<and> text \<noteq> [] \<and> \<not> starts_with text ''/'' then Some text else None)"

definition picked :: "overlay_panel \<Rightarrow> view_model \<Rightarrow> key_event \<Rightarrow> bool" where
  "picked p v k \<longleftrightarrow> ke_press k \<and> ke_code k = KeyEnter \<and> vm_active_overlay v = Some p"

definition config_update ::
  "shell_sandbox_request option \<Rightarrow> approval_policy option \<Rightarrow> runtime_config_update_request" where
  "config_update sandbox policy = \<lparr>cu_sandbox = sandbox, cu_approval_policy = policy\<rparr>"

definition sandbox_update :: "sandbox_mode \<Rightarrow> runtime_config_update_request" where
  "sandbox_update mode = config_update (Some \<lparr>rq_mode = mode, rq_network_access = Restricted\<rparr>) None"

fun licensed :: "view_model \<Rightarrow> key_event \<Rightarrow> client_request \<Rightarrow> bool" where
  "licensed v k (ApprovalRespond r) \<longleftrightarrow>
     map_option ap_id (hd_opt (vm_pending_approvals v)) = Some (rr_approval_id r) \<and>
     (case rr_decision r of
        ApproveOnce \<Rightarrow> commanded ''/approve'' v k \<or> composing KeyEnter v k \<and> blank (vm_input_buffer v)
      | ApproveAndPersist \<Rightarrow> False
      | Deny \<Rightarrow> commanded ''/deny'' v k \<or> composing KeyEsc v k)"
| "licensed v k (TurnStart r) \<longleftrightarrow>
     message_of v k = Some (st_input r) \<and> vm_active_thread_id v = Some (st_thread_id r)"
| "licensed v k (ThreadStart r) \<longleftrightarrow>
     ts_initial_goal r \<noteq> None \<and>
     (message_of v k = ts_initial_goal r \<and> vm_active_thread_id v = None \<or>
      commanded ''/new'' v k \<and> ts_initial_goal r = Some (argument_of v))"
| "licensed v k (TurnCancel r) \<longleftrightarrow>
     commanded ''/cancel'' v k \<and>
     (\<exists>th. active_thread v = Some th \<and> tc_thread_id r = th_id th \<and> th_latest_turn_id th = Some (tc_turn_id r))"
| "licensed v k (RuntimeConfigUpdate r) \<longleftrightarrow>
     picked SandboxPanel v k \<and> r = sandbox_update (selected_sandbox_mode v) \<or>
     picked PermissionsPanel v k \<and> r = config_update None (Some (selected_permission_policy v)) \<or>
     commanded ''/sandbox'' v k \<and>
       (\<exists>m. parse_sandbox_mode (first_word (argument_of v)) = Some m \<and> r = sandbox_update m) \<or>
     commanded ''/permissions'' v k \<and>
       (\<exists>p. parse_approval_policy (first_word (argument_of v)) = Some p \<and> r = config_update None (Some p))"
| "licensed v k (ThreadFork r) \<longleftrightarrow> commanded ''/fork'' v k"
| "licensed v k (ThreadResume i) \<longleftrightarrow> commanded ''/resume'' v k"
| "licensed v k (MemoryCompileNow i) \<longleftrightarrow> commanded ''/compile'' v k"
| "licensed v k ModelStatus \<longleftrightarrow> True"
| "licensed v k RuntimeConfigGet \<longleftrightarrow> True"
| "licensed v k (ProviderAuthList i) \<longleftrightarrow> True"
| "licensed v k (MemoryReadWakeup i) \<longleftrightarrow> True"
| "licensed v k (MemoryListTopics a b) \<longleftrightarrow> True"
| "licensed v k (MemorySearch a b c) \<longleftrightarrow> True"
| "licensed v k (MemoryOpenSession i) \<longleftrightarrow> True"
| "licensed v k _ \<longleftrightarrow> False"

section \<open>Every request of a key is licensed\<close>

lemma sends_if: "(b \<Longrightarrow> sends s m P) \<Longrightarrow> (\<not> b \<Longrightarrow> sends s n P) \<Longrightarrow> sends s (if b then m else n) P"
  by simp

text \<open>The screen as far as requests depend on it, which the composer leaves alone.\<close>

definition same_screen :: "view_model \<Rightarrow> view_model \<Rightarrow> bool" where
  "same_screen w v \<longleftrightarrow>
     vm_pending_approvals w = vm_pending_approvals v \<and> vm_active_thread_id w = vm_active_thread_id v \<and>
     vm_threads w = vm_threads v \<and> vm_selected_thread_index w = vm_selected_thread_index v"

lemma same_screen_refl [simp]: "same_screen v v"
  by (simp add: same_screen_def)

lemma screen_kept [simp]:
  "same_screen (clear_composer w) v = same_screen w v"
  "same_screen (record_input_history m w) v = same_screen w v"
  "same_screen (edit_input f w) v = same_screen w v"
  "same_screen (close_overlay w) v = same_screen w v"
  "same_screen (open_overlay p w) v = same_screen w v"
  by (simp_all add: same_screen_def clear_composer_def edit_input_def refresh_composer_affordances_def
      record_input_history_def clear_input_history_selection_def close_overlay_def open_overlay_def Let_def)

lemma same_screen_active: "same_screen w v \<Longrightarrow> active_thread w = active_thread v"
  by (simp add: same_screen_def active_thread_def)

lemma respond_licensed:
  assumes "same_screen (ca_view s) v"
    and "case d of ApproveOnce \<Rightarrow> commanded ''/approve'' v k \<or> composing KeyEnter v k \<and> blank (vm_input_buffer v)
         | ApproveAndPersist \<Rightarrow> False | Deny \<Rightarrow> commanded ''/deny'' v k \<or> composing KeyEsc v k"
  shows "sends s (respond_to_first_approval d) (licensed v k)"
  using assms
  by (auto simp: respond_to_first_approval_def same_screen_def split: option.split list.splits
      intro!: sends_bindR sends_send)

lemma config_licensed:
  assumes "licensed v k (RuntimeConfigUpdate u)"
  shows "u = sandbox_update mode \<Longrightarrow> sends s (set_sandbox_mode mode) (licensed v k)"
    and "u = config_update None (Some policy) \<Longrightarrow> sends s (set_approval_policy policy) (licensed v k)"
  using assms by (auto simp: set_sandbox_mode_def set_approval_policy_def sandbox_update_def config_update_def
      simp del: licensed.simps(5) intro!: sends_bindR sends_send)

lemma free_requests:
  "sends s list_topics_request (licensed v k)" "sends s request_selected_wakeup (licensed v k)"
  "sends s open_selected_session (licensed v k)" "sends s open_memory_overlay (licensed v k)"
  "sends s open_sandbox_overlay (licensed v k)" "sends s open_permissions_overlay (licensed v k)"
  "sends s (search_memory_request a) (licensed v k)" "sends s (load_thread_surfaces i) (licensed v k)"
  "sends s open_config_overlay (licensed v k)" "sends s (panel_command p l) (licensed v k)"
proof -
  show topics: "sends s list_topics_request (licensed v k)" for s
    by (simp add: list_topics_request_def sends_send)
  show wakeup: "sends s request_selected_wakeup (licensed v k)" for s
    by (auto simp: request_selected_wakeup_def for_active_thread_def split: option.split intro!: sends_intros)
  show session: "sends s open_selected_session (licensed v k)" for s
    by (auto simp: open_selected_session_def for_active_thread_def split: option.split intro!: sends_intros)
  show "sends s open_memory_overlay (licensed v k)"
    by (auto simp: open_memory_overlay_def intro!: sends_bindR [OF topics] sends_bindR [OF wakeup] session
        sends_bindR [where m = "bindR m f" for m f] sends_bindR [where m = "ret a" for a])
  show "sends s open_sandbox_overlay (licensed v k)" "sends s open_permissions_overlay (licensed v k)"
    "sends s (search_memory_request a) (licensed v k)" "sends s (panel_command p l) (licensed v k)"
    by (auto simp: open_sandbox_overlay_def open_permissions_overlay_def search_memory_request_def
        panel_command_def intro!: sends_intros)
  show "sends s (load_thread_surfaces i) (licensed v k)"
    by (auto simp: load_thread_surfaces_def intro!: sends_intros topics)
  show "sends s open_config_overlay (licensed v k)"
    by (auto simp: open_config_overlay_def intro!: sends_intros)
qed

lemma selected_surfaces: "sends s load_selected_thread_surfaces (licensed v k)"
  by (simp add: load_selected_thread_surfaces_def free_requests split: option.split)

lemma thread_licensed:
  "licensed v k (ThreadStart \<lparr>ts_title = Some (take 48 m), ts_initial_goal = Some m, ts_workspace_ref = None,
      ts_workspace_mount_id = None\<rparr>) \<Longrightarrow> sends s (start_thread_from_message m) (licensed v k)"
  by (auto simp: start_thread_from_message_def simp del: licensed.simps(3) intro!: sends_intros)

lemma command_licensed:
  assumes screen: "same_screen (ca_view s) v" and entered: "composing KeyEnter v k"
  shows "sends s (handle_slash_command (trim (vm_input_buffer v))) (licensed v k)"
proof -
  have told: "commanded c v k \<longleftrightarrow> command_of v = c" for c using entered by (simp add: commanded_def)
  have respond: "sends s (respond_to_first_approval d) (licensed v k)"
    if "command_of v = (case d of ApproveOnce \<Rightarrow> ''/approve'' | _ \<Rightarrow> ''/deny'')" "d \<noteq> ApproveAndPersist" for d
    using that by (intro respond_licensed [OF screen]) (cases d; simp add: told)
  have sandbox: "sends s (configure_sandbox (argument_of v)) (licensed v k)" if "command_of v = ''/sandbox''"
    using that by (auto simp: configure_sandbox_def Let_def told free_requests
        intro!: config_licensed(1) [OF _ refl] split: option.split)
  have permissions: "sends s (configure_permissions (argument_of v)) (licensed v k)"
    if "command_of v = ''/permissions''"
    using that by (auto simp: configure_permissions_def Let_def told free_requests
        intro!: config_licensed(2) [OF _ refl] split: option.split)
  have cancel: "sends s cancel_selected_turn (licensed v k)" if "command_of v = ''/cancel''"
    using that by (auto simp: cancel_selected_turn_def told same_screen_active [OF screen]
        split: option.split intro!: sends_intros)
  have new: "sends s (start_new_thread a) (licensed v k)" if "command_of v = ''/new'' \<and> a = argument_of v \<or> a = []" for a
    using that by (auto simp: start_new_thread_def told intro!: thread_licensed)
  have others: "command_of v = ''/resume'' \<Longrightarrow> sends s resume_selected_thread (licensed v k)"
    "command_of v = ''/fork'' \<Longrightarrow> sends s (fork_selected_thread a) (licensed v k)"
    "command_of v = ''/compile'' \<Longrightarrow> sends s compile_selected_thread_memory (licensed v k)" for a
    by (auto simp: resume_selected_thread_def fork_selected_thread_def compile_selected_thread_memory_def
        for_active_thread_def told split: option.split intro!: sends_intros)
  show ?thesis
    unfolding handle_slash_command_def Let_def trim_idem command_of_def [symmetric] argument_of_def [symmetric]
    by (intro sends_if; (simp only: sends_flags sends_ret)?;
        (rule free_requests respond sandbox permissions cancel new others | intro sends_intros);
        simp add: free_requests)
qed

lemma message_licensed:
  assumes screen: "same_screen (ca_view s) v" and same: "vm_input_buffer (ca_view s) = vm_input_buffer v"
    and entered: "composing KeyEnter v k"
  shows "sends s submit_input (licensed v k)"
proof (cases "trim (vm_input_buffer v) = []")
  case True
  then show ?thesis by (simp add: submit_input_def same)
next
  case False
  let ?m = "trim (vm_input_buffer v)"
  show ?thesis
  proof (cases "starts_with ?m ''/''")
    case True
    then show ?thesis
      using False screen by (simp add: submit_input_def same command_licensed [OF _ entered])
  next
    case plain: False
    then have m: "message_of v k = Some ?m"
      using False entered by (simp add: message_of_def Let_def)
    show ?thesis
    proof (cases "vm_active_thread_id v")
      case None
      then show ?thesis
        using False plain m screen
        by (simp add: submit_input_def same same_screen_def [of "ca_view s"] thread_licensed
            clear_composer_def refresh_composer_affordances_def record_input_history_def
            close_overlay_def Let_def)
    next
      case (Some i)
      then have "licensed v k (owner_turn i ?m)" using m by (simp add: owner_turn_def)
      then show ?thesis
        using False plain screen Some
        by (auto simp: submit_input_def same same_screen_def [of "ca_view s"]
            clear_composer_def refresh_composer_affordances_def record_input_history_def
            close_overlay_def Let_def simp del: licensed.simps(2) intro!: sends_intros)
    qed
  qed
qed

lemma composer_licensed:
  assumes v: "ca_view s = v" and "ke_press k" and "\<not> captured v"
  shows "sends s (handle_composer_key k) (licensed v k)"
proof -
  have screen: "same_screen (ca_view s) v" using v by simp
  have "sends s handle_escape (licensed v k)" if "ke_code k = KeyEsc"
    using that assms respond_licensed [OF screen, where d = Deny and k = k]
    by (auto simp: handle_escape_def close_with_def composing_def)
  moreover have "sends s handle_enter (licensed v k)" if "ke_code k = KeyEnter"
    using that assms respond_licensed [OF screen, where d = ApproveOnce and k = k] message_licensed [OF screen, where k = k]
    by (auto simp: handle_enter_def composing_def)
  ultimately show ?thesis
    by (auto simp: handle_composer_key_def free_requests split: key_code.split)
qed

text \<open>C11: a key sends only what it licenses, given what is on the screen. An approval answers the first
  pending request; it is given by Enter in an empty composer or by the command \<open>/approve\<close>, refused by
  Esc or \<open>/deny\<close>. A turn carries the text of the composer to the active conversation; the sandbox and the
  approval policy change only as picked in their panel or as their command names. Nothing that
  calls a tool, logs in, or edits memory, people, nodes or mounts is ever sent.\<close>

theorem keys_send_what_they_license:
  "\<exists>new. ca_sent (snd (handle_key k s)) = ca_sent s @ new \<and>
     list_all (\<lambda>q. licensed (ca_view s) k (qe_request q)) new"
proof -
  let ?v = "ca_view s"
  have "sends s (handle_config_key k) (licensed ?v k)"
    by (auto simp: handle_config_key_def close_with_def save_config_draft_def split: key_code.split
        intro!: sends_intros)
  moreover have "sends s (handle_threads_overlay_key k) (licensed ?v k)"
    by (auto simp: handle_threads_overlay_key_def close_with_def split: key_code.split
        intro!: sends_bindR [OF selected_surfaces])
  moreover have "sends s (handle_sandbox_overlay_key k) (licensed ?v k)"
    if "ke_press k" "vm_active_overlay ?v = Some SandboxPanel"
    using that by (auto simp: handle_sandbox_overlay_key_def close_with_def picked_def
        split: key_code.split intro!: config_licensed(1) [OF _ refl])
  moreover have "sends s (handle_permissions_overlay_key k) (licensed ?v k)"
    if "ke_press k" "vm_active_overlay ?v = Some PermissionsPanel"
    using that by (auto simp: handle_permissions_overlay_key_def close_with_def picked_def
        split: key_code.split intro!: config_licensed(2) [OF _ refl])
  moreover have "sends s (handle_composer_key k) (licensed ?v k)" if "ke_press k" "\<not> captured ?v"
    using composer_licensed [OF refl that] .
  ultimately have "sends s (handle_key k) (licensed ?v k)"
    by (auto simp: handle_key_def captured_def intro!: sends_bindR)
  then show ?thesis by (simp add: sends_def emits_def)
qed

section \<open>Where the client does not do what it says\<close>

text \<open>After \<open>/new\<close> the screen is empty and the client says that a new conversation is ready, but the active
  conversation stays the same, so the next message goes to it.\<close>

lemma new_conversation_not_new:
  "vm_active_thread_id (ca_view (snd (start_new_thread [] s))) = vm_active_thread_id (ca_view s)"
  by (simp add: start_new_thread_def bindR_run on_view_def say_def modify_run close_overlay_def status_def)

end
