(* ===== verification/Telegram.thy ===== *)
theory Telegram
  imports Server_Laws
begin

text \<open>
  The Telegram channel (\<open>channels/telegram.rs\<close>): an update of the bot API is turned into requests to
  the server in the same process, one to start a thread when the chat has none and one to start a turn
  on it, and what the server publishes for the thread is sent back to the chat. The adapter is generic
  in its HTTP client: the definitions take its \<open>send_markdown\<close>, and \<open>reqwest_send\<close> is the one the
  program uses, over a wire whose answers are arbitrary and which records what was posted. The server is
  borrowed while an update is handled, so that everything it publishes is on the adapter's channel
  before the adapter reads it; \<open>polls\<close> is how often the deadline lets it look. The \<open>Debug\<close> texts of
  unexpected answers are parameters.
\<close>

section \<open>Updates\<close>

record telegram_user =
  tu_id :: int
  tu_first_name :: "string option"
  tu_last_name :: "string option"
  tu_username :: "string option"

record telegram_message =
  tm_message_id :: int
  tm_chat_id :: int
  tm_from :: "telegram_user option"
  tm_text :: "string option"

record telegram_update =
  tg_update_id :: int
  tg_message :: "telegram_message option"

record incoming_message =
  im_update_id :: int
  im_message_id :: int
  im_chat_id :: int
  im_text :: string
  im_participant :: participant_ref

definition display_name_for_user :: "telegram_user \<Rightarrow> string option" where
  "display_name_for_user u =
     (let name = join '' '' (List.map_filter id [tu_first_name u, tu_last_name u])
      in if blank name then tu_username u else Some name)"

definition from_update :: "telegram_update \<Rightarrow> incoming_message option" where
  "from_update u =
     (case tg_message u of
        None \<Rightarrow> None
      | Some m \<Rightarrow>
          (case tm_text m of
             None \<Rightarrow> None
           | Some raw \<Rightarrow>
               if trim raw = [] then None
               else Some
                 \<lparr>im_update_id = tg_update_id u, im_message_id = tm_message_id m,
                  im_chat_id = tm_chat_id m, im_text = trim raw,
                  im_participant =
                    \<lparr>pt_external_participant_id =
                       (case tm_from m of
                          Some user \<Rightarrow> show_int (tu_id user)
                        | None \<Rightarrow> ''telegram_chat_'' @ show_int (tm_chat_id m)),
                     pt_display_name = Option.bind (tm_from m) display_name_for_user\<rparr>\<rparr>))"

definition telegram_channel_ref :: "incoming_message \<Rightarrow> channel_ref" where
  "telegram_channel_ref m =
     \<lparr>ch_kind = channel_kind.Telegram, ch_external_conversation_id = show_int (im_chat_id m)\<rparr>"

section \<open>The HTTP client\<close>

record telegram_config =
  tl_bot_token :: string
  tl_api_base_url :: string

definition telegram_config_from_env :: "(string \<Rightarrow> string option) \<Rightarrow> telegram_config option" where
  "telegram_config_from_env env =
     map_option (\<lambda>token. \<lparr>tl_bot_token = token, tl_api_base_url = ''https://api.telegram.org''\<rparr>)
       (opt_filter (\<lambda>token. \<not> blank token) (env ''LIZ_TELEGRAM_BOT_TOKEN''))"

datatype telegram_error = ProtocolError string | HttpError string

type_synonym 'c telegram_send =
  "telegram_config \<Rightarrow> int \<Rightarrow> string \<Rightarrow> (telegram_error, 'c, unit) run"

definition reserved_characters :: string where
  "reserved_characters = ''_*[]()~`>#+-=|{}.!'' @ [CHR 0x5C]"

fun escape_markdown_v2 :: "string \<Rightarrow> string" where
  "escape_markdown_v2 [] = []"
| "escape_markdown_v2 (c # s) =
     (if c \<in> set reserved_characters then CHR 0x5C # c # escape_markdown_v2 s
      else c # escape_markdown_v2 s)"

text \<open>A wire answers the n-th post by an error or by whether the status is a success, and the status.\<close>

record telegram_wire =
  wire_answer :: "nat \<Rightarrow> http_request \<Rightarrow> string + bool \<times> string"
  wire_posts :: "http_request list"

definition message_post :: "telegram_config \<Rightarrow> int \<Rightarrow> string \<Rightarrow> http_request" where
  "message_post cfg chat text =
     \<lparr>hq_method = Post,
      hq_url = trim_end_of CHR ''/'' (tl_api_base_url cfg) @ ''/bot'' @ tl_bot_token cfg @ ''/sendMessage'',
      hq_headers = [],
      hq_body = JsonBody (JObject
        [(''chat_id'', JInt chat), (''text'', JString (escape_markdown_v2 text)),
         (''parse_mode'', JString ''MarkdownV2'')])\<rparr>"

definition reqwest_send :: "telegram_wire telegram_send" where
  "reqwest_send cfg chat text w =
     (let q = message_post cfg chat text
      in (case wire_answer w (length (wire_posts w)) q of
            Inl e \<Rightarrow> Inl (HttpError e)
          | Inr (success, status) \<Rightarrow>
              if success then Inr () else Inl (HttpError (''telegram sendMessage returned '' @ status)),
          w\<lparr>wire_posts := wire_posts w @ [q]\<rparr>))"

section \<open>The adapter\<close>

record 'c telegram_adapter =
  ta_config :: telegram_config
  ta_client :: 'c
  ta_chat_threads :: "int \<Rightarrow> thread_id option"

definition new_telegram_adapter :: "telegram_config \<Rightarrow> 'c \<Rightarrow> 'c telegram_adapter" where
  "new_telegram_adapter cfg client =
     \<lparr>ta_config = cfg, ta_client = client, ta_chat_threads = (\<lambda>_. None)\<rparr>"

record telegram_handled_update =
  th_handled_thread_id :: thread_id
  th_messages_sent :: nat

record telegram_services =
  tv_server :: server_services
  tv_payload :: "response_payload \<Rightarrow> string"
  tv_envelope :: "server_response_envelope \<Rightarrow> string"

definition thread_request :: "incoming_message \<Rightarrow> client_request_envelope" where
  "thread_request m =
     \<lparr>qe_request_id = ''telegram_'' @ show_int (im_update_id m) @ ''_thread'',
      qe_request = ThreadStart
        \<lparr>ts_title = Some (''Telegram chat '' @ show_int (im_chat_id m)), ts_initial_goal = Some (im_text m),
         ts_workspace_ref = None, ts_workspace_mount_id = None\<rparr>\<rparr>"

definition start_thread_for_message ::
  "telegram_services \<Rightarrow> incoming_message \<Rightarrow> app_server \<Rightarrow> ((telegram_error + thread_id) \<times> app_server) option" where
  "start_thread_for_message v m s =
     map_option (\<lambda>(response, t).
       (case response of
          Success _ (ThreadStartReply th) \<Rightarrow> Inr (th_id th)
        | Success _ other \<Rightarrow>
            Inl (ProtocolError (''unexpected thread/start response: '' @ tv_payload v other))
        | _ \<Rightarrow> Inl (ProtocolError (''thread/start failed for Telegram update: '' @ tv_envelope v response)), t))
       (server_handle (tv_server v) (thread_request m) s)"

definition telegram_turn :: "incoming_message \<Rightarrow> thread_id \<Rightarrow> turn_start_request" where
  "telegram_turn m k =
     \<lparr>st_thread_id = k, st_input = im_text m, st_input_kind = UserMessage,
      st_channel = Some (telegram_channel_ref m), st_participant = Some (im_participant m),
      st_interaction_context = None\<rparr>"

definition turn_request :: "incoming_message \<Rightarrow> thread_id \<Rightarrow> client_request_envelope" where
  "turn_request m k =
     \<lparr>qe_request_id = ''telegram_'' @ show_int (im_update_id m) @ ''_turn_'' @ show_int (im_message_id m),
      qe_request = TurnStart (telegram_turn m k)\<rparr>"

definition start_turn_for_message ::
  "telegram_services \<Rightarrow> incoming_message \<Rightarrow> thread_id \<Rightarrow> app_server \<Rightarrow> ((telegram_error + unit) \<times> app_server) option" where
  "start_turn_for_message v m k s =
     map_option (\<lambda>(response, t).
       (case response of
          Success _ (TurnStartReply _) \<Rightarrow> Inr ()
        | Success _ other \<Rightarrow>
            Inl (ProtocolError (''unexpected turn/start response: '' @ tv_payload v other))
        | _ \<Rightarrow> Inl (ProtocolError (''turn/start failed for Telegram update: '' @ tv_envelope v response)), t))
       (server_handle (tv_server v) (turn_request m k) s)"

text \<open>What an event of the thread makes the adapter do: send a text or not, and stop or go on.\<close>

fun forwarding :: "server_event_payload \<Rightarrow> string option \<times> bool" where
  "forwarding (AssistantChunk c) = (if blank (ace_chunk c) then None else Some (ace_chunk c), False)"
| "forwarding (AssistantCompleted m) = (if blank m then None else Some m, False)"
| "forwarding (TurnCompleted t) = (None, True)"
| "forwarding (TurnFailed t m) = (Some (''liz could not finish that turn: '' @ m), True)"
| "forwarding _ = (None, False)"

fun forward_assistant_events ::
  "'c telegram_send \<Rightarrow> telegram_config \<Rightarrow> nat \<Rightarrow> nat \<Rightarrow> thread_id \<Rightarrow> int \<Rightarrow> nat
   \<Rightarrow> (telegram_error, 'c \<times> event_bus, nat) run" where
  "forward_assistant_events transmit cfg 0 rx k chat sent st = (Inr sent, st)"
| "forward_assistant_events transmit cfg (Suc polls) rx k chat sent (c, b) =
     (case receive rx b of
        (None, b1) \<Rightarrow> forward_assistant_events transmit cfg polls rx k chat sent (c, b1)
      | (Some e, b1) \<Rightarrow>
          if ev_thread_id e \<noteq> k then forward_assistant_events transmit cfg polls rx k chat sent (c, b1)
          else (case forwarding (ev_payload e) of
                  (None, stop) \<Rightarrow>
                    if stop then (Inr sent, (c, b1))
                    else forward_assistant_events transmit cfg polls rx k chat sent (c, b1)
                | (Some text, stop) \<Rightarrow>
                    (case transmit cfg chat text c of
                       (Inl err, c1) \<Rightarrow> (Inl err, (c1, b1))
                     | (Inr _, c1) \<Rightarrow>
                         if stop then (Inr (Suc sent), (c1, b1))
                         else forward_assistant_events transmit cfg polls rx k chat (Suc sent) (c1, b1))))"

text \<open>The thread of a chat, started when it has none, and remembered.\<close>

definition chat_thread ::
  "telegram_services \<Rightarrow> incoming_message \<Rightarrow> 'c telegram_adapter \<Rightarrow> app_server
   \<Rightarrow> ((telegram_error + thread_id) \<times> 'c telegram_adapter \<times> app_server) option" where
  "chat_thread v m a s =
     (case ta_chat_threads a (im_chat_id m) of
        Some k \<Rightarrow> Some (Inr k, a, s)
      | None \<Rightarrow>
          map_option (\<lambda>(r, t).
            (r, case r of
                  Inl _ \<Rightarrow> a
                | Inr k \<Rightarrow> a\<lparr>ta_chat_threads := (ta_chat_threads a)(im_chat_id m \<mapsto> k)\<rparr>, t))
            (start_thread_for_message v m s))"

definition forward_all ::
  "'c telegram_send \<Rightarrow> nat \<Rightarrow> nat \<Rightarrow> incoming_message \<Rightarrow> thread_id \<Rightarrow> 'c telegram_adapter \<Rightarrow> app_server
   \<Rightarrow> (telegram_error + telegram_handled_update option) \<times> 'c telegram_adapter \<times> app_server" where
  "forward_all transmit polls rx m k a s =
     (case forward_assistant_events transmit (ta_config a) polls rx k (im_chat_id m) 0 (ta_client a, sv_bus s) of
        (r, c, b) \<Rightarrow>
          (map_sum id (\<lambda>n. Some \<lparr>th_handled_thread_id = k, th_messages_sent = n\<rparr>) r,
           a\<lparr>ta_client := c\<rparr>, s\<lparr>sv_bus := b\<rparr>))"

text \<open>Whatever the result, the receiving end of the channel is dropped when \<open>handle_update\<close> returns.\<close>

definition hang_up :: "nat \<Rightarrow> app_server \<Rightarrow> app_server" where
  "hang_up rx s = s\<lparr>sv_bus := drop_receiver rx (sv_bus s)\<rparr>"

definition handle_update ::
  "'c telegram_send \<Rightarrow> telegram_services \<Rightarrow> nat \<Rightarrow> telegram_update \<Rightarrow> 'c telegram_adapter \<Rightarrow> app_server
   \<Rightarrow> ((telegram_error + telegram_handled_update option) \<times> 'c telegram_adapter \<times> app_server) option" where
  "handle_update transmit v polls u a s =
     (case from_update u of
        None \<Rightarrow> Some (Inr None, a, s)
      | Some m \<Rightarrow>
          let (rx, b) = subscribe (sv_bus s)
          in (case chat_thread v m a (s\<lparr>sv_bus := b\<rparr>) of
                None \<Rightarrow> None
              | Some (Inl e, a1, s1) \<Rightarrow> Some (Inl e, a1, hang_up rx s1)
              | Some (Inr k, a1, s1) \<Rightarrow>
                  (case start_turn_for_message v m k s1 of
                     None \<Rightarrow> None
                   | Some (Inl e, s2) \<Rightarrow> Some (Inl e, a1, hang_up rx s2)
                   | Some (Inr _, s2) \<Rightarrow>
                       (case forward_all transmit polls rx m k a1 s2 of
                          (r, a2, s3) \<Rightarrow> Some (r, a2, hang_up rx s3)))))"

end
