(* ===== verification/Telegram_Laws.thy ===== *)
theory Telegram_Laws
  imports Telegram "HOL-Library.Sublist"
begin

text \<open>
  What a Telegram chat is sent: exactly the texts of what the server publishes for the chat's thread while
  the update is handled, up to the end of the turn, as literal text, whatever the wire does.
\<close>

section \<open>Literal text\<close>

text \<open>How the service reads MarkdownV2 without formatting: a backslash takes the next character literally,
  and a reserved character on its own is not plain text.\<close>

fun plain_text :: "string \<Rightarrow> string option" where
  "plain_text [] = Some []"
| "plain_text (c # s) =
     (if c = CHR 0x5C then (case s of [] \<Rightarrow> None | d # s' \<Rightarrow> map_option (Cons d) (plain_text s'))
      else if c \<in> set reserved_characters then None
      else map_option (Cons c) (plain_text s))"


section \<open>What a channel carries while requests are served\<close>

definition listening :: "nat \<Rightarrow> app_server \<Rightarrow> bool" where
  "listening n s \<longleftrightarrow>
     bus_ok (sv_bus s) \<and> n < length (bus_channels (sv_bus s)) \<and> cn_alive (bus_channels (sv_bus s) ! n)"

abbreviation sent_on :: "nat \<Rightarrow> app_server \<Rightarrow> server_event list" where
  "sent_on n s \<equiv> cn_sent (bus_channels (sv_bus s) ! n)"

definition channel_grows :: "nat \<Rightarrow> app_server \<Rightarrow> app_server \<Rightarrow> bool" where
  "channel_grows n s t \<longleftrightarrow>
     (listening n s \<longrightarrow> listening n t \<and>
        cn_received (bus_channels (sv_bus t) ! n) = cn_received (bus_channels (sv_bus s) ! n) \<and>
        prefix (sent_on n s) (sent_on n t))"

lemma channel_grows_refl: "channel_grows n s s"
  by (simp add: channel_grows_def)

lemma channel_grows_trans: "channel_grows n s t \<Longrightarrow> channel_grows n t u \<Longrightarrow> channel_grows n s u"
  by (auto simp: channel_grows_def intro: prefix_order.trans)

lemma channel_grows_same: "sv_bus t = sv_bus s \<Longrightarrow> channel_grows n s t"
  by (simp add: channel_grows_def listening_def)

lemma channel_grows_publish: "channel_grows n s (s\<lparr>sv_bus := snd (publish_all ps (sv_bus s))\<rparr>)"
proof (induction ps arbitrary: s)
  case Nil
  show ?case by (simp add: channel_grows_def)
next
  case (Cons p ps)
  let ?s = "s\<lparr>sv_bus := snd (publish p (sv_bus s))\<rparr>"
  have "channel_grows n s ?s"
    unfolding channel_grows_def listening_def
    using publish_effect(6,7,8) [where b = "sv_bus s" and p = p] by simp
  from channel_grows_trans [OF this Cons.IH [of ?s]] show ?case by (simp add: split_beta Let_def)
qed

interpretation channel: request_frame "channel_grows n" "\<lambda>_ _. True" for n
proof unfold_locales
  show "advances (channel_grows n) (handle_and_publish v q)" for v q
  proof -
    have "channel_grows n s (s\<lparr>sv_env := e, sv_bus := snd (publish_all ps (sv_bus s))\<rparr>)" for s e ps
      by (rule channel_grows_trans [OF channel_grows_same [of "s\<lparr>sv_env := e\<rparr>"]])
        (use channel_grows_publish [of n "s\<lparr>sv_env := e\<rparr>" ps] in simp_all)
    then show ?thesis by (simp add: advances_def handle_and_publish_def split_beta)
  qed
qed (auto simp: advances_def channel_grows_refl channel_grows_publish set_runtime_def
      intro: channel_grows_trans channel_grows_same)

lemma subscribed:
  assumes "bus_ok (sv_bus s)" and "subscribe (sv_bus s) = (n, b)"
  shows "n = length (bus_channels (sv_bus s))" "listening n (s\<lparr>sv_bus := b\<rparr>)"
    "sent_on n (s\<lparr>sv_bus := b\<rparr>) = []" "cn_received (bus_channels b ! n) = 0"
  using assms bus_ok_act [OF assms(1), of Subscribe]
  by (auto simp: subscribe_def Let_def listening_def)

section \<open>Reading the channel\<close>

definition unread :: "nat \<Rightarrow> event_bus \<Rightarrow> server_event list" where
  "unread n b = drop (cn_received (bus_channels b ! n)) (cn_sent (bus_channels b ! n))"

definition open_channel :: "nat \<Rightarrow> event_bus \<Rightarrow> bool" where
  "open_channel n b \<longleftrightarrow> n < length (bus_channels b) \<and> cn_alive (bus_channels b ! n)"

lemma receive_nothing: "unread n b = [] \<Longrightarrow> receive n b = (None, b)"
  by (simp add: unread_def receive_def Let_def)

lemma receive_next:
  assumes "unread n b = e # es" and "open_channel n b"
  shows "\<exists>b1. receive n b = (Some e, b1) \<and> unread n b1 = es \<and> open_channel n b1 \<and>
    cn_sent (bus_channels b1 ! n) = cn_sent (bus_channels b ! n)"
proof -
  let ?c = "bus_channels b ! n"
  have less: "cn_received ?c < length (cn_sent ?c)"
    using assms(1) by (cases "cn_received ?c < length (cn_sent ?c)") (simp_all add: unread_def)
  have "cn_sent ?c ! cn_received ?c = e" "drop (Suc (cn_received ?c)) (cn_sent ?c) = es"
    using assms(1) Cons_nth_drop_Suc [OF less] by (auto simp: unread_def)
  with less assms(2) show ?thesis by (simp add: receive_def Let_def open_channel_def unread_def)
qed

text \<open>What the events of a thread say to a chat: the texts of its events up to the one that ends its turn.\<close>

definition up_to :: "('a \<Rightarrow> bool) \<Rightarrow> 'a list \<Rightarrow> 'a list" where
  "up_to p xs = takeWhile (\<lambda>x. \<not> p x) xs @ take 1 (dropWhile (\<lambda>x. \<not> p x) xs)"

lemma up_to_simps [simp]:
  "up_to p [] = []" "up_to p (x # xs) = x # (if p x then [] else up_to p xs)"
  by (simp_all add: up_to_def)

definition chat_texts :: "thread_id \<Rightarrow> server_event list \<Rightarrow> string list" where
  "chat_texts k es =
     List.map_filter (fst \<circ> forwarding \<circ> ev_payload)
       (up_to (snd \<circ> forwarding \<circ> ev_payload) (filter (\<lambda>e. ev_thread_id e = k) es))"

lemma chat_texts_Nil: "chat_texts k [] = []"
  by (simp add: chat_texts_def)

lemma chat_texts_Cons:
  "chat_texts k (e # es) =
    (if ev_thread_id e \<noteq> k then chat_texts k es
     else case forwarding (ev_payload e) of (x, stop) \<Rightarrow>
       (case x of None \<Rightarrow> [] | Some text \<Rightarrow> [text]) @ (if stop then [] else chat_texts k es))"
  by (simp add: chat_texts_def split: prod.split option.split)

text \<open>A client of which only its log of attempts is known.\<close>

locale telegram_client =
  fixes transmit :: "'c telegram_send" and posts :: "'c \<Rightarrow> 'p list"
    and post :: "telegram_config \<Rightarrow> int \<Rightarrow> string \<Rightarrow> 'p"
  assumes transmit_posts: "posts (snd (transmit cfg chat text c)) = posts c @ [post cfg chat text]"
begin

lemma forward_posts:
  assumes "open_channel n b"
    and "forward_assistant_events transmit cfg polls n k chat sent (c, b) = (r, c', b')"
  shows "\<exists>texts. posts c' = posts c @ map (post cfg chat) texts \<and>
    prefix texts (chat_texts k (take polls (unread n b))) \<and>
    (\<forall>m. r = Inr m \<longrightarrow> texts = chat_texts k (take polls (unread n b)) \<and> m = sent + length texts) \<and>
    cn_sent (bus_channels b' ! n) = cn_sent (bus_channels b ! n) \<and> open_channel n b'"
  using assms
proof (induction polls arbitrary: sent c b)
  case 0
  then show ?case by (intro exI [of _ "[]"]) (auto simp: chat_texts_Nil)
next
  case (Suc polls)
  show ?case
  proof (cases "unread n b")
    case Nil
    with Suc.prems(2) have "forward_assistant_events transmit cfg polls n k chat sent (c, b) = (r, c', b')"
      by (simp add: receive_nothing)
    from Suc.IH [OF Suc.prems(1) this] Nil show ?thesis by simp
  next
    case (Cons e es)
    from receive_next [OF Cons Suc.prems(1)] obtain b1 where rc: "receive n b = (Some e, b1)"
      and un: "unread n b1 = es" and op: "open_channel n b1"
      and same: "cn_sent (bus_channels b1 ! n) = cn_sent (bus_channels b ! n)" by blast
    obtain x stop where fw: "forwarding (ev_payload e) = (x, stop)" by fastforce
    consider (other) "ev_thread_id e \<noteq> k" | (silent) "ev_thread_id e = k" "x = None"
      | (said) msg where "ev_thread_id e = k" "x = Some msg" by (cases x) blast+
    then show ?thesis
    proof cases
      case other
      with Suc.prems(2) rc have run: "forward_assistant_events transmit cfg polls n k chat sent (c, b1) = (r, c', b')"
        by simp
      from Suc.IH [OF op this] un same other Cons show ?thesis by (simp add: chat_texts_Cons)
    next
      case silent
      show ?thesis
      proof (cases stop)
        case True
        with silent Suc.prems(2) rc fw have "r = Inr sent" "c' = c" "b' = b1" by simp_all
        with True silent fw Cons op same show ?thesis
          by (intro exI [of _ "[]"]) (simp add: chat_texts_Cons)
      next
        case False
        with silent Suc.prems(2) rc fw have run:
          "forward_assistant_events transmit cfg polls n k chat sent (c, b1) = (r, c', b')" by simp
        from Suc.IH [OF op this] un same silent False fw Cons show ?thesis by (simp add: chat_texts_Cons)
      qed
    next
      case (said msg)
      obtain y c1 where sd: "transmit cfg chat msg c = (y, c1)" by fastforce
      have log: "posts c1 = posts c @ [post cfg chat msg]" using transmit_posts [of cfg chat msg c] sd by simp
      let ?rest = "if stop then [] else chat_texts k (take polls es)"
      have texts: "chat_texts k (take (Suc polls) (unread n b)) = msg # ?rest"
        using said fw Cons by (simp add: chat_texts_Cons)
      show ?thesis
      proof (cases y)
        case (Inl err)
        with said Suc.prems(2) rc fw sd have "r = Inl err" "c' = c1" "b' = b1" by simp_all
        with log op same texts show ?thesis by (intro exI [of _ "[msg]"]) simp
      next
        case (Inr u)
        show ?thesis
        proof (cases stop)
          case True
          with Inr said Suc.prems(2) rc fw sd have "r = Inr (Suc sent)" "c' = c1" "b' = b1" by simp_all
          with True log op same texts show ?thesis by (intro exI [of _ "[msg]"]) simp
        next
          case False
          with Inr said Suc.prems(2) rc fw sd have run:
            "forward_assistant_events transmit cfg polls n k chat (Suc sent) (c1, b1) = (r, c', b')" by simp
          from Suc.IH [OF op this] un obtain rest where
            "posts c' = posts c1 @ map (post cfg chat) rest"
            "prefix rest (chat_texts k (take polls es))"
            "\<forall>m. r = Inr m \<longrightarrow> rest = chat_texts k (take polls es) \<and> m = Suc sent + length rest"
            "cn_sent (bus_channels b' ! n) = cn_sent (bus_channels b1 ! n)" "open_channel n b'" by blast
          with log same texts False show ?thesis by (intro exI [of _ "msg # rest"]) auto
        qed
      qed
    qed
  qed
qed

end

interpretation reqwest: telegram_client reqwest_send wire_posts message_post
  by unfold_locales (simp add: reqwest_send_def Let_def)

section \<open>Handling an update\<close>

lemma chat_thread_grows:
  assumes "chat_thread v m a s = Some (r, a1, s1)"
  shows "channel_grows n s s1" and "ta_client a1 = ta_client a" and "ta_config a1 = ta_config a"
    and "c \<noteq> im_chat_id m \<Longrightarrow> ta_chat_threads a1 c = ta_chat_threads a c"
    and "ta_chat_threads a c = Some k \<Longrightarrow> ta_chat_threads a1 c = Some k"
    and "r = Inr k' \<Longrightarrow> ta_chat_threads a1 (im_chat_id m) = Some k'"
  using assms
  by (auto simp: chat_thread_def start_thread_for_message_def channel_grows_refl
      split: option.splits sum.splits if_splits dest: channel.along_server_handle)

lemma start_turn_grows: "start_turn_for_message v m k s = Some (r, t) \<Longrightarrow> channel_grows n s t"
  by (auto simp: start_turn_for_message_def dest: channel.along_server_handle)

lemma hang_up_fields [simp]:
  "sent_on n (hang_up rx s) = sent_on n s"
  "bus_ok (sv_bus s) \<Longrightarrow> bus_ok (sv_bus (hang_up rx s))"
proof -
  show "sent_on n (hang_up rx s) = sent_on n s"
    by (cases "n = rx") (auto simp: hang_up_def drop_receiver_def)
  show "bus_ok (sv_bus s) \<Longrightarrow> bus_ok (sv_bus (hang_up rx s))"
    using bus_ok_act [of "sv_bus s" "DropReceiver rx"] by (simp add: hang_up_def)
qed

lemma forward_bus_ok:
  "bus_ok b \<Longrightarrow> forward_assistant_events transmit cfg polls rx k chat sent (c, b) = (r, c', b') \<Longrightarrow> bus_ok b'"
proof (induction polls arbitrary: sent c b)
  case (Suc polls)
  have "bus_ok (snd (receive rx b))"
    using bus_ok_act [OF Suc.prems(1), of "Receive rx"] by (simp split: prod.splits option.splits)
  with Suc show ?case by (auto split: prod.splits option.splits sum.splits if_splits)
qed simp

text \<open>C13: what a chat is sent while an update is handled. Each post goes to the chat the update came from,
  and the texts posted are those the server published on the thread of that chat, in order, from the
  moment the update was taken up to the end of the turn; nothing of another thread is sent. If the
  update is handled without an error, all of them that were published in time are posted, and
  counted. A chat keeps the thread it was given, and no other chat is touched.\<close>

theorem chat_gets_its_thread:
  assumes "bus_ok (sv_bus s)" and "from_update u = Some m"
    and "handle_update reqwest_send v polls u a s = Some (r, a', t)"
  shows "\<exists>texts k. wire_posts (ta_client a') =
        wire_posts (ta_client a) @ map (message_post (ta_config a) (im_chat_id m)) texts \<and>
      prefix texts (chat_texts k (take polls (sent_on (length (bus_channels (sv_bus s))) t))) \<and>
      (texts \<noteq> [] \<longrightarrow> ta_chat_threads a' (im_chat_id m) = Some k) \<and>
      (\<forall>h. r = Inr (Some h) \<longrightarrow> th_handled_thread_id h = k \<and> th_messages_sent h = length texts \<and>
         texts = chat_texts k (take polls (sent_on (length (bus_channels (sv_bus s))) t))) \<and>
      (\<forall>c. (c \<noteq> im_chat_id m \<or> ta_chat_threads a c \<noteq> None) \<longrightarrow>
         ta_chat_threads a' c = ta_chat_threads a c)"
proof -
  obtain n b where sub: "subscribe (sv_bus s) = (n, b)" by fastforce
  note new = subscribed [OF assms(1) sub]
  obtain y a1 s1 where thr: "chat_thread v m a (s\<lparr>sv_bus := b\<rparr>) = Some (y, a1, s1)"
    using assms(2,3) sub by (auto simp: handle_update_def split: option.splits)
  note grown = chat_thread_grows [OF thr]
  have kept: "(c \<noteq> im_chat_id m \<or> ta_chat_threads a c \<noteq> None) \<longrightarrow> ta_chat_threads a1 c = ta_chat_threads a c" for c
    using grown(4,5) by (cases "ta_chat_threads a c") auto
  show ?thesis
  proof (cases y)
    case (Inl e)
    with assms(2,3) sub thr have "r = Inl e" "a' = a1" by (simp_all add: handle_update_def)
    with kept grown(2) show ?thesis by (intro exI [of _ "[]"]) simp
  next
    case (Inr k)
    obtain z s2 where turn: "start_turn_for_message v m k s1 = Some (z, s2)"
      using assms(2,3) sub thr Inr by (auto simp: handle_update_def split: option.splits)
    have live: "listening n s2" "cn_received (bus_channels (sv_bus s2) ! n) = 0"
      using channel_grows_trans [OF grown(1) start_turn_grows [OF turn]] new
      by (simp_all add: channel_grows_def)
    show ?thesis
    proof (cases z)
      case zl: (Inl e)
      with assms(2,3) sub thr turn Inr have "r = Inl e" "a' = a1" by (simp_all add: handle_update_def)
      with kept grown(2) show ?thesis by (intro exI [of _ "[]"]) simp
    next
      case zr: (Inr x)
      obtain w c' b' where run: "forward_assistant_events reqwest_send (ta_config a1) polls n k (im_chat_id m) 0
          (ta_client a1, sv_bus s2) = (w, c', b')" by (cases rule: prod_cases3)
      with assms(2,3) sub thr turn Inr zr have
        res: "r = map_sum id (\<lambda>n. Some \<lparr>th_handled_thread_id = k, th_messages_sent = n\<rparr>) w"
          "a' = a1\<lparr>ta_client := c'\<rparr>" "t = hang_up n (s2\<lparr>sv_bus := b'\<rparr>)"
        by (simp_all add: handle_update_def forward_all_def)
      have open_n: "open_channel n (sv_bus s2)" and all: "unread n (sv_bus s2) = sent_on n s2"
        using live by (simp_all add: open_channel_def listening_def unread_def)
      from reqwest.forward_posts [OF open_n run] obtain texts where
        "wire_posts c' = wire_posts (ta_client a1) @ map (message_post (ta_config a1) (im_chat_id m)) texts"
        "prefix texts (chat_texts k (take polls (sent_on n s2)))"
        "\<forall>m. w = Inr m \<longrightarrow> texts = chat_texts k (take polls (sent_on n s2)) \<and> m = length texts"
        "cn_sent (bus_channels b' ! n) = sent_on n s2" unfolding all by auto
      then show ?thesis
        using kept grown(2,3) grown(6) [OF Inr] res new(1)
        by (intro exI [of _ texts] exI [of _ k]) (cases w; simp)
    qed
  qed
qed

text \<open>An update is handled to its end whenever the server answers every request.\<close>

lemma update_returns:
  assumes "\<And>q s. \<exists>response t. server_handle (tv_server v) q s = Some (response, t)"
  shows "\<exists>r a' t. handle_update transmit v polls u a s = Some (r, a', t)"
proof -
  have thread: "\<exists>r a' t. chat_thread v m a s = Some (r, a', t)" for m a s
    using assms [of "thread_request m" s]
    by (auto simp: chat_thread_def start_thread_for_message_def split: option.split)
  have turn: "\<exists>r t. start_turn_for_message v m k s = Some (r, t)" for m k s
    using assms [of "turn_request m k" s] by (auto simp: start_turn_for_message_def)
  show ?thesis
  proof (cases "from_update u")
    case (Some m)
    obtain n b where sub: "subscribe (sv_bus s) = (n, b)" by fastforce
    obtain r a1 s1 where 1: "chat_thread v m a (s\<lparr>sv_bus := b\<rparr>) = Some (r, a1, s1)" using thread by blast
    show ?thesis
    proof (cases r)
      case (Inr k)
      obtain z s2 where 2: "start_turn_for_message v m k s1 = Some (z, s2)" using turn by blast
      show ?thesis
        by (cases "forward_all transmit polls n m k a1 s2"; cases z) (simp_all add: handle_update_def Some sub 1 2 Inr)
    qed (simp add: handle_update_def Some sub 1)
  qed (simp add: handle_update_def)
qed

definition demo_telegram :: telegram_services where
  "demo_telegram = \<lparr>tv_server = demo_services, tv_payload = (\<lambda>_. ''payload''), tv_envelope = (\<lambda>_. ''envelope'')\<rparr>"

definition demo_update :: telegram_update where
  "demo_update = \<lparr>tg_update_id = 1, tg_message = Some
     \<lparr>tm_message_id = 10, tm_chat_id = 42,
      tm_from = Some \<lparr>tu_id = 7, tu_first_name = Some ''Ann'', tu_last_name = None, tu_username = None\<rparr>,
      tm_text = Some '' hello ''\<rparr>\<rparr>"

definition demo_adapter :: "telegram_wire telegram_adapter" where
  "demo_adapter = new_telegram_adapter \<lparr>tl_bot_token = ''t'', tl_api_base_url = ''https://api.telegram.org''\<rparr>
     \<lparr>wire_answer = (\<lambda>_ _. Inr (True, ''200'')), wire_posts = []\<rparr>"

theorem chat_gets_its_thread_witness:
  "\<exists>m r a' t texts k. from_update demo_update = Some m \<and> im_text m = ''hello'' \<and>
     handle_update reqwest_send demo_telegram 9 demo_update demo_adapter demo_server = Some (r, a', t) \<and>
     wire_posts (ta_client a') = map (message_post (ta_config demo_adapter) 42) texts \<and>
     prefix texts (chat_texts k (take 9 (sent_on 0 t)))"
proof -
  have trim: "trim '' hello '' = ''hello''" by code_simp
  obtain m where m: "from_update demo_update = Some m" "im_text m = ''hello''" "im_chat_id m = 42"
    using trim by (simp add: from_update_def demo_update_def)
  obtain r a' t where run:
    "handle_update reqwest_send demo_telegram 9 demo_update demo_adapter demo_server = Some (r, a', t)"
    using update_returns [of demo_telegram reqwest_send 9 demo_update demo_adapter demo_server]
      requests_return [OF demo_stops] by (auto simp: demo_telegram_def)
  have start: "bus_channels (sv_bus demo_server) = []" "wire_posts (ta_client demo_adapter) = []"
    by (simp_all add: demo_server_def new_server_def event_bus_new_def demo_adapter_def new_telegram_adapter_def)
  from chat_gets_its_thread [OF demo_server_views(3) m(1) run] obtain texts k where
    "wire_posts (ta_client a') = map (message_post (ta_config demo_adapter) 42) texts"
    "prefix texts (chat_texts k (take 9 (sent_on 0 t)))" unfolding start m(3) by auto
  with m run show ?thesis by blast
qed

section \<open>What a chat is not protected from\<close>

lemma decide_turn_context:
  assumes "decide_turn t q s = (Inr (Some r), s')"
  shows "tr_output_context r = st_interaction_context q"
  using assms
  by (auto simp: decide_turn_def bindR_Inr_iff Let_def ret_Inr_iff run_of_def split: if_splits)

text \<open>A turn from Telegram is started without an interaction context, so the output policy leaves its
  final message as the model wrote it, whoever the chat belongs to.\<close>

lemma telegram_answer_unchecked:
  assumes "decide_turn t (telegram_turn m k) s = (Inr (Some r), s')"
  shows "apply_output_policy (tr_output_context r) message = message"
  using decide_turn_context [OF assms] by (simp add: telegram_turn_def apply_output_policy_def)

text \<open>An answer that was streamed is sent twice: piece by piece, each as a message of its own, and as a
  whole.\<close>

lemma streamed_answer_sent_twice:
  assumes "ev_payload e1 = AssistantChunk c" "ev_payload e2 = AssistantCompleted (ace_chunk c)"
    and "ev_thread_id e1 = k" "ev_thread_id e2 = k" and "\<not> blank (ace_chunk c)"
  shows "chat_texts k [e1, e2] = [ace_chunk c, ace_chunk c]"
  using assms by (simp add: chat_texts_Cons chat_texts_Nil)

text \<open>A turn that waits for the owner's approval tells the chat nothing, and no event ends the wait.\<close>

lemma waiting_chat_not_told:
  assumes "list_all (\<lambda>e. \<exists>th tn cp ap. ev_payload e \<in> {ThreadStarted th, TurnStarted tn, CheckpointCreated cp,
      ApprovalRequested ap}) es"
  shows "chat_texts k es = []"
  using assms by (induction es) (auto simp: chat_texts_Cons chat_texts_Nil)

end
