(* ===== verification/Provider_Laws.thy ===== *)
theory Provider_Laws
  imports Provider_Resolution
begin

text \<open>
  What resolution promises: the configuration wins over the environment and the defaults; only \<open>zai\<close>
  touches the network; every provider that is offered as ready has an endpoint or rules to build one; and
  where the readiness report is wrong.
\<close>

section \<open>What the configuration says\<close>

definition settled :: "bool \<Rightarrow> provider_spec \<Rightarrow> provider_override option \<Rightarrow> resolved_provider \<Rightarrow> bool" where
  "settled keyed s ov p \<longleftrightarrow>
     rp_spec p = s \<and>
     (\<forall>u. given po_base_url ov = Some u \<longrightarrow> rp_base_url p = Some u) \<and>
     (\<forall>k. keyed \<and> given po_api_key ov = Some k \<longrightarrow> rp_api_key p = Some k) \<and>
     (\<forall>m. given po_model_id ov = Some m \<and> m \<noteq> psp_default_model s \<longrightarrow> rp_model_id p = m) \<and>
     (\<forall>k v. given_meta k ov = Some v \<longrightarrow> map_of (rp_metadata p) k = Some v) \<and>
     (\<forall>k v. given (\<lambda>o'. map_of (po_headers o') k) ov = Some v \<longrightarrow> map_of (rp_headers p) k = Some v)"

lemma map_of_or_insert: "map_of m k = Some v \<Longrightarrow> map_of (or_insert i x m) k = Some v"
  by (auto simp: or_insert_def)

lemma settled_note [intro, simp]: "settled b s ov p \<Longrightarrow> settled b s ov (note_meta k v p)"
  by (auto simp: settled_def note_meta_def map_of_or_insert)

lemma settled_found [intro, simp]: "settled b s ov p \<Longrightarrow> settled b s ov (note_found k found p)"
  by (auto simp: note_found_def split: option.split)

lemma settled_key [intro, simp]: "settled b s ov p \<Longrightarrow> settled b s ov (own_key ov found p)"
  by (auto simp: settled_def own_key_def)

lemma settled_url [intro, simp]: "settled b s ov p \<Longrightarrow> settled b s ov (own_url ov found p)"
  by (auto simp: settled_def own_url_def)

lemma settled_missing [intro, simp]: "settled b s ov p \<Longrightarrow> settled b s ov (missing_url url p)"
  by (auto simp: settled_def missing_url_def)

lemma settled_default_model [intro, simp]: "settled b s ov p \<Longrightarrow> settled b s ov (default_model_becomes m p)"
  by (auto simp: settled_def default_model_becomes_def)

lemma settled_aws [intro, simp]: "settled b s ov p \<Longrightarrow> settled b s ov (note_aws_chain p)"
  by (auto simp: note_aws_chain_def)

lemma settled_unkeyed: "settled b s ov p \<Longrightarrow> settled False s ov (p\<lparr>rp_api_key := k\<rparr>)" "settled True s ov p \<Longrightarrow> settled b s ov p"
  by (auto simp: settled_def)

lemma settled_azure [intro, simp]:
  "settled b s ov p \<Longrightarrow> settled b s ov (resolve_azure_resource re rk domain de dk env p)"
  by (auto simp: resolve_azure_resource_def Let_def split: option.split)

lemma settled_rules:
  assumes "settled True s ov p"
  shows "settled True s ov (resolve_azure env p)" "settled True s ov (resolve_azure_cognitive env p)"
    "settled True s ov (resolve_foundry env p)" "settled True s ov (resolve_cloudflare_gateway env p)"
    "settled True s ov (resolve_cloudflare_workers env p)" "settled True s ov (resolve_gitlab env ov p)"
    "settled True s ov (resolve_vertex env p)" "settled True s ov (resolve_bedrock env ov p)"
    "settled True s ov (resolve_mantle env ov p)" "settled True s ov (resolve_qwen env ov p)"
    "settled True s ov (resolve_kimi env ov p)" "settled True s ov (resolve_stepfun env ov p)"
    "settled True s ov (resolve_minimax l env ov p)" "settled True s ov (resolve_minimax_portal l env ov p)"
  using assms
  by (auto simp: resolve_azure_def resolve_azure_cognitive_def resolve_foundry_def
      resolve_cloudflare_gateway_def resolve_cloudflare_workers_def resolve_gitlab_def resolve_vertex_def
      resolve_bedrock_def resolve_mantle_def resolve_qwen_def resolve_kimi_def resolve_stepfun_def
      resolve_minimax_def resolve_minimax_portal_def Let_def split: option.split)

lemma settled_codex:
  assumes "settled True s ov p"
  shows "settled True s ov (resolve_codex env ov p)"
proof -
  have "settled True s ov (p\<lparr>rp_api_key := opt_or (given po_api_key ov) found\<rparr>)" for found
    using assms by (auto simp: settled_def opt_or_def)
  then show ?thesis by (simp add: resolve_codex_def)
qed

lemma settled_sap:
  assumes "settled True s ov p"
  shows "settled False s ov (resolve_sap l env ov p)"
    and "rp_api_key (resolve_sap l env ov p) = rp_api_key p \<or> rp_api_key (resolve_sap l env ov p) = None \<and>
      (\<exists>raw key. opt_or (rp_api_key p) (env_first env [''AICORE_SERVICE_KEY'']) = Some raw \<and>
         parse_sap_ai_core_service_key l raw = Inr key)"
proof -
  have "settled False s ov (sap_deployment key ov env q)" if "settled False s ov q" for key q
    using that by (auto simp: sap_deployment_def split: option.split)
  then show "settled False s ov (resolve_sap l env ov p)"
    using settled_unkeyed [OF assms]
    by (simp add: resolve_sap_def split: option.split sum.split)
  have key: "rp_api_key (note_meta k v q) = rp_api_key q" "rp_api_key (sap_deployment key ov env q) = rp_api_key q"
    for k v q key
    by (auto simp: note_meta_def sap_deployment_def own_url_def default_model_becomes_def split: option.split)
  show "rp_api_key (resolve_sap l env ov p) = rp_api_key p \<or> rp_api_key (resolve_sap l env ov p) = None \<and>
      (\<exists>raw key. opt_or (rp_api_key p) (env_first env [''AICORE_SERVICE_KEY'']) = Some raw \<and>
         parse_sap_ai_core_service_key l raw = Inr key)"
    by (auto simp: resolve_sap_def key split: option.split sum.split)
qed

lemma settled_start:
  assumes "distinct (map fst (po_metadata ov))" and "distinct (map fst (po_headers ov))"
  shows "settled True s (Some ov) (resolution_start env s (Some ov))"
proof -
  show ?thesis
    using assms
    by (auto simp: settled_def resolution_start_def given_def given_meta_def opt_or_def unwrap_or_def
        tree_of_def map_of_tree_extend map_of_rev_keys)
qed

section \<open>Resolution\<close>

lemma settled_zai:
  assumes "settled True s ov p"
  shows "\<exists>q w'. resolve_zai cf env ov p w = (Inr q, w') \<and> settled True s ov q \<and>
    (given po_base_url ov \<noteq> None \<longrightarrow> w' = w)"
proof -
  have found: "settled True s ov (zai_endpoint_found d q)"
    if "settled True s ov q" and "given po_base_url ov = None" for d q
  proof -
    have "settled True s ov (r\<lparr>rp_base_url := u\<rparr>)" if "settled True s ov r" for r u
      using that \<open>given po_base_url ov = None\<close> by (simp add: settled_def)
    with that(1) show ?thesis unfolding zai_endpoint_found_def by (intro settled_default_model) simp
  qed
  show ?thesis
    using assms found
    by (auto simp: resolve_zai_def Let_def run_simps attempt_def split: option.split sum.split prod.split)
qed

text \<open>C28: the configuration wins. Resolving a provider always succeeds, and whatever the environment, the
  defaults of the table or the service say: an endpoint, headers and metadata that are configured are
  used as they are, and so is a configured credential (the only exception is an SAP service key,
  which is taken apart into metadata) and a configured model that is not the default one. No request
  is sent unless the provider is \<open>zai\<close> and has no endpoint configured.\<close>

theorem configured_settings_win:
  assumes "distinct (map fst (po_metadata ov))" and "distinct (map fst (po_headers ov))"
  shows "\<exists>p w'. from_spec l cf s (Some ov) w = (Inr p, w') \<and> rp_spec p = s \<and>
    (\<forall>u. po_base_url ov = Some u \<longrightarrow> rp_base_url p = Some u) \<and>
    (\<forall>k. po_api_key ov = Some k \<longrightarrow> rp_api_key p = Some k \<or>
       psp_id s = ''sap-ai-core'' \<and> rp_api_key p = None \<and> (\<exists>key. parse_sap_ai_core_service_key l k = Inr key)) \<and>
    (\<forall>m. po_model_id ov = Some m \<and> m \<noteq> psp_default_model s \<longrightarrow> rp_model_id p = m) \<and>
    (\<forall>k v. map_of (po_metadata ov) k = Some v \<longrightarrow> map_of (rp_metadata p) k = Some v) \<and>
    (\<forall>k v. map_of (po_headers ov) k = Some v \<longrightarrow> map_of (rp_headers p) k = Some v) \<and>
    (psp_id s \<noteq> ''zai'' \<or> po_base_url ov \<noteq> None \<longrightarrow> w' = w)"
proof -
  let ?start = "resolution_start (wb_env w) s (Some ov)"
  note start = settled_start [OF assms, where env = "wb_env w" and s = s]
  have read: "rp_spec p = s \<and>
      (\<forall>u. po_base_url ov = Some u \<longrightarrow> rp_base_url p = Some u) \<and>
      (b \<longrightarrow> (\<forall>k. po_api_key ov = Some k \<longrightarrow> rp_api_key p = Some k)) \<and>
      (\<forall>m. po_model_id ov = Some m \<and> m \<noteq> psp_default_model s \<longrightarrow> rp_model_id p = m) \<and>
      (\<forall>k v. map_of (po_metadata ov) k = Some v \<longrightarrow> map_of (rp_metadata p) k = Some v) \<and>
      (\<forall>k v. map_of (po_headers ov) k = Some v \<longrightarrow> map_of (rp_headers p) k = Some v)"
    if "settled b s (Some ov) p" for b p
    using that by (simp add: settled_def given_def given_meta_def)
  consider (zai) "psp_id s = ''zai''" | (sap) "psp_id s = ''sap-ai-core''"
    | (other) "psp_id s \<noteq> ''zai''" "psp_id s \<noteq> ''sap-ai-core''" by blast
  then show ?thesis
  proof cases
    case zai
    from settled_zai [OF start] obtain q w' where run: "resolve_zai cf (wb_env w) (Some ov) ?start w = (Inr q, w')"
      and ok: "settled True s (Some ov) q" and quiet: "po_base_url ov \<noteq> None \<longrightarrow> w' = w"
      by (fastforce simp: given_def)
    from read [OF ok] run quiet zai show ?thesis
      by (intro exI [of _ q] exI [of _ w']) (simp add: from_spec_def run_simps)
  next
    case sap
    let ?p = "resolve_sap l (wb_env w) (Some ov) ?start"
    have run: "from_spec l cf s (Some ov) w = (Inr ?p, w)"
      using sap by (simp add: from_spec_def run_simps provider_rules_def Let_def resolution_start_def)
    have "rp_api_key ?start = Some k" if "po_api_key ov = Some k" for k
      using that by (simp add: resolution_start_def given_def opt_or_def)
    with settled_sap(2) [OF start, where l = l and env = "wb_env w"]
    have "\<forall>k. po_api_key ov = Some k \<longrightarrow> rp_api_key ?p = Some k \<or>
       rp_api_key ?p = None \<and> (\<exists>key. parse_sap_ai_core_service_key l k = Inr key)"
      by (auto simp: opt_or_def)
    with read [OF settled_sap(1) [OF start, where l = l and env = "wb_env w"]] run sap show ?thesis by auto
  next
    case other
    let ?p = "provider_rules l (wb_env w) (Some ov) ?start"
    have spec: "rp_spec ?start = s" by (simp add: resolution_start_def)
    have ok: "settled True s (Some ov) ?p"
      using other start unfolding provider_rules_def spec Let_def
      by (simp add: settled_rules settled_codex)
    have run: "from_spec l cf s (Some ov) w = (Inr ?p, w)"
      using other by (simp add: from_spec_def run_simps)
    from read [OF ok] run show ?thesis by auto
  qed
qed

theorem configured_settings_win_witness:
  "\<forall>l cf w. \<exists>p w'. from_spec l cf (openai_compatible_spec ''groq'' ''Groq'' ''llama'')
       (Some (no_override\<lparr>po_api_key := Some ''key'', po_base_url := Some ''http://here''\<rparr>)) w = (Inr p, w') \<and>
     rp_api_key p = Some ''key'' \<and> rp_base_url p = Some ''http://here'' \<and> w' = w"
proof (intro allI)
  fix l cf w
  show "\<exists>p w'. from_spec l cf (openai_compatible_spec ''groq'' ''Groq'' ''llama'')
       (Some (no_override\<lparr>po_api_key := Some ''key'', po_base_url := Some ''http://here''\<rparr>)) w = (Inr p, w') \<and>
     rp_api_key p = Some ''key'' \<and> rp_base_url p = Some ''http://here'' \<and> w' = w"
    using configured_settings_win [where ov = "no_override\<lparr>po_api_key := Some ''key'', po_base_url := Some ''http://here''\<rparr>"
        and s = "openai_compatible_spec ''groq'' ''Groq'' ''llama''" and l = l and cf = cf and w = w]
    by (auto simp: no_override_def openai_compatible_spec_def builtin_spec_def)
qed

section \<open>The table\<close>

lemma entry_fields:
  "psp_id (builtin_spec i n f k u m e r h c ns) = i"
  "psp_family (builtin_spec i n f k u m e r h c ns) = f"
  "psp_default_base_url (builtin_spec i n f k u m e r h c ns) = u"
  "psp_implementation_status (builtin_spec i n f k u m e r h c ns) = Ready"
  "psp_id (with_auth_strategies s x) = psp_id s"
  "psp_family (with_auth_strategies s x) = psp_family s"
  "psp_default_base_url (with_auth_strategies s x) = psp_default_base_url s"
  "psp_implementation_status (with_auth_strategies s x) = psp_implementation_status s"
  "psp_id (openai_compatible_spec i n m) = i"
  "psp_family (openai_compatible_spec i n m) = OpenAiCompatible"
  "psp_default_base_url (openai_compatible_spec i n m) = compatible_base_url i"
  "psp_implementation_status (openai_compatible_spec i n m) = Ready"
  "psp_id (openai_compatible_alias_spec i n m) = i"
  "psp_family (openai_compatible_alias_spec i n m) = OpenAiCompatible"
  "psp_default_base_url (openai_compatible_alias_spec i n m) = compatible_base_url i"
  "psp_implementation_status (openai_compatible_alias_spec i n m) =
     (if is_unimplemented_openai_compatible_alias i then Unimplemented else Ready)"
  by (simp_all add: builtin_spec_def with_auth_strategies_def openai_compatible_spec_def
      openai_compatible_alias_spec_def with_notes_def with_implementation_status_def Let_def)

text \<open>Identifier, family, default endpoint and readiness of an entry.\<close>

definition entry_summary :: "provider_spec \<Rightarrow> string \<times> model_provider_family \<times> bool \<times> bool" where
  "entry_summary s =
     (psp_id s, psp_family s, psp_default_base_url s \<noteq> None, psp_implementation_status s = Ready)"

lemma entries_1: "map entry_summary builtin_specs_1 =
    [(''openai'', OpenAiResponses, True, True), (''anthropic'', AnthropicMessages, True, True),
       (''google'', GoogleGenerativeAi, True, True), (''google-vertex'', GoogleVertex, False, True)]"
  by (simp add: builtin_specs_1_def entry_summary_def entry_fields compatible_base_url_def
      is_unimplemented_openai_compatible_alias_def)

lemma entries_2: "map entry_summary builtin_specs_2 =
    [(''amazon-bedrock'', AwsBedrockConverse, False, True),
       (''amazon-bedrock-mantle'', OpenAiCompatible, False, True),
       (''google-vertex-anthropic'', GoogleVertexAnthropic, False, True)]"
  by (simp add: builtin_specs_2_def entry_summary_def entry_fields compatible_base_url_def
      is_unimplemented_openai_compatible_alias_def)

lemma entries_3: "map entry_summary builtin_specs_3 =
    [(''anthropic-vertex'', GoogleVertexAnthropic, False, True),
       (''github-copilot'', GitHubCopilot, True, True), (''gitlab'', GitLabDuo, True, True),
       (''openai-codex'', OpenAiResponses, True, True)]"
  by (simp add: builtin_specs_3_def entry_summary_def entry_fields compatible_base_url_def
      is_unimplemented_openai_compatible_alias_def)

lemma entries_4: "map entry_summary builtin_specs_4 =
    [(''xai'', OpenAiResponses, True, True), (''openrouter'', OpenAiCompatible, True, True),
       (''ollama'', OpenAiCompatible, True, True), (''vllm'', OpenAiCompatible, True, True),
       (''sglang'', OpenAiCompatible, True, True), (''opencode'', OpenAiResponses, True, True),
       (''opencode-go'', OpenAiCompatible, True, True)]"
  by (simp add: builtin_specs_4_def entry_summary_def entry_fields compatible_base_url_def
      is_unimplemented_openai_compatible_alias_def)

lemma entries_5: "map entry_summary builtin_specs_5 =
    [(''qwen'', OpenAiCompatible, True, True), (''zai'', OpenAiCompatible, True, True),
       (''vercel-ai-gateway'', OpenAiCompatible, True, True)]"
  by (simp add: builtin_specs_5_def entry_summary_def entry_fields compatible_base_url_def
      is_unimplemented_openai_compatible_alias_def)

lemma entries_6: "map entry_summary builtin_specs_6 =
    [(''cloudflare-ai-gateway'', OpenAiCompatible, False, True),
       (''cloudflare-workers-ai'', OpenAiCompatible, False, True),
       (''sap-ai-core'', OpenAiCompatible, False, True), (''deepseek'', OpenAiCompatible, True, True),
       (''mistral'', OpenAiCompatible, True, True), (''moonshot'', OpenAiCompatible, True, True),
       (''moonshotai'', OpenAiCompatible, True, True), (''minimax'', AnthropicMessages, True, True),
       (''litellm'', OpenAiCompatible, False, False), (''huggingface'', OpenAiCompatible, False, False),
       (''together'', OpenAiCompatible, True, True), (''togetherai'', OpenAiCompatible, True, True),
       (''venice'', OpenAiCompatible, False, False)]"
  by (simp add: builtin_specs_6_def entry_summary_def entry_fields compatible_base_url_def
      is_unimplemented_openai_compatible_alias_def)

lemma entries_7: "map entry_summary builtin_specs_7 =
    [(''qianfan'', OpenAiCompatible, False, False), (''synthetic'', OpenAiCompatible, False, False),
       (''xiaomi'', OpenAiCompatible, False, False), (''kimi'', AnthropicMessages, True, True),
       (''azure'', OpenAiCompatible, False, True),
       (''azure-cognitive-services'', OpenAiCompatible, False, True)]"
  by (simp add: builtin_specs_7_def entry_summary_def entry_fields compatible_base_url_def
      is_unimplemented_openai_compatible_alias_def)

lemma entries_8: "map entry_summary builtin_specs_8 =
    [(''copilot-proxy'', OpenAiCompatible, True, True),
       (''microsoft-foundry'', OpenAiCompatible, False, True), (''302ai'', OpenAiCompatible, True, True),
       (''arcee'', OpenAiCompatible, False, False), (''baseten'', OpenAiCompatible, False, False),
       (''byteplus'', OpenAiCompatible, True, True), (''byteplus-plan'', OpenAiCompatible, True, True),
       (''cerebras'', OpenAiCompatible, False, False), (''chutes'', OpenAiCompatible, False, False),
       (''cohere'', OpenAiCompatible, True, True), (''cortecs'', OpenAiCompatible, True, True),
       (''deepinfra'', OpenAiCompatible, False, False), (''firmware'', OpenAiCompatible, False, False),
       (''fireworks'', OpenAiCompatible, False, False),
       (''fireworks-ai'', OpenAiCompatible, False, False), (''groq'', OpenAiCompatible, True, True),
       (''helicone'', OpenAiCompatible, True, True), (''io-net'', OpenAiCompatible, True, True),
       (''kilo'', OpenAiCompatible, False, False), (''kilocode'', OpenAiCompatible, False, False),
       (''llama.cpp'', OpenAiCompatible, True, True), (''lmstudio'', OpenAiCompatible, True, True)]"
  by (simp add: builtin_specs_8_def entry_summary_def entry_fields compatible_base_url_def
      is_unimplemented_openai_compatible_alias_def)

lemma entries_9: "map entry_summary builtin_specs_9 =
    [(''minimax-portal'', AnthropicMessages, True, True),
       (''nebius-token-factory'', OpenAiCompatible, True, True),
       (''nebius'', OpenAiCompatible, True, True), (''nvidia'', OpenAiCompatible, False, False),
       (''ollama-cloud'', OpenAiCompatible, True, True),
       (''ovhcloud-ai-endpoints'', OpenAiCompatible, True, True),
       (''ovhcloud'', OpenAiCompatible, True, True), (''poe'', OpenAiCompatible, False, False),
       (''scaleway'', OpenAiCompatible, True, True), (''stackit'', OpenAiCompatible, True, True),
       (''stepfun'', OpenAiCompatible, True, True), (''stepfun-plan'', OpenAiCompatible, True, True),
       (''volcengine'', OpenAiCompatible, True, True),
       (''volcengine-plan'', OpenAiCompatible, True, True), (''vercel'', OpenAiCompatible, True, True),
       (''zenmux'', OpenAiCompatible, False, False)]"
  by (simp add: builtin_specs_9_def entry_summary_def entry_fields compatible_base_url_def
      is_unimplemented_openai_compatible_alias_def)

lemma summaries: "map entry_summary builtin_specs =
    map entry_summary builtin_specs_1 @ map entry_summary builtin_specs_2 @ map entry_summary builtin_specs_3 @
    map entry_summary builtin_specs_4 @ map entry_summary builtin_specs_5 @ map entry_summary builtin_specs_6 @
    map entry_summary builtin_specs_7 @ map entry_summary builtin_specs_8 @ map entry_summary builtin_specs_9"
  by (simp only: builtin_specs_def map_append)

lemmas table = entries_1 entries_2 entries_3 entries_4 entries_5 entries_6 entries_7 entries_8 entries_9

lemma id_of_summary: "psp_id = fst \<circ> entry_summary"
  by (auto simp: entry_summary_def)

lemma provider_ids_distinct: "distinct (map psp_id builtin_specs)"
proof -
  have "distinct (map fst (map entry_summary builtin_specs))"
    unfolding summaries table by simp
  then show ?thesis by (simp add: id_of_summary)
qed

lemma registered_provider_iff: "registered_provider i = Some s \<longleftrightarrow> s \<in> set builtin_specs \<and> psp_id s = i"
proof -
  let ?m = "map (\<lambda>s. (psp_id s, s)) builtin_specs"
  have ids: "map fst ?m = map psp_id builtin_specs" by (simp add: comp_def)
  have "registered_provider i = map_of ?m i"
    unfolding registered_provider_def provider_registry_def tree_of_def map_of_tree_extend
    by (simp add: map_of_rev_keys ids provider_ids_distinct comp_def)
  moreover have "map_of ?m i = Some s \<longleftrightarrow> (i, s) \<in> set ?m"
    by (rule map_of_eq_Some_iff) (simp only: ids provider_ids_distinct)
  ultimately show ?thesis by auto
qed

section \<open>Endpoints\<close>

text \<open>The providers whose endpoint is built from the environment, and the variables that it takes.\<close>

definition endpoint_variables :: "(string \<times> string list) list" where
  "endpoint_variables =
     [(''azure'', [''AZURE_RESOURCE_NAME'']),
      (''azure-cognitive-services'', [''AZURE_COGNITIVE_SERVICES_RESOURCE_NAME'']),
      (''microsoft-foundry'', [''MICROSOFT_FOUNDRY_RESOURCE_NAME'']),
      (''cloudflare-ai-gateway'', [''CLOUDFLARE_ACCOUNT_ID'']),
      (''cloudflare-workers-ai'', [''CLOUDFLARE_ACCOUNT_ID'']),
      (''amazon-bedrock-mantle'', [])]"

lemma endpoints_in_table:
  "list_all (\<lambda>(i, f, has_url, ready). ready \<and> f \<notin> {GoogleVertex, GoogleVertexAnthropic, AwsBedrockConverse} \<longrightarrow>
     has_url \<or> i = ''sap-ai-core'' \<or> i \<in> fst ` set endpoint_variables) (map entry_summary builtin_specs)"
  unfolding summaries table by (simp add: endpoint_variables_def)

lemma endpoint_kept [simp]:
  "rp_base_url (note_meta k v p) = rp_base_url p" "rp_base_url (note_found k found p) = rp_base_url p"
  "rp_base_url (own_key ov key p) = rp_base_url p" "rp_base_url (default_model_becomes m p) = rp_base_url p"
  "rp_base_url (note_aws_chain p) = rp_base_url p"
  "rp_base_url (own_url ov (Some u) p) = None \<longleftrightarrow> given po_base_url ov \<noteq> None \<and> rp_base_url p = None"
  "rp_base_url (missing_url u p) \<noteq> None"
  by (auto simp: note_meta_def note_found_def own_key_def own_url_def missing_url_def note_aws_chain_def
      default_model_becomes_def split: option.split)

lemma endpoint_rules:
  assumes "rp_base_url p \<noteq> None"
  shows "rp_base_url (resolve_azure_resource re rk domain de dk env p) \<noteq> None"
    and "rp_base_url (provider_rules l env ov p) \<noteq> None"
proof -
  show azure: "rp_base_url (resolve_azure_resource re rk domain de dk env p) \<noteq> None" for re rk domain de dk
    using assms by (auto simp: resolve_azure_resource_def Let_def simp del: not_None_eq split: option.split)
  have sap: "rp_base_url (resolve_sap l env ov p) \<noteq> None"
    using assms by (auto simp: resolve_sap_def sap_deployment_def simp del: not_None_eq split: option.split sum.split)
  have region: "rp_base_url (resolve_gitlab env ov p) \<noteq> None" "rp_base_url (resolve_codex env ov p) \<noteq> None"
    "rp_base_url (resolve_vertex env p) \<noteq> None" "rp_base_url (resolve_bedrock env ov p) \<noteq> None"
    "rp_base_url (resolve_mantle env ov p) \<noteq> None" "rp_base_url (resolve_qwen env ov p) \<noteq> None"
    "rp_base_url (resolve_kimi env ov p) \<noteq> None" "rp_base_url (resolve_stepfun env ov p) \<noteq> None"
    "rp_base_url (resolve_minimax l env ov p) \<noteq> None"
    using assms
    by (auto simp: resolve_gitlab_def resolve_codex_def resolve_vertex_def resolve_bedrock_def resolve_mantle_def
        resolve_qwen_def resolve_kimi_def resolve_stepfun_def resolve_minimax_def Let_def
        simp del: not_None_eq split: option.split)
  have portal: "rp_base_url (resolve_minimax_portal l env ov p) \<noteq> None"
    using assms by (auto simp: resolve_minimax_portal_def Let_def opt_or_def simp del: not_None_eq split: option.split)
  have cloud: "rp_base_url (resolve_cloudflare_gateway env p) \<noteq> None" "rp_base_url (resolve_cloudflare_workers env p) \<noteq> None"
    using assms by (simp_all add: resolve_cloudflare_gateway_def resolve_cloudflare_workers_def)
  show "rp_base_url (provider_rules l env ov p) \<noteq> None"
    unfolding provider_rules_def Let_def
    using assms azure sap region portal cloud
    by (simp add: resolve_azure_def resolve_azure_cognitive_def resolve_foundry_def del: not_None_eq)
qed

lemma endpoint_built:
  assumes "map_of endpoint_variables (psp_id (rp_spec p)) = Some vars" and "\<forall>x \<in> set vars. env x \<noteq> None"
  shows "rp_base_url (provider_rules l env ov p) \<noteq> None"
proof -
  have azure: "\<exists>u. rp_base_url (resolve_azure_resource re rk domain de dk env p) = Some u" if "env re = Some y"
    for re rk domain de dk y
    using that by (cases "rp_base_url p") (auto simp: resolve_azure_resource_def missing_url_def Let_def
        note_meta_def split: option.split)
  have cloud: "\<exists>u. rp_base_url (resolve_cloudflare_gateway env p) = Some u"
      "\<exists>u. rp_base_url (resolve_cloudflare_workers env p) = Some u" if "env ''CLOUDFLARE_ACCOUNT_ID'' = Some y" for y
    using that by (auto simp: resolve_cloudflare_gateway_def resolve_cloudflare_workers_def missing_url_def
        note_meta_def Let_def)
  have mantle: "\<exists>u. rp_base_url (resolve_mantle env ov p) = Some u"
    by (auto simp: resolve_mantle_def Let_def missing_url_def)
  show ?thesis
    using assms azure cloud mantle
    unfolding endpoint_variables_def provider_rules_def Let_def
    by (auto simp: resolve_azure_def resolve_azure_cognitive_def resolve_foundry_def split: if_splits)
qed



section \<open>Where readiness is wrong\<close>

text \<open>StepFun always has the region among its metadata, which counts as a credential: the provider is
  reported as ready with no credential at all. The same holds for the MiniMax and the Mantle rules.\<close>

lemma stepfun_ready_without_key:
  assumes "psp_id s = ''stepfun''" and "\<And>x. wb_env w x = None"
  shows "\<exists>p. from_spec l cf s None w = (Inr p, w) \<and> rp_api_key p = None \<and> ms_ready (status_of_resolved i p)"
proof -
  have env: "env_first (wb_env w) keys = None" for keys
    using assms(2) by (induction keys) (auto simp: env_first_def filled_def List.map_filter_def)
  have "\<not> blank ''intl''" by code_simp
  then show ?thesis
    using assms(1) env
    by (auto simp: from_spec_def run_simps provider_rules_def Let_def resolution_start_def resolve_stepfun_def own_url_def
        own_key_def given_def note_meta_def or_insert_def status_of_resolved_def tree_of_def tree_extend_def
        unwrap_or_def opt_or_def)
qed

text \<open>An explicit model that happens to be the default one is not an explicit choice: the deployment named
  by the environment replaces it.\<close>

lemma default_model_not_kept:
  assumes "psp_id s = ''azure''" and "wb_env w ''AZURE_OPENAI_DEPLOYMENT'' = Some d" and "\<not> blank d"
  shows "\<exists>p. from_spec l cf s (Some (no_override\<lparr>po_model_id := Some (psp_default_model s)\<rparr>)) w = (Inr p, w) \<and>
    rp_model_id p = d"
  using assms
  by (auto simp: from_spec_def run_simps provider_rules_def Let_def resolution_start_def resolve_azure_def
      resolve_azure_resource_def given_def no_override_def env_first_def filled_def
      default_model_becomes_def note_meta_def missing_url_def unwrap_or_def List.map_filter_def split: option.split)

text \<open>Two providers that need an API key name no variable for it, so that their credential hint is empty.\<close>

lemma hints_empty:
  "credential_hints_for_spec (openai_compatible_alias_spec ''helicone'' n m) = []"
  "credential_hints_for_spec (openai_compatible_alias_spec ''scaleway'' n m) = []"
  by (simp_all add: credential_hints_for_spec_def credential_env_keys_def openai_compatible_alias_spec_def
      openai_compatible_spec_def builtin_spec_def auth_strategy_def compatible_api_key_envs_def with_notes_def
      is_unimplemented_openai_compatible_alias_def Let_def)

text \<open>The refusal of a provider that is not implemented is worded twice.\<close>

lemma refusal_doubled:
  assumes "registered_provider i = Some s" and "\<not> is_runtime_ready s" and "gc_primary_provider g = i"
  shows "ms_notes (fst (model_status_from_gateway l cf g w)) =
    [''provider provider '' @ i @ '' is not yet implemented for live runtime use is not configured'']"
proof -
  have "resolve_primary_provider l cf False g w =
      (Inl (UnsupportedProvider (''provider '' @ i @ '' is not yet implemented for live runtime use'')), w)"
    using assms registered_provider_iff [of i s] by (simp add: resolve_primary_provider_def run_simps)
  then show ?thesis
    using assms by (simp add: model_status_from_gateway_def status_of_error_def)
qed

end
