(* ===== verification/Cloud_Auth.thy ===== *)
theory Cloud_Auth
  imports Provider_Auth
begin

text \<open>
  The credentials of Google Vertex and Amazon Bedrock (\<open>model/auth.rs\<close>) and the JSON request every
  provider adapter sends (\<open>model/http.rs\<close>). The Google and AWS crates are the functions of
  \<open>cloud_lib\<close>: they may look at the whole world (time, environment, network), so they take the state \<open>web\<close>.
  A header map of the \<open>http\<close> crate has names in lower case, and a later entry replaces an earlier one.
\<close>

section \<open>Crates\<close>

record aws_credentials =
  aws_access_key :: string
  aws_secret_key :: string
  aws_session_token :: "string option"
  aws_expiry_ms :: "nat option"

text \<open>What the \<open>yup_oauth2\<close> authenticators come to: no authenticator, no token, or an answer that may be
  without a token.\<close>

datatype google_answer = NoAuthenticator string | NoToken string | Answered "string option"

record cloud_lib =
  cl_no_runtime :: "string option"
  cl_client_failure :: "string option"
  cl_name_problem :: "string \<Rightarrow> string option"
  cl_value_problem :: "string \<Rightarrow> string option"
  cl_read_file :: "string \<Rightarrow> string option"
  cl_credential_type :: "string \<Rightarrow> string + string"
  cl_authorized_user :: "string \<Rightarrow> string + string"
  cl_user_token :: "web \<Rightarrow> string \<Rightarrow> google_answer"
  cl_default_token :: "web \<Rightarrow> google_answer"
  cl_aws_chain :: "web \<Rightarrow> string \<Rightarrow> (string + aws_credentials) option"
  cl_signing_problem :: "string \<Rightarrow> aws_credentials \<Rightarrow> string option"
  cl_uri_problem :: "string \<Rightarrow> string option"
  cl_sign :: "web \<Rightarrow> string \<Rightarrow> aws_credentials \<Rightarrow> http_request \<Rightarrow> string + (string \<times> string) list"
  cl_presign :: "web \<Rightarrow> string \<Rightarrow> aws_credentials \<Rightarrow> string \<Rightarrow> string + string"
  cl_text_problem :: "string \<Rightarrow> string option"

section \<open>Requests\<close>

fun build_headers_from ::
  "cloud_lib \<Rightarrow> (string \<times> string) list \<Rightarrow> (string \<times> string) list \<Rightarrow> model_error + (string \<times> string) list" where
  "build_headers_from c [] acc = Inr acc"
| "build_headers_from c ((k, v) # headers) acc =
     (case cl_name_problem c k of
        Some e \<Rightarrow> Inl (ProviderFailure (''invalid header name '' @ k @ '': '' @ e))
      | None \<Rightarrow>
          (case cl_value_problem c v of
             Some e \<Rightarrow> Inl (ProviderFailure (''invalid header value for '' @ k @ '': '' @ e))
           | None \<Rightarrow> build_headers_from c headers (tree_insert (to_lower k) v acc)))"

definition build_headers :: "cloud_lib \<Rightarrow> (string \<times> string) list \<Rightarrow> model_error + (string \<times> string) list" where
  "build_headers c headers = build_headers_from c headers []"

definition build_client :: "cloud_lib \<Rightarrow> unit web_run" where
  "build_client c =
     (case cl_client_failure c of
        None \<Rightarrow> ret ()
      | Some e \<Rightarrow> failure (''failed to build HTTP client: '' @ e))"

definition post_json ::
  "cloud_lib \<Rightarrow> (string \<Rightarrow> string + json) \<Rightarrow> string \<Rightarrow> (string \<times> string) list \<Rightarrow> json \<Rightarrow> json web_run" where
  "post_json c parse url headers body =
     bindR (build_client c) (\<lambda>_.
     bindR (from_result (build_headers c headers)) (\<lambda>hs.
     post_json_body parse url body hs))"

section \<open>Google\<close>

text \<open>\<open>PathBuf::join\<close> of relative paths, on a system other than Windows.\<close>

definition adc_path_join :: "string \<Rightarrow> string \<Rightarrow> string" where
  "adc_path_join a b = (if a = [] \<or> last a = CHR ''/'' then a @ b else a @ ''/'' @ b)"

definition default_google_adc_path :: "string option web_run" where
  "default_google_adc_path =
     bindR (env_var ''HOME'') (\<lambda>home.
     ret (map_option (\<lambda>h. adc_path_join (adc_path_join (adc_path_join h ''.config'') ''gcloud'')
       ''application_default_credentials.json'') home))"

definition google_adc_path :: "string option web_run" where
  "google_adc_path =
     bindR (env_var ''GOOGLE_APPLICATION_CREDENTIALS'') (\<lambda>configured.
     case filled configured of
       Some path \<Rightarrow> ret (Some path)
     | None \<Rightarrow> default_google_adc_path)"

definition load_authorized_user_secret :: "cloud_lib \<Rightarrow> string option web_run" where
  "load_authorized_user_secret c =
     bindR google_adc_path (\<lambda>found.
     case found of
       None \<Rightarrow> ret None
     | Some path \<Rightarrow>
         (case cl_read_file c path of
            None \<Rightarrow> ret None
          | Some contents \<Rightarrow>
              (case cl_credential_type c contents of
                 Inl e \<Rightarrow> failure (''failed to parse Google ADC credentials type from '' @ path @ '': '' @ e)
               | Inr kind \<Rightarrow>
                   if kind \<noteq> ''authorized_user'' then ret None
                   else (case cl_authorized_user c contents of
                           Inl e \<Rightarrow> failure (''failed to parse Google authorized-user ADC credentials from ''
                             @ path @ '': '' @ e)
                         | Inr secret \<Rightarrow> ret (Some secret)))))"

definition extract_google_token :: "string \<Rightarrow> google_answer \<Rightarrow> string web_run" where
  "extract_google_token no_authenticator answer =
     (case answer of
        NoAuthenticator e \<Rightarrow> failure (no_authenticator @ e)
      | NoToken e \<Rightarrow> failure (''failed to fetch Google access token: '' @ e)
      | Answered None \<Rightarrow> failure ''google access token response was empty''
      | Answered (Some token) \<Rightarrow> ret token)"

definition google_vertex_bearer_token :: "cloud_lib \<Rightarrow> string web_run" where
  "google_vertex_bearer_token c =
     (case cl_no_runtime c of
        Some e \<Rightarrow> failure (''failed to initialize Google auth runtime: '' @ e)
      | None \<Rightarrow>
          bindR (load_authorized_user_secret c) (\<lambda>found.
          bindR (asks id) (\<lambda>w.
          case found of
            Some secret \<Rightarrow>
              extract_google_token ''failed to initialize Google authorized-user auth: '' (cl_user_token c w secret)
          | None \<Rightarrow>
              extract_google_token ''failed to initialize Google application-default credentials: ''
                (cl_default_token c w))))"

section \<open>Amazon\<close>

text \<open>Keys in the environment come before the credential chain of the SDK.\<close>

definition env_credentials :: "aws_credentials option web_run" where
  "env_credentials =
     bindR (first_env [''AWS_ACCESS_KEY_ID'']) (\<lambda>access.
     bindR (first_env [''AWS_SECRET_ACCESS_KEY'']) (\<lambda>secret.
     bindR (first_env [''AWS_SESSION_TOKEN'']) (\<lambda>token.
     ret (case (access, secret) of
            (Some a, Some s) \<Rightarrow>
              Some \<lparr>aws_access_key = a, aws_secret_key = s, aws_session_token = token, aws_expiry_ms = None\<rparr>
          | _ \<Rightarrow> None))))"

definition aws_credentials_for :: "cloud_lib \<Rightarrow> string \<Rightarrow> string \<Rightarrow> aws_credentials web_run" where
  "aws_credentials_for c service region =
     bindR env_credentials (\<lambda>own.
     case own of
       Some credentials \<Rightarrow> ret credentials
     | None \<Rightarrow>
         bindR (asks (\<lambda>w. cl_aws_chain c w region)) (\<lambda>chain.
         case chain of
           None \<Rightarrow> failure (''aws credential chain is not available for '' @ service)
         | Some (Inl e) \<Rightarrow> failure (''failed to resolve AWS credentials for '' @ service @ '': '' @ e)
         | Some (Inr credentials) \<Rightarrow> ret credentials))"

definition resolve_aws_credentials :: "cloud_lib \<Rightarrow> string \<Rightarrow> aws_credentials web_run" where
  "resolve_aws_credentials c region = aws_credentials_for c ''Amazon Bedrock Mantle'' region"

text \<open>The first header that the \<open>http\<close> crate refuses, if any.\<close>

fun bedrock_header_problem :: "cloud_lib \<Rightarrow> (string \<times> string) list \<Rightarrow> string option" where
  "bedrock_header_problem c [] = None"
| "bedrock_header_problem c ((k, v) # headers) =
     (case cl_name_problem c k of
        Some e \<Rightarrow> Some (''invalid AWS Bedrock header name '' @ k @ '': '' @ e)
      | None \<Rightarrow>
          (case cl_value_problem c v of
             Some e \<Rightarrow> Some (''invalid AWS Bedrock header value for '' @ k @ '': '' @ e)
           | None \<Rightarrow> bedrock_header_problem c headers))"

definition refused :: "string \<Rightarrow> string option \<Rightarrow> unit web_run" where
  "refused message problem =
     (case problem of None \<Rightarrow> ret () | Some e \<Rightarrow> failure (message @ e))"

definition sign_bedrock_request_with_credentials ::
  "cloud_lib \<Rightarrow> string \<Rightarrow> (string \<times> string) list \<Rightarrow> json \<Rightarrow> string \<Rightarrow> aws_credentials
   \<Rightarrow> (string \<times> string) list web_run" where
  "sign_bedrock_request_with_credentials c url headers body region credentials =
     bindR (refused ''failed to build AWS Bedrock signing params: '' (cl_signing_problem c region credentials)) (\<lambda>_.
     bindR (refused ''failed to build AWS Bedrock request shell: '' (cl_uri_problem c url)) (\<lambda>_.
     bindR (refused [] (bedrock_header_problem c headers)) (\<lambda>_.
     let lowered = tree_of (map (\<lambda>(k, v). (to_lower k, v)) headers)
     in bindR (asks (\<lambda>w. cl_sign c w region credentials
            \<lparr>hq_method = Post, hq_url = url, hq_headers = lowered, hq_body = JsonBody body\<rparr>)) (\<lambda>signed.
        case signed of
          Inl e \<Rightarrow> failure (''failed to sign AWS Bedrock request: '' @ e)
        | Inr added \<Rightarrow>
            let result = tree_extend lowered added
            in bindR (case find (\<lambda>(k, v). cl_text_problem c v \<noteq> None) result of
                        Some (k, v) \<Rightarrow>
                          refused (''invalid signed AWS Bedrock header '' @ k @ '': '') (cl_text_problem c v)
                      | None \<Rightarrow> ret ()) (\<lambda>_.
               ret result)))))"

definition sign_bedrock_request ::
  "cloud_lib \<Rightarrow> string \<Rightarrow> (string \<times> string) list \<Rightarrow> json \<Rightarrow> string \<Rightarrow> (string \<times> string) list web_run" where
  "sign_bedrock_request c url headers body region =
     bindR (refused ''failed to initialize AWS auth runtime: '' (cl_no_runtime c)) (\<lambda>_.
     bindR (aws_credentials_for c ''Amazon Bedrock'' region) (\<lambda>credentials.
     sign_bedrock_request_with_credentials c url headers body region credentials))"

definition bedrock_mantle_control_plane_url :: string where
  "bedrock_mantle_control_plane_url = ''https://bedrock.amazonaws.com/?Action=CallWithBearerToken''"

definition mint_bedrock_mantle_bearer_token ::
  "provider_lib \<Rightarrow> cloud_lib \<Rightarrow> string \<Rightarrow> aws_credentials \<Rightarrow> string web_run" where
  "mint_bedrock_mantle_bearer_token l c region credentials =
     bindR (refused ''failed to build AWS Bedrock Mantle signing params: ''
              (cl_signing_problem c region credentials)) (\<lambda>_.
     bindR (refused ''failed to build AWS Bedrock Mantle request shell: ''
              (cl_uri_problem c bedrock_mantle_control_plane_url)) (\<lambda>_.
     bindR (asks (\<lambda>w. cl_presign c w region credentials bedrock_mantle_control_plane_url)) (\<lambda>signed.
     case signed of
       Inl e \<Rightarrow> failure (''failed to sign AWS Bedrock Mantle bearer-token request: '' @ e)
     | Inr url \<Rightarrow>
         ret (''bedrock-api-key-'' @ cl_base64 (pv_crypto l) (unwrap_or url (strip_prefix ''https://'' url))
           @ ''&Version=1''))))"

text \<open>The token for Bedrock Mantle, from the configuration, the cache or new credentials.\<close>

definition mantle_token :: "provider_lib \<Rightarrow> cloud_lib \<Rightarrow> string option \<Rightarrow> string \<Rightarrow> string mantle_run" where
  "mantle_token l c explicit_token region m =
     resolve_bedrock_mantle_runtime_auth (cl_no_runtime c)
       (\<lambda>region. map_ok (\<lambda>k. (aws_expiry_ms k, k)) (fst (resolve_aws_credentials c region (mt_web m))))
       (\<lambda>region k. fst (mint_bedrock_mantle_bearer_token l c region k (mt_web m)))
       explicit_token region m"

end
