(* ===== verification/Adapters.thy ===== *)
theory Adapters
  imports Provider_Resolution Cloud_Auth
begin

text \<open>
  What the provider adapters (\<open>model/adapters/\<close>) share: the plan of an invocation (\<open>model/invocation.rs\<close>),
  the pieces of request bodies, the events of parsed tool calls, the estimate of tokens and the
  simulated run. The text of a JSON value and the parser of JSON text are \<open>serde_json\<close>'s and come in
  \<open>adapter_lib\<close>. An adapter emits no event before its last failure, so a run is either an error or the
  events and the summary. Where the four adapters repeat a function, it is defined once.
\<close>

record adapter_lib =
  ab_provider :: provider_lib
  ab_cloud :: cloud_lib
  ab_json_text :: "json \<Rightarrow> string"
  ab_json_parse :: "string \<Rightarrow> string + json"

section \<open>Plans\<close>

datatype invocation_transport =
  HttpJson (transport_method: string) (transport_base: string) (transport_path: string)
| ProviderOperation (transport_operation: string) (operation_base: "string option")

record provider_invocation_plan =
  pip_provider_id :: string
  pip_display_name :: string
  pip_family :: model_provider_family
  pip_model_id :: string
  pip_auth_kind :: provider_auth_kind
  pip_transport :: invocation_transport
  pip_headers :: "(string \<times> string) list"
  pip_payload_preview :: string
  pip_notes :: "string list"

definition plan_for ::
  "resolved_provider \<Rightarrow> string \<Rightarrow> invocation_transport \<Rightarrow> string \<Rightarrow> provider_invocation_plan" where
  "plan_for p model transport preview =
     (let s = rp_spec p
      in \<lparr>pip_provider_id = psp_id s, pip_display_name = psp_display_name s, pip_family = psp_family s,
          pip_model_id = model, pip_auth_kind = psp_auth_kind s, pip_transport = transport,
          pip_headers = rp_headers p, pip_payload_preview = preview, pip_notes = psp_notes s\<rparr>)"

type_synonym adapter_result = "normalized_turn_event list \<times> model_run_summary"

section \<open>JSON\<close>

fun as_array :: "json \<Rightarrow> json list option" where
  "as_array (JArray xs) = Some xs"
| "as_array _ = None"

fun is_object :: "json \<Rightarrow> bool" where
  "is_object (JObject kvs) = True"
| "is_object _ = False"

text \<open>\<open>value.get(key)\<close> along a path, and the elements of an array found there (none when there is no
  array).\<close>

definition json_at :: "string list \<Rightarrow> json \<Rightarrow> json option" where
  "json_at path v = foldl (\<lambda>found k. Option.bind found (\<lambda>u. json_get u k)) (Some v) path"

definition items_at :: "string list \<Rightarrow> json \<Rightarrow> json list" where
  "items_at path v = unwrap_or [] (Option.bind (json_at path v) as_array)"

definition str_at :: "string list \<Rightarrow> json \<Rightarrow> string option" where
  "str_at path v = Option.bind (json_at path v) as_str"

definition as_u32 :: "json \<Rightarrow> 32 word option" where
  "as_u32 v = (case as_u64 v of
     Some n \<Rightarrow> if n < 2 ^ 32 then Some (word_of_nat n) else None | None \<Rightarrow> None)"

definition u32_at :: "string list \<Rightarrow> json \<Rightarrow> 32 word option" where
  "u32_at path v = Option.bind (json_at path v) as_u32"

text \<open>\<open>body[key] = value\<close> on an object.\<close>

fun with_field :: "string \<Rightarrow> json \<Rightarrow> json \<Rightarrow> json" where
  "with_field k v (JObject kvs) = JObject (AList.update k v kvs)"
| "with_field k v body = body"

definition with_optional_field :: "string \<Rightarrow> json option \<Rightarrow> json \<Rightarrow> json" where
  "with_optional_field k v body = (case v of None \<Rightarrow> body | Some x \<Rightarrow> with_field k x body)"

definition text_block :: "string \<Rightarrow> json" where
  "text_block s = JObject [(''text'', JString s)]"

definition role_message :: "string \<Rightarrow> json \<Rightarrow> json" where
  "role_message role content = JObject [(''role'', JString role), (''content'', content)]"

text \<open>\<open>str::parse::<u64>\<close>.\<close>

definition parse_u64 :: "string \<Rightarrow> nat option" where
  "parse_u64 s =
     (let digits = (if starts_with s ''+'' then tl s else s)
      in if digits = [] \<or> \<not> list_all (\<lambda>c. CHR ''0'' \<le> c \<and> c \<le> CHR ''9'') digits
            \<or> 2 ^ 64 \<le> read_base 10 0 digits
         then None else Some (read_base 10 0 digits))"

section \<open>Prompts and tools\<close>

definition trim_trailing_slash :: "string \<Rightarrow> string" where
  "trim_trailing_slash s = trim_end_of CHR ''/'' s"

definition estimate_tokens :: "string \<Rightarrow> 32 word" where
  "estimate_tokens text = word_of_nat (min (3 * max 1 (length (split_whitespace text))) (2 ^ 32 - 1))"

definition needs_tool_call :: "string \<Rightarrow> bool" where
  "needs_tool_call prompt =
     (let lower = to_lower prompt
      in contains lower ''tool'' \<or> contains lower ''patch'' \<or> contains lower ''command'' \<or> contains lower ''run '')"

definition infer_tool_name :: "string \<Rightarrow> string" where
  "infer_tool_name prompt =
     (let lower = to_lower prompt
      in if contains lower ''patch'' \<or> contains lower ''write'' then ''workspace.apply_patch''
         else if contains lower ''command'' \<or> contains lower ''run '' then ''shell.exec''
         else ''workspace.read'')"

text \<open>Whether the tools of a surface are sent along with the request.\<close>

definition offers_native :: "tool_surface_spec \<Rightarrow> bool" where
  "offers_native t \<longleftrightarrow> tss_protocol t = NativeTools \<and> tss_tools t \<noteq> []"

definition injected_tool_name :: "tool_surface_spec \<Rightarrow> tool_result_injection \<Rightarrow> string" where
  "injected_tool_name t i =
     unwrap_or (tri_provider_tool_name i) (provider_name (tss_name_map t) (tri_tool_name i))"

definition anthropic_native_tools_payload :: "tool_surface_spec \<Rightarrow> json" where
  "anthropic_native_tools_payload t =
     JArray (map (\<lambda>tool. JObject
       [(''name'', JString (pts_provider_name tool)), (''description'', JString (pts_description tool)),
        (''input_schema'', pts_input_json_schema tool)]) (tss_tools t))"

definition ephemeral_text :: "string \<Rightarrow> bool \<Rightarrow> json" where
  "ephemeral_text s cache_ephemeral =
     JArray [JObject ([(''type'', JString ''text''), (''text'', JString s)]
       @ (if cache_ephemeral then [(''cache_control'', JObject [(''type'', JString ''ephemeral'')])] else []))]"

definition anthropic_system_blocks :: "string \<Rightarrow> bool \<Rightarrow> json" where
  "anthropic_system_blocks system_prompt cache_ephemeral =
     (if blank system_prompt then JArray [] else ephemeral_text system_prompt cache_ephemeral)"

definition anthropic_user_content :: "string \<Rightarrow> bool \<Rightarrow> json" where
  "anthropic_user_content user_prompt cache_ephemeral = ephemeral_text user_prompt cache_ephemeral"

text \<open>Tool results as text after the prompt. Two adapters do this, one of them with the summary.\<close>

definition tagged_result ::
  "adapter_lib \<Rightarrow> bool \<Rightarrow> tool_surface_spec \<Rightarrow> tool_result_injection \<Rightarrow> string" where
  "tagged_result A with_summary t i =
     newline @ ''<liz_tool_result>'' @ ab_json_text A (JObject
       ([(''call_id'', JString (tri_call_id i)), (''tool_name'', JString (injected_tool_name t i)),
         (''result'', tri_result i), (''is_error'', JBool (tri_is_error i))]
        @ (if with_summary then [(''summary'', JString (tri_summary i))] else [])))
     @ ''</liz_tool_result>''"

definition user_prompt_with_results ::
  "adapter_lib \<Rightarrow> bool \<Rightarrow> model_turn_request \<Rightarrow> tool_surface_spec \<Rightarrow> string" where
  "user_prompt_with_results A with_summary rq t =
     mtr_user_prompt rq @ concat (map (tagged_result A with_summary t) (mtr_tool_result_injections rq))"

section \<open>Answers\<close>

definition call_events ::
  "adapter_lib \<Rightarrow> provider_invocation_plan \<Rightarrow> provider_tool_call \<Rightarrow> normalized_turn_event list" where
  "call_events A plan c =
     [CallStarted (ptc_call_id c) (ptc_tool_name c)
        (pip_display_name plan @ '' requested '' @ ptc_tool_name c),
      CallCommitted (ptc_call_id c) (ptc_tool_name c) (ab_json_text A (ptc_arguments c))]"

definition message_events :: "provider_invocation_plan \<Rightarrow> string \<Rightarrow> normalized_turn_event list" where
  "message_events plan m =
     [AssistantDelta (''Live response from '' @ pip_display_name plan @ ''.''), AssistantMessage m]"

definition usage_of :: "32 word \<Rightarrow> 32 word \<Rightarrow> 32 word \<Rightarrow> usage_delta" where
  "usage_of input output reasoning =
     \<lparr>ud_input_tokens = input, ud_output_tokens = output, ud_reasoning_tokens = reasoning,
      ud_cache_hit_tokens = 0, ud_cache_write_tokens = 0\<rparr>"

text \<open>The usage three adapters report for every answer.\<close>

definition estimated_usage :: "model_turn_request \<Rightarrow> provider_invocation_plan \<Rightarrow> usage_delta" where
  "estimated_usage rq plan = usage_of (estimate_tokens (mtr_prompt rq)) (estimate_tokens (pip_model_id plan)) 0"

text \<open>The result of a run of three of the adapters: the tool calls, or the message if there are none.\<close>

definition calls_or_message ::
  "adapter_lib \<Rightarrow> provider_invocation_plan \<Rightarrow> provider_tool_call list \<Rightarrow> string \<Rightarrow> usage_delta \<Rightarrow> adapter_result" where
  "calls_or_message A plan calls m u =
     (concat (map (call_events A plan) calls) @ (if calls = [] then message_events plan m else []),
      \<lparr>rn_assistant_message = (if calls = [] then Some m else None), rn_usage = u, rn_tool_calls = calls\<rparr>)"

definition numbered_call :: "nat \<Rightarrow> string" where
  "numbered_call n = ''call_'' @ show_dec n"

section \<open>Simulated runs\<close>

text \<open>What the simulated branches have in common: two chunks, a tool call that is made up from the prompt,
  the plan, the usage and a closing message. One of them reads the arguments back from their text
  (\<open>reread\<close>).\<close>

definition made_up_call :: "model_turn_request \<Rightarrow> tool_surface_spec \<Rightarrow> json \<Rightarrow> provider_tool_call" where
  "made_up_call rq t arguments =
     (let name = infer_tool_name (mtr_user_prompt rq)
      in \<lparr>ptc_call_id = ''call_01'', ptc_tool_name = name,
          ptc_provider_tool_name = unwrap_or name (provider_name (tss_name_map t) name),
          ptc_arguments = arguments\<rparr>)"

definition preparing :: "provider_invocation_plan \<Rightarrow> provider_tool_call \<Rightarrow> normalized_turn_event" where
  "preparing plan c =
     CallStarted (ptc_call_id c) (ptc_tool_name c) (pip_display_name plan @ '' is preparing a tool call'')"

definition simulated_end ::
  "provider_invocation_plan \<Rightarrow> provider_tool_call list \<Rightarrow> usage_delta \<Rightarrow> string \<Rightarrow> adapter_result" where
  "simulated_end plan calls u m =
     ([ProviderRawEvent (''request-plan '' @ pip_payload_preview plan), UsageEvent u]
        @ (if calls = [] then [AssistantMessage m] else []),
      \<lparr>rn_assistant_message = (if calls = [] then Some m else None), rn_usage = u, rn_tool_calls = calls\<rparr>)"

definition simulated_run ::
  "adapter_lib \<Rightarrow> (json \<Rightarrow> json) \<Rightarrow> provider_invocation_plan \<Rightarrow> model_turn_request \<Rightarrow> tool_surface_spec
   \<Rightarrow> string \<Rightarrow> string \<Rightarrow> usage_delta \<Rightarrow> string \<Rightarrow> adapter_result" where
  "simulated_run A reread plan rq t first second u m =
     (let arguments = JObject [(''path'', JString (mtr_user_prompt rq))];
          calls = (if mtr_tool_result_injections rq = [] \<and> needs_tool_call (mtr_user_prompt rq)
                   then [made_up_call rq t (reread arguments)] else []);
          ended = simulated_end plan calls u m
      in ([AssistantDelta first, AssistantDelta second]
            @ concat (map (\<lambda>c. [preparing plan c,
                CallCommitted (ptc_call_id c) (ptc_tool_name c) (ab_json_text A arguments)]) calls)
            @ fst ended,
          snd ended))"

end
