(* ===== verification/Openai_Style.thy ===== *)
theory Openai_Style
  imports Adapters
begin

text \<open>
  The adapter for OpenAI-style providers (\<open>model/adapters/openai_style.rs\<close>): OpenAI, compatible services,
  Codex, Copilot and GitLab. A plan is built, then either simulated or carried out: URL, headers and body
  by family and model, one request, and an answer from which text, tool calls and usage are read. Tool
  calls come in three native forms or, in the structured fallback, as tagged JSON in the text.
\<close>

section \<open>Endpoints and families\<close>

definition should_use_copilot_responses_api :: "string \<Rightarrow> bool" where
  "should_use_copilot_responses_api model =
     (case strip_prefix ''gpt-'' model of
        None \<Rightarrow> False
      | Some rest \<Rightarrow>
          let segment = hd (split_on (\<lambda>c. \<not> (CHR ''0'' \<le> c \<and> c \<le> CHR ''9'')) rest);
              version = (if segment = [] \<or> 2 ^ 32 \<le> read_base 10 0 segment then 0 else read_base 10 0 segment)
          in 5 \<le> version \<and> \<not> starts_with model ''gpt-5-mini'')"

definition copilot_uses_anthropic_messages_model :: "string \<Rightarrow> bool" where
  "copilot_uses_anthropic_messages_model model = contains (to_lower model) ''claude''"

definition gitlab_uses_private_token :: "string \<Rightarrow> resolved_provider \<Rightarrow> bool" where
  "gitlab_uses_private_token api_key p =
     (case map_of (rp_metadata p) ''gitlab.auth_mode'' of
        Some mode \<Rightarrow> mode = ''pat'' | None \<Rightarrow> starts_with api_key ''glpat-'')"

definition gitlab_chat_endpoint :: "string \<Rightarrow> string" where
  "gitlab_chat_endpoint base_url =
     (let trimmed = trim_trailing_slash base_url
      in if ends_with trimmed ''/api/v4/chat/completions'' then trimmed
         else if ends_with trimmed ''/api/v4'' then trimmed @ ''/chat/completions''
         else trimmed @ ''/api/v4/chat/completions'')"

definition url_path :: "provider_lib \<Rightarrow> string \<Rightarrow> string" where
  "url_path l base_url =
     (case ul_parse (pv_urls l) base_url of
        Inl e \<Rightarrow> [] | Inr u \<Rightarrow> trim_trailing_slash (ur_path u))"

definition openai_compatible_chat_path :: "provider_lib \<Rightarrow> string \<Rightarrow> string" where
  "openai_compatible_chat_path l base_url =
     (if url_path l base_url = [] then ''/v1/chat/completions'' else ''/chat/completions'')"

definition openai_responses_path :: "provider_lib \<Rightarrow> string \<Rightarrow> string" where
  "openai_responses_path l base_url =
     (if url_path l base_url = [] then ''/v1/responses'' else ''/responses'')"

definition provider_supports_patching :: "model_provider_family \<Rightarrow> bool" where
  "provider_supports_patching f \<longleftrightarrow> f = OpenAiResponses"

definition supports_reasoning_accounting :: "model_provider_family \<Rightarrow> bool" where
  "supports_reasoning_accounting f \<longleftrightarrow> f \<in> {OpenAiResponses, GitLabDuo}"

section \<open>The plan\<close>

definition openai_payload_preview :: "resolved_provider \<Rightarrow> model_turn_request \<Rightarrow> json" where
  "openai_payload_preview p rq =
     (let model = (''model'', JString (rp_model_id p));
          instructions = (''instructions'', JString (instruction_prompt rq));
          user = JString (mtr_user_prompt rq); stream = (''stream'', JBool True)
      in case psp_family (rp_spec p) of
           OpenAiResponses \<Rightarrow> JObject [model, instructions, (''input'', user), stream]
         | GitHubCopilot \<Rightarrow> JObject [model, instructions, (''input'', user),
             (''mode'', JString (if copilot_uses_anthropic_messages_model (rp_model_id p) then ''messages''
                else if should_use_copilot_responses_api (rp_model_id p) then ''responses'' else ''chat''))]
         | GitLabDuo \<Rightarrow> JObject [model, (''prompt'', JString (mtr_prompt rq)), (''workflow_discovery'', JBool True)]
         | _ \<Rightarrow> JObject [model,
             (''messages'', JArray [role_message ''system'' (JString (instruction_prompt rq)), role_message ''user'' user]),
             stream])"

text \<open>A family the adapter is not made for is \<open>unreachable!\<close>, a panic; the gateway only passes these four
  (\<open>None\<close> below is never used).\<close>

definition openai_transport :: "provider_lib \<Rightarrow> resolved_provider \<Rightarrow> invocation_transport option" where
  "openai_transport l p =
     (case psp_family (rp_spec p) of
        OpenAiResponses \<Rightarrow>
          (if psp_id (rp_spec p) = ''openai-codex''
           then Some (HttpJson ''POST'' (unwrap_or ''https://chatgpt.com/backend-api'' (rp_base_url p))
                        ''/codex/responses'')
           else let base = unwrap_or ''https://api.openai.com'' (rp_base_url p)
                in Some (HttpJson ''POST'' base (openai_responses_path l base)))
      | OpenAiCompatible \<Rightarrow>
          (case rp_base_url p of
             Some base \<Rightarrow> Some (HttpJson ''POST'' base (openai_compatible_chat_path l base))
           | None \<Rightarrow> Some (ProviderOperation ''openai-compatible.chat-completions'' None))
      | GitHubCopilot \<Rightarrow>
          Some (ProviderOperation
            (if copilot_uses_anthropic_messages_model (rp_model_id p) then ''github-copilot.messages''
             else if should_use_copilot_responses_api (rp_model_id p) then ''github-copilot.responses''
             else ''github-copilot.chat'') (rp_base_url p))
      | GitLabDuo \<Rightarrow> Some (ProviderOperation ''gitlab.duo.chat'' (rp_base_url p))
      | _ \<Rightarrow> None)"

definition openai_plan ::
  "adapter_lib \<Rightarrow> resolved_provider \<Rightarrow> model_turn_request \<Rightarrow> provider_invocation_plan option" where
  "openai_plan A p rq =
     map_option (\<lambda>transport.
       plan_for p (rp_model_id p) transport (ab_json_text A (openai_payload_preview p rq)))
       (openai_transport (ab_provider A) p)"

section \<open>Bodies\<close>

definition openai_native_tools_payload :: "tool_surface_spec \<Rightarrow> json" where
  "openai_native_tools_payload t =
     JArray (map (\<lambda>tool. JObject
       [(''type'', JString ''function''),
        (''function'', JObject
           [(''name'', JString (pts_provider_name tool)), (''description'', JString (pts_description tool)),
            (''parameters'', pts_input_json_schema tool)])]) (tss_tools t))"

definition openai_responses_input_payload ::
  "adapter_lib \<Rightarrow> model_turn_request \<Rightarrow> tool_surface_spec \<Rightarrow> json" where
  "openai_responses_input_payload A rq t =
     (if mtr_tool_result_injections rq = [] then JString (mtr_user_prompt rq)
      else JArray
        (JObject [(''type'', JString ''message''), (''role'', JString ''user''),
           (''content'', JArray [JObject
              [(''type'', JString ''input_text''), (''text'', JString (mtr_user_prompt rq))]])]
         # map (\<lambda>i. JObject
             [(''type'', JString ''function_call_output''), (''call_id'', JString (tri_call_id i)),
              (''name'', JString (injected_tool_name t i)),
              (''output'', JString (ab_json_text A (tri_result i))), (''is_error'', JBool (tri_is_error i))])
             (mtr_tool_result_injections rq)))"

definition openai_chat_messages_payload ::
  "adapter_lib \<Rightarrow> string \<Rightarrow> model_turn_request \<Rightarrow> tool_surface_spec \<Rightarrow> json" where
  "openai_chat_messages_payload A instructions rq t =
     JArray ([role_message ''system'' (JString instructions), role_message ''user'' (JString (mtr_user_prompt rq))]
       @ map (\<lambda>i. JObject
           [(''role'', JString ''tool''), (''tool_call_id'', JString (tri_call_id i)),
            (''name'', JString (injected_tool_name t i)),
            (''content'', JString (ab_json_text A (tri_result i)))]) (mtr_tool_result_injections rq))"

definition gitlab_structured_prompt :: "adapter_lib \<Rightarrow> model_turn_request \<Rightarrow> tool_surface_spec \<Rightarrow> string" where
  "gitlab_structured_prompt A rq t =
     (if tss_protocol t = NativeTools then mtr_prompt rq
      else mtr_prompt rq @ newline @ newline @ ''structured_tool_protocol:'' @ newline
        @ structured_fallback_instructions t
        @ concat (map (tagged_result A True t) (mtr_tool_result_injections rq)))"

text \<open>The instructions of a request: in the fallback they explain how to call a tool.\<close>

definition live_instructions :: "model_turn_request \<Rightarrow> tool_surface_spec \<Rightarrow> string" where
  "live_instructions rq t =
     (if tss_protocol t = StructuredFallback
      then instruction_prompt rq @ newline @ newline @ ''structured_tool_protocol:'' @ newline
             @ structured_fallback_instructions t
      else instruction_prompt rq)"

definition with_native_tools :: "tool_surface_spec \<Rightarrow> (tool_surface_spec \<Rightarrow> json) \<Rightarrow> json \<Rightarrow> json" where
  "with_native_tools t payload body = (if offers_native t then with_field ''tools'' (payload t) body else body)"

definition responses_body ::
  "adapter_lib \<Rightarrow> resolved_provider \<Rightarrow> model_turn_request \<Rightarrow> tool_surface_spec \<Rightarrow> json" where
  "responses_body A p rq t =
     with_native_tools t openai_native_tools_payload (JObject
       [(''model'', JString (rp_model_id p)), (''instructions'', JString (live_instructions rq t)),
        (''input'', openai_responses_input_payload A rq t),
        (''max_output_tokens'', JInt (int (output_budget p))), (''stream'', JBool False)])"

definition chat_body ::
  "adapter_lib \<Rightarrow> resolved_provider \<Rightarrow> model_turn_request \<Rightarrow> tool_surface_spec \<Rightarrow> json" where
  "chat_body A p rq t =
     with_native_tools t openai_native_tools_payload (JObject
       [(''model'', JString (rp_model_id p)), (''max_tokens'', JInt (int (output_budget p))),
        (''messages'', openai_chat_messages_payload A (live_instructions rq t) rq t), (''stream'', JBool False)])"

definition copilot_messages_body ::
  "adapter_lib \<Rightarrow> resolved_provider \<Rightarrow> model_turn_request \<Rightarrow> tool_surface_spec \<Rightarrow> json" where
  "copilot_messages_body A p rq t =
     with_native_tools t anthropic_native_tools_payload (JObject
       [(''model'', JString (rp_model_id p)), (''system'', JString (live_instructions rq t)),
        (''max_tokens'', JInt (int (output_budget p))),
        (''messages'', JArray [role_message ''user'' (JString (user_prompt_with_results A True rq t))]),
        (''stream'', JBool False)])"

definition openai_body ::
  "adapter_lib \<Rightarrow> resolved_provider \<Rightarrow> model_turn_request \<Rightarrow> tool_surface_spec \<Rightarrow> json" where
  "openai_body A p rq t =
     (let cache = prompt_cache_policy_for p
      in with_optional_field ''prompt_cache_key'' (map_option JString (pcp_openai_prompt_cache_key cache))
           (with_optional_field ''prompt_cache_retention''
             (map_option JString (pcp_openai_cache_retention cache))
             (if psp_family (rp_spec p) = OpenAiResponses then responses_body A p rq t else chat_body A p rq t)))"

section \<open>Headers\<close>

text \<open>The access to the world of the credentials, with the cache of Bedrock Mantle left alone.\<close>

definition on_mantle_web :: "'a web_run \<Rightarrow> 'a mantle_run" where
  "on_mantle_web f m = (case f (mt_web m) of (r, w) \<Rightarrow> (r, m\<lparr>mt_web := w\<rparr>))"

definition bearer :: "string \<Rightarrow> string" where
  "bearer token = ''Bearer '' @ token"

definition mantle_headers :: "adapter_lib \<Rightarrow> resolved_provider \<Rightarrow> (string \<times> string) list mantle_run" where
  "mantle_headers A p =
     bindR (mantle_token (ab_provider A) (ab_cloud A) (rp_api_key p)
              (unwrap_or ''us-east-1'' (map_of (rp_metadata p) ''aws.region''))) (\<lambda>token.
     ret (tree_insert ''Authorization'' (bearer token) (rp_headers p)))"

definition codex_headers :: "adapter_lib \<Rightarrow> resolved_provider \<Rightarrow> (string \<times> string) list web_run" where
  "codex_headers A p =
     (let meta = map_of (rp_metadata p)
      in bindR (resolve_openai_codex_runtime_auth (ab_provider A)
             \<lparr>orr_access_token = rp_api_key p, orr_refresh_token = meta ''openai_codex.refresh_token'',
              orr_expires_at_ms = Option.bind (meta ''openai_codex.expires_at_ms'') parse_u64,
              orr_account_id = meta ''openai_codex.account_id'',
              orr_token_url_override = meta ''openai_codex.token_url''\<rparr>) (\<lambda>auth.
         let headers = tree_insert ''Authorization'' (bearer (ora_access_token auth)) (rp_headers p)
         in ret (case ora_account_id auth of
                   None \<Rightarrow> headers | Some account \<Rightarrow> tree_insert ''ChatGPT-Account-Id'' account headers)))"

definition sap_headers :: "adapter_lib \<Rightarrow> resolved_provider \<Rightarrow> (string \<times> string) list web_run" where
  "sap_headers A p =
     (let meta = map_of (rp_metadata p)
      in bindR (resolve_sap_ai_core_runtime_auth (ab_provider A) (rp_api_key p) (meta ''sap_ai_core.client_id'')
             (meta ''sap_ai_core.client_secret'') (meta ''sap_ai_core.oauth_base_url'')) (\<lambda>token.
         let headers = tree_insert ''Authorization'' (bearer token) (rp_headers p)
         in ret (case filled (meta ''sap_ai_core.resource_group'') of
                   None \<Rightarrow> headers | Some grp \<Rightarrow> tree_insert ''AI-Resource-Group'' grp headers)))"

definition azure_headers :: "resolved_provider \<Rightarrow> (string \<times> string) list web_run" where
  "azure_headers p =
     bindR (ok_or (ProviderFailure (psp_id (rp_spec p) @ '' requires an API key for live mode''))
       (rp_api_key p)) (\<lambda>key.
     ret (AList.delete ''Authorization'' (tree_insert ''api-key'' key (rp_headers p))))"

definition plain_headers :: "resolved_provider \<Rightarrow> provider_invocation_plan \<Rightarrow> (string \<times> string) list" where
  "plain_headers p plan =
     (let headers = (case rp_api_key p of
                       None \<Rightarrow> rp_headers p
                     | Some key \<Rightarrow> or_insert ''Authorization'' (bearer key) (rp_headers p))
      in if pip_family plan = GitLabDuo
         then or_insert ''Authorization'' (bearer (unwrap_or [] (rp_api_key p))) headers else headers)"

definition default_openai_style_headers ::
  "adapter_lib \<Rightarrow> resolved_provider \<Rightarrow> provider_invocation_plan \<Rightarrow> (string \<times> string) list mantle_run" where
  "default_openai_style_headers A p plan =
     (let i = psp_id (rp_spec p)
      in if i = ''amazon-bedrock-mantle'' then mantle_headers A p
         else if i = ''openai-codex'' then on_mantle_web (codex_headers A p)
         else if i = ''sap-ai-core'' then on_mantle_web (sap_headers A p)
         else if i \<in> {''azure'', ''azure-cognitive-services'', ''microsoft-foundry''}
         then on_mantle_web (azure_headers p)
         else ret (plain_headers p plan))"

section \<open>Requests\<close>

definition copilot_request_headers :: "resolved_provider \<Rightarrow> string \<Rightarrow> (string \<times> string) list" where
  "copilot_request_headers p token =
     (let headers = or_insert ''X-Initiator'' ''user''
            (or_insert ''Openai-Intent'' ''conversation-edits''
              (or_insert ''User-Agent'' ''GitHubCopilotChat/0.26.7''
                (or_insert ''Editor-Version'' ''vscode/1.96.2''
                  (or_insert ''Authorization'' (bearer token) (rp_headers p)))))
      in if copilot_uses_anthropic_messages_model (rp_model_id p)
         then or_insert ''anthropic-beta'' ''interleaved-thinking-2025-05-14''
                (or_insert ''anthropic-version'' ''2023-06-01'' headers)
         else headers)"

type_synonym prepared_request = "string \<times> json \<times> (string \<times> string) list"

definition copilot_request ::
  "adapter_lib \<Rightarrow> resolved_provider \<Rightarrow> model_turn_request \<Rightarrow> tool_surface_spec \<Rightarrow> prepared_request web_run" where
  "copilot_request A p rq t =
     bindR (ok_or (ProviderFailure ''github-copilot requires a GitHub token for live mode'') (rp_api_key p))
       (\<lambda>token.
     bindR (resolve_copilot_runtime_auth (ab_provider A) token (map_of (rp_metadata p) ''copilot.token_url'')
              (opt_or (map_of (rp_metadata p) ''copilot.api_base_url'') (rp_base_url p))) (\<lambda>auth.
     let base = trim_trailing_slash (cra_base_url auth); headers = copilot_request_headers p (cra_token auth)
     in ret (if copilot_uses_anthropic_messages_model (rp_model_id p)
             then (base @ ''/v1/messages'', copilot_messages_body A p rq t, headers)
             else if should_use_copilot_responses_api (rp_model_id p)
             then (base @ ''/v1/responses'', responses_body A p rq t, headers)
             else (base @ ''/v1/chat/completions'', chat_body A p rq t, headers))))"

definition gitlab_request ::
  "adapter_lib \<Rightarrow> resolved_provider \<Rightarrow> model_turn_request \<Rightarrow> tool_surface_spec \<Rightarrow> prepared_request web_run" where
  "gitlab_request A p rq t =
     bindR (ok_or (ProviderFailure
              ''gitlab provider requires an instance or AI gateway base URL for live mode'') (rp_base_url p))
       (\<lambda>base.
     bindR (ok_or (ProviderFailure ''gitlab provider requires a token for live mode'') (rp_api_key p)) (\<lambda>key.
     let meta = map_of (rp_metadata p)
     in bindR (if meta ''gitlab.auth_mode'' = Some ''oauth''
               then bindR (resolve_gitlab_oauth_runtime_auth (ab_provider A) (rp_api_key p)
                        (meta ''gitlab.oauth.refresh_token'')
                        (Option.bind (meta ''gitlab.oauth.expires_at_ms'') parse_u64)
                        (unwrap_or base (meta ''gitlab.instance_url'')) (meta ''gitlab.oauth_client_id'')
                        (meta ''gitlab.oauth_client_secret'') (meta ''gitlab.oauth_token_url'')) (\<lambda>auth.
                      ret (gra_access_token auth))
               else ret key) (\<lambda>api_key.
        ret (gitlab_chat_endpoint base,
             JObject [(''content'', JString (gitlab_structured_prompt A rq t))],
             if gitlab_uses_private_token api_key p then or_insert ''PRIVATE-TOKEN'' api_key (rp_headers p)
             else or_insert ''Authorization'' (bearer api_key) (rp_headers p)))))"

definition openai_request ::
  "adapter_lib \<Rightarrow> resolved_provider \<Rightarrow> provider_invocation_plan \<Rightarrow> model_turn_request \<Rightarrow> tool_surface_spec
   \<Rightarrow> prepared_request mantle_run" where
  "openai_request A p plan rq t =
     (case pip_transport plan of
        HttpJson meth base path \<Rightarrow>
          bindR (default_openai_style_headers A p plan) (\<lambda>headers.
          ret (trim_trailing_slash base @ path, openai_body A p rq t, headers))
      | ProviderOperation operation base \<Rightarrow>
          (case pip_family plan of
             GitHubCopilot \<Rightarrow> on_mantle_web (copilot_request A p rq t)
           | GitLabDuo \<Rightarrow> on_mantle_web (gitlab_request A p rq t)
           | _ \<Rightarrow> fail (ProviderFailure (''live provider operation is not implemented for ''
                     @ pip_provider_id plan @ '' ('' @ operation @ '')''))))"

section \<open>Tool calls\<close>

text \<open>A name the model used: the provider's name of a tool, or its canonical one.\<close>

definition normalize_tool_name :: "tool_surface_spec \<Rightarrow> string \<Rightarrow> string option" where
  "normalize_tool_name t name =
     (case canonical_name (tss_name_map t) name of
        Some canonical \<Rightarrow> Some canonical
      | None \<Rightarrow> map_option (\<lambda>_. name) (provider_name (tss_name_map t) name))"

text \<open>Arguments may be JSON or the text of JSON.\<close>

definition parse_tool_call_arguments :: "adapter_lib \<Rightarrow> json option \<Rightarrow> json option" where
  "parse_tool_call_arguments A value =
     Option.bind value (\<lambda>v.
     case as_str v of
       Some raw \<Rightarrow> (case ab_json_parse A raw of Inl e \<Rightarrow> None | Inr parsed \<Rightarrow> Some parsed)
     | None \<Rightarrow> Some v)"

definition openai_native_call :: "adapter_lib \<Rightarrow> tool_surface_spec \<Rightarrow> json \<Rightarrow> provider_tool_call option" where
  "openai_native_call A t item =
     (if str_at [''type''] item \<noteq> Some ''function_call'' then None
      else Option.bind (str_at [''name''] item) (\<lambda>name.
           Option.bind (normalize_tool_name t name) (\<lambda>canonical.
           Option.bind (parse_tool_call_arguments A (json_get item ''arguments'')) (\<lambda>arguments.
           Some \<lparr>ptc_call_id = unwrap_or ''call_auto''
                   (Option.bind (opt_or (json_get item ''call_id'') (json_get item ''id'')) as_str),
                 ptc_tool_name = canonical, ptc_provider_tool_name = name, ptc_arguments = arguments\<rparr>))))"

definition parse_openai_native_tool_calls_from_response ::
  "adapter_lib \<Rightarrow> json \<Rightarrow> tool_surface_spec \<Rightarrow> provider_tool_call list" where
  "parse_openai_native_tool_calls_from_response A response t =
     List.map_filter (openai_native_call A t) (items_at [''output''] response)"

definition chat_call :: "adapter_lib \<Rightarrow> tool_surface_spec \<Rightarrow> json \<Rightarrow> provider_tool_call option" where
  "chat_call A t item =
     Option.bind (str_at [''function'', ''name''] item) (\<lambda>name.
     Option.bind (normalize_tool_name t name) (\<lambda>canonical.
     Option.bind (parse_tool_call_arguments A (json_at [''function'', ''arguments''] item)) (\<lambda>arguments.
     Some \<lparr>ptc_call_id = unwrap_or ''call_auto'' (str_at [''id''] item), ptc_tool_name = canonical,
           ptc_provider_tool_name = name, ptc_arguments = arguments\<rparr>)))"

definition first_item :: "string list \<Rightarrow> json \<Rightarrow> json" where
  "first_item path v = (case items_at path v of [] \<Rightarrow> JNull | x # xs \<Rightarrow> x)"

definition parse_chat_tool_calls_from_response ::
  "adapter_lib \<Rightarrow> json \<Rightarrow> tool_surface_spec \<Rightarrow> provider_tool_call list" where
  "parse_chat_tool_calls_from_response A response t =
     List.map_filter (chat_call A t)
       (items_at [''message'', ''tool_calls''] (first_item [''choices''] response))"

definition anthropic_call :: "tool_surface_spec \<Rightarrow> json \<Rightarrow> provider_tool_call option" where
  "anthropic_call t item =
     (if str_at [''type''] item \<noteq> Some ''tool_use'' then None
      else Option.bind (str_at [''name''] item) (\<lambda>name.
           Option.bind (normalize_tool_name t name) (\<lambda>canonical.
           Some \<lparr>ptc_call_id = unwrap_or ''call_auto'' (str_at [''id''] item), ptc_tool_name = canonical,
                 ptc_provider_tool_name = name,
                 ptc_arguments = unwrap_or (JObject []) (json_get item ''input'')\<rparr>)))"

definition parse_anthropic_tool_calls_from_response ::
  "json \<Rightarrow> tool_surface_spec \<Rightarrow> provider_tool_call list" where
  "parse_anthropic_tool_calls_from_response response t =
     List.map_filter (anthropic_call t) (items_at [''content''] response)"

section \<open>The structured fallback\<close>

text \<open>The text before the first occurrence of a pattern and the text after it.\<close>

fun split_at :: "string \<Rightarrow> string \<Rightarrow> (string \<times> string) option" where
  "split_at p [] = (if p = [] then Some ([], []) else None)"
| "split_at p (c # s) =
     (if starts_with (c # s) p then Some ([], drop (length p) (c # s))
      else map_option (\<lambda>(before, rest). (c # before, rest)) (split_at p s))"

lemma split_at_Some: "split_at p s = Some (before, rest) \<Longrightarrow> s = before @ p @ rest"
proof (induction p s arbitrary: before rule: split_at.induct)
  case (2 p c s)
  show ?case
  proof (cases "starts_with (c # s) p")
    case True
    then obtain u where "c # s = p @ u" by (auto simp: starts_with_iff)
    moreover have "before = []" "rest = drop (length p) (c # s)" using 2(2) True by simp_all
    ultimately show ?thesis by (metis append_Nil append_eq_conv_conj)
  qed (use 2 in auto)
qed (auto split: if_splits)

definition call_open :: string where
  "call_open = ''<liz_tool_call>''"

definition call_close :: string where
  "call_close = ''</liz_tool_call>''"

definition fallback_call :: "adapter_lib \<Rightarrow> tool_surface_spec \<Rightarrow> string \<Rightarrow> provider_tool_call option" where
  "fallback_call A t payload =
     (case ab_json_parse A (trim payload) of
        Inl e \<Rightarrow> None
      | Inr value \<Rightarrow>
          Option.bind (str_at [''tool_name''] value) (\<lambda>name.
          Option.bind (json_get value ''arguments'') (\<lambda>arguments.
          Option.bind (normalize_tool_name t name) (\<lambda>canonical.
          Some \<lparr>ptc_call_id = unwrap_or ''call_structured'' (str_at [''call_id''] value),
                ptc_tool_name = canonical, ptc_provider_tool_name = name, ptc_arguments = arguments\<rparr>))))"

text \<open>The payloads of the complete blocks of a text, from the left.\<close>

function call_blocks :: "string \<Rightarrow> string list" where
  "call_blocks cursor =
     (case split_at call_open cursor of
        None \<Rightarrow> []
      | Some (before, rest) \<Rightarrow>
          (case split_at call_close rest of
             None \<Rightarrow> []
           | Some (payload, cursor') \<Rightarrow> payload # call_blocks cursor'))"
  by pat_completeness auto
termination
  by (relation "measure length") (auto dest!: split_at_Some simp: call_open_def)

declare call_blocks.simps [simp del]

definition parse_structured_fallback_tool_calls ::
  "adapter_lib \<Rightarrow> string \<Rightarrow> tool_surface_spec \<Rightarrow> provider_tool_call list" where
  "parse_structured_fallback_tool_calls A response_text t =
     List.map_filter (fallback_call A t) (call_blocks response_text)"

text \<open>Blocks are taken out of the text until there is no complete one left.\<close>

function without_blocks :: "string \<Rightarrow> string" where
  "without_blocks s =
     (case split_at call_open s of
        None \<Rightarrow> s
      | Some (before, rest) \<Rightarrow>
          (case split_at call_close (call_open @ rest) of
             None \<Rightarrow> s
           | Some (block, rest') \<Rightarrow> without_blocks (before @ rest')))"
  by pat_completeness auto
termination
  by (relation "measure length")
    (auto dest!: split_at_Some arg_cong [of _ _ length] simp: call_close_def)

declare without_blocks.simps [simp del]

definition clean_structured_fallback_text :: "string \<Rightarrow> string" where
  "clean_structured_fallback_text s = trim (without_blocks s)"

definition parse_provider_tool_calls ::
  "adapter_lib \<Rightarrow> provider_invocation_plan \<Rightarrow> json \<Rightarrow> tool_surface_spec \<Rightarrow> string \<Rightarrow> provider_tool_call list" where
  "parse_provider_tool_calls A plan response t response_text =
     (if tss_protocol t = StructuredFallback then parse_structured_fallback_tool_calls A response_text t
      else
        let native = parse_openai_native_tool_calls_from_response A response t;
            chat = (if native = [] then parse_chat_tool_calls_from_response A response t else native)
        in if chat = [] \<and> copilot_uses_anthropic_messages_model (pip_model_id plan)
           then parse_anthropic_tool_calls_from_response response t else chat)"

section \<open>Text and usage\<close>

definition extract_openai_style_text :: "json \<Rightarrow> string option" where
  "extract_openai_style_text response =
     opt_or (hd_opt (List.map_filter
              (\<lambda>item. hd_opt (List.map_filter (str_at [''text'']) (items_at [''content''] item)))
              (items_at [''output''] response)))
       (opt_or (str_at [''text''] (first_item [''content''] response))
         (opt_or (str_at [''message'', ''content''] (first_item [''choices''] response))
           (as_str response)))"

definition extract_openai_style_usage ::
  "model_turn_request \<Rightarrow> provider_invocation_plan \<Rightarrow> json \<Rightarrow> usage_delta" where
  "extract_openai_style_usage rq plan response =
     (let u = json_at [''usage''] response;
          count = (\<lambda>keys. Option.bind u (\<lambda>v.
            Option.bind (opt_or (json_get v (hd keys)) (json_get v (last keys))) as_u32));
          detail = (\<lambda>section keys. Option.bind u (\<lambda>v. Option.bind (json_get v section) (\<lambda>d.
            Option.bind (opt_or (json_get d (hd keys)) (json_get d (last keys))) as_u32)))
      in \<lparr>ud_input_tokens = unwrap_or (estimate_tokens (mtr_prompt rq)) (count [''input_tokens'', ''prompt_tokens'']),
          ud_output_tokens =
            unwrap_or (estimate_tokens (pip_model_id plan)) (count [''output_tokens'', ''completion_tokens'']),
          ud_reasoning_tokens = unwrap_or 0 (detail ''output_tokens_details'' [''reasoning_tokens'']),
          ud_cache_hit_tokens =
            unwrap_or 0 (detail ''input_tokens_details'' [''cached_tokens'', ''cache_read_input_tokens'']),
          ud_cache_write_tokens =
            unwrap_or 0 (detail ''input_tokens_details'' [''cache_creation_input_tokens''])\<rparr>)"

section \<open>A live run\<close>

definition openai_result ::
  "adapter_lib \<Rightarrow> provider_invocation_plan \<Rightarrow> model_turn_request \<Rightarrow> tool_surface_spec \<Rightarrow> json \<Rightarrow> adapter_result" where
  "openai_result A plan rq t response =
     (let response_text = unwrap_or [] (extract_openai_style_text response);
          calls = parse_provider_tool_calls A plan response t response_text;
          cleaned = clean_structured_fallback_text response_text
      in (concat (map (call_events A plan) calls)
            @ (if \<not> blank cleaned \<and> calls = [] then message_events plan cleaned else []),
          \<lparr>rn_assistant_message =
             (if calls = []
              then Some (if blank cleaned
                         then pip_display_name plan @ '' response received for '' @ pip_model_id plan @ ''.''
                         else cleaned)
              else None),
           rn_usage = extract_openai_style_usage rq plan response, rn_tool_calls = calls\<rparr>))"

definition openai_live ::
  "adapter_lib \<Rightarrow> resolved_provider \<Rightarrow> provider_invocation_plan \<Rightarrow> model_turn_request \<Rightarrow> tool_surface_spec
   \<Rightarrow> adapter_result mantle_run" where
  "openai_live A p plan rq t =
     bindR (openai_request A p plan rq t) (\<lambda>(url, body, headers).
     bindR (on_mantle_web (post_json (ab_cloud A) (ab_json_parse A) url headers body)) (\<lambda>response.
     ret (openai_result A plan rq t response)))"

section \<open>A simulated run\<close>

definition extract_shell_command :: "string \<Rightarrow> string option" where
  "extract_shell_command prompt =
     map_option (\<lambda>(before, rest).
         trim (case lines_of (drop (length before + length ''run command:'') prompt) of
                 [] \<Rightarrow> [] | l # ls \<Rightarrow> l))
       (split_at ''run command:'' (to_lower prompt))"

definition truncate_preview :: "string \<Rightarrow> string" where
  "truncate_preview prompt = take 24 prompt @ (if 24 < length prompt then ''...'' else [])"

definition synthesize_tool_arguments :: "string \<Rightarrow> string \<Rightarrow> string \<Rightarrow> json" where
  "synthesize_tool_arguments prompt thread provider =
     (if infer_tool_name prompt = ''shell.exec''
      then JObject [(''command'', JString (unwrap_or prompt (extract_shell_command prompt))),
             (''working_dir'', JNull), (''thread_id'', JString thread), (''provider'', JString provider)]
      else JObject [(''goal'', JString prompt), (''thread_id'', JString thread), (''provider'', JString provider)])"

text \<open>The text of the arguments, read back.\<close>

definition reread :: "adapter_lib \<Rightarrow> json \<Rightarrow> json" where
  "reread A v = (case ab_json_parse A (ab_json_text A v) of Inl e \<Rightarrow> JObject [] | Inr u \<Rightarrow> u)"

definition quote_mark :: string where
  "quote_mark = [CHR 0x22]"

definition patched :: "provider_invocation_plan \<Rightarrow> model_turn_request \<Rightarrow> provider_tool_call \<Rightarrow> normalized_turn_event list" where
  "patched plan rq c =
     (if provider_supports_patching (pip_family plan)
      then [CallDelta (ptc_call_id c) (ptc_tool_name c) ''arguments patched''
              (Some (''{'' @ quote_mark @ ''goal'' @ quote_mark @ '':'' @ quote_mark @ truncate_preview (mtr_user_prompt rq)
                 @ quote_mark @ '','' @ quote_mark @ ''provider'' @ quote_mark @ '':'' @ quote_mark @ pip_provider_id plan @ quote_mark))]
      else [])"

definition simulate_stream ::
  "adapter_lib \<Rightarrow> provider_invocation_plan \<Rightarrow> model_turn_request \<Rightarrow> tool_surface_spec \<Rightarrow> adapter_result" where
  "simulate_stream A plan rq t =
     (let route = (case pip_transport plan of HttpJson meth base path \<Rightarrow> path
                   | ProviderOperation operation base \<Rightarrow> operation);
          arguments = synthesize_tool_arguments (mtr_user_prompt rq) (th_id (mtr_thread rq)) (pip_provider_id plan);
          calls = (if tss_tools t \<noteq> [] \<and> mtr_tool_result_injections rq = []
                      \<and> needs_tool_call (mtr_user_prompt rq)
                   then [made_up_call rq t (reread A arguments)] else []);
          u = usage_of (estimate_tokens (mtr_prompt rq)) (estimate_tokens (mtr_user_prompt rq) + 12)
                (if supports_reasoning_accounting (pip_family plan) then 6 else 0);
          ended = simulated_end plan calls u
            (pip_display_name plan @ '' request prepared for '' @ pip_model_id plan @ '' using ''
              @ transport_label (pip_family plan) @ ''.'')
      in ([AssistantDelta (''Using '' @ pip_display_name plan @ '' via ''),
           AssistantDelta (route @ '' for '' @ pip_model_id plan @ ''.'')]
            @ concat (map (\<lambda>c. [preparing plan c] @ patched plan rq c
                @ [CallCommitted (ptc_call_id c) (ptc_tool_name c) (ab_json_text A arguments)]) calls)
            @ fst ended,
          snd ended))"

text \<open>A run of the adapter, for the families it is made for.\<close>

definition openai_stream_turn ::
  "adapter_lib \<Rightarrow> resolved_provider \<Rightarrow> model_turn_request \<Rightarrow> tool_surface_spec \<Rightarrow> bool \<Rightarrow> adapter_result mantle_run" where
  "openai_stream_turn A p rq t simulate =
     (case openai_plan A p rq of
        None \<Rightarrow> fail (ProviderFailure ''unreachable'')
      | Some plan \<Rightarrow> if simulate then ret (simulate_stream A plan rq t) else openai_live A p plan rq t)"

end
