(* ===== verification/Anthropic_Adapter.thy ===== *)
theory Anthropic_Adapter
  imports Openai_Style
begin

text \<open>
  The adapter for the Anthropic messages API (\<open>model/adapters/anthropic.rs\<close>), also used by MiniMax: the plan,
  the simulated run, and a live run with its headers, its body and the content blocks it reads.
\<close>

definition anthropic_plan ::
  "adapter_lib \<Rightarrow> resolved_provider \<Rightarrow> model_turn_request \<Rightarrow> provider_invocation_plan" where
  "anthropic_plan A p rq =
     (let cache = pcp_anthropic_ephemeral (prompt_cache_policy_for p)
      in plan_for p (rp_model_id p)
           (HttpJson ''POST'' (unwrap_or ''https://api.anthropic.com'' (rp_base_url p)) ''/v1/messages'')
           (ab_json_text A (JObject
             [(''model'', JString (rp_model_id p)),
              (''system'', anthropic_system_blocks (instruction_prompt rq) cache),
              (''max_tokens'', JInt (int (output_budget p))),
              (''messages'', JArray [role_message ''user'' (anthropic_user_content (mtr_user_prompt rq) cache)]),
              (''stream'', JBool True)])))"

definition anthropic_simulated ::
  "adapter_lib \<Rightarrow> provider_invocation_plan \<Rightarrow> model_turn_request \<Rightarrow> tool_surface_spec \<Rightarrow> adapter_result" where
  "anthropic_simulated A plan rq t =
     simulated_run A (reread A) plan rq t
       (''Using '' @ pip_display_name plan @ '' messages API. '')
       (''Model '' @ pip_model_id plan @ '' is ready.'')
       (usage_of (estimate_tokens (mtr_prompt rq)) (estimate_tokens (mtr_prompt rq) + 10) 4)
       (pip_display_name plan @ '' request prepared for '' @ pip_model_id plan @ '' using anthropic-messages.'')"

text \<open>Headers and endpoint: MiniMax Portal renews its token and learns its endpoint with it.\<close>

definition anthropic_access ::
  "adapter_lib \<Rightarrow> resolved_provider \<Rightarrow> string \<Rightarrow> (string \<times> (string \<times> string) list) web_run" where
  "anthropic_access A p base =
     (let meta = map_of (rp_metadata p); i = psp_id (rp_spec p)
      in bindR (if i = ''minimax-portal''
                then bindR (resolve_minimax_oauth_runtime_auth (ab_provider A) (rp_api_key p)
                         (meta ''minimax.oauth.refresh_token'')
                         (Option.bind (meta ''minimax.oauth.expires_at_ms'') parse_u64)
                         (unwrap_or ''global'' (meta ''minimax.region'')) (meta ''minimax.resource_url'')) (\<lambda>auth.
                       ret (mra_resource_url auth,
                            or_insert ''Authorization'' (bearer (mra_access_token auth)) (rp_headers p)))
                else ret (base,
                  case rp_api_key p of
                    None \<Rightarrow> rp_headers p
                  | Some key \<Rightarrow>
                      if i = ''minimax'' then or_insert ''Authorization'' (bearer key) (rp_headers p)
                      else or_insert ''x-api-key'' key (rp_headers p))) (\<lambda>(url, headers).
         ret (url, or_insert ''anthropic-version'' ''2023-06-01'' headers)))"

definition anthropic_body ::
  "adapter_lib \<Rightarrow> resolved_provider \<Rightarrow> model_turn_request \<Rightarrow> tool_surface_spec \<Rightarrow> json" where
  "anthropic_body A p rq t =
     (let cache = pcp_anthropic_ephemeral (prompt_cache_policy_for p);
          content = unwrap_or [] (as_array (anthropic_user_content (mtr_user_prompt rq) cache))
            @ map (\<lambda>i. JObject
                [(''type'', JString ''tool_result''), (''tool_use_id'', JString (tri_call_id i)),
                 (''content'', JString (ab_json_text A (tri_result i))), (''is_error'', JBool (tri_is_error i))])
                (mtr_tool_result_injections rq);
          body = with_native_tools t anthropic_native_tools_payload (JObject
            [(''model'', JString (rp_model_id p)),
             (''system'', anthropic_system_blocks (instruction_prompt rq) cache),
             (''max_tokens'', JInt (int (output_budget p))),
             (''messages'', JArray [role_message ''user'' (JArray content)]), (''stream'', JBool False)])
      in if psp_id (rp_spec p) \<in> {''minimax'', ''minimax-portal''}
         then with_field ''thinking'' (JObject [(''type'', JString ''disabled'')]) body else body)"

text \<open>The text of a content block: of type text or without a type.\<close>

definition anthropic_text :: "json \<Rightarrow> string option" where
  "anthropic_text item = (if str_at [''type''] item \<in> {None, Some ''text''} then str_at [''text''] item else None)"

definition anthropic_tool_use :: "tool_surface_spec \<Rightarrow> nat \<times> json \<Rightarrow> provider_tool_call option" where
  "anthropic_tool_use t = (\<lambda>(index, item).
     if str_at [''type''] item \<noteq> Some ''tool_use'' then None
     else let name = unwrap_or [] (str_at [''name''] item)
          in map_option (\<lambda>canonical.
               \<lparr>ptc_call_id = unwrap_or (numbered_call (index + 1)) (str_at [''id''] item), ptc_tool_name = canonical,
                ptc_provider_tool_name = name,
                ptc_arguments = unwrap_or (JObject []) (json_get item ''input'')\<rparr>)
               (canonical_name (tss_name_map t) name))"

definition received :: "provider_invocation_plan \<Rightarrow> string list \<Rightarrow> string" where
  "received plan parts =
     (if parts = [] then pip_display_name plan @ '' response received.'' else join newline parts)"

definition anthropic_result ::
  "adapter_lib \<Rightarrow> provider_invocation_plan \<Rightarrow> model_turn_request \<Rightarrow> tool_surface_spec \<Rightarrow> json \<Rightarrow> adapter_result" where
  "anthropic_result A plan rq t response =
     (let items = items_at [''content''] response
      in calls_or_message A plan (List.map_filter (anthropic_tool_use t) (enumerate 0 items))
           (received plan (List.map_filter anthropic_text items)) (estimated_usage rq plan))"

text \<open>The transport of an Anthropic plan is always HTTP JSON.\<close>

definition anthropic_live ::
  "adapter_lib \<Rightarrow> resolved_provider \<Rightarrow> provider_invocation_plan \<Rightarrow> model_turn_request \<Rightarrow> tool_surface_spec
   \<Rightarrow> adapter_result web_run" where
  "anthropic_live A p plan rq t =
     (case pip_transport plan of
        ProviderOperation operation base \<Rightarrow> failure ''anthropic transport must be HTTP JSON''
      | HttpJson meth base path \<Rightarrow>
          bindR (anthropic_access A p base) (\<lambda>(url, headers).
          bindR (post_json (ab_cloud A) (ab_json_parse A) (trim_trailing_slash url @ path) headers
                   (anthropic_body A p rq t)) (\<lambda>response.
          ret (anthropic_result A plan rq t response))))"

definition anthropic_stream_turn ::
  "adapter_lib \<Rightarrow> resolved_provider \<Rightarrow> model_turn_request \<Rightarrow> tool_surface_spec \<Rightarrow> bool \<Rightarrow> adapter_result web_run" where
  "anthropic_stream_turn A p rq t simulate =
     (let plan = anthropic_plan A p rq
      in if simulate then ret (anthropic_simulated A plan rq t) else anthropic_live A p plan rq t)"

end
