(* ===== verification/Bedrock_Adapter.thy ===== *)
theory Bedrock_Adapter
  imports Anthropic_Adapter
begin

text \<open>
  The adapter for Amazon Bedrock (\<open>model/adapters/bedrock.rs\<close>): the region and the endpoint, the body of a
  converse request, the bearer token or the signature, and the blocks of the answer.
\<close>

definition normalize_bedrock_model_id :: "string \<Rightarrow> string" where
  "normalize_bedrock_model_id model = trim model"

definition extract_bedrock_region_from_url :: "provider_lib \<Rightarrow> string \<Rightarrow> string option" where
  "extract_bedrock_region_from_url l u =
     (case ul_parse (pv_urls l) u of
        Inl e \<Rightarrow> None
      | Inr parsed \<Rightarrow>
          Option.bind (ur_host parsed) (\<lambda>host.
          map_option (\<lambda>rest. hd (split_on (\<lambda>c. c = CHR ''.'') rest)) (strip_prefix ''bedrock-runtime.'' host)))"

definition resolve_bedrock_region :: "adapter_lib \<Rightarrow> resolved_provider \<Rightarrow> string web_run" where
  "resolve_bedrock_region A p =
     bindR (first_env [''AWS_REGION'', ''AWS_DEFAULT_REGION'']) (\<lambda>env.
     ret (unwrap_or ''us-east-1''
       (opt_or (map_of (rp_metadata p) ''aws.region'')
         (opt_or (Option.bind (rp_base_url p) (extract_bedrock_region_from_url (ab_provider A))) env))))"

definition resolve_bedrock_base_url :: "resolved_provider \<Rightarrow> string \<Rightarrow> string" where
  "resolve_bedrock_base_url p region =
     unwrap_or (''https://bedrock-runtime.'' @ region @ ''.amazonaws.com'') (rp_base_url p)"

definition bedrock_plan ::
  "adapter_lib \<Rightarrow> resolved_provider \<Rightarrow> string \<Rightarrow> model_turn_request \<Rightarrow> provider_invocation_plan" where
  "bedrock_plan A p region rq =
     (let model = normalize_bedrock_model_id (rp_model_id p)
      in plan_for p model
           (HttpJson ''POST'' (resolve_bedrock_base_url p region) (''/model/'' @ model @ ''/converse''))
           (ab_json_text A (JObject
             [(''modelId'', JString model), (''system'', JArray [text_block (instruction_prompt rq)]),
              (''messages'', JArray [role_message ''user'' (JArray [text_block (mtr_user_prompt rq)])])])))"

definition bedrock_simulated ::
  "adapter_lib \<Rightarrow> provider_invocation_plan \<Rightarrow> string \<Rightarrow> model_turn_request \<Rightarrow> tool_surface_spec \<Rightarrow> adapter_result" where
  "bedrock_simulated A plan region rq t =
     simulated_run A id plan rq t
       (''Using '' @ pip_display_name plan @ ''. '')
       (''Resolved Bedrock model '' @ pip_model_id plan @ '' in '' @ region @ ''.'')
       (usage_of (estimate_tokens (mtr_prompt rq)) (estimate_tokens (mtr_prompt rq) + 10) 0)
       (pip_display_name plan @ '' request prepared for '' @ pip_model_id plan @ '' using aws-bedrock-converse.'')"

definition bedrock_tools_payload :: "tool_surface_spec \<Rightarrow> json" where
  "bedrock_tools_payload t =
     JObject [(''tools'', JArray (map (\<lambda>tool. JObject
       [(''toolSpec'', JObject
          [(''name'', JString (pts_provider_name tool)), (''description'', JString (pts_description tool)),
           (''inputSchema'', JObject [(''json'', pts_input_json_schema tool)])])]) (tss_tools t)))]"

definition bedrock_messages :: "model_turn_request \<Rightarrow> tool_surface_spec \<Rightarrow> json" where
  "bedrock_messages rq t =
     JArray (role_message ''user'' (JArray [text_block (mtr_user_prompt rq)])
       # map (\<lambda>i. role_message ''user'' (JArray [JObject [(''toolResult'', JObject
           [(''toolUseId'', JString (tri_call_id i)),
            (''content'', JArray [JObject [(''json'', tri_result i)]]),
            (''status'', JString (if tri_is_error i then ''error'' else ''success'')),
            (''name'', JString (injected_tool_name t i))])]])) (mtr_tool_result_injections rq))"

definition bedrock_body :: "resolved_provider \<Rightarrow> model_turn_request \<Rightarrow> tool_surface_spec \<Rightarrow> json" where
  "bedrock_body p rq t =
     with_optional_field ''toolConfig'' (if offers_native t then Some (bedrock_tools_payload t) else None)
       (JObject
         [(''system'', JArray [text_block (instruction_prompt rq)]), (''messages'', bedrock_messages rq t),
          (''inferenceConfig'', JObject [(''maxTokens'', JInt (int (output_budget p)))])])"

text \<open>Serialising a JSON value of this form does not fail.\<close>

definition bedrock_headers ::
  "adapter_lib \<Rightarrow> resolved_provider \<Rightarrow> string \<Rightarrow> string \<Rightarrow> json \<Rightarrow> (string \<times> string) list web_run" where
  "bedrock_headers A p region url body =
     (let headers = or_insert ''accept'' ''application/json''
            (or_insert ''content-type'' ''application/json'' (rp_headers p))
      in case rp_api_key p of
           Some token \<Rightarrow> ret (or_insert ''Authorization'' (bearer token) headers)
         | None \<Rightarrow> sign_bedrock_request (ab_cloud A) url headers body region)"

definition bedrock_tool_use :: "tool_surface_spec \<Rightarrow> nat \<times> json \<Rightarrow> provider_tool_call option" where
  "bedrock_tool_use t = (\<lambda>(index, item).
     Option.bind (json_get item ''toolUse'') (\<lambda>tool_use.
     let name = unwrap_or [] (str_at [''name''] tool_use)
     in map_option (\<lambda>canonical.
          \<lparr>ptc_call_id = unwrap_or (numbered_call (index + 1)) (str_at [''toolUseId''] tool_use),
           ptc_tool_name = canonical, ptc_provider_tool_name = name,
           ptc_arguments = unwrap_or (JObject []) (json_get tool_use ''input'')\<rparr>)
          (canonical_name (tss_name_map t) name)))"

definition bedrock_result ::
  "adapter_lib \<Rightarrow> provider_invocation_plan \<Rightarrow> model_turn_request \<Rightarrow> tool_surface_spec \<Rightarrow> json \<Rightarrow> adapter_result" where
  "bedrock_result A plan rq t response =
     (let items = items_at [''output'', ''message'', ''content''] response
      in calls_or_message A plan (List.map_filter (bedrock_tool_use t) (enumerate 0 items))
           (received plan (List.map_filter (str_at [''text'']) items)) (estimated_usage rq plan))"

definition bedrock_live ::
  "adapter_lib \<Rightarrow> resolved_provider \<Rightarrow> provider_invocation_plan \<Rightarrow> string \<Rightarrow> model_turn_request \<Rightarrow> tool_surface_spec
   \<Rightarrow> adapter_result web_run" where
  "bedrock_live A p plan region rq t =
     (case pip_transport plan of
        ProviderOperation operation base \<Rightarrow> failure ''amazon-bedrock transport must be HTTP JSON''
      | HttpJson meth base path \<Rightarrow>
          let url = trim_trailing_slash base @ path; body = bedrock_body p rq t
          in bindR (bedrock_headers A p region url body) (\<lambda>headers.
             bindR (post_json (ab_cloud A) (ab_json_parse A) url headers body) (\<lambda>response.
             ret (bedrock_result A plan rq t response))))"

definition bedrock_stream_turn ::
  "adapter_lib \<Rightarrow> resolved_provider \<Rightarrow> model_turn_request \<Rightarrow> tool_surface_spec \<Rightarrow> bool \<Rightarrow> adapter_result web_run" where
  "bedrock_stream_turn A p rq t simulate =
     bindR (resolve_bedrock_region A p) (\<lambda>region.
     let plan = bedrock_plan A p region rq
     in if simulate then ret (bedrock_simulated A plan region rq t) else bedrock_live A p plan region rq t)"

end
