(* ===== verification/Google_Adapter.thy ===== *)
theory Google_Adapter
  imports Bedrock_Adapter
begin

text \<open>
  The adapter for the Google family (\<open>model/adapters/google.rs\<close>): Gemini with an API key, and Gemini or
  Claude on Vertex with a bearer token, a project and a location.
\<close>

definition google_operation :: "model_provider_family \<Rightarrow> string option" where
  "google_operation f =
     (case f of
        GoogleGenerativeAi \<Rightarrow> Some ''google.generate_content''
      | GoogleVertex \<Rightarrow> Some ''google-vertex.generate_content''
      | GoogleVertexAnthropic \<Rightarrow> Some ''google-vertex.anthropic.raw_predict''
      | _ \<Rightarrow> None)"

definition google_plan ::
  "adapter_lib \<Rightarrow> resolved_provider \<Rightarrow> model_turn_request \<Rightarrow> string \<Rightarrow> provider_invocation_plan" where
  "google_plan A p rq operation =
     plan_for p (rp_model_id p) (ProviderOperation operation (rp_base_url p))
       (ab_json_text A (JObject
         [(''model'', JString (rp_model_id p)),
          (''system_instruction'', JObject [(''parts'', JArray [text_block (instruction_prompt rq)])]),
          (''contents'', JArray [JObject [(''role'', JString ''user''),
             (''parts'', JArray [text_block (mtr_user_prompt rq)])]])]))"

definition google_simulated ::
  "adapter_lib \<Rightarrow> resolved_provider \<Rightarrow> provider_invocation_plan \<Rightarrow> model_turn_request \<Rightarrow> tool_surface_spec
   \<Rightarrow> adapter_result" where
  "google_simulated A p plan rq t =
     simulated_run A id plan rq t
       (''Using '' @ pip_display_name plan @ ''. '')
       (''Routing model '' @ pip_model_id plan @ '' in ''
         @ unwrap_or ''default-location'' (map_of (rp_metadata p) ''google.location'') @ ''.'')
       (usage_of (estimate_tokens (mtr_prompt rq)) (estimate_tokens (mtr_prompt rq) + 9) 0)
       (pip_display_name plan @ '' request prepared for '' @ pip_model_id plan @ '' using ''
         @ transport_label (pip_family plan) @ ''.'')"

section \<open>Requests\<close>

definition google_vertex_project :: "resolved_provider \<Rightarrow> string web_run" where
  "google_vertex_project p =
     ok_or (ProviderFailure (''provider '' @ psp_id (rp_spec p)
              @ '' requires GOOGLE_CLOUD_PROJECT or equivalent project metadata''))
       (map_of (rp_metadata p) ''google.project'')"

definition google_vertex_location :: "resolved_provider \<Rightarrow> string" where
  "google_vertex_location p = unwrap_or ''global'' (map_of (rp_metadata p) ''google.location'')"

definition google_vertex_host :: "resolved_provider \<Rightarrow> string \<Rightarrow> string" where
  "google_vertex_host p location =
     unwrap_or (if location = ''global'' then ''https://aiplatform.googleapis.com''
                else ''https://'' @ location @ ''-aiplatform.googleapis.com'') (rp_base_url p)"

definition google_vertex_runtime_bearer :: "adapter_lib \<Rightarrow> resolved_provider \<Rightarrow> string web_run" where
  "google_vertex_runtime_bearer A p =
     (case rp_api_key p of
        Some token \<Rightarrow> ret token | None \<Rightarrow> google_vertex_bearer_token (ab_cloud A))"

definition google_native_tools_payload :: "tool_surface_spec \<Rightarrow> json" where
  "google_native_tools_payload t =
     JArray [JObject [(''functionDeclarations'', JArray (map (\<lambda>tool. JObject
       [(''name'', JString (pts_provider_name tool)), (''description'', JString (pts_description tool)),
        (''parameters'', pts_input_json_schema tool)]) (tss_tools t)))]]"

definition google_contents_with_tool_results :: "model_turn_request \<Rightarrow> tool_surface_spec \<Rightarrow> json" where
  "google_contents_with_tool_results rq t =
     JArray (JObject [(''role'', JString ''user''), (''parts'', JArray [text_block (mtr_user_prompt rq)])]
       # map (\<lambda>i. JObject
           [(''role'', JString ''user''),
            (''parts'', JArray [JObject [(''functionResponse'', JObject
               [(''name'', JString (injected_tool_name t i)), (''response'', tri_result i)])]])])
           (mtr_tool_result_injections rq))"

definition google_body :: "resolved_provider \<Rightarrow> model_turn_request \<Rightarrow> tool_surface_spec \<Rightarrow> json" where
  "google_body p rq t =
     with_optional_field ''cachedContent''
       (map_option JString (pcp_cached_content (prompt_cache_policy_for p)))
       (with_native_tools t google_native_tools_payload (JObject
         [(''system_instruction'', JObject [(''parts'', JArray [text_block (instruction_prompt rq)])]),
          (''contents'', google_contents_with_tool_results rq t),
          (''generationConfig'', JObject [(''maxOutputTokens'', JInt (int (output_budget p)))])]))"

definition vertex_anthropic_body ::
  "adapter_lib \<Rightarrow> resolved_provider \<Rightarrow> model_turn_request \<Rightarrow> tool_surface_spec \<Rightarrow> json" where
  "vertex_anthropic_body A p rq t =
     JObject
       [(''anthropic_version'', JString ''vertex-2023-10-16''), (''system'', JString (instruction_prompt rq)),
        (''messages'', JArray [role_message ''user'' (JString (user_prompt_with_results A False rq t))]),
        (''max_tokens'', JInt (int (output_budget p))), (''tools'', anthropic_native_tools_payload t)]"

definition gemini_request ::
  "resolved_provider \<Rightarrow> model_turn_request \<Rightarrow> tool_surface_spec \<Rightarrow> prepared_request web_run" where
  "gemini_request p rq t =
     bindR (ok_or (ProviderFailure ''google provider requires API key for live mode'') (rp_api_key p)) (\<lambda>key.
     ret (trim_trailing_slash (unwrap_or ''https://generativelanguage.googleapis.com'' (rp_base_url p))
            @ ''/v1beta/models/'' @ rp_model_id p @ '':generateContent?key='' @ key,
          google_body p rq t, rp_headers p))"

text \<open>The two requests to Vertex: the same address up to publisher and operation.\<close>

definition vertex_request ::
  "adapter_lib \<Rightarrow> resolved_provider \<Rightarrow> string \<Rightarrow> string \<Rightarrow> json \<Rightarrow> prepared_request web_run" where
  "vertex_request A p publisher operation body =
     bindR (google_vertex_project p) (\<lambda>project.
     let location = google_vertex_location p
     in bindR (google_vertex_runtime_bearer A p) (\<lambda>token.
        ret (google_vertex_host p location @ ''/v1/projects/'' @ project @ ''/locations/'' @ location
               @ ''/publishers/'' @ publisher @ ''/models/'' @ rp_model_id p @ '':'' @ operation,
             body, or_insert ''Authorization'' (bearer token) (rp_headers p))))"

definition google_request ::
  "adapter_lib \<Rightarrow> resolved_provider \<Rightarrow> provider_invocation_plan \<Rightarrow> model_turn_request \<Rightarrow> tool_surface_spec
   \<Rightarrow> prepared_request web_run" where
  "google_request A p plan rq t =
     (case pip_family plan of
        GoogleGenerativeAi \<Rightarrow> gemini_request p rq t
      | GoogleVertex \<Rightarrow> vertex_request A p ''google'' ''generateContent'' (google_body p rq t)
      | GoogleVertexAnthropic \<Rightarrow>
          vertex_request A p ''anthropic'' ''rawPredict'' (vertex_anthropic_body A p rq t)
      | f \<Rightarrow> failure (''live Google transport '' @ transport_label f @ '' is not implemented for ''
                 @ pip_provider_id plan))"

section \<open>Answers\<close>

definition candidate_parts :: "json \<Rightarrow> json list" where
  "candidate_parts response = items_at [''content'', ''parts''] (first_item [''candidates''] response)"

definition google_call :: "tool_surface_spec \<Rightarrow> nat \<times> json \<Rightarrow> provider_tool_call option" where
  "google_call t = (\<lambda>(index, part).
     Option.bind (json_get part ''functionCall'') (\<lambda>function_call.
     Option.bind (str_at [''name''] function_call) (\<lambda>name.
     Option.bind (canonical_name (tss_name_map t) name) (\<lambda>canonical.
     Some \<lparr>ptc_call_id = numbered_call (index + 1), ptc_tool_name = canonical, ptc_provider_tool_name = name,
           ptc_arguments = unwrap_or (JObject []) (json_get function_call ''args'')\<rparr>))))"

definition parse_google_tool_calls :: "json \<Rightarrow> tool_surface_spec \<Rightarrow> provider_tool_call list" where
  "parse_google_tool_calls response t =
     List.map_filter (google_call t) (enumerate 0 (candidate_parts response))"

definition google_anthropic_call :: "tool_surface_spec \<Rightarrow> nat \<times> json \<Rightarrow> provider_tool_call option" where
  "google_anthropic_call t = (\<lambda>(index, item).
     if str_at [''type''] item \<noteq> Some ''tool_use'' then None
     else Option.bind (str_at [''name''] item) (\<lambda>name.
          Option.bind (canonical_name (tss_name_map t) name) (\<lambda>canonical.
          Some \<lparr>ptc_call_id = unwrap_or (numbered_call (index + 1)) (str_at [''id''] item),
                ptc_tool_name = canonical, ptc_provider_tool_name = name,
                ptc_arguments = unwrap_or (JObject []) (json_get item ''input'')\<rparr>)))"

definition parse_google_anthropic_tool_calls :: "json \<Rightarrow> tool_surface_spec \<Rightarrow> provider_tool_call list" where
  "parse_google_anthropic_tool_calls response t =
     List.map_filter (google_anthropic_call t) (enumerate 0 (items_at [''content''] response))"

definition extract_google_text :: "provider_invocation_plan \<Rightarrow> json \<Rightarrow> string" where
  "extract_google_text plan response =
     unwrap_or (pip_display_name plan @ '' response received.'')
       (if pip_family plan = GoogleVertexAnthropic then str_at [''text''] (first_item [''content''] response)
        else Option.bind (hd_opt (candidate_parts response)) (str_at [''text'']))"

definition extract_google_usage ::
  "provider_invocation_plan \<Rightarrow> model_turn_request \<Rightarrow> json \<Rightarrow> usage_delta" where
  "extract_google_usage plan rq response =
     (if pip_family plan = GoogleVertexAnthropic then estimated_usage rq plan
      else
        let prompt = unwrap_or (estimate_tokens (mtr_prompt rq)) (u32_at [''usageMetadata'', ''promptTokenCount''] response);
            hit = unwrap_or 0 (u32_at [''usageMetadata'', ''cachedContentTokenCount''] response)
        in \<lparr>ud_input_tokens = (if hit \<le> prompt then prompt - hit else 0),
            ud_output_tokens = unwrap_or (estimate_tokens (pip_model_id plan))
              (u32_at [''usageMetadata'', ''candidatesTokenCount''] response),
            ud_reasoning_tokens = 0, ud_cache_hit_tokens = hit, ud_cache_write_tokens = 0\<rparr>)"

definition google_result ::
  "adapter_lib \<Rightarrow> provider_invocation_plan \<Rightarrow> model_turn_request \<Rightarrow> tool_surface_spec \<Rightarrow> json \<Rightarrow> adapter_result" where
  "google_result A plan rq t response =
     (let gemini = parse_google_tool_calls response t;
          calls = (if gemini = [] \<and> pip_family plan = GoogleVertexAnthropic
                   then parse_google_anthropic_tool_calls response t else gemini)
      in calls_or_message A plan calls (extract_google_text plan response) (extract_google_usage plan rq response))"

definition google_live ::
  "adapter_lib \<Rightarrow> resolved_provider \<Rightarrow> provider_invocation_plan \<Rightarrow> model_turn_request \<Rightarrow> tool_surface_spec
   \<Rightarrow> adapter_result web_run" where
  "google_live A p plan rq t =
     bindR (google_request A p plan rq t) (\<lambda>(url, body, headers).
     bindR (post_json (ab_cloud A) (ab_json_parse A) url headers body) (\<lambda>response.
     ret (google_result A plan rq t response)))"

definition google_stream_turn ::
  "adapter_lib \<Rightarrow> resolved_provider \<Rightarrow> model_turn_request \<Rightarrow> tool_surface_spec \<Rightarrow> bool \<Rightarrow> adapter_result web_run" where
  "google_stream_turn A p rq t simulate =
     (case google_operation (psp_family (rp_spec p)) of
        None \<Rightarrow> failure (''provider '' @ psp_id (rp_spec p) @ '' is not a Google-family provider'')
      | Some operation \<Rightarrow>
          let plan = google_plan A p rq operation
          in if simulate then ret (google_simulated A p plan rq t) else google_live A p plan rq t)"

end
