(* ===== verification/Model_Run.thy ===== *)
theory Model_Run
  imports Google_Adapter
begin

text \<open>
  A run of the model gateway (\<open>model/gateway.rs\<close>): the primary provider is resolved, the tools of the turn are
  put together and the adapter of the provider's family is asked. \<open>simulate\<close> is set in tests and by
  \<open>AppServer::new_simulated\<close>. The state is the world behind the HTTP client, with the token cache of
  Bedrock Mantle.
\<close>

definition run_turn ::
  "adapter_lib \<Rightarrow> bool \<Rightarrow> model_gateway_config \<Rightarrow> model_turn_request \<Rightarrow> adapter_result mantle_run" where
  "run_turn A simulate g rq =
     bindR (on_mantle_web (resolve_primary_provider (ab_provider A) (cl_client_failure (ab_cloud A)) simulate g))
       (\<lambda>p.
     let t = turn_tool_surface p rq
     in case psp_family (rp_spec p) of
          AnthropicMessages \<Rightarrow> on_mantle_web (anthropic_stream_turn A p rq t simulate)
        | AwsBedrockConverse \<Rightarrow> on_mantle_web (bedrock_stream_turn A p rq t simulate)
        | GoogleGenerativeAi \<Rightarrow> on_mantle_web (google_stream_turn A p rq t simulate)
        | GoogleVertex \<Rightarrow> on_mantle_web (google_stream_turn A p rq t simulate)
        | GoogleVertexAnthropic \<Rightarrow> on_mantle_web (google_stream_turn A p rq t simulate)
        | _ \<Rightarrow> openai_stream_turn A p rq t simulate)"

text \<open>The events the sink was given, and the result.\<close>

definition model_run ::
  "adapter_lib \<Rightarrow> bool \<Rightarrow> model_gateway_config \<Rightarrow> model_turn_request \<Rightarrow> mantle \<Rightarrow> model_outcome \<times> mantle" where
  "model_run A simulate g rq m =
     (case run_turn A simulate g rq m of
        (Inl e, m') \<Rightarrow> (([], Inl e), m')
      | (Inr (events, summary), m') \<Rightarrow> ((events, Inr summary), m'))"

end
