(* ===== verification/Adapter_Laws.thy ===== *)
theory Adapter_Laws
  imports Model_Run
begin

text \<open>
  What holds of a run of any provider, whatever its service answers: only offered tools are called, and the
  events tell exactly what the summary says; the structured fallback reads every block that is in a
  text and leaves what is around them. At the end, answers whose tool calls get lost.
\<close>

section \<open>Tools that can be called\<close>

definition callable :: "tool_surface_spec \<Rightarrow> string set" where
  "callable t = snd ` set (tnm_alias_to_canonical (tss_name_map t)) \<union> fst ` set (tnm_canonical_to_alias (tss_name_map t))"

text \<open>The tools a turn is offered.\<close>

definition offered_tools :: "model_turn_request \<Rightarrow> string list" where
  "offered_tools rq =
     (case mtr_tool_surface_mode rq of
        StandardSurface \<Rightarrow> map fst tool_name_pairs | ConversationOnlySurface \<Rightarrow> [])"

lemma set_tree_of: "distinct (map fst kvs) \<Longrightarrow> set (tree_of kvs) = set kvs"
proof (induction kvs rule: rev_induct)
  case (snoc x xs)
  have insert: "set (tree_insert k v m) = insert (k, v) (set m)" if "k \<notin> fst ` set m" for k v and m :: "(string \<times> 'a) list"
    using that by (induction k v m rule: tree_insert.induct) auto
  have keys: "fst ` set (tree_of xs) = fst ` set xs" using snoc by simp
  have "tree_of (xs @ [x]) = tree_insert (fst x) (snd x) (tree_of xs)"
    by (simp add: tree_of_def tree_extend_def split_beta)
  with insert [of "fst x" "tree_of xs" "snd x"] keys snoc show ?case by (simp add: image_iff)
qed (simp add: tree_of_def tree_extend_def)

lemma callable_turn: "callable (turn_tool_surface p rq) = set (offered_tools rq)"
proof -
  have names: "distinct (map fst tool_name_pairs)"
    "distinct (map fst (map (\<lambda>(canonical, alias). (alias, canonical)) tool_name_pairs))"
    by (simp_all add: tool_name_pairs_def)
  have "snd ` set (map (\<lambda>(canonical, alias). (alias, canonical)) tool_name_pairs) = fst ` set tool_name_pairs"
    by (auto simp: tool_name_pairs_def)
  then show ?thesis
    using set_tree_of [OF names(1)] set_tree_of [OF names(2)]
    by (auto simp: callable_def turn_tool_surface_def offered_tools_def standard_surface_def Let_def
        conversation_only_surface_def name_map_from_pairs_def tree_of_def tree_extend_def
        split: tool_surface_mode.split)
qed

lemma canonical_callable: "canonical_name (tss_name_map t) a = Some n \<Longrightarrow> n \<in> callable t"
  by (force simp: canonical_name_def callable_def dest: map_of_SomeD)

lemma normalized_callable: "normalize_tool_name t a = Some n \<Longrightarrow> n \<in> callable t"
  by (auto simp: normalize_tool_name_def canonical_callable split: option.splits)
    (force simp: provider_name_def callable_def dest: map_of_SomeD)

section \<open>What an answer becomes\<close>

fun committed :: "normalized_turn_event \<Rightarrow> (string \<times> string \<times> string) option" where
  "committed (CallCommitted i n a) = Some (i, n, a)"
| "committed e = None"

fun spoken :: "normalized_turn_event \<Rightarrow> string option" where
  "spoken (AssistantMessage m) = Some m"
| "spoken e = None"

text \<open>An outcome in order: tools that may be called, one committed call in the events for each in the summary,
  and a message exactly if there is none.\<close>

definition faithful :: "adapter_lib \<Rightarrow> string set \<Rightarrow> adapter_result \<Rightarrow> bool" where
  "faithful A names r \<longleftrightarrow>
     ptc_tool_name ` set (rn_tool_calls (snd r)) \<subseteq> names \<and>
     List.map_filter committed (fst r) =
       map (\<lambda>c. (ptc_call_id c, ptc_tool_name c, ab_json_text A (ptc_arguments c))) (rn_tool_calls (snd r)) \<and>
     (rn_assistant_message (snd r) = None \<longleftrightarrow> rn_tool_calls (snd r) \<noteq> []) \<and>
     spoken ` set (fst r) \<subseteq> {None, rn_assistant_message (snd r)}"

lemma map_filter_append: "List.map_filter f (xs @ ys) = List.map_filter f xs @ List.map_filter f ys"
  by (simp add: List.map_filter_def)

lemma set_map_filter: "y \<in> set (List.map_filter f xs) \<longleftrightarrow> (\<exists>x \<in> set xs. f x = Some y)"
  by (force simp: List.map_filter_def)

lemma call_events_committed:
  "List.map_filter committed (concat (map (call_events A plan) calls)) =
     map (\<lambda>c. (ptc_call_id c, ptc_tool_name c, ab_json_text A (ptc_arguments c))) calls"
  by (induction calls) (simp_all add: map_filter_append call_events_def List.map_filter_def)

lemma call_events_silent: "e \<in> set (concat (map (call_events A plan) calls)) \<Longrightarrow> spoken e = None"
  by (auto simp: call_events_def)

lemma faithful_events:
  assumes "\<And>c. c \<in> set calls \<Longrightarrow> ptc_tool_name c \<in> names"
    and "List.map_filter committed rest = []" and "\<And>x. Some x \<in> spoken ` set rest \<Longrightarrow> m = Some x"
    and "m = None \<longleftrightarrow> calls \<noteq> []"
  shows "faithful A names (concat (map (call_events A plan) calls) @ rest,
    \<lparr>rn_assistant_message = m, rn_usage = u, rn_tool_calls = calls\<rparr>)"
proof -
  have "spoken e \<in> {None, m}" if "e \<in> set (concat (map (call_events A plan) calls) @ rest)" for e
  proof (cases "spoken e")
    case (Some x)
    with that call_events_silent [of e A plan calls] have "e \<in> set rest"
      by (metis UnE option.distinct(1) set_append)
    then have "Some x \<in> spoken ` set rest" by (metis Some imageI)
    then have "m = Some x" by (rule assms(3))
    with Some show ?thesis by simp
  qed simp
  then have "spoken ` set (concat (map (call_events A plan) calls) @ rest) \<subseteq> {None, m}" by (rule image_subsetI)
  moreover have "ptc_tool_name ` set calls \<subseteq> names" using assms(1) by blast
  moreover have "List.map_filter committed (concat (map (call_events A plan) calls) @ rest) =
      map (\<lambda>c. (ptc_call_id c, ptc_tool_name c, ab_json_text A (ptc_arguments c))) calls"
    using assms(2) by (simp add: map_filter_append call_events_committed)
  ultimately show ?thesis
    using assms(4) by (simp only: faithful_def fst_conv snd_conv model_run_summary.select_convs simp_thms)
qed

lemma faithful_calls_or_message:
  "(\<And>c. c \<in> set calls \<Longrightarrow> ptc_tool_name c \<in> names) \<Longrightarrow> faithful A names (calls_or_message A plan calls m u)"
  unfolding calls_or_message_def
  by (rule faithful_events) (auto simp: message_events_def List.map_filter_def split: if_splits)

lemma fallback_callable: "fallback_call A t payload = Some c \<Longrightarrow> ptc_tool_name c \<in> callable t"
  by (cases "ab_json_parse A (trim payload)") (auto simp: fallback_call_def bind_eq_Some_conv normalized_callable)

lemma openai_calls_callable:
  "c \<in> set (parse_provider_tool_calls A plan response t text) \<Longrightarrow> ptc_tool_name c \<in> callable t"
  by (auto simp: parse_provider_tool_calls_def Let_def parse_structured_fallback_tool_calls_def
      parse_openai_native_tool_calls_from_response_def parse_chat_tool_calls_from_response_def
      parse_anthropic_tool_calls_from_response_def set_map_filter openai_native_call_def
      chat_call_def anthropic_call_def bind_eq_Some_conv normalized_callable fallback_callable split: if_splits)

lemma faithful_openai: "faithful A (callable t) (openai_result A plan rq t response)"
  unfolding openai_result_def Let_def
  by (rule faithful_events)
    (auto simp: openai_calls_callable message_events_def List.map_filter_def split: if_splits)

lemma faithful_anthropic: "faithful A (callable t) (anthropic_result A plan rq t response)"
  unfolding anthropic_result_def Let_def
  by (rule faithful_calls_or_message)
    (auto simp: set_map_filter anthropic_tool_use_def Let_def canonical_callable split: if_splits)

lemma faithful_bedrock: "faithful A (callable t) (bedrock_result A plan rq t response)"
  unfolding bedrock_result_def Let_def
  by (rule faithful_calls_or_message)
    (auto simp: set_map_filter bedrock_tool_use_def Let_def bind_eq_Some_conv canonical_callable)

lemma faithful_google: "faithful A (callable t) (google_result A plan rq t response)"
  unfolding google_result_def Let_def
  by (rule faithful_calls_or_message)
    (auto simp: parse_google_tool_calls_def parse_google_anthropic_tool_calls_def set_map_filter
      google_call_def google_anthropic_call_def bind_eq_Some_conv canonical_callable split: if_splits)

text \<open>A live run of each adapter ends in such an answer, if it does not fail.\<close>

lemma on_mantle_web_Inr:
  "on_mantle_web f m = (Inr a, m') \<longleftrightarrow> (\<exists>w. f (mt_web m) = (Inr a, w) \<and> m' = m\<lparr>mt_web := w\<rparr>)"
  by (auto simp: on_mantle_web_def split: prod.splits)

lemma anthropic_live_Inr:
  "anthropic_live A p plan rq t w = (Inr r, w') \<Longrightarrow> \<exists>v. r = anthropic_result A plan rq t v"
  by (cases "pip_transport plan") (auto simp: anthropic_live_def failure_def success_iffs split: prod.splits)

lemma bedrock_live_Inr:
  "bedrock_live A p plan region rq t w = (Inr r, w') \<Longrightarrow> \<exists>v. r = bedrock_result A plan rq t v"
  by (cases "pip_transport plan") (auto simp: bedrock_live_def failure_def Let_def success_iffs)

lemma live_answers:
  "openai_stream_turn A p rq t False m = (Inr r, m') \<Longrightarrow> \<exists>plan v. r = openai_result A plan rq t v"
  "anthropic_stream_turn A p rq t False w = (Inr r, w') \<Longrightarrow> \<exists>plan v. r = anthropic_result A plan rq t v"
  "bedrock_stream_turn A p rq t False w = (Inr r, w') \<Longrightarrow> \<exists>plan v. r = bedrock_result A plan rq t v"
  "google_stream_turn A p rq t False w = (Inr r, w') \<Longrightarrow> \<exists>plan v. r = google_result A plan rq t v"
  by (auto simp: openai_stream_turn_def openai_live_def anthropic_stream_turn_def bedrock_stream_turn_def
      google_stream_turn_def google_live_def failure_def Let_def success_iffs on_mantle_web_Inr
      split: option.splits prod.splits dest!: anthropic_live_Inr bedrock_live_Inr)

lemma live_run_faithful:
  assumes "run_turn A False g rq m = (Inr r, m')"
  shows "faithful A (set (offered_tools rq)) r"
proof -
  obtain p m1 where answered:
      "(case psp_family (rp_spec p) of
          AnthropicMessages \<Rightarrow> on_mantle_web (anthropic_stream_turn A p rq (turn_tool_surface p rq) False)
        | AwsBedrockConverse \<Rightarrow> on_mantle_web (bedrock_stream_turn A p rq (turn_tool_surface p rq) False)
        | GoogleGenerativeAi \<Rightarrow> on_mantle_web (google_stream_turn A p rq (turn_tool_surface p rq) False)
        | GoogleVertex \<Rightarrow> on_mantle_web (google_stream_turn A p rq (turn_tool_surface p rq) False)
        | GoogleVertexAnthropic \<Rightarrow> on_mantle_web (google_stream_turn A p rq (turn_tool_surface p rq) False)
        | _ \<Rightarrow> openai_stream_turn A p rq (turn_tool_surface p rq) False) m1 = (Inr r, m')"
    using assms by (auto simp: run_turn_def Let_def bindR_Inr_iff)
  let ?t = "turn_tool_surface p rq"
  have "(\<exists>plan v. r = openai_result A plan rq ?t v) \<or> (\<exists>plan v. r = anthropic_result A plan rq ?t v)
      \<or> (\<exists>plan v. r = bedrock_result A plan rq ?t v) \<or> (\<exists>plan v. r = google_result A plan rq ?t v)"
    using answered by (auto split: model_provider_family.splits simp: on_mantle_web_Inr dest: live_answers)
  then have "faithful A (callable ?t) r"
    by (auto simp: faithful_openai faithful_anthropic faithful_bedrock faithful_google)
  then show ?thesis by (simp add: callable_turn)
qed

text \<open>C30: whatever a provider answers, a live turn only calls tools it was offered. Every tool call in the
  summary of a run names one of the offered tools, so a run without tools has none; the committed
  calls in the events are exactly those of the summary, in order, with their identifiers and the text
  of their arguments; there is a final message exactly if there is no call, and no other message was
  shown. A run that fails has shown nothing.\<close>

theorem only_offered_tools_called:
  "case fst (model_run A False g rq m) of
     (events, Inr summary) \<Rightarrow>
       ptc_tool_name ` set (rn_tool_calls summary) \<subseteq> set (offered_tools rq) \<and>
       List.map_filter committed events =
         map (\<lambda>c. (ptc_call_id c, ptc_tool_name c, ab_json_text A (ptc_arguments c))) (rn_tool_calls summary) \<and>
       (rn_assistant_message summary = None \<longleftrightarrow> rn_tool_calls summary \<noteq> []) \<and>
       spoken ` set events \<subseteq> {None, rn_assistant_message summary}
   | (events, Inl e) \<Rightarrow> events = []"
proof (cases "run_turn A False g rq m")
  case (Pair result m')
  then show ?thesis using live_run_faithful [of A g rq m _ m']
    by (cases result) (auto simp: model_run_def faithful_def split_beta)
qed

text \<open>A turn of an ordinary compatible service is one request: to its endpoint, with the configured
  headers and the key as a bearer token, whose answer is read.\<close>

definition special_access :: "string set" where
  "special_access = {''amazon-bedrock-mantle'', ''openai-codex'', ''sap-ai-core'', ''azure'',
     ''azure-cognitive-services'', ''microsoft-foundry''}"

lemma compatible_turn:
  fixes A m rq p
  defines "w \<equiv> mt_web m" and "t \<equiv> turn_tool_surface p rq"
  assumes "registered_provider (gc_primary_provider g) = Some s" and "is_runtime_ready s"
    and "psp_family s = OpenAiCompatible" and "psp_id s \<notin> special_access"
    and "from_spec (ab_provider A) (cl_client_failure (ab_cloud A)) s
      (map_of (gc_overrides g) (gc_primary_provider g)) w = (Inr p, w)" and "rp_spec p = s"
    and "rp_base_url p = Some u" and "cl_client_failure (ab_cloud A) = None"
    and "build_headers (ab_cloud A) (case rp_api_key p of None \<Rightarrow> rp_headers p
      | Some key \<Rightarrow> or_insert ''Authorization'' (bearer key) (rp_headers p)) = Inr hs"
  shows "\<exists>plan. run_turn A False g rq m =
    (case exchange post_json_body_texts (ab_json_parse A)
        \<lparr>hq_method = Post, hq_url = trim_trailing_slash u @ openai_compatible_chat_path (ab_provider A) u,
         hq_headers = hs, hq_body = JsonBody (openai_body A p rq t)\<rparr> w of
       (Inl e, w') \<Rightarrow> (Inl e, m\<lparr>mt_web := w'\<rparr>)
     | (Inr v, w') \<Rightarrow> (Inr (openai_result A plan rq t v), m\<lparr>mt_web := w'\<rparr>))"
proof -
  let ?plan = "plan_for p (rp_model_id p) (HttpJson ''POST'' u (openai_compatible_chat_path (ab_provider A) u))
    (ab_json_text A (openai_payload_preview p rq))"
  have resolved: "on_mantle_web (resolve_primary_provider (ab_provider A) (cl_client_failure (ab_cloud A)) False g) m
      = (Inr p, m)"
    using assms by (simp add: on_mantle_web_def resolve_primary_provider_def)
  have plan: "openai_plan A p rq = Some ?plan"
    using assms by (simp add: openai_plan_def openai_transport_def)
  have transport: "pip_transport ?plan = HttpJson ''POST'' u (openai_compatible_chat_path (ab_provider A) u)"
    by (simp add: plan_for_def Let_def)
  have headers: "default_openai_style_headers A p ?plan = ret (case rp_api_key p of None \<Rightarrow> rp_headers p
      | Some key \<Rightarrow> or_insert ''Authorization'' (bearer key) (rp_headers p))"
    using assms by (simp add: default_openai_style_headers_def special_access_def plain_headers_def plan_for_def Let_def
        split: option.split)
  have "run_turn A False g rq m = openai_stream_turn A p rq t False m"
    using assms(5,8) unfolding run_turn_def t_def
    by (simp add: Let_def
      bindR_step [where m = "on_mantle_web (resolve_primary_provider (ab_provider A) (cl_client_failure (ab_cloud A)) False g)"
        and s = m, OF resolved])
  also have "\<dots> = openai_live A p ?plan rq t m"
    by (simp add: openai_stream_turn_def plan)
  also have "openai_live A p ?plan rq t m =
      bindR (on_mantle_web (post_json (ab_cloud A) (ab_json_parse A)
          (trim_trailing_slash u @ openai_compatible_chat_path (ab_provider A) u)
          (case rp_api_key p of None \<Rightarrow> rp_headers p
           | Some key \<Rightarrow> or_insert ''Authorization'' (bearer key) (rp_headers p)) (openai_body A p rq t)))
        (\<lambda>v. ret (openai_result A ?plan rq t v)) m"
    by (simp add: openai_live_def openai_request_def transport headers bindR_ret_left)
  also have "\<dots> = (case exchange post_json_body_texts (ab_json_parse A)
        \<lparr>hq_method = Post, hq_url = trim_trailing_slash u @ openai_compatible_chat_path (ab_provider A) u,
         hq_headers = hs, hq_body = JsonBody (openai_body A p rq t)\<rparr> w of
       (Inl e, w') \<Rightarrow> (Inl e, m\<lparr>mt_web := w'\<rparr>)
     | (Inr v, w') \<Rightarrow> (Inr (openai_result A ?plan rq t v), m\<lparr>mt_web := w'\<rparr>))"
    using assms
    by (simp add: bindR_run on_mantle_web_def post_json_def post_json_body_def build_client_def from_result_def
        run_simps split_beta split: sum.split)
  finally show ?thesis by blast
qed

section \<open>In the place of the model service\<close>

text \<open>A live gateway as the model of a server. The world changes between the calls in ways the server does not
  see, so the world of each call is arbitrary; what holds of a server with any \<open>model_service\<close> holds with
  this one.\<close>

definition live_service :: "adapter_lib \<Rightarrow> (nat \<Rightarrow> mantle) \<Rightarrow> model_service" where
  "live_service A world n g rq = fst (model_run A False g rq (world n))"

lemma known_tools: "set (map fst tool_name_pairs) = fst ` set tool_schemas"
  by (simp add: tool_name_pairs_def tool_schemas_def static_tool_schemas_def)

text \<open>Its calls only name tools the server has a schema for.\<close>

lemma live_calls_known:
  assumes "live_service A world n g rq = (events, Inr summary)" and "c \<in> set (rn_tool_calls summary)"
  shows "ptc_tool_name c \<in> fst ` set tool_schemas"
proof -
  obtain m' where "run_turn A False g rq (world n) = (Inr (events, summary), m')"
    using assms(1) by (auto simp: live_service_def model_run_def split: prod.splits sum.splits)
  from live_run_faithful [OF this] assms(2) have "ptc_tool_name c \<in> set (offered_tools rq)"
    by (auto simp: faithful_def)
  then show ?thesis
    by (simp add: offered_tools_def known_tools [symmetric] split: tool_surface_mode.splits)
qed

section \<open>The structured fallback\<close>

lemma split_at_None: "p \<noteq> [] \<Longrightarrow> \<not> contains s p \<Longrightarrow> split_at p s = None"
  by (induction s) auto

text \<open>A pattern whose first character does not come again is found where it was put.\<close>

lemma split_at_first:
  assumes "c \<notin> set q"
  shows "\<not> contains s (c # q) \<Longrightarrow> split_at (c # q) (s @ (c # q) @ rest) = Some (s, rest)"
proof (induction s)
  case (Cons a s)
  have "\<not> starts_with (a # s @ (c # q) @ rest) (c # q)"
  proof
    assume "starts_with (a # s @ (c # q) @ rest) (c # q)"
    then obtain u where u: "(a # s) @ (c # q) @ rest = (c # q) @ u" by (auto simp: starts_with_iff)
    show False
    proof (cases "length (c # q) \<le> length (a # s)")
      case True
      with arg_cong [OF u, of "take (length (c # q))"] have "take (length (c # q)) (a # s) = c # q" by simp
      then have "starts_with (a # s) (c # q)" by (metis starts_with_append append_take_drop_id)
      with Cons.prems show False by simp
    next
      case False
      have "((c # q) @ u) ! length (a # s) = c"
        unfolding u [symmetric] by (simp add: nth_append)
      moreover have "((c # q) @ u) ! length (a # s) = q ! length s"
        using False by (simp add: nth_append)
      moreover have "q ! length s \<in> set q" using False by simp
      ultimately show False using assms by simp
    qed
  qed
  with Cons show ?case by simp
qed simp

lemma find_tags:
  "\<not> contains s call_open \<Longrightarrow> split_at call_open (s @ call_open @ rest) = Some (s, rest)"
  "\<not> contains s call_close \<Longrightarrow> split_at call_close (s @ call_close @ rest) = Some (s, rest)"
  using split_at_first [where c = "CHR ''<''" and q = "tl call_open"]
    split_at_first [where c = "CHR ''<''" and q = "tl call_close"]
  by (simp_all add: call_open_def call_close_def)

lemma split_at_skip:
  "CHR ''<'' \<notin> set s \<Longrightarrow>
   split_at call_close (s @ u) = map_option (\<lambda>(a, b). (s @ a, b)) (split_at call_close u)"
  by (cases "split_at call_close u"; induction s) (auto simp: call_close_def)

lemma open_not_close:
  "split_at call_close (call_open @ s) = map_option (\<lambda>(a, b). (call_open @ a, b)) (split_at call_close s)"
proof -
  have "split_at call_close (CHR ''<'' # tl call_open @ s) =
      map_option (\<lambda>(a, b). (CHR ''<'' # a, b)) (split_at call_close (tl call_open @ s))"
    by (simp add: call_open_def call_close_def)
  also have "split_at call_close (tl call_open @ s) = map_option (\<lambda>(a, b). (tl call_open @ a, b)) (split_at call_close s)"
    by (rule split_at_skip) (simp add: call_open_def)
  finally show ?thesis by (cases "split_at call_close s") (auto simp: call_open_def)
qed

text \<open>A text made of pieces of prose and tool calls in turn.\<close>

fun woven :: "(string \<times> string) list \<Rightarrow> string \<Rightarrow> string" where
  "woven [] rest = rest"
| "woven ((prose, payload) # parts) rest = prose @ call_open @ payload @ call_close @ woven parts rest"

lemma prose_free:
  "\<not> contains (a @ b @ c) p \<Longrightarrow> \<not> contains b p" "\<not> contains (a @ b) p \<Longrightarrow> \<not> contains a p"
  "\<not> contains (a @ b) p \<Longrightarrow> \<not> contains b p"
  using contains_appendI contains_append_right contains_append_left by blast+

lemma woven_blocks:
  assumes "\<forall>(prose, payload) \<in> set parts. \<not> contains payload call_close"
    and "\<not> contains (concat (map fst parts) @ rest) call_open"
  shows "call_blocks (woven parts rest) = map snd parts"
  using assms
proof (induction parts)
  case Nil
  then show ?case by (simp add: call_blocks.simps [of rest] split_at_None call_open_def)
next
  case (Cons x parts)
  obtain prose payload where x: "x = (prose, payload)" by fastforce
  have "\<not> contains prose call_open" "\<not> contains (concat (map fst parts) @ rest) call_open"
    using Cons.prems(2) x prose_free [of prose "concat (map fst parts) @ rest"] by auto
  with Cons x show ?case
    by (simp add: call_blocks.simps [of "prose @ u" for u] find_tags)
qed

lemma woven_cleaned:
  assumes "\<forall>(prose, payload) \<in> set parts. \<not> contains payload call_close"
    and "\<not> contains (before @ concat (map fst parts) @ rest) call_open"
  shows "without_blocks (before @ woven parts rest) = before @ concat (map fst parts) @ rest"
  using assms
proof (induction parts arbitrary: before)
  case Nil
  then show ?case by (simp add: without_blocks.simps [of "before @ rest"] split_at_None call_open_def)
next
  case (Cons x parts)
  obtain prose payload where x: "x = (prose, payload)" by fastforce
  have "\<not> contains (before @ prose) call_open"
    using Cons.prems(2) x prose_free(2) [of "before @ prose" "concat (map fst parts) @ rest"] by simp
  then have found: "split_at call_open ((before @ prose) @ call_open @ payload @ call_close @ woven parts rest)
      = Some (before @ prose, payload @ call_close @ woven parts rest)" by (rule find_tags)
  have "without_blocks (before @ woven (x # parts) rest) = without_blocks ((before @ prose) @ woven parts rest)"
    using found Cons.prems(1) x
    by (simp add: without_blocks.simps [of "before @ prose @ u" for u] open_not_close find_tags)
  also have "\<dots> = (before @ prose) @ concat (map fst parts) @ rest"
    using Cons x by (intro Cons.IH) auto
  finally show ?case by (simp add: x)
qed



section \<open>Calls that get lost\<close>

text \<open>A call that cannot be parsed, or that names no tool, vanishes: it is cut out of the text, and the turn is
  completed with a message about the response.\<close>

lemma malformed_call_vanishes:
  assumes "tss_protocol t = StructuredFallback" and "fallback_call A t payload = None"
    and "\<not> contains payload call_close"
    and "extract_openai_style_text v = Some (call_open @ payload @ call_close)"
  shows "rn_tool_calls (snd (openai_result A plan rq t v)) = []"
    and "rn_assistant_message (snd (openai_result A plan rq t v)) =
      Some (pip_display_name plan @ '' response received for '' @ pip_model_id plan @ ''.'')"
proof -
  have shown: "call_open @ payload @ call_close = woven [([], payload)] []" by simp
  have "\<not> contains [] call_open" by (simp add: call_open_def)
  then have "call_blocks (woven [([], payload)] []) = [payload]"
    and "without_blocks (woven [([], payload)] []) = []"
    using assms(3) woven_blocks [of "[([], payload)]" "[]"] woven_cleaned [of "[([], payload)]" "[]" "[]"] by simp_all
  then have "parse_provider_tool_calls A plan v t (woven [([], payload)] []) = []"
    and "blank (clean_structured_fallback_text (woven [([], payload)] []))"
    using assms(1,2) by (simp_all add: parse_provider_tool_calls_def parse_structured_fallback_tool_calls_def
        List.map_filter_def clean_structured_fallback_text_def)
  then show "rn_tool_calls (snd (openai_result A plan rq t v)) = []"
    and "rn_assistant_message (snd (openai_result A plan rq t v)) =
      Some (pip_display_name plan @ '' response received for '' @ pip_model_id plan @ ''.'')"
    by (simp_all add: openai_result_def Let_def assms(4) shown del: woven.simps)
qed

text \<open>Cleaning looks again at what it put together, parsing does not: a call around a call is cut out but
  never made.\<close>

lemma nested_call_cut_unread:
  "call_blocks (''<liz_'' @ call_open @ call_close @ ''tool_call>{}'' @ call_close) = [[]]"
  "without_blocks (''<liz_'' @ call_open @ call_close @ ''tool_call>{}'' @ call_close) = []"
  by (code_simp, code_simp)

end
